(* ===== verification/Platform_Prelude.thy ===== *)
theory Platform_Prelude
  imports Main "HOL-Library.Char_ord" "HOL-Library.List_Lexorder" "HOL-Library.AList"
  "HOL-Library.Multiset"
begin

text \<open>
  Shared vocabulary of the development.

  \<^item> Python strings are lists of Latin-1 code points; \<open>strip\<close>, \<open>lower\<close>,
    \<open>isdigit\<close>, \<open>startswith\<close>, the decimal rendering of an integer and \<open>join\<close> are the
    operations the platform uses of them.
  \<^item> Python dictionaries are association lists with distinct keys in insertion order.
  \<^item> Code with effects is a function from a state to a result and a state, where the
    result is an exception (\<open>Inl\<close>) or a value (\<open>Inr\<close>). \<open>attemptE\<close> is
    \<open>try/except/else\<close>, \<open>finallyE\<close> is \<open>try/finally\<close>.
  \<^item> \<open>wpE\<close> is the weakest precondition of such code for a pair of postconditions, one
    for a normal return and one for an exception; its equations are in the
    collection \<open>wp\<close>.
  \<^item> The rows of a database table are a list; \<open>tbl_get\<close> and \<open>tbl_put\<close> read and
    write one row by its key.
\<close>

named_theorems wp \<open>weakest preconditions of effectful code\<close>

named_theorems checks \<open>when a validation returns normally\<close>

section \<open>Strings\<close>

definition py_isspace :: "char \<Rightarrow> bool" where
  "py_isspace c = (let n = of_char c :: nat in
     (9 \<le> n \<and> n \<le> 13) \<or> (28 \<le> n \<and> n \<le> 32) \<or> n = 133 \<or> n = 160)"

definition lstrip :: "string \<Rightarrow> string" where
  "lstrip s = dropWhile py_isspace s"

definition rstrip_by :: "(char \<Rightarrow> bool) \<Rightarrow> string \<Rightarrow> string" where
  "rstrip_by p s = rev (dropWhile p (rev s))"

definition strip :: "string \<Rightarrow> string" where
  "strip s = rstrip_by py_isspace (lstrip s)"

abbreviation nonblank :: "string \<Rightarrow> bool" where
  "nonblank s \<equiv> strip s \<noteq> []"

definition lower_char :: "char \<Rightarrow> char" where
  "lower_char c = (let n = of_char c :: nat in
     if (65 \<le> n \<and> n \<le> 90) \<or> (192 \<le> n \<and> n \<le> 222 \<and> n \<noteq> 215) then char_of (n + 32) else c)"

definition lower :: "string \<Rightarrow> string" where
  "lower s = map lower_char s"

definition is_ascii_digit :: "char \<Rightarrow> bool" where
  "is_ascii_digit c = (let n = of_char c :: nat in 48 \<le> n \<and> n \<le> 57)"

text \<open>\<open>str.isdigit\<close> also accepts the three Latin-1 superscript digits, which \<open>int\<close> refuses.\<close>

definition isdigit :: "string \<Rightarrow> bool" where
  "isdigit s = (s \<noteq> [] \<and>
     list_all (\<lambda>c. is_ascii_digit c \<or> (of_char c :: nat) \<in> {178, 179, 185}) s)"

fun startswith :: "string \<Rightarrow> string \<Rightarrow> bool" where
  "startswith s [] = True"
| "startswith [] (p # ps) = False"
| "startswith (c # s) (p # ps) = (c = p \<and> startswith s ps)"

fun contains_sub :: "string \<Rightarrow> string \<Rightarrow> bool" where
  "contains_sub [] p = (p = [])"
| "contains_sub (c # s) p = (startswith (c # s) p \<or> contains_sub s p)"

definition digit_char :: "nat \<Rightarrow> char" where
  "digit_char d = char_of (48 + d)"

fun show_nat :: "nat \<Rightarrow> string" where
  "show_nat n = (if n < 10 then [digit_char n] else show_nat (n div 10) @ [digit_char (n mod 10)])"

declare show_nat.simps [simp del]

definition show_int :: "int \<Rightarrow> string" where
  "show_int i = (if i < 0 then CHR ''-'' # show_nat (nat (- i)) else show_nat (nat i))"

fun join :: "string \<Rightarrow> string list \<Rightarrow> string" where
  "join sep [] = []"
| "join sep [s] = s"
| "join sep (s # t # ss) = s @ sep @ join sep (t # ss)"

fun read_digits :: "nat \<Rightarrow> string \<Rightarrow> nat option" where
  "read_digits acc [] = Some acc"
| "read_digits acc (c # cs) =
     (if is_ascii_digit c then read_digits (10 * acc + (of_char c - 48)) cs else None)"

text \<open>The canonical texts \<open>int\<close> reads: an optional sign and ASCII digits, surrounded by blanks.\<close>

definition py_int :: "string \<Rightarrow> int option" where
  "py_int s = (case strip s of
       [] \<Rightarrow> None
     | c # cs \<Rightarrow>
        (if c = CHR ''-'' then (if cs = [] then None else map_option (\<lambda>n. - int n) (read_digits 0 cs))
         else if c = CHR ''+'' then (if cs = [] then None else map_option int (read_digits 0 cs))
         else map_option int (read_digits 0 (c # cs))))"

text \<open>\<open>repr\<close> of a string: single quotes unless the text has them and no double quotes.\<close>

definition hex_digit :: "nat \<Rightarrow> char" where
  "hex_digit d = char_of (if d < 10 then 48 + d else 87 + d)"

definition repr_char :: "char \<Rightarrow> char \<Rightarrow> string" where
  "repr_char q c = (let n = of_char c :: nat in
     if c = q \<or> n = 92 then [CHR 0x5C, c]
     else if n = 9 then [CHR 0x5C, CHR ''t'']
     else if n = 10 then [CHR 0x5C, CHR ''n'']
     else if n = 13 then [CHR 0x5C, CHR ''r'']
     else if n < 32 \<or> (127 \<le> n \<and> n \<le> 160) \<or> n = 173
          then [CHR 0x5C, CHR ''x'', hex_digit (n div 16), hex_digit (n mod 16)]
     else [c])"

definition py_repr :: "string \<Rightarrow> string" where
  "py_repr s = (let q = (if CHR 0x27 \<in> set s \<and> CHR 0x22 \<notin> set s then CHR 0x22 else CHR 0x27) in
     [q] @ concat (map (repr_char q) s) @ [q])"

lemma strip_Nil [simp]: "strip [] = []"
  by (simp add: strip_def lstrip_def rstrip_by_def)

lemma rstrip_by_eq_Nil: "rstrip_by p s = [] \<longleftrightarrow> list_all p s"
  by (simp add: rstrip_by_def list_all_iff)

lemma strip_eq_Nil: "strip s = [] \<longleftrightarrow> list_all py_isspace s"
proof -
  have "list_all py_isspace (dropWhile py_isspace s) = list_all py_isspace s"
    by (induction s) auto
  then show ?thesis by (simp add: strip_def lstrip_def rstrip_by_eq_Nil)
qed

lemma nonblank_not_Nil: "nonblank s \<Longrightarrow> s \<noteq> []"
  by auto

lemma show_nat_not_Nil [simp]: "show_nat n \<noteq> []"
  by (subst show_nat.simps) simp

lemma digit_char_ascii: "d < 10 \<Longrightarrow> is_ascii_digit (digit_char d)"
  by (simp add: is_ascii_digit_def digit_char_def)

lemma digit_char_value: "d < 10 \<Longrightarrow> (of_char (digit_char d) :: nat) - 48 = d"
  by (simp add: digit_char_def)

lemma show_nat_digits: "list_all is_ascii_digit (show_nat n)"
proof (induction n rule: show_nat.induct)
  case (1 n)
  show ?case
  proof (cases "n < 10")
    case True
    then show ?thesis by (subst show_nat.simps) (simp add: digit_char_ascii)
  next
    case False
    with 1 have "list_all is_ascii_digit (show_nat (n div 10))" by simp
    with False show ?thesis by (subst show_nat.simps) (simp add: digit_char_ascii)
  qed
qed

lemma isdigit_show_nat [simp]: "isdigit (show_nat n)"
  using show_nat_digits [of n] by (auto simp: isdigit_def list_all_iff)

lemma read_digits_snoc:
  "list_all is_ascii_digit xs \<Longrightarrow> is_ascii_digit c \<Longrightarrow>
   read_digits acc (xs @ [c]) = map_option (\<lambda>m. 10 * m + (of_char c - 48)) (read_digits acc xs)"
  by (induction xs arbitrary: acc) auto

lemma read_digits_show_nat: "read_digits 0 (show_nat n) = Some n"
proof (induction n rule: show_nat.induct)
  case (1 n)
  show ?case
  proof (cases "n < 10")
    case True
    then show ?thesis
      by (subst show_nat.simps) (simp add: digit_char_ascii digit_char_value)
  next
    case False
    with 1 have "read_digits 0 (show_nat (n div 10)) = Some (n div 10)" by simp
    with False show ?thesis
      by (subst show_nat.simps)
        (simp add: read_digits_snoc show_nat_digits digit_char_ascii digit_char_value)
  qed
qed

lemma digit_not_space: "is_ascii_digit c \<Longrightarrow> \<not> py_isspace c"
  by (auto simp: is_ascii_digit_def py_isspace_def Let_def)

lemma strip_no_space: "list_all (\<lambda>c. \<not> py_isspace c) s \<Longrightarrow> strip s = s"
proof -
  assume a: "list_all (\<lambda>c. \<not> py_isspace c) s"
  then have "dropWhile py_isspace s = s" by (cases s) auto
  moreover from a have "dropWhile py_isspace (rev s) = rev s" by (cases "rev s") (auto simp: list_all_iff)
  ultimately show ?thesis by (simp add: strip_def lstrip_def rstrip_by_def)
qed

lemma strip_show_nat [simp]: "strip (show_nat n) = show_nat n"
  by (rule strip_no_space) (use show_nat_digits [of n] in \<open>auto simp: list_all_iff digit_not_space\<close>)

text \<open>A database identifier survives the round trip through \<open>str\<close> and \<open>int\<close>.\<close>

lemma py_int_show_nat: "py_int (show_nat n) = Some (int n)"
proof -
  obtain c cs where c: "show_nat n = c # cs" by (cases "show_nat n") auto
  with show_nat_digits [of n] have "is_ascii_digit c" by simp
  then have "c \<noteq> CHR ''-''" "c \<noteq> CHR ''+''" by (auto simp: is_ascii_digit_def)
  with c read_digits_show_nat [of n] strip_show_nat [of n] show ?thesis
    by (simp add: py_int_def)
qed

lemma py_int_show_int: "0 \<le> i \<Longrightarrow> py_int (show_int i) = Some i"
  using py_int_show_nat [of "nat i"] by (simp add: show_int_def)


section \<open>Dictionaries\<close>

type_synonym 'v dict = "(string \<times> 'v) list"

abbreviation dict_get :: "'v dict \<Rightarrow> string \<Rightarrow> 'v option" where
  "dict_get d k \<equiv> map_of d k"

abbreviation dict_set :: "'v dict \<Rightarrow> string \<Rightarrow> 'v \<Rightarrow> 'v dict" where
  "dict_set d k v \<equiv> AList.update k v d"

abbreviation dict_keys :: "'v dict \<Rightarrow> string list" where
  "dict_keys d \<equiv> map fst d"

text \<open>\<open>sorted(d.items())\<close>: the keys are distinct, so the order is decided by the keys.\<close>

definition sorted_items :: "'v dict \<Rightarrow> 'v dict" where
  "sorted_items d = sort_key fst d"

lemma set_sorted_items [simp]: "set (sorted_items d) = set d"
  by (simp add: sorted_items_def)

lemma distinct_keys_sorted_items [simp]:
  "distinct (map fst (sorted_items d)) = distinct (map fst d)"
proof -
  have "mset (map fst (sorted_items d)) = mset (map fst d)"
    by (simp add: sorted_items_def)
  then show ?thesis by (metis distinct_count_atmost_1 mset_eq_setD set_mset_mset)
qed

section \<open>Results: a validation either raises a message or returns\<close>

definition bindS :: "'e + 'a \<Rightarrow> ('a \<Rightarrow> 'e + 'b) \<Rightarrow> 'e + 'b" where
  "bindS m f = (case m of Inl e \<Rightarrow> Inl e | Inr x \<Rightarrow> f x)"

definition thenS :: "'e + unit \<Rightarrow> 'e + 'b \<Rightarrow> 'e + 'b" where
  "thenS m k = (case m of Inl e \<Rightarrow> Inl e | Inr _ \<Rightarrow> k)"

definition require :: "bool \<Rightarrow> 'e \<Rightarrow> 'e + unit" where
  "require b e = (if b then Inr () else Inl e)"

fun each :: "('a \<Rightarrow> 'e + unit) \<Rightarrow> 'a list \<Rightarrow> 'e + unit" where
  "each f [] = Inr ()"
| "each f (x # xs) = thenS (f x) (each f xs)"

fun foldS :: "('a \<Rightarrow> 'b \<Rightarrow> 'e + 'a) \<Rightarrow> 'a \<Rightarrow> 'b list \<Rightarrow> 'e + 'a" where
  "foldS f a [] = Inr a"
| "foldS f a (x # xs) = bindS (f a x) (\<lambda>b. foldS f b xs)"

fun mapS :: "('a \<Rightarrow> 'e + 'b) \<Rightarrow> 'a list \<Rightarrow> 'e + 'b list" where
  "mapS f [] = Inr []"
| "mapS f (x # xs) = bindS (f x) (\<lambda>y. bindS (mapS f xs) (\<lambda>ys. Inr (y # ys)))"

lemma bindS_Inr [checks]: "bindS m f = Inr y \<longleftrightarrow> (\<exists>x. m = Inr x \<and> f x = Inr y)"
  by (auto simp: bindS_def split: sum.splits)

lemma thenS_Inr [checks]: "thenS m k = Inr y \<longleftrightarrow> m = Inr () \<and> k = Inr y"
  by (auto simp: thenS_def split: sum.splits)

lemma require_Inr [checks]: "require b e = Inr u \<longleftrightarrow> b"
  by (simp add: require_def)

lemma each_Inr [checks]: "each f xs = Inr u \<longleftrightarrow> (\<forall>x\<in>set xs. f x = Inr ())"
  by (induction xs) (auto simp: checks)

lemma bindS_simps [simp]: "bindS (Inl e) f = Inl e" "bindS (Inr x) f = f x"
  by (simp_all add: bindS_def)

lemma thenS_simps [simp]: "thenS (Inl e) k = Inl e" "thenS (Inr u) k = k"
  by (simp_all add: thenS_def)

lemma require_simps [simp]: "require True e = Inr ()" "require False e = Inl e"
  by (simp_all add: require_def)

lemma foldS_append: "foldS f a (xs @ ys) = bindS (foldS f a xs) (\<lambda>b. foldS f b ys)"
  by (induction xs arbitrary: a) (auto simp: bindS_def split: sum.splits)

section \<open>Effects\<close>

type_synonym ('s, 'e, 'a) eff = "'s \<Rightarrow> ('e + 'a) \<times> 's"

definition retE :: "'a \<Rightarrow> ('s, 'e, 'a) eff" where
  "retE x s = (Inr x, s)"

definition raiseE :: "'e \<Rightarrow> ('s, 'e, 'a) eff" where
  "raiseE e s = (Inl e, s)"

definition liftE :: "'e + 'a \<Rightarrow> ('s, 'e, 'a) eff" where
  "liftE r s = (r, s)"

definition getsE :: "('s \<Rightarrow> 'a) \<Rightarrow> ('s, 'e, 'a) eff" where
  "getsE f s = (Inr (f s), s)"

definition modifyE :: "('s \<Rightarrow> 's) \<Rightarrow> ('s, 'e, unit) eff" where
  "modifyE f s = (Inr (), f s)"

definition attemptE ::
  "('s, 'e, 'a) eff \<Rightarrow> ('e \<Rightarrow> ('s, 'f, 'b) eff) \<Rightarrow> ('a \<Rightarrow> ('s, 'f, 'b) eff) \<Rightarrow> ('s, 'f, 'b) eff" where
  "attemptE m h k s = (case m s of (Inl e, t) \<Rightarrow> h e t | (Inr x, t) \<Rightarrow> k x t)"

definition bindE :: "('s, 'e, 'a) eff \<Rightarrow> ('a \<Rightarrow> ('s, 'e, 'b) eff) \<Rightarrow> ('s, 'e, 'b) eff" where
  "bindE m k = attemptE m raiseE k"

definition thenE :: "('s, 'e, 'a) eff \<Rightarrow> ('s, 'e, 'b) eff \<Rightarrow> ('s, 'e, 'b) eff" where
  "thenE m k = attemptE m raiseE (\<lambda>_. k)"

definition tryE :: "('s, 'e, 'a) eff \<Rightarrow> ('e \<Rightarrow> ('s, 'f, 'a) eff) \<Rightarrow> ('s, 'f, 'a) eff" where
  "tryE m h = attemptE m h retE"

text \<open>\<open>with suppress(Exception): m\<close>.\<close>

definition suppressE :: "('s, 'e, unit) eff \<Rightarrow> ('s, 'f, unit) eff" where
  "suppressE m = tryE m (\<lambda>_. retE ())"

text \<open>\<open>try: m finally: f\<close>; an exception of \<open>f\<close> replaces the outcome of \<open>m\<close>.\<close>

definition finallyE :: "('s, 'e, 'a) eff \<Rightarrow> ('s, 'e, unit) eff \<Rightarrow> ('s, 'e, 'a) eff" where
  "finallyE m f = attemptE m (\<lambda>e. thenE f (raiseE e)) (\<lambda>x. thenE f (retE x))"

fun mapE :: "('a \<Rightarrow> ('s, 'e, 'b) eff) \<Rightarrow> 'a list \<Rightarrow> ('s, 'e, 'b list) eff" where
  "mapE f [] = retE []"
| "mapE f (x # xs) = bindE (f x) (\<lambda>y. bindE (mapE f xs) (\<lambda>ys. retE (y # ys)))"

fun forE :: "('a \<Rightarrow> ('s, 'e, unit) eff) \<Rightarrow> 'a list \<Rightarrow> ('s, 'e, unit) eff" where
  "forE f [] = retE ()"
| "forE f (x # xs) = thenE (f x) (forE f xs)"

definition runE :: "('s, 'e, 'a) eff \<Rightarrow> 's \<Rightarrow> 'e + 'a" where
  "runE m s = fst (m s)"

definition execE :: "('s, 'e, 'a) eff \<Rightarrow> 's \<Rightarrow> 's" where
  "execE m s = snd (m s)"

lemmas eff_defs = retE_def raiseE_def liftE_def getsE_def modifyE_def attemptE_def bindE_def
  thenE_def tryE_def suppressE_def finallyE_def

subsection \<open>Weakest preconditions\<close>

definition wpE :: "('s, 'e, 'a) eff \<Rightarrow> ('a \<Rightarrow> 's \<Rightarrow> bool) \<Rightarrow> ('e \<Rightarrow> 's \<Rightarrow> bool) \<Rightarrow> 's \<Rightarrow> bool" where
  "wpE m Q E s = (case m s of (Inl e, t) \<Rightarrow> E e t | (Inr x, t) \<Rightarrow> Q x t)"

lemma wp_ret [wp]: "wpE (retE x) Q E = Q x"
  by (rule ext) (simp add: wpE_def retE_def)

lemma wp_raise [wp]: "wpE (raiseE e) Q E = E e"
  by (rule ext) (simp add: wpE_def raiseE_def)

lemma wp_lift [wp]: "wpE (liftE r) Q E = (\<lambda>s. case r of Inl e \<Rightarrow> E e s | Inr x \<Rightarrow> Q x s)"
  by (rule ext) (simp add: wpE_def liftE_def split: sum.splits)

lemma wp_gets [wp]: "wpE (getsE f) Q E = (\<lambda>s. Q (f s) s)"
  by (rule ext) (simp add: wpE_def getsE_def)

lemma wp_modify [wp]: "wpE (modifyE f) Q E = (\<lambda>s. Q () (f s))"
  by (rule ext) (simp add: wpE_def modifyE_def)

lemma wp_attempt [wp]:
  "wpE (attemptE m h k) Q E = wpE m (\<lambda>x. wpE (k x) Q E) (\<lambda>e. wpE (h e) Q E)"
  by (rule ext) (simp add: wpE_def attemptE_def split: sum.splits prod.splits)

lemma wp_bind [wp]: "wpE (bindE m k) Q E = wpE m (\<lambda>x. wpE (k x) Q E) E"
  by (simp add: bindE_def wp_attempt wp_raise)

lemma wp_then [wp]: "wpE (thenE m k) Q E = wpE m (\<lambda>_. wpE k Q E) E"
  by (simp add: thenE_def wp_attempt wp_raise)

lemma wp_try [wp]: "wpE (tryE m h) Q E = wpE m Q (\<lambda>e. wpE (h e) Q E)"
  by (simp add: tryE_def wp_attempt wp_ret)

lemma wp_suppress [wp]: "wpE (suppressE m) Q E = wpE m Q (\<lambda>_. Q ())"
  by (simp add: suppressE_def wp_try wp_ret)

lemma wp_finally [wp]:
  "wpE (finallyE m f) Q E = wpE m (\<lambda>x. wpE f (\<lambda>_. Q x) E) (\<lambda>e. wpE f (\<lambda>_. E e) E)"
  by (simp add: finallyE_def wp_attempt wp_then wp_ret wp_raise)

lemma wp_if [wp]:
  "wpE (if b then m else n) Q E = (\<lambda>s. if b then wpE m Q E s else wpE n Q E s)"
  by simp

lemma wp_case_option [wp]:
  "wpE (case x of None \<Rightarrow> m | Some y \<Rightarrow> f y) Q E =
   (\<lambda>s. case x of None \<Rightarrow> wpE m Q E s | Some y \<Rightarrow> wpE (f y) Q E s)"
  by (cases x) simp_all

lemma wp_case_sum [wp]:
  "wpE (case x of Inl y \<Rightarrow> f y | Inr z \<Rightarrow> g z) Q E =
   (\<lambda>s. case x of Inl y \<Rightarrow> wpE (f y) Q E s | Inr z \<Rightarrow> wpE (g z) Q E s)"
  by (cases x) simp_all

lemma wp_case_prod [wp]: "wpE (case p of (a, b) \<Rightarrow> f a b) Q E = (\<lambda>h. case p of (a, b) \<Rightarrow> wpE (f a b) Q E h)"
  by (cases p) simp

lemma wp_mono:
  assumes "wpE m Q E s" and "\<And>x t. Q x t \<Longrightarrow> Q' x t" and "\<And>e t. E e t \<Longrightarrow> E' e t"
  shows "wpE m Q' E' s"
  using assms by (auto simp: wpE_def split: prod.splits sum.splits)

lemma wp_conj: "wpE m (\<lambda>x t. Q x t \<and> Q' x t) (\<lambda>e t. E e t \<and> E' e t) s \<longleftrightarrow> wpE m Q E s \<and> wpE m Q' E' s"
  by (auto simp: wpE_def split: prod.splits sum.splits)

text \<open>What a precondition says of a run.\<close>

lemma wp_run:
  "wpE m Q E s \<longleftrightarrow>
   (\<forall>x t. m s = (Inr x, t) \<longrightarrow> Q x t) \<and> (\<forall>e t. m s = (Inl e, t) \<longrightarrow> E e t)"
  by (auto simp: wpE_def split: prod.splits sum.splits)

lemma wp_always: "wpE m (\<lambda>_. I) (\<lambda>_. I) s \<longleftrightarrow> I (snd (m s))"
  by (auto simp: wpE_def split: prod.splits sum.splits)

section \<open>Tables\<close>

text \<open>
  A table is the list of its rows; \<open>key\<close> reads a row's primary key. \<open>tbl_put\<close> replaces
  the row with the key of the given one.
\<close>

definition tbl_get :: "('r \<Rightarrow> 'k) \<Rightarrow> 'r list \<Rightarrow> 'k \<Rightarrow> 'r option" where
  "tbl_get key t k = find (\<lambda>r. key r = k) t"

definition tbl_put :: "('r \<Rightarrow> 'k) \<Rightarrow> 'r \<Rightarrow> 'r list \<Rightarrow> 'r list" where
  "tbl_put key r t = map (\<lambda>q. if key q = key r then r else q) t"

definition next_id :: "('r \<Rightarrow> int) \<Rightarrow> 'r list \<Rightarrow> int" where
  "next_id key t = 1 + foldr max (map key t) 0"

lemma tbl_get_Some: "tbl_get key t k = Some r \<Longrightarrow> r \<in> set t \<and> key r = k"
  by (auto simp: tbl_get_def find_Some_iff)

lemma tbl_get_None: "tbl_get key t k = None \<longleftrightarrow> k \<notin> key ` set t"
  by (auto simp: tbl_get_def find_None_iff)

lemma tbl_get_mem: "distinct (map key t) \<Longrightarrow> r \<in> set t \<Longrightarrow> tbl_get key t (key r) = Some r"
  by (induction t) (auto simp: tbl_get_def)

lemma tbl_put_keys [simp]: "map key (tbl_put key r t) = map key t"
  by (induction t) (auto simp: tbl_put_def)

lemma tbl_get_put_same: "key r \<in> key ` set t \<Longrightarrow> tbl_get key (tbl_put key r t) (key r) = Some r"
  by (induction t) (auto simp: tbl_get_def tbl_put_def)

lemma tbl_get_put_other: "k \<noteq> key r \<Longrightarrow> tbl_get key (tbl_put key r t) k = tbl_get key t k"
  by (induction t) (auto simp: tbl_get_def tbl_put_def)

lemma tbl_get_put:
  "tbl_get key (tbl_put key r t) k =
   (if k = key r then (case tbl_get key t k of None \<Rightarrow> None | Some _ \<Rightarrow> Some r) else tbl_get key t k)"
  by (induction t) (auto simp: tbl_get_def tbl_put_def split: option.splits)

lemma tbl_put_absent: "key r \<notin> key ` set t \<Longrightarrow> tbl_put key r t = t"
  by (induction t) (auto simp: tbl_put_def)

lemma set_tbl_put: "x \<in> set (tbl_put key r t) \<Longrightarrow> x = r \<or> x \<in> set t"
  by (auto simp: tbl_put_def)

lemma foldr_max_ge: "x \<in> set xs \<Longrightarrow> x \<le> foldr max xs (0 :: int)"
  by (induction xs) (auto simp: max_def)

lemma next_id_fresh: "next_id key t \<notin> key ` set t"
  using foldr_max_ge [of _ "map key t"] by (force simp: next_id_def)

lemma next_id_greater: "r \<in> set t \<Longrightarrow> key r < next_id key t"
  using foldr_max_ge [of "key r" "map key t"] by (simp add: next_id_def)

lemma next_id_pos: "0 < next_id key t"
proof -
  have "0 \<le> foldr max xs (0 :: int)" for xs by (induction xs) auto
  then show ?thesis by (simp add: next_id_def add_pos_nonneg)
qed

lemma tbl_get_append:
  "tbl_get key (t @ [r]) k =
   (case tbl_get key t k of Some q \<Rightarrow> Some q | None \<Rightarrow> if key r = k then Some r else None)"
  by (induction t) (auto simp: tbl_get_def split: option.splits)

lemma find_append: "find p (xs @ ys) = (case find p xs of Some x \<Rightarrow> Some x | None \<Rightarrow> find p ys)"
  by (induction xs) auto

end
