(* ===== verification/Provider_Types.thy ===== *)
theory Provider_Types
  imports Platform_Prelude
begin

text \<open>
  The values that cross the provider boundary (\<open>backend/app/providers/base.py\<close>): the data
  transfer objects, the exceptions the code dispatches on, and the decimal numbers quotas
  are computed with.

  A decimal is a coefficient and an exponent, as in Python's \<open>decimal\<close>; sums, products and
  quotients are rounded to the default context's 28 significant digits, half to even.
  Instants are microseconds since the epoch in UTC. An exception is its class and its text.
\<close>

section \<open>Decimal numbers\<close>

datatype decimal = Dec (dec_coeff: int) (dec_exp: int)

definition dec_prec :: nat where
  "dec_prec = 28"

definition num_digits :: "int \<Rightarrow> nat" where
  "num_digits m = length (show_nat (nat \<bar>m\<bar>))"

definition dec_align :: "decimal \<Rightarrow> int \<Rightarrow> int" where
  "dec_align d e = dec_coeff d * 10 ^ nat (dec_exp d - e)"

definition round_half_even :: "int \<Rightarrow> int \<Rightarrow> int" where
  "round_half_even a b = (let q = a div b; r = a mod b in
     if 2 * r > b \<or> (2 * r = b \<and> odd q) then q + 1 else q)"

definition dec_fix :: "decimal \<Rightarrow> decimal" where
  "dec_fix d = (let n = num_digits (dec_coeff d) in
     if n \<le> dec_prec then d
     else (let k = n - dec_prec; q = round_half_even \<bar>dec_coeff d\<bar> (10 ^ k) in
       if q = 10 ^ dec_prec
       then Dec (sgn (dec_coeff d) * 10 ^ (dec_prec - 1)) (dec_exp d + int k + 1)
       else Dec (sgn (dec_coeff d) * q) (dec_exp d + int k)))"

definition dec_le :: "decimal \<Rightarrow> decimal \<Rightarrow> bool" where
  "dec_le a b = (let e = min (dec_exp a) (dec_exp b) in dec_align a e \<le> dec_align b e)"

definition dec_eq :: "decimal \<Rightarrow> decimal \<Rightarrow> bool" where
  "dec_eq a b = (let e = min (dec_exp a) (dec_exp b) in dec_align a e = dec_align b e)"

abbreviation dec_lt :: "decimal \<Rightarrow> decimal \<Rightarrow> bool" where
  "dec_lt a b \<equiv> \<not> dec_le b a"

abbreviation dec_of_int :: "int \<Rightarrow> decimal" where
  "dec_of_int n \<equiv> Dec n 0"

definition dec_add :: "decimal \<Rightarrow> decimal \<Rightarrow> decimal" where
  "dec_add a b = (let e = min (dec_exp a) (dec_exp b) in
     dec_fix (Dec (dec_align a e + dec_align b e) e))"

definition dec_mul :: "decimal \<Rightarrow> decimal \<Rightarrow> decimal" where
  "dec_mul a b = dec_fix (Dec (dec_coeff a * dec_coeff b) (dec_exp a + dec_exp b))"

fun strip_zeros :: "nat \<Rightarrow> int \<Rightarrow> int \<Rightarrow> decimal" where
  "strip_zeros 0 m e = Dec m e"
| "strip_zeros (Suc n) m e = (if 10 dvd m then strip_zeros n (m div 10) (e + 1) else Dec m e)"

text \<open>
  Quotient of two positive decimals: enough digits for the precision, a remainder made
  visible in the last digit, trailing zeros dropped when the quotient is exact.
\<close>

definition dec_div :: "decimal \<Rightarrow> decimal \<Rightarrow> decimal" where
  "dec_div a b =
     (let shift = int (num_digits (dec_coeff b)) - int (num_digits (dec_coeff a)) + int dec_prec + 1;
          e = dec_exp a - dec_exp b - shift;
          n = dec_coeff a * 10 ^ nat shift;
          d = dec_coeff b * 10 ^ nat (- shift);
          q = n div d
      in if n mod d \<noteq> 0 then dec_fix (Dec (if q mod 5 = 0 then q + 1 else q) e)
         else dec_fix (strip_zeros (nat (dec_exp a - dec_exp b - e)) q e))"

definition dec_to_integral :: "decimal \<Rightarrow> decimal" where
  "dec_to_integral d = (if 0 \<le> dec_exp d then d
     else Dec (sgn (dec_coeff d) * round_half_even \<bar>dec_coeff d\<bar> (10 ^ nat (- dec_exp d))) 0)"

definition dec_int :: "decimal \<Rightarrow> int" where
  "dec_int d = (if 0 \<le> dec_exp d then dec_coeff d * 10 ^ nat (dec_exp d)
     else sgn (dec_coeff d) * (\<bar>dec_coeff d\<bar> div 10 ^ nat (- dec_exp d)))"

definition dec_str :: "decimal \<Rightarrow> string" where
  "dec_str d =
     (let ds = show_nat (nat \<bar>dec_coeff d\<bar>); len = int (length ds);
          leftdigits = dec_exp d + len;
          dotplace = (if dec_exp d \<le> 0 \<and> leftdigits > -6 then leftdigits else 1);
          body = (if dotplace \<le> 0 then ''0.'' @ replicate (nat (- dotplace)) (CHR ''0'') @ ds
                  else if len \<le> dotplace then ds @ replicate (nat (dotplace - len)) (CHR ''0'')
                  else take (nat dotplace) ds @ ''.'' @ drop (nat dotplace) ds);
          x = leftdigits - dotplace
      in (if dec_coeff d < 0 then ''-'' else []) @ body @
         (if x = 0 then [] else ''E'' @ (if 0 \<le> x then ''+'' else []) @ show_int x))"

section \<open>Data transfer objects\<close>

type_synonym datetime = int

record egress_endpoint_dto =
  ep_endpoint_id :: string
  ep_host :: string
  ep_port :: int
  ep_protocol :: string
  ep_public_ip :: "string option"

record capacity_dto =
  cap_total_gb :: decimal
  cap_allocated_gb :: decimal
  cap_reserved_gb :: decimal

record tenant_dto =
  tn_tenant_id :: string
  tn_label :: string
  tn_quota_gb :: decimal
  tn_thread_limit :: int

record usage_dto =
  us_tenant_id :: string
  us_used_gb :: decimal
  us_measured_at :: datetime
  us_used_bytes :: int
  us_status :: string

record credential_dto =
  cr_username :: string
  cr_password :: string

record xray_outbound_dto =
  xo_tag :: string
  xo_host :: string
  xo_port :: int
  xo_protocol :: string
  xo_credential_secret_ref :: string

record account_user_dto =
  au_username :: string
  au_quota_bytes :: int
  au_expire_at :: "datetime option"
  au_routing_principal :: string
  au_enabled :: bool

record desired_routing_state =
  dr_user_routes :: "string dict"
  dr_outbounds :: "xray_outbound_dto list"

text \<open>The part of the forwarder's desired state that the provisioning saga builds.\<close>

record desired_forwarder_state =
  df_listeners :: "string dict"

record validation_result =
  vr_valid :: bool
  vr_errors :: "string list"

record apply_result =
  ar_applied :: bool
  ar_version :: string
  ar_rolled_back :: bool

record health_report =
  hr_healthy :: bool
  hr_details :: "string dict"

record notify_event =
  ne_event_type :: string
  ne_payload :: "string dict"

section \<open>Exceptions\<close>

datatype accounting_create_effect = NO_SIDE_EFFECT | CREATED | AMBIGUOUS

text \<open>
  One constructor per exception class a handler of the modelled code names;
  \<open>OtherException\<close> carries the name of any other class.
\<close>

datatype exn_class =
    ValueError
  | RuntimeError
  | IntegrityError
  | CapacityExceededError
  | ExternalTenantCreationError "string option"
  | AccountingCreateUserError accounting_create_effect
  | GatewayRouteBindingLockError
  | GatewayReconciliationBlocked
  | GatewayReconciliationError
  | GatewayCommitOutcomeUnknown
  | ProvisioningStateError
  | DesiredRoutingStateError
  | XrayCompositionError
  | XrayValidationError
  | XrayReloadError
  | XrayBaselineError
  | CredentialResolutionError
  | SecretStoreError
  | HTTPException int
  | OtherException string

datatype exn = Exn (exn_class: exn_class) (exn_str: string)

fun class_name :: "exn_class \<Rightarrow> string" where
  "class_name ValueError = ''ValueError''"
| "class_name RuntimeError = ''RuntimeError''"
| "class_name IntegrityError = ''IntegrityError''"
| "class_name CapacityExceededError = ''CapacityExceededError''"
| "class_name (ExternalTenantCreationError _) = ''ExternalTenantCreationError''"
| "class_name (AccountingCreateUserError _) = ''AccountingCreateUserError''"
| "class_name GatewayRouteBindingLockError = ''GatewayRouteBindingLockError''"
| "class_name GatewayReconciliationBlocked = ''GatewayReconciliationBlocked''"
| "class_name GatewayReconciliationError = ''GatewayReconciliationError''"
| "class_name GatewayCommitOutcomeUnknown = ''GatewayCommitOutcomeUnknown''"
| "class_name ProvisioningStateError = ''ProvisioningStateError''"
| "class_name DesiredRoutingStateError = ''DesiredRoutingStateError''"
| "class_name XrayCompositionError = ''XrayCompositionError''"
| "class_name XrayValidationError = ''XrayValidationError''"
| "class_name XrayReloadError = ''XrayReloadError''"
| "class_name XrayBaselineError = ''XrayBaselineError''"
| "class_name CredentialResolutionError = ''CredentialResolutionError''"
| "class_name SecretStoreError = ''SecretStoreError''"
| "class_name (HTTPException _) = ''HTTPException''"
| "class_name (OtherException n) = n"

abbreviation type_name :: "exn \<Rightarrow> string" where
  "type_name e \<equiv> class_name (exn_class e)"

abbreviation value_error :: "string \<Rightarrow> exn" where
  "value_error \<equiv> Exn ValueError"

abbreviation runtime_error :: "string \<Rightarrow> exn" where
  "runtime_error \<equiv> Exn RuntimeError"

section \<open>Facts on decimals\<close>

lemma num_digits_pos [simp]: "0 < num_digits m"
  by (simp add: num_digits_def)

lemma length_show_nat_le: "0 < k \<Longrightarrow> n < 10 ^ k \<Longrightarrow> length (show_nat n) \<le> k"
proof (induction n arbitrary: k rule: show_nat.induct)
  case (1 n)
  show ?case
  proof (cases "n < 10")
    case True
    with 1(2) show ?thesis by (subst show_nat.simps) simp
  next
    case False
    then obtain j where j: "k = Suc j" "0 < j" using 1(2,3) by (cases k; cases "k - 1") auto
    with 1(3) have "n div 10 < 10 ^ j" by (auto simp: less_mult_imp_div_less)
    with 1(1) j False have "length (show_nat (n div 10)) \<le> j" by simp
    with False j show ?thesis by (subst show_nat.simps) simp
  qed
qed

lemma num_digits_le: "0 < k \<Longrightarrow> \<bar>m\<bar> < 10 ^ k \<Longrightarrow> num_digits m \<le> k"
  unfolding num_digits_def by (rule length_show_nat_le) (auto simp: nat_less_iff)

lemma dec_fix_id: "\<bar>dec_coeff d\<bar> < 10 ^ dec_prec \<Longrightarrow> dec_fix d = d"
  using num_digits_le [of dec_prec "dec_coeff d"] by (simp add: dec_fix_def dec_prec_def)

lemma dec_le_refl [simp]: "dec_le d d"
  by (simp add: dec_le_def)

lemma dec_align_shift: "e \<le> e' \<Longrightarrow> e' \<le> dec_exp d \<Longrightarrow> dec_align d e = dec_align d e' * 10 ^ nat (e' - e)"
proof -
  assume a: "e \<le> e'" "e' \<le> dec_exp d"
  then have "nat (dec_exp d - e) = nat (dec_exp d - e') + nat (e' - e)" by linarith
  then show ?thesis by (simp add: dec_align_def power_add)
qed

lemma dec_le_common:
  "e \<le> dec_exp a \<Longrightarrow> e \<le> dec_exp b \<Longrightarrow> dec_le a b \<longleftrightarrow> dec_align a e \<le> dec_align b e"
  using dec_align_shift [of e "min (dec_exp a) (dec_exp b)" a]
    dec_align_shift [of e "min (dec_exp a) (dec_exp b)" b]
  by (simp add: dec_le_def Let_def)

lemma dec_le_trans: "dec_le a b \<Longrightarrow> dec_le b c \<Longrightarrow> dec_le a c"
  using dec_le_common [of "min (dec_exp a) (min (dec_exp b) (dec_exp c))"]
  by (smt (verit) min.cobounded1 min.cobounded2 order_trans)

end
