(* ===== verification/Py_Values.thy ===== *)
theory Py_Values
  imports Platform_Prelude
begin

text \<open>
  Dynamic values: what \<open>json.loads\<close> returns and what the configuration renderers build.
  A mapping is an association list with distinct keys in insertion order. Floats do not occur
  in the documents the platform owns and are not modelled.

  \<open>py_eq\<close> is Python's \<open>==\<close>: it ignores the key order of mappings and identifies a bool with
  the corresponding int. \<open>json_dumps\<close> is \<open>json.dumps(..., sort_keys=True, separators=(",", ":"),
  ensure_ascii=True)\<close>.
\<close>

datatype pyval =
    VNone
  | VBool bool
  | VInt int
  | VStr string
  | VList "pyval list"
  | VMap "(string \<times> pyval) list"

section \<open>Equality and canonical text\<close>

fun eq_key :: "pyval \<Rightarrow> pyval" where
  "eq_key VNone = VNone"
| "eq_key (VBool b) = VInt (if b then 1 else 0)"
| "eq_key (VInt n) = VInt n"
| "eq_key (VStr s) = VStr s"
| "eq_key (VList vs) = VList (map eq_key vs)"
| "eq_key (VMap d) = VMap (sort_key fst (map (\<lambda>(k, v). (k, eq_key v)) d))"

definition py_eq :: "pyval \<Rightarrow> pyval \<Rightarrow> bool" where
  "py_eq a b \<longleftrightarrow> eq_key a = eq_key b"

definition escape_char :: "char \<Rightarrow> string" where
  "escape_char c = (let n = of_char c :: nat in
     if n = 34 \<or> n = 92 then [CHR 0x5C, c]
     else if n = 8 then [CHR 0x5C, CHR ''b'']
     else if n = 9 then [CHR 0x5C, CHR ''t'']
     else if n = 10 then [CHR 0x5C, CHR ''n'']
     else if n = 12 then [CHR 0x5C, CHR ''f'']
     else if n = 13 then [CHR 0x5C, CHR ''r'']
     else if n < 32 \<or> 127 < n
          then [CHR 0x5C, CHR ''u'', CHR ''0'', CHR ''0'', hex_digit (n div 16), hex_digit (n mod 16)]
     else [c])"

definition json_string :: "string \<Rightarrow> string" where
  "json_string s = [CHR 0x22] @ concat (map escape_char s) @ [CHR 0x22]"

fun sort_keys :: "pyval \<Rightarrow> pyval" where
  "sort_keys (VList vs) = VList (map sort_keys vs)"
| "sort_keys (VMap d) = VMap (sort_key fst (map (\<lambda>(k, v). (k, sort_keys v)) d))"
| "sort_keys v = v"

fun json_text :: "pyval \<Rightarrow> string" where
  "json_text VNone = ''null''"
| "json_text (VBool b) = (if b then ''true'' else ''false'')"
| "json_text (VInt n) = show_int n"
| "json_text (VStr s) = json_string s"
| "json_text (VList vs) = ''['' @ join '','' (map json_text vs) @ '']''"
| "json_text (VMap d) = ''{'' @ join '','' (map (\<lambda>(k, v). json_string k @ '':'' @ json_text v) d) @ ''}''"

definition json_dumps :: "pyval \<Rightarrow> string" where
  "json_dumps v = json_text (sort_keys v)"

section \<open>Access and checks\<close>

text \<open>\<open>d.get(k)\<close>, and \<open>d[k]\<close> where the keys have been checked.\<close>

definition vget :: "pyval dict \<Rightarrow> string \<Rightarrow> pyval" where
  "vget d k = (case dict_get d k of Some v \<Rightarrow> v | None \<Rightarrow> VNone)"

definition as_mapping :: "pyval \<Rightarrow> 'e \<Rightarrow> 'e + pyval dict" where
  "as_mapping v msg = (case v of VMap d \<Rightarrow> Inr d | _ \<Rightarrow> Inl msg)"

definition check_keys :: "pyval dict \<Rightarrow> string list \<Rightarrow> 'e \<Rightarrow> 'e + unit" where
  "check_keys d expected msg = require (set (dict_keys d) = set expected) msg"

definition nonblank_string :: "pyval \<Rightarrow> 'e \<Rightarrow> 'e + string" where
  "nonblank_string v msg = (case v of VStr s \<Rightarrow> if nonblank s then Inr s else Inl msg | _ \<Rightarrow> Inl msg)"

definition valid_port :: "pyval \<Rightarrow> 'e \<Rightarrow> 'e + int" where
  "valid_port v msg = (case v of VInt n \<Rightarrow> if 1 \<le> n \<and> n \<le> 65535 then Inr n else Inl msg | _ \<Rightarrow> Inl msg)"

fun is_nonblank_str :: "pyval \<Rightarrow> bool" where
  "is_nonblank_str (VStr s) = nonblank s"
| "is_nonblank_str v = False"

definition string_list :: "pyval \<Rightarrow> bool \<Rightarrow> 'e \<Rightarrow> 'e + unit" where
  "string_list v allow_empty msg = (case v of
     VList vs \<Rightarrow> require (list_all is_nonblank_str vs \<and> (allow_empty \<or> vs \<noteq> [])) msg
   | _ \<Rightarrow> Inl msg)"

fun is_bool :: "pyval \<Rightarrow> bool" where
  "is_bool (VBool b) = True"
| "is_bool v = False"

fun is_int :: "pyval \<Rightarrow> bool" where
  "is_int (VInt n) = True"
| "is_int v = False"

fun is_str :: "pyval \<Rightarrow> bool" where
  "is_str (VStr s) = True"
| "is_str v = False"

fun is_list :: "pyval \<Rightarrow> bool" where
  "is_list (VList vs) = True"
| "is_list v = False"

fun list_items :: "pyval \<Rightarrow> pyval list" where
  "list_items (VList vs) = vs"
| "list_items v = []"

subsection \<open>Lemmas\<close>

named_theorems fails \<open>when a validation raises\<close>

lemma bindS_Inl [fails]: "bindS m f = Inl e \<longleftrightarrow> m = Inl e \<or> (\<exists>x. m = Inr x \<and> f x = Inl e)"
  by (cases m) auto

lemma thenS_Inl [fails]: "thenS m k = Inl e \<longleftrightarrow> m = Inl e \<or> (m = Inr () \<and> k = Inl e)"
  by (cases m) auto

lemma require_Inl [fails]: "require b msg = Inl e \<longleftrightarrow> \<not> b \<and> e = msg"
  by (auto simp: require_def)

lemma each_Inl: "each f xs = Inl e \<Longrightarrow> \<exists>x\<in>set xs. f x = Inl e"
  by (induction xs) (auto simp: fails)

lemma py_eq_refl [simp]: "py_eq v v"
  by (simp add: py_eq_def)

lemma py_eq_sym: "py_eq a b \<Longrightarrow> py_eq b a"
  by (simp add: py_eq_def)

lemma py_eq_trans: "py_eq a b \<Longrightarrow> py_eq b c \<Longrightarrow> py_eq a c"
  by (simp add: py_eq_def)

lemma py_eq_VStr [simp]: "py_eq v (VStr s) \<longleftrightarrow> v = VStr s"
  by (cases v) (auto simp: py_eq_def)

lemma py_eq_VList_Nil [simp]: "py_eq v (VList []) \<longleftrightarrow> v = VList []"
  by (cases v) (auto simp: py_eq_def)

lemma py_eq_VInt_0: "py_eq v (VInt 0) \<longleftrightarrow> v = VInt 0 \<or> v = VBool False"
  by (cases v) (auto simp: py_eq_def)

lemma as_mapping_Inr [checks]: "as_mapping v msg = Inr d \<longleftrightarrow> v = VMap d"
  by (cases v) (auto simp: as_mapping_def)

lemma as_mapping_Inl [fails]: "as_mapping v msg = Inl e \<longleftrightarrow> (\<forall>d. v \<noteq> VMap d) \<and> e = msg"
  by (cases v) (auto simp: as_mapping_def)

lemma check_keys_Inr [checks]: "check_keys d ks msg = Inr u \<longleftrightarrow> set (dict_keys d) = set ks"
  by (simp add: check_keys_def checks)

lemma check_keys_Inl [fails]: "check_keys d ks msg = Inl e \<longleftrightarrow> set (dict_keys d) \<noteq> set ks \<and> e = msg"
  by (simp add: check_keys_def fails)

lemma nonblank_string_Inr [checks]: "nonblank_string v msg = Inr s \<longleftrightarrow> v = VStr s \<and> nonblank s"
  by (cases v) (auto simp: nonblank_string_def)

lemma nonblank_string_Inl [fails]: "nonblank_string v msg = Inl e \<longleftrightarrow> \<not> is_nonblank_str v \<and> e = msg"
  by (cases v) (auto simp: nonblank_string_def)

lemma valid_port_Inr [checks]: "valid_port v msg = Inr n \<longleftrightarrow> v = VInt n \<and> 1 \<le> n \<and> n \<le> 65535"
  by (cases v) (auto simp: valid_port_def)

lemma valid_port_Inl: "valid_port v msg = Inl e \<Longrightarrow> e = msg"
  by (cases v) (auto simp: valid_port_def split: if_splits)

lemma string_list_Inr [checks]:
  "string_list v allow msg = Inr u \<longleftrightarrow> (\<exists>vs. v = VList vs \<and> list_all is_nonblank_str vs \<and> (allow \<or> vs \<noteq> []))"
  by (cases v) (auto simp: string_list_def checks)

lemma string_list_Inl: "string_list v allow msg = Inl e \<Longrightarrow> e = msg"
  by (cases v) (auto simp: string_list_def fails)

lemma vget_Cons [simp]: "vget ((k, v) # d) k' = (if k = k' then v else vget d k')"
  by (simp add: vget_def)

section \<open>Text of a value and merging of dictionaries\<close>

text \<open>\<open>str(v)\<close> and \<open>{**d, **e}\<close>.\<close>

fun py_str_val :: "pyval \<Rightarrow> string" where
  "py_str_val VNone = ''None''"
| "py_str_val (VBool b) = (if b then ''True'' else ''False'')"
| "py_str_val (VInt i) = show_int i"
| "py_str_val (VStr s) = py_repr s"
| "py_str_val (VList vs) = ''['' @ join '', '' (map py_str_val vs) @ '']''"
| "py_str_val (VMap d) = ''{'' @ join '', '' (map (\<lambda>(k, v). py_repr k @ '': '' @ py_str_val v) d) @ ''}''"

definition py_str :: "pyval \<Rightarrow> string" where
  "py_str v = (case v of VStr s \<Rightarrow> s | _ \<Rightarrow> py_str_val v)"

definition dict_merge :: "'v dict \<Rightarrow> 'v dict \<Rightarrow> 'v dict" where
  "dict_merge d e = foldl (\<lambda>acc (k, v). dict_set acc k v) d e"

end
