(* ===== verification/Platform_Database.thy ===== *)
theory Platform_Database
  imports Provider_Types Py_Values
begin

text \<open>
  The relational store behind the platform: the rows of the tables the modelled code reads and
  writes (\<open>app/models\<close>, with the columns that code uses), their unique constraints, and one
  SQLAlchemy session.

  \<^item> \<open>se_work\<close> is what the session sees and has changed, \<open>se_store\<close> what is committed.
    \<open>db_commit\<close> stores the former, \<open>db_rollback\<close> restores the latter. The platform's sessions do
    not flush on a query; no query of the modelled code selects by a column that has unflushed
    changes, so one working copy stands for the pending objects and the flushed rows.
  \<^item> Every statement may raise, as the oracle decides for each tick; a commit that raises may or
    may not have been carried out by the server.
  \<^item> A flush or commit of rows that violate a unique constraint raises \<open>IntegrityError\<close>; the
    constraints are those of the tables the modelled code writes.
  \<^item> A JSON column holds the value \<open>json.loads\<close> reads from its text, \<open>None\<close> when it rejects it.
  \<^item> A \<open>datetime\<close> is a number of microseconds.
\<close>

section \<open>Rows\<close>

datatype job_status = JobPending | JobRunning | JobSucceeded | JobFailed

record job =
  jb_id :: int
  jb_job_type :: string
  jb_dedupe_key :: string
  jb_payload :: "pyval option"
  jb_status :: job_status
  jb_attempts :: int
  jb_max_attempts :: int
  jb_available_at :: datetime
  jb_locked_at :: "datetime option"
  jb_last_error_code :: "string option"

datatype subscription_status =
  SubProvisioning | SubActive | SubGrace | SubProvisionFailed | SubSuspended | SubExpired

datatype reconcile_state = Synced | Pending | PendingManual | ReconcileFailed

record subscription =
  sb_id :: int
  sb_customer_id :: int
  sb_plan_id :: int
  sb_order_id :: int
  sb_accounting_user_id :: "string option"
  sb_token_hash :: "string option"
  sb_token_created_at :: "datetime option"
  sb_token_revoked_at :: "datetime option"
  sb_status :: subscription_status
  sb_service_expire_at :: datetime
  sb_current_period_id :: "int option"
  sb_reconcile_state :: reconcile_state
  sb_reconcile_attempts :: int
  sb_provision_error :: "string option"
  sb_last_usage_synced_at :: "datetime option"

datatype order_status = OrderPending | OrderPaid | OrderActivated | OrderCancelled | OrderRefunded

datatype payment_status = PaymentUnpaid | PaymentPaid | PaymentRefunded

record order =
  od_id :: int
  od_customer_id :: int
  od_plan_id :: int
  od_target_subscription_id :: "int option"
  od_status :: order_status
  od_payment_status :: payment_status
  od_payment_provider :: "string option"
  od_payment_reference :: "string option"
  od_paid_at :: "datetime option"
  od_activated_at :: "datetime option"

record plan =
  pl_id :: int
  pl_traffic_limit_bytes :: int
  pl_duration_days :: int

datatype usage_period_status = PeriodActive | PeriodQueued | PeriodClosed

record usage_period =
  up_id :: int
  up_subscription_id :: int
  up_order_id :: int
  up_plan_id :: "int option"
  up_period_start :: datetime
  up_period_end :: datetime
  up_used_bytes :: int
  up_quota_bytes :: int
  up_status :: usage_period_status

record usage_sample =
  sm_id :: int
  sm_subscription_id :: int
  sm_node_id :: string
  sm_source_counter :: int
  sm_sampled_at :: datetime

datatype usage_delta_reason = Normal | CounterReset | Bootstrap

record usage_delta =
  ud_id :: int
  ud_subscription_id :: int
  ud_period_id :: int
  ud_node_id :: string
  ud_from_sample_id :: "int option"
  ud_to_sample_id :: int
  ud_delta_bytes :: int
  ud_reason :: usage_delta_reason

record usage_alert =
  ua_subscription_id :: int
  ua_period_id :: int
  ua_threshold :: int

record egress_endpoint =
  ee_id :: int
  ee_group_id :: int
  ee_code :: string
  ee_host :: string
  ee_port :: int
  ee_protocol :: string
  ee_purpose :: string
  ee_credential_secret_ref :: string
  ee_status :: string
  ee_capacity :: int
  ee_current_count :: int
  ee_mihomo_listen_port :: int

record egress_binding =
  eb_id :: int
  eb_subscription_id :: int
  eb_egress_id :: int
  eb_credential_secret_ref :: "string option"
  eb_released_at :: "datetime option"

record gateway_route_binding =
  gr_id :: int
  gr_subscription_id :: int
  gr_egress_id :: int
  gr_gateway_principal :: string
  gr_outbound_tag :: string
  gr_enabled :: bool
  gr_released_at :: "datetime option"

record secret =
  sc_secret_ref :: string
  sc_ciphertext :: string
  sc_purpose :: string
  sc_revision :: int

record audit_log =
  al_action :: string
  al_entity_type :: string
  al_entity_id :: string
  al_result :: string
  al_detail :: "string option"

text \<open>
  The tables of the forwarder projection. \<open>mg_revision\<close> is the autoincrement key of a generation;
  the states of an assignment and of a group of exits are their texts.
\<close>

datatype route_group_status = GroupActive | GroupDisabled

datatype transport_provider_kind = Subscription_Provider | Self_Hosted_Provider

record route_group =
  rg_id :: int
  rg_code :: string
  rg_status :: route_group_status

record route_binding =
  rb_id :: int
  rb_route_group_id :: int
  rb_provider_id :: int
  rb_priority :: int
  rb_enabled :: bool

record route_egress_binding =
  rx_id :: int
  rx_route_group_id :: int
  rx_egress_endpoint_id :: int
  rx_enabled :: bool

record traffic_rule =
  tk_id :: int
  tk_match_type :: string
  tk_match_value :: string
  tk_target_egress :: string
  tk_priority :: int
  tk_enabled :: bool

record egress_group =
  eg_id :: int
  eg_code :: string
  eg_status :: string

datatype provider_status = ProviderHealthy | ProviderWatch | ProviderLowCapacity | ProviderExhausted | ProviderDegraded | ProviderOffline | ProviderDisabled

record transport_provider_record =
  tp_id :: int
  tp_code :: string
  tp_kind :: transport_provider_kind
  tp_secret_ref :: string
  tp_status :: provider_status
  tp_enabled :: bool
  tp_quota_bytes :: "int option"
  tp_used_bytes :: "int option"
  tp_measured_at :: "datetime option"
  tp_last_refresh_at :: "datetime option"
  tp_last_health_at :: "datetime option"

record transport_endpoint_record =
  tn_id :: int
  tn_provider_id :: int
  tn_external_id :: string
  tn_name :: string
  tn_region :: string
  tn_protocol :: string
  tn_host :: string
  tn_port :: int
  tn_transport :: "string option"
  tn_tls_mode :: "string option"
  tn_auth_secret_ref :: string
  tn_status :: string
  tn_raw_metadata_json :: string

record egress_transport_assignment =
  ta_id :: int
  ta_egress_id :: int
  ta_transport_provider_id :: int
  ta_transport_node_id :: int
  ta_state :: string

record materialization_receipt =
  mz_id :: int
  mz_owner_record_id :: int
  mz_provider_code :: string
  mz_source_revision :: int
  mz_cache_identity :: string
  mz_content_hash :: string
  mz_freshness_deadline :: datetime

record transport_capacity_alert =
  ca_provider_id :: int
  ca_threshold :: int
  ca_level :: string
  ca_quota_bytes :: int
  ca_used_bytes :: int

record projection_generation =
  mg_revision :: int
  mg_manifest_version :: string
  mg_desired_fingerprint :: string

record forwarder_tables =
  fw_route_groups :: "route_group list"
  fw_route_bindings :: "route_binding list"
  fw_route_egress :: "route_egress_binding list"
  fw_rules :: "traffic_rule list"
  fw_egress_groups :: "egress_group list"
  fw_providers :: "transport_provider_record list"
  fw_nodes :: "transport_endpoint_record list"
  fw_assignments :: "egress_transport_assignment list"
  fw_receipts :: "materialization_receipt list"
  fw_capacity_alerts :: "transport_capacity_alert list"
  fw_generations :: "projection_generation list"

record database =
  db_jobs :: "job list"
  db_subscriptions :: "subscription list"
  db_orders :: "order list"
  db_plans :: "plan list"
  db_periods :: "usage_period list"
  db_samples :: "usage_sample list"
  db_deltas :: "usage_delta list"
  db_alerts :: "usage_alert list"
  db_endpoints :: "egress_endpoint list"
  db_bindings :: "egress_binding list"
  db_routes :: "gateway_route_binding list"
  db_secrets :: "secret list"
  db_audit :: "audit_log list"
  db_forwarder :: forwarder_tables

section \<open>Unique constraints\<close>

abbreviation active_binding :: "egress_binding \<Rightarrow> bool" where
  "active_binding b \<equiv> eb_released_at b = None"

abbreviation active_route :: "gateway_route_binding \<Rightarrow> bool" where
  "active_route r \<equiv> gr_released_at r = None \<and> gr_enabled r"

text \<open>The generated \<open>active_...\<close> columns are NULL on an inactive row, and NULLs do not collide.\<close>

definition unique_jobs :: "job list \<Rightarrow> bool" where
  "unique_jobs js \<longleftrightarrow> distinct (map jb_dedupe_key js)"

definition unique_bindings :: "egress_binding list \<Rightarrow> bool" where
  "unique_bindings bs \<longleftrightarrow>
     distinct (map eb_subscription_id (filter active_binding bs)) \<and>
     distinct (map eb_egress_id (filter active_binding bs))"

definition unique_routes :: "gateway_route_binding list \<Rightarrow> bool" where
  "unique_routes rs \<longleftrightarrow>
     distinct (map gr_outbound_tag rs) \<and>
     distinct (map gr_subscription_id (filter active_route rs)) \<and>
     distinct (map gr_egress_id (filter active_route rs)) \<and>
     distinct (map gr_gateway_principal (filter active_route rs))"

definition unique_periods :: "usage_period list \<Rightarrow> bool" where
  "unique_periods ps \<longleftrightarrow>
     distinct (map up_order_id ps) \<and>
     distinct (map up_subscription_id (filter (\<lambda>p. up_status p = PeriodActive) ps))"

definition unique_deltas :: "usage_delta list \<Rightarrow> bool" where
  "unique_deltas ds \<longleftrightarrow> distinct (map (\<lambda>d. (ud_subscription_id d, ud_node_id d, ud_to_sample_id d)) ds)"

definition unique_alerts :: "usage_alert list \<Rightarrow> bool" where
  "unique_alerts as \<longleftrightarrow> distinct (map (\<lambda>a. (ua_period_id a, ua_threshold a)) as)"

definition unique_secrets :: "secret list \<Rightarrow> bool" where
  "unique_secrets ss \<longleftrightarrow> distinct (map sc_secret_ref ss)"

definition unique_nodes :: "transport_endpoint_record list \<Rightarrow> bool" where
  "unique_nodes ns \<longleftrightarrow> distinct (map (\<lambda>n. (tn_provider_id n, tn_external_id n)) ns)"

definition unique_receipts :: "materialization_receipt list \<Rightarrow> bool" where
  "unique_receipts rs \<longleftrightarrow> distinct (map mz_owner_record_id rs)"

definition unique_capacity_alerts :: "transport_capacity_alert list \<Rightarrow> bool" where
  "unique_capacity_alerts as \<longleftrightarrow> distinct (map (\<lambda>a. (ca_provider_id a, ca_threshold a, ca_quota_bytes a)) as)"

definition constraints_hold :: "database \<Rightarrow> bool" where
  "constraints_hold d \<longleftrightarrow> unique_jobs (db_jobs d) \<and> unique_bindings (db_bindings d) \<and>
     unique_routes (db_routes d) \<and> unique_periods (db_periods d) \<and> unique_deltas (db_deltas d) \<and>
     unique_alerts (db_alerts d) \<and> unique_secrets (db_secrets d) \<and> unique_nodes (fw_nodes (db_forwarder d)) \<and>
     unique_receipts (fw_receipts (db_forwarder d)) \<and> unique_capacity_alerts (fw_capacity_alerts (db_forwarder d))"

section \<open>The session\<close>

record db_oracle =
  do_statement :: "nat \<Rightarrow> exn option"
  do_commit :: "nat \<Rightarrow> (exn \<times> bool) option"
  do_rollback :: "nat \<Rightarrow> exn option"
  do_now :: "nat \<Rightarrow> datetime"

text \<open>\<open>se_lock_held\<close> is the marker in \<open>session.info\<close>, \<open>se_world\<close> what lies outside the database.\<close>

record 'w session =
  se_work :: database
  se_store :: database
  se_tick :: nat
  se_lock_held :: bool
  se_world :: 'w

type_synonym ('w, 'a) db = "('w session, exn, 'a) eff"

definition ticked :: "'w session \<Rightarrow> 'w session" where
  "ticked s = s\<lparr>se_tick := Suc (se_tick s)\<rparr>"

definition db_now :: "db_oracle \<Rightarrow> ('w, datetime) db" where
  "db_now X s = (Inr (do_now X (se_tick s)), ticked s)"

definition db_read :: "db_oracle \<Rightarrow> (database \<Rightarrow> 'a) \<Rightarrow> ('w, 'a) db" where
  "db_read X f s = (case do_statement X (se_tick s) of
     Some e \<Rightarrow> (Inl e, ticked s) | None \<Rightarrow> (Inr (f (se_work s)), ticked s))"

text \<open>A change of mapped objects: no statement is sent yet.\<close>

definition db_update :: "(database \<Rightarrow> database) \<Rightarrow> ('w, unit) db" where
  "db_update f = modifyE (\<lambda>s. s\<lparr>se_work := f (se_work s)\<rparr>)"

definition integrity_error :: exn where
  "integrity_error = Exn IntegrityError ''duplicate entry for a unique key''"

definition db_flush :: "db_oracle \<Rightarrow> ('w, unit) db" where
  "db_flush X s = (case do_statement X (se_tick s) of
     Some e \<Rightarrow> (Inl e, ticked s)
   | None \<Rightarrow> (if constraints_hold (se_work s) then Inr () else Inl integrity_error, ticked s))"

definition db_commit :: "db_oracle \<Rightarrow> ('w, unit) db" where
  "db_commit X s =
     (if \<not> constraints_hold (se_work s) then (Inl integrity_error, ticked s)
      else (case do_commit X (se_tick s) of
        None \<Rightarrow> (Inr (), (ticked s)\<lparr>se_store := se_work s\<rparr>)
      | Some (e, landed) \<Rightarrow> (Inl e, if landed then (ticked s)\<lparr>se_store := se_work s\<rparr> else ticked s)))"

definition db_rollback :: "db_oracle \<Rightarrow> ('w, unit) db" where
  "db_rollback X s = (case do_rollback X (se_tick s) of
     Some e \<Rightarrow> (Inl e, ticked s) | None \<Rightarrow> (Inr (), (ticked s)\<lparr>se_work := se_store s\<rparr>))"

text \<open>\<open>with db.begin_nested()\<close>: an exception undoes the changes made inside.\<close>

definition db_nested :: "('w, 'a) db \<Rightarrow> ('w, 'a) db" where
  "db_nested m s = (case m s of
     (Inr x, t) \<Rightarrow> (Inr x, t) | (Inl e, t) \<Rightarrow> (Inl e, t\<lparr>se_work := se_work s\<rparr>))"

text \<open>A query on an independent session sees what is committed.\<close>

definition db_probe :: "db_oracle \<Rightarrow> (database \<Rightarrow> 'a) \<Rightarrow> ('w, 'a) db" where
  "db_probe X f s = (case do_statement X (se_tick s) of
     Some e \<Rightarrow> (Inl e, ticked s) | None \<Rightarrow> (Inr (f (se_store s)), ticked s))"

text \<open>\<open>timedelta\<close> in microseconds.\<close>

definition minutes :: "int \<Rightarrow> int" where
  "minutes n = n * 60000000"

definition hours :: "int \<Rightarrow> int" where
  "hours n = minutes (60 * n)"

definition days :: "int \<Rightarrow> int" where
  "days n = hours (24 * n)"

section \<open>Tables\<close>

text \<open>
  A table is a field of the database with a primary key. The locale is what the components rely
  on: reading a field back after writing it, and the keys of the rows.
\<close>

lemma mem_tbl_put_other: "x \<in> set t \<Longrightarrow> key x \<noteq> key r \<Longrightarrow> x \<in> set (tbl_put key r t)"
  by (auto simp: tbl_put_def image_iff)

lemma mem_tbl_put_same: "q \<in> set t \<Longrightarrow> key q = key r \<Longrightarrow> r \<in> set (tbl_put key r t)"
  by (force simp: tbl_put_def image_iff)

locale table =
  fixes rows :: "database \<Rightarrow> 'r list"
    and rows_update :: "('r list \<Rightarrow> 'r list) \<Rightarrow> database \<Rightarrow> database"
    and key :: "'r \<Rightarrow> int"
  assumes rows_rows_update: "rows (rows_update f d) = f (rows d)"
    and rows_update_same: "f (rows d) = rows d \<Longrightarrow> rows_update f d = d"
begin

lemma get_put_same:
  assumes "tbl_get key (rows d) (key r) = Some q"
  shows "tbl_get key (rows (rows_update (tbl_put key r) d)) (key r) = Some r"
  using assms by (simp add: rows_rows_update tbl_get_put)

lemma get_put_other:
  "k \<noteq> key r \<Longrightarrow> tbl_get key (rows (rows_update (tbl_put key r) d)) k = tbl_get key (rows d) k"
  by (simp add: rows_rows_update tbl_get_put_other)

lemma put_missing:
  "tbl_get key (rows d) (key r) = None \<Longrightarrow> rows_update (tbl_put key r) d = d"
  by (simp add: rows_update_same tbl_get_None tbl_put_absent)

lemma get_put:
  "tbl_get key (rows (rows_update (tbl_put key r) d)) k =
     (if k = key r then map_option (\<lambda>_. r) (tbl_get key (rows d) k) else tbl_get key (rows d) k)"
  by (cases "tbl_get key (rows d) k") (auto simp: rows_rows_update tbl_get_put)

lemma get_add_fresh:
  assumes "key r = next_id key (rows d)"
  shows "tbl_get key (rows (rows_update (\<lambda>rs. rs @ [r]) d)) (key r) = Some r"
  using next_id_fresh [of key "rows d"] assms
  by (simp add: rows_rows_update tbl_get_append tbl_get_None [THEN iffD2])

lemma get_add_other:
  "k \<noteq> key r \<Longrightarrow> tbl_get key (rows (rows_update (\<lambda>rs. rs @ [r]) d)) k = tbl_get key (rows d) k"
  by (simp add: rows_rows_update tbl_get_append split: option.splits)

lemma keys_put: "map key (rows (rows_update (tbl_put key r) d)) = map key (rows d)"
  by (simp add: rows_rows_update)

lemma distinct_add:
  assumes "distinct (map key (rows d))" and "key r = next_id key (rows d)"
  shows "distinct (map key (rows (rows_update (\<lambda>rs. rs @ [r]) d)))"
  using assms next_id_fresh [of key "rows d"] by (simp add: rows_rows_update)

end

interpretation jobs: table db_jobs db_jobs_update jb_id
  by unfold_locales simp_all

interpretation subscriptions: table db_subscriptions db_subscriptions_update sb_id
  by unfold_locales simp_all

interpretation orders: table db_orders db_orders_update od_id
  by unfold_locales simp_all

interpretation periods: table db_periods db_periods_update up_id
  by unfold_locales simp_all

interpretation samples: table db_samples db_samples_update sm_id
  by unfold_locales simp_all

interpretation endpoints: table db_endpoints db_endpoints_update ee_id
  by unfold_locales simp_all

interpretation bindings: table db_bindings db_bindings_update eb_id
  by unfold_locales simp_all

interpretation routes: table db_routes db_routes_update gr_id
  by unfold_locales simp_all

abbreviation get_job :: "database \<Rightarrow> int \<Rightarrow> job option" where
  "get_job d \<equiv> tbl_get jb_id (db_jobs d)"

abbreviation put_job :: "job \<Rightarrow> database \<Rightarrow> database" where
  "put_job j \<equiv> db_jobs_update (tbl_put jb_id j)"

abbreviation get_subscription :: "database \<Rightarrow> int \<Rightarrow> subscription option" where
  "get_subscription d \<equiv> tbl_get sb_id (db_subscriptions d)"

abbreviation put_subscription :: "subscription \<Rightarrow> database \<Rightarrow> database" where
  "put_subscription r \<equiv> db_subscriptions_update (tbl_put sb_id r)"

abbreviation get_order :: "database \<Rightarrow> int \<Rightarrow> order option" where
  "get_order d \<equiv> tbl_get od_id (db_orders d)"

abbreviation put_order :: "order \<Rightarrow> database \<Rightarrow> database" where
  "put_order r \<equiv> db_orders_update (tbl_put od_id r)"

abbreviation get_plan :: "database \<Rightarrow> int \<Rightarrow> plan option" where
  "get_plan d \<equiv> tbl_get pl_id (db_plans d)"

abbreviation get_period :: "database \<Rightarrow> int \<Rightarrow> usage_period option" where
  "get_period d \<equiv> tbl_get up_id (db_periods d)"

abbreviation put_period :: "usage_period \<Rightarrow> database \<Rightarrow> database" where
  "put_period r \<equiv> db_periods_update (tbl_put up_id r)"

abbreviation get_endpoint :: "database \<Rightarrow> int \<Rightarrow> egress_endpoint option" where
  "get_endpoint d \<equiv> tbl_get ee_id (db_endpoints d)"

abbreviation put_endpoint :: "egress_endpoint \<Rightarrow> database \<Rightarrow> database" where
  "put_endpoint r \<equiv> db_endpoints_update (tbl_put ee_id r)"

abbreviation put_binding :: "egress_binding \<Rightarrow> database \<Rightarrow> database" where
  "put_binding r \<equiv> db_bindings_update (tbl_put eb_id r)"

abbreviation put_route :: "gateway_route_binding \<Rightarrow> database \<Rightarrow> database" where
  "put_route r \<equiv> db_routes_update (tbl_put gr_id r)"

definition add_audit :: "audit_log \<Rightarrow> database \<Rightarrow> database" where
  "add_audit a d = d\<lparr>db_audit := db_audit d @ [a]\<rparr>"

section \<open>Weakest preconditions of session calls\<close>

lemma ticked_simps [simp]:
  "se_work (ticked s) = se_work s" "se_store (ticked s) = se_store s"
  "se_lock_held (ticked s) = se_lock_held s" "se_world (ticked s) = se_world s"
  by (simp_all add: ticked_def)

lemma wp_db_now [wp]: "wpE (db_now X) Q E s = Q (do_now X (se_tick s)) (ticked s)"
  by (simp add: wpE_def db_now_def)

lemma wp_db_read [wp]:
  "wpE (db_read X f) Q E s = (case do_statement X (se_tick s) of
     Some e \<Rightarrow> E e (ticked s) | None \<Rightarrow> Q (f (se_work s)) (ticked s))"
  by (simp add: wpE_def db_read_def split: option.splits)

lemma wp_db_update [wp]: "wpE (db_update f) Q E = (\<lambda>s. Q () (s\<lparr>se_work := f (se_work s)\<rparr>))"
  by (simp add: db_update_def wp)

lemma wp_db_flush [wp]:
  "wpE (db_flush X) Q E s = (case do_statement X (se_tick s) of
     Some e \<Rightarrow> E e (ticked s)
   | None \<Rightarrow> if constraints_hold (se_work s) then Q () (ticked s) else E integrity_error (ticked s))"
  by (simp add: wpE_def db_flush_def split: option.splits)

lemma wp_db_commit [wp]:
  "wpE (db_commit X) Q E s =
     (if \<not> constraints_hold (se_work s) then E integrity_error (ticked s)
      else (case do_commit X (se_tick s) of
        None \<Rightarrow> Q () ((ticked s)\<lparr>se_store := se_work s\<rparr>)
      | Some (e, landed) \<Rightarrow> E e (if landed then (ticked s)\<lparr>se_store := se_work s\<rparr> else ticked s)))"
  by (simp add: wpE_def db_commit_def split: option.splits prod.splits)

lemma wp_db_rollback [wp]:
  "wpE (db_rollback X) Q E s = (case do_rollback X (se_tick s) of
     Some e \<Rightarrow> E e (ticked s) | None \<Rightarrow> Q () ((ticked s)\<lparr>se_work := se_store s\<rparr>))"
  by (simp add: wpE_def db_rollback_def split: option.splits)

lemma wp_db_nested [wp]:
  "wpE (db_nested m) Q E s = wpE m Q (\<lambda>e t. E e (t\<lparr>se_work := se_work s\<rparr>)) s"
  by (simp add: wpE_def db_nested_def split: prod.splits sum.splits)

lemma wp_db_probe [wp]:
  "wpE (db_probe X f) Q E s = (case do_statement X (se_tick s) of
     Some e \<Rightarrow> E e (ticked s) | None \<Rightarrow> Q (f (se_store s)) (ticked s))"
  by (simp add: wpE_def db_probe_def split: option.splits)

end
