(* ===== verification/Route_Lock.thy ===== *)
theory Route_Lock
  imports Platform_Database
begin

text \<open>
  The named lock around every write of the gateway routes (\<open>infra/gateway_route_lock.py\<close>).

  A dedicated connection takes and releases a MySQL named lock. \<open>w_locked\<close> says whether the
  server counts that connection as the holder; \<open>w_pool\<close> has one entry per connection returned to
  the pool, telling whether the server may still count it as the holder. An invalidated
  connection is discarded: the server drops its locks when the physical connection ends.
  \<open>w_applied\<close> records, for each change of the running gateway, whether the lock was held and what
  was committed at that moment. Closing a connection is taken not to raise.
\<close>

record 'g world =
  w_locked :: bool
  w_pool :: "bool list"
  w_gateway :: 'g
  w_applied :: "(bool \<times> database) list"

type_synonym ('g, 'a) gdb = "('g world, 'a) db"

text \<open>\<open>GET_LOCK\<close> answers 1, or 0 or NULL, or the call raises, granted or not.\<close>

datatype lock_reply = Granted | Refused string | GetRaised exn bool

datatype release_reply = Released | NotConfirmed | ReleaseRaised exn bool

record lock_oracle =
  lo_bind_error :: "nat \<Rightarrow> exn option"
  lo_connect_error :: "nat \<Rightarrow> exn option"
  lo_configure_error :: "nat \<Rightarrow> exn option"
  lo_database :: "exn + string option"
  lo_get :: "nat \<Rightarrow> lock_reply"
  lo_release :: "nat \<Rightarrow> release_reply"

abbreviation lock_error :: "string \<Rightarrow> exn" where
  "lock_error \<equiv> Exn GatewayRouteBindingLockError"

definition gateway_route_binding_lock_name :: "string option \<Rightarrow> exn + string" where
  "gateway_route_binding_lock_name database =
     (let missing = Inl (lock_error (''cannot derive a gateway route binding lock name: the database '' @
             ''engine URL has no database name'')) in
      case database of
        None \<Rightarrow> missing
      | Some db \<Rightarrow> if db = [] then missing else
          (let name = ''lingsway:'' @ db @ '':gateway-route-bindings-write'' in
           if 64 < length name
           then Inl (lock_error (''gateway route binding lock name exceeds MySQL's '' @
             ''64-character GET_LOCK() limit: '' @ py_repr name))
           else Inr name))"

definition tick_of :: "('w, nat) db" where
  "tick_of s = (Inr (se_tick s), ticked s)"

definition on_world :: "('w \<Rightarrow> 'w) \<Rightarrow> ('w, unit) db" where
  "on_world f = modifyE (\<lambda>s. s\<lparr>se_world := f (se_world s)\<rparr>)"

text \<open>Closing returns the connection to the pool, unless it was invalidated.\<close>

definition close_connection :: "bool \<Rightarrow> ('g, unit) gdb" where
  "close_connection invalidated = on_world (\<lambda>w.
     if invalidated then w\<lparr>w_locked := False\<rparr> else w\<lparr>w_pool := w_pool w @ [w_locked w], w_locked := False\<rparr>)"

text \<open>\<open>_get_lock\<close>: the result says whether the connection has to be invalidated.\<close>

definition get_lock :: "lock_oracle \<Rightarrow> string \<Rightarrow> ('g, (exn \<times> bool) option) gdb" where
  "get_lock L name = bindE tick_of (\<lambda>n. case lo_get L n of
     Granted \<Rightarrow> thenE (on_world (\<lambda>w. w\<lparr>w_locked := True\<rparr>)) (retE None)
   | Refused result \<Rightarrow> retE (Some (lock_error (''failed to acquire gateway route binding lock '' @ py_repr name @
        '': GET_LOCK returned '' @ result @ '' (0=timeout, NULL=error)''), False))
   | GetRaised exc granted \<Rightarrow> thenE (on_world (\<lambda>w. w\<lparr>w_locked := granted\<rparr>))
        (retE (Some (lock_error (''failed to acquire the gateway route binding lock '' @
           ''(connection state could not be confirmed)''), True))))"

text \<open>\<open>_release_lock\<close>: the exception to raise, and whether the connection was invalidated.\<close>

definition release_lock :: "lock_oracle \<Rightarrow> ('g, exn option \<times> bool) gdb" where
  "release_lock L = bindE tick_of (\<lambda>n. case lo_release L n of
     Released \<Rightarrow> thenE (on_world (\<lambda>w. w\<lparr>w_locked := False\<rparr>)) (retE (None, False))
   | NotConfirmed \<Rightarrow> retE (None, True)
   | ReleaseRaised exc released \<Rightarrow> thenE (on_world (\<lambda>w. w\<lparr>w_locked := (w_locked w \<and> \<not> released)\<rparr>)) (retE (Some exc, True)))"

definition lock_step :: "(nat \<Rightarrow> exn option) \<Rightarrow> string \<Rightarrow> ('g, unit) gdb" where
  "lock_step failure message = bindE tick_of (\<lambda>n. case failure n of
     None \<Rightarrow> retE () | Some _ \<Rightarrow> raiseE (lock_error message))"

text \<open>The block under the lock: the session is marked, and the lock released whatever happens.\<close>

definition locked_body :: "lock_oracle \<Rightarrow> ('g, 'a) gdb \<Rightarrow> ('g, 'a) gdb" where
  "locked_body L body =
     bindE (getsE se_lock_held) (\<lambda>previously_held.
     thenE (modifyE (\<lambda>s. s\<lparr>se_lock_held := True\<rparr>))
     (let finish = thenE (modifyE (\<lambda>s. s\<lparr>se_lock_held := previously_held\<rparr>))
          (bindE (release_lock L) (\<lambda>(exc, invalidated).
           thenE (close_connection invalidated)
           (case exc of None \<Rightarrow> retE () | Some e \<Rightarrow> raiseE e))) in
      finallyE body finish))"

definition gateway_route_binding_write :: "lock_oracle \<Rightarrow> ('g, 'a) gdb \<Rightarrow> ('g, 'a) gdb" where
  "gateway_route_binding_write L body =
     thenE (lock_step (lo_bind_error L) ''failed to resolve the gateway route binding lock's database engine'')
     (thenE (lock_step (lo_connect_error L) ''failed to open the dedicated gateway route binding lock connection'')
     (bindE tick_of (\<lambda>n. case lo_configure_error L n of
        Some _ \<Rightarrow> thenE (close_connection False)
          (raiseE (lock_error ''failed to configure the dedicated gateway route binding lock connection''))
      | None \<Rightarrow>
          (case (case lo_database L of
              Inl _ \<Rightarrow> Inl (lock_error ''failed to derive the gateway route binding lock name'')
            | Inr database \<Rightarrow> gateway_route_binding_lock_name database) of
             Inl exc \<Rightarrow> thenE (close_connection False) (raiseE exc)
           | Inr name \<Rightarrow>
               bindE (get_lock L name) (\<lambda>failure. case failure of
                 Some (exc, invalidate) \<Rightarrow> thenE (close_connection invalidate) (raiseE exc)
               | None \<Rightarrow> locked_body L body)))))"

definition session_holds_gateway_route_binding_lock :: "'w session \<Rightarrow> bool" where
  "session_holds_gateway_route_binding_lock s = se_lock_held s"

section \<open>Lemmas\<close>

lemma wp_tick_of [wp]: "wpE tick_of Q E s = Q (se_tick s) (ticked s)"
  by (simp add: wpE_def tick_of_def)

lemma wp_on_world [wp]: "wpE (on_world f) Q E = (\<lambda>s. Q () (s\<lparr>se_world := f (se_world s)\<rparr>))"
  by (simp add: on_world_def wp)

text \<open>
  The rule for code under the lock. It takes a postcondition of the acquisition failures, which
  change nothing but the pool, and one of the block, which starts with the lock held and the
  session marked and after which the lock is given back.
\<close>

definition unlocked_world :: "'g world \<Rightarrow> 'g world \<Rightarrow> bool" where
  "unlocked_world w w' \<longleftrightarrow> \<not> w_locked w' \<and> w_gateway w' = w_gateway w \<and> w_applied w' = w_applied w \<and>
     (w_pool w' = w_pool w \<or> w_pool w' = w_pool w @ [False])"

definition same_data :: "'g world session \<Rightarrow> 'g world session \<Rightarrow> bool" where
  "same_data s t \<longleftrightarrow> se_work t = se_work s \<and> se_store t = se_store s \<and> unlocked_world (se_world s) (se_world t)"

lemma same_data_simps:
  "same_data s (ticked t) \<longleftrightarrow> same_data s t"
  by (simp add: same_data_def)

text \<open>What holds once the lock is given back, whether or not the release raised.\<close>

definition after_release :: "bool \<Rightarrow> ('g world session \<Rightarrow> bool) \<Rightarrow> 'g world session \<Rightarrow> bool" where
  "after_release held P t \<longleftrightarrow> (\<forall>t'. same_data t t' \<longrightarrow> se_lock_held t' = held \<longrightarrow> P t')"

lemma wp_locked_body:
  assumes "wpE body (\<lambda>x. after_release (se_lock_held s) (\<lambda>t. Q x t \<and> (\<forall>e. E e t)))
     (\<lambda>e. after_release (se_lock_held s) (\<lambda>t. \<forall>e. E e t)) (s\<lparr>se_lock_held := True\<rparr>)"
  shows "wpE (locked_body L body) Q E s"
  unfolding locked_body_def Let_def release_lock_def close_connection_def wp
  by (rule wp_mono [OF assms])
    (auto simp: wp after_release_def same_data_def unlocked_world_def split: release_reply.splits)

definition acquired :: "'g world session \<Rightarrow> 'g world session \<Rightarrow> bool" where
  "acquired s t \<longleftrightarrow> se_work t = se_work s \<and> se_store t = se_store s \<and> se_lock_held t \<and>
     se_world t = (se_world s)\<lparr>w_locked := True\<rparr>"

lemma wp_route_lock:
  assumes "\<not> w_locked (se_world s)"
    and failed: "\<And>t message. same_data s t \<Longrightarrow> se_lock_held t = se_lock_held s \<Longrightarrow> E (lock_error message) t"
    and body: "\<And>t. acquired s t \<Longrightarrow>
       wpE body (\<lambda>x. after_release (se_lock_held s) (\<lambda>t. Q x t \<and> (\<forall>e. E e t)))
         (\<lambda>e. after_release (se_lock_held s) (\<lambda>t. \<forall>e. E e t)) t"
  shows "wpE (gateway_route_binding_write L body) Q E s"
proof -
  have name: "\<exists>message. exc = lock_error message" if "gateway_route_binding_lock_name db = Inl exc" for db exc
    using that by (auto simp: gateway_route_binding_lock_name_def Let_def split: option.splits if_splits)
  have run: "wpE (locked_body L body) Q E t"
    if "se_work t = se_work s" "se_store t = se_store s" "se_world t = (se_world s)\<lparr>w_locked := True\<rparr>" "se_lock_held t = se_lock_held s" for t
    using that by (intro wp_locked_body) (auto simp: acquired_def intro: body)
  show ?thesis
    unfolding gateway_route_binding_write_def lock_step_def get_lock_def close_connection_def
    using assms(1)
    by (auto simp: wp same_data_def unlocked_world_def intro!: run failed dest!: name
        split: option.splits sum.splits lock_reply.splits)
qed

end
