(* ===== verification/Json_Text.thy ===== *)
theory Json_Text
  imports Py_Values
begin

text \<open>
  \<open>json.loads\<close> on the texts the platform stores: objects, arrays, strings, integers, booleans and
  null. A number with a fraction or an exponent and an escape above Latin-1 have no value in the
  model; such a text is refused. The recursion is bounded by a fuel of twice the length of the
  text, which every document \<open>json.dumps\<close> prints needs at most (\<open>json_loads_text\<close>).
\<close>

definition json_space :: "char \<Rightarrow> bool" where
  "json_space c = (c = CHR 0x20 \<or> c = CHR 0x09 \<or> c = CHR 0x0A \<or> c = CHR 0x0D)"

definition skip_space :: "string \<Rightarrow> string" where
  "skip_space s = dropWhile json_space s"

definition hex_value :: "char \<Rightarrow> nat option" where
  "hex_value c = (let n = of_char c :: nat in
     if 48 \<le> n \<and> n \<le> 57 then Some (n - 48)
     else if 97 \<le> n \<and> n \<le> 102 then Some (n - 87)
     else if 65 \<le> n \<and> n \<le> 70 then Some (n - 55) else None)"

definition simple_escape :: "char \<Rightarrow> char option" where
  "simple_escape c =
     (if c = CHR 0x22 \<or> c = CHR 0x5C \<or> c = CHR ''/'' then Some c
      else if c = CHR ''b'' then Some (CHR 0x08)
      else if c = CHR ''t'' then Some (CHR 0x09)
      else if c = CHR ''n'' then Some (CHR 0x0A)
      else if c = CHR ''f'' then Some (CHR 0x0C)
      else if c = CHR ''r'' then Some (CHR 0x0D) else None)"

text \<open>\<open>unescape\<close> reads what follows a backslash: the character and the number of characters read.\<close>

definition unescape :: "string \<Rightarrow> (char \<times> nat) option" where
  "unescape s = (case s of
     [] \<Rightarrow> None
   | c # cs \<Rightarrow> (case simple_escape c of
       Some x \<Rightarrow> Some (x, 1)
     | None \<Rightarrow> (if c = CHR ''u'' then
          (case map hex_value (take 4 cs) of
             [Some a, Some b, Some p, Some q] \<Rightarrow>
               if a = 0 \<and> b = 0 then Some (char_of (16 * p + q), 5) else None
           | _ \<Rightarrow> None)
        else None)))"

function read_chars :: "string \<Rightarrow> (string \<times> string) option" where
  "read_chars s = (case s of
     [] \<Rightarrow> None
   | c # cs \<Rightarrow>
      (if c = CHR 0x22 then Some ([], cs)
       else if c = CHR 0x5C then
         (case unescape cs of
            None \<Rightarrow> None
          | Some (x, n) \<Rightarrow> map_option (\<lambda>(xs, r). (x # xs, r)) (read_chars (drop n cs)))
       else if (of_char c :: nat) < 32 then None
       else map_option (\<lambda>(xs, r). (c # xs, r)) (read_chars cs)))"
  by pat_completeness auto
termination by (relation "measure length") auto

declare read_chars.simps [simp del]

definition read_number :: "string \<Rightarrow> (pyval \<times> string) option" where
  "read_number s =
     (let neg = (case s of c # _ \<Rightarrow> c = CHR ''-'' | [] \<Rightarrow> False);
          body = (if neg then tl s else s);
          ds = takeWhile is_ascii_digit body; rest = dropWhile is_ascii_digit body in
      if ds = [] \<or> (hd ds = CHR ''0'' \<and> tl ds \<noteq> []) \<or>
         (rest \<noteq> [] \<and> (hd rest = CHR ''.'' \<or> hd rest = CHR ''e'' \<or> hd rest = CHR ''E'')) then None
      else map_option (\<lambda>n. (VInt (if neg then - int n else int n), rest)) (read_digits 0 ds))"

fun read_value :: "nat \<Rightarrow> string \<Rightarrow> (pyval \<times> string) option"
  and read_items :: "nat \<Rightarrow> string \<Rightarrow> (pyval list \<times> string) option"
  and read_members :: "nat \<Rightarrow> pyval dict \<Rightarrow> string \<Rightarrow> (pyval dict \<times> string) option" where
  "read_value 0 s = None"
| "read_value (Suc n) s =
     (case s of
        [] \<Rightarrow> None
      | c # cs \<Rightarrow>
         if c = CHR 0x22 then map_option (\<lambda>(x, r). (VStr x, r)) (read_chars cs)
         else if c = CHR 0x5B then
           (case skip_space cs of
              d # r \<Rightarrow> if d = CHR 0x5D then Some (VList [], r)
                 else map_option (\<lambda>(vs, t). (VList vs, t)) (read_items n (d # r))
            | [] \<Rightarrow> None)
         else if c = CHR 0x7B then
           (case skip_space cs of
              d # r \<Rightarrow> if d = CHR 0x7D then Some (VMap [], r)
                 else map_option (\<lambda>(m, t). (VMap m, t)) (read_members n [] (d # r))
            | [] \<Rightarrow> None)
         else if startswith s ''null'' then Some (VNone, drop 4 s)
         else if startswith s ''true'' then Some (VBool True, drop 4 s)
         else if startswith s ''false'' then Some (VBool False, drop 5 s)
         else read_number s)"
| "read_items 0 s = None"
| "read_items (Suc n) s =
     (case read_value n s of
        None \<Rightarrow> None
      | Some (v, r) \<Rightarrow> (case skip_space r of
          [] \<Rightarrow> None
        | d # t \<Rightarrow> if d = CHR 0x5D then Some ([v], t)
            else if d = CHR 0x2C then map_option (\<lambda>(vs, u). (v # vs, u)) (read_items n (skip_space t))
            else None))"
| "read_members 0 acc s = None"
| "read_members (Suc n) acc s =
     (case s of
        [] \<Rightarrow> None
      | c # cs \<Rightarrow>
        if c \<noteq> CHR 0x22 then None
        else (case read_chars cs of
          None \<Rightarrow> None
        | Some (k, r) \<Rightarrow> (case skip_space r of
            [] \<Rightarrow> None
          | d # t \<Rightarrow> if d \<noteq> CHR 0x3A then None
              else (case read_value n (skip_space t) of
                None \<Rightarrow> None
              | Some (v, u) \<Rightarrow> (case skip_space u of
                  [] \<Rightarrow> None
                | e # w \<Rightarrow> if e = CHR 0x7D then Some (dict_set acc k v, w)
                    else if e = CHR 0x2C then read_members n (dict_set acc k v) (skip_space w)
                    else None)))))"

definition json_loads :: "string \<Rightarrow> pyval option" where
  "json_loads s = (case read_value (2 * length s) (skip_space s) of
     Some (v, r) \<Rightarrow> if skip_space r = [] then Some v else None
   | None \<Rightarrow> None)"

section \<open>Reading back what was printed\<close>

lemma skip_space_id [simp]: "\<not> json_space c \<Longrightarrow> skip_space (c # s) = c # s"
  by (simp add: skip_space_def)

lemma skip_space_Nil [simp]: "skip_space [] = []"
  by (simp add: skip_space_def)

lemma hex_digit_value: "d < 16 \<Longrightarrow> hex_value (hex_digit d) = Some d"
  by (auto simp: hex_value_def hex_digit_def Let_def)

lemma code_point_lits:
  "(of_char c :: nat) = 8 \<longleftrightarrow> c = CHR 0x08" "(of_char c :: nat) = 9 \<longleftrightarrow> c = CHR 0x09"
  "(of_char c :: nat) = 10 \<longleftrightarrow> c = CHR 0x0A" "(of_char c :: nat) = 12 \<longleftrightarrow> c = CHR 0x0C"
  "(of_char c :: nat) = 13 \<longleftrightarrow> c = CHR 0x0D" "(of_char c :: nat) = 34 \<longleftrightarrow> c = CHR 0x22"
  "(of_char c :: nat) = 92 \<longleftrightarrow> c = CHR 0x5C"
  by (auto intro: of_char_eqI)

lemma hex_value_0: "hex_value CHR ''0'' = Some 0"
  by (simp add: hex_value_def)

lemma unescape_code:
  "unescape (CHR ''u'' # CHR ''0'' # CHR ''0'' # hex_digit ((of_char c :: nat) div 16) #
     hex_digit ((of_char c :: nat) mod 16) # s) = Some (c, 5)"
proof -
  have "(of_char c :: nat) < 256" by simp
  then have "(of_char c :: nat) div 16 < 16" by linarith
  then show ?thesis
    by (simp add: unescape_def simple_escape_def hex_digit_value hex_value_0)
qed

lemma read_escaped:
  "read_chars (escape_char c @ s) = map_option (\<lambda>(xs, r). (c # xs, r)) (read_chars s)"
proof (cases "(of_char c :: nat) < 32 \<or> 127 < (of_char c :: nat)")
  case True
  show ?thesis
  proof (cases "c \<in> {CHR 0x08, CHR 0x09, CHR 0x0A, CHR 0x0C, CHR 0x0D}")
    case True
    then show ?thesis
      by (subst read_chars.simps) (auto simp: escape_char_def unescape_def simple_escape_def)
  next
    case False
    with code_point_lits [of c] have other: "of_char c \<noteq> (8 :: nat)" "of_char c \<noteq> (9 :: nat)"
      "of_char c \<noteq> (10 :: nat)" "of_char c \<noteq> (12 :: nat)" "of_char c \<noteq> (13 :: nat)" by blast+
    moreover from \<open>_ < 32 \<or> _\<close> have "of_char c \<noteq> (34 :: nat)" "of_char c \<noteq> (92 :: nat)" by linarith+
    ultimately have "escape_char c = [CHR 0x5C, CHR ''u'', CHR ''0'', CHR ''0'',
        hex_digit (of_char c div 16), hex_digit (of_char c mod 16)]"
      using \<open>_ < 32 \<or> _\<close> unfolding escape_char_def Let_def by (simp only: if_True if_False simp_thms)
    then show ?thesis by (subst read_chars.simps) (simp add: unescape_code)
  qed
next
  case False
  then show ?thesis
    by (subst read_chars.simps)
      (auto simp: escape_char_def Let_def code_point_lits unescape_def simple_escape_def)
qed

lemma read_chars_printed:
  "read_chars (concat (map escape_char x) @ CHR 0x22 # s) = Some (x, s)"
proof (induction x)
  case Nil
  show ?case by (subst read_chars.simps) simp
next
  case (Cons c x)
  then show ?case by (simp add: read_escaped)
qed

definition ends_number :: "string \<Rightarrow> bool" where
  "ends_number s = (case s of [] \<Rightarrow> True
     | c # _ \<Rightarrow> \<not> is_ascii_digit c \<and> c \<noteq> CHR ''.'' \<and> c \<noteq> CHR ''e'' \<and> c \<noteq> CHR ''E'')"

lemma show_nat_no_leading_zero: "hd (show_nat n) = CHR ''0'' \<Longrightarrow> tl (show_nat n) = []"
proof (induction n rule: show_nat.induct)
  case (1 n)
  have zero: "show_nat m = [CHR ''0''] \<Longrightarrow> m = 0" for m
    using read_digits_show_nat [of m] by (simp add: is_ascii_digit_def)
  show ?case
  proof (cases "n < 10")
    case True
    then show ?thesis by (subst show_nat.simps) simp
  next
    case False
    then have split: "show_nat n = show_nat (n div 10) @ [digit_char (n mod 10)]"
      by (subst show_nat.simps) simp
    then have "hd (show_nat (n div 10)) = CHR ''0''"
      using "1.prems" by simp
    then have "show_nat (n div 10) = [CHR ''0'']"
      using "1.IH" False by (metis list.collapse show_nat_not_Nil)
    then have "n div 10 = 0" by (rule zero)
    with False show ?thesis by simp
  qed
qed

lemma read_number_printed:
  assumes "ends_number s"
  shows "read_number (show_int i @ s) = Some (VInt i, s)"
proof -
  have digits: "takeWhile is_ascii_digit (show_nat n @ s) = show_nat n"
    "dropWhile is_ascii_digit (show_nat n @ s) = s" for n
    using assms show_nat_digits [of n]
    by (auto simp: takeWhile_append2 dropWhile_append2 list_all_iff ends_number_def
        takeWhile_eq_Nil_iff dropWhile_eq_self_iff split: list.splits)
  have first: "case show_nat n @ s of c # _ \<Rightarrow> c \<noteq> CHR ''-'' | [] \<Rightarrow> True" for n
    using show_nat_digits [of n] by (cases "show_nat n") (auto simp: is_ascii_digit_def)
  have rest: "\<not> (s \<noteq> [] \<and> (hd s = CHR ''.'' \<or> hd s = CHR ''e'' \<or> hd s = CHR ''E''))"
    using assms by (auto simp: ends_number_def split: list.splits)
  show ?thesis
  proof (cases "i < 0")
    case True
    then show ?thesis
      using rest show_nat_no_leading_zero [of "nat (- i)"] show_nat_digits [of "nat (- i)"]
      by (auto simp: read_number_def show_int_def digits read_digits_show_nat Let_def list_all_iff)
  next
    case False
    moreover from first [of "nat i"]
    have "(case show_nat (nat i) @ s of c # _ \<Rightarrow> c = CHR ''-'' | [] \<Rightarrow> False) = False"
      by (auto split: list.splits)
    ultimately show ?thesis
      using rest show_nat_no_leading_zero [of "nat i"] show_nat_digits [of "nat i"]
      by (auto simp: read_number_def show_int_def digits read_digits_show_nat Let_def list_all_iff)
  qed
qed

text \<open>
  The fuel a document needs, and the length of its text. A value prints to a text that does not
  start with a blank or a closing bracket.
\<close>

fun depth_fuel :: "pyval \<Rightarrow> nat" where
  "depth_fuel (VList vs) = Suc (length vs + sum_list (map depth_fuel vs))"
| "depth_fuel (VMap d) = Suc (length d + sum_list (map (\<lambda>(k, v). depth_fuel v) d))"
| "depth_fuel v = 1"

fun distinct_keys :: "pyval \<Rightarrow> bool" where
  "distinct_keys (VList vs) = list_all distinct_keys vs"
| "distinct_keys (VMap d) = (distinct (map fst d) \<and> list_all (\<lambda>(k, v). distinct_keys v) d)"
| "distinct_keys v = True"

lemma json_text_first:
  "\<exists>c s. json_text v = c # s \<and> \<not> json_space c \<and> c \<noteq> CHR 0x5D"
proof (cases v)
  case (VInt i)
  show ?thesis
  proof (cases "i < 0")
    case False
    obtain c s where "show_nat (nat i) = c # s" by (cases "show_nat (nat i)") auto
    with show_nat_digits [of "nat i"] VInt False show ?thesis
      by (auto simp: show_int_def is_ascii_digit_def json_space_def)
  qed (use VInt in \<open>simp add: show_int_def json_space_def\<close>)
qed (auto simp: json_string_def json_space_def)

lemma read_members_step:
  assumes "read_value n (json_text v @ c # s) = Some (v, c # s)" and "\<not> json_space c"
  shows "read_members (Suc n) acc (json_string k @ '':'' @ json_text v @ c # s) =
    (if c = CHR 0x7D then Some (dict_set acc k v, s)
     else if c = CHR 0x2C then read_members n (dict_set acc k v) (skip_space s) else None)"
proof -
  obtain d t where "json_text v = d # t" "\<not> json_space d" using json_text_first [of v] by blast
  with assms show ?thesis
    by (simp add: json_string_def read_chars_printed json_space_def)
qed

lemma update_fresh: "k \<notin> fst ` set d \<Longrightarrow> dict_set d k v = d @ [(k, v)]"
  by (induction d) auto

lemma ends_number_punct [simp]: "ends_number (CHR 0x2C # s)" "ends_number (CHR 0x5D # s)" "ends_number (CHR 0x7D # s)"
  "ends_number []"
  by (simp_all add: ends_number_def is_ascii_digit_def)

lemma not_space_punct [simp]: "\<not> json_space (CHR 0x2C)" "\<not> json_space (CHR 0x5D)" "\<not> json_space (CHR 0x7D)"
  "\<not> json_space (CHR 0x22)" "\<not> json_space (CHR 0x3A)"
  by (simp_all add: json_space_def)

lemma skip_space_text [simp]: "skip_space (json_text v @ s) = json_text v @ s"
  using json_text_first [of v] by auto

lemma skip_space_items [simp]: "vs \<noteq> [] \<Longrightarrow> skip_space (join sep (map json_text vs) @ s) = join sep (map json_text vs) @ s"
  by (cases vs rule: remdups_adj.cases) auto

lemma read_items_printed:
  assumes "\<And>v n s. v \<in> set vs \<Longrightarrow> depth_fuel v \<le> n \<Longrightarrow> ends_number s \<Longrightarrow>
      read_value n (json_text v @ s) = Some (v, s)"
    and "length vs + sum_list (map depth_fuel vs) \<le> n" and "vs \<noteq> []"
  shows "read_items n (join '','' (map json_text vs) @ CHR 0x5D # s) = Some (vs, s)"
  using assms
proof (induction vs arbitrary: n)
  case (Cons v vs)
  then obtain m where n: "n = Suc m" by (cases n) auto
  show ?case
  proof (cases vs)
    case Nil
    with Cons.prems n show ?thesis by simp
  next
    case (Cons w ws)
    with Cons.IH [of m] Cons.prems n have
      "read_items m (join '','' (map json_text vs) @ CHR 0x5D # s) = Some (vs, s)" by simp
    moreover have "skip_space (join '','' (map json_text vs) @ CHR 0x5D # s) = join '','' (map json_text vs) @ CHR 0x5D # s"
      using Cons by (intro skip_space_items) simp
    ultimately show ?thesis
      using Cons.prems n Cons by simp
  qed
qed simp

abbreviation member_text :: "string \<times> pyval \<Rightarrow> string" where
  "member_text \<equiv> (\<lambda>(k, v). json_string k @ '':'' @ json_text v)"

lemma read_members_printed:
  assumes "\<And>k v n s. (k, v) \<in> set d \<Longrightarrow> depth_fuel v \<le> n \<Longrightarrow> ends_number s \<Longrightarrow>
      read_value n (json_text v @ s) = Some (v, s)"
    and "length d + sum_list (map (\<lambda>(k, v). depth_fuel v) d) \<le> n" and "d \<noteq> []"
    and "distinct (map fst (acc @ d))"
  shows "read_members n acc (join '','' (map member_text d) @ CHR 0x7D # s) = Some (acc @ d, s)"
  using assms
proof (induction d arbitrary: n acc)
  case (Cons kv d)
  obtain k v where kv: "kv = (k, v)" by (cases kv)
  from Cons.prems obtain m where n: "n = Suc m" by (cases n) auto
  have fresh: "dict_set acc k v = acc @ [(k, v)]" using Cons.prems kv by (auto intro: update_fresh)
  have reads: "read_value m (json_text v @ t) = Some (v, t)" if "ends_number t" for t
    using Cons.prems(2) kv n that by (intro Cons.prems(1) [of k]) auto
  show ?case
  proof (cases d)
    case Nil
    with read_members_step [OF reads, of "CHR 0x7D" s acc k] kv n fresh show ?thesis by simp
  next
    case (Cons kw ws)
    let ?rest = "join '','' (map member_text d) @ CHR 0x7D # s"
    have "read_members m (acc @ [(k, v)]) ?rest = Some ((acc @ [(k, v)]) @ d, s)"
      using Cons.prems kv n Cons by (intro Cons.IH) auto
    moreover have "skip_space ?rest = ?rest"
      using Cons by (cases kw; cases ws) (simp_all add: json_string_def)
    moreover have "join '','' (map member_text (kv # d)) @ CHR 0x7D # s =
        json_string k @ '':'' @ json_text v @ CHR 0x2C # ?rest"
      using Cons kv by simp
    ultimately show ?thesis
      using read_members_step [OF reads, of "CHR 0x2C" ?rest acc k] n fresh kv by simp
  qed
qed simp

lemma read_value_printed:
  "distinct_keys v \<Longrightarrow> depth_fuel v \<le> n \<Longrightarrow> ends_number s \<Longrightarrow> read_value n (json_text v @ s) = Some (v, s)"
proof (induction v arbitrary: n s)
  case (VInt i)
  then obtain m where n: "n = Suc m" by (cases n) auto
  obtain c t where c: "show_int i = c # t" "c = CHR ''-'' \<or> is_ascii_digit c"
    using show_nat_digits [of "nat i"] by (cases "i < 0"; cases "show_nat (nat i)") (auto simp: show_int_def)
  then have "c \<noteq> CHR 0x22" "c \<noteq> CHR 0x5B" "c \<noteq> CHR 0x7B" "c \<noteq> CHR ''n''" "c \<noteq> CHR ''t''" "c \<noteq> CHR ''f''"
    by (auto simp: is_ascii_digit_def)
  with read_number_printed [OF VInt(3), of i] n c(1) show ?case by simp
next
  case (VList vs)
  then obtain m where n: "n = Suc m" by (cases n) auto
  show ?case
  proof (cases "vs = []")
    case False
    obtain w ws where vs: "vs = w # ws" using False by (cases vs) auto
    obtain c t where c: "json_text w = c # t" "\<not> json_space c" "c \<noteq> CHR 0x5D"
      using json_text_first [of w] by blast
    obtain u where u: "join '','' (map json_text vs) = c # u"
      using vs c by (cases ws) simp_all
    moreover have "read_items m (join '','' (map json_text vs) @ CHR 0x5D # s) = Some (vs, s)"
      using VList n False by (intro read_items_printed) (auto simp: list_all_iff)
    ultimately show ?thesis using n c by (simp add: u)
  qed (use n in simp)
next
  case (VMap d)
  then obtain m where n: "n = Suc m" by (cases n) auto
  show ?case
  proof (cases "d = []")
    case False
    obtain k v ws where d: "d = (k, v) # ws" using False by (cases d) auto
    obtain u where u: "join '','' (map member_text d) = CHR 0x22 # u"
      using d by (cases ws) (simp_all add: json_string_def)
    moreover have "read_members m [] (join '','' (map member_text d) @ CHR 0x7D # s) = Some ([] @ d, s)"
      using VMap n False by (intro read_members_printed) (auto simp: list_all_iff)
    ultimately show ?thesis using n by (simp add: u)
  qed (use n in simp)
next
  case (VStr x)
  then obtain m where n: "n = Suc m" by (cases n) auto
  then show ?case by (simp add: json_string_def read_chars_printed)
next
  case VNone
  then obtain m where n: "n = Suc m" by (cases n) auto
  then show ?case by simp
next
  case (VBool b)
  then obtain m where n: "n = Suc m" by (cases n) auto
  then show ?case by simp
qed

lemma length_join: "length (join [c] ss) = sum_list (map length ss) + (length ss - 1)"
proof (induction ss)
  case (Cons s ss)
  then show ?case by (cases ss) auto
qed simp

lemma sum_list_bound:
  "(\<And>x. x \<in> set xs \<Longrightarrow> f x \<le> (2 :: nat) * g x) \<Longrightarrow> sum_list (map f xs) \<le> 2 * sum_list (map g xs)"
proof (induction xs)
  case (Cons x xs)
  then have "f x \<le> 2 * g x" "sum_list (map f xs) \<le> 2 * sum_list (map g xs)" by simp_all
  then show ?case by simp
qed simp

lemma depth_fuel_length: "Suc (depth_fuel v) \<le> 2 * length (json_text v)"
proof (induction v)
  case (VInt i)
  then show ?case by (cases "show_int i") (auto simp: show_int_def split: if_splits)
next
  case (VList vs)
  have "sum_list (map (\<lambda>v. Suc (depth_fuel v)) vs) \<le> 2 * sum_list (map (\<lambda>v. length (json_text v)) vs)"
    using VList by (rule sum_list_bound)
  then show ?case by (simp add: length_join sum_list_addf comp_def sum_list_Suc)
next
  case (VMap d)
  have "sum_list (map (\<lambda>kv. Suc (depth_fuel (snd kv))) d) \<le> 2 * sum_list (map (\<lambda>kv. length (member_text kv)) d)"
  proof (rule sum_list_bound)
    fix kv assume "kv \<in> set d"
    with VMap [of kv "snd kv"] show "Suc (depth_fuel (snd kv)) \<le> 2 * length (member_text kv)"
      by (cases kv) auto
  qed
  then show ?case by (simp add: length_join comp_def case_prod_unfold sum_list_Suc)
qed (auto simp: json_string_def)

lemma json_loads_text: "distinct_keys v \<Longrightarrow> json_loads (json_text v) = Some v"
  using read_value_printed [of v "2 * length (json_text v)" "[]"] depth_fuel_length [of v]
    skip_space_text [of v "[]"]
  by (simp add: json_loads_def)

end
