(* ===== verification/Xray_Composition.thy ===== *)
theory Xray_Composition
  imports Provider_Types Py_Values
begin

text \<open>
  Composition and validation of the repository-owned Xray file
  (\<open>backend/app/providers/gateway/xray_composition.py\<close>).

  An \<open>XrayCompositionError\<close> is its message, so the operations return \<open>string + 'a\<close>. The three
  validated inputs (skeleton, deployment, Reality identity) are records built only by the
  operations that model their constructors.
\<close>

section \<open>Inputs\<close>

definition allowed_log_levels :: "string list" where
  "allowed_log_levels = [''debug'', ''info'', ''warning'', ''error'', ''none'']"

definition normalize_log_level :: "pyval \<Rightarrow> string + string" where
  "normalize_log_level v = (case v of
     VStr s \<Rightarrow> (let normalized = lower (strip s) in
        if normalized \<in> set allowed_log_levels then Inr normalized else Inl ''XRAY_LOG_LEVEL is invalid'')
   | _ \<Rightarrow> Inl ''XRAY_LOG_LEVEL is invalid'')"

record static_inbound =
  si_listen :: string
  si_port :: int
  si_protocol :: string

type_synonym xray_static_skeleton = "static_inbound list"

text \<open>\<open>from_template\<close> hands over mappings only; its check refuses every other value first.\<close>

definition project_inbound :: "pyval \<Rightarrow> string + static_inbound" where
  "project_inbound v = (case v of
     VMap d \<Rightarrow>
       bindS (nonblank_string (vget d ''listen'') ''static inbound listen is invalid'') (\<lambda>l.
       bindS (valid_port (vget d ''port'') ''static inbound port is invalid'') (\<lambda>p.
       bindS (nonblank_string (vget d ''protocol'') ''static inbound protocol is invalid'') (\<lambda>pr.
       Inr \<lparr>si_listen = l, si_port = p, si_protocol = pr\<rparr>)))
   | _ \<Rightarrow> Inl ''static inbound listen is invalid'')"

definition xray_static_skeleton :: "pyval list \<Rightarrow> string + xray_static_skeleton" where
  "xray_static_skeleton inbounds =
     (if inbounds = [] then Inl ''Xray template must contain an inbound'' else mapS project_inbound inbounds)"

definition check_template_inbound :: "pyval \<Rightarrow> string + unit" where
  "check_template_inbound v =
     bindS (as_mapping v ''Xray template inbound must be an object'') (\<lambda>inbound.
     thenS (check_keys inbound [''tag'', ''listen'', ''port'', ''protocol'', ''settings'', ''streamSettings'']
              ''Xray template inbound contains unknown fields'')
     (bindS (nonblank_string (vget inbound ''tag'') ''Xray template inbound tag is invalid'') (\<lambda>_.
     bindS (nonblank_string (vget inbound ''listen'') ''static inbound listen is invalid'') (\<lambda>_.
     bindS (valid_port (vget inbound ''port'') ''static inbound port is invalid'') (\<lambda>_.
     bindS (nonblank_string (vget inbound ''protocol'') ''static inbound protocol is invalid'') (\<lambda>_.
     bindS (as_mapping (vget inbound ''settings'') ''Xray template inbound settings is invalid'') (\<lambda>settings.
     thenS (check_keys settings [''clients'', ''decryption''] ''Xray template settings contains unknown fields'')
     (thenS (require (py_eq (vget settings ''clients'') (VList [])) ''Xray template clients skeleton must be empty'')
     (bindS (nonblank_string (vget settings ''decryption'') ''Xray template decryption is invalid'') (\<lambda>_.
     bindS (as_mapping (vget inbound ''streamSettings'') ''Xray template streamSettings is invalid'') (\<lambda>stream.
     thenS (check_keys stream [''network'', ''security'', ''realitySettings'']
              ''Xray template streamSettings contains unknown fields'')
     (bindS (nonblank_string (vget stream ''network'') ''Xray template network is invalid'') (\<lambda>_.
     bindS (nonblank_string (vget stream ''security'') ''Xray template security is invalid'') (\<lambda>_.
     bindS (as_mapping (vget stream ''realitySettings'') ''Xray template realitySettings is invalid'') (\<lambda>reality.
     thenS (check_keys reality [''show'', ''dest'', ''xver'', ''serverNames'', ''privateKey'', ''shortIds'']
              ''Xray template realitySettings contains unknown fields'')
     (thenS (require (is_bool (vget reality ''show'')) ''Xray template Reality show is invalid'')
     (thenS (require (is_int (vget reality ''xver'')) ''Xray template Reality xver is invalid'')
     (thenS (require (is_str (vget reality ''dest'')) ''Xray template Reality dest is invalid'')
     (thenS (string_list (vget reality ''serverNames'') True ''Xray template Reality serverNames is invalid'')
     (thenS (require (is_str (vget reality ''privateKey'')) ''Xray template Reality privateKey is invalid'')
     (string_list (vget reality ''shortIds'') True ''Xray template Reality shortIds is invalid'')))))))))))))))))))))"

definition from_template :: "pyval dict \<Rightarrow> string + xray_static_skeleton" where
  "from_template template =
     thenS (check_keys template [''log'', ''inbounds'', ''outbounds'', ''routing'']
              ''Xray template contains unknown top-level fields'')
     (bindS (as_mapping (vget template ''log'') ''Xray template log must be an object'') (\<lambda>log.
     thenS (check_keys log [''loglevel''] ''Xray template log contains unknown fields'')
     (bindS (nonblank_string (vget log ''loglevel'') ''Xray template loglevel is invalid'') (\<lambda>_.
     thenS (require (list_items (vget template ''inbounds'') \<noteq> []) ''Xray template inbounds must be a non-empty list'')
     (thenS (each check_template_inbound (list_items (vget template ''inbounds'')))
     (thenS (require (vget template ''outbounds'' = VList []) ''Xray template outbounds must be the empty list'')
     (bindS (as_mapping (vget template ''routing'') ''Xray template routing must be an object'') (\<lambda>routing.
     thenS (check_keys routing [''domainStrategy'', ''rules''] ''Xray template routing contains unknown fields'')
     (bindS (nonblank_string (vget routing ''domainStrategy'') ''Xray template domainStrategy is invalid'') (\<lambda>_.
     thenS (require (py_eq (vget routing ''rules'') (VList [])) ''Xray template routing rules must be the empty list'')
     (xray_static_skeleton (list_items (vget template ''inbounds'')))))))))))))"

record xray_deployment_config =
  dc_log_level :: string
  dc_reality_dest :: string
  dc_server_names :: "string list"

definition deployment_config :: "string \<Rightarrow> string \<Rightarrow> string list \<Rightarrow> string + xray_deployment_config" where
  "deployment_config log_level dest server_names =
     bindS (normalize_log_level (VStr log_level)) (\<lambda>level.
     bindS (nonblank_string (VStr dest) ''XRAY_REALITY_DEST is required'') (\<lambda>d.
     (let names = map strip (filter (\<lambda>s. nonblank s) server_names) in
      if names = [] \<or> length names \<noteq> length server_names
      then Inl ''XRAY_REALITY_SERVER_NAME is required''
      else Inr \<lparr>dc_log_level = level, dc_reality_dest = strip d, dc_server_names = names\<rparr>)))"

record xray_reality_config =
  rc_private_key :: string
  rc_short_ids :: "string list"

definition reality_config :: "string \<Rightarrow> string list \<Rightarrow> string + xray_reality_config" where
  "reality_config private_key short_ids =
     bindS (nonblank_string (VStr private_key) ''Reality privateKey is invalid'') (\<lambda>key.
     (let ids = filter (\<lambda>s. nonblank s) short_ids in
      if ids = [] \<or> length ids \<noteq> length short_ids then Inl ''Reality shortIds are invalid''
      else Inr \<lparr>rc_private_key = key, rc_short_ids = ids\<rparr>))"

record xray_full_config_input =
  xi_skeleton :: xray_static_skeleton
  xi_deployment :: xray_deployment_config
  xi_reality :: xray_reality_config
  xi_desired :: desired_routing_state
  xi_credentials :: "credential_dto dict"

section \<open>Composition\<close>

definition block_outbound :: pyval where
  "block_outbound = VMap [(''tag'', VStr ''BLOCK''), (''protocol'', VStr ''blackhole'')]"

definition socks_outbound :: "string \<Rightarrow> string \<Rightarrow> int \<Rightarrow> string \<Rightarrow> string \<Rightarrow> pyval" where
  "socks_outbound tag host port username password =
     VMap [(''tag'', VStr tag), (''protocol'', VStr ''socks''),
       (''settings'', VMap [(''servers'', VList [VMap [(''address'', VStr host), (''port'', VInt port),
          (''users'', VList [VMap [(''username'', VStr username), (''password'', VStr password)]])]])])]"

definition compose_outbound ::
  "credential_dto dict \<Rightarrow> string list \<Rightarrow> xray_outbound_dto \<Rightarrow> string + pyval" where
  "compose_outbound creds tags out =
     bindS (nonblank_string (VStr (xo_tag out)) ''invalid desired outbound tag'') (\<lambda>tag.
     thenS (require (tag \<noteq> ''BLOCK'' \<and> tag \<notin> set tags) ''invalid or duplicate desired outbound tag'')
     (bindS (nonblank_string (VStr (xo_host out)) ''invalid desired outbound host'') (\<lambda>host.
     bindS (valid_port (VInt (xo_port out)) ''invalid desired outbound port'') (\<lambda>port.
     bindS (nonblank_string (VStr (xo_protocol out)) ''invalid desired outbound protocol'') (\<lambda>protocol.
     thenS (require (lower protocol = ''socks'' \<or> lower protocol = ''socks5'') ''unsupported desired outbound protocol'')
     (case dict_get creds (xo_credential_secret_ref out) of
        None \<Rightarrow> Inl ''missing resolved outbound credential''
      | Some credential \<Rightarrow>
          bindS (nonblank_string (VStr (cr_username credential)) ''resolved outbound username is invalid'') (\<lambda>username.
          bindS (nonblank_string (VStr (cr_password credential)) ''resolved outbound password is invalid'') (\<lambda>password.
          Inr (socks_outbound tag host port username password)))))))))"

fun compose_outbounds ::
  "credential_dto dict \<Rightarrow> string list \<Rightarrow> xray_outbound_dto list \<Rightarrow> string + pyval list" where
  "compose_outbounds creds tags [] = Inr []"
| "compose_outbounds creds tags (out # outs) =
     bindS (compose_outbound creds tags out) (\<lambda>v.
     bindS (compose_outbounds creds (xo_tag out # tags) outs) (\<lambda>vs. Inr (v # vs)))"

definition private_rule :: pyval where
  "private_rule = VMap [(''type'', VStr ''field''), (''ip'', VList [VStr ''geoip:private'']),
     (''outboundTag'', VStr ''BLOCK'')]"

definition fallback_rule :: pyval where
  "fallback_rule = VMap [(''type'', VStr ''field''), (''network'', VStr ''tcp,udp''),
     (''outboundTag'', VStr ''BLOCK'')]"

definition user_rule :: "string \<Rightarrow> string \<Rightarrow> pyval" where
  "user_rule user target = VMap [(''type'', VStr ''field''), (''user'', VList [VStr user]),
     (''outboundTag'', VStr target)]"

definition compose_rule :: "string list \<Rightarrow> string \<times> string \<Rightarrow> string + pyval" where
  "compose_rule tags route = (case route of (user, target) \<Rightarrow>
     if \<not> nonblank user \<or> \<not> nonblank target \<or> target = ''BLOCK'' \<or> target \<notin> set tags
     then Inl ''desired route references missing outbound''
     else Inr (user_rule user target))"

definition compose_inbound :: "xray_deployment_config \<Rightarrow> xray_reality_config \<Rightarrow> static_inbound \<Rightarrow> pyval" where
  "compose_inbound dep reality static =
     VMap [(''tag'', VStr ''vless-reality''), (''listen'', VStr (si_listen static)),
       (''port'', VInt (si_port static)), (''protocol'', VStr (si_protocol static)),
       (''settings'', VMap [(''clients'', VList []), (''decryption'', VStr ''none'')]),
       (''streamSettings'', VMap [(''network'', VStr ''tcp''), (''security'', VStr ''reality''),
         (''realitySettings'', VMap [(''show'', VBool False), (''dest'', VStr (dc_reality_dest dep)),
            (''xver'', VInt 0), (''serverNames'', VList (map VStr (dc_server_names dep))),
            (''privateKey'', VStr (rc_private_key reality)), (''shortIds'', VList (map VStr (rc_short_ids reality)))])])]"

definition compose_xray_config :: "xray_full_config_input \<Rightarrow> string + pyval dict" where
  "compose_xray_config i =
     (let desired = xi_desired i; tags = map xo_tag (dr_outbounds desired) in
     bindS (compose_outbounds (xi_credentials i) [] (dr_outbounds desired)) (\<lambda>outs.
     bindS (mapS (compose_rule tags) (sorted_items (dr_user_routes desired))) (\<lambda>routes.
     Inr [(''log'', VMap [(''loglevel'', VStr (dc_log_level (xi_deployment i)))]),
       (''inbounds'', VList (map (compose_inbound (xi_deployment i) (xi_reality i)) (xi_skeleton i))),
       (''outbounds'', VList (block_outbound # outs)),
       (''routing'', VMap [(''domainStrategy'', VStr ''AsIs''),
          (''rules'', VList (private_rule # routes @ [fallback_rule]))])])))"

section \<open>Validation\<close>

definition check_owned_inbound :: "pyval \<Rightarrow> string + unit" where
  "check_owned_inbound v =
     bindS (as_mapping v ''repo-owned Xray inbound is malformed'') (\<lambda>inbound.
     thenS (check_keys inbound [''tag'', ''listen'', ''port'', ''protocol'', ''settings'', ''streamSettings'']
              ''repo-owned Xray inbound contains unknown fields'')
     (thenS (require (py_eq (vget inbound ''tag'') (VStr ''vless-reality'')) ''repo-owned Xray inbound tag is invalid'')
     (bindS (nonblank_string (vget inbound ''listen'') ''repo-owned Xray inbound listen is invalid'') (\<lambda>_.
     bindS (valid_port (vget inbound ''port'') ''repo-owned Xray inbound port is invalid'') (\<lambda>_.
     bindS (nonblank_string (vget inbound ''protocol'') ''repo-owned Xray inbound protocol is invalid'') (\<lambda>_.
     bindS (as_mapping (vget inbound ''settings'') ''repo-owned Xray inbound settings are malformed'') (\<lambda>settings.
     thenS (check_keys settings [''clients'', ''decryption''] ''repo-owned Xray inbound settings contain unknown fields'')
     (thenS (require (py_eq (vget settings ''clients'') (VList [])) ''repo-owned Xray clients skeleton is invalid'')
     (thenS (require (py_eq (vget settings ''decryption'') (VStr ''none'')) ''repo-owned Xray decryption is invalid'')
     (bindS (as_mapping (vget inbound ''streamSettings'') ''repo-owned Xray streamSettings are malformed'') (\<lambda>stream.
     thenS (check_keys stream [''network'', ''security'', ''realitySettings'']
              ''repo-owned Xray streamSettings contain unknown fields'')
     (thenS (require (py_eq (vget stream ''network'') (VStr ''tcp'')) ''repo-owned Xray network is invalid'')
     (thenS (require (py_eq (vget stream ''security'') (VStr ''reality'')) ''repo-owned Xray security is invalid'')
     (bindS (as_mapping (vget stream ''realitySettings'') ''repo-owned Xray Reality settings are malformed'') (\<lambda>reality.
     thenS (check_keys reality [''show'', ''dest'', ''xver'', ''serverNames'', ''privateKey'', ''shortIds'']
              ''repo-owned Xray Reality settings contain unknown fields'')
     (thenS (require (vget reality ''show'' = VBool False) ''repo-owned Xray Reality show is invalid'')
     (thenS (require (py_eq (vget reality ''xver'') (VInt 0)) ''repo-owned Xray Reality xver is invalid'')
     (bindS (nonblank_string (vget reality ''dest'') ''repo-owned Xray Reality dest is invalid'') (\<lambda>_.
     thenS (string_list (vget reality ''serverNames'') False ''repo-owned Xray Reality serverNames are invalid'')
     (bindS (nonblank_string (vget reality ''privateKey'') ''repo-owned Xray Reality identity is invalid'') (\<lambda>_.
     string_list (vget reality ''shortIds'') False ''repo-owned Xray Reality identity is invalid'')))))))))))))))))))))"

definition check_socks_outbound :: "pyval dict \<Rightarrow> string + unit" where
  "check_socks_outbound outbound =
     thenS (check_keys outbound [''tag'', ''protocol'', ''settings''] ''repo-owned Xray outbound contains unknown fields'')
     (thenS (require (py_eq (vget outbound ''protocol'') (VStr ''socks'')) ''unsupported repo-owned Xray outbound protocol'')
     (bindS (as_mapping (vget outbound ''settings'') ''repo-owned Xray outbound settings are malformed'') (\<lambda>settings.
     thenS (check_keys settings [''servers''] ''repo-owned Xray outbound settings contain unknown fields'')
     (thenS (require (is_list (vget settings ''servers'') \<and> length (list_items (vget settings ''servers'')) = 1)
              ''repo-owned Xray outbound servers are malformed'')
     (bindS (as_mapping (hd (list_items (vget settings ''servers''))) ''repo-owned Xray outbound server is malformed'') (\<lambda>server.
     thenS (check_keys server [''address'', ''port'', ''users''] ''repo-owned Xray server is malformed'')
     (bindS (nonblank_string (vget server ''address'') ''repo-owned Xray outbound host is invalid'') (\<lambda>_.
     bindS (valid_port (vget server ''port'') ''repo-owned Xray outbound port is invalid'') (\<lambda>_.
     thenS (require (is_list (vget server ''users'') \<and> length (list_items (vget server ''users'')) = 1)
              ''repo-owned Xray outbound users are malformed'')
     (bindS (as_mapping (hd (list_items (vget server ''users''))) ''repo-owned Xray outbound credential is malformed'') (\<lambda>user.
     thenS (check_keys user [''username'', ''password''] ''repo-owned Xray credential is malformed'')
     (bindS (nonblank_string (vget user ''username'') ''repo-owned Xray credential is invalid'') (\<lambda>_.
     bindS (nonblank_string (vget user ''password'') ''repo-owned Xray credential is invalid'') (\<lambda>_.
     Inr ()))))))))))))))"

text \<open>The loop over the outbounds: \<open>first\<close> is \<open>index == 0\<close>; returns the tags seen.\<close>

definition check_owned_outbound :: "bool \<Rightarrow> string list \<Rightarrow> pyval \<Rightarrow> string + string" where
  "check_owned_outbound first tags v =
     bindS (as_mapping v ''repo-owned Xray outbound is malformed'') (\<lambda>outbound.
     bindS (nonblank_string (vget outbound ''tag'') ''repo-owned Xray outbound tag is invalid'') (\<lambda>tag.
     thenS (require (tag \<notin> set tags) ''repo-owned Xray outbound tag is invalid'')
     (thenS (require (tag \<noteq> ''DIRECT'') ''DIRECT fallback is not permitted'')
     (if first then
        thenS (check_keys outbound [''tag'', ''protocol''] ''repo-owned Xray BLOCK outbound is malformed'')
        (thenS (require (tag = ''BLOCK'' \<and> py_eq (vget outbound ''protocol'') (VStr ''blackhole''))
                 ''repo-owned Xray BLOCK outbound is invalid'')
        (Inr tag))
      else thenS (check_socks_outbound outbound) (Inr tag)))))"

fun check_owned_outbounds :: "bool \<Rightarrow> string list \<Rightarrow> pyval list \<Rightarrow> string + string list" where
  "check_owned_outbounds first tags [] = Inr tags"
| "check_owned_outbounds first tags (v # vs) =
     bindS (check_owned_outbound first tags v) (\<lambda>tag. check_owned_outbounds False (tag # tags) vs)"

definition check_owned_rule :: "string list \<Rightarrow> string list \<Rightarrow> pyval \<Rightarrow> string + string" where
  "check_owned_rule tags principals v =
     bindS (as_mapping v ''repo-owned Xray routing rule is malformed'') (\<lambda>rule.
     thenS (check_keys rule [''type'', ''user'', ''outboundTag''] ''repo-owned Xray route is malformed'')
     (thenS (require (py_eq (vget rule ''type'') (VStr ''field'')) ''repo-owned Xray route type is invalid'')
     (case vget rule ''user'' of
        VList [VStr user] \<Rightarrow>
          thenS (require (nonblank user \<and> user \<notin> set principals) ''repo-owned Xray route principal is invalid'')
          (case vget rule ''outboundTag'' of
             VStr target \<Rightarrow>
               thenS (require (nonblank target \<and> target \<noteq> ''BLOCK'' \<and> target \<in> set tags)
                        ''repo-owned Xray route references missing outbound'')
               (thenS (require (target \<noteq> ''DIRECT'') ''DIRECT fallback is not permitted'')
               (Inr user))
           | _ \<Rightarrow> Inl ''repo-owned Xray route references missing outbound'')
      | _ \<Rightarrow> Inl ''repo-owned Xray route principal is invalid'')))"

fun check_owned_rules :: "string list \<Rightarrow> string list \<Rightarrow> pyval list \<Rightarrow> string + unit" where
  "check_owned_rules tags principals [] = Inr ()"
| "check_owned_rules tags principals (v # vs) =
     bindS (check_owned_rule tags principals v) (\<lambda>user. check_owned_rules tags (user # principals) vs)"

definition check_owned_routing :: "string list \<Rightarrow> pyval \<Rightarrow> string + unit" where
  "check_owned_routing tags v =
     bindS (as_mapping v ''repo-owned Xray routing is malformed'') (\<lambda>routing.
     thenS (check_keys routing [''domainStrategy'', ''rules''] ''repo-owned Xray routing contains unknown fields'')
     (thenS (require (py_eq (vget routing ''domainStrategy'') (VStr ''AsIs'')) ''repo-owned Xray domainStrategy is invalid'')
     (let rules = list_items (vget routing ''rules'') in
      thenS (require (is_list (vget routing ''rules'') \<and> 2 \<le> length rules) ''repo-owned Xray routing rules are malformed'')
      (thenS (require (py_eq (hd rules) private_rule) ''repo-owned Xray private BLOCK rule must be first'')
      (thenS (require (py_eq (last rules) fallback_rule) ''repo-owned Xray tcp,udp BLOCK rule must be last'')
      (check_owned_rules tags [] (butlast (tl rules))))))))"

definition validate_repo_owned :: "pyval \<Rightarrow> string + unit" where
  "validate_repo_owned config =
     bindS (as_mapping config ''repo-owned Xray config must be an object'') (\<lambda>cfg.
     thenS (check_keys cfg [''log'', ''inbounds'', ''outbounds'', ''routing'']
              ''repo-owned Xray config contains unknown top-level fields'')
     (bindS (as_mapping (vget cfg ''log'') ''repo-owned Xray log is malformed'') (\<lambda>log.
     thenS (check_keys log [''loglevel''] ''repo-owned Xray log contains unknown fields'')
     (bindS (normalize_log_level (vget log ''loglevel'')) (\<lambda>_.
     thenS (require (list_items (vget cfg ''inbounds'') \<noteq> []) ''repo-owned Xray inbounds are malformed'')
     (thenS (each check_owned_inbound (list_items (vget cfg ''inbounds'')))
     (thenS (require (list_items (vget cfg ''outbounds'') \<noteq> []) ''repo-owned Xray outbounds are malformed'')
     (bindS (check_owned_outbounds True [] (list_items (vget cfg ''outbounds''))) (\<lambda>tags.
     thenS (require (''BLOCK'' \<in> set tags) ''repo-owned Xray BLOCK outbound is missing'')
     (check_owned_routing tags (vget cfg ''routing'')))))))))))"

definition validate_repo_owned_xray_config :: "pyval \<Rightarrow> string list" where
  "validate_repo_owned_xray_config config =
     (case validate_repo_owned config of Inl msg \<Rightarrow> [msg] | Inr _ \<Rightarrow> [])"

definition repo_owned_xray_projection :: "pyval \<Rightarrow> string + string" where
  "repo_owned_xray_projection config = (case validate_repo_owned_xray_config config of
     msg # _ \<Rightarrow> Inl msg | [] \<Rightarrow> Inr (json_dumps config))"

text \<open>SHA-256 is a parameter.\<close>

definition repo_owned_xray_fingerprint :: "(string \<Rightarrow> string) \<Rightarrow> pyval \<Rightarrow> string + string" where
  "repo_owned_xray_fingerprint sha256 config =
     bindS (repo_owned_xray_projection config) (\<lambda>text. Inr (sha256 text))"

definition section_of :: "pyval \<Rightarrow> string \<Rightarrow> pyval" where
  "section_of v k = (case v of VMap d \<Rightarrow> vget d k | _ \<Rightarrow> VNone)"

definition repo_owned_projection_errors :: "pyval \<Rightarrow> pyval \<Rightarrow> string list" where
  "repo_owned_projection_errors expected observed =
     (if validate_repo_owned_xray_config expected \<noteq> [] then [''candidate repo-owned Xray config is invalid'']
      else if validate_repo_owned_xray_config observed \<noteq> [] then [''observed repo-owned Xray config is invalid'']
      else (let mismatches = map (\<lambda>s. ''repo-owned '' @ s @ '' mismatch'')
                  (filter (\<lambda>s. \<not> py_eq (section_of expected s) (section_of observed s))
                    [''log'', ''inbounds'', ''outbounds'', ''routing'']) in
        if mismatches \<noteq> [] then mismatches
        else if repo_owned_xray_projection expected \<noteq> repo_owned_xray_projection observed
        then [''repo-owned Xray projection mismatch'']
        else []))"

section \<open>What an accepted file does\<close>

text \<open>
  Xray takes the first rule whose conditions all hold and, when there is none, the first
  outbound. The conditions the repository uses are the user, a private destination and the
  network.
\<close>

record traffic =
  tf_user :: "string option"
  tf_private :: bool
  tf_network :: string

definition rule_matches :: "traffic \<Rightarrow> pyval \<Rightarrow> bool" where
  "rule_matches t rule = (case rule of
     VMap d \<Rightarrow>
       (case dict_get d ''user'' of None \<Rightarrow> True
        | Some v \<Rightarrow> (case tf_user t of Some u \<Rightarrow> VStr u \<in> set (list_items v) | None \<Rightarrow> False)) \<and>
       (case dict_get d ''ip'' of None \<Rightarrow> True | Some v \<Rightarrow> VStr ''geoip:private'' \<in> set (list_items v) \<and> tf_private t) \<and>
       (case dict_get d ''network'' of None \<Rightarrow> True
        | Some v \<Rightarrow> v = VStr ''tcp,udp'' \<and> tf_network t \<in> {''tcp'', ''udp''})
   | _ \<Rightarrow> False)"

definition route_traffic :: "pyval dict \<Rightarrow> traffic \<Rightarrow> pyval" where
  "route_traffic cfg t =
     (case find (rule_matches t) (list_items (section_of (vget cfg ''routing'') ''rules'')) of
        Some rule \<Rightarrow> section_of rule ''outboundTag''
      | None \<Rightarrow> section_of (hd (list_items (vget cfg ''outbounds''))) ''tag'')"

end
