(* ===== verification/Secret_Store.thy ===== *)
theory Secret_Store
  imports Platform_Database Json_Text Xray_Composition
begin

text \<open>
  The encrypted secret store (\<open>core/secrets.py\<close>) and the resolution of credentials from it
  (\<open>infra/credential_resolver.py\<close>).

  Fernet is a third-party cipher and a parameter of the model: \<open>sx_encrypt\<close> takes the tick as its
  source of randomness, \<open>sx_decrypt\<close> is \<open>None\<close> on an invalid token. \<open>fernet_ok\<close> is the documented
  law of the cipher. \<open>sx_mysql\<close> says which of the two dialects the engine speaks.
\<close>

record secret_env =
  sx_key_valid :: bool
  sx_encrypt :: "nat \<Rightarrow> string \<Rightarrow> string"
  sx_decrypt :: "string \<Rightarrow> string option"
  sx_mysql :: bool

definition fernet_ok :: "secret_env \<Rightarrow> bool" where
  "fernet_ok C \<longleftrightarrow> sx_key_valid C \<and> (\<forall>n p. sx_decrypt C (sx_encrypt C n p) = Some p)"

section \<open>Operations\<close>

abbreviation secret_error :: "string \<Rightarrow> exn" where
  "secret_error \<equiv> Exn SecretStoreError"

definition cipher :: "secret_env \<Rightarrow> exn + unit" where
  "cipher C = require (sx_key_valid C) (secret_error ''SECRET_ENCRYPTION_KEY is not a valid Fernet key'')"

definition encrypt_secret :: "secret_env \<Rightarrow> string \<Rightarrow> ('w, string) db" where
  "encrypt_secret C plaintext =
     thenE (liftE (require (plaintext \<noteq> []) (secret_error ''Secret value must not be empty'')))
     (thenE (liftE (cipher C))
     (getsE (\<lambda>s. sx_encrypt C (se_tick s) plaintext)))"

definition decrypt_secret :: "secret_env \<Rightarrow> string \<Rightarrow> exn + string" where
  "decrypt_secret C ciphertext = thenS (cipher C)
     (case sx_decrypt C ciphertext of
        Some p \<Rightarrow> Inr p
      | None \<Rightarrow> Inl (secret_error ''Secret cannot be decrypted with the configured key''))"

abbreviation find_secret :: "string \<Rightarrow> database \<Rightarrow> secret option" where
  "find_secret ref d \<equiv> tbl_get sc_secret_ref (db_secrets d) ref"

abbreviation put_secret_row :: "secret \<Rightarrow> database \<Rightarrow> database" where
  "put_secret_row r \<equiv> db_secrets_update (tbl_put sc_secret_ref r)"

abbreviation add_secret_row :: "secret \<Rightarrow> database \<Rightarrow> database" where
  "add_secret_row r \<equiv> db_secrets_update (\<lambda>rs. rs @ [r])"

text \<open>Replace the value of a row, unless it already holds the same plaintext and purpose.\<close>

definition refresh_secret :: "db_oracle \<Rightarrow> secret_env \<Rightarrow> secret \<Rightarrow> string \<Rightarrow> string \<Rightarrow> ('w, secret) db" where
  "refresh_secret X C row plaintext purpose =
     bindE (liftE (decrypt_secret C (sc_ciphertext row))) (\<lambda>current.
     if current = plaintext \<and> sc_purpose row = purpose then retE row
     else bindE (encrypt_secret C plaintext) (\<lambda>ct.
       (let row' = row\<lparr>sc_ciphertext := ct, sc_purpose := purpose, sc_revision := sc_revision row + 1\<rparr> in
        thenE (db_update (put_secret_row row')) (thenE (db_flush X) (retE row')))))"

definition new_secret :: "string \<Rightarrow> string \<Rightarrow> string \<Rightarrow> secret" where
  "new_secret ref ct purpose = \<lparr>sc_secret_ref = ref, sc_ciphertext = ct, sc_purpose = purpose, sc_revision = 1\<rparr>"

text \<open>\<open>INSERT IGNORE\<close> adds the row unless its key is taken.\<close>

definition insert_ignore :: "secret \<Rightarrow> database \<Rightarrow> database" where
  "insert_ignore r d = (case find_secret (sc_secret_ref r) d of None \<Rightarrow> add_secret_row r d | Some _ \<Rightarrow> d)"

definition put_secret ::
  "db_oracle \<Rightarrow> secret_env \<Rightarrow> string \<Rightarrow> string \<Rightarrow> string \<Rightarrow> ('w, secret) db" where
  "put_secret X C ref plaintext purpose =
     bindE (db_read X (find_secret ref)) (\<lambda>existing.
     case existing of
       Some _ \<Rightarrow>
         bindE (db_read X (find_secret ref)) (\<lambda>locked. case locked of
           None \<Rightarrow> raiseE (secret_error ''Secret disappeared during update'')
         | Some row \<Rightarrow> refresh_secret X C row plaintext purpose)
     | None \<Rightarrow>
         if sx_mysql C then
           bindE (encrypt_secret C plaintext) (\<lambda>ct.
           thenE (db_read X (\<lambda>_. ()))
           (thenE (db_update (insert_ignore (new_secret ref ct purpose)))
           (bindE (db_read X (find_secret ref)) (\<lambda>winner. case winner of
             None \<Rightarrow> raiseE (secret_error ''Secret insert did not produce a readable row'')
           | Some row \<Rightarrow> refresh_secret X C row plaintext purpose))))
         else
           bindE (encrypt_secret C plaintext) (\<lambda>ct.
           (let row = new_secret ref ct purpose in
            attemptE (db_nested (thenE (db_update (add_secret_row row)) (db_flush X)))
              (\<lambda>exc. if exn_class exc = IntegrityError
                 then bindE (db_read X (find_secret ref)) (\<lambda>recovered. case recovered of
                   None \<Rightarrow> raiseE exc
                 | Some r \<Rightarrow> refresh_secret X C r plaintext purpose)
                 else raiseE exc)
              (\<lambda>_. retE row))))"

definition get_or_create_secret ::
  "db_oracle \<Rightarrow> secret_env \<Rightarrow> string \<Rightarrow> (exn + string) \<Rightarrow> string \<Rightarrow> ('w, secret \<times> bool) db" where
  "get_or_create_secret X C ref plaintext_factory purpose =
     bindE (db_read X (find_secret ref)) (\<lambda>existing.
     case existing of
       Some row \<Rightarrow> retE (row, False)
     | None \<Rightarrow>
         bindE (liftE plaintext_factory) (\<lambda>plaintext. bindE (encrypt_secret C plaintext) (\<lambda>ct.
         (let row = new_secret ref ct purpose in
          if sx_mysql C then
            bindE (db_read X (\<lambda>d. find_secret ref d = None)) (\<lambda>inserted.
            thenE (db_update (insert_ignore row))
            (bindE (db_read X (find_secret ref)) (\<lambda>winner. case winner of
              None \<Rightarrow> raiseE (secret_error ''Secret insert did not produce a readable row'')
            | Some r \<Rightarrow> retE (r, inserted))))
          else
            attemptE (db_nested (thenE (db_update (add_secret_row row)) (db_flush X)))
              (\<lambda>exc. if exn_class exc = IntegrityError
                 then bindE (db_read X (find_secret ref)) (\<lambda>winner. case winner of
                   None \<Rightarrow> raiseE exc | Some r \<Rightarrow> retE (r, False))
                 else raiseE exc)
              (\<lambda>_. retE (row, True))))))"

definition reveal_secret_for_purpose :: "db_oracle \<Rightarrow> secret_env \<Rightarrow> string \<Rightarrow> string \<Rightarrow> ('w, string) db" where
  "reveal_secret_for_purpose X C ref purpose =
     bindE (db_read X (find_secret ref)) (\<lambda>stored. case stored of
       None \<Rightarrow> raiseE (secret_error ''Secret reference not found'')
     | Some row \<Rightarrow>
         if sc_purpose row \<noteq> purpose then raiseE (secret_error ''Secret purpose mismatch'')
         else liftE (decrypt_secret C (sc_ciphertext row)))"

definition reveal_secret_snapshot_for_purpose ::
  "db_oracle \<Rightarrow> secret_env \<Rightarrow> string \<Rightarrow> string \<Rightarrow> ('w, string \<times> int) db" where
  "reveal_secret_snapshot_for_purpose X C ref purpose =
     bindE (db_read X (\<lambda>d. find (\<lambda>r. sc_secret_ref r = ref \<and> sc_purpose r = purpose) (db_secrets d))) (\<lambda>stored.
     case stored of
       None \<Rightarrow> raiseE (secret_error ''Secret reference or purpose not found'')
     | Some row \<Rightarrow> bindE (liftE (decrypt_secret C (sc_ciphertext row))) (\<lambda>v. retE (v, sc_revision row)))"

definition reveal_secret :: "db_oracle \<Rightarrow> secret_env \<Rightarrow> string \<Rightarrow> ('w, string) db" where
  "reveal_secret X C ref =
     bindE (db_read X (find_secret ref)) (\<lambda>stored. case stored of
       None \<Rightarrow> raiseE (secret_error (''Secret reference not found: '' @ ref))
     | Some row \<Rightarrow> liftE (decrypt_secret C (sc_ciphertext row)))"

section \<open>Credential resolution\<close>

abbreviation credential_error :: "string \<Rightarrow> exn" where
  "credential_error \<equiv> Exn CredentialResolutionError"

text \<open>What every reader of the resolver turns other exceptions into.\<close>

definition resolution_failure :: "exn \<Rightarrow> exn" where
  "resolution_failure exc = (case exn_class exc of
     CredentialResolutionError \<Rightarrow> exc
   | SecretStoreError \<Rightarrow> credential_error ''CREDENTIAL_DECRYPT_FAILED''
   | ValueError \<Rightarrow> credential_error ''CREDENTIAL_MALFORMED''
   | _ \<Rightarrow> credential_error ''CREDENTIAL_RESOLUTION_FAILED'')"

text \<open>\<open>json.loads\<close> raises a \<open>ValueError\<close> on a text it refuses.\<close>

definition loads_secret :: "secret_env \<Rightarrow> secret \<Rightarrow> exn + pyval" where
  "loads_secret C row = bindS (decrypt_secret C (sc_ciphertext row)) (\<lambda>text.
     case json_loads text of Some v \<Rightarrow> Inr v | None \<Rightarrow> Inl (value_error ''JSONDecodeError''))"

definition egress_credential_of :: "pyval \<Rightarrow> exn + credential_dto" where
  "egress_credential_of payload = (let malformed = credential_error ''CREDENTIAL_MALFORMED'' in
     bindS (as_mapping payload malformed) (\<lambda>d.
     thenS (check_keys d [''username'', ''password''] malformed)
     (bindS (nonblank_string (vget d ''username'') malformed) (\<lambda>u.
     bindS (nonblank_string (vget d ''password'') malformed) (\<lambda>p.
     Inr \<lparr>cr_username = u, cr_password = p\<rparr>)))))"

definition resolve_egress_credential ::
  "db_oracle \<Rightarrow> secret_env \<Rightarrow> string \<Rightarrow> ('w, int \<times> credential_dto) db" where
  "resolve_egress_credential X C ref =
     thenE (liftE (require (nonblank ref) (credential_error ''CREDENTIAL_REF_INVALID'')))
     (tryE
       (bindE (db_read X (find_secret ref)) (\<lambda>stored. case stored of
          None \<Rightarrow> raiseE (credential_error ''CREDENTIAL_NOT_FOUND'')
        | Some row \<Rightarrow>
            thenE (liftE (require (0 < sc_revision row) (credential_error ''CREDENTIAL_MALFORMED'')))
            (bindE (liftE (loads_secret C row)) (\<lambda>payload.
            bindE (liftE (egress_credential_of payload)) (\<lambda>c. retE (sc_revision row, c))))))
       (\<lambda>exc. raiseE (resolution_failure exc)))"

definition resolve_credential :: "db_oracle \<Rightarrow> secret_env \<Rightarrow> string \<Rightarrow> ('w, credential_dto) db" where
  "resolve_credential X C ref = bindE (resolve_egress_credential X C ref) (\<lambda>r. retE (snd r))"

definition reality_identity_of :: "pyval \<Rightarrow> exn + xray_reality_config" where
  "reality_identity_of payload = (let malformed = credential_error ''CREDENTIAL_MALFORMED'' in
     bindS (as_mapping payload malformed) (\<lambda>d.
     thenS (check_keys d [''privateKey'', ''shortIds''] malformed)
     (bindS (nonblank_string (vget d ''privateKey'') malformed) (\<lambda>key.
     thenS (string_list (vget d ''shortIds'') False malformed)
     (case reality_config key (map (\<lambda>v. case v of VStr s \<Rightarrow> s | _ \<Rightarrow> []) (list_items (vget d ''shortIds''))) of
        Inr r \<Rightarrow> Inr r
      | Inl msg \<Rightarrow> Inl (Exn XrayCompositionError msg))))))"

definition resolve_reality_identity :: "db_oracle \<Rightarrow> secret_env \<Rightarrow> ('w, xray_reality_config) db" where
  "resolve_reality_identity X C =
     tryE
       (bindE (db_read X (\<lambda>d. find (\<lambda>r. sc_secret_ref r = ''gateway/xray/reality-identity'' \<and>
            sc_purpose r = ''XRAY_REALITY_IDENTITY'') (db_secrets d))) (\<lambda>stored. case stored of
          None \<Rightarrow> raiseE (credential_error ''CREDENTIAL_NOT_FOUND'')
        | Some row \<Rightarrow>
            bindE (liftE (loads_secret C row)) (\<lambda>payload. liftE (reality_identity_of payload))))
       (\<lambda>exc. raiseE (resolution_failure exc))"

section \<open>The Reality identity\<close>

text \<open>
  \<open>infra/xray_reality.py\<close>. The output of \<open>xray x25519\<close> is a parameter: \<open>None\<close> when the process
  cannot be started or fails, else the lines it prints.
\<close>

abbreviation bootstrap_error :: "string \<Rightarrow> exn" where
  "bootstrap_error \<equiv> Exn (OtherException ''XrayRealityBootstrapError'')"

definition partition_colon :: "string \<Rightarrow> string \<times> bool \<times> string" where
  "partition_colon line = (takeWhile (\<lambda>c. c \<noteq> CHR '':'') line, CHR '':'' \<in> set line,
     tl (dropWhile (\<lambda>c. c \<noteq> CHR '':'') line))"

definition key_of_line :: "string \<Rightarrow> string option" where
  "key_of_line line = (case partition_colon line of (label, separator, value) \<Rightarrow>
     if separator \<and> filter (\<lambda>c. \<not> py_isspace c) (lower label) = ''privatekey'' \<and> nonblank value
     then Some (strip value) else None)"

definition x25519_private_key :: "string list option \<Rightarrow> exn + string" where
  "x25519_private_key output = (case output of
     None \<Rightarrow> Inl (bootstrap_error ''XRAY_REALITY_KEY_GENERATION_FAILED'')
   | Some lines \<Rightarrow> (case List.map_filter key_of_line lines of
       key # _ \<Rightarrow> Inr key
     | [] \<Rightarrow> Inl (bootstrap_error ''XRAY_REALITY_KEY_GENERATION_FAILED'')))"

definition new_reality_identity :: "string list option \<Rightarrow> string \<Rightarrow> exn + string" where
  "new_reality_identity output token = bindS (x25519_private_key output) (\<lambda>key.
     Inr (json_text (VMap [(''privateKey'', VStr key), (''shortIds'', VList [VStr token])])))"

text \<open>What \<open>XrayRealityConfig\<close> iterates over as short identifiers.\<close>

fun iterated :: "pyval \<Rightarrow> pyval list option" where
  "iterated (VList vs) = Some vs"
| "iterated (VMap d) = Some (map (\<lambda>(k, v). VStr k) d)"
| "iterated v = None"

definition parse_reality_identity :: "string \<Rightarrow> exn + xray_reality_config" where
  "parse_reality_identity value = (let malformed = bootstrap_error ''XRAY_REALITY_IDENTITY_MALFORMED'' in
     case json_loads value of
       None \<Rightarrow> Inl malformed
     | Some payload \<Rightarrow>
         bindS (as_mapping payload malformed) (\<lambda>d.
         thenS (check_keys d [''privateKey'', ''shortIds''] malformed)
         (bindS (nonblank_string (vget d ''privateKey'') malformed) (\<lambda>key.
         (case iterated (vget d ''shortIds'') of
            None \<Rightarrow> Inl malformed
          | Some ids \<Rightarrow> if \<not> list_all is_nonblank_str ids then Inl malformed
              else (case reality_config key (map (\<lambda>v. case v of VStr s \<Rightarrow> s | _ \<Rightarrow> []) ids) of
                 Inr r \<Rightarrow> Inr r | Inl _ \<Rightarrow> Inl malformed))))))"

definition bootstrap_reality_identity ::
  "db_oracle \<Rightarrow> secret_env \<Rightarrow> string list option \<Rightarrow> string \<Rightarrow> ('w, xray_reality_config) db" where
  "bootstrap_reality_identity X C output token =
     tryE
       (bindE (get_or_create_secret X C ''gateway/xray/reality-identity''
           (new_reality_identity output token) ''XRAY_REALITY_IDENTITY'') (\<lambda>r.
        thenE (if snd r then db_commit X else retE ())
        (bindE (reveal_secret_for_purpose X C ''gateway/xray/reality-identity'' ''XRAY_REALITY_IDENTITY'') (\<lambda>v.
        liftE (parse_reality_identity v)))))
       (\<lambda>exc. raiseE (case exn_class exc of
          OtherException n \<Rightarrow> if n = ''XrayRealityBootstrapError'' then exc
             else bootstrap_error ''XRAY_REALITY_BOOTSTRAP_FAILED''
        | SecretStoreError \<Rightarrow> bootstrap_error ''XRAY_REALITY_IDENTITY_UNREADABLE''
        | _ \<Rightarrow> bootstrap_error ''XRAY_REALITY_BOOTSTRAP_FAILED''))"

section \<open>Lemmas\<close>

text \<open>A row holds a secret when it decrypts to the value under the configured key.\<close>

definition holds_secret :: "secret_env \<Rightarrow> string \<Rightarrow> string \<Rightarrow> string \<Rightarrow> database \<Rightarrow> bool" where
  "holds_secret C ref plaintext purpose d = (case find_secret ref d of
     Some row \<Rightarrow> decrypt_secret C (sc_ciphertext row) = Inr plaintext \<and> sc_purpose row = purpose
   | None \<Rightarrow> False)"

lemma cipher_checks [checks]: "cipher C = Inr u \<longleftrightarrow> sx_key_valid C"
  by (simp add: cipher_def checks)

lemma decrypt_encrypted: "fernet_ok C \<Longrightarrow> decrypt_secret C (sx_encrypt C n p) = Inr p"
  by (simp add: fernet_ok_def decrypt_secret_def cipher_def require_def)

lemma refresh_secret_holds:
  assumes "fernet_ok C"
  shows "find_secret ref (se_work s) = Some row \<Longrightarrow> sc_secret_ref row = ref \<Longrightarrow>
    wpE (refresh_secret X C row plaintext purpose)
      (\<lambda>_ t. holds_secret C ref plaintext purpose (se_work t)) (\<lambda>_ _. True) s"
  by (auto simp: refresh_secret_def encrypt_secret_def wp holds_secret_def tbl_get_put decrypt_encrypted [OF assms]
      Let_def split: sum.splits option.splits)

lemma find_secret_ref: "find_secret ref d = Some row \<Longrightarrow> sc_secret_ref row = ref"
  using tbl_get_Some by fastforce

lemma insert_ignore_find:
  "find_secret ref d = None \<Longrightarrow> sc_secret_ref r = ref \<Longrightarrow> find_secret ref (insert_ignore r d) = Some r"
  by (simp add: insert_ignore_def tbl_get_append)

lemma put_secret_holds:
  assumes "fernet_ok C"
  shows "wpE (put_secret X C ref plaintext purpose)
    (\<lambda>_ t. holds_secret C ref plaintext purpose (se_work t)) (\<lambda>_ _. True) s"
proof -
  have add: "holds_secret C ref plaintext purpose (add_secret_row (new_secret ref (sx_encrypt C n plaintext) purpose) d)"
    if "find_secret ref d = None" for n d
    using that by (simp add: holds_secret_def tbl_get_append new_secret_def decrypt_encrypted [OF assms])
  show ?thesis
    unfolding put_secret_def
    by (auto simp: wp encrypt_secret_def Let_def add find_secret_ref
        split: option.splits sum.splits intro!: refresh_secret_holds [OF assms])
qed

text \<open>Storing a secret touches no other table and keeps the revisions positive.\<close>

definition only_secrets :: "database \<Rightarrow> database \<Rightarrow> bool" where
  "only_secrets d d' \<longleftrightarrow> d' = d\<lparr>db_secrets := db_secrets d'\<rparr> \<and>
     (list_all (\<lambda>r. 0 < sc_revision r) (db_secrets d) \<longrightarrow> list_all (\<lambda>r. 0 < sc_revision r) (db_secrets d'))"

lemma only_secrets_refl [simp]: "only_secrets d d"
  by (simp add: only_secrets_def)

lemma only_secrets_put:
  "find_secret ref d = Some row \<Longrightarrow> sc_revision row' = sc_revision row + 1 \<Longrightarrow> only_secrets d (put_secret_row row' d)"
  using tbl_get_Some [of sc_secret_ref "db_secrets d" ref row]
  by (auto simp: only_secrets_def list_all_iff dest!: set_tbl_put)

lemma only_secrets_add: "sc_revision r = 1 \<Longrightarrow> only_secrets d (add_secret_row r d)"
  by (simp add: only_secrets_def)

lemma only_secrets_trans: "only_secrets d d' \<Longrightarrow> only_secrets d' d'' \<Longrightarrow> only_secrets d d''"
  by (cases d; cases d'; cases d'') (simp add: only_secrets_def)

lemma refresh_secret_frame:
  assumes "only_secrets d (se_work s)" and "find_secret ref (se_work s) = Some row"
  shows "wpE (refresh_secret X C row plaintext purpose)
    (\<lambda>_ t. only_secrets d (se_work t) \<and> se_store t = se_store s \<and> se_lock_held t = se_lock_held s)
    (\<lambda>_ t. se_store t = se_store s \<and> se_lock_held t = se_lock_held s) s"
  using assms only_secrets_trans [OF assms(1) only_secrets_put [OF assms(2)]]
  by (auto simp: refresh_secret_def encrypt_secret_def wp Let_def split: sum.splits option.splits)

lemma put_secret_frame:
  "wpE (put_secret X C ref plaintext purpose)
    (\<lambda>_ t. only_secrets (se_work s) (se_work t) \<and> se_store t = se_store s \<and> se_lock_held t = se_lock_held s)
    (\<lambda>_ t. se_store t = se_store s \<and> se_lock_held t = se_lock_held s) s"
proof -
  have add: "only_secrets d (add_secret_row (new_secret ref ct purpose) d)" for ct d
    by (simp add: only_secrets_add new_secret_def)
  have ignore: "only_secrets d (insert_ignore (new_secret ref ct purpose) d)" for ct d
    by (simp add: insert_ignore_def add split: option.splits)
  show ?thesis
    unfolding put_secret_def
    by (auto simp: wp encrypt_secret_def Let_def add ignore split: option.splits sum.splits
        intro!: refresh_secret_frame [THEN wp_mono])
qed

end
