(* ===== verification/Capacity.thy ===== *)
theory Capacity
  imports Provider_Types
begin

text \<open>
  The hard capacity guard and the quota conversion (\<open>backend/app/domain/capacity.py\<close>,
  \<open>backend/app/domain/quota.py\<close>).
\<close>

definition available_gb :: "capacity_dto \<Rightarrow> decimal" where
  "available_gb c = (let neg = (\<lambda>d. Dec (- dec_coeff d) (dec_exp d)) in
     dec_add (dec_add (cap_total_gb c) (neg (cap_allocated_gb c))) (neg (cap_reserved_gb c)))"

definition capacity_exceeded_error :: "capacity_dto \<Rightarrow> decimal \<Rightarrow> exn" where
  "capacity_exceeded_error c requested = Exn CapacityExceededError
     (''capacity exceeded: '' @ ''allocated='' @ dec_str (cap_allocated_gb c) @
      ''GB, requested='' @ dec_str requested @ ''GB, '' @
      ''reserved='' @ dec_str (cap_reserved_gb c) @ ''GB, total='' @ dec_str (cap_total_gb c) @ ''GB'')"

definition ensure_capacity :: "capacity_dto \<Rightarrow> decimal \<Rightarrow> exn + unit" where
  "ensure_capacity c requested =
     (if dec_le requested (dec_of_int 0) then Inl (value_error ''requested quota must be positive'')
      else (let required = dec_add (dec_add (cap_allocated_gb c) requested) (cap_reserved_gb c) in
        if dec_lt (cap_total_gb c) required then Inl (capacity_exceeded_error c requested)
        else Inr ()))"

definition BYTES_PER_GIB :: int where
  "BYTES_PER_GIB = 1024 ^ 3"

definition quota_gb_to_bytes :: "decimal \<Rightarrow> exn + int" where
  "quota_gb_to_bytes quota =
     (if dec_le quota (dec_of_int 0) then Inl (value_error ''quota must be positive'')
      else (let exact_bytes = dec_mul quota (dec_of_int BYTES_PER_GIB) in
        if \<not> dec_eq exact_bytes (dec_to_integral exact_bytes)
        then Inl (value_error ''quota cannot represent a whole number of bytes'')
        else Inr (dec_int exact_bytes)))"

section \<open>The guard admits exactly what fits\<close>

lemma dec_align_pos: "0 < dec_align d e \<longleftrightarrow> 0 < dec_coeff d"
  by (simp add: dec_align_def zero_less_mult_iff)

lemma dec_positive: "dec_lt (dec_of_int 0) d \<longleftrightarrow> 0 < dec_coeff d"
  using dec_align_pos [of d "min 0 (dec_exp d)"]
  by (simp add: dec_le_def dec_align_def Let_def min.commute not_le)

lemma dec_add_exact:
  assumes "e \<le> dec_exp a" "e \<le> dec_exp b" "\<bar>dec_align a e + dec_align b e\<bar> < 10 ^ dec_prec"
  shows "e \<le> dec_exp (dec_add a b) \<and> dec_align (dec_add a b) e = dec_align a e + dec_align b e"
proof -
  let ?m = "min (dec_exp a) (dec_exp b)" and ?k = "nat (min (dec_exp a) (dec_exp b) - e)"
  let ?s = "dec_align a ?m + dec_align b ?m"
  have eq: "dec_align a e + dec_align b e = ?s * 10 ^ ?k"
    using assms dec_align_shift [of e ?m a] dec_align_shift [of e ?m b] by (simp add: algebra_simps)
  have "\<bar>?s\<bar> * 1 \<le> \<bar>?s\<bar> * 10 ^ ?k" by (rule mult_left_mono) auto
  also have "\<dots> < 10 ^ dec_prec" using assms(3) eq by (simp add: abs_mult)
  finally have "dec_add a b = Dec ?s ?m" by (simp add: dec_add_def Let_def dec_fix_id)
  with eq assms show ?thesis by (simp add: dec_align_def)
qed

text \<open>
  For amounts on a common scale that fit the decimal precision, the guard lets a request
  through exactly when it is positive and allocated, requested and reserved capacity together
  stay within the provider's total: no request is admitted beyond the total, and none that
  fits is refused.
\<close>

theorem ensure_capacity_exact:
  assumes scale: "e \<le> dec_exp (cap_allocated_gb c)" "e \<le> dec_exp r"
      "e \<le> dec_exp (cap_reserved_gb c)" "e \<le> dec_exp (cap_total_gb c)"
    and fits: "\<bar>dec_align (cap_allocated_gb c) e\<bar> < 10 ^ 27" "\<bar>dec_align r e\<bar> < 10 ^ 27"
      "\<bar>dec_align (cap_reserved_gb c) e\<bar> < 10 ^ 27"
  shows "ensure_capacity c r = Inr () \<longleftrightarrow>
    0 < dec_coeff r \<and>
    dec_align (cap_allocated_gb c) e + dec_align r e + dec_align (cap_reserved_gb c) e
      \<le> dec_align (cap_total_gb c) e"
proof -
  let ?s = "dec_add (cap_allocated_gb c) r" and ?t = "dec_add (dec_add (cap_allocated_gb c) r) (cap_reserved_gb c)"
  have s: "e \<le> dec_exp ?s \<and> dec_align ?s e = dec_align (cap_allocated_gb c) e + dec_align r e"
    by (rule dec_add_exact) (use scale fits in \<open>auto simp: dec_prec_def\<close>)
  have t: "e \<le> dec_exp ?t \<and> dec_align ?t e = dec_align ?s e + dec_align (cap_reserved_gb c) e"
    by (rule dec_add_exact) (use s scale fits in \<open>auto simp: dec_prec_def\<close>)
  have "dec_le ?t (cap_total_gb c) \<longleftrightarrow> dec_align ?t e \<le> dec_align (cap_total_gb c) e"
    using t scale by (intro dec_le_common) auto
  with s t dec_positive [of r] show ?thesis by (auto simp: ensure_capacity_def Let_def)
qed

theorem ensure_capacity_exact_witness:
  "ensure_capacity \<lparr>cap_total_gb = Dec 1000 0, cap_allocated_gb = Dec 500500 (-3), cap_reserved_gb = Dec 100 0\<rparr>
     (Dec 200 0) = Inr ()"
  using ensure_capacity_exact [of "-3" "\<lparr>cap_total_gb = Dec 1000 0, cap_allocated_gb = Dec 500500 (-3),
    cap_reserved_gb = Dec 100 0\<rparr>" "Dec 200 0"]
  by (simp add: dec_align_def)

section \<open>The quota conversion is one to one\<close>

lemma round_half_even_pos: "b \<le> a \<Longrightarrow> 0 < b \<Longrightarrow> 0 < round_half_even a b"
  using pos_imp_zdiv_pos_iff [of b a] by (auto simp: round_half_even_def Let_def)

lemma length_show_nat_ge: "10 ^ k \<le> n \<Longrightarrow> k < length (show_nat n)"
proof (induction k arbitrary: n)
  case 0
  then show ?case by simp
next
  case (Suc k)
  then have "10 ^ k \<le> n div 10" by simp
  with Suc.IH have "k < length (show_nat (n div 10))" by blast
  moreover have "\<not> n < 10" using Suc.prems by (auto simp: not_less intro: order_trans [of _ "10 ^ Suc k"])
  ultimately show ?case by (subst show_nat.simps) simp
qed

lemma show_nat_lower: "length (show_nat n) = Suc k \<Longrightarrow> 0 < k \<Longrightarrow> 10 ^ k \<le> n"
  using length_show_nat_le [of k n] by (cases "n < 10 ^ k") auto

lemma dec_fix_pos: "0 < dec_coeff d \<Longrightarrow> 0 < dec_coeff (dec_fix d)"
proof (cases "num_digits (dec_coeff d) \<le> dec_prec")
  case False
  assume p: "0 < dec_coeff d"
  let ?n = "num_digits (dec_coeff d)"
  have "10 ^ (?n - 1) \<le> nat (dec_coeff d)"
    using False p by (intro show_nat_lower) (auto simp: num_digits_def dec_prec_def)
  then have "(10 :: int) ^ (?n - 1) \<le> dec_coeff d" using p by (simp add: le_nat_iff)
  moreover have "(10 :: int) ^ (?n - dec_prec) \<le> 10 ^ (?n - 1)"
    by (rule power_increasing) (auto simp: dec_prec_def)
  ultimately have "(10 :: int) ^ (?n - dec_prec) \<le> dec_coeff d" by linarith
  then have "0 < round_half_even (dec_coeff d) (10 ^ (?n - dec_prec))"
    by (rule round_half_even_pos) simp
  with p False show ?thesis by (auto simp: dec_fix_def Let_def)
qed (simp add: dec_fix_def)

lemma dec_to_integral_int: "0 \<le> dec_exp (dec_to_integral d)"
  by (simp add: dec_to_integral_def)

lemma integral_value:
  assumes "0 < dec_coeff d" "dec_eq d (dec_to_integral d)"
  shows "dec_eq d (dec_of_int (dec_int d)) \<and> 0 < dec_int d"
proof (cases "0 \<le> dec_exp d")
  case True
  with assms show ?thesis by (simp add: dec_eq_def dec_int_def dec_align_def)
next
  case False
  define p :: int where "p = 10 ^ nat (- dec_exp d)"
  define q where "q = round_half_even (dec_coeff d) p"
  have m: "dec_coeff d = q * p" and p: "0 < p"
    using assms False by (simp_all add: dec_eq_def dec_to_integral_def dec_align_def Let_def q_def p_def)
  then have "dec_int d = q" using assms False by (simp add: dec_int_def p_def [symmetric])
  moreover from m p assms have "0 < q" by (simp add: zero_less_mult_iff)
  ultimately show ?thesis using m False by (simp add: dec_eq_def dec_align_def p_def)
qed

text \<open>
  Whenever the conversion returns, the result is a positive whole number of bytes
  that equals the rounded product of the quota and 1024 cubed: nothing is truncated away.
\<close>

theorem quota_gb_to_bytes_whole:
  assumes "quota_gb_to_bytes q = Inr b"
  shows "0 < b \<and> dec_eq (dec_mul q (dec_of_int BYTES_PER_GIB)) (dec_of_int b)"
proof -
  have "0 < dec_coeff q"
    using assms dec_positive [of q] by (simp add: quota_gb_to_bytes_def split: if_splits)
  then have "0 < dec_coeff (dec_mul q (dec_of_int BYTES_PER_GIB))"
    by (simp add: dec_mul_def dec_fix_pos BYTES_PER_GIB_def)
  moreover have "dec_eq (dec_mul q (dec_of_int BYTES_PER_GIB))
      (dec_to_integral (dec_mul q (dec_of_int BYTES_PER_GIB)))"
    using assms by (simp add: quota_gb_to_bytes_def Let_def split: if_splits)
  moreover have "b = dec_int (dec_mul q (dec_of_int BYTES_PER_GIB))"
    using assms by (simp add: quota_gb_to_bytes_def Let_def split: if_splits)
  ultimately show ?thesis using integral_value by blast
qed

theorem quota_gb_to_bytes_whole_witness:
  "0 < (536870912 :: int) \<and> dec_eq (dec_mul (Dec 5 (-1)) (dec_of_int BYTES_PER_GIB)) (dec_of_int 536870912)"
proof -
  have "quota_gb_to_bytes (Dec 5 (-1)) = Inr 536870912"
    by (simp add: quota_gb_to_bytes_def dec_le_def dec_align_def dec_mul_def BYTES_PER_GIB_def
        dec_fix_id dec_prec_def dec_eq_def dec_to_integral_def round_half_even_def dec_int_def)
  from quota_gb_to_bytes_whole [OF this] show ?thesis .
qed

lemma quota_gb_to_bytes_gib:
  assumes "0 < n" "n < 10 ^ 18"
  shows "quota_gb_to_bytes (dec_of_int n) = Inr (n * BYTES_PER_GIB)"
proof -
  have "n * BYTES_PER_GIB < 10 ^ 18 * 10 ^ 10"
    using assms by (intro mult_strict_mono) (auto simp: BYTES_PER_GIB_def)
  then have "dec_mul (dec_of_int n) (dec_of_int BYTES_PER_GIB) = dec_of_int (n * BYTES_PER_GIB)"
    using assms by (simp add: dec_mul_def dec_fix_id dec_prec_def BYTES_PER_GIB_def)
  with assms dec_positive [of "dec_of_int n"] show ?thesis
    by (simp add: quota_gb_to_bytes_def dec_to_integral_def dec_eq_def dec_int_def)
qed

end
