(* ===== verification/Provisioning.thy ===== *)
theory Provisioning
  imports Capacity
begin

text \<open>
  The nine-step provisioning saga (\<open>backend/app/domain/provisioning.py\<close>).

  \<open>ProvisioningService\<close> only talks to protocols: providers, the database state and the run
  store. They are the fields of \<open>saga_env\<close>, functions of an arbitrary world \<open>'w\<close>, so every
  theorem holds for every implementation, and each call may raise. \<open>perform\<close> runs one call
  and appends it, with the exception it raised if any, to the trace; the ordering contracts
  of the saga are predicates of that trace.
\<close>

section \<open>Data\<close>

datatype provision_status = RUNNING | PENDING_MANUAL | FAILED | SUCCEEDED

datatype provision_step =
    CAPACITY | ALLOCATE_ENDPOINT | CREATE_TENANT | STORE_CREDENTIALS | APPLY_FORWARDER
  | CREATE_ACCOUNTING_USER | APPLY_GATEWAY | ISSUE_SUBSCRIPTION | NOTIFY

record provision_request =
  pr_order_id :: string
  pr_customer_id :: string
  pr_username :: string
  pr_quota_gb :: decimal
  pr_thread_limit :: int
  pr_expire_at :: "datetime option"
  pr_subscription_domain :: string

datatype pending_manual_reason =
    EXTERNAL_TENANT_CREATION | ACCOUNTING_CREATE_AMBIGUOUS | ACCOUNTING_COMPENSATION_FAILED
  | FORWARDER_COMPENSATION_FAILED | GATEWAY_COMPENSATION_FAILED

fun PENDING_MANUAL_BUSINESS_MESSAGES :: "pending_manual_reason \<Rightarrow> string" where
  "PENDING_MANUAL_BUSINESS_MESSAGES EXTERNAL_TENANT_CREATION =
     ''external tenant creation requires review''"
| "PENDING_MANUAL_BUSINESS_MESSAGES ACCOUNTING_CREATE_AMBIGUOUS =
     ''accounting user creation result is ambiguous and requires review''"
| "PENDING_MANUAL_BUSINESS_MESSAGES ACCOUNTING_COMPENSATION_FAILED =
     ''accounting user creation failed and automatic compensation '' @
     ''(disable) also failed; requires manual review''"
| "PENDING_MANUAL_BUSINESS_MESSAGES FORWARDER_COMPENSATION_FAILED =
     ''forwarder configuration apply failed and restoring the previous '' @
     ''configuration also failed; forwarder runtime state is unknown and '' @
     ''requires manual review''"
| "PENDING_MANUAL_BUSINESS_MESSAGES GATEWAY_COMPENSATION_FAILED =
     ''gateway apply failed and automatic compensation (disable) also '' @
     ''failed; the accounting user may still be enabled and requires '' @
     ''manual review''"

record provision_outcome =
  po_run_id :: string
  po_status :: provision_status
  po_subscription_url :: "string option"
  po_pending_manual_error :: "string option"
  po_reason :: "pending_manual_reason option"

record provisioning_checkpoint =
  pc_run_id :: string
  pc_endpoint :: egress_endpoint_dto
  pc_tenant :: tenant_dto
  pc_account_user :: account_user_dto

datatype billing_order_type = PURCHASE | RENEWAL | UPGRADE | ADDON

record billing_command =
  bc_order_id :: string
  bc_subscription_id :: "string option"
  bc_order_type :: billing_order_type
  bc_plan_id :: "string option"
  bc_addon_bytes :: int

record payment_confirmation =
  pay_provider_code :: string
  pay_external_reference :: string
  pay_paid_at :: datetime

text \<open>One constructor per protocol method the saga and the paid-order workflow call.\<close>

datatype event =
    RunsStart provision_request
  | RecordStep string provision_step string
  | RecordExternalId string string string
  | MarkStatus string provision_status "string option"
  | MarkNotificationFailed string string
  | RejectCapacity string string
  | AllocateEndpoint string
  | SaveCredentials tenant_dto egress_endpoint_dto credential_dto
  | RollbackDatabase
  | CurrentForwarderState
  | DesiredForwarder egress_endpoint_dto tenant_dto string
  | DesiredRouting provision_request egress_endpoint_dto tenant_dto string
  | StoreSubscriptionToken string string
  | LockAcquire
  | LockRelease
  | EgressCapacity
  | CreateTenant string decimal int
  | GetCredentials string string
  | CreateUser string int "datetime option"
  | DisableUser string
  | ForwarderRender desired_forwarder_state
  | ForwarderApply
  | GatewayRender desired_routing_state
  | GatewayValidate
  | GatewayApply
  | TokenFactory
  | NotifySend notify_event
  | ConfirmManual string
  | OrderCommit
  | OrderRollback
  | OrderRejectCapacity string string
  | RecordPayment string payment_confirmation
  | PreparePurchase billing_command
  | ApplyRenewal billing_command
  | ActivateSubscription billing_command
  | MarkProvisionPending billing_command string
  | MarkProvisionFailed billing_command string
  | SubscriptionOf string
  | AssertNoUnresolved
  | SetAccountingUser int string
  | EnqueueGateway int string string
  | ClassifyFirstCommit string int
  | ReconcileInSession int
  | CurrentSubscriptionUrl int string

type_synonym ('w, 'a) call = "'w \<Rightarrow> (exn + 'a) \<times> 'w"

record ('w, 'g, 'f) saga_env =
  egress_capacity :: "('w, capacity_dto) call"
  egress_create_tenant :: "string \<Rightarrow> decimal \<Rightarrow> int \<Rightarrow> ('w, tenant_dto) call"
  egress_get_credentials :: "string \<Rightarrow> string \<Rightarrow> ('w, credential_dto) call"
  accounting_create_user :: "string \<Rightarrow> int \<Rightarrow> datetime option \<Rightarrow> ('w, account_user_dto) call"
  accounting_disable_user :: "string \<Rightarrow> ('w, unit) call"
  gateway_render :: "desired_routing_state \<Rightarrow> ('w, 'g) call"
  gateway_validate :: "'g \<Rightarrow> ('w, validation_result) call"
  gateway_apply :: "'g \<Rightarrow> ('w, apply_result) call"
  forwarder_render :: "desired_forwarder_state \<Rightarrow> ('w, 'f) call"
  forwarder_apply :: "'f \<Rightarrow> ('w, apply_result) call"
  notify_send :: "notify_event \<Rightarrow> ('w, unit) call"
  state_reject_capacity :: "string \<Rightarrow> string \<Rightarrow> ('w, unit) call"
  state_allocate_endpoint :: "string \<Rightarrow> ('w, egress_endpoint_dto) call"
  state_save_credentials ::
    "tenant_dto \<Rightarrow> egress_endpoint_dto \<Rightarrow> credential_dto \<Rightarrow> ('w, string) call"
  state_rollback_database :: "('w, unit) call"
  state_current_forwarder_state :: "('w, desired_forwarder_state) call"
  state_desired_forwarder_state ::
    "egress_endpoint_dto \<Rightarrow> tenant_dto \<Rightarrow> string \<Rightarrow> ('w, desired_forwarder_state) call"
  state_desired_routing_state ::
    "provision_request \<Rightarrow> egress_endpoint_dto \<Rightarrow> tenant_dto \<Rightarrow> string \<Rightarrow> ('w, desired_routing_state) call"
  state_store_subscription_token :: "string \<Rightarrow> string \<Rightarrow> ('w, unit) call"
  runs_start :: "provision_request \<Rightarrow> ('w, string) call"
  runs_record_step :: "string \<Rightarrow> provision_step \<Rightarrow> string \<Rightarrow> ('w, unit) call"
  runs_record_external_id :: "string \<Rightarrow> string \<Rightarrow> string \<Rightarrow> ('w, unit) call"
  runs_mark_status :: "string \<Rightarrow> provision_status \<Rightarrow> string option \<Rightarrow> ('w, unit) call"
  runs_mark_notification_failed :: "string \<Rightarrow> string \<Rightarrow> ('w, unit) call"
  token_factory :: "('w, string) call"

type_synonym step_log = "(event \<times> exn option) list"

record 'w saga_state =
  world :: 'w
  trace :: step_log

abbreviation start_of :: "'w \<Rightarrow> 'w saga_state" where
  "start_of w \<equiv> \<lparr>world = w, trace = []\<rparr>"

type_synonym ('w, 'a) saga = "('w saga_state, exn, 'a) eff"

definition outcome_of :: "exn + 'a \<Rightarrow> exn option" where
  "outcome_of r = (case r of Inl e \<Rightarrow> Some e | Inr _ \<Rightarrow> None)"

definition perform :: "event \<Rightarrow> ('w, 'a) call \<Rightarrow> ('w, 'a) saga" where
  "perform ev op s = (case op (world s) of (r, w) \<Rightarrow>
     (r, s\<lparr>world := w, trace := trace s @ [(ev, outcome_of r)]\<rparr>))"

section \<open>Helpers of the service\<close>

definition record_step where
  "record_step P run_id step st = perform (RecordStep run_id step st) (runs_record_step P run_id step st)"

definition mark_status where
  "mark_status P run_id st err = perform (MarkStatus run_id st err) (runs_mark_status P run_id st err)"

definition rollback_database where
  "rollback_database P = perform RollbackDatabase (state_rollback_database P)"

definition disable_user where
  "disable_user P username = perform (DisableUser username) (accounting_disable_user P username)"

definition start_step where
  "start_step P run_id step = record_step P run_id step ''STARTED''"

definition success_step where
  "success_step P run_id step = record_step P run_id step ''SUCCEEDED''"

definition failed_step where
  "failed_step P run_id step err =
     thenE (record_step P run_id step ''FAILED'') (mark_status P run_id FAILED (Some (exn_str err)))"

definition send where
  "send P ev = perform (NotifySend ev) (notify_send P ev)"

definition alert where
  "alert P event_type payload = suppressE (send P \<lparr>ne_event_type = event_type, ne_payload = payload\<rparr>)"

definition pending_outcome :: "string \<Rightarrow> string \<Rightarrow> pending_manual_reason \<Rightarrow> provision_outcome" where
  "pending_outcome run_id err reason =
     \<lparr>po_run_id = run_id, po_status = PENDING_MANUAL, po_subscription_url = None,
      po_pending_manual_error = Some err, po_reason = Some reason\<rparr>"

definition subscription_url :: "string \<Rightarrow> string \<Rightarrow> exn + string" where
  "subscription_url domain token =
     (let base = rstrip_by (\<lambda>c. c = CHR ''/'') (strip domain) in
      if base = [] then Inl (value_error ''subscription domain is required'')
      else Inr ((if contains_sub base ''://'' then base else ''https://'' @ base) @ ''/s/'' @ token))"

text \<open>Disable the accounting user; if that fails too, the run needs a manual review.\<close>

definition compensate_created_accounting_user where
  "compensate_created_accounting_user P run_id (req :: provision_request) exc =
     attemptE (disable_user P (pr_username req))
       (\<lambda>disable_exc.
          thenE (record_step P run_id CREATE_ACCOUNTING_USER ''PENDING_MANUAL'')
          (retE (pending_outcome run_id
            (''accounting user creation failed ('' @ type_name exc @ ''), '' @
             ''and disabling the created user also failed '' @ ''('' @ type_name disable_exc @ '')'')
            ACCOUNTING_COMPENSATION_FAILED)))
       (\<lambda>_.
          thenE (rollback_database P)
          (thenE (failed_step P run_id CREATE_ACCOUNTING_USER exc)
          (raiseE exc)))"

section \<open>Steps 1 to 6: \<open>provision_prepare\<close>\<close>

text \<open>A step returns \<open>Inl\<close> of an outcome where the source returns it, else \<open>Inr\<close> of its result.\<close>

definition step_capacity where
  "step_capacity P run_id req =
     thenE (start_step P run_id CAPACITY)
     (attemptE
       (bindE (perform EgressCapacity (egress_capacity P)) (\<lambda>c. liftE (ensure_capacity c (pr_quota_gb req))))
       (\<lambda>exc. if exn_class exc = CapacityExceededError then
            thenE (perform (RejectCapacity (pr_order_id req) (exn_str exc))
                     (state_reject_capacity P (pr_order_id req) (exn_str exc)))
            (thenE (alert P ''CAPACITY_EXCEEDED'' [(''run_id'', run_id), (''order_id'', pr_order_id req)])
            (thenE (rollback_database P)
            (thenE (failed_step P run_id CAPACITY exc)
            (raiseE exc))))
          else raiseE exc)
       (\<lambda>_. success_step P run_id CAPACITY))"

definition step_allocate_endpoint where
  "step_allocate_endpoint P run_id req =
     thenE (start_step P run_id ALLOCATE_ENDPOINT)
     (attemptE (perform (AllocateEndpoint (pr_customer_id req)) (state_allocate_endpoint P (pr_customer_id req)))
       (\<lambda>exc. thenE (rollback_database P) (thenE (failed_step P run_id ALLOCATE_ENDPOINT exc) (raiseE exc)))
       (\<lambda>endpoint. thenE (success_step P run_id ALLOCATE_ENDPOINT) (retE endpoint)))"

definition record_external_id where
  "record_external_id P run_id kind ext =
     perform (RecordExternalId run_id kind ext) (runs_record_external_id P run_id kind ext)"

definition external_id :: "exn \<Rightarrow> string option" where
  "external_id exc = (case exn_class exc of ExternalTenantCreationError ext \<Rightarrow> ext | _ \<Rightarrow> None)"

definition step_create_tenant where
  "step_create_tenant P run_id req =
     thenE (start_step P run_id CREATE_TENANT)
     (attemptE
       (perform (CreateTenant (pr_username req) (pr_quota_gb req) (pr_thread_limit req))
          (egress_create_tenant P (pr_username req) (pr_quota_gb req) (pr_thread_limit req)))
       (\<lambda>exc. thenE
          (case external_id exc of
             Some ext \<Rightarrow> record_external_id P run_id ''egress_tenant'' ext
           | None \<Rightarrow> retE ())
          (thenE (record_step P run_id CREATE_TENANT ''PENDING_MANUAL'')
          (retE (Inl (pending_outcome run_id (exn_str exc) EXTERNAL_TENANT_CREATION)))))
       (\<lambda>tenant. thenE (record_external_id P run_id ''egress_tenant'' (tn_tenant_id tenant))
          (thenE (success_step P run_id CREATE_TENANT)
          (retE (Inr tenant)))))"

definition step_store_credentials where
  "step_store_credentials P run_id endpoint tenant =
     thenE (start_step P run_id STORE_CREDENTIALS)
     (attemptE
       (bindE (perform (GetCredentials (tn_tenant_id tenant) (ep_endpoint_id endpoint))
                (egress_get_credentials P (tn_tenant_id tenant) (ep_endpoint_id endpoint))) (\<lambda>credential.
        perform (SaveCredentials tenant endpoint credential)
                (state_save_credentials P tenant endpoint credential)))
       (\<lambda>exc. thenE (rollback_database P) (thenE (failed_step P run_id STORE_CREDENTIALS exc) (raiseE exc)))
       (\<lambda>secret_ref. thenE (success_step P run_id STORE_CREDENTIALS) (retE secret_ref)))"

definition render_and_apply_forwarder where
  "render_and_apply_forwarder P desired =
     bindE (perform (ForwarderRender desired) (forwarder_render P desired)) (\<lambda>candidate.
     bindE (perform ForwarderApply (forwarder_apply P candidate)) (\<lambda>_. retE ()))"

definition step_apply_forwarder where
  "step_apply_forwarder P run_id endpoint tenant secret_ref =
     thenE (start_step P run_id APPLY_FORWARDER)
     (bindE (perform CurrentForwarderState (state_current_forwarder_state P)) (\<lambda>previous_forwarder.
     attemptE
       (bindE (perform (DesiredForwarder endpoint tenant secret_ref)
                 (state_desired_forwarder_state P endpoint tenant secret_ref)) (\<lambda>desired_forwarder.
        render_and_apply_forwarder P desired_forwarder))
       (\<lambda>exc. attemptE (render_and_apply_forwarder P previous_forwarder)
          (\<lambda>restore_exc.
             thenE (record_step P run_id APPLY_FORWARDER ''PENDING_MANUAL'')
             (retE (Inl (pending_outcome run_id
               (''forwarder apply failed ('' @ type_name exc @ ''), and '' @
                ''restoring the previous forwarder configuration also '' @
                ''failed ('' @ type_name restore_exc @ '')'')
               FORWARDER_COMPENSATION_FAILED))))
          (\<lambda>_. thenE (rollback_database P)
             (thenE (failed_step P run_id APPLY_FORWARDER exc) (raiseE exc))))
       (\<lambda>_. thenE (success_step P run_id APPLY_FORWARDER) (retE (Inr ())))))"

text \<open>The fail-closed contract check on the value \<open>create_user\<close> returned.\<close>

definition check_account_user :: "provision_request \<Rightarrow> account_user_dto \<Rightarrow> exn + account_user_dto" where
  "check_account_user req u =
     (if au_username u \<noteq> pr_username req then
        Inl (Exn (AccountingCreateUserError CREATED)
          (''accounting provider contract violation: create_user() '' @
           ''returned username '' @ py_repr (au_username u) @ '', expected '' @ py_repr (pr_username req)))
      else if \<not> nonblank (au_routing_principal u) then
        Inl (Exn (AccountingCreateUserError CREATED)
          (''accounting provider contract violation: create_user() '' @
           ''returned an empty or whitespace-only routing_principal''))
      else Inr u)"

definition create_accounting_user where
  "create_accounting_user P req =
     bindE (liftE (quota_gb_to_bytes (pr_quota_gb req))) (\<lambda>quota_bytes.
     bindE (perform (CreateUser (pr_username req) quota_bytes (pr_expire_at req))
              (accounting_create_user P (pr_username req) quota_bytes (pr_expire_at req))) (\<lambda>u.
     liftE (check_account_user req u)))"

definition step_create_accounting_user where
  "step_create_accounting_user P run_id req =
     thenE (start_step P run_id CREATE_ACCOUNTING_USER)
     (attemptE (create_accounting_user P req)
       (\<lambda>exc.
          if exn_class exc = AccountingCreateUserError NO_SIDE_EFFECT then
            thenE (rollback_database P)
            (thenE (failed_step P run_id CREATE_ACCOUNTING_USER exc) (raiseE exc))
          else if exn_class exc = AccountingCreateUserError AMBIGUOUS then
            thenE (record_step P run_id CREATE_ACCOUNTING_USER ''PENDING_MANUAL'')
            (retE (Inl (pending_outcome run_id
              (''accounting user creation result is ambiguous: '' @ exn_str exc)
              ACCOUNTING_CREATE_AMBIGUOUS)))
          else bindE (compensate_created_accounting_user P run_id req exc) (\<lambda>outcome. retE (Inl outcome)))
       (\<lambda>account_user. thenE (success_step P run_id CREATE_ACCOUNTING_USER) (retE (Inr account_user))))"

text \<open>Continue after a step unless it returned an outcome.\<close>

definition unless_outcome :: "('w, 'o + 'a) saga \<Rightarrow> ('a \<Rightarrow> ('w, 'o + 'b) saga) \<Rightarrow> ('w, 'o + 'b) saga" where
  "unless_outcome m k = bindE m (\<lambda>r. case r of Inl outcome \<Rightarrow> retE (Inl outcome) | Inr x \<Rightarrow> k x)"

definition provision_prepare where
  "provision_prepare P req =
     bindE (perform (RunsStart req) (runs_start P req)) (\<lambda>run_id.
     thenE (step_capacity P run_id req)
     (bindE (step_allocate_endpoint P run_id req) (\<lambda>endpoint.
     unless_outcome (step_create_tenant P run_id req) (\<lambda>tenant.
     bindE (step_store_credentials P run_id endpoint tenant) (\<lambda>secret_ref.
     unless_outcome (step_apply_forwarder P run_id endpoint tenant secret_ref) (\<lambda>_.
     unless_outcome (step_create_accounting_user P run_id req) (\<lambda>account_user.
     retE (Inr \<lparr>pc_run_id = run_id, pc_endpoint = endpoint, pc_tenant = tenant,
                pc_account_user = account_user\<rparr>))))))))"

section \<open>Steps 7 to 9: \<open>provision_apply_gateway\<close>\<close>

definition apply_gateway where
  "apply_gateway P req ck =
     bindE (perform (DesiredRouting req (pc_endpoint ck) (pc_tenant ck) (au_routing_principal (pc_account_user ck)))
              (state_desired_routing_state P req (pc_endpoint ck) (pc_tenant ck)
                 (au_routing_principal (pc_account_user ck)))) (\<lambda>desired_routing.
     bindE (perform (GatewayRender desired_routing) (gateway_render P desired_routing)) (\<lambda>candidate.
     bindE (perform GatewayValidate (gateway_validate P candidate)) (\<lambda>validation.
     if \<not> vr_valid validation
     then raiseE (runtime_error (''gateway candidate validation failed: '' @ join ''; '' (vr_errors validation)))
     else bindE (perform GatewayApply (gateway_apply P candidate)) (\<lambda>_. retE ()))))"

definition gateway_failed_payload :: "string \<Rightarrow> provision_request \<Rightarrow> string dict" where
  "gateway_failed_payload run_id req = [(''run_id'', run_id), (''user'', pr_username req)]"

definition step_apply_gateway where
  "step_apply_gateway P ck req =
     (let run_id = pc_run_id ck in
     thenE (start_step P run_id APPLY_GATEWAY)
     (attemptE (apply_gateway P req ck)
       (\<lambda>exc. thenE (alert P ''GATEWAY_APPLY_FAILED'' (gateway_failed_payload run_id req))
          (attemptE (disable_user P (pr_username req))
             (\<lambda>disable_exc.
                thenE (record_step P run_id APPLY_GATEWAY ''PENDING_MANUAL'')
                (retE (Inl (pending_outcome run_id
                  (''gateway apply failed ('' @ type_name exc @ ''), and '' @
                   ''disabling the accounting user also failed '' @ ''('' @ type_name disable_exc @ '')'')
                  GATEWAY_COMPENSATION_FAILED))))
             (\<lambda>_. thenE (rollback_database P)
                (thenE (failed_step P run_id APPLY_GATEWAY exc) (raiseE exc)))))
       (\<lambda>_. thenE (success_step P run_id APPLY_GATEWAY) (retE (Inr ())))))"

definition step_issue_subscription where
  "step_issue_subscription P run_id req =
     thenE (start_step P run_id ISSUE_SUBSCRIPTION)
     (attemptE
       (bindE (perform TokenFactory (token_factory P)) (\<lambda>raw_token.
        thenE (perform (StoreSubscriptionToken (pr_customer_id req) raw_token)
                 (state_store_subscription_token P (pr_customer_id req) raw_token))
        (liftE (subscription_url (pr_subscription_domain req) raw_token))))
       (\<lambda>exc. thenE (rollback_database P) (thenE (failed_step P run_id ISSUE_SUBSCRIPTION exc) (raiseE exc)))
       (\<lambda>url. thenE (success_step P run_id ISSUE_SUBSCRIPTION) (retE url)))"

definition step_notify where
  "step_notify P run_id req =
     thenE (start_step P run_id NOTIFY)
     (thenE
       (tryE (send P \<lparr>ne_event_type = ''PROVISION_SUCCEEDED'',
                ne_payload = [(''run_id'', run_id), (''customer_id'', pr_customer_id req)]\<rparr>)
         (\<lambda>exc. perform (MarkNotificationFailed run_id (exn_str exc))
                   (runs_mark_notification_failed P run_id (exn_str exc))))
       (success_step P run_id NOTIFY))"

definition provision_apply_gateway where
  "provision_apply_gateway P ck req =
     (let run_id = pc_run_id ck in
     bindE (step_apply_gateway P ck req) (\<lambda>r. case r of Inl outcome \<Rightarrow> retE outcome | Inr _ \<Rightarrow>
     bindE (step_issue_subscription P run_id req) (\<lambda>url.
     thenE (step_notify P run_id req)
     (retE \<lparr>po_run_id = run_id, po_status = SUCCEEDED, po_subscription_url = Some url,
           po_pending_manual_error = None, po_reason = None\<rparr>))))"

section \<open>Terminal statuses and the composition\<close>

definition mark_run_failed where
  "mark_run_failed P run_id err = mark_status P run_id FAILED (Some (exn_str err))"

definition mark_apply_gateway_succeeded where
  "mark_apply_gateway_succeeded P run_id = suppressE (mark_status P run_id SUCCEEDED None)"

definition mark_run_pending_manual where
  "mark_run_pending_manual P run_id err = suppressE (mark_status P run_id PENDING_MANUAL err)"

definition fail_before_gateway_authoritative_commit where
  "fail_before_gateway_authoritative_commit P ck req err =
     compensate_created_accounting_user P (pc_run_id ck) req err"

definition fail_apply_gateway_lock_acquisition where
  "fail_apply_gateway_lock_acquisition P ck req err =
     thenE (alert P ''GATEWAY_APPLY_FAILED'' (gateway_failed_payload (pc_run_id ck) req))
     (attemptE (disable_user P (pr_username req))
       (\<lambda>disable_exc.
          thenE (record_step P (pc_run_id ck) APPLY_GATEWAY ''PENDING_MANUAL'')
          (retE (Some (pending_outcome (pc_run_id ck)
            (''gateway route lock acquisition failed ('' @ type_name err @ ''), '' @
             ''and disabling the accounting user also failed '' @ ''('' @ type_name disable_exc @ '')'')
            GATEWAY_COMPENSATION_FAILED))))
       (\<lambda>_. thenE (failed_step P (pc_run_id ck) APPLY_GATEWAY err) (retE None)))"

definition provision where
  "provision P req =
     bindE (provision_prepare P req) (\<lambda>prepared. case prepared of
       Inl outcome \<Rightarrow>
         thenE (mark_run_pending_manual P (po_run_id outcome) (po_pending_manual_error outcome))
         (retE outcome)
     | Inr ck \<Rightarrow>
         bindE (provision_apply_gateway P ck req) (\<lambda>outcome.
         if po_status outcome = PENDING_MANUAL then
           thenE (mark_run_pending_manual P (po_run_id outcome) (po_pending_manual_error outcome))
           (retE outcome)
         else
           thenE (mark_apply_gateway_succeeded P (po_run_id outcome))
           (retE outcome)))"

end
