(* ===== verification/Provisioning_State.thy ===== *)
theory Provisioning_State
  imports Secret_Store Provisioning "HOL-Library.Product_Lexorder"
begin

text \<open>
  The database behind the provisioning saga (\<open>infra/provisioning_state.py\<close>): allocation and release
  of an egress endpoint, the customer's upstream credentials, the gateway route binding, the
  subscription token, and the snapshot of the routing state that every gateway change renders.
  Rows are ordered by code point where the code orders by a text column.
\<close>

abbreviation state_error :: "string \<Rightarrow> exn" where
  "state_error \<equiv> Exn ProvisioningStateError"

abbreviation routing_error :: "string \<Rightarrow> exn" where
  "routing_error \<equiv> Exn DesiredRoutingStateError"

definition db_id :: "string \<Rightarrow> string \<Rightarrow> exn + int" where
  "db_id value label = (case py_int value of
     Some i \<Rightarrow> Inr i | None \<Rightarrow> Inl (state_error (label @ '' must be a database integer id'')))"

text \<open>The first row of a query with an \<open>ORDER BY\<close>.\<close>

definition first_by :: "('r \<Rightarrow> 'k :: linorder) \<Rightarrow> 'r list \<Rightarrow> 'r option" where
  "first_by key rs = (case sort_key key rs of [] \<Rightarrow> None | r # _ \<Rightarrow> Some r)"

section \<open>Endpoints\<close>

definition allocatable :: "egress_endpoint \<Rightarrow> bool" where
  "allocatable e \<longleftrightarrow> ee_status e = ''AVAILABLE'' \<and> ee_purpose e = ''PRODUCTION'' \<and>
     ee_capacity e = 1 \<and> ee_current_count e = 0"

definition new_binding :: "int \<Rightarrow> int \<Rightarrow> database \<Rightarrow> database" where
  "new_binding sub egress d = d\<lparr>db_bindings := db_bindings d @
     [\<lparr>eb_id = next_id eb_id (db_bindings d), eb_subscription_id = sub, eb_egress_id = egress,
       eb_credential_secret_ref = None, eb_released_at = None\<rparr>]\<rparr>"

definition subscription_of_customer :: "db_oracle \<Rightarrow> int \<Rightarrow> string \<Rightarrow> ('w, subscription) db" where
  "subscription_of_customer X sub customer_id =
     bindE (db_read X (\<lambda>d. get_subscription d sub)) (\<lambda>row. case row of
       None \<Rightarrow> raiseE (state_error ''subscription/customer does not match'')
     | Some s \<Rightarrow> if show_int (sb_customer_id s) \<noteq> customer_id
         then raiseE (state_error ''subscription/customer does not match'') else retE s)"

definition endpoint_dto :: "egress_endpoint \<Rightarrow> egress_endpoint_dto" where
  "endpoint_dto e = \<lparr>ep_endpoint_id = show_int (ee_id e), ep_host = ee_host e, ep_port = ee_port e,
     ep_protocol = ee_protocol e, ep_public_ip = None\<rparr>"

definition allocate_endpoint :: "db_oracle \<Rightarrow> int \<Rightarrow> string \<Rightarrow> ('w, egress_endpoint_dto) db" where
  "allocate_endpoint X sub customer_id =
     thenE (subscription_of_customer X sub customer_id)
     (bindE (db_read X (\<lambda>d. first_by ee_id (filter allocatable (db_endpoints d)))) (\<lambda>endpoint.
     case endpoint of
       None \<Rightarrow> raiseE (state_error ''no dedicated egress endpoint is available'')
     | Some e \<Rightarrow>
         thenE (db_update (put_endpoint (e\<lparr>ee_current_count := 1, ee_status := ''ASSIGNED''\<rparr>)))
         (bindE (db_read X (\<lambda>d. find (\<lambda>b. eb_subscription_id b = sub \<and> active_binding b) (db_bindings d))) (\<lambda>binding.
         thenE (if binding = None then db_update (new_binding sub (ee_id e)) else retE ())
         (thenE (db_flush X)
         (retE (endpoint_dto e)))))))"

definition release_endpoint :: "db_oracle \<Rightarrow> int \<Rightarrow> string \<Rightarrow> ('w, unit) db" where
  "release_endpoint X sub endpoint_id =
     bindE (liftE (db_id endpoint_id ''endpoint_id'')) (\<lambda>i.
     bindE (db_read X (\<lambda>d. get_endpoint d i)) (\<lambda>endpoint. case endpoint of
       None \<Rightarrow> retE ()
     | Some e \<Rightarrow>
         bindE (db_read X (\<lambda>d. find (\<lambda>b. eb_subscription_id b = sub \<and> eb_egress_id b = ee_id e \<and> active_binding b)
           (db_bindings d))) (\<lambda>binding.
         bindE (db_now X) (\<lambda>now.
         thenE (case binding of
             Some b \<Rightarrow> db_update (put_binding (b\<lparr>eb_released_at := Some now\<rparr>)) | None \<Rightarrow> retE ())
         (thenE (db_update (put_endpoint (e\<lparr>ee_current_count := 0, ee_status := ''AVAILABLE''\<rparr>)))
         (db_flush X))))))"

section \<open>Credentials and tokens\<close>

definition credential_text :: "credential_dto \<Rightarrow> string" where
  "credential_text c =
     json_text (VMap [(''username'', VStr (cr_username c)), (''password'', VStr (cr_password c))])"

definition binding_secret_ref :: "int \<Rightarrow> int \<Rightarrow> string" where
  "binding_secret_ref sub egress = ''webshare/subuser/'' @ show_int sub @ ''/egress/'' @ show_int egress"

definition save_credentials ::
  "db_oracle \<Rightarrow> secret_env \<Rightarrow> int \<Rightarrow> egress_endpoint_dto \<Rightarrow> credential_dto \<Rightarrow> ('w, string) db" where
  "save_credentials X C sub endpoint credential =
     bindE (liftE (db_id (ep_endpoint_id endpoint) ''endpoint_id'')) (\<lambda>i.
     (let ref = binding_secret_ref sub i;
          mine = (\<lambda>b. eb_subscription_id b = sub \<and> eb_egress_id b = i \<and> active_binding b) in
     thenE (put_secret X C ref (credential_text credential) ''WEBSHARE_SUBUSER_PROXY_CREDENTIAL'')
     (bindE (db_read X (\<lambda>d. find mine (db_bindings d))) (\<lambda>binding.
     thenE (if binding = None then db_update (new_binding sub i) else retE ())
     (thenE (db_update (\<lambda>d. case find mine (db_bindings d) of
         Some b \<Rightarrow> put_binding (b\<lparr>eb_credential_secret_ref := Some ref\<rparr>) d | None \<Rightarrow> d))
     (thenE (db_flush X) (retE ref)))))))"

definition store_subscription_token ::
  "db_oracle \<Rightarrow> secret_env \<Rightarrow> (string \<Rightarrow> string) \<Rightarrow> int \<Rightarrow> string \<Rightarrow> string \<Rightarrow> ('w, unit) db" where
  "store_subscription_token X C sha256 sub customer_id raw_token =
     bindE (subscription_of_customer X sub customer_id) (\<lambda>s.
     thenE (put_secret X C (''subscription/'' @ show_int sub @ ''/token'') raw_token ''SUBSCRIPTION_TOKEN'')
     (bindE (db_now X) (\<lambda>now.
     thenE (db_update (put_subscription (s\<lparr>sb_token_hash := Some (sha256 raw_token),
        sb_token_created_at := Some now, sb_token_revoked_at := None\<rparr>)))
     (db_flush X))))"

definition read_subscription_token ::
  "db_oracle \<Rightarrow> secret_env \<Rightarrow> (string \<Rightarrow> string) \<Rightarrow> int \<Rightarrow> ('w, string) db" where
  "read_subscription_token X C sha256 sub =
     bindE (db_read X (\<lambda>d. get_subscription d sub)) (\<lambda>row.
     (let unavailable = raiseE (state_error ''subscription token is not available'') in
     case row of
       None \<Rightarrow> unavailable
     | Some s \<Rightarrow> (case sb_token_hash s of
         None \<Rightarrow> unavailable
       | Some h \<Rightarrow> if h = [] then unavailable
           else bindE (reveal_secret X C (''subscription/'' @ show_int sub @ ''/token'')) (\<lambda>raw.
             if sha256 raw \<noteq> h then raiseE (state_error ''subscription token hash mismatch'')
             else retE raw))))"

text \<open>\<open>settings_domain\<close> and \<open>settings_base_url\<close> are the two configured fallbacks.\<close>

definition current_subscription_url ::
  "db_oracle \<Rightarrow> secret_env \<Rightarrow> (string \<Rightarrow> string) \<Rightarrow> int \<Rightarrow> string \<Rightarrow> string \<Rightarrow> string option \<Rightarrow> ('w, string) db" where
  "current_subscription_url X C sha256 sub settings_domain settings_base_url domain =
     (let configured = (case domain of Some d \<Rightarrow> if d \<noteq> [] then d else
              (if settings_domain \<noteq> [] then settings_domain else settings_base_url)
            | None \<Rightarrow> if settings_domain \<noteq> [] then settings_domain else settings_base_url);
          base = rstrip_by (\<lambda>c. c = CHR ''/'') (strip configured) in
      if base = [] then raiseE (state_error ''subscription domain is required'')
      else bindE (read_subscription_token X C sha256 sub) (\<lambda>raw.
        retE ((if contains_sub base ''://'' then base else ''https://'' @ base) @ ''/s/'' @ raw)))"

section \<open>Forwarder state\<close>

definition current_forwarder_state :: "db_oracle \<Rightarrow> ('w, desired_forwarder_state) db" where
  "current_forwarder_state X =
     bindE (db_read X (\<lambda>d. filter (\<lambda>e. ee_status e \<in> {''AVAILABLE'', ''ASSIGNED'', ''DEGRADED''}) (db_endpoints d))) (\<lambda>es.
     retE \<lparr>df_listeners = foldl (\<lambda>m e. dict_set m (show_int (ee_id e)) (show_int (ee_mihomo_listen_port e))) [] es\<rparr>)"

definition desired_forwarder_state_of ::
  "db_oracle \<Rightarrow> egress_endpoint_dto \<Rightarrow> tenant_dto \<Rightarrow> string \<Rightarrow> ('w, desired_forwarder_state) db" where
  "desired_forwarder_state_of X endpoint tenant secret_ref =
     bindE (current_forwarder_state X) (\<lambda>current.
     retE \<lparr>df_listeners = dict_set (df_listeners current) (ep_endpoint_id endpoint)
       (tn_tenant_id tenant @ '':'' @ secret_ref)\<rparr>)"

section \<open>Route bindings\<close>

definition route_tag :: "int \<Rightarrow> string" where
  "route_tag egress = ''egress-'' @ show_int egress"

definition new_route :: "int \<Rightarrow> int \<Rightarrow> string \<Rightarrow> database \<Rightarrow> database" where
  "new_route sub egress gateway_principal d = d\<lparr>db_routes := db_routes d @
     [\<lparr>gr_id = next_id gr_id (db_routes d), gr_subscription_id = sub, gr_egress_id = egress,
       gr_gateway_principal = gateway_principal, gr_outbound_tag = route_tag egress, gr_enabled = True,
       gr_released_at = None\<rparr>]\<rparr>"

definition ensure_gateway_route_binding ::
  "db_oracle \<Rightarrow> int \<Rightarrow> string \<Rightarrow> egress_endpoint_dto \<Rightarrow> ('w, unit) db" where
  "ensure_gateway_route_binding X sub gateway_principal endpoint =
     bindE (getsE se_lock_held) (\<lambda>held.
     if \<not> held then raiseE (Exn GatewayRouteBindingLockError
       (''ensure_gateway_route_binding() called without the ADR-016 named lock held on this session; '' @
        ''refusing to mutate GatewayRouteBinding outside gateway_route_binding_lock()''))
     else bindE (liftE (db_id (ep_endpoint_id endpoint) ''endpoint_id'')) (\<lambda>i.
     bindE (db_read X (\<lambda>d. find (\<lambda>r. gr_subscription_id r = sub \<and> gr_released_at r = None) (db_routes d))) (\<lambda>binding.
     thenE (case binding of
         None \<Rightarrow> db_update (new_route sub i gateway_principal)
       | Some r \<Rightarrow> db_update (put_route (r\<lparr>gr_egress_id := i, gr_gateway_principal := gateway_principal,
            gr_outbound_tag := route_tag i, gr_enabled := True\<rparr>)))
     (db_flush X))))"

section \<open>The routing snapshot\<close>

type_synonym snapshot_row = "gateway_route_binding \<times> egress_endpoint option \<times> egress_binding option"

definition snapshot_routes :: "database \<Rightarrow> gateway_route_binding list" where
  "snapshot_routes d = sort_key (\<lambda>r. (gr_outbound_tag r, gr_gateway_principal r, gr_id r)) (filter active_route (db_routes d))"

definition joined_bindings :: "database \<Rightarrow> gateway_route_binding \<Rightarrow> egress_binding list" where
  "joined_bindings d r = filter (\<lambda>b. eb_subscription_id b = gr_subscription_id r \<and>
     eb_egress_id b = gr_egress_id r \<and> active_binding b) (db_bindings d)"

text \<open>The two outer joins: a route without a match keeps one row with no partner.\<close>

definition partners :: "'b list \<Rightarrow> 'b option list" where
  "partners bs = (if bs = [] then [None] else map Some bs)"

definition snapshot_rows :: "database \<Rightarrow> snapshot_row list" where
  "snapshot_rows d = concat (map (\<lambda>r.
     map (\<lambda>b. (r, get_endpoint d (gr_egress_id r), b)) (partners (joined_bindings d r))) (snapshot_routes d))"

definition subscription_bindings :: "database \<Rightarrow> int \<Rightarrow> egress_binding list" where
  "subscription_bindings d sub = filter (\<lambda>b. eb_subscription_id b = sub \<and> active_binding b) (db_bindings d)"

definition selected_ref :: "egress_endpoint \<Rightarrow> egress_binding option \<Rightarrow> string" where
  "selected_ref e b = (case Option.bind b eb_credential_secret_ref of
     Some ref \<Rightarrow> if ref \<noteq> [] then ref else ee_credential_secret_ref e
   | None \<Rightarrow> ee_credential_secret_ref e)"

type_synonym snapshot_acc = "string dict \<times> xray_outbound_dto dict"

definition snapshot_step :: "database \<Rightarrow> snapshot_acc \<Rightarrow> snapshot_row \<Rightarrow> exn + snapshot_acc" where
  "snapshot_step d acc row = (case acc of (routes, outs) \<Rightarrow> case row of (r, endpoint, joined) \<Rightarrow>
     thenS (require (nonblank (gr_gateway_principal r)) (routing_error ''ROUTE_PRINCIPAL_INVALID''))
     (thenS (require (nonblank (gr_outbound_tag r)) (routing_error ''ROUTE_TAG_INVALID''))
     (thenS (require (gr_outbound_tag r \<noteq> ''BLOCK'') (routing_error ''ROUTE_TAG_RESERVED''))
     (thenS (require (dict_get routes (gr_gateway_principal r) = None) (routing_error ''ROUTE_PRINCIPAL_DUPLICATE''))
     (case endpoint of
        None \<Rightarrow> Inl (routing_error ''ROUTE_ENDPOINT_MISSING'')
      | Some e \<Rightarrow>
         thenS (require (list_all (\<lambda>b. eb_egress_id b = gr_egress_id r) (subscription_bindings d (gr_subscription_id r)))
            (routing_error ''ROUTE_BINDING_EGRESS_MISMATCH''))
         (thenS (require (case joined of Some b \<Rightarrow> eb_egress_id b = gr_egress_id r | None \<Rightarrow> True)
            (routing_error ''ROUTE_BINDING_EGRESS_MISMATCH''))
         (thenS (require (nonblank (ee_host e)) (routing_error ''ENDPOINT_HOST_INVALID''))
         (thenS (require (1 \<le> ee_port e \<and> ee_port e \<le> 65535) (routing_error ''ENDPOINT_PORT_INVALID''))
         (thenS (require (lower (ee_protocol e) = ''socks'' \<or> lower (ee_protocol e) = ''socks5'')
            (routing_error ''ENDPOINT_PROTOCOL_UNSUPPORTED''))
         (thenS (require (selected_ref e joined \<noteq> []) (routing_error ''CREDENTIAL_REF_INVALID''))
         (thenS (require (dict_get outs (gr_outbound_tag r) = None) (routing_error ''ROUTE_TAG_DUPLICATE''))
         (Inr (dict_set routes (gr_gateway_principal r) (gr_outbound_tag r),
            dict_set outs (gr_outbound_tag r)
              \<lparr>xo_tag = gr_outbound_tag r, xo_host = ee_host e, xo_port = ee_port e,
               xo_protocol = ee_protocol e, xo_credential_secret_ref = selected_ref e joined\<rparr>)))))))))))))"

definition routing_snapshot :: "database \<Rightarrow> exn + desired_routing_state" where
  "routing_snapshot d = bindS (foldS (snapshot_step d) ([], []) (snapshot_rows d)) (\<lambda>(routes, outs).
     Inr \<lparr>dr_user_routes = routes, dr_outbounds = map snd (sorted_items outs)\<rparr>)"

definition full_desired_routing_snapshot :: "db_oracle \<Rightarrow> ('w, desired_routing_state) db" where
  "full_desired_routing_snapshot X =
     bindE (db_read X snapshot_rows) (\<lambda>rows.
     thenE (if rows = [] then retE () else db_read X (\<lambda>_. ()))
     (bindE (getsE se_work) (\<lambda>d. liftE (routing_snapshot d))))"

definition desired_routing_state_of ::
  "db_oracle \<Rightarrow> int \<Rightarrow> egress_endpoint_dto \<Rightarrow> string \<Rightarrow> ('w, desired_routing_state) db" where
  "desired_routing_state_of X sub endpoint routing_principal =
     thenE (ensure_gateway_route_binding X sub routing_principal endpoint)
     (thenE (db_flush X) (full_desired_routing_snapshot X))"

section \<open>Lemmas\<close>

lemma first_by_Some: "first_by key rs = Some r \<Longrightarrow> r \<in> set rs"
  by (auto simp: first_by_def split: list.splits) (metis list.set_intros(1) set_sort)

lemma first_by_filter: "first_by key (filter p rs) = Some r \<Longrightarrow> r \<in> set rs \<and> p r"
  by (auto dest: first_by_Some)

end
