(* ===== verification/Saga_Logic.thy ===== *)
theory Saga_Logic
  imports Provisioning
begin

text \<open>
  Reasoning about the trace of a saga.

  A monitor reads the protocol calls one by one, each with the exception it raised, and
  refuses a call by returning \<open>None\<close>. \<open>safe D q m Q E\<close> says that from monitor state \<open>q\<close>,
  and whatever the protocol implementations answer, every call \<open>m\<close> makes is accepted and
  the final monitor state satisfies \<open>Q\<close> (normal return) or \<open>E\<close> (exception). The rules
  \<open>safe_intros\<close> follow the structure of the code, so that a safety proof of a step is a
  symbolic execution over the monitor's states.
\<close>

named_theorems safe_intros \<open>structural rules of the monitor logic\<close>

type_synonym 'q monitor = "'q \<Rightarrow> event \<times> exn option \<Rightarrow> 'q option"

fun run_mon :: "'q monitor \<Rightarrow> 'q \<Rightarrow> step_log \<Rightarrow> 'q option" where
  "run_mon D q [] = Some q"
| "run_mon D q (e # t) = (case D q e of None \<Rightarrow> None | Some q' \<Rightarrow> run_mon D q' t)"

definition safe ::
  "'q monitor \<Rightarrow> 'q \<Rightarrow> ('w, 'a) saga \<Rightarrow> ('a \<Rightarrow> 'q \<Rightarrow> bool) \<Rightarrow> (exn \<Rightarrow> 'q \<Rightarrow> bool) \<Rightarrow> bool" where
  "safe D q m Q E \<longleftrightarrow> (\<forall>s. \<exists>t q'. trace (snd (m s)) = trace s @ t \<and> run_mon D q t = Some q' \<and>
     (case fst (m s) of Inl e \<Rightarrow> E e q' | Inr x \<Rightarrow> Q x q'))"

text \<open>The monitor that refuses the calls satisfying \<open>p\<close>.\<close>

definition never :: "(event \<Rightarrow> bool) \<Rightarrow> unit monitor" where
  "never p q e = (if p (fst e) then None else Some q)"

lemma run_mon_append:
  "run_mon D q (t @ u) = (case run_mon D q t of None \<Rightarrow> None | Some q' \<Rightarrow> run_mon D q' u)"
  by (induction t arbitrary: q) (auto split: option.splits)

lemma run_mon_never: "run_mon (never p) q t = Some q' \<longleftrightarrow> q' = q \<and> (\<forall>e\<in>set t. \<not> p (fst e))"
  by (induction t) (auto simp: never_def)

lemma safe_ret [safe_intros]: "Q x q \<Longrightarrow> safe D q (retE x) Q E"
  by (auto simp: safe_def retE_def intro: exI [of _ "[]"])

lemma safe_raise [safe_intros]: "E e q \<Longrightarrow> safe D q (raiseE e) Q E"
  by (auto simp: safe_def raiseE_def intro: exI [of _ "[]"])

lemma safe_lift [safe_intros]:
  "(\<And>e. r = Inl e \<Longrightarrow> E e q) \<Longrightarrow> (\<And>x. r = Inr x \<Longrightarrow> Q x q) \<Longrightarrow> safe D q (liftE r) Q E"
  by (cases r) (auto simp: safe_def liftE_def intro: exI [of _ "[]"])

lemma safe_gets [safe_intros]: "(\<And>x. Q x q) \<Longrightarrow> safe D q (getsE f) Q E"
  by (auto simp: safe_def getsE_def intro: exI [of _ "[]"])

lemma safe_attempt [safe_intros]:
  assumes "safe D q m (\<lambda>x q'. safe D q' (k x) Q E) (\<lambda>e q'. safe D q' (h e) Q E)"
  shows "safe D q (attemptE m h k) Q E"
  unfolding safe_def
proof
  fix s
  obtain r s1 where m: "m s = (r, s1)" by (cases "m s")
  from assms m obtain t q1 where t: "trace s1 = trace s @ t" "run_mon D q t = Some q1"
    and r: "case r of Inl e \<Rightarrow> safe D q1 (h e) Q E | Inr x \<Rightarrow> safe D q1 (k x) Q E"
    unfolding safe_def [of D q m] by (metis fst_conv snd_conv)
  define n where "n = (case r of Inl e \<Rightarrow> h e | Inr x \<Rightarrow> k x)"
  have n: "attemptE m h k s = n s1" using m by (simp add: attemptE_def n_def split: sum.splits)
  from r have "safe D q1 n Q E" by (simp add: n_def split: sum.splits)
  then obtain u q2 where "trace (snd (n s1)) = trace s1 @ u" "run_mon D q1 u = Some q2"
    "case fst (n s1) of Inl e \<Rightarrow> E e q2 | Inr x \<Rightarrow> Q x q2"
    unfolding safe_def by blast
  with t n show "\<exists>t q'. trace (snd (attemptE m h k s)) = trace s @ t \<and> run_mon D q t = Some q' \<and>
      (case fst (attemptE m h k s) of Inl e \<Rightarrow> E e q' | Inr x \<Rightarrow> Q x q')"
    by (intro exI [of _ "t @ u"] exI [of _ q2]) (simp add: run_mon_append)
qed

lemma safe_mono:
  assumes "safe D q m Q E" and "\<And>x q. Q x q \<Longrightarrow> Q' x q" and "\<And>e q. E e q \<Longrightarrow> E' e q"
  shows "safe D q m Q' E'"
proof -
  have "(case r of Inl e \<Rightarrow> E e q | Inr x \<Rightarrow> Q x q) \<Longrightarrow> (case r of Inl e \<Rightarrow> E' e q | Inr x \<Rightarrow> Q' x q)" for r q
    using assms(2,3) by (auto split: sum.splits)
  with assms(1) show ?thesis unfolding safe_def by meson
qed

lemma safe_bind [safe_intros]:
  "safe D q m (\<lambda>x q'. safe D q' (k x) Q E) E \<Longrightarrow> safe D q (bindE m k) Q E"
  unfolding bindE_def by (rule safe_attempt) (erule safe_mono, simp, rule safe_raise)

lemma safe_then [safe_intros]:
  "safe D q m (\<lambda>_ q'. safe D q' k Q E) E \<Longrightarrow> safe D q (thenE m k) Q E"
  unfolding thenE_def by (rule safe_attempt) (erule safe_mono, simp, rule safe_raise)

lemma safe_try [safe_intros]:
  "safe D q m Q (\<lambda>e q'. safe D q' (h e) Q E) \<Longrightarrow> safe D q (tryE m h) Q E"
  unfolding tryE_def by (rule safe_attempt) (erule safe_mono, rule safe_ret, simp_all)

lemma safe_suppress [safe_intros]:
  "safe D q m Q (\<lambda>_ q'. Q () q') \<Longrightarrow> safe D q (suppressE m) Q E"
  unfolding suppressE_def by (rule safe_try) (erule safe_mono, simp, rule safe_ret)

lemma safe_finally [safe_intros]:
  "safe D q m (\<lambda>x q'. safe D q' f (\<lambda>_. Q x) E) (\<lambda>e q'. safe D q' f (\<lambda>_. E e) E) \<Longrightarrow>
   safe D q (finallyE m f) Q E"
  unfolding finallyE_def
  by (rule safe_attempt, erule safe_mono) (rule safe_then, erule safe_mono, rule safe_ret safe_raise, simp, simp)+

lemma safe_if [safe_intros]:
  "(b \<Longrightarrow> safe D q m Q E) \<Longrightarrow> (\<not> b \<Longrightarrow> safe D q n Q E) \<Longrightarrow> safe D q (if b then m else n) Q E"
  by simp

lemma safe_case_sum [safe_intros]:
  "(\<And>y. x = Inl y \<Longrightarrow> safe D q (f y) Q E) \<Longrightarrow> (\<And>z. x = Inr z \<Longrightarrow> safe D q (g z) Q E) \<Longrightarrow>
   safe D q (case x of Inl y \<Rightarrow> f y | Inr z \<Rightarrow> g z) Q E"
  by (cases x) auto

lemma safe_case_option [safe_intros]:
  "(x = None \<Longrightarrow> safe D q m Q E) \<Longrightarrow> (\<And>y. x = Some y \<Longrightarrow> safe D q (f y) Q E) \<Longrightarrow>
   safe D q (case x of None \<Rightarrow> m | Some y \<Rightarrow> f y) Q E"
  by (cases x) auto

text \<open>A protocol call may return any value or raise any exception.\<close>

lemma safe_perform [safe_intros]:
  assumes ok: "case D q (ev, None) of None \<Rightarrow> False | Some q' \<Rightarrow> \<forall>x. Q x q'"
    and err: "\<And>e. case D q (ev, Some e) of None \<Rightarrow> False | Some q' \<Rightarrow> E e q'"
  shows "safe D q (perform ev (op :: ('b, 'a) call)) Q E"
  unfolding safe_def
proof
  fix s :: "'b saga_state"
  obtain r w where op: "op (world s) = (r, w)" by (cases "op (world s)")
  have *: "\<exists>q'. D q (ev, outcome_of r) = Some q' \<and> (case r of Inl e \<Rightarrow> E e q' | Inr x \<Rightarrow> Q x q')"
    using ok err [of "projl r"] by (cases r) (auto simp: outcome_of_def split: option.splits)
  with op show "\<exists>t q'. trace (snd (perform ev op s)) = trace s @ t \<and> run_mon D q t = Some q' \<and>
      (case fst (perform ev op s) of Inl e \<Rightarrow> E e q' | Inr x \<Rightarrow> Q x q')"
    by (intro exI [of _ "[(ev, outcome_of r)]"]) (auto simp: perform_def)
qed

text \<open>What a safety proof says of a run that starts with an empty trace.\<close>

lemma safe_run:
  assumes "safe D q m Q E" and "m (start_of w) = (r, s)"
  shows "\<exists>q'. run_mon D q (trace s) = Some q' \<and> (case r of Inl e \<Rightarrow> E e q' | Inr x \<Rightarrow> Q x q')"
  using assms unfolding safe_def by (metis append_Nil fst_conv saga_state.select_convs(2) snd_conv)

lemma safe_never:
  assumes "safe (never p) () m (\<lambda>_ _. True) (\<lambda>_ _. True)"
  shows "\<forall>e\<in>set (trace (snd (m (start_of w)))). \<not> p (fst e)"
  using safe_run [OF assms, of w "fst (m (start_of w))" "snd (m (start_of w))"]
  by (simp add: run_mon_never split: sum.splits)

lemma safe_never_mono:
  assumes "safe (never p') () m Q E" and "\<And>ev. p ev \<Longrightarrow> p' ev"
  shows "safe (never p) () m Q E"
  using assms unfolding safe_def run_mon_never by fast

text \<open>A monitor state that only the calls in \<open>p\<close> can leave is kept by code that makes none of them.\<close>

lemma safe_frame:
  assumes "safe (never p) () m (\<lambda>x _. Q x) (\<lambda>e _. E e)" and "\<And>ev r. \<not> p ev \<Longrightarrow> D q (ev, r) = Some q"
  shows "safe D q m (\<lambda>x q'. q' = q \<and> Q x) (\<lambda>e q'. q' = q \<and> E e)"
proof -
  have "\<forall>e\<in>set t. \<not> p (fst e) \<Longrightarrow> run_mon D q t = Some q" for t
    using assms(2) by (induction t) (fastforce split: option.splits)+
  then have "safe D q m (\<lambda>x q'. q' = q \<and> Q x) (\<lambda>e q'. q' = q \<and> E e)"
    if "\<forall>s. \<exists>t. trace (snd (m s)) = trace s @ t \<and> (\<forall>e\<in>set t. \<not> p (fst e)) \<and>
        (case fst (m s) of Inl e \<Rightarrow> E e | Inr x \<Rightarrow> Q x)"
    unfolding safe_def
  proof (intro allI)
    fix s
    from that obtain t where "trace (snd (m s)) = trace s @ t" "\<forall>e\<in>set t. \<not> p (fst e)"
      "case fst (m s) of Inl e \<Rightarrow> E e | Inr x \<Rightarrow> Q x" by blast
    with \<open>\<And>t. \<forall>e\<in>set t. \<not> p (fst e) \<Longrightarrow> run_mon D q t = Some q\<close>
    show "\<exists>t q'. trace (snd (m s)) = trace s @ t \<and> run_mon D q t = Some q' \<and>
        (case fst (m s) of Inl e \<Rightarrow> q' = q \<and> E e | Inr x \<Rightarrow> q' = q \<and> Q x)"
      by (intro exI [of _ t] exI [of _ q]) (simp split: sum.splits)
  qed
  with assms(1) show ?thesis by (simp add: safe_def run_mon_never)
qed

text \<open>A call whose answer is known.\<close>

lemma safe_perform_known:
  assumes "\<And>w. fst (op w) = Inr x" and "D q (ev, None) = Some q'" and "Q x q'"
  shows "safe D q (perform ev op) Q E"
  unfolding safe_def
proof
  fix s :: "'a saga_state"
  obtain w where "op (world s) = (Inr x, w)" using assms(1) by (metis prod.collapse)
  with assms show "\<exists>t q'. trace (snd (perform ev op s)) = trace s @ t \<and> run_mon D q t = Some q' \<and>
      (case fst (perform ev op s) of Inl e \<Rightarrow> E e q' | Inr x \<Rightarrow> Q x q')"
    by (intro exI [of _ "[(ev, None)]"]) (auto simp: perform_def outcome_of_def)
qed

end
