(* ===== verification/Saga_Properties.thy ===== *)
theory Saga_Properties
  imports Saga_Logic
begin

text \<open>
  The contracts of the provisioning saga as monitors of its trace, and the proofs that
  \<open>provision_prepare\<close>, \<open>provision_apply_gateway\<close> and \<open>provision\<close> respect them for every
  implementation of the protocols they call.

  \<^item> \<open>failed_when_clean\<close>: the run is marked FAILED only when no database write of the run is
    pending (the run-persistence ordering of ADR-017).
  \<^item> \<open>compensation\<close>: what became of the accounting user (ADR-018 and ADR-026).
  \<^item> \<open>single_terminal\<close>: the run gets at most one terminal status, SUCCEEDED only after the
    gateway was applied.
\<close>

section \<open>Monitors\<close>

definition writes_database :: "event \<Rightarrow> bool" where
  "writes_database ev = (case ev of
     RejectCapacity _ _ \<Rightarrow> True | AllocateEndpoint _ \<Rightarrow> True | SaveCredentials _ _ _ \<Rightarrow> True
   | DesiredRouting _ _ _ _ \<Rightarrow> True | StoreSubscriptionToken _ _ \<Rightarrow> True
   | OrderRejectCapacity _ _ \<Rightarrow> True | RecordPayment _ _ \<Rightarrow> True | PreparePurchase _ \<Rightarrow> True
   | ApplyRenewal _ \<Rightarrow> True | ActivateSubscription _ \<Rightarrow> True | MarkProvisionPending _ _ \<Rightarrow> True
   | MarkProvisionFailed _ _ \<Rightarrow> True | _ \<Rightarrow> False)"

definition failed_when_clean :: "bool monitor" where
  "failed_when_clean dirty e = (case fst e of
     MarkStatus _ st _ \<Rightarrow> if st = FAILED \<and> dirty then None else Some dirty
   | RollbackDatabase \<Rightarrow> Some (dirty \<and> snd e \<noteq> None)
   | OrderRollback \<Rightarrow> Some (dirty \<and> snd e \<noteq> None)
   | OrderCommit \<Rightarrow> Some (dirty \<and> snd e \<noteq> None)
   | ev \<Rightarrow> Some (dirty \<or> writes_database ev))"

text \<open>
  \<open>Unreported\<close>: a best-effort progress call raised, which \<open>ProvisionRunStore\<close> forbids its
  implementations; nothing is claimed from there on.
\<close>

datatype user_fate =
  NotRequested | Owned | NotCreated | Unconfirmed | Disabled | DisableFailed | Serving | Unreported

definition creation_fate :: "exn option \<Rightarrow> user_fate" where
  "creation_fate r = (case r of
     None \<Rightarrow> Owned
   | Some e \<Rightarrow> if exn_class e = AccountingCreateUserError NO_SIDE_EFFECT then NotCreated
      else if exn_class e = AccountingCreateUserError AMBIGUOUS then Unconfirmed
      else Owned)"

definition compensation :: "string \<Rightarrow> user_fate monitor" where
  "compensation username q e =
     (if q = Unreported then Some Unreported else
      case fst e of
        CreateUser u _ _ \<Rightarrow>
          if q = NotRequested \<and> u = username then Some (creation_fate (snd e)) else None
      | DisableUser u \<Rightarrow>
          if q = Owned \<and> u = username
          then Some (if snd e = None then Disabled else DisableFailed) else None
      | GatewayApply \<Rightarrow>
          if q = Owned then Some (if snd e = None then Serving else Owned) else None
      | RecordStep _ _ _ \<Rightarrow> Some (if snd e = None then q else Unreported)
      | RecordExternalId _ _ _ \<Rightarrow> Some (if snd e = None then q else Unreported)
      | MarkNotificationFailed _ _ \<Rightarrow> Some (if snd e = None then q else Unreported)
      | _ \<Rightarrow> Some q)"

datatype run_phase = Open | GatewayApplied | Closed provision_status

definition single_terminal :: "run_phase monitor" where
  "single_terminal q e = (case fst e of
     GatewayApply \<Rightarrow> (if q = Open then Some (if snd e = None then GatewayApplied else Open) else None)
   | MarkStatus _ st _ \<Rightarrow>
       (case q of Closed _ \<Rightarrow> None
        | GatewayApplied \<Rightarrow> Some (Closed st)
        | Open \<Rightarrow> if st = SUCCEEDED then None else Some (Closed st))
   | _ \<Rightarrow> Some q)"

definition touches_gateway :: "event \<Rightarrow> bool" where
  "touches_gateway ev = (case ev of
     DesiredRouting _ _ _ _ \<Rightarrow> True | LockAcquire \<Rightarrow> True | LockRelease \<Rightarrow> True
   | GatewayRender _ \<Rightarrow> True | GatewayValidate \<Rightarrow> True | GatewayApply \<Rightarrow> True
   | ReconcileInSession _ \<Rightarrow> True | _ \<Rightarrow> False)"

text \<open>An outcome that asks for a manual review for the given reason, with a diagnostic.\<close>

definition pending_for :: "pending_manual_reason \<Rightarrow> provision_outcome \<Rightarrow> bool" where
  "pending_for reason out \<longleftrightarrow> po_status out = PENDING_MANUAL \<and> po_reason out = Some reason \<and>
     po_subscription_url out = None \<and> po_pending_manual_error out \<noteq> None"

text \<open>How an early return of phase A and the fate of the accounting user go together.\<close>

definition prepared_fate :: "provision_outcome + provisioning_checkpoint \<Rightarrow> user_fate \<Rightarrow> bool" where
  "prepared_fate r q = (case r of
     Inl out \<Rightarrow>
       (q = NotRequested \<and> (pending_for EXTERNAL_TENANT_CREATION out \<or> pending_for FORWARDER_COMPENSATION_FAILED out)) \<or>
       (q = Unconfirmed \<and> pending_for ACCOUNTING_CREATE_AMBIGUOUS out) \<or>
       (q = DisableFailed \<and> pending_for ACCOUNTING_COMPENSATION_FAILED out)
   | Inr ck \<Rightarrow> q = Owned)"

definition applied_fate :: "provision_outcome \<Rightarrow> user_fate \<Rightarrow> bool" where
  "applied_fate out q \<longleftrightarrow>
     (q = Serving \<and> po_status out = SUCCEEDED \<and> po_subscription_url out \<noteq> None) \<or>
     (q = DisableFailed \<and> pending_for GATEWAY_COMPENSATION_FAILED out)"

text \<open>A protocol call that always returns the given value, and the state after such a call.\<close>

definition returns :: "('w, 'a) call \<Rightarrow> 'a \<Rightarrow> bool" where
  "returns op x \<longleftrightarrow> (\<forall>w. fst (op w) = Inr x)"

definition logged :: "event \<Rightarrow> ('w, 'a) call \<Rightarrow> 'w saga_state \<Rightarrow> 'w saga_state" where
  "logged ev op s = s\<lparr>world := snd (op (world s)), trace := trace s @ [(ev, None)]\<rparr>"

text \<open>Protocols of which every call succeeds, with the answers that matter to the saga.\<close>

record answers =
  an_run_id :: string
  an_capacity :: capacity_dto
  an_endpoint :: egress_endpoint_dto
  an_tenant :: tenant_dto
  an_credential :: credential_dto
  an_secret_ref :: string
  an_previous :: desired_forwarder_state
  an_forwarder :: desired_forwarder_state
  an_user :: account_user_dto
  an_routing :: desired_routing_state
  an_token :: string

definition cooperative :: "('w, 'g, 'f) saga_env \<Rightarrow> answers \<Rightarrow> bool" where
  "cooperative P a \<longleftrightarrow>
     (\<forall>req. returns (runs_start P req) (an_run_id a)) \<and>
     (\<forall>r st s. returns (runs_record_step P r st s) ()) \<and>
     (\<forall>r k x. returns (runs_record_external_id P r k x) ()) \<and>
     (\<forall>r st e. returns (runs_mark_status P r st e) ()) \<and>
     returns (egress_capacity P) (an_capacity a) \<and>
     (\<forall>c. returns (state_allocate_endpoint P c) (an_endpoint a)) \<and>
     (\<forall>u q t. returns (egress_create_tenant P u q t) (an_tenant a)) \<and>
     (\<forall>t e. returns (egress_get_credentials P t e) (an_credential a)) \<and>
     (\<forall>t e c. returns (state_save_credentials P t e c) (an_secret_ref a)) \<and>
     returns (state_current_forwarder_state P) (an_previous a) \<and>
     (\<forall>e t r. returns (state_desired_forwarder_state P e t r) (an_forwarder a)) \<and>
     (\<exists>c r. returns (forwarder_render P (an_forwarder a)) c \<and> returns (forwarder_apply P c) r) \<and>
     (\<forall>u q x. returns (accounting_create_user P u q x) (an_user a)) \<and>
     (\<forall>q e t p. returns (state_desired_routing_state P q e t p) (an_routing a)) \<and>
     (\<exists>c v r. returns (gateway_render P (an_routing a)) c \<and> returns (gateway_validate P c) v \<and>
        vr_valid v \<and> returns (gateway_apply P c) r) \<and>
     returns (token_factory P) (an_token a) \<and>
     (\<forall>c t. returns (state_store_subscription_token P c t) ()) \<and>
     (\<forall>ev. returns (notify_send P ev) ())"

text \<open>The calls of a run in which nothing fails, in order.\<close>

definition happy_trace :: "provision_request \<Rightarrow> answers \<Rightarrow> int \<Rightarrow> event list" where
  "happy_trace req a quota_bytes =
     (let run = an_run_id a; ep = an_endpoint a; tn = an_tenant a;
          bracket = (\<lambda>st evs. [RecordStep run st ''STARTED''] @ evs @ [RecordStep run st ''SUCCEEDED''])
      in [RunsStart req]
       @ bracket CAPACITY [EgressCapacity]
       @ bracket ALLOCATE_ENDPOINT [AllocateEndpoint (pr_customer_id req)]
       @ bracket CREATE_TENANT
           [CreateTenant (pr_username req) (pr_quota_gb req) (pr_thread_limit req),
            RecordExternalId run ''egress_tenant'' (tn_tenant_id tn)]
       @ bracket STORE_CREDENTIALS
           [GetCredentials (tn_tenant_id tn) (ep_endpoint_id ep), SaveCredentials tn ep (an_credential a)]
       @ bracket APPLY_FORWARDER
           [CurrentForwarderState, DesiredForwarder ep tn (an_secret_ref a),
            ForwarderRender (an_forwarder a), ForwarderApply]
       @ bracket CREATE_ACCOUNTING_USER [CreateUser (pr_username req) quota_bytes (pr_expire_at req)]
       @ bracket APPLY_GATEWAY
           [DesiredRouting req ep tn (au_routing_principal (an_user a)), GatewayRender (an_routing a),
            GatewayValidate, GatewayApply]
       @ bracket ISSUE_SUBSCRIPTION [TokenFactory, StoreSubscriptionToken (pr_customer_id req) (an_token a)]
       @ bracket NOTIFY
           [NotifySend \<lparr>ne_event_type = ''PROVISION_SUCCEEDED'',
              ne_payload = [(''run_id'', run), (''customer_id'', pr_customer_id req)]\<rparr>]
       @ [MarkStatus run SUCCEEDED None])"

text \<open>A request and protocols that answer it, for the witnesses.\<close>

definition sample_request :: provision_request where
  "sample_request = \<lparr>pr_order_id = ''7'', pr_customer_id = ''3'', pr_username = ''u7'',
     pr_quota_gb = Dec 2 0, pr_thread_limit = 10, pr_expire_at = None, pr_subscription_domain = ''s.example/''\<rparr>"

definition sample_answers :: answers where
  "sample_answers =
     \<lparr>an_run_id = ''r1'',
      an_capacity = \<lparr>cap_total_gb = Dec 100 0, cap_allocated_gb = Dec 10 0, cap_reserved_gb = Dec 5 0\<rparr>,
      an_endpoint = \<lparr>ep_endpoint_id = ''4'', ep_host = ''h'', ep_port = 1080, ep_protocol = ''socks5'', ep_public_ip = None\<rparr>,
      an_tenant = \<lparr>tn_tenant_id = ''t9'', tn_label = ''u7'', tn_quota_gb = Dec 2 0, tn_thread_limit = 10\<rparr>,
      an_credential = \<lparr>cr_username = ''a'', cr_password = ''b''\<rparr>,
      an_secret_ref = ''ref'', an_previous = \<lparr>df_listeners = []\<rparr>, an_forwarder = \<lparr>df_listeners = []\<rparr>,
      an_user = \<lparr>au_username = ''u7'', au_quota_bytes = 2147483648, au_expire_at = None,
                 au_routing_principal = ''1.u7'', au_enabled = True\<rparr>,
      an_routing = \<lparr>dr_user_routes = [], dr_outbounds = []\<rparr>, an_token = ''tok''\<rparr>"

definition answering :: "answers \<Rightarrow> (unit, unit, unit) saga_env" where
  "answering a =
     \<lparr>egress_capacity = (\<lambda>w. (Inr (an_capacity a), w)),
      egress_create_tenant = (\<lambda>_ _ _ w. (Inr (an_tenant a), w)),
      egress_get_credentials = (\<lambda>_ _ w. (Inr (an_credential a), w)),
      accounting_create_user = (\<lambda>_ _ _ w. (Inr (an_user a), w)),
      accounting_disable_user = (\<lambda>_ w. (Inr (), w)),
      gateway_render = (\<lambda>_ w. (Inr (), w)),
      gateway_validate = (\<lambda>_ w. (Inr \<lparr>vr_valid = True, vr_errors = []\<rparr>, w)),
      gateway_apply = (\<lambda>_ w. (Inr \<lparr>ar_applied = True, ar_version = ''1'', ar_rolled_back = False\<rparr>, w)),
      forwarder_render = (\<lambda>_ w. (Inr (), w)),
      forwarder_apply = (\<lambda>_ w. (Inr \<lparr>ar_applied = True, ar_version = ''1'', ar_rolled_back = False\<rparr>, w)),
      notify_send = (\<lambda>_ w. (Inr (), w)),
      state_reject_capacity = (\<lambda>_ _ w. (Inr (), w)),
      state_allocate_endpoint = (\<lambda>_ w. (Inr (an_endpoint a), w)),
      state_save_credentials = (\<lambda>_ _ _ w. (Inr (an_secret_ref a), w)),
      state_rollback_database = (\<lambda>w. (Inr (), w)),
      state_current_forwarder_state = (\<lambda>w. (Inr (an_previous a), w)),
      state_desired_forwarder_state = (\<lambda>_ _ _ w. (Inr (an_forwarder a), w)),
      state_desired_routing_state = (\<lambda>_ _ _ _ w. (Inr (an_routing a), w)),
      state_store_subscription_token = (\<lambda>_ _ w. (Inr (), w)),
      runs_start = (\<lambda>_ w. (Inr (an_run_id a), w)),
      runs_record_step = (\<lambda>_ _ _ w. (Inr (), w)),
      runs_record_external_id = (\<lambda>_ _ _ w. (Inr (), w)),
      runs_mark_status = (\<lambda>_ _ _ w. (Inr (), w)),
      runs_mark_notification_failed = (\<lambda>_ _ w. (Inr (), w)),
      token_factory = (\<lambda>w. (Inr (an_token a), w))\<rparr>"

section \<open>Symbolic execution of the steps\<close>

lemma pending_for_pending_outcome [simp]:
  "pending_for reason (pending_outcome run_id err reason') \<longleftrightarrow> reason = reason'"
  by (auto simp: pending_for_def pending_outcome_def)

lemmas helper_defs = record_step_def mark_status_def rollback_database_def disable_user_def
  start_step_def success_step_def failed_step_def send_def alert_def record_external_id_def
  render_and_apply_forwarder_def compensate_created_accounting_user_def unless_outcome_def
  mark_run_pending_manual_def mark_apply_gateway_succeeded_def mark_run_failed_def

lemmas step_defs = step_capacity_def step_allocate_endpoint_def step_create_tenant_def
  step_store_credentials_def step_apply_forwarder_def step_create_accounting_user_def
  create_accounting_user_def step_apply_gateway_def apply_gateway_def step_issue_subscription_def
  step_notify_def Let_def

lemmas safe_rules = safe_intros allI conjI impI

text \<open>The contract check raises a CREATED error or returns a validated user.\<close>

lemma safe_check_account_user:
  assumes "\<And>e. exn_class e = AccountingCreateUserError CREATED \<Longrightarrow> E e q"
    and "au_username u = pr_username req \<Longrightarrow> nonblank (au_routing_principal u) \<Longrightarrow> Q u q"
  shows "safe D q (liftE (check_account_user req u)) Q E"
  using assms by (intro safe_lift) (auto simp: check_account_user_def split: if_splits)

subsection \<open>FAILED only when clean\<close>

lemmas clean_simps = failed_when_clean_def writes_database_def

lemma clean_steps:
  "safe failed_when_clean q (step_capacity P run_id req) (\<lambda>_ _. True) (\<lambda>_ _. True)"
  "safe failed_when_clean q (step_allocate_endpoint P run_id req) (\<lambda>_ _. True) (\<lambda>_ _. True)"
  "safe failed_when_clean q (step_create_tenant P run_id req) (\<lambda>_ _. True) (\<lambda>_ _. True)"
  "safe failed_when_clean q (step_store_credentials P run_id ep tn) (\<lambda>_ _. True) (\<lambda>_ _. True)"
  "safe failed_when_clean q (step_apply_forwarder P run_id ep tn ref) (\<lambda>_ _. True) (\<lambda>_ _. True)"
  "safe failed_when_clean q (step_create_accounting_user P run_id req) (\<lambda>_ _. True) (\<lambda>_ _. True)"
  "safe failed_when_clean q (step_apply_gateway P ck req) (\<lambda>_ _. True) (\<lambda>_ _. True)"
  "safe failed_when_clean q (step_issue_subscription P run_id req) (\<lambda>_ _. True) (\<lambda>_ _. True)"
  "safe failed_when_clean q (step_notify P run_id req) (\<lambda>_ _. True) (\<lambda>_ _. True)"
  "safe failed_when_clean q (mark_run_pending_manual P run_id err) (\<lambda>_ _. True) (\<lambda>_ _. True)"
  "safe failed_when_clean q (mark_apply_gateway_succeeded P run_id) (\<lambda>_ _. True) (\<lambda>_ _. True)"
  unfolding step_defs helper_defs
  by (((rule safe_rules)+ | simp add: clean_simps)+)

lemmas clean_rules = clean_steps [THEN safe_mono]

lemma clean_prepare:
  "safe failed_when_clean q (provision_prepare P req) (\<lambda>_ _. True) (\<lambda>_ _. True)"
  unfolding provision_prepare_def unless_outcome_def
  by (((rule safe_rules clean_rules)+ | simp add: clean_simps)+)

lemma clean_apply_gateway:
  "safe failed_when_clean q (provision_apply_gateway P ck req) (\<lambda>_ _. True) (\<lambda>_ _. True)"
  unfolding provision_apply_gateway_def Let_def
  by (((rule safe_rules clean_rules)+ | simp add: clean_simps)+)

lemmas clean_phases = clean_prepare [THEN safe_mono] clean_apply_gateway [THEN safe_mono]

lemma clean_provision:
  "safe failed_when_clean q (provision P req) (\<lambda>_ _. True) (\<lambda>_ _. True)"
  unfolding provision_def
  by ((rule safe_rules clean_phases clean_rules)+ | simp)+

subsection \<open>What became of the accounting user\<close>

lemmas fate_simps = compensation_def creation_fate_def

text \<open>Steps 1 to 5 do not touch the accounting provider.\<close>

lemma fate_steps:
  "safe (compensation u) NotRequested (step_capacity P run_id req)
     (\<lambda>_ q. q = NotRequested) (\<lambda>_ q. q \<in> {NotRequested, Unreported})"
  "safe (compensation u) NotRequested (step_allocate_endpoint P run_id req)
     (\<lambda>_ q. q = NotRequested) (\<lambda>_ q. q \<in> {NotRequested, Unreported})"
  "safe (compensation u) NotRequested (step_create_tenant P run_id req)
     (\<lambda>r q. q = NotRequested \<and> pred_sum (pending_for EXTERNAL_TENANT_CREATION) (\<lambda>_. True) r)
     (\<lambda>_ q. q \<in> {NotRequested, Unreported})"
  "safe (compensation u) NotRequested (step_store_credentials P run_id ep tn)
     (\<lambda>_ q. q = NotRequested) (\<lambda>_ q. q \<in> {NotRequested, Unreported})"
  "safe (compensation u) NotRequested (step_apply_forwarder P run_id ep tn ref)
     (\<lambda>r q. q = NotRequested \<and> pred_sum (pending_for FORWARDER_COMPENSATION_FAILED) (\<lambda>_. True) r)
     (\<lambda>_ q. q \<in> {NotRequested, Unreported})"
  unfolding step_defs helper_defs
  by (((rule safe_rules)+ | simp add: fate_simps)+)

lemma fate_accounting:
  assumes "quota_gb_to_bytes (pr_quota_gb req) = Inr n"
  shows "safe (compensation (pr_username req)) NotRequested (step_create_accounting_user P run_id req)
     (\<lambda>r q. case r of
        Inl out \<Rightarrow> (q = Unconfirmed \<and> pending_for ACCOUNTING_CREATE_AMBIGUOUS out) \<or>
                    (q = DisableFailed \<and> pending_for ACCOUNTING_COMPENSATION_FAILED out)
      | Inr u \<Rightarrow> q = Owned \<and> au_username u = pr_username req \<and> nonblank (au_routing_principal u))
     (\<lambda>_ q. q \<in> {NotRequested, NotCreated, Disabled, Unreported})"
  unfolding step_defs helper_defs
  by (((rule safe_check_account_user safe_rules)+ | simp add: fate_simps assms)+)

lemmas fate_rules = fate_steps [THEN safe_mono] fate_accounting [THEN safe_mono]

lemma fate_prepare:
  assumes "quota_gb_to_bytes (pr_quota_gb req) = Inr n"
  shows "safe (compensation (pr_username req)) NotRequested (provision_prepare P req)
     prepared_fate (\<lambda>_ q. q \<in> {NotRequested, NotCreated, Disabled, Unreported})"
  unfolding provision_prepare_def unless_outcome_def
  by (((rule safe_rules fate_rules)+ | simp add: fate_simps prepared_fate_def assms split: sum.splits | blast)+)

text \<open>Steps 7 to 9 own the user that phase A created.\<close>

lemma fate_apply_gateway:
  "safe (compensation (pr_username req)) Owned (step_apply_gateway P ck req)
     (\<lambda>r q. (case r of Inl out \<Rightarrow> q = DisableFailed \<and> pending_for GATEWAY_COMPENSATION_FAILED out
                     | Inr _ \<Rightarrow> q = Serving))
     (\<lambda>_ q. q \<in> {Disabled, Unreported})"
  unfolding step_defs helper_defs
  by (((rule safe_rules)+ | simp add: fate_simps)+)

lemma fate_issue_notify:
  "safe (compensation u) Serving (step_issue_subscription P run_id req)
     (\<lambda>_ q. q = Serving) (\<lambda>_ q. q \<in> {Serving, Unreported})"
  "safe (compensation u) Serving (step_notify P run_id req)
     (\<lambda>_ q. q = Serving) (\<lambda>_ q. q = Unreported)"
  unfolding step_defs helper_defs
  by (((rule safe_rules)+ | simp add: fate_simps)+)

lemmas fate_rules_B = fate_apply_gateway [THEN safe_mono] fate_issue_notify [THEN safe_mono]

lemma fate_provision_apply_gateway:
  "safe (compensation (pr_username req)) Owned (provision_apply_gateway P ck req)
     applied_fate (\<lambda>_ q. q \<in> {Disabled, Serving, Unreported})"
  unfolding provision_apply_gateway_def Let_def
  by (((rule safe_rules fate_rules_B)+ | simp add: applied_fate_def | blast)+)

text \<open>The terminal marks of the composition are best-effort and leave the user alone.\<close>

lemma fate_marks:
  "safe (compensation u) q (mark_run_pending_manual P run_id err) (\<lambda>_ q'. q' = q) (\<lambda>_ _. False)"
  "safe (compensation u) q (mark_apply_gateway_succeeded P run_id) (\<lambda>_ q'. q' = q) (\<lambda>_ _. False)"
  unfolding helper_defs
  by (((rule safe_rules)+ | simp add: fate_simps)+)

definition provision_fate :: "provision_outcome \<Rightarrow> user_fate \<Rightarrow> bool" where
  "provision_fate out q \<longleftrightarrow> applied_fate out q \<or> prepared_fate (Inl out) q"

lemma fate_provision:
  assumes "quota_gb_to_bytes (pr_quota_gb req) = Inr n"
  shows "safe (compensation (pr_username req)) NotRequested (provision P req) provision_fate
     (\<lambda>_ q. q \<in> {NotRequested, NotCreated, Disabled, Serving, Unreported})"
  unfolding provision_def
  by ((rule safe_rules fate_prepare [THEN safe_mono, OF assms]
        fate_provision_apply_gateway [THEN safe_mono] fate_marks [THEN safe_mono])+
      | simp add: provision_fate_def prepared_fate_def | blast)+

subsection \<open>One terminal status\<close>

lemmas terminal_simps = single_terminal_def

lemma po_status_pending [simp]: "po_status (pending_outcome run_id err reason) = PENDING_MANUAL"
  by (simp add: pending_outcome_def)

lemma terminal_steps:
  "safe single_terminal Open (step_capacity P run_id req) (\<lambda>_ q. q = Open) (\<lambda>_ q. q \<in> {Open, Closed FAILED})"
  "safe single_terminal Open (step_allocate_endpoint P run_id req) (\<lambda>_ q. q = Open) (\<lambda>_ q. q \<in> {Open, Closed FAILED})"
  "safe single_terminal Open (step_create_tenant P run_id req)
     (\<lambda>r q. q = Open \<and> pred_sum (\<lambda>out. po_status out = PENDING_MANUAL) (\<lambda>_. True) r) (\<lambda>_ q. q \<in> {Open, Closed FAILED})"
  "safe single_terminal Open (step_store_credentials P run_id ep tn) (\<lambda>_ q. q = Open) (\<lambda>_ q. q \<in> {Open, Closed FAILED})"
  "safe single_terminal Open (step_apply_forwarder P run_id ep tn ref)
     (\<lambda>r q. q = Open \<and> pred_sum (\<lambda>out. po_status out = PENDING_MANUAL) (\<lambda>_. True) r) (\<lambda>_ q. q \<in> {Open, Closed FAILED})"
  "safe single_terminal Open (step_create_accounting_user P run_id req)
     (\<lambda>r q. q = Open \<and> pred_sum (\<lambda>out. po_status out = PENDING_MANUAL) (\<lambda>_. True) r) (\<lambda>_ q. q \<in> {Open, Closed FAILED})"
  "safe single_terminal Open (step_apply_gateway P ck req)
     (\<lambda>r q. case r of Inl out \<Rightarrow> q = Open \<and> po_status out = PENDING_MANUAL | Inr _ \<Rightarrow> q = GatewayApplied)
     (\<lambda>_ q. q \<in> {Open, GatewayApplied, Closed FAILED})"
  "safe single_terminal GatewayApplied (step_issue_subscription P run_id req)
     (\<lambda>_ q. q = GatewayApplied) (\<lambda>_ q. q \<in> {GatewayApplied, Closed FAILED})"
  "safe single_terminal GatewayApplied (step_notify P run_id req)
     (\<lambda>_ q. q = GatewayApplied) (\<lambda>_ q. q = GatewayApplied)"
  "safe single_terminal Open (mark_run_pending_manual P run_id err) (\<lambda>_ q. q = Closed PENDING_MANUAL) (\<lambda>_ _. False)"
  "safe single_terminal GatewayApplied (mark_apply_gateway_succeeded P run_id) (\<lambda>_ q. q = Closed SUCCEEDED) (\<lambda>_ _. False)"
  unfolding step_defs helper_defs
  by (((rule safe_rules)+ | simp add: terminal_simps)+)

lemmas terminal_rules = terminal_steps [THEN safe_mono]

lemma terminal_prepare:
  "safe single_terminal Open (provision_prepare P req)
     (\<lambda>r q. q = Open \<and> pred_sum (\<lambda>out. po_status out = PENDING_MANUAL) (\<lambda>_. True) r) (\<lambda>_ q. q \<in> {Open, Closed FAILED})"
  unfolding provision_prepare_def unless_outcome_def
  by (((rule safe_rules terminal_rules)+ | simp add: terminal_simps | blast)+)

lemma terminal_apply_gateway:
  "safe single_terminal Open (provision_apply_gateway P ck req)
     (\<lambda>out q. (q = Open \<and> po_status out = PENDING_MANUAL) \<or> (q = GatewayApplied \<and> po_status out = SUCCEEDED))
     (\<lambda>_ q. q \<in> {Open, GatewayApplied, Closed FAILED})"
  unfolding provision_apply_gateway_def Let_def
  by (((rule safe_rules terminal_rules)+ | simp add: terminal_simps | blast)+)

lemmas terminal_phases = terminal_prepare [THEN safe_mono] terminal_apply_gateway [THEN safe_mono]

lemma terminal_provision:
  "safe single_terminal Open (provision P req)
     (\<lambda>out q. q = Closed (po_status out)) (\<lambda>_ q. q \<in> {Open, GatewayApplied, Closed FAILED})"
  unfolding provision_def
  by (rule safe_bind, rule terminal_phases)
    (auto intro!: safe_then safe_bind safe_ret safe_case_sum terminal_rules terminal_phases(2))

subsection \<open>Phase A stays away from the gateway; routing uses the validated principal\<close>

lemma no_gateway_prepare:
  "safe (never touches_gateway) () (provision_prepare P req)
     (\<lambda>r _. pred_sum (\<lambda>_. True) (\<lambda>ck. au_username (pc_account_user ck) = pr_username req \<and>
        nonblank (au_routing_principal (pc_account_user ck))) r) (\<lambda>_ _. True)"
  unfolding provision_prepare_def step_defs helper_defs
  by (((rule safe_check_account_user safe_rules)+ | simp add: never_def touches_gateway_def)+)

subsection \<open>The run in which every call succeeds\<close>

lemma perform_returns: "returns op x \<Longrightarrow> perform ev op s = (Inr x, logged ev op s)"
  by (cases "op (world s)") (auto simp: perform_def logged_def returns_def outcome_of_def dest!: spec [of _ "world s"])

lemma trace_logged [simp]: "trace (logged ev op s) = trace s @ [(ev, None)]"
  by (simp add: logged_def)

lemma cooperativeD:
  assumes "cooperative P a"
  shows "returns (runs_start P req) (an_run_id a)" "returns (runs_record_step P r st s) ()"
    "returns (runs_record_external_id P r k x) ()" "returns (runs_mark_status P r status err) ()"
    "returns (egress_capacity P) (an_capacity a)" "returns (state_allocate_endpoint P c) (an_endpoint a)"
    "returns (egress_create_tenant P u q t) (an_tenant a)"
    "returns (egress_get_credentials P tid eid) (an_credential a)"
    "returns (state_save_credentials P tn ep cr) (an_secret_ref a)"
    "returns (state_current_forwarder_state P) (an_previous a)"
    "returns (state_desired_forwarder_state P ep tn ref) (an_forwarder a)"
    "returns (accounting_create_user P u n expire) (an_user a)"
    "returns (state_desired_routing_state P req ep tn rp) (an_routing a)"
    "returns (token_factory P) (an_token a)" "returns (state_store_subscription_token P c token) ()"
    "returns (notify_send P ev) ()"
  using assms by (simp_all add: cooperative_def)

lemma happy_provision:
  assumes co: "cooperative P a" and cap: "ensure_capacity (an_capacity a) (pr_quota_gb req) = Inr ()"
    and quota: "quota_gb_to_bytes (pr_quota_gb req) = Inr n"
    and user: "check_account_user req (an_user a) = Inr (an_user a)"
    and url: "subscription_url (pr_subscription_domain req) (an_token a) = Inr u"
  shows "\<exists>s. provision P req (start_of w) =
     (Inr \<lparr>po_run_id = an_run_id a, po_status = SUCCEEDED, po_subscription_url = Some u,
           po_pending_manual_error = None, po_reason = None\<rparr>, s) \<and>
     trace s = map (\<lambda>ev. (ev, None)) (happy_trace req a n)"
proof -
  from co obtain fc fr gc v gr where
    f: "returns (forwarder_render P (an_forwarder a)) fc" "returns (forwarder_apply P fc) fr" and
    g: "returns (gateway_render P (an_routing a)) gc" "returns (gateway_validate P gc) v" "vr_valid v"
       "returns (gateway_apply P gc) gr"
    unfolding cooperative_def by (elim conjE exE) (rule that)
  show ?thesis
    by (simp add: cooperativeD [OF co, THEN perform_returns] f [THEN perform_returns] g(3)
        g(1,2,4) [THEN perform_returns] provision_def provision_prepare_def provision_apply_gateway_def
        step_defs helper_defs eff_defs cap quota user url happy_trace_def)
qed

lemma cooperative_answering: "cooperative (answering a) a"
  by (simp add: cooperative_def answering_def returns_def)

lemma sample_checks:
  "ensure_capacity (an_capacity sample_answers) (pr_quota_gb sample_request) = Inr ()"
  "quota_gb_to_bytes (pr_quota_gb sample_request) = Inr 2147483648"
  "check_account_user sample_request (an_user sample_answers) = Inr (an_user sample_answers)"
  "subscription_url (pr_subscription_domain sample_request) (an_token sample_answers) = Inr ''https://s.example/s/tok''"
  by (simp_all add: sample_answers_def sample_request_def ensure_capacity_def quota_gb_to_bytes_def
      dec_le_def dec_align_def dec_mul_def dec_add_def dec_fix_id dec_prec_def dec_eq_def dec_to_integral_def
      dec_int_def subscription_url_def check_account_user_def BYTES_PER_GIB_def strip_def lstrip_def rstrip_by_def
      py_isspace_def)

section \<open>Properties\<close>

text \<open>
  C1. No run of the saga, whatever the protocols answer, marks the run FAILED while a
  database write of that run (endpoint allocation, credentials, routing, token, capacity
  rejection) has not been rolled back.
\<close>

theorem provision_failed_after_rollback:
  "run_mon failed_when_clean False (trace (snd (provision P req (start_of w)))) \<noteq> None"
  using safe_run [OF clean_provision surjective_pairing] by fastforce

text \<open>
  C18. The accounting user of a run, provided the quota is a whole number of bytes. It is
  requested at most once and disabled only when this run created it or may have created it:
  never after a creation known to have had no effect and never after an ambiguous one. If
  the progress calls do not raise, then an exception means that no user was left behind
  (never requested, not created, disabled) or that the gateway already serves it; an
  ambiguous creation or a failed disable is reported as PENDING_MANUAL with the matching
  reason, and SUCCEEDED means the user is served and a subscription URL was issued.
\<close>

theorem provision_user_fate:
  assumes "quota_gb_to_bytes (pr_quota_gb req) = Inr n"
  shows "\<exists>q. run_mon (compensation (pr_username req)) NotRequested
      (trace (snd (provision P req (start_of w)))) = Some q \<and>
    (q = Unreported \<or>
     (case fst (provision P req (start_of w)) of
        Inl e \<Rightarrow> q \<in> {NotRequested, NotCreated, Disabled, Serving}
      | Inr out \<Rightarrow> provision_fate out q))"
  using safe_run [OF fate_provision [OF assms] surjective_pairing, of P w]
  by (auto split: sum.splits)

theorem provision_user_fate_witness:
  "\<exists>q. run_mon (compensation ''u7'') NotRequested
      (trace (snd (provision (answering sample_answers) sample_request (start_of ())))) = Some q \<and>
    (q = Unreported \<or>
     (case fst (provision (answering sample_answers) sample_request (start_of ())) of
        Inl e \<Rightarrow> q \<in> {NotRequested, NotCreated, Disabled, Serving}
      | Inr out \<Rightarrow> provision_fate out q))"
  using provision_user_fate [OF sample_checks(2), of "answering sample_answers" "()"]
  by (simp add: sample_request_def)

text \<open>
  A run of \<open>provision\<close> attempts at most one terminal status, SUCCEEDED only after the
  gateway was applied; when it returns, that status is the one of the returned outcome, and
  when it raises, no status but FAILED was written.
\<close>

theorem provision_single_terminal:
  "\<exists>q. run_mon single_terminal Open (trace (snd (provision P req (start_of w)))) = Some q \<and>
    (case fst (provision P req (start_of w)) of
       Inl e \<Rightarrow> q \<in> {Open, GatewayApplied, Closed FAILED}
     | Inr out \<Rightarrow> q = Closed (po_status out))"
  using safe_run [OF terminal_provision surjective_pairing, of P req w] by simp

text \<open>
  Phase A (steps 1 to 6) neither takes the route lock nor reads or writes routing or
  gateway state, and a checkpoint it returns carries a user whose name is the requested one
  and whose routing principal is not blank.
\<close>

theorem prepare_stays_off_gateway:
  "list_all (\<lambda>e. \<not> touches_gateway (fst e)) (trace (snd (provision_prepare P req (start_of w)))) \<and>
   (case fst (provision_prepare P req (start_of w)) of
      Inr (Inr ck) \<Rightarrow> au_username (pc_account_user ck) = pr_username req \<and>
                      nonblank (au_routing_principal (pc_account_user ck))
    | _ \<Rightarrow> True)"
  using safe_run [OF no_gateway_prepare surjective_pairing, of P req w]
  by (auto simp: run_mon_never list_all_iff split: sum.splits)

text \<open>
  C34. When every protocol call succeeds, capacity suffices, the quota is a whole number of
  bytes, the created user passes the contract check and a domain is configured, the saga
  returns SUCCEEDED with the subscription URL, and its calls are exactly the nine bracketed
  steps in order followed by the terminal SUCCEEDED mark.
\<close>

theorem provision_succeeds:
  assumes "cooperative P a" and "ensure_capacity (an_capacity a) (pr_quota_gb req) = Inr ()"
    and "quota_gb_to_bytes (pr_quota_gb req) = Inr n"
    and "check_account_user req (an_user a) = Inr (an_user a)"
    and "subscription_url (pr_subscription_domain req) (an_token a) = Inr u"
  shows "\<exists>s. provision P req (start_of w) =
     (Inr \<lparr>po_run_id = an_run_id a, po_status = SUCCEEDED, po_subscription_url = Some u,
           po_pending_manual_error = None, po_reason = None\<rparr>, s) \<and>
     trace s = map (\<lambda>ev. (ev, None)) (happy_trace req a n)"
  by (rule happy_provision [OF assms])

theorem provision_succeeds_witness:
  "\<exists>s. provision (answering sample_answers) sample_request (start_of ()) =
     (Inr \<lparr>po_run_id = ''r1'', po_status = SUCCEEDED, po_subscription_url = Some ''https://s.example/s/tok'',
           po_pending_manual_error = None, po_reason = None\<rparr>, s) \<and>
     trace s = map (\<lambda>ev. (ev, None)) (happy_trace sample_request sample_answers 2147483648)"
  using provision_succeeds [OF cooperative_answering sample_checks, of "()"]
  by (simp add: sample_answers_def)

end
