(* ===== verification/Paid_Workflow.thy ===== *)
theory Paid_Workflow
  imports Saga_Properties
begin

text \<open>
  The paid-order workflow (\<open>backend/app/services.py\<close>) and the ordering domain
  (\<open>backend/app/domain/ordering.py\<close>) around the provisioning saga.

  \<open>paid_env\<close> extends the protocols of the saga by the payment provider, the order state, the
  route lock and the database session of the durable path. \<open>order_state.db\<close> and the session
  of the provisioning state are one session, so its commit and rollback are the events
  \<open>OrderCommit\<close> and \<open>OrderRollback\<close>.
\<close>

section \<open>Ordering\<close>

datatype first_commit_outcome = LANDED | ABSENT | UNKNOWN

record gateway_reconciliation_result =
  gr_job_id :: int
  gr_applied :: bool
  gr_finalized :: bool
  gr_retryable :: bool
  gr_reason_code :: "string option"

record ('w, 'g, 'f) paid_env = "('w, 'g, 'f) saga_env" +
  payment_confirm_manual :: "string \<Rightarrow> ('w, unit) call"
  clock_now :: "'w \<Rightarrow> datetime"
  order_commit :: "('w, unit) call"
  order_rollback :: "('w, unit) call"
  order_reject_capacity :: "string \<Rightarrow> string \<Rightarrow> ('w, unit) call"
  order_record_payment :: "string \<Rightarrow> payment_confirmation \<Rightarrow> ('w, unit) call"
  order_prepare_purchase :: "billing_command \<Rightarrow> ('w, unit) call"
  order_apply_renewal :: "billing_command \<Rightarrow> ('w, unit) call"
  order_activate_subscription :: "billing_command \<Rightarrow> ('w, unit) call"
  order_mark_provision_pending :: "billing_command \<Rightarrow> string \<Rightarrow> ('w, unit) call"
  order_mark_provision_failed :: "billing_command \<Rightarrow> string \<Rightarrow> ('w, unit) call"
  lock_acquire :: "('w, unit) call"
  lock_release :: "('w, unit) call"
  durable_gateway :: bool
  subscription_of_order :: "string \<Rightarrow> ('w, int option) call"
  assert_no_unresolved :: "('w, unit) call"
  set_accounting_user :: "int \<Rightarrow> string \<Rightarrow> ('w, unit) call"
  enqueue_gateway :: "int \<Rightarrow> string \<Rightarrow> string \<Rightarrow> ('w, int) call"
  classify_first_commit :: "string \<Rightarrow> int \<Rightarrow> ('w, first_commit_outcome) call"
  reconcile_in_session :: "int \<Rightarrow> ('w, gateway_reconciliation_result) call"
  current_subscription_url :: "int \<Rightarrow> string \<Rightarrow> ('w, string option) call"

text \<open>\<open>with order_state.transaction(): body\<close>.\<close>

definition transaction where
  "transaction P body =
     attemptE (bindE body (\<lambda>x. thenE (perform OrderCommit (order_commit P)) (retE x)))
       (\<lambda>e. thenE (perform OrderRollback (order_rollback P)) (raiseE e))
       retE"

fun order_type_value :: "billing_order_type \<Rightarrow> string" where
  "order_type_value PURCHASE = ''PURCHASE''"
| "order_type_value RENEWAL = ''RENEWAL''"
| "order_type_value UPGRADE = ''UPGRADE''"
| "order_type_value ADDON = ''ADDON''"

definition apply_paid_billing_change where
  "apply_paid_billing_change P command =
     (if bc_subscription_id command = None
      then raiseE (value_error ''A billing change requires a target subscription'')
      else if bc_order_type command = RENEWAL
      then perform (ApplyRenewal command) (order_apply_renewal P command)
      else if bc_order_type command = UPGRADE \<or> bc_order_type command = ADDON
      then raiseE (value_error (order_type_value (bc_order_type command) @ '' billing changes are not supported''))
      else raiseE (value_error ''Purchase orders are handled by the provisioning workflow''))"

definition activate_paid_purchase where
  "activate_paid_purchase P command =
     (if bc_order_type command \<noteq> PURCHASE
      then raiseE (value_error ''Only purchase orders can be activated by provisioning'')
      else perform (ActivateSubscription command) (order_activate_subscription P command))"

definition mark_provision_pending where
  "mark_provision_pending P command msg =
     perform (MarkProvisionPending command msg) (order_mark_provision_pending P command msg)"

definition fail_paid_purchase where
  "fail_paid_purchase P command err =
     perform (MarkProvisionFailed command err) (order_mark_provision_failed P command err)"

text \<open>\<open>confirm_payment\<close> on the smaller \<open>OrderState\<close> protocol: \<open>mark_paid\<close> only behind the guard.\<close>

record ('w) order_state_env =
  os_mark_paid :: "string \<Rightarrow> ('w, unit) call"
  os_reject_capacity :: "string \<Rightarrow> string \<Rightarrow> ('w, unit) call"

definition confirm_payment ::
  "'w order_state_env \<Rightarrow> string \<Rightarrow> decimal \<Rightarrow> capacity_dto \<Rightarrow> ('w, exn, unit) eff" where
  "confirm_payment S order_id quota capacity =
     attemptE (liftE (ensure_capacity capacity quota))
       (\<lambda>exc. if exn_class exc = CapacityExceededError
              then thenE (os_reject_capacity S order_id (exn_str exc)) (raiseE exc)
              else raiseE exc)
       (\<lambda>_. os_mark_paid S order_id)"

section \<open>Recording the outcome of provisioning\<close>

definition business_message :: "pending_manual_reason option \<Rightarrow> string" where
  "business_message reason = (case reason of
     Some r \<Rightarrow> PENDING_MANUAL_BUSINESS_MESSAGES r
   | None \<Rightarrow> ''provisioning requires manual review'')"

definition mark_pending_manual where
  "mark_pending_manual P command outcome =
     thenE (transaction P (mark_provision_pending P command (business_message (po_reason outcome))))
     (thenE (mark_run_pending_manual P (po_run_id outcome) (po_pending_manual_error outcome))
     (retE outcome))"

definition handle_pre_gateway_failure where
  "handle_pre_gateway_failure P command ck req err =
     attemptE (fail_before_gateway_authoritative_commit P ck req err)
       (\<lambda>exc. thenE (transaction P (fail_paid_purchase P command (type_name err))) (raiseE exc))
       (\<lambda>pending. case po_reason pending of
           None \<Rightarrow> raiseE (runtime_error ''PENDING_MANUAL reason is required'')
         | Some reason \<Rightarrow>
             thenE (transaction P
               (mark_provision_pending P command (PENDING_MANUAL_BUSINESS_MESSAGES reason)))
             (thenE (mark_run_pending_manual P (pc_run_id ck) (po_pending_manual_error pending))
             (retE pending)))"

definition first_commit_diagnostic :: string where
  "first_commit_diagnostic = ''GATEWAY_FIRST_COMMIT_OUTCOME_UNKNOWN''"

definition mark_first_commit_unknown where
  "mark_first_commit_unknown P command ck =
     attemptE (transaction P (mark_provision_pending P command
         ''durable gateway commit outcome could not be confirmed; requires review''))
       (\<lambda>_. raiseE (Exn GatewayCommitOutcomeUnknown first_commit_diagnostic))
       (\<lambda>_. thenE (mark_run_pending_manual P (pc_run_id ck) (Some first_commit_diagnostic))
         (retE \<lparr>po_run_id = pc_run_id ck, po_status = PENDING_MANUAL, po_subscription_url = None,
               po_pending_manual_error = Some first_commit_diagnostic, po_reason = None\<rparr>))"

definition running_outcome :: "provisioning_checkpoint \<Rightarrow> provision_outcome" where
  "running_outcome ck = \<lparr>po_run_id = pc_run_id ck, po_status = RUNNING, po_subscription_url = None,
     po_pending_manual_error = None, po_reason = None\<rparr>"

section \<open>The durable path\<close>

definition quiet_rollback where
  "quiet_rollback P = suppressE (perform OrderRollback (order_rollback P))"

text \<open>What is flushed before the first authoritative commit; returns the job to reconcile.\<close>

definition durable_intent where
  "durable_intent P command req ck subscription_id =
     thenE (perform AssertNoUnresolved (assert_no_unresolved P))
     (thenE (perform (SetAccountingUser subscription_id (au_username (pc_account_user ck)))
              (set_accounting_user P subscription_id (au_username (pc_account_user ck))))
     (bindE (perform TokenFactory (token_factory P)) (\<lambda>raw_token.
     thenE (perform (StoreSubscriptionToken (pr_customer_id req) raw_token)
              (state_store_subscription_token P (pr_customer_id req) raw_token))
     (bindE (perform (DesiredRouting req (pc_endpoint ck) (pc_tenant ck) (au_routing_principal (pc_account_user ck)))
              (state_desired_routing_state P req (pc_endpoint ck) (pc_tenant ck)
                 (au_routing_principal (pc_account_user ck)))) (\<lambda>_.
     bindE (perform (EnqueueGateway subscription_id (bc_order_id command) (pc_run_id ck))
              (enqueue_gateway P subscription_id (bc_order_id command) (pc_run_id ck))) (\<lambda>job_id.
     thenE (record_step P (pc_run_id ck) APPLY_GATEWAY ''PENDING'')
     (retE job_id)))))))"

text \<open>The first commit raised: ask an independent session whether it landed.\<close>

definition first_commit_failed where
  "first_commit_failed P command req ck subscription_id commit_error =
     thenE (quiet_rollback P)
     (attemptE (perform (ClassifyFirstCommit (''GATEWAY_RECONCILE:PURCHASE:'' @ bc_order_id command) subscription_id)
                 (classify_first_commit P (''GATEWAY_RECONCILE:PURCHASE:'' @ bc_order_id command) subscription_id))
       (\<lambda>exc. if exn_class exc = GatewayCommitOutcomeUnknown
          then thenE (quiet_rollback P) (mark_first_commit_unknown P command ck)
          else raiseE exc)
       (\<lambda>outcome. case outcome of
           LANDED \<Rightarrow> thenE (quiet_rollback P) (retE (running_outcome ck))
         | ABSENT \<Rightarrow> thenE (perform OrderRollback (order_rollback P))
                       (handle_pre_gateway_failure P command ck req commit_error)
         | UNKNOWN \<Rightarrow> thenE (quiet_rollback P) (mark_first_commit_unknown P command ck)))"

text \<open>The body under the lock: \<open>Inl\<close> of an outcome the source returns, or \<open>Inr\<close> of the reconciliation.\<close>

definition durable_locked where
  "durable_locked P command req ck subscription_id =
     attemptE (durable_intent P command req ck subscription_id)
       (\<lambda>err. thenE (quiet_rollback P)
          (bindE (handle_pre_gateway_failure P command ck req err) (\<lambda>outcome. retE (Inl outcome))))
       (\<lambda>job_id. attemptE (perform OrderCommit (order_commit P))
          (\<lambda>commit_error. bindE (first_commit_failed P command req ck subscription_id commit_error)
             (\<lambda>outcome. retE (Inl outcome)))
          (\<lambda>_. bindE (perform (ReconcileInSession job_id) (reconcile_in_session P job_id))
             (\<lambda>result. retE (Inr result))))"

text \<open>
  The flags \<open>first_commit_attempted\<close> and \<open>precommit_handler_started\<close> of the source are both
  false in the outer handler exactly when the lock could not be acquired: inside the block
  every path sets one of them before it can raise.
\<close>

definition confirm_paid_purchase_durable where
  "confirm_paid_purchase_durable P command req ck =
     bindE (perform (SubscriptionOf (bc_order_id command)) (subscription_of_order P (bc_order_id command))) (\<lambda>sub.
     case sub of
       None \<Rightarrow> raiseE (runtime_error ''Provisioning subscription was not created'')
     | Some subscription_id \<Rightarrow>
     bindE (attemptE (perform LockAcquire (lock_acquire P))
              (\<lambda>err. thenE (quiet_rollback P)
                 (bindE (handle_pre_gateway_failure P command ck req err) (\<lambda>outcome. retE (Inl outcome))))
              (\<lambda>_. finallyE (durable_locked P command req ck subscription_id)
                     (perform LockRelease (lock_release P)))) (\<lambda>r.
     case r of
       Inl outcome \<Rightarrow> retE outcome
     | Inr result \<Rightarrow>
         if gr_applied result \<and> gr_finalized result then
           thenE (tryE (send P \<lparr>ne_event_type = ''PROVISION_SUCCEEDED'',
                     ne_payload = [(''run_id'', pc_run_id ck), (''customer_id'', pr_customer_id req)]\<rparr>)
                   (\<lambda>exc. perform (MarkNotificationFailed (pc_run_id ck) (type_name exc))
                             (runs_mark_notification_failed P (pc_run_id ck) (type_name exc))))
           (bindE (perform (CurrentSubscriptionUrl subscription_id (pr_subscription_domain req))
                     (current_subscription_url P subscription_id (pr_subscription_domain req))) (\<lambda>url.
            retE \<lparr>po_run_id = pc_run_id ck, po_status = SUCCEEDED, po_subscription_url = url,
                  po_pending_manual_error = None, po_reason = None\<rparr>))
         else retE (running_outcome ck)))"

section \<open>The three phases\<close>

text \<open>Inside the route lock: phase B, then the activation commit and the SUCCEEDED mark.\<close>

definition locked_phase_B where
  "locked_phase_B P command req ck =
     bindE (tryE (provision_apply_gateway P ck req)
              (\<lambda>exc. thenE (rollback_database P) (raiseE exc))) (\<lambda>outcome.
     if po_status outcome = PENDING_MANUAL then mark_pending_manual P command outcome
     else
       thenE (transaction P (activate_paid_purchase P command))
       (thenE (mark_apply_gateway_succeeded P (pc_run_id ck))
       (retE outcome)))"

definition phase_B where
  "phase_B P command req ck =
     tryE (thenE (perform LockAcquire (lock_acquire P))
             (finallyE (locked_phase_B P command req ck) (perform LockRelease (lock_release P))))
       (\<lambda>exc. if exn_class exc = GatewayRouteBindingLockError then
          thenE (rollback_database P)
          (bindE (fail_apply_gateway_lock_acquisition P ck req exc) (\<lambda>pending. case pending of
             Some out \<Rightarrow> mark_pending_manual P command out
           | None \<Rightarrow>
               thenE (transaction P (fail_paid_purchase P command (type_name exc)))
               (raiseE exc)))
        else
          thenE (transaction P (fail_paid_purchase P command (type_name exc)))
          (thenE (mark_run_failed P (pc_run_id ck) exc)
          (raiseE exc)))"

definition provision_paid_purchase where
  "provision_paid_purchase P command req =
     attemptE (provision_prepare P req)
       (\<lambda>exc. thenE (rollback_database P)
          (thenE (transaction P (fail_paid_purchase P command (type_name exc)))
          (raiseE exc)))
       (\<lambda>prepared. case prepared of
           Inl outcome \<Rightarrow> mark_pending_manual P command outcome
         | Inr ck \<Rightarrow> if durable_gateway P then confirm_paid_purchase_durable P command req ck
                     else phase_B P command req ck)"

definition confirm_payment_and_provision where
  "confirm_payment_and_provision P command req payment_provider_code payment_reference =
     bindE (perform EgressCapacity (egress_capacity P)) (\<lambda>capacity.
     attemptE (liftE (ensure_capacity capacity (pr_quota_gb req)))
       (\<lambda>exc. thenE (transaction P
            (perform (OrderRejectCapacity (bc_order_id command) (exn_str exc))
              (order_reject_capacity P (bc_order_id command) (exn_str exc))))
          (raiseE exc))
       (\<lambda>_. thenE (perform (ConfirmManual payment_reference) (payment_confirm_manual P payment_reference))
          (bindE (getsE (\<lambda>s. \<lparr>pay_provider_code = payment_provider_code,
               pay_external_reference = payment_reference, pay_paid_at = clock_now P (world s)\<rparr>)) (\<lambda>receipt.
          thenE (transaction P
            (thenE (perform (RecordPayment (bc_order_id command) receipt)
                     (order_record_payment P (bc_order_id command) receipt))
            (if bc_order_type command = PURCHASE
             then perform (PreparePurchase command) (order_prepare_purchase P command)
             else apply_paid_billing_change P command)))
          (if bc_order_type command = PURCHASE
           then bindE (provision_paid_purchase P command req) (\<lambda>outcome. retE (Some outcome))
           else retE None)))))"

end
