(* ===== verification/Gateway_Reconciliation.thy ===== *)
theory Gateway_Reconciliation
  imports Route_Lock Provisioning_State Paid_Workflow
begin

text \<open>
  The durable gateway reconciliation (\<open>infra/gateway_reconciliation.py\<close>): a job row is committed
  together with the change of the desired state, and a worker under the route lock renders the
  whole desired state, applies it and finalises the job in a second commit. A commit whose answer
  is lost is classified from an independent session.

  The gateway provider and the notifier are parameters: a call may raise, and may change the
  provider's own state.
\<close>

record 'g gateway =
  gw_render :: "desired_routing_state \<Rightarrow> database \<Rightarrow> 'g \<Rightarrow> (exn + pyval) \<times> 'g"
  gw_validate :: "pyval \<Rightarrow> 'g \<Rightarrow> (exn + validation_result) \<times> 'g"
  gw_apply :: "pyval \<Rightarrow> 'g \<Rightarrow> (exn + apply_result) \<times> 'g"
  gw_notify :: "string \<Rightarrow> 'g \<Rightarrow> (exn + unit) \<times> 'g"

definition gateway_call :: "('g \<Rightarrow> (exn + 'a) \<times> 'g) \<Rightarrow> ('g, 'a) gdb" where
  "gateway_call f s = (case f (w_gateway (se_world s)) of
     (r, g) \<Rightarrow> (r, s\<lparr>se_world := (se_world s)\<lparr>w_gateway := g\<rparr>\<rparr>))"

text \<open>A change of the running gateway is recorded with what holds at that moment.\<close>

definition gateway_apply :: "'g gateway \<Rightarrow> pyval \<Rightarrow> ('g, apply_result) gdb" where
  "gateway_apply G candidate =
     thenE (modifyE (\<lambda>s. s\<lparr>se_world := (se_world s)\<lparr>w_applied := w_applied (se_world s) @
        [(w_locked (se_world s), se_store s)]\<rparr>\<rparr>))
     (gateway_call (gw_apply G candidate))"

abbreviation gateway_error :: "string \<Rightarrow> exn" where
  "gateway_error \<equiv> Exn GatewayReconciliationError"

abbreviation outcome_unknown :: "string \<Rightarrow> exn" where
  "outcome_unknown \<equiv> Exn GatewayCommitOutcomeUnknown"

definition GATEWAY_RECONCILE_JOB_TYPE :: string where
  "GATEWAY_RECONCILE_JOB_TYPE = ''GATEWAY_RECONCILE''"

definition GATEWAY_RETRY_LIMIT :: int where
  "GATEWAY_RETRY_LIMIT = 5"

definition STALE_AFTER :: int where
  "STALE_AFTER = minutes 15"

definition gateway_job :: "job \<Rightarrow> bool" where
  "gateway_job j \<longleftrightarrow> jb_job_type j = GATEWAY_RECONCILE_JOB_TYPE"

section \<open>Payloads\<close>

definition upper_char :: "char \<Rightarrow> char" where
  "upper_char c = (let n = of_char c :: nat in if 97 \<le> n \<and> n \<le> 122 then char_of (n - 32) else c)"

text \<open>Class names are ASCII, so \<open>upper\<close> is only needed on ASCII.\<close>

definition safe_reason :: "exn \<Rightarrow> string" where
  "safe_reason error = (case exn_class error of
     GatewayReconciliationError \<Rightarrow> exn_str error
   | GatewayCommitOutcomeUnknown \<Rightarrow> exn_str error
   | _ \<Rightarrow> ''GATEWAY_RECONCILIATION_'' @ map upper_char (type_name error))"

definition gateway_payload :: "string \<Rightarrow> int \<Rightarrow> int option \<Rightarrow> string option \<Rightarrow> exn + pyval dict" where
  "gateway_payload operation_kind subscription_id order_id provision_run_id =
     thenS (require (operation_kind \<in> {''PURCHASE'', ''RELEASE'', ''PRINCIPAL_UPDATE''})
       (value_error ''unsupported gateway reconciliation operation''))
     (Inr ([(''operation_kind'', VStr operation_kind), (''subscription_id'', VInt subscription_id)] @
       (case order_id of Some i \<Rightarrow> [(''order_id'', VInt i)] | None \<Rightarrow> []) @
       (case provision_run_id of Some r \<Rightarrow> [(''provision_run_id'', VStr r)] | None \<Rightarrow> [])))"

definition job_payload :: "job \<Rightarrow> exn + pyval dict" where
  "job_payload j = (let invalid = Inl (gateway_error ''GATEWAY_RECONCILIATION_PAYLOAD_INVALID'') in
     case jb_payload j of Some (VMap d) \<Rightarrow> Inr d | _ \<Rightarrow> invalid)"

text \<open>\<open>isinstance(value, int)\<close> also accepts a bool.\<close>

definition as_int :: "pyval \<Rightarrow> int option" where
  "as_int v = (case v of VInt i \<Rightarrow> Some i | VBool b \<Rightarrow> Some (if b then 1 else 0) | _ \<Rightarrow> None)"

text \<open>The run a payload names: a text of digits, read by \<open>int\<close>, which refuses superscript digits.\<close>

definition run_of :: "pyval dict \<Rightarrow> exn + int option" where
  "run_of payload = (case vget payload ''provision_run_id'' of
     VStr s \<Rightarrow> if isdigit s
       then (case py_int s of Some i \<Rightarrow> Inr (Some i) | None \<Rightarrow> Inl (value_error ''invalid literal for int()''))
       else Inr None
   | _ \<Rightarrow> Inr None)"

section \<open>Row updates\<close>

definition update_job :: "int \<Rightarrow> (job \<Rightarrow> job) \<Rightarrow> database \<Rightarrow> database" where
  "update_job i f d = (case get_job d i of Some j \<Rightarrow> put_job (f j) d | None \<Rightarrow> d)"

definition update_subscription :: "int \<Rightarrow> (subscription \<Rightarrow> subscription) \<Rightarrow> database \<Rightarrow> database" where
  "update_subscription i f d = (case get_subscription d i of Some r \<Rightarrow> put_subscription (f r) d | None \<Rightarrow> d)"

definition update_order :: "int \<Rightarrow> (order \<Rightarrow> order) \<Rightarrow> database \<Rightarrow> database" where
  "update_order i f d = (case get_order d i of Some r \<Rightarrow> put_order (f r) d | None \<Rightarrow> d)"

definition subscription_audit :: "string \<Rightarrow> int \<Rightarrow> string \<Rightarrow> string \<Rightarrow> audit_log" where
  "subscription_audit action sub res detail = \<lparr>al_action = action, al_entity_type = ''SUBSCRIPTION'',
     al_entity_id = show_int sub, al_result = res, al_detail = Some detail\<rparr>"

section \<open>Writers\<close>

definition unresolved_gateway_job :: "database \<Rightarrow> bool" where
  "unresolved_gateway_job d \<longleftrightarrow> list_ex (\<lambda>j. gateway_job j \<and> jb_status j \<noteq> JobSucceeded) (db_jobs d)"

definition assert_no_unresolved_gateway_mutation :: "db_oracle \<Rightarrow> ('w, unit) db" where
  "assert_no_unresolved_gateway_mutation X =
     bindE (db_read X unresolved_gateway_job) (\<lambda>blocked.
     if blocked then raiseE (Exn GatewayReconciliationBlocked
       (''an older gateway reconciliation is unresolved; recovery or manual '' @
        ''resolution is required before a new projection mutation''))
     else retE ())"

definition gateway_dedupe_key :: "string \<Rightarrow> string \<Rightarrow> string" where
  "gateway_dedupe_key operation_kind operation_id = ''GATEWAY_RECONCILE:'' @ operation_kind @ '':'' @ operation_id"

definition add_job :: "job \<Rightarrow> database \<Rightarrow> database" where
  "add_job j d = d\<lparr>db_jobs := db_jobs d @ [j\<lparr>jb_id := next_id jb_id (db_jobs d)\<rparr>]\<rparr>"

definition job_by_key :: "string \<Rightarrow> database \<Rightarrow> job option" where
  "job_by_key k d = find (\<lambda>j. jb_dedupe_key j = k) (db_jobs d)"

definition new_gateway_job :: "string \<Rightarrow> pyval dict \<Rightarrow> datetime \<Rightarrow> job" where
  "new_gateway_job dedupe_key payload now = \<lparr>jb_id = 0, jb_job_type = GATEWAY_RECONCILE_JOB_TYPE, jb_dedupe_key = dedupe_key,
     jb_payload = Some (VMap payload), jb_status = JobPending, jb_attempts = 0, jb_max_attempts = GATEWAY_RETRY_LIMIT,
     jb_available_at = now, jb_locked_at = None, jb_last_error_code = None\<rparr>"

definition enqueue_gateway_reconciliation ::
  "db_oracle \<Rightarrow> string \<Rightarrow> int \<Rightarrow> int option \<Rightarrow> string option \<Rightarrow> string \<Rightarrow> ('w, int) db" where
  "enqueue_gateway_reconciliation X operation_kind subscription_id order_id provision_run_id operation_id =
     bindE (liftE (gateway_payload operation_kind subscription_id order_id provision_run_id)) (\<lambda>payload.
     (let dedupe_key = gateway_dedupe_key operation_kind operation_id in
     bindE (db_read X (job_by_key dedupe_key)) (\<lambda>existing. case existing of
       Some j \<Rightarrow> retE (jb_id j)
     | None \<Rightarrow>
         bindE (db_now X) (\<lambda>now.
         bindE (getsE (\<lambda>s. next_id jb_id (db_jobs (se_work s)))) (\<lambda>i.
         thenE (db_update (add_job (new_gateway_job dedupe_key payload now)))
         (thenE (db_flush X) (retE i)))))))"

section \<open>Classification of a lost commit\<close>

text \<open>An exception of a probe, and the probe's independent engine, are wrapped.\<close>

definition probing :: "string \<Rightarrow> ('w, 'a) db \<Rightarrow> ('w, 'a) db" where
  "probing message m = tryE m (\<lambda>_. raiseE (outcome_unknown message))"

definition classify_first_commit_outcome :: "db_oracle \<Rightarrow> string \<Rightarrow> int \<Rightarrow> ('w, first_commit_outcome) db" where
  "classify_first_commit_outcome X dedupe_key subscription_id =
     bindE (probing ''GATEWAY_FIRST_COMMIT_OUTCOME_UNKNOWN''
       (bindE (db_probe X (job_by_key dedupe_key)) (\<lambda>j.
        bindE (db_probe X (\<lambda>d. find (\<lambda>r. gr_subscription_id r = subscription_id \<and> active_route r) (db_routes d))) (\<lambda>r.
        retE (j \<noteq> None, r \<noteq> None))))) (\<lambda>(has_job, has_route).
     retE (if has_job \<and> has_route then LANDED else if \<not> has_job \<and> \<not> has_route then ABSENT else UNKNOWN))"

definition purchase_outcome ::
  "job_status option \<Rightarrow> subscription_status option \<Rightarrow> order_status option \<Rightarrow> job_status option \<Rightarrow> first_commit_outcome" where
  "purchase_outcome job_status sub_status order_status run_status =
     (if job_status = None \<or> sub_status = None \<or> order_status = None \<or> run_status = None then UNKNOWN
      else if job_status = Some JobSucceeded \<and> sub_status = Some SubActive \<and> order_status = Some OrderActivated \<and>
        run_status = Some JobSucceeded then LANDED
      else if job_status \<noteq> Some JobSucceeded \<and> sub_status \<noteq> Some SubActive \<and> order_status \<noteq> Some OrderActivated \<and>
        run_status \<noteq> Some JobSucceeded then ABSENT
      else UNKNOWN)"

text \<open>\<open>FinalizationCommitOutcome\<close> has the same three members as \<open>FirstCommitOutcome\<close>.\<close>

definition classify_finalization_outcome ::
  "db_oracle \<Rightarrow> int \<Rightarrow> int \<Rightarrow> int option \<Rightarrow> int option \<Rightarrow> string \<Rightarrow> ('w, first_commit_outcome) db" where
  "classify_finalization_outcome X job_id subscription_id order_id provision_run_id operation_kind =
     probing ''GATEWAY_FINALIZATION_COMMIT_OUTCOME_UNKNOWN''
       (bindE (db_probe X (\<lambda>d. map_option jb_status (get_job d job_id))) (\<lambda>job_status.
        if operation_kind = ''PURCHASE'' then
          bindE (db_probe X (\<lambda>d. map_option sb_status (get_subscription d subscription_id))) (\<lambda>sub_status.
          case order_id of
            None \<Rightarrow> retE UNKNOWN
          | Some oid \<Rightarrow>
              bindE (db_probe X (\<lambda>d. map_option od_status (get_order d oid))) (\<lambda>order_status.
              bindE (case provision_run_id of
                  Some r \<Rightarrow> db_probe X (\<lambda>d. map_option jb_status (get_job d r))
                | None \<Rightarrow> retE (Some JobSucceeded)) (\<lambda>run_status.
              retE (purchase_outcome job_status sub_status order_status run_status))))
        else retE (case job_status of
            None \<Rightarrow> UNKNOWN | Some st \<Rightarrow> if st = JobSucceeded then LANDED else ABSENT)))"

section \<open>One attempt\<close>

definition claimable :: "datetime \<Rightarrow> job \<Rightarrow> bool" where
  "claimable now j \<longleftrightarrow> gateway_job j \<and>
     (jb_status j = JobPending \<or> jb_status j = JobFailed \<or>
      (jb_status j = JobRunning \<and> (case jb_locked_at j of Some t \<Rightarrow> t < now - STALE_AFTER | None \<Rightarrow> False))) \<and>
     jb_available_at j \<le> now \<and> jb_attempts j < jb_max_attempts j"

definition mark_running :: "datetime \<Rightarrow> job \<Rightarrow> job" where
  "mark_running now j = j\<lparr>jb_status := JobRunning, jb_locked_at := Some now, jb_attempts := jb_attempts j + 1\<rparr>"

definition claim_job :: "db_oracle \<Rightarrow> datetime \<Rightarrow> ('w, job option) db" where
  "claim_job X now =
     bindE (db_read X (\<lambda>d. first_by jb_id (filter (claimable now) (db_jobs d)))) (\<lambda>found. case found of
       None \<Rightarrow> retE None
     | Some j \<Rightarrow>
         thenE (db_update (update_job (jb_id j) (mark_running now)))
         (thenE (db_commit X) (retE (Some (mark_running now j)))))"

definition backoff_minutes :: "int \<Rightarrow> int" where
  "backoff_minutes attempts = min (2 ^ nat (max attempts 1)) 60"

definition fail_job :: "string \<Rightarrow> datetime \<Rightarrow> job \<Rightarrow> job" where
  "fail_job reason now j = j\<lparr>jb_status := JobFailed, jb_locked_at := None, jb_last_error_code := Some (take 80 reason),
     jb_available_at := now + minutes (backoff_minutes (jb_attempts j))\<rparr>"

definition fail_run :: "string \<Rightarrow> job \<Rightarrow> job" where
  "fail_run reason j = j\<lparr>jb_status := JobFailed, jb_locked_at := None, jb_last_error_code := Some (take 80 reason)\<rparr>"

definition record_failure :: "db_oracle \<Rightarrow> int \<Rightarrow> exn \<Rightarrow> datetime \<Rightarrow> ('w, gateway_reconciliation_result) db" where
  "record_failure X job_id error now =
     thenE (db_rollback X)
     (bindE (db_read X (\<lambda>d. get_job d job_id)) (\<lambda>found. case found of
        None \<Rightarrow> raiseE (gateway_error ''GATEWAY_RECONCILIATION_JOB_MISSING'')
      | Some j \<Rightarrow>
         bindE (liftE (job_payload j)) (\<lambda>payload.
         bindE (case as_int (vget payload ''subscription_id'') of
             Some i \<Rightarrow> db_read X (\<lambda>d. get_subscription d i) | None \<Rightarrow> retE None) (\<lambda>subscription.
         (let exhausted = jb_max_attempts j \<le> jb_attempts j; reason = safe_reason error in
         thenE (db_update (update_job job_id (fail_job reason now)))
         (thenE (if exhausted then bindE (liftE (run_of payload)) (\<lambda>run. case run of
               Some r \<Rightarrow> bindE (db_read X (\<lambda>d. get_job d r)) (\<lambda>_. db_update (update_job r (fail_run reason)))
             | None \<Rightarrow> retE ()) else retE ())
         (thenE (case subscription of
             Some row \<Rightarrow>
               db_update (add_audit (subscription_audit ''GATEWAY_RECONCILIATION_FAILED'' (sb_id row)
                   (if exhausted then ''MANUAL'' else ''RETRY'')
                   (''DB desired state remains authoritative; '' @
                    (if exhausted then ''manual intervention required'' else ''retry scheduled'') @ ''; reason='' @ reason))
                 \<circ> update_subscription (sb_id row) (\<lambda>r. r\<lparr>sb_provision_error := Some
                   (if exhausted then ''gateway reconciliation requires manual intervention''
                    else ''gateway reconciliation pending retry'')\<rparr>))
           | None \<Rightarrow> retE ())
         (thenE (db_commit X)
         (retE \<lparr>gr_job_id = job_id, gr_applied = False, gr_finalized = False, gr_retryable = \<not> exhausted, gr_reason_code = Some reason\<rparr>)))))))))"

definition finish_job :: "job \<Rightarrow> job" where
  "finish_job j = j\<lparr>jb_status := JobSucceeded, jb_locked_at := None, jb_last_error_code := None\<rparr>"

definition finish_run :: "job \<Rightarrow> job" where
  "finish_run j = j\<lparr>jb_status := JobSucceeded, jb_last_error_code := None\<rparr>"

definition activate_order :: "datetime \<Rightarrow> order \<Rightarrow> order" where
  "activate_order now r = r\<lparr>od_status := OrderActivated,
     od_activated_at := (case od_activated_at r of Some t \<Rightarrow> Some t | None \<Rightarrow> Some now)\<rparr>"

definition finalize_purchase :: "db_oracle \<Rightarrow> pyval dict \<Rightarrow> int \<Rightarrow> ('w, unit) db" where
  "finalize_purchase X payload sub =
     (if vget payload ''operation_kind'' \<noteq> VStr ''PURCHASE'' then retE () else
      case as_int (vget payload ''order_id'') of
        None \<Rightarrow> raiseE (gateway_error ''GATEWAY_RECONCILIATION_ORDER_INVALID'')
      | Some oid \<Rightarrow>
          bindE (db_read X (\<lambda>d. get_order d oid)) (\<lambda>order. case order of
            None \<Rightarrow> raiseE (gateway_error ''GATEWAY_RECONCILIATION_ORDER_MISSING'')
          | Some _ \<Rightarrow>
              bindE (db_now X) (\<lambda>now.
              db_update (update_order oid (activate_order now) \<circ>
                update_subscription sub (\<lambda>r. r\<lparr>sb_status := SubActive, sb_provision_error := None\<rparr>)))))"

definition finalize :: "db_oracle \<Rightarrow> int \<Rightarrow> pyval dict \<Rightarrow> ('w, unit) db" where
  "finalize X job_id payload = (case as_int (vget payload ''subscription_id'') of
     None \<Rightarrow> raiseE (gateway_error ''GATEWAY_RECONCILIATION_SUBSCRIPTION_INVALID'')
   | Some sub \<Rightarrow>
       bindE (db_read X (\<lambda>d. get_subscription d sub)) (\<lambda>subscription. case subscription of
         None \<Rightarrow> raiseE (gateway_error ''GATEWAY_RECONCILIATION_SUBSCRIPTION_MISSING'')
       | Some row \<Rightarrow>
           thenE (finalize_purchase X payload sub)
           (thenE (db_update (add_audit (subscription_audit ''GATEWAY_RECONCILIATION_SUCCEEDED'' (sb_id row) ''SUCCESS''
                ''DB desired state, runtime projection, and finalization committed'') \<circ> update_job job_id finish_job))
           (bindE (liftE (run_of payload)) (\<lambda>run. case run of
              Some r \<Rightarrow> bindE (db_read X (\<lambda>d. get_job d r)) (\<lambda>_. db_update (update_job r finish_run))
            | None \<Rightarrow> retE ())))))"

definition finalization_diagnostic :: string where
  "finalization_diagnostic = ''GATEWAY_FINALIZATION_COMMIT_OUTCOME_UNKNOWN''"

definition review_job :: "datetime \<Rightarrow> job \<Rightarrow> job" where
  "review_job now j = j\<lparr>jb_status := JobRunning, jb_locked_at := Some now, jb_last_error_code := Some finalization_diagnostic\<rparr>"

definition mark_finalization_unknown ::
  "db_oracle \<Rightarrow> int \<Rightarrow> pyval dict \<Rightarrow> datetime \<Rightarrow> ('w, gateway_reconciliation_result) db" where
  "mark_finalization_unknown X job_id payload now =
     thenE (db_rollback X)
     (attemptE
       (bindE (db_read X (\<lambda>d. get_job d job_id)) (\<lambda>found. case found of
          None \<Rightarrow> raiseE (gateway_error ''GATEWAY_RECONCILIATION_JOB_MISSING'')
        | Some _ \<Rightarrow>
            thenE (db_update (update_job job_id (review_job now)))
            (thenE (case as_int (vget payload ''subscription_id'') of
                None \<Rightarrow> retE ()
              | Some sub \<Rightarrow> bindE (db_read X (\<lambda>d. get_subscription d sub)) (\<lambda>subscription. case subscription of
                  None \<Rightarrow> retE ()
                | Some row \<Rightarrow> db_update (add_audit (subscription_audit ''GATEWAY_FINALIZATION_OUTCOME_UNKNOWN'' (sb_id row) ''MANUAL''
                      (''runtime projection may be applied; finalization '' @ ''commit outcome requires review'')) \<circ>
                    update_subscription sub (\<lambda>r. r\<lparr>sb_provision_error := Some ''gateway finalization requires manual review''\<rparr>))))
            (db_commit X))))
       (\<lambda>_. thenE (suppressE (db_rollback X)) (raiseE (outcome_unknown finalization_diagnostic)))
       (\<lambda>_. retE \<lparr>gr_job_id = job_id, gr_applied = True, gr_finalized = False, gr_retryable = False,
          gr_reason_code = Some finalization_diagnostic\<rparr>))"

definition reconciled :: "int \<Rightarrow> gateway_reconciliation_result" where
  "reconciled job_id = \<lparr>gr_job_id = job_id, gr_applied = True, gr_finalized = True, gr_retryable = False, gr_reason_code = None\<rparr>"

text \<open>The values the classification needs, checked before the second commit.\<close>

definition finalization_values :: "pyval dict \<Rightarrow> exn + int \<times> int option \<times> int option" where
  "finalization_values payload = (case as_int (vget payload ''subscription_id'') of
     None \<Rightarrow> Inl (gateway_error ''GATEWAY_RECONCILIATION_SUBSCRIPTION_INVALID'')
   | Some sub \<Rightarrow>
       thenS (require (vget payload ''order_id'' = VNone \<or> as_int (vget payload ''order_id'') \<noteq> None)
         (gateway_error ''GATEWAY_RECONCILIATION_ORDER_INVALID''))
       (thenS (require (case vget payload ''provision_run_id'' of VNone \<Rightarrow> True | VStr s \<Rightarrow> isdigit s | _ \<Rightarrow> False)
         (gateway_error ''GATEWAY_RECONCILIATION_RUN_INVALID''))
       (Inr (sub, as_int (vget payload ''order_id''),
         case vget payload ''provision_run_id'' of VStr s \<Rightarrow> py_int s | _ \<Rightarrow> None))))"

definition text_of :: "pyval \<Rightarrow> string" where
  "text_of v = (case v of VStr s \<Rightarrow> s | _ \<Rightarrow> [])"

text \<open>The second commit, and what is done when its answer is an exception.\<close>

definition commit_finalization ::
  "db_oracle \<Rightarrow> int \<Rightarrow> pyval dict \<Rightarrow> int \<times> int option \<times> int option \<Rightarrow> ('w, gateway_reconciliation_result) db" where
  "commit_finalization X job_id payload values = (case values of (sub, oid, run) \<Rightarrow>
     attemptE (db_commit X)
       (\<lambda>commit_error.
          thenE (suppressE (db_rollback X))
          (bindE (classify_finalization_outcome X job_id sub oid run (text_of (vget payload ''operation_kind''))) (\<lambda>outcome.
          case outcome of
            LANDED \<Rightarrow> thenE (suppressE (db_rollback X)) (retE (reconciled job_id))
          | ABSENT \<Rightarrow> bindE (db_now X) (record_failure X job_id commit_error)
          | UNKNOWN \<Rightarrow> bindE (db_now X) (mark_finalization_unknown X job_id payload))))
       (\<lambda>_. retE (reconciled job_id)))"

definition apply_desired_state :: "db_oracle \<Rightarrow> 'g gateway \<Rightarrow> ('g, unit) gdb" where
  "apply_desired_state X G =
     bindE (full_desired_routing_snapshot X) (\<lambda>desired.
     bindE (getsE se_work) (\<lambda>d.
     bindE (gateway_call (gw_render G desired d)) (\<lambda>candidate.
     bindE (gateway_call (gw_validate G candidate)) (\<lambda>validation.
     thenE (liftE (require (vr_valid validation) (gateway_error ''GATEWAY_CANDIDATE_INVALID'')))
     (bindE (gateway_apply G candidate) (\<lambda>applied.
     liftE (require (ar_applied applied) (gateway_error ''GATEWAY_APPLY_NOT_CONFIRMED''))))))))"

text \<open>The two \<open>except\<close> clauses of the attempt.\<close>

definition attempt_failed :: "db_oracle \<Rightarrow> int \<Rightarrow> exn \<Rightarrow> ('w, gateway_reconciliation_result) db" where
  "attempt_failed X job_id exc = (if exn_class exc = GatewayCommitOutcomeUnknown then raiseE exc
     else bindE (db_now X) (record_failure X job_id exc))"

definition reconcile_claimed_job :: "db_oracle \<Rightarrow> 'g gateway \<Rightarrow> job \<Rightarrow> ('g, gateway_reconciliation_result) gdb" where
  "reconcile_claimed_job X G j =
     bindE (liftE (job_payload j)) (\<lambda>payload.
     tryE
       (thenE (apply_desired_state X G)
       (thenE (finalize X (jb_id j) payload)
       (bindE (liftE (finalization_values payload)) (\<lambda>values.
       commit_finalization X (jb_id j) payload values))))
       (attempt_failed X (jb_id j)))"

section \<open>Entry points\<close>

definition notify_after_lock :: "db_oracle \<Rightarrow> 'g gateway \<Rightarrow> gateway_reconciliation_result \<Rightarrow> ('g, unit) gdb" where
  "notify_after_lock X G result =
     bindE (db_read X (\<lambda>d. get_job d (gr_job_id result))) (\<lambda>found. case found of
       None \<Rightarrow> retE ()
     | Some j \<Rightarrow>
         bindE (liftE (job_payload j)) (\<lambda>payload.
         attemptE (gateway_call (gw_notify G ''GATEWAY_RECONCILIATION_SUCCEEDED''))
           (\<lambda>_. thenE (db_update (add_audit \<lparr>al_action = ''GATEWAY_RECONCILIATION_NOTIFY_FAILED'', al_entity_type = ''SUBSCRIPTION'',
                 al_entity_id = py_str (vget payload ''subscription_id''), al_result = ''WARNING'',
                 al_detail = Some ''reconciliation committed; notification failed''\<rparr>))
               (db_commit X))
           retE))"

text \<open>\<open>db_factory()\<close> opens a session that sees the committed data.\<close>

definition fresh_session :: "('w, unit) db" where
  "fresh_session = modifyE (\<lambda>s. s\<lparr>se_work := se_store s, se_lock_held := False\<rparr>)"

definition reconcile_gateway_job ::
  "db_oracle \<Rightarrow> lock_oracle \<Rightarrow> 'g gateway \<Rightarrow> ('g, gateway_reconciliation_result option) gdb" where
  "reconcile_gateway_job X L G =
     thenE fresh_session
     (bindE (gateway_route_binding_write L
        (bindE (db_now X) (\<lambda>now.
         bindE (claim_job X now) (\<lambda>claimed. case claimed of
           None \<Rightarrow> retE None
         | Some j \<Rightarrow> bindE (reconcile_claimed_job X G j) (\<lambda>r. retE (Some r)))))) (\<lambda>result.
     thenE (case result of
         Some r \<Rightarrow> if gr_applied r \<and> gr_finalized r then notify_after_lock X G r else retE ()
       | None \<Rightarrow> retE ())
     (retE result)))"

definition reconcile_gateway_job_in_session ::
  "db_oracle \<Rightarrow> 'g gateway \<Rightarrow> int \<Rightarrow> ('g, gateway_reconciliation_result) gdb" where
  "reconcile_gateway_job_in_session X G job_id =
     bindE (db_read X (\<lambda>d. get_job d job_id)) (\<lambda>found. case found of
       None \<Rightarrow> raiseE (gateway_error ''GATEWAY_RECONCILIATION_JOB_MISSING'')
     | Some j \<Rightarrow>
         bindE (db_now X) (\<lambda>now.
         thenE (db_update (update_job job_id (mark_running now)))
         (thenE (db_commit X)
         (reconcile_claimed_job X G (mark_running now j)))))"

section \<open>Lemmas\<close>

lemma wp_gateway_call [wp]:
  "wpE (gateway_call f) Q E s = (case f (w_gateway (se_world s)) of
     (Inl e, g) \<Rightarrow> E e (s\<lparr>se_world := (se_world s)\<lparr>w_gateway := g\<rparr>\<rparr>)
   | (Inr x, g) \<Rightarrow> Q x (s\<lparr>se_world := (se_world s)\<lparr>w_gateway := g\<rparr>\<rparr>))"
  by (simp add: wpE_def gateway_call_def split: prod.splits sum.splits)

end
