(* ===== verification/Py_Library.thy ===== *)
theory Py_Library
  imports Py_Values
begin

text \<open>
  Functions of Python's standard library that the Mihomo code computes with: \<open>casefold\<close> and
  \<open>py_upper\<close>, \<open>split\<close> and \<open>rpartition\<close>, \<open>datetime.isoformat\<close>, and the parsing and printing of
  addresses and networks by \<open>ipaddress\<close>.

  Two lower-case letters have their upper case outside the code points of the model
  (\<open>0xB5\<close> and \<open>0xFF\<close>); \<open>py_upper\<close> leaves them alone, as \<open>casefold\<close> leaves \<open>0xB5\<close>. The code compares the results with
  ASCII words only. An address whose IPv6 form is mapped from IPv4 is judged by the IPv4
  address, as the current releases of Python 3.12 do.
\<close>

section \<open>Text\<close>

definition casefold_char :: "char \<Rightarrow> string" where
  "casefold_char c = (if c = CHR 0xDF then ''ss'' else [lower_char c])"

definition casefold :: "string \<Rightarrow> string" where
  "casefold s = concat (map casefold_char s)"

definition py_upper_char :: "char \<Rightarrow> string" where
  "py_upper_char c = (let n = of_char c :: nat in
     if c = CHR 0xDF then ''SS''
     else if (97 \<le> n \<and> n \<le> 122) \<or> (224 \<le> n \<and> n \<le> 254 \<and> n \<noteq> 247) then [char_of (n - 32)]
     else [c])"

definition py_upper :: "string \<Rightarrow> string" where
  "py_upper s = concat (map py_upper_char s)"

fun split_on :: "char \<Rightarrow> string \<Rightarrow> string list" where
  "split_on c [] = [[]]"
| "split_on c (x # xs) = (if x = c then [] # split_on c xs
     else (x # hd (split_on c xs)) # tl (split_on c xs))"

text \<open>\<open>s.rpartition(c)\<close>; \<open>None\<close> when the separator does not occur.\<close>

definition rpartition :: "char \<Rightarrow> string \<Rightarrow> (string \<times> string) option" where
  "rpartition c s = (if c \<in> set s
     then Some (rev (tl (dropWhile (\<lambda>x. x \<noteq> c) (rev s))), rev (takeWhile (\<lambda>x. x \<noteq> c) (rev s)))
     else None)"

definition is_ascii :: "string \<Rightarrow> bool" where
  "is_ascii s = list_all (\<lambda>c. (of_char c :: nat) < 128) s"

section \<open>Truth\<close>

fun truthy :: "pyval \<Rightarrow> bool" where
  "truthy VNone = False"
| "truthy (VBool b) = b"
| "truthy (VInt n) = (n \<noteq> 0)"
| "truthy (VStr s) = (s \<noteq> [])"
| "truthy (VList vs) = (vs \<noteq> [])"
| "truthy (VMap d) = (d \<noteq> [])"

section \<open>Instants\<close>

text \<open>The proleptic Gregorian date of a day counted from 1970-01-01.\<close>

definition civil_date :: "int \<Rightarrow> int \<times> int \<times> int" where
  "civil_date days = (let z = days + 719468; era = z div 146097; doe = z mod 146097;
       yoe = (doe - doe div 1460 + doe div 36524 - doe div 146096) div 365;
       doy = doe - (365 * yoe + yoe div 4 - yoe div 100);
       mp = (5 * doy + 2) div 153;
       m = (if mp < 10 then mp + 3 else mp - 9)
     in (yoe + era * 400 + (if m \<le> 2 then 1 else 0), m, doy - (153 * mp + 2) div 5 + 1))"

definition zero_pad :: "nat \<Rightarrow> int \<Rightarrow> string" where
  "zero_pad w n = (let s = show_int n in replicate (w - length s) (CHR ''0'') @ s)"

text \<open>An instant is a count of microseconds, so its offset is always \<open>+00:00\<close>.\<close>

definition isoformat :: "int \<Rightarrow> string" where
  "isoformat t = (let us = t mod 1000000; secs = t div 1000000; s = secs mod 86400;
       (y, m, d) = civil_date (secs div 86400)
     in zero_pad 4 y @ ''-'' @ zero_pad 2 m @ ''-'' @ zero_pad 2 d @ ''T'' @
        zero_pad 2 (s div 3600) @ '':'' @ zero_pad 2 (s div 60 mod 60) @ '':'' @ zero_pad 2 (s mod 60) @
        (if us = 0 then '''' else ''.'' @ zero_pad 6 us) @ ''+00:00'')"

section \<open>Addresses\<close>

datatype ip_address = IPv4 int | IPv6 int "string option"

definition parse_octet :: "string \<Rightarrow> int option" where
  "parse_octet s = (if s = [] \<or> \<not> list_all is_ascii_digit s \<or> 3 < length s \<or> (s \<noteq> ''0'' \<and> hd s = CHR ''0'')
     then None
     else case read_digits 0 s of Some n \<Rightarrow> if 255 < n then None else Some (int n) | None \<Rightarrow> None)"

definition parse_ipv4 :: "string \<Rightarrow> int option" where
  "parse_ipv4 s = (case map parse_octet (split_on (CHR ''.'') s) of
     [Some a, Some b, Some c, Some d] \<Rightarrow> Some (((a * 256 + b) * 256 + c) * 256 + d)
   | _ \<Rightarrow> None)"

definition hextet_digit :: "char \<Rightarrow> int option" where
  "hextet_digit c = (let n = of_char c :: int in
     if 48 \<le> n \<and> n \<le> 57 then Some (n - 48)
     else if 97 \<le> n \<and> n \<le> 102 then Some (n - 87)
     else if 65 \<le> n \<and> n \<le> 70 then Some (n - 55)
     else None)"

fun read_hex :: "int \<Rightarrow> string \<Rightarrow> int option" where
  "read_hex acc [] = Some acc"
| "read_hex acc (c # cs) = (case hextet_digit c of None \<Rightarrow> None | Some d \<Rightarrow> read_hex (16 * acc + d) cs)"

definition parse_hextet :: "string \<Rightarrow> int option" where
  "parse_hextet s = (if s = [] \<or> 4 < length s then None else read_hex 0 s)"

text \<open>\<open>'%x'\<close> of a group of 16 bits.\<close>

definition show_hex :: "int \<Rightarrow> string" where
  "show_hex n = map (hex_digit \<circ> nat)
     (dropWhile (\<lambda>d. d = 0) [n div 4096 mod 16, n div 256 mod 16, n div 16 mod 16] @ [n mod 16])"

fun read_hextets :: "int \<Rightarrow> string list \<Rightarrow> int option" where
  "read_hextets acc [] = Some acc"
| "read_hextets acc (p # ps) =
     (case parse_hextet p of None \<Rightarrow> None | Some h \<Rightarrow> read_hextets (acc * 65536 + h) ps)"

definition expand_ipv4_suffix :: "string list \<Rightarrow> string list option" where
  "expand_ipv4_suffix parts = (if CHR ''.'' \<in> set (last parts)
     then map_option (\<lambda>n. butlast parts @ [show_hex (n div 65536), show_hex (n mod 65536)])
            (parse_ipv4 (last parts))
     else Some parts)"

text \<open>The position of the \<open>::\<close> among the parts between the first and the last.\<close>

definition skip_positions :: "string list \<Rightarrow> nat list" where
  "skip_positions parts = filter (\<lambda>i. parts ! i = []) [1..<length parts - 1]"

definition read_ipv6_parts :: "string list \<Rightarrow> int option" where
  "read_ipv6_parts parts = (if 9 < length parts then None else
     (case skip_positions parts of
        [] \<Rightarrow> if length parts = 8 then read_hextets 0 parts else None
      | [i] \<Rightarrow>
         (let hi = (if hd parts = [] then i - 1 else i);
              lo = (if last parts = [] then length parts - i - 2 else length parts - i - 1)
          in if (hd parts = [] \<and> hi \<noteq> 0) \<or> (last parts = [] \<and> lo \<noteq> 0) \<or> 8 \<le> hi + lo then None
             else case read_hextets 0 (take hi parts) of None \<Rightarrow> None
                | Some n \<Rightarrow> read_hextets (n * 65536 ^ (8 - (hi + lo)))
                    (if lo = 0 then [] else drop (length parts - lo) parts))
      | _ \<Rightarrow> None))"

definition parse_ipv6_int :: "string \<Rightarrow> int option" where
  "parse_ipv6_int s = (let parts = split_on (CHR '':'') s in
     if s = [] \<or> length parts < 3 then None
     else Option.bind (expand_ipv4_suffix parts) read_ipv6_parts)"

definition parse_ipv6 :: "string \<Rightarrow> (int \<times> string option) option" where
  "parse_ipv6 s = (if CHR ''/'' \<in> set s then None
     else if CHR ''%'' \<in> set s
       then (let scope = tl (dropWhile (\<lambda>c. c \<noteq> CHR ''%'') s) in
         if scope = [] \<or> CHR ''%'' \<in> set scope then None
         else map_option (\<lambda>n. (n, Some scope)) (parse_ipv6_int (takeWhile (\<lambda>c. c \<noteq> CHR ''%'') s)))
       else map_option (\<lambda>n. (n, None)) (parse_ipv6_int s))"

definition ip_address :: "string \<Rightarrow> ip_address option" where
  "ip_address s = (case parse_ipv4 s of Some n \<Rightarrow> Some (IPv4 n)
     | None \<Rightarrow> map_option (\<lambda>(n, scope). IPv6 n scope) (parse_ipv6 s))"

definition ipv4_mapped :: "int \<Rightarrow> int option" where
  "ipv4_mapped n = (if n div 2 ^ 32 = 65535 then Some (n mod 2 ^ 32) else None)"

fun is_loopback :: "ip_address \<Rightarrow> bool" where
  "is_loopback (IPv4 n) = (n div 2 ^ 24 = 127)"
| "is_loopback (IPv6 n _) = (case ipv4_mapped n of Some m \<Rightarrow> m div 2 ^ 24 = 127 | None \<Rightarrow> n = 1)"

fun is_unspecified :: "ip_address \<Rightarrow> bool" where
  "is_unspecified (IPv4 n) = (n = 0)"
| "is_unspecified (IPv6 n _) = (case ipv4_mapped n of Some m \<Rightarrow> m = 0 | None \<Rightarrow> n = 0)"

fun ip_version :: "ip_address \<Rightarrow> nat" where
  "ip_version (IPv4 _) = 4"
| "ip_version (IPv6 _ _) = 6"

section \<open>Networks\<close>

definition show_ipv4 :: "int \<Rightarrow> string" where
  "show_ipv4 n = join ''.'' (map show_int [n div 2 ^ 24, n div 2 ^ 16 mod 256, n div 2 ^ 8 mod 256, n mod 256])"

text \<open>\<open>_compress_hextets\<close>: the first longest run of at least two zero groups becomes \<open>::\<close>.\<close>

definition zero_run :: "string list \<Rightarrow> nat" where
  "zero_run hs = length (takeWhile (\<lambda>h. h = ''0'') hs)"

fun best_run :: "nat \<Rightarrow> string list \<Rightarrow> nat \<times> nat \<Rightarrow> nat \<times> nat" where
  "best_run i [] best = best"
| "best_run i (h # hs) best =
     best_run (Suc i) hs (if snd best < zero_run (h # hs) then (i, zero_run (h # hs)) else best)"

definition compress_hextets :: "string list \<Rightarrow> string list" where
  "compress_hextets hs = (case best_run 0 hs (0, 0) of (start, len) \<Rightarrow>
     if 1 < len
     then (if start = 0 then [[]] else []) @ take start hs @ [[]] @ drop (start + len) hs @
          (if start + len = length hs then [[]] else [])
     else hs)"

definition ipv6_hextets :: "int \<Rightarrow> string list" where
  "ipv6_hextets n = map (\<lambda>i. show_hex (n div 65536 ^ i mod 65536)) [7, 6, 5, 4, 3, 2, 1, 0]"

definition show_ipv6 :: "int \<Rightarrow> string option \<Rightarrow> string" where
  "show_ipv6 n scope = join '':'' (compress_hextets (ipv6_hextets n)) @
     (case scope of None \<Rightarrow> [] | Some s \<Rightarrow> ''%'' @ s)"

definition prefix_from_string :: "nat \<Rightarrow> string \<Rightarrow> nat option" where
  "prefix_from_string bits s = (if s = [] \<or> \<not> list_all is_ascii_digit s then None
     else case read_digits 0 s of Some p \<Rightarrow> if p \<le> bits then Some p else None | None \<Rightarrow> None)"

text \<open>A netmask such as \<open>255.255.0.0\<close>, or the host mask with its bits inverted.\<close>

definition prefix_from_mask :: "int \<Rightarrow> nat option" where
  "prefix_from_mask n = find (\<lambda>p. n = 2 ^ 32 - 2 ^ (32 - p)) [0..<33]"

definition ipv4_prefix :: "string \<Rightarrow> nat option" where
  "ipv4_prefix s = (case prefix_from_string 32 s of Some p \<Rightarrow> Some p
     | None \<Rightarrow> (case parse_ipv4 s of None \<Rightarrow> None
         | Some n \<Rightarrow> (case prefix_from_mask n of Some p \<Rightarrow> Some p
             | None \<Rightarrow> prefix_from_mask (2 ^ 32 - 1 - n))))"

definition clear_host_bits :: "nat \<Rightarrow> nat \<Rightarrow> int \<Rightarrow> int" where
  "clear_host_bits bits p n = n div 2 ^ (bits - p) * 2 ^ (bits - p)"

definition split_prefix :: "string \<Rightarrow> (string \<times> string option) option" where
  "split_prefix s = (case split_on (CHR ''/'') s of
     [a] \<Rightarrow> Some (a, None) | [a, m] \<Rightarrow> Some (a, Some m) | _ \<Rightarrow> None)"

definition ipv4_network :: "string \<times> string option \<Rightarrow> string option" where
  "ipv4_network am = (case (parse_ipv4 (fst am), case snd am of None \<Rightarrow> Some 32 | Some m \<Rightarrow> ipv4_prefix m) of
     (Some n, Some p) \<Rightarrow> Some (show_ipv4 (clear_host_bits 32 p n) @ ''/'' @ show_nat p)
   | _ \<Rightarrow> None)"

definition ipv6_network :: "string \<times> string option \<Rightarrow> string option" where
  "ipv6_network am =
     (case (parse_ipv6 (fst am), case snd am of None \<Rightarrow> Some 128 | Some m \<Rightarrow> prefix_from_string 128 m) of
     (Some (n, scope), Some p) \<Rightarrow>
       (let net = clear_host_bits 128 p n in
        Some (show_ipv6 net (if net = n then scope else None) @ ''/'' @ show_nat p))
   | _ \<Rightarrow> None)"

text \<open>\<open>str(ipaddress.ip_network(s, strict=False))\<close>; \<open>None\<close> stands for \<open>ValueError\<close>.\<close>

definition ip_network :: "string \<Rightarrow> string option" where
  "ip_network s = (case split_prefix s of None \<Rightarrow> None
     | Some am \<Rightarrow> (case ipv4_network am of Some t \<Rightarrow> Some t | None \<Rightarrow> ipv6_network am))"

end
