(* ===== verification/Mihomo_Blocker.thy ===== *)
theory Mihomo_Blocker
  imports Gateway_Reconciliation Py_Library
begin

text \<open>
  The durable blockers of the forwarder's writers (\<open>infra/mihomo_blocker.py\<close>): rows of the jobs
  table that hold identifiers only. A blocker that is not SUCCEEDED stops every writer until
  somebody resolves it.
\<close>

abbreviation blocker_error :: "string \<Rightarrow> exn" where
  "blocker_error \<equiv> Exn (OtherException ''MihomoBlockerError'')"

definition MIHOMO_RECONCILE_BLOCKER_JOB_TYPE :: string where
  "MIHOMO_RECONCILE_BLOCKER_JOB_TYPE = ''MIHOMO_RECONCILE_BLOCKER''"

definition MIHOMO_BLOCKER_KIND_FINALIZATION :: string where
  "MIHOMO_BLOCKER_KIND_FINALIZATION = ''FINALIZATION''"

definition MIHOMO_BLOCKER_KIND_LOCK_RELEASE :: string where
  "MIHOMO_BLOCKER_KIND_LOCK_RELEASE = ''LOCK_RELEASE''"

definition MIHOMO_LOCK_RELEASE_PENDING :: string where
  "MIHOMO_LOCK_RELEASE_PENDING = ''MIHOMO_LOCK_RELEASE_PENDING''"

definition MIHOMO_LOCK_RELEASE_UNKNOWN :: string where
  "MIHOMO_LOCK_RELEASE_UNKNOWN = ''MIHOMO_LOCK_RELEASE_OUTCOME_UNKNOWN''"

definition MIHOMO_DURABLE_STATE_UNKNOWN :: string where
  "MIHOMO_DURABLE_STATE_UNKNOWN = ''MIHOMO_DURABLE_STATE_OUTCOME_UNKNOWN''"

section \<open>Identifiers\<close>

definition ascii_alnum :: "char \<Rightarrow> bool" where
  "ascii_alnum c = (let n = of_char c :: nat in
     (97 \<le> n \<and> n \<le> 122) \<or> (65 \<le> n \<and> n \<le> 90) \<or> (48 \<le> n \<and> n \<le> 57))"

definition safe_char :: "char \<Rightarrow> bool" where
  "safe_char c = (ascii_alnum c \<or> c \<in> set ''._:-'')"

text \<open>A full match of \<open>[A-Za-z0-9][A-Za-z0-9._:-]{0,n}\<close>.\<close>

definition safe_text :: "nat \<Rightarrow> string \<Rightarrow> bool" where
  "safe_text n s = (case s of [] \<Rightarrow> False | c # cs \<Rightarrow> ascii_alnum c \<and> length cs \<le> n \<and> list_all safe_char cs)"

abbreviation safe_identifier :: "string \<Rightarrow> bool" where
  "safe_identifier \<equiv> safe_text 142"

definition reason_char :: "char \<Rightarrow> bool" where
  "reason_char c = (let n = of_char c :: nat in (65 \<le> n \<and> n \<le> 90) \<or> (48 \<le> n \<and> n \<le> 57) \<or> c = CHR ''_'')"

definition safe_reason_text :: "string \<Rightarrow> bool" where
  "safe_reason_text s = (startswith s ''MIHOMO_'' \<and> 1 \<le> length (drop 7 s) \<and> length (drop 7 s) \<le> 78 \<and>
     list_all reason_char (drop 7 s))"

definition validate_mihomo_operation_id :: "pyval \<Rightarrow> exn + string" where
  "validate_mihomo_operation_id v =
     (let invalid = Inl (value_error ''operation_id must use the canonical safe alphabet'') in
      case v of VStr s \<Rightarrow> if safe_identifier s then Inr s else invalid | _ \<Rightarrow> invalid)"

definition mihomo_blocker_dedupe_key :: "string \<Rightarrow> int option \<Rightarrow> exn + string" where
  "mihomo_blocker_dedupe_key blocker_kind source_job_id =
     thenS (require (safe_identifier blocker_kind) (blocker_error ''MIHOMO_BLOCKER_IDENTIFIER_INVALID''))
    (thenS (require (case source_job_id of Some i \<Rightarrow> 0 < i | None \<Rightarrow> True) (blocker_error ''MIHOMO_BLOCKER_SOURCE_INVALID''))
    (let key = ''MIHOMO_BLOCKER:'' @ blocker_kind @ '':'' @
         (case source_job_id of Some i \<Rightarrow> show_int i | None \<Rightarrow> ''none'') in
     thenS (require (length key \<le> 160) (blocker_error ''MIHOMO_BLOCKER_DEDUPE_KEY_INVALID'')) (Inr key)))"

section \<open>Creating and resolving\<close>

definition optional_int :: "int option \<Rightarrow> pyval" where
  "optional_int i = (case i of Some n \<Rightarrow> VInt n | None \<Rightarrow> VNone)"

definition optional_text :: "string option \<Rightarrow> pyval" where
  "optional_text t = (case t of Some s \<Rightarrow> VStr s | None \<Rightarrow> VNone)"

definition blocker_payload :: "string \<Rightarrow> int option \<Rightarrow> string option \<Rightarrow> int option \<Rightarrow> string \<Rightarrow> pyval" where
  "blocker_payload kind source operation revision reason = VMap
     [(''blocker_kind'', VStr kind), (''source_job_id'', optional_int source),
      (''operation_id'', optional_text operation), (''snapshot_revision'', optional_int revision),
      (''reason_code'', VStr reason)]"

text \<open>The checks of the arguments; the result is the key of the row.\<close>

definition check_blocker :: "string \<Rightarrow> int option \<Rightarrow> string option \<Rightarrow> int option \<Rightarrow> string \<Rightarrow> exn + string" where
  "check_blocker kind source operation revision reason =
     thenS (require (safe_identifier kind) (blocker_error ''MIHOMO_BLOCKER_IDENTIFIER_INVALID''))
    (thenS (require (safe_reason_text reason) (blocker_error ''MIHOMO_BLOCKER_REASON_INVALID''))
    (thenS (require (case operation of Some s \<Rightarrow> safe_identifier s | None \<Rightarrow> True)
              (blocker_error ''MIHOMO_BLOCKER_OPERATION_ID_INVALID''))
    (thenS (require (case revision of Some n \<Rightarrow> 0 < n | None \<Rightarrow> True) (blocker_error ''MIHOMO_BLOCKER_REVISION_INVALID''))
    (mihomo_blocker_dedupe_key kind source))))"

definition new_blocker :: "string \<Rightarrow> pyval \<Rightarrow> datetime \<Rightarrow> job" where
  "new_blocker key payload now = \<lparr>jb_id = 0, jb_job_type = MIHOMO_RECONCILE_BLOCKER_JOB_TYPE, jb_dedupe_key = key,
     jb_payload = Some payload, jb_status = JobPending, jb_attempts = 0, jb_max_attempts = 1,
     jb_available_at = now, jb_locked_at = None, jb_last_error_code = None\<rparr>"

definition reopen_blocker :: "job \<Rightarrow> job" where
  "reopen_blocker j = (if jb_status j = JobSucceeded
     then j\<lparr>jb_status := JobPending, jb_locked_at := None, jb_last_error_code := None\<rparr> else j)"

definition same_payload :: "pyval \<Rightarrow> job \<Rightarrow> bool" where
  "same_payload payload j = (case jb_payload j of Some v \<Rightarrow> py_eq v payload | None \<Rightarrow> False)"

text \<open>The result is the id of the blocker's row.\<close>

definition ensure_mihomo_blocker ::
  "db_oracle \<Rightarrow> string \<Rightarrow> int option \<Rightarrow> string option \<Rightarrow> int option \<Rightarrow> string \<Rightarrow> ('w, int) db" where
  "ensure_mihomo_blocker X kind source operation revision reason =
     bindE (liftE (check_blocker kind source operation revision reason)) (\<lambda>key.
     (let payload = blocker_payload kind source operation revision reason;
          mismatch = blocker_error ''MIHOMO_BLOCKER_IDENTITY_MISMATCH'' in
     bindE (db_read X (job_by_key key)) (\<lambda>existing. case existing of
       Some j \<Rightarrow>
         thenE (liftE (require (jb_job_type j = MIHOMO_RECONCILE_BLOCKER_JOB_TYPE) mismatch))
         (thenE (liftE (require (same_payload payload j) mismatch))
         (thenE (db_update (update_job (jb_id j) reopen_blocker))
         (retE (jb_id j))))
     | None \<Rightarrow>
         bindE (db_now X) (\<lambda>now.
         bindE (getsE (\<lambda>s. next_id jb_id (db_jobs (se_work s)))) (\<lambda>i.
         thenE (db_update (add_job (new_blocker key payload now)))
         (thenE (db_flush X) (retE i)))))))"

definition close_blocker :: "job \<Rightarrow> job" where
  "close_blocker j = j\<lparr>jb_status := JobSucceeded, jb_locked_at := None, jb_last_error_code := None\<rparr>"

text \<open>The row is read again, since a rollback has expired it.\<close>

definition resolve_mihomo_blocker :: "db_oracle \<Rightarrow> int \<Rightarrow> ('w, unit) db" where
  "resolve_mihomo_blocker X i =
     bindE (db_read X (\<lambda>d. get_job d i)) (\<lambda>found. case found of
       None \<Rightarrow> raiseE (Exn (OtherException ''ObjectDeletedError'') ''the row of the blocker is gone'')
     | Some j \<Rightarrow>
         if jb_job_type j \<noteq> MIHOMO_RECONCILE_BLOCKER_JOB_TYPE then raiseE (blocker_error ''MIHOMO_BLOCKER_IDENTITY_MISMATCH'')
         else db_update (update_job i close_blocker))"

end
