(* ===== verification/Mihomo_Lock.thy ===== *)
theory Mihomo_Lock
  imports Mihomo_Blocker
begin

text \<open>
  The lock around every write of the forwarder's configuration
  (\<open>infra/mihomo_projection_lock.py\<close>).

  As for the gateway, a dedicated connection holds a MySQL named lock. \<open>mw_held\<close>,
  \<open>mw_release\<close> and \<open>mw_unknown\<close> are the three keys of \<open>session.info\<close>. When the block under the
  lock has left release metadata, a blocker is committed before the lock is released and resolved
  after the release is confirmed, so that a release whose outcome is unknown blocks the writers.

  \<open>mw_locked\<close> says whether the server counts the lock connection as the holder, \<open>mw_discard\<close>
  whether the connection was invalidated, \<open>mw_pool\<close> has one entry per connection returned to the
  pool, telling whether the server may still count it as the holder. \<open>mw_provider\<close> is the state of
  the forwarder, \<open>mw_applied\<close> records for each change of it whether the lock was held and what was
  committed then. Closing and invalidating a connection are taken not to raise.
\<close>

record release_metadata =
  md_source_job :: int
  md_operation :: "string option"
  md_revision :: "int option"

record 'p mihomo_world =
  mw_held :: bool
  mw_release :: "release_metadata option"
  mw_unknown :: bool
  mw_locked :: bool
  mw_discard :: bool
  mw_pool :: "bool list"
  mw_provider :: 'p
  mw_applied :: "(bool \<times> database) list"

type_synonym ('p, 'a) mdb = "('p mihomo_world, 'a) db"

abbreviation mihomo_lock_error :: "string \<Rightarrow> exn" where
  "mihomo_lock_error \<equiv> Exn (OtherException ''MihomoProjectionLockError'')"

definition mihomo_projection_lock_name :: "string option \<Rightarrow> exn + string" where
  "mihomo_projection_lock_name database =
     (let missing = Inl (mihomo_lock_error ''cannot derive Mihomo projection lock name'') in
      case database of
        None \<Rightarrow> missing
      | Some db \<Rightarrow> if db = [] then missing else
          (let name = ''lingsway:'' @ db @ '':mihomo-full-config'' in
           if 64 < length name then Inl (mihomo_lock_error ''Mihomo projection lock name exceeds MySQL limit'')
           else Inr name))"

definition invalidate_connection :: "('p, unit) mdb" where
  "invalidate_connection = on_world (\<lambda>w. w\<lparr>mw_locked := False, mw_discard := True\<rparr>)"

definition close_lock_connection :: "('p, unit) mdb" where
  "close_lock_connection = on_world (\<lambda>w.
     if mw_discard w then w\<lparr>mw_locked := False, mw_discard := False\<rparr>
     else w\<lparr>mw_pool := mw_pool w @ [mw_locked w], mw_locked := False\<rparr>)"

section \<open>GET_LOCK and RELEASE_LOCK\<close>

definition mihomo_get_lock :: "lock_oracle \<Rightarrow> ('p, unit) mdb" where
  "mihomo_get_lock L = bindE tick_of (\<lambda>n. case lo_get L n of
     Granted \<Rightarrow> on_world (\<lambda>w. w\<lparr>mw_locked := True\<rparr>)
   | Refused result \<Rightarrow> raiseE (mihomo_lock_error (''failed to acquire Mihomo projection lock: GET_LOCK returned '' @ result))
   | GetRaised exc granted \<Rightarrow> thenE (on_world (\<lambda>w. w\<lparr>mw_locked := granted\<rparr>)) (thenE invalidate_connection
        (raiseE (mihomo_lock_error ''failed to acquire Mihomo projection lock; connection state unknown''))))"

definition mihomo_release_lock :: "lock_oracle \<Rightarrow> ('p, unit) mdb" where
  "mihomo_release_lock L = bindE tick_of (\<lambda>n. case lo_release L n of
     Released \<Rightarrow> on_world (\<lambda>w. w\<lparr>mw_locked := False\<rparr>)
   | NotConfirmed \<Rightarrow> thenE invalidate_connection
        (raiseE (mihomo_lock_error ''Mihomo projection lock release was not confirmed''))
   | ReleaseRaised exc released \<Rightarrow> thenE invalidate_connection (raiseE exc))"

section \<open>The context manager\<close>

text \<open>The first \<open>try\<close>: every failure closes the connection, if there is one, and is a lock error.\<close>

definition open_mihomo_lock :: "lock_oracle \<Rightarrow> ('p, unit) mdb" where
  "open_mihomo_lock L =
     (let unopened = mihomo_lock_error ''failed to open Mihomo projection lock connection'' in
     bindE tick_of (\<lambda>a. bindE tick_of (\<lambda>b. bindE tick_of (\<lambda>c.
     if lo_bind_error L a \<noteq> None \<or> lo_connect_error L b \<noteq> None then raiseE unopened
     else if lo_configure_error L c \<noteq> None then thenE close_lock_connection (raiseE unopened)
     else (case (case lo_database L of Inl _ \<Rightarrow> Inl unopened | Inr database \<Rightarrow> mihomo_projection_lock_name database) of
         Inl exc \<Rightarrow> thenE close_lock_connection (raiseE exc)
       | Inr _ \<Rightarrow> tryE (mihomo_get_lock L) (\<lambda>exc. thenE close_lock_connection (raiseE exc)))))))"

definition set_error_code :: "string \<Rightarrow> job \<Rightarrow> job" where
  "set_error_code code j = j\<lparr>jb_last_error_code := Some code\<rparr>"

text \<open>The durable blocker that is committed before the lock is given back.\<close>

definition open_release_blocker :: "db_oracle \<Rightarrow> release_metadata \<Rightarrow> bool \<Rightarrow> ('p, int) mdb" where
  "open_release_blocker X md durable_state_unknown =
     attemptE
       (thenE (db_rollback X)
       (bindE (ensure_mihomo_blocker X MIHOMO_BLOCKER_KIND_LOCK_RELEASE (Some (md_source_job md))
                 (md_operation md) (md_revision md) MIHOMO_LOCK_RELEASE_PENDING) (\<lambda>b.
        thenE (if durable_state_unknown then db_update (update_job b (set_error_code MIHOMO_DURABLE_STATE_UNKNOWN)) else retE ())
        (thenE (db_commit X) (retE b)))))
       (\<lambda>_. thenE (db_rollback X) (thenE invalidate_connection
          (raiseE (mihomo_lock_error ''Mihomo release blocker persistence was not confirmed''))))
       retE"

definition release_failed :: "db_oracle \<Rightarrow> int option \<Rightarrow> ('p, unit) mdb" where
  "release_failed X release_blocker =
     thenE (case release_blocker of
         None \<Rightarrow> retE ()
       | Some b \<Rightarrow> tryE
           (thenE (db_rollback X)
           (thenE (db_update (update_job b (set_error_code MIHOMO_LOCK_RELEASE_UNKNOWN))) (db_commit X)))
           (\<lambda>_. db_rollback X))
     (raiseE (mihomo_lock_error ''Mihomo projection lock release outcome is unknown''))"

definition release_confirmed :: "db_oracle \<Rightarrow> int option \<Rightarrow> bool \<Rightarrow> ('p, unit) mdb" where
  "release_confirmed X release_blocker durable_state_unknown = (case release_blocker of
     None \<Rightarrow> retE ()
   | Some b \<Rightarrow> if durable_state_unknown then retE () else tryE
        (thenE (db_rollback X) (thenE (resolve_mihomo_blocker X b) (db_commit X)))
        (\<lambda>_. thenE (db_rollback X) (raiseE (mihomo_lock_error ''Mihomo release blocker cleanup was not confirmed''))))"

text \<open>The inner \<open>finally\<close>.\<close>

definition give_back :: "db_oracle \<Rightarrow> lock_oracle \<Rightarrow> ('p, unit) mdb" where
  "give_back X L =
     bindE (getsE (mw_release \<circ> se_world)) (\<lambda>metadata.
     bindE (getsE (mw_unknown \<circ> se_world)) (\<lambda>durable_state_unknown.
     bindE (case metadata of
         None \<Rightarrow> retE None
       | Some md \<Rightarrow> bindE (open_release_blocker X md durable_state_unknown) (\<lambda>b. retE (Some b))) (\<lambda>release_blocker.
     attemptE (mihomo_release_lock L) (\<lambda>_. release_failed X release_blocker)
       (\<lambda>_. release_confirmed X release_blocker durable_state_unknown))))"

definition mihomo_projection_write :: "db_oracle \<Rightarrow> lock_oracle \<Rightarrow> ('p, 'a) mdb \<Rightarrow> ('p, 'a) mdb" where
  "mihomo_projection_write X L body =
     thenE (open_mihomo_lock L)
     (bindE (getsE (mw_held \<circ> se_world)) (\<lambda>previous.
      finallyE
        (thenE (on_world (\<lambda>w. w\<lparr>mw_held := True\<rparr>)) (finallyE body (give_back X L)))
        (thenE (on_world (\<lambda>w. w\<lparr>mw_held := previous, mw_release := None, mw_unknown := False\<rparr>))
           close_lock_connection)))"

definition session_holds_mihomo_projection_lock :: "'p mihomo_world session \<Rightarrow> bool" where
  "session_holds_mihomo_projection_lock s = mw_held (se_world s)"

end
