(* ===== verification/Mihomo_Projection.thy ===== *)
theory Mihomo_Projection
  imports Py_Library Provider_Types
begin

text \<open>
  The forwarder's full configuration (\<open>providers/forwarder/mihomo_projection.py\<close>): the
  snapshot of the desired state, its validation, and \<open>compose_mihomo_document\<close>, which
  returns the document and its fingerprint.

  The desired state is frozen when it is built (\<open>base.py\<close>), so its mappings have string
  keys and every sequence in it is a tuple; a \<open>VList\<close> stands for a tuple. The elements of
  \<open>transport_materializations\<close> and \<open>transport_references\<close> are of any type in the code; an
  element that is not of the expected class is \<open>None\<close>. SHA-256 is the parameter \<open>sha256\<close>,
  the successive readings of the clock are \<open>now\<close>.
\<close>

section \<open>The desired state\<close>

record forwarder_listener_dto =
  fl_name :: string
  fl_type :: string
  fl_listen :: string
  fl_port :: int
  fl_proxy :: string

record forwarder_egress_proxy_dto =
  fe_name :: string
  fe_protocol :: string
  fe_host :: string
  fe_port :: int
  fe_credential_secret_ref :: string
  fe_credential_revision :: int
  fe_transport_proxy_name :: "string option"
  fe_transport_node_identity :: "(string \<times> string \<times> int) option"

record transport_reference =
  tr_owner_record_id :: int
  tr_provider_code :: string
  tr_source_revision :: int
  tr_cache_identity :: string
  tr_implementation :: string

record transport_materialization =
  tm_owner_record_id :: int
  tm_provider_code :: string
  tm_source_revision :: int
  tm_cache_identity :: string
  tm_content_hash :: string
  tm_freshness_deadline :: datetime
  tm_content :: "pyval dict"
  tm_implementation :: string

record mihomo_desired_state =
  ds_listeners :: "string dict"
  ds_listener_specs :: "forwarder_listener_dto list"
  ds_proxies :: "pyval list"
  ds_egress_proxies :: "forwarder_egress_proxy_dto list"
  ds_proxy_groups :: "pyval list"
  ds_rules :: "pyval list"
  ds_dns :: "pyval dict"
  ds_policy :: "pyval dict"
  ds_transport_materializations :: "transport_materialization option list"
  ds_transport_references :: "transport_reference option list"
  ds_deployment_constants :: "pyval dict"
  ds_snapshot_revision :: int
  ds_snapshot_identity :: string

text \<open>\<open>DesiredForwarderState(...)\<close>: the fields are checked when the snapshot is built.\<close>

definition build_desired_state :: "mihomo_desired_state \<Rightarrow> exn + mihomo_desired_state" where
  "build_desired_state d =
     (if ds_snapshot_revision d \<le> 0 \<or> \<not> nonblank (ds_snapshot_identity d)
      then Inl (value_error ''desired snapshot identity is invalid'') else Inr d)"

section \<open>Canonical values\<close>

abbreviation projection_error :: "string \<Rightarrow> exn" where
  "projection_error \<equiv> Exn (OtherException ''MihomoProjectionError'')"

definition canonical :: "pyval \<Rightarrow> pyval" where
  "canonical v = sort_keys v"

definition digest :: "(string \<Rightarrow> string) \<Rightarrow> pyval \<Rightarrow> string" where
  "digest sha256 v = sha256 (json_dumps (canonical v))"

definition vget_default :: "pyval dict \<Rightarrow> string \<Rightarrow> pyval \<Rightarrow> pyval" where
  "vget_default d k v = (case dict_get d k of Some w \<Rightarrow> w | None \<Rightarrow> v)"

definition has_control :: "string \<Rightarrow> bool" where
  "has_control s = list_ex (\<lambda>c. (of_char c :: nat) < 32) s"

definition unsafe_component :: "string \<Rightarrow> bool" where
  "unsafe_component s = list_ex (\<lambda>c. c = CHR '','' \<or> (of_char c :: nat) < 32) s"

definition reserved_identities :: "string list" where
  "reserved_identities =
     [''DIRECT'', ''REJECT'', ''REJECT-DROP'', ''PASS'', ''PASS-RULE'', ''COMPATIBLE'', ''BLOCK'']"

definition reserved_identity :: "string \<Rightarrow> bool" where
  "reserved_identity name = (casefold name \<in> set (map casefold reserved_identities))"

section \<open>Components of rules and targets\<close>

definition validate_rule_component :: "string \<Rightarrow> string \<Rightarrow> exn + string" where
  "validate_rule_component v code =
     (if \<not> nonblank v \<or> unsafe_component v then Inl (projection_error code) else Inr (strip v))"

definition validate_target :: "string \<Rightarrow> string \<Rightarrow> exn + string" where
  "validate_target v code =
     (if casefold (strip v) = ''block'' \<and> v \<noteq> ''BLOCK'' then Inl (projection_error ''MIHOMO_BLOCK_TARGET_INVALID'')
      else if v \<noteq> strip v \<or> v = [] \<or> unsafe_component v then Inl (projection_error code)
      else Inr v)"

definition label_char :: "char \<Rightarrow> bool" where
  "label_char c = (let n = of_char c :: nat in
     (97 \<le> n \<and> n \<le> 122) \<or> (65 \<le> n \<and> n \<le> 90) \<or> (48 \<le> n \<and> n \<le> 57) \<or> c = CHR ''-'')"

definition valid_label :: "string \<Rightarrow> bool" where
  "valid_label l = (1 \<le> length l \<and> length l \<le> 63 \<and> hd l \<noteq> CHR ''-'' \<and> last l \<noteq> CHR ''-'' \<and>
     list_all label_char l)"

definition canonical_domain :: "string \<Rightarrow> exn + string" where
  "canonical_domain value0 =
     bindS (validate_rule_component value0 ''MIHOMO_RULE_VALUE_INVALID'') (\<lambda>stripped.
     let v = lower stripped in
     if startswith v ''.'' \<or> last v = CHR ''.'' \<or> contains_sub v ''..'' \<or> contains_sub v '' '' \<or>
        \<not> is_ascii v \<or> 253 < length v \<or> \<not> list_all valid_label (split_on (CHR ''.'') v)
     then Inl (projection_error ''MIHOMO_RULE_VALUE_INVALID'')
     else Inr v)"

definition canonical_rule_value :: "string \<Rightarrow> string \<Rightarrow> exn + string" where
  "canonical_rule_value kind v =
     (if kind = ''DOMAIN'' \<or> kind = ''DOMAIN-SUFFIX'' then canonical_domain v
      else if kind = ''IP-CIDR'' then
        bindS (validate_rule_component v ''MIHOMO_RULE_VALUE_INVALID'') (\<lambda>w.
          case ip_network w of None \<Rightarrow> Inl (projection_error ''MIHOMO_RULE_VALUE_INVALID'') | Some t \<Rightarrow> Inr t)
      else Inl (projection_error ''MIHOMO_RULE_TYPE_UNSUPPORTED''))"

section \<open>Deployment constants\<close>

abbreviation controller_invalid :: "exn" where
  "controller_invalid \<equiv> projection_error ''MIHOMO_CONTROLLER_ADDRESS_INVALID''"

text \<open>The host without its brackets; \<open>None\<close> when only one bracket is there.\<close>

definition unbracket :: "string \<Rightarrow> string option" where
  "unbracket host =
     (if startswith host ''['' \<or> last host = CHR '']''
      then (if startswith host ''['' \<and> last host = CHR '']'' then Some (butlast (tl host)) else None)
      else Some host)"

definition valid_controller_port :: "string \<Rightarrow> bool" where
  "valid_controller_port port_text = (list_all is_ascii_digit port_text \<and>
     (case read_digits 0 port_text of Some n \<Rightarrow> 1 \<le> n \<and> n \<le> 65535 | None \<Rightarrow> False))"

definition validate_controller_address :: "pyval \<Rightarrow> exn + string" where
  "validate_controller_address v = (case v of
     VStr s \<Rightarrow>
      (if s = [] \<or> s \<noteq> strip s \<or> list_ex py_isspace s \<or> has_control s then Inl controller_invalid
       else case rpartition (CHR '':'') s of
         None \<Rightarrow> Inl controller_invalid
       | Some (host0, port_text) \<Rightarrow>
          if host0 = [] \<or> port_text = [] then Inl controller_invalid
          else case Option.bind (unbracket host0) ip_address of
            None \<Rightarrow> Inl controller_invalid
          | Some address \<Rightarrow>
             if is_loopback address \<or> is_unspecified address \<or> \<not> valid_controller_port port_text \<or>
                (ip_version address = 6 \<and> \<not> startswith s ''['')
             then Inl controller_invalid else Inr s)
   | _ \<Rightarrow> Inl controller_invalid)"

definition deployment_keys :: "string list" where
  "deployment_keys = [''mode'', ''mixed-port'', ''allow-lan'', ''log-level'', ''external-controller'',
     ''api-secret-ref'', ''api-secret-revision'']"

definition supported_log_level :: "pyval \<Rightarrow> bool" where
  "supported_log_level v = (v \<in> VStr ` {''silent'', ''error'', ''warning'', ''info'', ''debug''})"

definition validate_deployment_constants :: "pyval dict \<Rightarrow> exn + int \<times> string" where
  "validate_deployment_constants constants =
     thenS (require (list_all (\<lambda>k. k \<in> set deployment_keys) (dict_keys constants))
              (projection_error ''MIHOMO_DEPLOYMENT_CONSTANT_UNSUPPORTED''))
    (thenS (require (vget_default constants ''mode'' (VStr ''rule'') = VStr ''rule'')
              (projection_error ''MIHOMO_MODE_INVALID''))
    (bindS (valid_port (vget_default constants ''mixed-port'' (VInt 7890))
              (projection_error ''MIHOMO_MIXED_PORT_INVALID'')) (\<lambda>mixed_port.
     thenS (require (is_bool (vget_default constants ''allow-lan'' (VBool False)))
              (projection_error ''MIHOMO_ALLOW_LAN_INVALID''))
    (thenS (require (supported_log_level (vget_default constants ''log-level'' (VStr ''warning'')))
              (projection_error ''MIHOMO_LOG_LEVEL_INVALID''))
    (bindS (validate_controller_address (vget constants ''external-controller'')) (\<lambda>controller.
     Inr (mixed_port, controller)))))))"

definition controller_identity :: "pyval dict \<Rightarrow> exn + string \<times> int" where
  "controller_identity constants = (case vget constants ''api-secret-ref'' of
     VStr ref \<Rightarrow>
      (if ref = [] \<or> ref \<noteq> strip ref \<or> unsafe_component ref
       then Inl (projection_error ''MIHOMO_CONTROLLER_SECRET_REF_INVALID'')
       else case vget constants ''api-secret-revision'' of
         VInt revision \<Rightarrow> if revision \<le> 0 then Inl (projection_error ''MIHOMO_CONTROLLER_SECRET_REVISION_INVALID'')
                         else Inr (ref, revision)
       | _ \<Rightarrow> Inl (projection_error ''MIHOMO_CONTROLLER_SECRET_REVISION_INVALID''))
   | _ \<Rightarrow> Inl (projection_error ''MIHOMO_CONTROLLER_SECRET_REF_INVALID''))"

section \<open>Sections\<close>

subsection \<open>Listeners\<close>

text \<open>One turn of the loop over the listeners: the names and bindings seen so far.\<close>

definition validate_listener ::
  "int \<Rightarrow> string list \<times> (string \<times> int) list \<Rightarrow> forwarder_listener_dto \<Rightarrow> exn + string list \<times> (string \<times> int) list" where
  "validate_listener mixed_port seen l =
     (let name = strip (fl_name l); address = strip (fl_listen l); port = fl_port l;
          invalid = projection_error ''MIHOMO_LISTENER_INVALID'' in
      thenS (require (name \<noteq> [] \<and> address \<noteq> [] \<and> fl_proxy l \<noteq> []) invalid)
     (bindS (validate_target (fl_proxy l) ''MIHOMO_LISTENER_TARGET_INVALID'') (\<lambda>target.
      thenS (require (\<not> has_control (name @ address @ target)) invalid)
     (thenS (require (fl_type l \<in> {''socks'', ''http'', ''mixed''} \<and> 1 \<le> port \<and> port \<le> 65535) invalid)
     (thenS (require (\<not> (address = ''127.0.0.1'' \<and> port = mixed_port))
               (projection_error ''MIHOMO_LISTENER_PORT_COLLISION''))
     (thenS (require (name \<notin> set (fst seen) \<and> (address, port) \<notin> set (snd seen))
               (projection_error ''MIHOMO_LISTENER_DUPLICATE''))
     (Inr (name # fst seen, (address, port) # snd seen))))))))"

subsection \<open>Proxies and groups\<close>

text \<open>The identity of a proxy or group: its own name, free of blanks, commas and controls.\<close>

definition identity_name :: "pyval \<Rightarrow> string \<Rightarrow> exn + string" where
  "identity_name item code =
     bindS (as_mapping item (projection_error code)) (\<lambda>d.
     case (vget d ''name'', vget d ''type'') of
       (VStr n, VStr _) \<Rightarrow>
         (if strip n = [] \<or> strip n \<noteq> n \<or> unsafe_component (strip n) then Inl (projection_error code)
          else if reserved_identity n then Inl (projection_error ''MIHOMO_RESERVED_TARGET_IDENTITY'')
          else Inr n)
     | _ \<Rightarrow> Inl (projection_error code))"

definition validate_proxies :: "pyval list \<Rightarrow> exn + string list" where
  "validate_proxies proxies =
     bindS (mapS (\<lambda>p. identity_name p ''MIHOMO_PROXY_INVALID'') proxies) (\<lambda>names.
     thenS (require (distinct names) (projection_error ''MIHOMO_DUPLICATE_PROXY_IDENTITY'')) (Inr names))"

definition validate_group :: "string list \<Rightarrow> pyval \<Rightarrow> exn + string" where
  "validate_group proxy_names g =
     bindS (identity_name g ''MIHOMO_PROXY_GROUP_INVALID'') (\<lambda>name.
     bindS (as_mapping g (projection_error ''MIHOMO_PROXY_GROUP_INVALID'')) (\<lambda>d.
     thenS (require (is_list (vget d ''proxies'') \<and>
                     list_all (\<lambda>ref. ref \<in> VStr ` set proxy_names) (list_items (vget d ''proxies'')))
              (projection_error ''MIHOMO_PROXY_GROUP_REFERENCE_INVALID''))
     (Inr name)))"

definition validate_groups :: "string list \<Rightarrow> pyval list \<Rightarrow> exn + string list" where
  "validate_groups proxy_names groups =
     bindS (mapS (validate_group proxy_names) groups) (\<lambda>names.
     thenS (require (distinct names) (projection_error ''MIHOMO_DUPLICATE_PROXY_GROUP_IDENTITY''))
    (thenS (require (set proxy_names \<inter> set names = {}) (projection_error ''MIHOMO_PROXY_GROUP_IDENTITY_COLLISION''))
    (Inr names)))"

subsection \<open>Rules\<close>

definition is_match :: "string \<Rightarrow> bool" where
  "is_match kind = (py_upper kind = ''MATCH'')"

text \<open>The kind, the target and the value of a rule whose kind and target are strings.\<close>

definition rule_fields :: "pyval \<Rightarrow> exn + string \<times> string \<times> pyval" where
  "rule_fields rule =
     bindS (as_mapping rule (projection_error ''MIHOMO_RULE_INVALID'')) (\<lambda>d.
     case (vget d ''match'', vget d ''target'') of
       (VStr kind, VStr target) \<Rightarrow> Inr (kind, target, vget d ''value'')
     | _ \<Rightarrow> Inl (projection_error ''MIHOMO_RULE_INVALID''))"

definition validate_rule :: "pyval \<Rightarrow> exn + string \<times> string" where
  "validate_rule rule =
     bindS (rule_fields rule) (\<lambda>(kind, target, v).
     bindS (validate_target target ''MIHOMO_RULE_TARGET_INVALID'') (\<lambda>_.
     thenS (if \<not> is_match kind then
              (case v of
                 VStr text \<Rightarrow>
                   if py_upper kind \<notin> {''DOMAIN'', ''DOMAIN-SUFFIX'', ''IP-CIDR''} \<or> text = []
                   then Inl (projection_error ''MIHOMO_RULE_TYPE_UNSUPPORTED'')
                   else bindS (canonical_rule_value (py_upper kind) text) (\<lambda>_. Inr ())
               | _ \<Rightarrow> Inl (projection_error ''MIHOMO_RULE_TYPE_UNSUPPORTED''))
            else require (v = VNone \<or> v = VStr []) (projection_error ''MIHOMO_MATCH_VALUE_INVALID''))
    (thenS (require (\<not> (is_match kind \<and> target = ''DIRECT''))
              (projection_error ''MIHOMO_DIRECT_FALLBACK_FORBIDDEN''))
    (Inr (kind, target)))))"

text \<open>
  \<open>rules\<close> are the kinds and targets in order. Each element of the snapshot is an object of its
  own, so the only fallback is the last rule exactly when the last rule is a fallback.
\<close>

definition validate_fallback :: "(string \<times> string) list \<Rightarrow> exn + unit" where
  "validate_fallback rules =
     (let fallbacks = filter (\<lambda>(kind, _). is_match kind) rules in
      thenS (require (length fallbacks = 1) (projection_error ''MIHOMO_FALLBACK_RULE_INVALID''))
     (thenS (require (snd (hd fallbacks) = ''BLOCK'') (projection_error ''MIHOMO_FALLBACK_MUST_BLOCK''))
     (require (is_match (fst (last rules))) (projection_error ''MIHOMO_FALLBACK_NOT_TERMINAL''))))"

definition validate_rule_target :: "string list \<Rightarrow> string \<times> string \<Rightarrow> exn + unit" where
  "validate_rule_target allowed rule = (case rule of (kind, target) \<Rightarrow>
     bindS (validate_target target ''MIHOMO_RULE_TARGET_INVALID'') (\<lambda>t.
     require (is_match kind \<or> t \<in> set allowed) (projection_error ''MIHOMO_RULE_TARGET_INVALID'')))"

definition validate_rules :: "string list \<Rightarrow> pyval list \<Rightarrow> exn + unit" where
  "validate_rules allowed rules =
     bindS (mapS validate_rule rules) (\<lambda>checked.
     thenS (validate_fallback checked) (each (validate_rule_target allowed) checked))"

definition validate_dns_schema :: "pyval dict \<Rightarrow> exn + unit" where
  "validate_dns_schema dns = each (\<lambda>(key, v).
     require ((key \<in> {''enable'', ''ipv6''} \<and> is_bool v) \<or> (key = ''nameserver'' \<and> is_list v))
       (projection_error ''MIHOMO_DNS_INVALID'')) dns"

definition validate_sections :: "mihomo_desired_state \<Rightarrow> exn + unit" where
  "validate_sections d =
     bindS (validate_deployment_constants (ds_deployment_constants d)) (\<lambda>(mixed_port, _).
     thenS (require (ds_listeners d = []) (projection_error ''MIHOMO_LEGACY_LISTENERS_UNSUPPORTED''))
    (thenS (require (ds_policy d = []) (projection_error ''MIHOMO_POLICY_UNSUPPORTED''))
    (thenS (require (ds_listener_specs d \<noteq> []) (projection_error ''MIHOMO_LISTENER_SPEC_REQUIRED''))
    (bindS (foldS (validate_listener mixed_port) ([], []) (ds_listener_specs d)) (\<lambda>_.
     bindS (validate_proxies (ds_proxies d)) (\<lambda>proxy_names.
     bindS (validate_groups proxy_names (ds_proxy_groups d)) (\<lambda>group_names.
     let allowed = ''BLOCK'' # proxy_names @ group_names in
     thenS (each (\<lambda>l. require (fl_proxy l \<in> set allowed)
                         (projection_error ''MIHOMO_LISTENER_TARGET_INVALID'')) (ds_listener_specs d))
    (thenS (validate_rules allowed (ds_rules d))
    (validate_dns_schema (ds_dns d))))))))))"

section \<open>Transport content\<close>

definition validate_materialization ::
  "(string \<Rightarrow> string) \<Rightarrow> (nat \<Rightarrow> datetime) \<Rightarrow> nat \<times> transport_materialization option \<Rightarrow> exn + transport_materialization" where
  "validate_materialization sha256 now item = (case item of
     (i, None) \<Rightarrow> Inl (projection_error ''MIHOMO_TRANSPORT_MATERIALIZATION_INVALID'')
   | (i, Some m) \<Rightarrow>
       thenS (require (0 < tm_owner_record_id m \<and> nonblank (tm_provider_code m))
                (projection_error ''MIHOMO_TRANSPORT_IDENTITY_INVALID''))
      (thenS (require (0 < tm_source_revision m \<and> tm_cache_identity m \<noteq> [] \<and> tm_content_hash m \<noteq> [])
                (projection_error ''MIHOMO_TRANSPORT_PROOF_MISSING''))
      (thenS (require (tm_implementation m = ''subscription'')
                (projection_error ''MIHOMO_TRANSPORT_IMPLEMENTATION_UNSUPPORTED''))
      (thenS (require (now i < tm_freshness_deadline m) (projection_error ''MIHOMO_TRANSPORT_CACHE_STALE''))
      (thenS (require (digest sha256 (VMap (tm_content m)) = tm_content_hash m)
                (projection_error ''MIHOMO_TRANSPORT_CACHE_HASH_MISMATCH''))
      (Inr m))))))"

definition proves_reference :: "transport_materialization \<Rightarrow> transport_reference \<Rightarrow> bool" where
  "proves_reference m r = (tm_provider_code m = tr_provider_code r \<and> tm_source_revision m = tr_source_revision r \<and>
     tm_cache_identity m = tr_cache_identity r \<and> tm_implementation m = tr_implementation r)"

definition match_reference :: "transport_materialization list \<Rightarrow> transport_reference \<Rightarrow> exn + unit" where
  "match_reference materials r =
     (case find (\<lambda>m. tm_owner_record_id m = tr_owner_record_id r) materials of
        None \<Rightarrow> Inl (projection_error ''MIHOMO_TRANSPORT_PROOF_MISMATCH'')
      | Some m \<Rightarrow> require (proves_reference m r) (projection_error ''MIHOMO_TRANSPORT_PROOF_MISMATCH''))"

definition validate_transports ::
  "(string \<Rightarrow> string) \<Rightarrow> (nat \<Rightarrow> datetime) \<Rightarrow> mihomo_desired_state \<Rightarrow> exn + transport_materialization list" where
  "validate_transports sha256 now d =
     bindS (mapS (validate_materialization sha256 now) (enumerate 0 (ds_transport_materializations d))) (\<lambda>materials.
     let refs = ds_transport_references d;
         owners = map tm_owner_record_id materials;
         known = concat (map (\<lambda>r. case r of Some x \<Rightarrow> [x] | None \<Rightarrow> []) refs);
         ref_owners = map tr_owner_record_id known in
     thenS (require (length materials = length refs) (projection_error ''MIHOMO_TRANSPORT_MATERIALIZATION_MISSING''))
    (thenS (require (distinct owners) (projection_error ''MIHOMO_DUPLICATE_TRANSPORT_IDENTITY''))
    (thenS (require (length ref_owners = length refs \<and> distinct ref_owners)
              (projection_error ''MIHOMO_DUPLICATE_TRANSPORT_REFERENCE''))
    (thenS (require (set owners = set ref_owners) (projection_error ''MIHOMO_TRANSPORT_OWNERSHIP_MISMATCH''))
    (thenS (each (match_reference materials) known)
    (Inr materials))))))"

definition material_proxies :: "transport_materialization \<Rightarrow> exn + pyval list" where
  "material_proxies m = (case vget (tm_content m) ''proxies'' of
     VNone \<Rightarrow> Inl (projection_error ''MIHOMO_TRANSPORT_CONTENT_UNBOUND'')
   | VList candidate \<Rightarrow>
       thenS (each (\<lambda>p. bindS (as_mapping p (projection_error ''MIHOMO_TRANSPORT_CONTENT_INVALID'')) (\<lambda>_. Inr ())) candidate)
         (Inr candidate)
   | _ \<Rightarrow> Inl (projection_error ''MIHOMO_TRANSPORT_CONTENT_INVALID''))"

definition egress_proxy_mapping :: "forwarder_egress_proxy_dto \<Rightarrow> exn + pyval" where
  "egress_proxy_mapping p =
     thenS (require (fe_protocol p \<in> {''socks'', ''socks5''}) (projection_error ''MIHOMO_EGRESS_PROTOCOL_UNSUPPORTED''))
    (thenS (require (fe_name p \<noteq> [] \<and> fe_name p = strip (fe_name p)) (projection_error ''MIHOMO_PROXY_INVALID''))
    (thenS (require (1 \<le> fe_port p \<and> fe_port p \<le> 65535) (projection_error ''MIHOMO_PROXY_INVALID''))
    (Inr (VMap ([(''name'', VStr (fe_name p)), (''type'', VStr ''socks5''),
                 (''server'', VStr (fe_host p)), (''port'', VInt (fe_port p))] @
       (case fe_transport_proxy_name p of None \<Rightarrow> [] | Some n \<Rightarrow> [(''dialer-proxy'', VStr n)]))))))"

section \<open>The document\<close>

definition runtime_target :: "string \<Rightarrow> string" where
  "runtime_target t = (if t = ''BLOCK'' then ''REJECT'' else t)"

definition serialize_rule :: "pyval \<Rightarrow> exn + string" where
  "serialize_rule rule =
     bindS (rule_fields rule) (\<lambda>(kind, target, v).
     bindS (validate_target target ''MIHOMO_RULE_TARGET_INVALID'') (\<lambda>t.
     if is_match kind then Inr (''MATCH,'' @ runtime_target t)
     else case v of
       VStr text \<Rightarrow>
         if text = [] then Inl (projection_error ''MIHOMO_RULE_INVALID'')
         else bindS (canonical_rule_value (py_upper kind) text) (\<lambda>w.
                Inr (py_upper kind @ '','' @ w @ '','' @ runtime_target t))
     | _ \<Rightarrow> Inl (projection_error ''MIHOMO_RULE_INVALID'')))"

definition listener_entry :: "forwarder_listener_dto \<Rightarrow> pyval" where
  "listener_entry l = VMap [(''name'', VStr (fl_name l)), (''type'', VStr (fl_type l)),
     (''listen'', VStr (fl_listen l)), (''port'', VInt (fl_port l)),
     (''proxy'', VStr (runtime_target (fl_proxy l)))]"

definition document_constants :: "string \<Rightarrow> pyval dict \<Rightarrow> pyval dict" where
  "document_constants controller constants = dict_merge
     [(''ipv6'', VBool False), (''unified-delay'', VBool True), (''tcp-concurrent'', VBool True),
      (''mixed-port'', VInt 7890), (''allow-lan'', VBool False), (''bind-address'', VStr ''127.0.0.1''),
      (''mode'', VStr ''rule''), (''log-level'', VStr ''warning''),
      (''external-controller'', VStr controller)] constants"

definition dict_pop :: "'v dict \<Rightarrow> string \<Rightarrow> 'v dict" where
  "dict_pop d k = filter (\<lambda>(k', _). k' \<noteq> k) d"

definition transport_proof :: "transport_materialization \<Rightarrow> pyval" where
  "transport_proof m = VMap [(''owner_record_id'', VInt (tm_owner_record_id m)),
     (''provider_code'', VStr (tm_provider_code m)), (''source_revision'', VInt (tm_source_revision m)),
     (''cache_identity'', VStr (tm_cache_identity m)), (''content_hash'', VStr (tm_content_hash m)),
     (''freshness_deadline'', VStr (isoformat (tm_freshness_deadline m)))]"

definition raw_document ::
  "string \<Rightarrow> mihomo_desired_state \<Rightarrow> pyval list \<Rightarrow> string list \<Rightarrow> pyval dict" where
  "raw_document controller d proxies rules = dict_merge (document_constants controller (ds_deployment_constants d))
     [(''listeners'', VList (map listener_entry (ds_listener_specs d))),
      (''proxies'', VList proxies),
      (''proxy-groups'', VList (ds_proxy_groups d)),
      (''rules'', VList (map VStr rules)),
      (''dns'', VMap (ds_dns d))]"

definition fingerprint_value ::
  "mihomo_desired_state \<Rightarrow> string \<times> int \<Rightarrow> pyval \<Rightarrow> transport_materialization list \<Rightarrow> pyval" where
  "fingerprint_value d identity document materials = VMap
     [(''snapshot_revision'', VInt (ds_snapshot_revision d)),
      (''snapshot_identity'', VStr (ds_snapshot_identity d)),
      (''controller_secret_ref'', VStr (fst identity)),
      (''controller_secret_revision'', VInt (snd identity)),
      (''document'', document),
      (''transport_proofs'', VList (map transport_proof materials))]"

definition compose_mihomo_document ::
  "(string \<Rightarrow> string) \<Rightarrow> (nat \<Rightarrow> datetime) \<Rightarrow> mihomo_desired_state \<Rightarrow> exn + pyval \<times> string" where
  "compose_mihomo_document sha256 now d =
     bindS (validate_transports sha256 now d) (\<lambda>materials.
     bindS (mapS material_proxies materials) (\<lambda>materialized.
     bindS (mapS egress_proxy_mapping (ds_egress_proxies d)) (\<lambda>egress.
     let proxies = ds_proxies d @ concat materialized @ egress in
     bindS (build_desired_state (d\<lparr>ds_proxies := proxies, ds_egress_proxies := [],
              ds_transport_materializations := [], ds_transport_references := []\<rparr>)) (\<lambda>effective.
     bindS (controller_identity (ds_deployment_constants d)) (\<lambda>identity.
     thenS (validate_sections effective)
    (bindS (validate_deployment_constants (ds_deployment_constants d)) (\<lambda>(_, controller).
     bindS (mapS serialize_rule (ds_rules d)) (\<lambda>rules.
     thenS (require (is_str (vget (ds_deployment_constants d) ''api-secret-ref'') \<and>
                     vget (ds_deployment_constants d) ''api-secret-ref'' \<noteq> VStr [])
              (projection_error ''MIHOMO_API_SECRET_REF_REQUIRED''))
    (let document = canonical (VMap (dict_pop (dict_pop (raw_document controller d proxies rules)
                        ''api-secret-ref'') ''api-secret-revision''))
     in Inr (document, digest sha256 (fingerprint_value d identity document materials)))))))))))"

end
