(* ===== verification/Mihomo_Generation.thy ===== *)
theory Mihomo_Generation
  imports Platform_Database Mihomo_Projection
begin

text \<open>
  The generations of the desired configuration (\<open>infra/mihomo_generation.py\<close>): the manifest of a
  snapshot, its fingerprint, and the append-only allocation of revisions. SHA-256 is the
  parameter \<open>sha256\<close>.
\<close>

definition MANIFEST_VERSION :: string where
  "MANIFEST_VERSION = ''2''"

definition canonical_manifest :: "pyval \<Rightarrow> string" where
  "canonical_manifest v = json_dumps v"

definition manifest_fingerprint :: "(string \<Rightarrow> string) \<Rightarrow> pyval \<Rightarrow> string" where
  "manifest_fingerprint sha256 v = sha256 (canonical_manifest v)"

definition snapshot_identity :: "int \<Rightarrow> string \<Rightarrow> string \<Rightarrow> exn + string" where
  "snapshot_identity revision fingerprint version =
     thenS (require (0 < revision) (value_error ''MIHOMO_GENERATION_REVISION_INVALID''))
    (thenS (require (length fingerprint = 64 \<and> lower fingerprint = fingerprint)
              (value_error ''MIHOMO_GENERATION_FINGERPRINT_INVALID''))
    (Inr (''mihomo:'' @ version @ '':'' @ show_int revision @ '':'' @ fingerprint)))"

section \<open>The manifest\<close>

text \<open>\<open>_manifest_value\<close> on the classes of the snapshot.\<close>

definition manifest_listener :: "forwarder_listener_dto \<Rightarrow> pyval" where
  "manifest_listener l = VMap [(''name'', VStr (fl_name l)), (''listener_type'', VStr (fl_type l)),
     (''listen'', VStr (fl_listen l)), (''port'', VInt (fl_port l)), (''proxy'', VStr (fl_proxy l))]"

definition manifest_egress_proxy :: "forwarder_egress_proxy_dto \<Rightarrow> pyval" where
  "manifest_egress_proxy p = VMap [(''name'', VStr (fe_name p)), (''protocol'', VStr (fe_protocol p)),
     (''host'', VStr (fe_host p)), (''port'', VInt (fe_port p)),
     (''credential_secret_ref'', VStr (fe_credential_secret_ref p)),
     (''credential_revision'', VInt (fe_credential_revision p)),
     (''transport_proxy_name'', (case fe_transport_proxy_name p of None \<Rightarrow> VNone | Some n \<Rightarrow> VStr n)),
     (''transport_node_identity'', (case fe_transport_node_identity p of
        None \<Rightarrow> VNone | Some (name, host, port) \<Rightarrow> VList [VStr name, VStr host, VInt port]))]"

definition manifest_reference :: "transport_reference \<Rightarrow> pyval" where
  "manifest_reference r = VMap [(''owner_record_id'', VInt (tr_owner_record_id r)),
     (''provider_code'', VStr (tr_provider_code r)), (''source_revision'', VInt (tr_source_revision r)),
     (''cache_identity'', VStr (tr_cache_identity r)), (''implementation'', VStr (tr_implementation r))]"

text \<open>An element of another class has no proof, or is not a value of the manifest.\<close>

definition manifest_proofs :: "transport_materialization option list \<Rightarrow> exn + pyval list" where
  "manifest_proofs = mapS (\<lambda>m. case m of
     None \<Rightarrow> Inl (value_error ''MIHOMO_TRANSPORT_PROOF_MISSING'') | Some x \<Rightarrow> Inr (transport_proof x))"

definition manifest_references :: "transport_reference option list \<Rightarrow> exn + pyval list" where
  "manifest_references = mapS (\<lambda>r. case r of
     None \<Rightarrow> Inl (value_error ''MIHOMO_MANIFEST_UNSUPPORTED_VALUE'') | Some x \<Rightarrow> Inr (manifest_reference x))"

definition build_projection_source_manifest :: "mihomo_desired_state \<Rightarrow> exn + pyval" where
  "build_projection_source_manifest d =
     bindS (manifest_proofs (ds_transport_materializations d)) (\<lambda>proofs.
     bindS (manifest_references (ds_transport_references d)) (\<lambda>references.
     Inr (VMap [(''manifest_version'', VStr MANIFEST_VERSION),
       (''listeners'', VMap (map (\<lambda>(k, v). (k, VStr v)) (ds_listeners d))),
       (''listener_specs'', VList (map manifest_listener (ds_listener_specs d))),
       (''proxies'', VList (ds_proxies d)),
       (''egress_proxies'', VList (map manifest_egress_proxy (ds_egress_proxies d))),
       (''proxy_groups'', VList (ds_proxy_groups d)),
       (''rules'', VList (ds_rules d)),
       (''dns'', VMap (ds_dns d)),
       (''policy'', VMap (ds_policy d)),
       (''transport_references'', VList references),
       (''transport_proofs'', VList proofs),
       (''deployment_constants'', VMap (ds_deployment_constants d))])))"

section \<open>Allocation\<close>

abbreviation generations :: "database \<Rightarrow> projection_generation list" where
  "generations d \<equiv> fw_generations (db_forwarder d)"

text \<open>The row with the greatest revision.\<close>

definition latest_generation :: "database \<Rightarrow> projection_generation option" where
  "latest_generation d = (case rev (sort_key mg_revision (generations d)) of [] \<Rightarrow> None | g # _ \<Rightarrow> Some g)"

definition add_generation :: "projection_generation \<Rightarrow> database \<Rightarrow> database" where
  "add_generation g d = d\<lparr>db_forwarder := (db_forwarder d)\<lparr>fw_generations := generations d @ [g]\<rparr>\<rparr>"

definition allocate_generation :: "db_oracle \<Rightarrow> (string \<Rightarrow> string) \<Rightarrow> pyval \<Rightarrow> ('w, projection_generation) db" where
  "allocate_generation X sha256 manifest =
     (let fingerprint = manifest_fingerprint sha256 manifest in
     bindE (db_read X latest_generation) (\<lambda>latest.
     case (case latest of
             Some g \<Rightarrow> if mg_manifest_version g = MANIFEST_VERSION \<and> mg_desired_fingerprint g = fingerprint then Some g else None
           | None \<Rightarrow> None) of
       Some g \<Rightarrow> retE g
     | None \<Rightarrow>
         bindE (db_now X) (\<lambda>now.
         bindE (getsE (\<lambda>s. next_id mg_revision (generations (se_work s)))) (\<lambda>i.
         (let g = \<lparr>mg_revision = i, mg_manifest_version = MANIFEST_VERSION, mg_desired_fingerprint = fingerprint\<rparr> in
         thenE (db_update (add_generation g)) (thenE (db_flush X) (retE g)))))))"

end
