(* ===== verification/Mihomo_Provider.thy ===== *)
theory Mihomo_Provider
  imports Mihomo_Projection
begin

text \<open>
  The forwarder provider (\<open>providers/forwarder/mihomo.py\<close>): rendering a template without
  secrets, finalisation with the secrets read at that moment, and activation with restore of
  the previous configuration.

  The host is a record: the configuration file, what the Mihomo process runs and the number of
  external calls so far. Everything outside the code is decided by \<open>mihomo_oracle\<close>, an
  arbitrary function of that number: the backup, the write of the new file, the answers of the
  control API (a status, or an exception of the transport, any of them leaving an arbitrary
  configuration running when the reload was refused) and the copy that restores the backup,
  which may leave an arbitrary file when it fails. A backup is the text of the file at the time
  it was taken. PyYAML is the pair \<open>yo_dump\<close> and \<open>yo_load\<close>.
\<close>

section \<open>Templates and candidates\<close>

record egress_credential_requirement =
  cq_proxy_name :: string
  cq_secret_ref :: string
  cq_revision :: int

record projection_template =
  pt_content :: "pyval dict"
  pt_version :: string
  pt_controller_secret_ref :: string
  pt_controller_secret_revision :: int
  pt_egress_credentials :: "egress_credential_requirement list"

record controller_secret_snapshot =
  cs_ref :: string
  cs_revision :: int
  cs_value :: string

record egress_credential_snapshot =
  es_secret_ref :: string
  es_revision :: int
  es_credential :: credential_dto

text \<open>\<open>mc_finalized\<close> says that the candidate carries the proof object of the module.\<close>

record mihomo_candidate_config =
  mc_content :: "pyval dict"
  mc_version :: string
  mc_controller_secret_ref :: string
  mc_controller_secret_revision :: int
  mc_finalized :: bool

abbreviation mihomo_error :: "string \<Rightarrow> exn" where
  "mihomo_error \<equiv> Exn (OtherException ''MihomoRuntimeError'')"

definition rollback_verified_error :: exn where
  "rollback_verified_error = Exn (OtherException ''MihomoRollbackVerifiedError'') ''MIHOMO_ROLLBACK_VERIFIED''"

definition rollback_unknown_error :: exn where
  "rollback_unknown_error = Exn (OtherException ''MihomoRollbackUnknownError'') ''MIHOMO_ROLLBACK_OUTCOME_UNKNOWN''"

section \<open>Host\<close>

datatype http_outcome = HttpStatus int | HttpOSError | HttpRaises exn

record mihomo_oracle =
  yo_dump :: "pyval \<Rightarrow> string"
  yo_load :: "string \<Rightarrow> pyval option"
  mo_api_secret :: string
  mo_backup :: "nat \<Rightarrow> exn option"
  mo_install :: "nat \<Rightarrow> exn option"
  mo_reload :: "nat \<Rightarrow> http_outcome \<times> string option"
  mo_restore :: "nat \<Rightarrow> (exn \<times> string option) option"
  mo_health :: "nat \<Rightarrow> http_outcome"

record mihomo_host =
  mh_tick :: nat
  mh_file :: "string option"
  mh_running :: "string option"

type_synonym 'a mihomo = "(mihomo_host, exn, 'a) eff"

definition tickM :: "nat mihomo" where
  "tickM h = (Inr (mh_tick h), h\<lparr>mh_tick := Suc (mh_tick h)\<rparr>)"

definition failM :: "exn option \<Rightarrow> unit mihomo" where
  "failM r = (case r of None \<Rightarrow> retE () | Some e \<Rightarrow> raiseE e)"

section \<open>The local runtime\<close>

text \<open>\<open>hmac.compare_digest\<close> refuses texts with characters outside ASCII.\<close>

definition controller_secret_matches :: "mihomo_oracle \<Rightarrow> string \<Rightarrow> bool mihomo" where
  "controller_secret_matches X secret =
     (if is_ascii (mo_api_secret X) \<and> is_ascii secret then retE (mo_api_secret X = secret)
      else raiseE (Exn (OtherException ''TypeError'') ''comparing strings with non-ASCII characters is not supported''))"

definition mh_backup :: "mihomo_oracle \<Rightarrow> string option mihomo" where
  "mh_backup X = bindE (getsE mh_file) (\<lambda>f.
     if f = None then raiseE (mihomo_error ''current Mihomo config does not exist'')
     else bindE tickM (\<lambda>n. thenE (failM (mo_backup X n)) (retE f)))"

definition mh_install :: "mihomo_oracle \<Rightarrow> string \<Rightarrow> unit mihomo" where
  "mh_install X document = bindE tickM (\<lambda>n. thenE (failM (mo_install X n))
     (modifyE (\<lambda>h. h\<lparr>mh_file := Some document\<rparr>)))"

definition mh_reload :: "mihomo_oracle \<Rightarrow> unit mihomo" where
  "mh_reload X = bindE tickM (\<lambda>n. case mo_reload X n of (outcome, running) \<Rightarrow>
     (case outcome of
        HttpStatus s \<Rightarrow>
          if 200 \<le> s \<and> s < 300 then modifyE (\<lambda>h. h\<lparr>mh_running := mh_file h\<rparr>)
          else thenE (modifyE (\<lambda>h. h\<lparr>mh_running := running\<rparr>))
                 (raiseE (mihomo_error (''Mihomo reload returned HTTP '' @ show_int s)))
      | HttpOSError \<Rightarrow> thenE (modifyE (\<lambda>h. h\<lparr>mh_running := running\<rparr>)) (raiseE (mihomo_error ''Mihomo hot reload failed''))
      | HttpRaises e \<Rightarrow> thenE (modifyE (\<lambda>h. h\<lparr>mh_running := running\<rparr>)) (raiseE e)))"

definition mh_restore :: "mihomo_oracle \<Rightarrow> string option \<Rightarrow> unit mihomo" where
  "mh_restore X backup = bindE tickM (\<lambda>n. case mo_restore X n of
     None \<Rightarrow> modifyE (\<lambda>h. h\<lparr>mh_file := backup\<rparr>)
   | Some (e, file) \<Rightarrow> thenE (modifyE (\<lambda>h. h\<lparr>mh_file := file\<rparr>)) (raiseE e))"

definition mh_health :: "mihomo_oracle \<Rightarrow> health_report mihomo" where
  "mh_health X = bindE tickM (\<lambda>n. case mo_health X n of
     HttpStatus s \<Rightarrow> (let healthy = 200 \<le> s \<and> s < 300 in
       retE \<lparr>hr_healthy = healthy, hr_details = [(''mihomo_api'', if healthy then ''True'' else ''False'')]\<rparr>)
   | HttpOSError \<Rightarrow> retE \<lparr>hr_healthy = False, hr_details = [(''mihomo_api'', ''False'')]\<rparr>
   | HttpRaises e \<Rightarrow> raiseE e)"

section \<open>Render\<close>

text \<open>The document is what PyYAML reads back from the text it wrote; reading may fail.\<close>

definition render_mihomo ::
  "mihomo_oracle \<Rightarrow> (string \<Rightarrow> string) \<Rightarrow> (nat \<Rightarrow> datetime) \<Rightarrow> mihomo_desired_state \<Rightarrow> exn + projection_template" where
  "render_mihomo X sha256 now d =
     bindS (compose_mihomo_document sha256 now d) (\<lambda>(document, version).
     case yo_load X (yo_dump X document) of
       None \<Rightarrow> Inl (mihomo_error ''rendered Mihomo document is invalid YAML'')
     | Some parsed \<Rightarrow>
     bindS (as_mapping parsed (mihomo_error ''rendered Mihomo document is not a mapping'')) (\<lambda>content.
     case vget (ds_deployment_constants d) ''api-secret-ref'' of
       VStr ref \<Rightarrow>
        (if ref = [] then Inl (mihomo_error ''Mihomo controller secret reference is missing'')
         else case vget (ds_deployment_constants d) ''api-secret-revision'' of
           VInt revision \<Rightarrow>
            (if revision \<le> 0 then Inl (mihomo_error ''Mihomo controller secret revision is invalid'')
             else Inr \<lparr>pt_content = content, pt_version = version, pt_controller_secret_ref = ref,
                    pt_controller_secret_revision = revision,
                    pt_egress_credentials = map (\<lambda>p. \<lparr>cq_proxy_name = fe_name p,
                      cq_secret_ref = fe_credential_secret_ref p, cq_revision = fe_credential_revision p\<rparr>)
                      (ds_egress_proxies d)\<rparr>)
         | _ \<Rightarrow> Inl (mihomo_error ''Mihomo controller secret revision is invalid''))
     | _ \<Rightarrow> Inl (mihomo_error ''Mihomo controller secret reference is missing'')))"

section \<open>Finalisation\<close>

abbreviation unresolved_error :: exn where
  "unresolved_error \<equiv> mihomo_error ''MIHOMO_EGRESS_CREDENTIAL_UNRESOLVED''"

definition is_named :: "string \<Rightarrow> pyval dict \<Rightarrow> bool" where
  "is_named name d = (vget d ''name'' = VStr name)"

definition with_credential :: "credential_dto \<Rightarrow> pyval dict \<Rightarrow> pyval dict" where
  "with_credential c d = dict_set (dict_set d ''username'' (VStr (cr_username c))) ''password'' (VStr (cr_password c))"

text \<open>One requirement: exactly one proxy has its name and receives the credential.\<close>

definition finalize_proxy ::
  "(nat \<Rightarrow> string \<Rightarrow> exn + egress_credential_snapshot) \<Rightarrow> pyval dict list \<Rightarrow>
   nat \<times> egress_credential_requirement \<Rightarrow> exn + pyval dict list" where
  "finalize_proxy resolve proxies q = (case q of (i, req) \<Rightarrow>
     (case resolve i (cq_secret_ref req) of
        Inl _ \<Rightarrow> Inl unresolved_error
      | Inr snap \<Rightarrow>
          thenS (require (es_secret_ref snap = cq_secret_ref req) unresolved_error)
         (thenS (require (es_revision snap = cq_revision req) (mihomo_error ''MIHOMO_EGRESS_CREDENTIAL_REVISION_MISMATCH''))
         (thenS (require (length (filter (is_named (cq_proxy_name req)) proxies) = 1) unresolved_error)
         (Inr (map (\<lambda>d. if is_named (cq_proxy_name req) d then with_credential (es_credential snap) d else d) proxies))))))"

definition finalize_mihomo ::
  "(string \<Rightarrow> exn + controller_secret_snapshot) \<Rightarrow> (nat \<Rightarrow> string \<Rightarrow> exn + egress_credential_snapshot) \<Rightarrow>
   projection_template option \<Rightarrow> exn + mihomo_candidate_config" where
  "finalize_mihomo resolve_controller resolve_egress template = (case template of
     None \<Rightarrow> Inl (mihomo_error ''invalid Mihomo projection template'')
   | Some t \<Rightarrow> (case resolve_controller (pt_controller_secret_ref t) of
     Inl _ \<Rightarrow> Inl (mihomo_error ''Mihomo controller secret resolution failed'')
   | Inr controller \<Rightarrow>
      thenS (require (cs_ref controller = pt_controller_secret_ref t \<and>
                      cs_revision controller = pt_controller_secret_revision t)
               (mihomo_error ''Mihomo controller secret identity mismatch''))
     (thenS (require (nonblank (cs_value controller)) (mihomo_error ''Mihomo controller secret resolution failed''))
     (let content = dict_set (pt_content t) ''secret'' (VStr (cs_value controller)) in
      case vget content ''proxies'' of
        VList raw \<Rightarrow>
          bindS (mapS (\<lambda>p. as_mapping p unresolved_error) raw) (\<lambda>proxies.
          bindS (foldS (finalize_proxy resolve_egress) proxies (enumerate 0 (pt_egress_credentials t))) (\<lambda>final.
          Inr \<lparr>mc_content = dict_set content ''proxies'' (VList (map VMap final)), mc_version = pt_version t,
            mc_controller_secret_ref = pt_controller_secret_ref t,
            mc_controller_secret_revision = pt_controller_secret_revision t, mc_finalized = True\<rparr>))
      | _ \<Rightarrow> Inl unresolved_error))))"

section \<open>Activation\<close>

definition rollback_mihomo :: "mihomo_oracle \<Rightarrow> string option \<Rightarrow> 'a mihomo" where
  "rollback_mihomo X backup =
     bindE (tryE (thenE (mh_restore X backup) (thenE (mh_reload X) (mh_health X)))
              (\<lambda>_. raiseE rollback_unknown_error)) (\<lambda>report.
     if \<not> hr_healthy report then raiseE rollback_unknown_error else raiseE rollback_verified_error)"

definition check_candidate :: "mihomo_candidate_config option \<Rightarrow> exn + string \<times> mihomo_candidate_config" where
  "check_candidate candidate = (case candidate of
     None \<Rightarrow> Inl (mihomo_error ''cannot install non-finalized Mihomo projection'')
   | Some c \<Rightarrow>
      thenS (require (mc_finalized c) (mihomo_error ''Mihomo candidate finalization proof is invalid''))
     (bindS (nonblank_string (vget (mc_content c) ''secret'')
               (mihomo_error ''Mihomo candidate controller secret is missing'')) (\<lambda>secret.
      thenS (require (list_all (\<lambda>k. dict_get (mc_content c) k = None)
                        [''api-secret-ref'', ''secret-ref'', ''api-secret-revision''])
               (mihomo_error ''Mihomo candidate contains internal metadata''))
      (Inr (secret, c)))))"

abbreviation rotation_error :: exn where
  "rotation_error \<equiv> mihomo_error ''MIHOMO_CONTROLLER_SECRET_ROTATION_UNSUPPORTED''"

definition apply_mihomo :: "mihomo_oracle \<Rightarrow> mihomo_candidate_config option \<Rightarrow> apply_result mihomo" where
  "apply_mihomo X candidate =
     bindE (liftE (check_candidate candidate)) (\<lambda>(secret, c).
     bindE (tryE (controller_secret_matches X secret) (\<lambda>_. raiseE rotation_error)) (\<lambda>matches.
     if \<not> matches then raiseE rotation_error
     else bindE (mh_backup X) (\<lambda>backup.
     let document = yo_dump X (VMap (mc_content c)) in
     bindE (tryE (thenE (mh_install X document) (thenE (mh_reload X) (mh_health X)))
              (\<lambda>_. rollback_mihomo X backup)) (\<lambda>report.
     if \<not> hr_healthy report then rollback_mihomo X backup
     else retE \<lparr>ar_applied = True, ar_version = mc_version c, ar_rolled_back = False\<rparr>))))"

end
