(* ===== verification/Mihomo_Reconciliation.thy ===== *)
theory Mihomo_Reconciliation
  imports Mihomo_Lock Mihomo_Generation Mihomo_Provider
begin

text \<open>
  The durable reconciliation of the forwarder (\<open>infra/mihomo_reconciliation.py\<close>): an intent is a
  job row that names a generation; the worker, under the lock, claims the oldest intent, rebuilds
  the desired state, applies it, verifies the running configuration and finalises the job together
  with a release blocker. A commit whose answer is lost is classified by an independent session;
  an outcome that is not known stays on the job or on a blocker and stops every writer.

  The snapshot loader, the provider and the verifier are parameters (the three protocols of the
  module): any of their calls may raise.
\<close>

record 'p mihomo_parts =
  mp_load :: "job \<Rightarrow> ('p, mihomo_desired_state) mdb"
  mp_render :: "mihomo_desired_state \<Rightarrow> 'p \<Rightarrow> (exn + projection_template) \<times> 'p"
  mp_finalize :: "projection_template \<Rightarrow> ('p, mihomo_candidate_config) mdb"
  mp_apply :: "mihomo_candidate_config \<Rightarrow> 'p \<Rightarrow> (exn + apply_result) \<times> 'p"

record projection_verification =
  pv_verified :: bool
  pv_evidence_version :: string

text \<open>A verifier's answer that is not a \<open>ProjectionVerification\<close> is \<open>None\<close>.\<close>

type_synonym 'p verifier =
  "mihomo_candidate_config \<Rightarrow> string \<Rightarrow> int \<Rightarrow> 'p \<Rightarrow> (exn + projection_verification option) \<times> 'p"

definition provider_call :: "('p \<Rightarrow> (exn + 'a) \<times> 'p) \<Rightarrow> ('p, 'a) mdb" where
  "provider_call f s = (case f (mw_provider (se_world s)) of
     (r, p) \<Rightarrow> (r, s\<lparr>se_world := (se_world s)\<lparr>mw_provider := p\<rparr>\<rparr>))"

text \<open>A change of the running forwarder is recorded with what holds at that moment.\<close>

definition provider_apply :: "'p mihomo_parts \<Rightarrow> mihomo_candidate_config \<Rightarrow> ('p, apply_result) mdb" where
  "provider_apply P candidate =
     thenE (modifyE (\<lambda>s. s\<lparr>se_world := (se_world s)\<lparr>mw_applied := mw_applied (se_world s) @
        [(mw_locked (se_world s), se_store s)]\<rparr>\<rparr>))
     (provider_call (mp_apply P candidate))"

section \<open>Exceptions\<close>

abbreviation mihomo_reconciliation_error :: "string \<Rightarrow> exn" where
  "mihomo_reconciliation_error \<equiv> Exn (OtherException ''MihomoReconciliationError'')"

abbreviation mihomo_payload_error :: "string \<Rightarrow> exn" where
  "mihomo_payload_error \<equiv> Exn (OtherException ''MihomoPayloadError'')"

abbreviation mihomo_blocked :: "string \<Rightarrow> exn" where
  "mihomo_blocked \<equiv> Exn (OtherException ''MihomoReconciliationBlocked'')"

abbreviation mihomo_outcome_unknown :: "string \<Rightarrow> exn" where
  "mihomo_outcome_unknown \<equiv> Exn (OtherException ''MihomoCommitOutcomeUnknown'')"

definition of_class :: "string list \<Rightarrow> exn \<Rightarrow> bool" where
  "of_class names e = (exn_class e \<in> set (map OtherException names))"

text \<open>Membership in a class of the module, its subclasses included.\<close>

definition is_rollback_unknown :: "exn \<Rightarrow> bool" where
  "is_rollback_unknown = of_class [''MihomoRollbackUnknownError'']"

definition is_apply_error :: "exn \<Rightarrow> bool" where
  "is_apply_error = of_class [''MihomoApplyError'', ''MihomoRollbackVerifiedError'', ''MihomoRollbackUnknownError'']"

definition is_outcome_unknown :: "exn \<Rightarrow> bool" where
  "is_outcome_unknown = of_class [''MihomoCommitOutcomeUnknown'']"

definition is_blocked :: "exn \<Rightarrow> bool" where
  "is_blocked = of_class [''MihomoReconciliationBlocked'']"

definition is_reconciliation_error :: "exn \<Rightarrow> bool" where
  "is_reconciliation_error = of_class [''MihomoReconciliationError'', ''MihomoPayloadError'',
     ''MihomoReconciliationBlocked'', ''MihomoCommitOutcomeUnknown'']"

definition is_projection_error :: "exn \<Rightarrow> bool" where
  "is_projection_error = of_class [''MihomoProjectionError'']"

section \<open>Constants\<close>

definition MIHOMO_RECONCILE_JOB_TYPE :: string where
  "MIHOMO_RECONCILE_JOB_TYPE = ''MIHOMO_RECONCILE''"

definition MIHOMO_OPERATION_KINDS :: "string list" where
  "MIHOMO_OPERATION_KINDS = [''FULL_PROJECTION'', ''RECONCILE'', ''CREATE'', ''UPDATE'', ''DELETE'']"

definition MIHOMO_FINALIZATION_UNKNOWN :: string where
  "MIHOMO_FINALIZATION_UNKNOWN = ''MIHOMO_FINALIZATION_COMMIT_OUTCOME_UNKNOWN''"

definition MIHOMO_RUNTIME_UNKNOWN :: string where
  "MIHOMO_RUNTIME_UNKNOWN = ''MIHOMO_RUNTIME_PROJECTION_UNKNOWN''"

definition MIHOMO_ROLLBACK_UNKNOWN :: string where
  "MIHOMO_ROLLBACK_UNKNOWN = ''MIHOMO_ROLLBACK_OUTCOME_UNKNOWN''"

definition MIHOMO_UNKNOWN_DIAGNOSTICS :: "string list" where
  "MIHOMO_UNKNOWN_DIAGNOSTICS = [MIHOMO_FINALIZATION_UNKNOWN, MIHOMO_RUNTIME_UNKNOWN, MIHOMO_ROLLBACK_UNKNOWN]"

definition OPERATION_ID_PREFIX :: string where
  "OPERATION_ID_PREFIX = ''MIHOMO_RECONCILE:''"

definition MAX_OPERATION_ID_LENGTH :: nat where
  "MAX_OPERATION_ID_LENGTH = 160 - length OPERATION_ID_PREFIX"

definition MIHOMO_RETRY_LIMIT :: int where
  "MIHOMO_RETRY_LIMIT = 5"

definition MIHOMO_STALE_AFTER :: int where
  "MIHOMO_STALE_AFTER = minutes 15"

definition has_unknown_diagnostic :: "job \<Rightarrow> bool" where
  "has_unknown_diagnostic j = (case jb_last_error_code j of None \<Rightarrow> False | Some c \<Rightarrow> c \<in> set MIHOMO_UNKNOWN_DIAGNOSTICS)"

definition mihomo_job :: "job \<Rightarrow> bool" where
  "mihomo_job j \<longleftrightarrow> jb_job_type j = MIHOMO_RECONCILE_JOB_TYPE"

definition mihomo_blocker :: "job \<Rightarrow> bool" where
  "mihomo_blocker j \<longleftrightarrow> jb_job_type j = MIHOMO_RECONCILE_BLOCKER_JOB_TYPE"

section \<open>Payloads\<close>

definition validate_operation_id :: "pyval \<Rightarrow> exn + string" where
  "validate_operation_id v = (case v of
     VStr s \<Rightarrow> if MAX_OPERATION_ID_LENGTH < length s
       then Inl (value_error ''operation_id must be a non-empty canonical string'') else validate_mihomo_operation_id v
   | _ \<Rightarrow> validate_mihomo_operation_id v)"

definition validate_operation_kind :: "pyval \<Rightarrow> exn + string" where
  "validate_operation_kind v = (let invalid = Inl (value_error ''operation_kind is not supported'') in
     case v of VStr s \<Rightarrow> if s \<in> set MIHOMO_OPERATION_KINDS then Inr s else invalid | _ \<Rightarrow> invalid)"

definition validate_revision :: "pyval \<Rightarrow> exn + int" where
  "validate_revision v = (let invalid = Inl (value_error ''snapshot_revision must be a positive integer'') in
     case v of VInt n \<Rightarrow> if 0 < n then Inr n else invalid | _ \<Rightarrow> invalid)"

definition valid_evidence_version :: "pyval \<Rightarrow> bool" where
  "valid_evidence_version v = (case v of VStr s \<Rightarrow> safe_text 63 s | _ \<Rightarrow> False)"

definition mihomo_payload :: "job \<Rightarrow> exn + pyval dict" where
  "mihomo_payload j = (case jb_payload j of
     Some (VMap d) \<Rightarrow> Inr d | _ \<Rightarrow> Inl (mihomo_payload_error ''MIHOMO_RECONCILIATION_PAYLOAD_INVALID''))"

text \<open>The identity of an intent: its operation, its kind and its generation.\<close>

record mihomo_identity =
  mi_operation :: string
  mi_kind :: string
  mi_revision :: int

definition same_identity :: "mihomo_identity \<Rightarrow> pyval dict \<Rightarrow> bool" where
  "same_identity I payload \<longleftrightarrow> py_eq (vget payload ''operation_id'') (VStr (mi_operation I)) \<and>
     py_eq (vget payload ''operation_kind'') (VStr (mi_kind I)) \<and>
     py_eq (vget payload ''snapshot_revision'') (VInt (mi_revision I))"

definition payload_identity :: "pyval dict \<Rightarrow> exn + mihomo_identity" where
  "payload_identity payload =
     bindS (validate_operation_id (vget payload ''operation_id'')) (\<lambda>operation.
     bindS (validate_operation_kind (vget payload ''operation_kind'')) (\<lambda>kind.
     bindS (validate_revision (vget payload ''snapshot_revision'')) (\<lambda>revision.
     Inr \<lparr>mi_operation = operation, mi_kind = kind, mi_revision = revision\<rparr>)))"

definition identity_payload :: "mihomo_identity \<Rightarrow> pyval dict" where
  "identity_payload I = [(''operation_id'', VStr (mi_operation I)), (''operation_kind'', VStr (mi_kind I)),
     (''snapshot_revision'', VInt (mi_revision I))]"

section \<open>Intents\<close>

definition new_mihomo_job :: "string \<Rightarrow> mihomo_identity \<Rightarrow> datetime \<Rightarrow> job" where
  "new_mihomo_job key I now = \<lparr>jb_id = 0, jb_job_type = MIHOMO_RECONCILE_JOB_TYPE, jb_dedupe_key = key,
     jb_payload = Some (VMap (identity_payload I)), jb_status = JobPending, jb_attempts = 0,
     jb_max_attempts = MIHOMO_RETRY_LIMIT, jb_available_at = now, jb_locked_at = None, jb_last_error_code = None\<rparr>"

definition matches_intent :: "mihomo_identity \<Rightarrow> job \<Rightarrow> bool" where
  "matches_intent I j \<longleftrightarrow> mihomo_job j \<and> (case mihomo_payload j of Inr p \<Rightarrow> same_identity I p | Inl _ \<Rightarrow> False)"

definition enqueue_mihomo_reconciliation :: "db_oracle \<Rightarrow> pyval \<Rightarrow> pyval \<Rightarrow> pyval \<Rightarrow> ('w, int) db" where
  "enqueue_mihomo_reconciliation X operation_id operation_kind snapshot_revision =
     bindE (liftE (payload_identity [(''operation_id'', operation_id), (''operation_kind'', operation_kind),
        (''snapshot_revision'', snapshot_revision)])) (\<lambda>I.
     (let key = OPERATION_ID_PREFIX @ mi_operation I in
     bindE (db_read X (job_by_key key)) (\<lambda>existing. case existing of
       Some j \<Rightarrow>
         if matches_intent I j then retE (jb_id j)
         else raiseE (mihomo_reconciliation_error ''MIHOMO_RECONCILIATION_IDENTITY_MISMATCH'')
     | None \<Rightarrow>
         bindE (db_now X) (\<lambda>now.
         bindE (getsE (\<lambda>s. next_id jb_id (db_jobs (se_work s)))) (\<lambda>i.
         thenE (db_update (add_job (new_mihomo_job key I now)))
         (thenE (db_flush X) (retE i)))))))"

text \<open>\<open>prepare_mihomo_reconciliation\<close>; \<open>load_current\<close> is the loader's operation.\<close>

definition prepare_mihomo_reconciliation ::
  "db_oracle \<Rightarrow> lock_oracle \<Rightarrow> (string \<Rightarrow> string) \<Rightarrow> ('p, mihomo_desired_state) mdb \<Rightarrow> pyval \<Rightarrow> pyval \<Rightarrow> ('p, int) mdb" where
  "prepare_mihomo_reconciliation X L sha256 load_current operation_id operation_kind =
     mihomo_projection_write X L (tryE
       (bindE load_current (\<lambda>desired.
        bindE (liftE (build_projection_source_manifest desired)) (\<lambda>manifest.
        bindE (allocate_generation X sha256 manifest) (\<lambda>g.
        bindE (liftE (snapshot_identity (mg_revision g) (mg_desired_fingerprint g) MANIFEST_VERSION)) (\<lambda>_.
        bindE (enqueue_mihomo_reconciliation X operation_id operation_kind (VInt (mg_revision g))) (\<lambda>i.
        thenE (db_commit X) (retE i)))))))
       (\<lambda>exc. thenE (db_rollback X) (raiseE exc)))"


section \<open>Writers\<close>

definition unresolved_blocker :: "database \<Rightarrow> bool" where
  "unresolved_blocker d \<longleftrightarrow> list_ex (\<lambda>j. mihomo_blocker j \<and> jb_status j \<noteq> JobSucceeded) (db_jobs d)"

text \<open>An unresolved intent; the owner of an intent is only stopped by the older ones.\<close>

definition unresolved_intent :: "int option \<Rightarrow> database \<Rightarrow> bool" where
  "unresolved_intent owning d \<longleftrightarrow> list_ex (\<lambda>j. mihomo_job j \<and> jb_status j \<noteq> JobSucceeded \<and>
     (case owning of Some i \<Rightarrow> jb_id j < i | None \<Rightarrow> True)) (db_jobs d)"

definition assert_no_unresolved_mihomo_mutation :: "db_oracle \<Rightarrow> int option \<Rightarrow> ('p, unit) mdb" where
  "assert_no_unresolved_mihomo_mutation X owning =
     bindE (getsE session_holds_mihomo_projection_lock) (\<lambda>held.
     if \<not> held then raiseE (mihomo_blocked ''MIHOMO_PROJECTION_LOCK_REQUIRED'')
     else bindE (db_read X unresolved_blocker) (\<lambda>blocker.
     if blocker then raiseE (mihomo_blocked ''MIHOMO_GLOBAL_MANUAL_BLOCKER'')
     else bindE (db_read X (unresolved_intent owning)) (\<lambda>intent.
     if intent then raiseE (mihomo_blocked ''MIHOMO_UNRESOLVED_INTENT_BLOCKS_WRITER'') else retE ())))"

section \<open>Classification of a lost commit\<close>

text \<open>\<open>read\<close> is a query on the observer or on the session.\<close>

definition has_exact_unresolved_release_blocker ::
  "((database \<Rightarrow> bool) \<Rightarrow> ('w, bool) db) \<Rightarrow> int \<Rightarrow> mihomo_identity \<Rightarrow> ('w, bool) db" where
  "has_exact_unresolved_release_blocker read job_id I =
     bindE (liftE (mihomo_blocker_dedupe_key MIHOMO_BLOCKER_KIND_LOCK_RELEASE (Some job_id))) (\<lambda>key.
     read (\<lambda>d. case find (\<lambda>b. mihomo_blocker b \<and> jb_dedupe_key b = key) (db_jobs d) of
       None \<Rightarrow> False
     | Some b \<Rightarrow> jb_status b \<noteq> JobSucceeded \<and>
         same_payload (blocker_payload MIHOMO_BLOCKER_KIND_LOCK_RELEASE (Some job_id) (Some (mi_operation I))
           (Some (mi_revision I)) MIHOMO_LOCK_RELEASE_PENDING) b))"

definition evidence_matches :: "mihomo_identity \<Rightarrow> string \<Rightarrow> pyval \<Rightarrow> pyval \<Rightarrow> bool" where
  "evidence_matches I fingerprint kind evidence = (case evidence of
     VMap ev \<Rightarrow> py_eq (vget ev ''operation_id'') (VStr (mi_operation I)) \<and> py_eq (vget ev ''operation_kind'') kind \<and>
       py_eq (vget ev ''snapshot_revision'') (VInt (mi_revision I)) \<and>
       py_eq (vget ev ''candidate_fingerprint'') (VStr fingerprint) \<and> valid_evidence_version (vget ev ''verification'')
   | _ \<Rightarrow> False)"

definition classify_mihomo_finalization ::
  "db_oracle \<Rightarrow> int \<Rightarrow> mihomo_identity \<Rightarrow> string \<Rightarrow> ('w, first_commit_outcome) db" where
  "classify_mihomo_finalization X job_id I fingerprint = tryE
     (bindE (db_probe X (\<lambda>d. get_job d job_id)) (\<lambda>found. case found of
        None \<Rightarrow> retE UNKNOWN
      | Some j \<Rightarrow> if \<not> mihomo_job j then retE UNKNOWN else
          bindE (liftE (mihomo_payload j)) (\<lambda>payload.
          if \<not> same_identity I payload then retE UNKNOWN
          else (let evidence = vget payload ''finalization_evidence'' in
            if jb_status j = JobSucceeded then
              (if evidence_matches I fingerprint (vget payload ''operation_kind'') evidence then
                 bindE (has_exact_unresolved_release_blocker (db_probe X) job_id I) (\<lambda>exact.
                 retE (if exact then LANDED else UNKNOWN))
               else retE UNKNOWN)
            else retE (if jb_status j = JobRunning \<and> evidence = VNone \<and> \<not> has_unknown_diagnostic j
              then ABSENT else UNKNOWN)))))
     (\<lambda>_. retE UNKNOWN)"

section \<open>Claiming and failing\<close>

definition mihomo_claimable :: "datetime \<Rightarrow> job \<Rightarrow> bool" where
  "mihomo_claimable now j \<longleftrightarrow> mihomo_job j \<and>
     (jb_status j = JobPending \<or> jb_status j = JobFailed \<or>
      (jb_status j = JobRunning \<and> (case jb_locked_at j of Some t \<Rightarrow> t < now - MIHOMO_STALE_AFTER | None \<Rightarrow> False) \<and>
       \<not> has_unknown_diagnostic j)) \<and>
     jb_available_at j \<le> now \<and> jb_attempts j < jb_max_attempts j"

definition claim_mihomo :: "db_oracle \<Rightarrow> datetime \<Rightarrow> ('w, job option) db" where
  "claim_mihomo X now =
     bindE (db_read X (\<lambda>d. first_by jb_id (filter (mihomo_claimable now) (db_jobs d)))) (\<lambda>found. case found of
       None \<Rightarrow> retE None
     | Some j \<Rightarrow>
         thenE (db_update (update_job (jb_id j) (mark_running now)))
         (thenE (db_commit X) (retE (Some (mark_running now j)))))"

record mihomo_reconciliation_result =
  mr_job_id :: int
  mr_applied :: bool
  mr_finalized :: bool
  mr_retryable :: bool
  mr_reason_code :: "string option"

definition failure_code :: "exn \<Rightarrow> string" where
  "failure_code error = (if is_reconciliation_error error \<or> is_apply_error error \<or> is_projection_error error
     then exn_str error else ''MIHOMO_RECONCILIATION_RUNTIME_FAILURE'')"

definition mihomo_failure :: "db_oracle \<Rightarrow> int \<Rightarrow> exn \<Rightarrow> datetime \<Rightarrow> ('w, mihomo_reconciliation_result) db" where
  "mihomo_failure X job_id error now =
     thenE (db_rollback X)
     (bindE (db_read X (\<lambda>d. get_job d job_id)) (\<lambda>found. case found of
        None \<Rightarrow> raiseE (mihomo_reconciliation_error ''MIHOMO_RECONCILIATION_JOB_MISSING'')
      | Some j \<Rightarrow>
          thenE (db_update (update_job job_id (fail_job (failure_code error) now)))
          (thenE (db_commit X)
          (retE \<lparr>mr_job_id = job_id, mr_applied = False, mr_finalized = False,
             mr_retryable = \<not> jb_max_attempts j \<le> jb_attempts j, mr_reason_code = Some (take 80 (failure_code error))\<rparr>))))"

definition landed_result :: "int \<Rightarrow> bool \<Rightarrow> mihomo_reconciliation_result" where
  "landed_result job_id applied = \<lparr>mr_job_id = job_id, mr_applied = applied, mr_finalized = True, mr_retryable = False,
     mr_reason_code = None\<rparr>"

definition unknown_result :: "int \<Rightarrow> bool \<Rightarrow> string \<Rightarrow> mihomo_reconciliation_result" where
  "unknown_result job_id applied diagnostic = \<lparr>mr_job_id = job_id, mr_applied = applied, mr_finalized = False,
     mr_retryable = False, mr_reason_code = Some diagnostic\<rparr>"

section \<open>Unknown outcomes\<close>

definition mark_durable_unknown :: "('p, unit) mdb" where
  "mark_durable_unknown = on_world (\<lambda>w. w\<lparr>mw_unknown := True\<rparr>)"

definition persist_unknown_blocker ::
  "db_oracle \<Rightarrow> int \<Rightarrow> string option \<Rightarrow> int option \<Rightarrow> string \<Rightarrow> bool \<Rightarrow> ('p, mihomo_reconciliation_result) mdb" where
  "persist_unknown_blocker X job_id operation revision diagnostic applied = attemptE
     (bindE (ensure_mihomo_blocker X MIHOMO_BLOCKER_KIND_FINALIZATION (Some job_id) operation revision diagnostic) (\<lambda>_.
      db_commit X))
     (\<lambda>_. thenE mark_durable_unknown (thenE (suppressE (db_rollback X)) (raiseE (mihomo_outcome_unknown diagnostic))))
     (\<lambda>_. retE (unknown_result job_id applied diagnostic))"

definition review_mihomo_job :: "string \<Rightarrow> datetime \<Rightarrow> job \<Rightarrow> job" where
  "review_mihomo_job diagnostic now j =
     j\<lparr>jb_status := JobRunning, jb_locked_at := Some now, jb_last_error_code := Some diagnostic\<rparr>"

text \<open>
  \<open>_mark_unknown_inner\<close>: a finalisation found landed is reported as such; a job that is still
  running without evidence or diagnostic gets the diagnostic; in every other case, and when asked
  to, a blocker is committed.
\<close>

definition mark_unknown_inner ::
  "db_oracle \<Rightarrow> int \<Rightarrow> mihomo_identity \<Rightarrow> string \<Rightarrow> string \<Rightarrow> bool \<Rightarrow> ('p, mihomo_reconciliation_result) mdb" where
  "mark_unknown_inner X job_id I fingerprint diagnostic persist_blocker =
     (let persist = persist_unknown_blocker X job_id (Some (mi_operation I)) (Some (mi_revision I)) diagnostic True in
     bindE (classify_mihomo_finalization X job_id I fingerprint) (\<lambda>outcome.
     if outcome = LANDED then retE (landed_result job_id True)
     else thenE (db_rollback X)
     (bindE (db_read X (\<lambda>d. get_job d job_id)) (\<lambda>found. case found of
        None \<Rightarrow> persist
      | Some current \<Rightarrow> (case mihomo_payload current of
          Inl _ \<Rightarrow> persist
        | Inr payload \<Rightarrow>
            (let exact_identity = (mihomo_job current \<and> same_identity I payload);
                 evidence = vget payload ''finalization_evidence'' in
            bindE (if jb_status current = JobSucceeded \<and> exact_identity \<and>
                      evidence_matches I fingerprint (VStr (mi_kind I)) evidence
                   then has_exact_unresolved_release_blocker (db_read X) job_id I else retE False) (\<lambda>landed.
            if landed then retE (landed_result job_id True)
            else if jb_status current \<noteq> JobRunning \<or> \<not> exact_identity \<or> evidence \<noteq> VNone \<or> has_unknown_diagnostic current
            then persist
            else bindE (db_now X) (\<lambda>now.
              thenE (db_update (update_job job_id (review_mihomo_job diagnostic now)))
              (if persist_blocker then persist
               else attemptE (db_commit X) (\<lambda>_. raiseE (mihomo_outcome_unknown diagnostic))
                 (\<lambda>_. retE (unknown_result job_id True diagnostic)))))))))))"

definition mark_unknown ::
  "db_oracle \<Rightarrow> int \<Rightarrow> mihomo_identity \<Rightarrow> string \<Rightarrow> string \<Rightarrow> bool \<Rightarrow> ('p, mihomo_reconciliation_result) mdb" where
  "mark_unknown X job_id I fingerprint diagnostic persist_blocker =
     tryE (mark_unknown_inner X job_id I fingerprint diagnostic persist_blocker)
       (\<lambda>exc. thenE mark_durable_unknown
          (raiseE (if is_outcome_unknown exc then exc else mihomo_outcome_unknown diagnostic)))"

definition unclaim :: "job \<Rightarrow> job" where
  "unclaim j = j\<lparr>jb_status := JobPending, jb_locked_at := None, jb_attempts := max (jb_attempts j - 1) 0\<rparr>"

definition reset_blocked_claim :: "db_oracle \<Rightarrow> int \<Rightarrow> ('w, unit) db" where
  "reset_blocked_claim X job_id =
     thenE (db_rollback X)
     (bindE (db_read X (\<lambda>d. get_job d job_id)) (\<lambda>found. case found of
        None \<Rightarrow> retE ()
      | Some j \<Rightarrow> if jb_status j = JobRunning
          then thenE (db_update (update_job job_id unclaim)) (db_commit X) else retE ()))"

section \<open>One attempt\<close>

definition finalization_evidence :: "mihomo_identity \<Rightarrow> string \<Rightarrow> string \<Rightarrow> pyval" where
  "finalization_evidence I fingerprint evidence_version = VMap
     [(''operation_id'', VStr (mi_operation I)), (''operation_kind'', VStr (mi_kind I)),
      (''snapshot_revision'', VInt (mi_revision I)), (''candidate_fingerprint'', VStr fingerprint),
      (''verification'', VStr evidence_version)]"

definition finish_mihomo_job :: "pyval dict \<Rightarrow> job \<Rightarrow> job" where
  "finish_mihomo_job payload j = j\<lparr>jb_payload := Some (VMap payload), jb_status := JobSucceeded, jb_locked_at := None,
     jb_last_error_code := None\<rparr>"

text \<open>
  The second commit: the evidence, the status and the release blocker together. The identifier of
  the row object is taken to be at hand; reloading an expired object after a rollback is a
  statement whose exception ends where one of the rollback itself does.
\<close>

definition finalize_mihomo_job ::
  "db_oracle \<Rightarrow> int \<Rightarrow> pyval dict \<Rightarrow> mihomo_identity \<Rightarrow> string \<Rightarrow> string \<Rightarrow> ('p, mihomo_reconciliation_result) mdb" where
  "finalize_mihomo_job X job_id payload I fingerprint evidence_version =
     thenE (db_update (update_job job_id (finish_mihomo_job
        (dict_set payload ''finalization_evidence'' (finalization_evidence I fingerprint evidence_version)))))
     (attemptE
       (bindE (ensure_mihomo_blocker X MIHOMO_BLOCKER_KIND_LOCK_RELEASE (Some job_id) (Some (mi_operation I))
          (Some (mi_revision I)) MIHOMO_LOCK_RELEASE_PENDING) (\<lambda>_. db_commit X))
       (\<lambda>commit_error.
          thenE (db_rollback X)
          (bindE (classify_mihomo_finalization X job_id I fingerprint) (\<lambda>outcome. case outcome of
             LANDED \<Rightarrow> retE (landed_result job_id True)
           | ABSENT \<Rightarrow> bindE (db_now X) (mihomo_failure X job_id commit_error)
           | UNKNOWN \<Rightarrow> mark_unknown X job_id I fingerprint MIHOMO_FINALIZATION_UNKNOWN False)))
       (\<lambda>_. retE (landed_result job_id True)))"

definition verification_accepted :: "projection_verification option \<Rightarrow> string option" where
  "verification_accepted verification = (case verification of
     None \<Rightarrow> None
   | Some v \<Rightarrow> if pv_verified v \<and> valid_evidence_version (VStr (pv_evidence_version v))
       then Some (pv_evidence_version v) else None)"

definition verify_and_finalize ::
  "db_oracle \<Rightarrow> 'p verifier \<Rightarrow> int \<Rightarrow> pyval dict \<Rightarrow> mihomo_identity \<Rightarrow> mihomo_candidate_config \<Rightarrow> ('p, mihomo_reconciliation_result) mdb" where
  "verify_and_finalize X V job_id payload I candidate =
     (let runtime_unknown = mark_unknown X job_id I (mc_version candidate) MIHOMO_RUNTIME_UNKNOWN in
     attemptE (provider_call (V candidate (mi_operation I) (mi_revision I)))
       (\<lambda>_. runtime_unknown False)
       (\<lambda>verification. case verification_accepted verification of
          None \<Rightarrow> runtime_unknown False
        | Some evidence_version \<Rightarrow> finalize_mihomo_job X job_id payload I (mc_version candidate) evidence_version))"

definition apply_and_finalize ::
  "db_oracle \<Rightarrow> 'p mihomo_parts \<Rightarrow> 'p verifier \<Rightarrow> int \<Rightarrow> pyval dict \<Rightarrow> mihomo_identity \<Rightarrow> mihomo_candidate_config \<Rightarrow>
   ('p, mihomo_reconciliation_result) mdb" where
  "apply_and_finalize X P V job_id payload I candidate = attemptE (provider_apply P candidate)
     (\<lambda>exc. if is_rollback_unknown exc then mark_unknown X job_id I (mc_version candidate) MIHOMO_ROLLBACK_UNKNOWN False
            else if is_apply_error exc then bindE (db_now X) (mihomo_failure X job_id exc)
            else raiseE exc)
     (\<lambda>applied. if \<not> ar_applied applied then mark_unknown X job_id I (mc_version candidate) MIHOMO_RUNTIME_UNKNOWN True
            else verify_and_finalize X V job_id payload I candidate)"

definition set_release_metadata :: "int \<Rightarrow> string option \<Rightarrow> int option \<Rightarrow> ('p, unit) mdb" where
  "set_release_metadata job_id operation revision = on_world (\<lambda>w. w\<lparr>mw_release :=
     Some \<lparr>md_source_job = job_id, md_operation = operation, md_revision = revision\<rparr>\<rparr>)"

text \<open>An attempt on a claimed job; a payload without a valid identity is left to a blocker.\<close>

definition attempt_mihomo_job ::
  "db_oracle \<Rightarrow> 'p mihomo_parts \<Rightarrow> 'p verifier \<Rightarrow> job \<Rightarrow> ('p, mihomo_reconciliation_result) mdb" where
  "attempt_mihomo_job X P V j = (case bindS (mihomo_payload j) (\<lambda>p. bindS (payload_identity p) (\<lambda>I. Inr (p, I))) of
     Inl _ \<Rightarrow> persist_unknown_blocker X (jb_id j) None None MIHOMO_FINALIZATION_UNKNOWN False
   | Inr (payload, I) \<Rightarrow>
       thenE (set_release_metadata (jb_id j) (Some (mi_operation I)) (Some (mi_revision I)))
       (bindE (mp_load P j) (\<lambda>desired.
        if ds_snapshot_revision desired \<noteq> mi_revision I
        then raiseE (mihomo_reconciliation_error ''MIHOMO_STALE_DESIRED_SNAPSHOT'')
        else bindE (provider_call (mp_render P desired)) (\<lambda>template.
        bindE (mp_finalize P template) (\<lambda>candidate.
        apply_and_finalize X P V (jb_id j) payload I candidate)))))"

definition reconcile_claimed_mihomo ::
  "db_oracle \<Rightarrow> 'p mihomo_parts \<Rightarrow> 'p verifier \<Rightarrow> job \<Rightarrow> ('p, mihomo_reconciliation_result) mdb" where
  "reconcile_claimed_mihomo X P V j =
     thenE (set_release_metadata (jb_id j) None None)
     (tryE (attempt_mihomo_job X P V j)
       (\<lambda>exc. if is_outcome_unknown exc then raiseE exc
          else bindE (db_now X) (mihomo_failure X (jb_id j) exc)))"

section \<open>The worker\<close>

definition fresh_mihomo_session :: "('p, unit) mdb" where
  "fresh_mihomo_session = modifyE (\<lambda>s. s\<lparr>se_work := se_store s,
     se_world := (se_world s)\<lparr>mw_held := False, mw_release := None, mw_unknown := False\<rparr>\<rparr>)"

definition reconcile_mihomo_job ::
  "db_oracle \<Rightarrow> lock_oracle \<Rightarrow> 'p mihomo_parts \<Rightarrow> 'p verifier option \<Rightarrow> ('p, mihomo_reconciliation_result option) mdb" where
  "reconcile_mihomo_job X L P verifier =
     thenE fresh_mihomo_session
     (mihomo_projection_write X L (case verifier of
        None \<Rightarrow> raiseE (mihomo_reconciliation_error ''MIHOMO_VERIFIER_NOT_CONFIGURED'')
      | Some V \<Rightarrow>
          bindE (db_now X) (\<lambda>now.
          bindE (claim_mihomo X now) (\<lambda>claimed. case claimed of
            None \<Rightarrow> retE None
          | Some j \<Rightarrow> attemptE (assert_no_unresolved_mihomo_mutation X (Some (jb_id j)))
              (\<lambda>exc. if is_blocked exc then thenE (reset_blocked_claim X (jb_id j)) (retE None) else raiseE exc)
              (\<lambda>_. bindE (reconcile_claimed_mihomo X P V j) (\<lambda>r. retE (Some r)))))))"

end
