(* ===== verification/Session_Logic.thy ===== *)
theory Session_Logic
  imports Platform_Database
begin

text \<open>
  Verification conditions for code on a session: the weakest preconditions as introduction rules
  that hold for every oracle. A statement may raise, a commit may raise with or without effect.
  \<open>intro vcg\<close> reduces a program to conditions on its paths.
\<close>

named_theorems vcg \<open>verification conditions of effectful code\<close>

lemma vcg_ret [vcg]:
  "Q x s \<Longrightarrow> wpE (retE x) Q E s"
  by (auto simp: wp split: sum.splits)

lemma vcg_raise [vcg]:
  "E e s \<Longrightarrow> wpE (raiseE e) Q E s"
  by (auto simp: wp split: sum.splits)

lemma vcg_lift [vcg]:
  "(\<And>e. r = Inl e \<Longrightarrow> E e s) \<Longrightarrow> (\<And>x. r = Inr x \<Longrightarrow> Q x s) \<Longrightarrow> wpE (liftE r) Q E s"
  by (auto simp: wp split: sum.splits)

lemma vcg_gets [vcg]:
  "Q (g s) s \<Longrightarrow> wpE (getsE g) Q E s"
  by (auto simp: wp split: sum.splits)

lemma vcg_modify [vcg]:
  "R (f s) \<Longrightarrow> wpE (modifyE f) (\<lambda>_. R) E s"
  by (auto simp: wp split: sum.splits)

lemma vcg_bind [vcg]:
  "wpE m (\<lambda>x. wpE (k x) Q E) E s \<Longrightarrow> wpE (bindE m k) Q E s"
  by (auto simp: wp split: sum.splits)

lemma vcg_then [vcg]:
  "wpE m (\<lambda>_. wpE n Q E) E s \<Longrightarrow> wpE (thenE m n) Q E s"
  by (auto simp: wp split: sum.splits)

lemma vcg_attempt [vcg]:
  "wpE m (\<lambda>x. wpE (k x) Q E) (\<lambda>e. wpE (h e) Q E) s \<Longrightarrow> wpE (attemptE m h k) Q E s"
  by (auto simp: wp split: sum.splits)

lemma vcg_try [vcg]:
  "wpE m Q (\<lambda>e. wpE (h e) Q E) s \<Longrightarrow> wpE (tryE m h) Q E s"
  by (auto simp: wp split: sum.splits)

lemma vcg_suppress [vcg]:
  "wpE p (\<lambda>_. R) (\<lambda>_. R) s \<Longrightarrow> wpE (suppressE p) (\<lambda>_. R) E s"
  by (auto simp: wp split: sum.splits)

lemma vcg_if [vcg]:
  "(b \<Longrightarrow> wpE m Q E s) \<Longrightarrow> (\<not> b \<Longrightarrow> wpE n Q E s) \<Longrightarrow> wpE (if b then m else n) Q E s"
  by (auto split: option.splits)

lemma vcg_option [vcg]:
  "(x = None \<Longrightarrow> wpE m Q E s) \<Longrightarrow> (\<And>y. x = Some y \<Longrightarrow> wpE (f y) Q E s) \<Longrightarrow> wpE (case x of None \<Rightarrow> m | Some y \<Rightarrow> f y) Q E s"
  by (auto split: option.splits)

lemma vcg_now [vcg]:
  "(\<And>n. Q n (ticked s)) \<Longrightarrow> wpE (db_now X) Q E s"
  by (auto simp: wp split: option.splits prod.splits)

lemma vcg_read [vcg]:
  "(\<And>e. E e (ticked s)) \<Longrightarrow> Q (g (se_work s)) (ticked s) \<Longrightarrow> wpE (db_read X g) Q E s"
  by (auto simp: wp split: option.splits prod.splits)

lemma vcg_probe [vcg]:
  "(\<And>e. E e (ticked s)) \<Longrightarrow> Q (g (se_store s)) (ticked s) \<Longrightarrow> wpE (db_probe X g) Q E s"
  by (auto simp: wp split: option.splits prod.splits)

lemma vcg_update [vcg]:
  "R (s\<lparr>se_work := f (se_work s)\<rparr>) \<Longrightarrow> wpE (db_update f) (\<lambda>_. R) E s"
  by (auto simp: wp split: option.splits prod.splits)

lemma vcg_flush [vcg]:
  "(\<And>e. E e (ticked s)) \<Longrightarrow> (constraints_hold (se_work s) \<Longrightarrow> R (ticked s)) \<Longrightarrow> wpE (db_flush X) (\<lambda>_. R) E s"
  by (auto simp: wp split: option.splits prod.splits)

lemma vcg_commit [vcg]:
  "(\<And>e. E e (ticked s)) \<Longrightarrow> (\<And>e. constraints_hold (se_work s) \<Longrightarrow> E e ((ticked s)\<lparr>se_store := se_work s\<rparr>)) \<Longrightarrow>
     (constraints_hold (se_work s) \<Longrightarrow> R ((ticked s)\<lparr>se_store := se_work s\<rparr>)) \<Longrightarrow> wpE (db_commit X) (\<lambda>_. R) E s"
  by (auto simp: wp split: option.splits prod.splits)

lemma vcg_rollback [vcg]:
  "(\<And>e. E e (ticked s)) \<Longrightarrow> R ((ticked s)\<lparr>se_work := se_store s\<rparr>) \<Longrightarrow> wpE (db_rollback X) (\<lambda>_. R) E s"
  by (auto simp: wp split: option.splits prod.splits)

lemma vcg_nested [vcg]:
  "wpE m Q (\<lambda>e t. E e (t\<lparr>se_work := se_work s\<rparr>)) s \<Longrightarrow> wpE (db_nested m) Q E s"
  by (simp add: wp)

end
