(* ===== verification/Gateway_Properties.thy ===== *)
theory Gateway_Properties
  imports Gateway_Reconciliation Session_Logic
begin

text \<open>
  The durable reconciliation is all-or-nothing: whatever statement, commit or provider call
  fails, a job is SUCCEEDED in the database only together with the activation it stands for, and
  a job that is not finalised keeps every later route writer blocked.
\<close>

section \<open>Row updates\<close>

lemma get_update_job:
  assumes "\<And>j. jb_id (f j) = jb_id j"
  shows "get_job (update_job i f d) k = (if k = i then map_option f (get_job d i) else get_job d k)"
  using tbl_get_Some [of jb_id "db_jobs d" i]
  by (auto simp: update_job_def tbl_get_put assms split: option.splits)

lemma job_edits_id [simp]:
  "jb_id (fail_job reason now j) = jb_id j" "jb_id (fail_run reason j) = jb_id j" "jb_id (finish_job j) = jb_id j"
  "jb_id (finish_run j) = jb_id j" "jb_id (mark_running now j) = jb_id j"
  by (simp_all add: fail_job_def fail_run_def finish_job_def finish_run_def mark_running_def)

lemma job_edits_type [simp]:
  "jb_job_type (fail_job reason now j) = jb_job_type j" "jb_job_type (fail_run reason j) = jb_job_type j"
  "jb_job_type (finish_job j) = jb_job_type j" "jb_job_type (finish_run j) = jb_job_type j"
  "jb_job_type (mark_running now j) = jb_job_type j"
  by (simp_all add: fail_job_def fail_run_def finish_job_def finish_run_def mark_running_def)

lemma job_edits_status [simp]:
  "jb_status (fail_job reason now j) = JobFailed" "jb_status (fail_run reason j) = JobFailed"
  "jb_status (finish_job j) = JobSucceeded" "jb_status (finish_run j) = JobSucceeded"
  "jb_status (mark_running now j) = JobRunning"
  by (simp_all add: fail_job_def fail_run_def finish_job_def finish_run_def mark_running_def)

lemma get_update_subscription:
  assumes "\<And>r. sb_id (f r) = sb_id r"
  shows "get_subscription (update_subscription i f d) k = (if k = i then map_option f (get_subscription d i) else get_subscription d k)"
  using tbl_get_Some [of sb_id "db_subscriptions d" i]
  by (auto simp: update_subscription_def tbl_get_put assms split: option.splits)

lemma get_update_order:
  assumes "\<And>r. od_id (f r) = od_id r"
  shows "get_order (update_order i f d) k = (if k = i then map_option f (get_order d i) else get_order d k)"
  using tbl_get_Some [of od_id "db_orders d" i]
  by (auto simp: update_order_def tbl_get_put assms split: option.splits)

lemma update_frames [simp]:
  "db_jobs (update_subscription i f d) = db_jobs d" "db_jobs (update_order i g d) = db_jobs d" "db_jobs (add_audit a d) = db_jobs d"
  "db_subscriptions (update_job i h d) = db_subscriptions d" "db_subscriptions (update_order i g d) = db_subscriptions d"
  "db_subscriptions (add_audit a d) = db_subscriptions d"
  "db_orders (update_job i h d) = db_orders d" "db_orders (update_subscription i f d) = db_orders d" "db_orders (add_audit a d) = db_orders d"
  by (simp_all add: update_subscription_def update_order_def update_job_def add_audit_def split: option.splits)

section \<open>All or nothing\<close>

text \<open>What a finalised job stands for.\<close>

definition job_status_of :: "database \<Rightarrow> int \<Rightarrow> job_status option" where
  "job_status_of d i = map_option jb_status (get_job d i)"

definition activated :: "pyval dict \<Rightarrow> database \<Rightarrow> bool" where
  "activated payload d \<longleftrightarrow> (vget payload ''operation_kind'' = VStr ''PURCHASE'' \<longrightarrow>
     (\<exists>sub oid. as_int (vget payload ''subscription_id'') = Some sub \<and> as_int (vget payload ''order_id'') = Some oid \<and>
        map_option sb_status (get_subscription d sub) = Some SubActive \<and>
        map_option od_status (get_order d oid) = Some OrderActivated))"

text \<open>The two states a job may be left in.\<close>

definition finalised :: "pyval dict \<Rightarrow> int \<Rightarrow> database \<Rightarrow> bool" where
  "finalised payload i d \<longleftrightarrow> job_status_of d i = Some JobSucceeded \<and> activated payload d"

definition unresolved :: "int \<Rightarrow> database \<Rightarrow> bool" where
  "unresolved i d \<longleftrightarrow> (case get_job d i of Some j \<Rightarrow> gateway_job j \<and> jb_status j \<noteq> JobSucceeded | None \<Rightarrow> False)"

definition job_present :: "int \<Rightarrow> database \<Rightarrow> bool" where
  "job_present i d \<longleftrightarrow> (case get_job d i of Some j \<Rightarrow> gateway_job j | None \<Rightarrow> False)"

definition settled :: "pyval dict \<Rightarrow> int \<Rightarrow> database \<Rightarrow> bool" where
  "settled payload i d \<longleftrightarrow> job_present i d \<and> (unresolved i d \<or> finalised payload i d)"

lemma settled_unresolved: "unresolved i d \<Longrightarrow> settled payload i d"
  by (auto simp: settled_def unresolved_def job_present_def split: option.splits)

lemma unresolved_frames [simp]:
  "unresolved i (update_subscription k f d) = unresolved i d" "unresolved i (add_audit a d) = unresolved i d"
  by (simp_all add: unresolved_def)

lemma unresolved_fail:
  "job_present i d \<Longrightarrow> unresolved i (update_job i (fail_job reason now) d)"
  by (auto simp: unresolved_def job_present_def get_update_job gateway_job_def split: option.splits)

lemma unresolved_fail_run: "unresolved i d \<Longrightarrow> unresolved i (update_job r (fail_run reason) d)"
  by (auto simp: unresolved_def get_update_job gateway_job_def split: option.splits)

lemma unresolved_review:
  "job_present i d \<Longrightarrow> unresolved i (update_job i (review_job now) d)"
  by (auto simp: review_job_def unresolved_def job_present_def get_update_job gateway_job_def split: option.splits)

lemma finalised_finish_run: "finalised payload i d \<Longrightarrow> finalised payload i (update_job r finish_run d)"
  by (auto simp: finalised_def job_status_of_def activated_def get_update_job)

text \<open>
  The failure path, from any state whose committed job is there: it ends with the job unresolved,
  or raises and leaves the committed job as it was or unresolved.
\<close>

definition kept :: "int \<Rightarrow> database \<Rightarrow> database \<Rightarrow> bool" where
  "kept i d d' \<longleftrightarrow> d' = d \<or> unresolved i d'"

lemma record_failure_kept:
  assumes "job_present i (se_store s)"
  shows "wpE (record_failure X i exc now)
    (\<lambda>r t. \<not> gr_finalized r \<and> gr_job_id r = i \<and> unresolved i (se_store t)) (\<lambda>_ t. kept i (se_store s) (se_store t)) s"
  unfolding record_failure_def Let_def
  by (intro vcg) (use assms in \<open>simp_all add: kept_def unresolved_fail unresolved_fail_run\<close>)

lemma mark_unknown_kept:
  assumes "job_present i (se_store s)"
  shows "wpE (mark_finalization_unknown X i payload now)
    (\<lambda>r t. \<not> gr_finalized r \<and> gr_job_id r = i \<and> unresolved i (se_store t)) (\<lambda>_ t. kept i (se_store s) (se_store t)) s"
  unfolding mark_finalization_unknown_def
  by (intro vcg) (use assms in \<open>simp_all add: kept_def unresolved_review\<close>)

text \<open>A commit that is classified as landed is there in full.\<close>

lemma purchase_outcome_LANDED:
  "purchase_outcome a b c e = LANDED \<longleftrightarrow> a = Some JobSucceeded \<and> b = Some SubActive \<and> c = Some OrderActivated \<and> e = Some JobSucceeded"
  by (auto simp: purchase_outcome_def)

lemma classify_landed:
  assumes "as_int (vget payload ''subscription_id'') = Some sub" and "oid = as_int (vget payload ''order_id'')"
  shows "wpE (classify_finalization_outcome X i sub oid run (text_of (vget payload ''operation_kind'')))
    (\<lambda>outcome t. (outcome = LANDED \<longrightarrow> finalised payload i (se_store s)) \<and> se_store t = se_store s)
    (\<lambda>_ t. se_store t = se_store s) s"
  unfolding classify_finalization_outcome_def probing_def
  by (intro vcg)
    (use assms in \<open>auto simp: purchase_outcome_LANDED finalised_def job_status_of_def activated_def text_of_def
       split: pyval.splits option.splits if_splits\<close>)

text \<open>What an attempt leaves behind, as a pair of postconditions.\<close>

definition attempt_returns :: "pyval dict \<Rightarrow> int \<Rightarrow> gateway_reconciliation_result \<Rightarrow> 'w session \<Rightarrow> bool" where
  "attempt_returns payload i r t \<longleftrightarrow> gr_job_id r = i \<and>
     (if gr_finalized r then finalised payload i (se_store t) else unresolved i (se_store t))"

definition attempt_raises :: "pyval dict \<Rightarrow> int \<Rightarrow> 'w session \<Rightarrow> bool" where
  "attempt_raises payload i t \<longleftrightarrow> settled payload i (se_store t)"

lemma kept_settled: "kept i d d' \<Longrightarrow> settled payload i d \<Longrightarrow> settled payload i d'"
  by (auto simp: kept_def settled_unresolved)

lemma settled_present: "settled payload i d \<Longrightarrow> job_present i d"
  by (simp add: settled_def)

lemma record_failure_settles:
  assumes "settled payload i (se_store t)"
  shows "wpE (record_failure X i exc now) (attempt_returns payload i) (\<lambda>_. attempt_raises payload i) t"
  using record_failure_kept [OF settled_present [OF assms], of X exc now]
  by (rule wp_mono) (auto simp: attempt_returns_def attempt_raises_def kept_settled [OF _ assms])

lemma commit_finalization_settles:
  assumes "finalised payload i (se_work s)" and "job_present i (se_work s)" and "settled payload i (se_store s)"
    and "finalization_values payload = Inr values"
  shows "wpE (commit_finalization X i payload values) (attempt_returns payload i) (\<lambda>_. attempt_raises payload i) s"
proof -
  obtain sub oid run where v: "values = (sub, oid, run)" by (cases "values")
  have ids: "as_int (vget payload ''subscription_id'') = Some sub" "oid = as_int (vget payload ''order_id'')"
    using assms(4) v by (auto simp: finalization_values_def checks split: option.splits)
  have landed: "settled payload i (se_work s)" using assms(1,2) by (simp add: settled_def)
  have unknown: "wpE (mark_finalization_unknown X i payload now) (attempt_returns payload i) (\<lambda>_. attempt_raises payload i) t"
    if "settled payload i (se_store t)" for now t
    using mark_unknown_kept [OF settled_present [OF that], of X payload now]
    by (rule wp_mono) (auto simp: attempt_returns_def attempt_raises_def kept_settled [OF _ that])
  have classify: "wpE (bindE (classify_finalization_outcome X i sub oid run (text_of (vget payload ''operation_kind''))) (\<lambda>outcome.
          case outcome of
            LANDED \<Rightarrow> thenE (suppressE (db_rollback X)) (retE (reconciled i))
          | ABSENT \<Rightarrow> bindE (db_now X) (record_failure X i exc)
          | UNKNOWN \<Rightarrow> bindE (db_now X) (mark_finalization_unknown X i payload)))
      (attempt_returns payload i) (\<lambda>_. attempt_raises payload i) t"
    if "settled payload i (se_store t)" for exc t
    by (rule vcg_bind, rule wp_mono [OF classify_landed [OF ids]])
      (auto simp: attempt_raises_def attempt_returns_def reconciled_def that wp intro!: record_failure_settles unknown
        split: first_commit_outcome.splits option.splits)
  show ?thesis
    unfolding commit_finalization_def v prod.case
    by (intro vcg classify) (use assms landed in \<open>auto simp: attempt_returns_def reconciled_def\<close>)
qed

lemma job_present_frames [simp]:
  "job_present i (update_subscription k f d) = job_present i d" "job_present i (update_order k g d) = job_present i d"
  "job_present i (add_audit a d) = job_present i d"
  by (simp_all add: job_present_def)

lemma job_present_finish:
  "job_present i d \<Longrightarrow> job_present i (update_job k finish_job d)" "job_present i d \<Longrightarrow> job_present i (update_job k finish_run d)"
  by (auto simp: job_present_def get_update_job gateway_job_def split: option.splits)

lemma finalised_audit [simp]: "finalised payload i (add_audit a d) = finalised payload i d"
  by (simp add: finalised_def job_status_of_def activated_def)

lemma finalised_finish:
  "job_present i d \<Longrightarrow> activated payload d \<Longrightarrow> finalised payload i (update_job i finish_job d)"
  by (auto simp: finalised_def job_status_of_def activated_def job_present_def get_update_job split: option.splits)

lemma finalize_purchase_activates:
  assumes "as_int (vget payload ''subscription_id'') = Some sub" and "get_subscription (se_work s) sub = Some row"
    and "job_present i (se_work s)"
  shows "wpE (finalize_purchase X payload sub)
    (\<lambda>_ t. activated payload (se_work t) \<and> job_present i (se_work t) \<and> se_store t = se_store s \<and> se_world t = se_world s)
    (\<lambda>_ t. se_store t = se_store s \<and> se_world t = se_world s) s"
  unfolding finalize_purchase_def
  by (intro vcg)
    (use assms in \<open>auto simp: activated_def get_update_order get_update_subscription activate_order_def
       split: option.splits\<close>)

lemma finalize_finalises:
  assumes "job_present i (se_work s)"
  shows "wpE (finalize X i payload)
    (\<lambda>_ t. finalised payload i (se_work t) \<and> job_present i (se_work t) \<and> se_store t = se_store s \<and> se_world t = se_world s)
    (\<lambda>_ t. se_store t = se_store s \<and> se_world t = se_world s) s"
proof -
  have purchase: "wpE (finalize_purchase X payload sub)
      (\<lambda>_. wpE k Q (\<lambda>_ t. se_store t = se_store s \<and> se_world t = se_world s)) (\<lambda>_ t. se_store t = se_store s \<and> se_world t = se_world s) (ticked s)"
    if "as_int (vget payload ''subscription_id'') = Some sub" "get_subscription (se_work s) sub = Some row"
      and "\<And>t. activated payload (se_work t) \<Longrightarrow> job_present i (se_work t) \<Longrightarrow> se_store t = se_store s \<Longrightarrow> se_world t = se_world s \<Longrightarrow>
        wpE k Q (\<lambda>_ t. se_store t = se_store s \<and> se_world t = se_world s) t" for sub row k Q
    by (rule wp_mono [OF finalize_purchase_activates [of payload sub "ticked s" row i X]]) (use that assms in auto)
  show ?thesis
    unfolding finalize_def
    by (intro vcg purchase) (auto simp: assms finalised_finish finalised_finish_run job_present_finish)
qed

text \<open>Rendering and applying change nothing but the gateway; an application is recorded.\<close>

definition gateway_only :: "'g world session \<Rightarrow> 'g world session \<Rightarrow> bool" where
  "gateway_only s t \<longleftrightarrow> se_work t = se_work s \<and> se_store t = se_store s \<and> se_lock_held t = se_lock_held s \<and>
     w_locked (se_world t) = w_locked (se_world s) \<and> w_pool (se_world t) = w_pool (se_world s) \<and>
     (w_applied (se_world t) = w_applied (se_world s) \<or>
      w_applied (se_world t) = w_applied (se_world s) @ [(w_locked (se_world s), se_store s)])"

lemma vcg_gateway_call [vcg]:
  "(\<And>e g. E e (s\<lparr>se_world := (se_world s)\<lparr>w_gateway := g\<rparr>\<rparr>)) \<Longrightarrow>
   (\<And>x g. Q x (s\<lparr>se_world := (se_world s)\<lparr>w_gateway := g\<rparr>\<rparr>)) \<Longrightarrow> wpE (gateway_call f) Q E s"
  by (auto simp: wp split: prod.splits sum.splits)

lemma apply_desired_state_frame:
  "wpE (apply_desired_state X G) (\<lambda>_. gateway_only s) (\<lambda>_. gateway_only s) s"
  unfolding apply_desired_state_def full_desired_routing_snapshot_def gateway_apply_def
  by (intro vcg) (simp_all add: gateway_only_def ticked_def)

lemma reconcile_claimed_settles:
  assumes "job_present (jb_id j) (se_work s)" and "settled payload (jb_id j) (se_store s)" and "job_payload j = Inr payload"
  shows "wpE (reconcile_claimed_job X G j) (attempt_returns payload (jb_id j)) (\<lambda>_. attempt_raises payload (jb_id j)) s"
proof -
  let ?i = "jb_id j"
  let ?E = "\<lambda>exc. wpE (attempt_failed X ?i exc) (attempt_returns payload ?i) (\<lambda>_. attempt_raises payload ?i)"
  have handled: "?E exc t" if "settled payload ?i (se_store t)" for exc t
    using that by (auto simp: attempt_failed_def wp attempt_raises_def intro!: record_failure_settles)
  have commit: "wpE (bindE (liftE (finalization_values payload)) (commit_finalization X ?i payload)) (attempt_returns payload ?i) ?E t"
    if "finalised payload ?i (se_work t)" "job_present ?i (se_work t)" "settled payload ?i (se_store t)" for t
  proof (rule vcg_bind, rule vcg_lift)
    show "?E exc t" for exc by (rule handled [OF that(3)])
    fix v assume v: "finalization_values payload = Inr v"
    show "wpE (commit_finalization X ?i payload v) (attempt_returns payload ?i) ?E t"
      by (rule wp_mono [OF commit_finalization_settles [OF that v]]) (auto simp: attempt_raises_def intro: handled)
  qed
  have finish: "wpE (thenE (finalize X ?i payload) (bindE (liftE (finalization_values payload)) (commit_finalization X ?i payload)))
      (attempt_returns payload ?i) ?E t"
    if "job_present ?i (se_work t)" "settled payload ?i (se_store t)" for t
    by (rule vcg_then, rule wp_mono [OF finalize_finalises [OF that(1)]]) (use that in \<open>auto intro: commit handled\<close>)
  have "wpE (tryE (thenE (apply_desired_state X G) (thenE (finalize X ?i payload)
       (bindE (liftE (finalization_values payload)) (commit_finalization X ?i payload)))) (attempt_failed X ?i))
      (attempt_returns payload ?i) (\<lambda>_. attempt_raises payload ?i) s"
  proof (rule vcg_try, rule vcg_then, rule wp_mono [OF apply_desired_state_frame])
    fix t assume "gateway_only s t"
    then have t: "job_present ?i (se_work t)" "settled payload ?i (se_store t)" using assms by (simp_all add: gateway_only_def)
    then show "wpE (thenE (finalize X ?i payload) (bindE (liftE (finalization_values payload)) (commit_finalization X ?i payload)))
      (attempt_returns payload ?i) ?E t" by (rule finish)
    show "?E exc t" for exc by (rule handled [OF t(2)])
  qed
  then show ?thesis by (simp add: reconcile_claimed_job_def assms(3) wp_bind wp_lift)
qed

section \<open>The gateway changes only under the lock and after the first commit\<close>

lemma bookkeeping_keeps_world:
  "wpE (record_failure X i exc now) (\<lambda>_ t. se_world t = se_world s) (\<lambda>_ t. se_world t = se_world s) s"
  "wpE (mark_finalization_unknown X i payload now) (\<lambda>_ t. se_world t = se_world s) (\<lambda>_ t. se_world t = se_world s) s"
  "wpE (finalize X i payload) (\<lambda>_ t. se_world t = se_world s) (\<lambda>_ t. se_world t = se_world s) s"
  "wpE (classify_finalization_outcome X i sub oid run kind) (\<lambda>_ t. se_world t = se_world s) (\<lambda>_ t. se_world t = se_world s) s"
  unfolding record_failure_def Let_def mark_finalization_unknown_def finalize_def finalize_purchase_def
    classify_finalization_outcome_def probing_def
  by (intro vcg, simp_all)+

text \<open>A block that keeps the world, in the middle of other code.\<close>

lemma keeps_world_then:
  assumes "wpE m (\<lambda>_ t. se_world t = se_world s) (\<lambda>_ t. se_world t = se_world s) s"
    and "\<And>x t. se_world t = se_world s \<Longrightarrow> Q x t" and "\<And>e t. se_world t = se_world s \<Longrightarrow> E e t"
  shows "wpE m Q E s"
  using assms(1) by (rule wp_mono) (simp_all add: assms(2,3))

lemma vcg_outcome:
  "(x = LANDED \<Longrightarrow> wpE m Q E s) \<Longrightarrow> (x = ABSENT \<Longrightarrow> wpE n Q E s) \<Longrightarrow> (x = UNKNOWN \<Longrightarrow> wpE p Q E s) \<Longrightarrow>
   wpE (case x of LANDED \<Rightarrow> m | ABSENT \<Rightarrow> n | UNKNOWN \<Rightarrow> p) Q E s"
  by (cases x) auto

lemma commit_finalization_keeps_world:
  "wpE (commit_finalization X i payload values) (\<lambda>_ t. se_world t = se_world s) (\<lambda>_ t. se_world t = se_world s) s"
proof -
  obtain sub oid run where v: "values = (sub, oid, run)" by (cases "values")
  show ?thesis
    unfolding commit_finalization_def v prod.case
    by (intro vcg vcg_outcome keeps_world_then [OF bookkeeping_keeps_world(4)]
        keeps_world_then [OF bookkeeping_keeps_world(1)] keeps_world_then [OF bookkeeping_keeps_world(2)]) simp_all
qed

text \<open>How the world may change in one attempt that starts with the given committed data.\<close>

definition one_apply :: "'g world \<Rightarrow> database \<Rightarrow> 'g world \<Rightarrow> bool" where
  "one_apply w d w' \<longleftrightarrow> w_locked w' = w_locked w \<and> w_pool w' = w_pool w \<and>
     (w_applied w' = w_applied w \<or> w_applied w' = w_applied w @ [(w_locked w, d)])"

lemma gateway_only_apply: "gateway_only s t \<Longrightarrow> one_apply (se_world s) (se_store s) (se_world t)"
  by (simp add: gateway_only_def one_apply_def)

lemma reconcile_claimed_world:
  fixes s :: "'g world session"
  shows "wpE (reconcile_claimed_job X G j) (\<lambda>_ t. one_apply (se_world s) (se_store s) (se_world t))
     (\<lambda>_ t. one_apply (se_world s) (se_store s) (se_world t)) s"
proof -
  let ?P = "\<lambda>t. one_apply (se_world s) (se_store s) (se_world t)"
  have failed: "wpE (attempt_failed X i exc) (\<lambda>_. ?P) (\<lambda>_. ?P) t" if "?P t" for i exc t
    unfolding attempt_failed_def
    by (intro vcg keeps_world_then [OF bookkeeping_keeps_world(1)]) (use that in simp_all)
  have rest: "wpE (thenE (finalize X (jb_id j) payload) (bindE (liftE (finalization_values payload)) (commit_finalization X (jb_id j) payload)))
      (\<lambda>_. ?P) (\<lambda>exc. wpE (attempt_failed X (jb_id j) exc) (\<lambda>_. ?P) (\<lambda>_. ?P)) t" if "?P t" for payload t
  proof (rule vcg_then, rule keeps_world_then [OF bookkeeping_keeps_world(3)])
    fix t' :: "'g world session" assume t': "se_world t' = se_world t"
    then show "wpE (attempt_failed X (jb_id j) exc) (\<lambda>_. ?P) (\<lambda>_. ?P) t'" for exc using that by (intro failed) simp
    show "wpE (bindE (liftE (finalization_values payload)) (commit_finalization X (jb_id j) payload)) (\<lambda>_. ?P)
        (\<lambda>exc. wpE (attempt_failed X (jb_id j) exc) (\<lambda>_. ?P) (\<lambda>_. ?P)) t'"
      by (rule vcg_bind, rule vcg_lift, rule failed)
        (use t' that in \<open>auto intro!: keeps_world_then [OF commit_finalization_keeps_world] failed\<close>)
  qed
  show ?thesis
    unfolding reconcile_claimed_job_def
  proof (rule vcg_bind, rule vcg_lift)
    show "?P s" by (simp add: one_apply_def)
    fix payload
    show "wpE (tryE (thenE (apply_desired_state X G) (thenE (finalize X (jb_id j) payload)
        (bindE (liftE (finalization_values payload)) (\<lambda>values. commit_finalization X (jb_id j) payload values))))
        (attempt_failed X (jb_id j))) (\<lambda>_. ?P) (\<lambda>_. ?P) s"
      by (rule vcg_try, rule vcg_then, rule wp_mono [OF apply_desired_state_frame])
        (auto intro!: rest failed gateway_only_apply)
  qed
qed

text \<open>A claim commits the job as running.\<close>

lemma get_job_mem: "j \<in> set (db_jobs d) \<Longrightarrow> distinct (map jb_id (db_jobs d)) \<Longrightarrow> get_job d (jb_id j) = Some j"
  by (simp add: tbl_get_mem)

lemma claim_claims:
  assumes "distinct (map jb_id (db_jobs (se_work s)))"
  shows "wpE (claim_job X now)
    (\<lambda>c t. se_world t = se_world s \<and> (case c of
        None \<Rightarrow> se_store t = se_store s
      | Some j' \<Rightarrow> se_store t = se_work t \<and> get_job (se_work t) (jb_id j') = Some j' \<and>
          (\<exists>j\<in>set (db_jobs (se_work s)). claimable now j \<and> j' = mark_running now j)))
    (\<lambda>_ t. se_world t = se_world s) s"
  unfolding claim_job_def
  by (intro vcg) (use assms in \<open>auto simp: get_update_job get_job_mem dest!: first_by_filter\<close>)

text \<open>The worker's block under the lock.\<close>

definition locked_attempt :: "db_oracle \<Rightarrow> 'g gateway \<Rightarrow> ('g, gateway_reconciliation_result option) gdb" where
  "locked_attempt X G = bindE (db_now X) (\<lambda>now.
     bindE (claim_job X now) (\<lambda>claimed. case claimed of
       None \<Rightarrow> retE None
     | Some j \<Rightarrow> bindE (reconcile_claimed_job X G j) (\<lambda>r. retE (Some r))))"

definition commit_first :: "'g world \<Rightarrow> 'g world \<Rightarrow> bool" where
  "commit_first w w' \<longleftrightarrow> w_pool w' = w_pool w \<and> (\<exists>new. w_applied w' = w_applied w @ new \<and> length new \<le> 1 \<and>
     list_all (\<lambda>(held, d). held \<and> unresolved_gateway_job d) new)"

lemma one_apply_commit_first:
  "one_apply w d w' \<Longrightarrow> w_locked w \<Longrightarrow> unresolved_gateway_job d \<Longrightarrow> commit_first w w'"
  by (auto simp: one_apply_def commit_first_def)

lemma unresolved_running: "get_job d i = Some j \<Longrightarrow> gateway_job j \<Longrightarrow> jb_status j \<noteq> JobSucceeded \<Longrightarrow> unresolved_gateway_job d"
  using tbl_get_Some [of jb_id "db_jobs d" i j] by (auto simp: unresolved_gateway_job_def list_ex_iff)

lemma locked_attempt_commit_first:
  assumes "distinct (map jb_id (db_jobs (se_work s)))" and "w_locked (se_world s)"
  shows "wpE (locked_attempt X G) (\<lambda>_ t. commit_first (se_world s) (se_world t)) (\<lambda>_ t. commit_first (se_world s) (se_world t)) s"
proof -
  have same: "commit_first w w" for w :: "'a world" by (simp add: commit_first_def)
  have run: "wpE (bindE (reconcile_claimed_job X G j) (\<lambda>r. retE (Some r)))
      (\<lambda>_ t. commit_first (se_world s) (se_world t)) (\<lambda>_ t. commit_first (se_world s) (se_world t)) t"
    if "se_world t = se_world s" "se_store t = se_work t" "get_job (se_work t) (jb_id j) = Some j" "gateway_job j" "jb_status j = JobRunning" for j t
    by (rule vcg_bind, rule wp_mono [OF reconcile_claimed_world])
      (use that assms(2) unresolved_running [OF that(3)] in \<open>auto simp: wp intro!: one_apply_commit_first\<close>)
  show ?thesis
    unfolding locked_attempt_def
  proof (rule vcg_bind, rule vcg_now, rule vcg_bind, rule wp_mono [OF claim_claims])
    show "distinct (map jb_id (db_jobs (se_work (ticked s))))" using assms(1) by simp
    show "commit_first (se_world s) (se_world t)" if "se_world t = se_world (ticked s)" for t using that same by simp
    fix now c and t :: "'a world session"
    assume c: "se_world t = se_world (ticked s) \<and> (case c of
        None \<Rightarrow> se_store t = se_store (ticked s)
      | Some j' \<Rightarrow> se_store t = se_work t \<and> get_job (se_work t) (jb_id j') = Some j' \<and>
          (\<exists>j\<in>set (db_jobs (se_work (ticked s))). claimable now j \<and> j' = mark_running now j))"
    then show "wpE (case c of None \<Rightarrow> retE None | Some j \<Rightarrow> bindE (reconcile_claimed_job X G j) (\<lambda>r. retE (Some r)))
        (\<lambda>_ t. commit_first (se_world s) (se_world t)) (\<lambda>_ t. commit_first (se_world s) (se_world t)) t"
      by (cases c) (auto simp: wp_ret same claimable_def gateway_job_def intro!: run)
  qed
qed

end
