(* ===== verification/Gateway_Machine.thy ===== *)
theory Gateway_Machine
  imports Gateway_Properties
begin

text \<open>
  The life of a reconciliation job as a state machine, and the proof that the worker follows it:
  whatever fails, the committed rows of the gateway jobs move only along the machine. The machine
  bounds the number of claims.
\<close>

section \<open>The machine\<close>

datatype job_event = Claim datetime | Fail string datetime | Finish | Review datetime

text \<open>A job fails, finishes or is held for review only after it was attempted.\<close>

inductive job_step :: "job \<Rightarrow> job_event \<Rightarrow> job \<Rightarrow> bool" where
  claim: "claimable now j \<Longrightarrow> job_step j (Claim now) (mark_running now j)"
| fail: "0 < jb_attempts j \<Longrightarrow> job_step j (Fail reason now) (fail_job reason now j)"
| finish: "0 < jb_attempts j \<Longrightarrow> job_step j Finish (finish_job j)"
| review: "0 < jb_attempts j \<Longrightarrow> job_step j (Review now) (review_job now j)"

inductive_cases claimE: "job_step j (Claim now) j'"

inductive job_run :: "job \<Rightarrow> job_event list \<Rightarrow> job \<Rightarrow> bool" where
  stop: "job_run j [] j"
| step: "job_step j e j' \<Longrightarrow> job_run j' es j'' \<Longrightarrow> job_run j (e # es) j''"

fun is_claim :: "job_event \<Rightarrow> bool" where
  "is_claim (Claim now) = True"
| "is_claim e = False"

lemma job_step_attempts:
  assumes "job_step j e j'"
  shows "jb_attempts j' = jb_attempts j + (if is_claim e then 1 else 0) \<and> jb_max_attempts j' = jb_max_attempts j \<and>
    jb_id j' = jb_id j \<and> jb_job_type j' = jb_job_type j \<and> jb_payload j' = jb_payload j \<and> jb_dedupe_key j' = jb_dedupe_key j \<and>
    (is_claim e \<longrightarrow> jb_attempts j < jb_max_attempts j)"
  using assms
  by (cases rule: job_step.cases)
    (simp_all add: mark_running_def fail_job_def finish_job_def review_job_def claimable_def)

lemma job_run_invariant:
  assumes "job_run j es j'"
  shows "jb_attempts j' = jb_attempts j + int (length (filter is_claim es)) \<and> jb_max_attempts j' = jb_max_attempts j \<and>
    jb_id j' = jb_id j \<and> jb_job_type j' = jb_job_type j \<and> jb_payload j' = jb_payload j \<and> jb_dedupe_key j' = jb_dedupe_key j"
  using assms
proof induction
  case (step j e j' es j'')
  with job_step_attempts [OF step(1)] show ?case by auto
qed simp

lemma job_run_bound:
  "job_run j es j' \<Longrightarrow> jb_attempts j \<le> jb_max_attempts j \<Longrightarrow> jb_attempts j' \<le> jb_max_attempts j'"
proof (induction rule: job_run.induct)
  case (step j e j' es j'')
  with job_step_attempts [OF step(1)] show ?case by (auto split: if_splits)
qed simp

lemma job_run_append: "job_run j es j' \<Longrightarrow> job_run j' es' j'' \<Longrightarrow> job_run j (es @ es') j''"
  by (induction rule: job_run.induct) (auto intro: job_run.step)

lemma job_run_one: "job_step j e j' \<Longrightarrow> job_run j [e] j'"
  by (auto intro: job_run.intros)

section \<open>Databases that follow the machine\<close>

definition job_types :: "database \<Rightarrow> int \<Rightarrow> string option" where
  "job_types d i = map_option jb_job_type (get_job d i)"

definition follows :: "database \<Rightarrow> database \<Rightarrow> bool" where
  "follows d d' \<longleftrightarrow> job_types d' = job_types d \<and> (\<forall>i j. get_job d i = Some j \<longrightarrow> gateway_job j \<longrightarrow>
     (\<exists>es j'. get_job d' i = Some j' \<and> job_run j es j'))"

lemma followsE:
  assumes "follows d d'" "get_job d i = Some j" "gateway_job j"
  obtains es j' where "get_job d' i = Some j'" "job_run j es j'"
  using assms unfolding follows_def by blast

lemma follows_refl [simp]: "follows d d"
  by (auto simp: follows_def intro: job_run.stop)

lemma follows_trans [trans]:
  assumes "follows d d'" and "follows d' d''"
  shows "follows d d''"
proof -
  have "\<exists>es j''. get_job d'' i = Some j'' \<and> job_run j es j''" if j: "get_job d i = Some j" "gateway_job j" for i j
  proof -
    from followsE [OF assms(1) j] obtain es j' where j': "get_job d' i = Some j'" "job_run j es j'" by blast
    then have "gateway_job j'" using job_run_invariant [OF j'(2)] j(2) by (simp add: gateway_job_def)
    from followsE [OF assms(2) j'(1) this] job_run_append [OF j'(2)] show ?thesis by metis
  qed
  with assms show ?thesis by (simp add: follows_def)
qed

lemma job_types_frames [simp]:
  "job_types (update_subscription i f d) = job_types d" "job_types (update_order i g d) = job_types d"
  "job_types (add_audit a d) = job_types d"
  by (simp_all add: job_types_def fun_eq_iff)

lemma follows_frames [simp]:
  "follows d (update_subscription i f d') = follows d d'" "follows d (update_order i g d') = follows d d'"
  "follows d (add_audit a d') = follows d d'"
  by (simp_all add: follows_def)

lemma job_types_update:
  "(\<And>j. jb_id (f j) = jb_id j) \<Longrightarrow> (\<And>j. jb_job_type (f j) = jb_job_type j) \<Longrightarrow> job_types (update_job i f d) = job_types d"
  by (auto simp: job_types_def get_update_job fun_eq_iff option.map_comp comp_def cong: map_option_cong)

lemma follows_update:
  assumes "\<And>j. jb_id (f j) = jb_id j" and "\<And>j. jb_job_type (f j) = jb_job_type j"
    and "\<And>j. get_job d i = Some j \<Longrightarrow> gateway_job j \<Longrightarrow> \<exists>e. job_step j e (f j)"
  shows "follows d (update_job i f d)"
  using assms(3)
  by (fastforce simp: follows_def job_types_update [OF assms(1,2)] get_update_job [OF assms(1)] intro: job_run.stop job_run_one)

text \<open>A provisioning run is not a gateway job, so what happens to it is no step of the machine.\<close>

definition other_job :: "int \<Rightarrow> database \<Rightarrow> bool" where
  "other_job r d \<longleftrightarrow> job_types d r \<noteq> Some GATEWAY_RECONCILE_JOB_TYPE"

lemma follows_other:
  assumes "other_job r d" and "\<And>j. jb_id (f j) = jb_id j" and "\<And>j. jb_job_type (f j) = jb_job_type j"
  shows "follows d (update_job r f d)"
  using assms(1) by (intro follows_update) (auto simp: assms other_job_def job_types_def gateway_job_def)

lemma other_job_follows: "follows d d' \<Longrightarrow> other_job r d' = other_job r d"
  by (simp add: other_job_def follows_def)

text \<open>A job that can be worked on: it was claimed, and the run its payload names is no gateway job.\<close>

definition ready :: "int \<Rightarrow> pyval dict \<Rightarrow> database \<Rightarrow> bool" where
  "ready i payload d \<longleftrightarrow> (\<exists>j. get_job d i = Some j \<and> gateway_job j \<and> 0 < jb_attempts j \<and> job_payload j = Inr payload) \<and>
     (\<forall>r. run_of payload = Inr (Some r) \<longrightarrow> other_job r d)"

lemma ready_follows:
  assumes "ready i payload d" and "follows d d'"
  shows "ready i payload d'"
proof -
  obtain j where j: "get_job d i = Some j" "gateway_job j" "0 < jb_attempts j" "job_payload j = Inr payload"
    using assms(1) by (auto simp: ready_def)
  from followsE [OF assms(2) j(1,2)] obtain es j' where j': "get_job d' i = Some j'" "job_run j es j'" by blast
  with job_run_invariant [OF j'(2)] j have "gateway_job j'" "0 < jb_attempts j'" "job_payload j' = Inr payload"
    by (auto simp: gateway_job_def job_payload_def)
  with j'(1) show ?thesis using assms by (auto simp: ready_def other_job_follows)
qed

lemma review_job_keeps [simp]: "jb_id (review_job now j) = jb_id j" "jb_job_type (review_job now j) = jb_job_type j"
  by (simp_all add: review_job_def)

lemma attempted_steps:
  assumes "0 < jb_attempts j"
  shows "\<exists>e. job_step j e (fail_job reason now j)" "\<exists>e. job_step j e (finish_job j)" "\<exists>e. job_step j e (review_job now j)"
  using assms by (blast intro: job_step.intros)+

lemma follows_edits:
  assumes "ready i payload d" and "follows d d'"
  shows "follows d (update_job i (fail_job reason now) d')" "follows d (update_job i finish_job d')"
    "follows d (update_job i (review_job now) d')"
  using ready_follows [OF assms]
  by (auto simp: ready_def intro!: follows_trans [OF assms(2)] follows_update attempted_steps)

lemma follows_run:
  assumes "ready i payload d" "follows d d'" "run_of payload = Inr (Some r)"
  shows "follows d (update_job r (fail_run reason) d')" "follows d (update_job r finish_run d')"
  using assms by (auto simp: ready_def other_job_follows intro!: follows_trans [OF assms(2)] follows_other)

section \<open>The worker follows the machine\<close>

definition follows_store :: "database \<Rightarrow> 'w session \<Rightarrow> bool" where
  "follows_store d t \<longleftrightarrow> follows d (se_store t)"

text \<open>A finalised result also leaves the session's own view on the machine.\<close>

definition follows_result :: "database \<Rightarrow> gateway_reconciliation_result \<Rightarrow> 'w session \<Rightarrow> bool" where
  "follows_result d r t \<longleftrightarrow> follows d (se_store t) \<and> (gr_finalized r \<longrightarrow> follows d (se_work t))"

lemma record_failure_follows:
  assumes "ready i payload (se_store s)"
  shows "wpE (record_failure X i exc now) (follows_result (se_store s)) (\<lambda>_. follows_store (se_store s)) s"
proof -
  have read: "p = payload" if "get_job (se_store s) i = Some j" "job_payload j = Inr p" for j p
    using assms that by (auto simp: ready_def)
  show ?thesis
    unfolding record_failure_def Let_def
    by (intro vcg) (auto simp: follows_store_def follows_result_def dest!: read intro!: follows_edits [OF assms] follows_run [OF assms])
qed

lemma mark_unknown_follows:
  assumes "ready i payload (se_store s)"
  shows "wpE (mark_finalization_unknown X i payload now) (follows_result (se_store s)) (\<lambda>_. follows_store (se_store s)) s"
  unfolding mark_finalization_unknown_def
  by (intro vcg) (auto simp: follows_store_def follows_result_def intro!: follows_edits [OF assms])

lemma finalize_follows:
  assumes "ready i payload (se_work s)"
  shows "wpE (finalize X i payload) (\<lambda>_ t. follows (se_work s) (se_work t) \<and> se_store t = se_store s) (\<lambda>_ t. se_store t = se_store s) s"
  unfolding finalize_def finalize_purchase_def
  by (intro vcg) (auto intro!: follows_edits [OF assms] follows_run [OF assms])

lemma classify_keeps_store:
  "wpE (classify_finalization_outcome X i sub oid run kind) (\<lambda>_ t. se_store t = se_store s \<and> se_work t = se_work s)
    (\<lambda>_ t. se_store t = se_store s) s"
  unfolding classify_finalization_outcome_def probing_def by (intro vcg) simp_all

text \<open>Code whose effect on the store follows the machine from a ready job.\<close>

definition job_safe :: "int \<Rightarrow> pyval dict \<Rightarrow> ('w, gateway_reconciliation_result) db \<Rightarrow> bool" where
  "job_safe i payload m \<longleftrightarrow> (\<forall>s. ready i payload (se_store s) \<longrightarrow>
     wpE m (follows_result (se_store s)) (\<lambda>_. follows_store (se_store s)) s)"

lemma job_safe_failure: "job_safe i payload (record_failure X i exc now)"
  by (simp add: job_safe_def record_failure_follows)

lemma job_safe_unknown: "job_safe i payload (mark_finalization_unknown X i payload now)"
  by (simp add: job_safe_def mark_unknown_follows)

lemma job_safe_run:
  assumes "job_safe i payload m" and "ready i payload d" and "follows d (se_store s)"
  shows "wpE m (follows_result d) (\<lambda>_. follows_store d) s"
proof -
  have "ready i payload (se_store s)" by (rule ready_follows [OF assms(2,3)])
  with assms(1) have "wpE m (follows_result (se_store s)) (\<lambda>_. follows_store (se_store s)) s"
    by (simp add: job_safe_def)
  then show ?thesis by (rule wp_mono) (auto simp: follows_store_def follows_result_def intro: follows_trans [OF assms(3)])
qed

lemma attempt_failed_follows:
  assumes "ready i payload d" and "follows d (se_store s)"
  shows "wpE (attempt_failed X i exc) (follows_result d) (\<lambda>_. follows_store d) s"
  unfolding attempt_failed_def
  by (intro vcg job_safe_run [OF job_safe_failure assms(1)]) (use assms in \<open>simp_all add: follows_store_def follows_result_def\<close>)

lemma commit_finalization_follows:
  fixes s :: "'a session"
  assumes "ready i payload d" and "follows d (se_store s)" and "follows d (se_work s)"
  shows "wpE (commit_finalization X i payload values) (follows_result d) (\<lambda>_. follows_store d) s"
proof -
  obtain sub oid run where v: "values = (sub, oid, run)" by (cases "values")
  have classify: "wpE (bindE (classify_finalization_outcome X i sub oid run (text_of (vget payload ''operation_kind''))) (\<lambda>outcome.
          case outcome of
            LANDED \<Rightarrow> thenE (suppressE (db_rollback X)) (retE (reconciled i))
          | ABSENT \<Rightarrow> bindE (db_now X) (record_failure X i exc)
          | UNKNOWN \<Rightarrow> bindE (db_now X) (mark_finalization_unknown X i payload)))
      (follows_result d) (\<lambda>_. follows_store d) t"
    if "follows d (se_store t)" "follows d (se_work t)" for exc and t :: "'a session"
  proof (rule vcg_bind, rule wp_mono [OF classify_keeps_store])
    fix outcome and t' :: "'a session"
    assume "se_store t' = se_store t \<and> se_work t' = se_work t"
    with that have t': "follows d (se_store t')" "follows d (se_work t')" by simp_all
    note safe = job_safe_run [OF job_safe_failure assms(1)] job_safe_run [OF job_safe_unknown assms(1)]
    show "wpE (case outcome of
            LANDED \<Rightarrow> thenE (suppressE (db_rollback X)) (retE (reconciled i))
          | ABSENT \<Rightarrow> bindE (db_now X) (record_failure X i exc)
          | UNKNOWN \<Rightarrow> bindE (db_now X) (mark_finalization_unknown X i payload)) (follows_result d) (\<lambda>_. follows_store d) t'"
      by (cases outcome; simp only: first_commit_outcome.case; intro vcg safe) (use t' in \<open>simp_all add: follows_store_def follows_result_def\<close>)
  qed (use that in \<open>simp add: follows_store_def\<close>)
  show ?thesis
    unfolding commit_finalization_def v prod.case
    by (intro vcg classify) (use assms in \<open>simp_all add: follows_store_def follows_result_def\<close>)
qed

lemma reconcile_claimed_follows:
  fixes s :: "'g world session"
  assumes "ready (jb_id j) payload (se_store s)" and "se_work s = se_store s" and "job_payload j = Inr payload"
  shows "wpE (reconcile_claimed_job X G j) (follows_result (se_store s)) (\<lambda>_. follows_store (se_store s)) s"
proof -
  let ?i = "jb_id j" and ?d = "se_store s"
  let ?E = "\<lambda>exc. wpE (attempt_failed X ?i exc) (follows_result ?d) (\<lambda>_. follows_store ?d)"
  note failed = attempt_failed_follows [OF assms(1)]
  have rest: "wpE (thenE (finalize X ?i payload) (bindE (liftE (finalization_values payload)) (commit_finalization X ?i payload)))
      (follows_result ?d) ?E t" if "se_work t = ?d" "se_store t = ?d" for t :: "'g world session"
  proof (rule vcg_then, rule wp_mono [OF finalize_follows])
    show "ready ?i payload (se_work t)" using assms(1) that by simp
    show "?E exc t'" if "se_store t' = se_store t" for exc t' using that \<open>se_store t = ?d\<close> by (intro failed) simp
    fix t' :: "'g world session" assume "follows (se_work t) (se_work t') \<and> se_store t' = se_store t"
    with that have t': "follows ?d (se_work t')" "follows ?d (se_store t')" by simp_all
    show "wpE (bindE (liftE (finalization_values payload)) (commit_finalization X ?i payload)) (follows_result ?d) ?E t'"
    proof (rule vcg_bind, rule vcg_lift, rule failed [OF t'(2)])
      fix v
      show "wpE (commit_finalization X ?i payload v) (follows_result ?d) ?E t'"
        by (rule wp_mono [OF commit_finalization_follows [OF assms(1) t'(2,1)]]) (auto simp: follows_store_def follows_result_def intro: failed)
    qed
  qed
  have "wpE (tryE (thenE (apply_desired_state X G) (thenE (finalize X ?i payload)
       (bindE (liftE (finalization_values payload)) (commit_finalization X ?i payload)))) (attempt_failed X ?i))
      (follows_result ?d) (\<lambda>_. follows_store ?d) s"
    by (rule vcg_try, rule vcg_then, rule wp_mono [OF apply_desired_state_frame])
      (auto simp: gateway_only_def assms(2) intro!: rest failed)
  then show ?thesis by (simp add: reconcile_claimed_job_def assms(3) wp_bind wp_lift)
qed

end
