(* ===== verification/Xray_Properties.thy ===== *)
theory Xray_Properties
  imports Xray_Composition
begin

text \<open>
  Every file the renderer composes passes the repository's validator, routes each principal to
  its own outbound and everything else to BLOCK; every file the validator accepts is fail-closed.
\<close>

section \<open>Validated inputs\<close>

lemma strip_strip_Nil [simp]: "strip (strip s) = [] \<longleftrightarrow> strip s = []"
proof -
  have "nonblank (strip s)" if "nonblank s"
  proof -
  from that have "\<exists>c\<in>set (lstrip s). \<not> py_isspace c"
    by (auto simp: strip_eq_Nil list_all_iff lstrip_def dest: set_dropWhileD)
       (metis dropWhile_eq_Nil_conv hd_dropWhile hd_in_set)
  then have "dropWhile py_isspace (rev (lstrip s)) \<noteq> []" by (auto simp: dropWhile_eq_Nil_conv)
  moreover from this have "\<not> py_isspace (hd (dropWhile py_isspace (rev (lstrip s))))" by (rule hd_dropWhile)
  ultimately have "\<exists>c\<in>set (strip s). \<not> py_isspace c"
    unfolding strip_def rstrip_by_def set_rev by (meson hd_in_set)
  then show ?thesis by (auto simp: strip_eq_Nil list_all_iff)
  qed
  then show ?thesis by auto
qed

lemma normalize_allowed: "level \<in> set allowed_log_levels \<Longrightarrow> normalize_log_level (VStr level) = Inr level"
  by (auto simp: allowed_log_levels_def normalize_log_level_def strip_def lstrip_def rstrip_by_def
      py_isspace_def lower_def lower_char_def)

lemma normalize_log_level_Inr:
  "normalize_log_level v = Inr level \<Longrightarrow> level \<in> set allowed_log_levels"
  by (auto simp: normalize_log_level_def Let_def split: pyval.splits if_splits)

definition good_inbound :: "static_inbound \<Rightarrow> bool" where
  "good_inbound si \<longleftrightarrow> nonblank (si_listen si) \<and> 1 \<le> si_port si \<and> si_port si \<le> 65535 \<and> nonblank (si_protocol si)"

lemma mapS_Inr: "mapS f xs = Inr ys \<longleftrightarrow> list_all2 (\<lambda>x y. f x = Inr y) xs ys"
proof (induction xs arbitrary: ys)
  case (Cons x xs)
  show ?case by (cases ys) (auto simp: checks Cons)
qed (auto simp: eq_commute)

lemma from_template_good:
  assumes "from_template t = Inr sk"
  shows "sk \<noteq> [] \<and> list_all good_inbound sk"
proof -
  have sk: "xray_static_skeleton (list_items (vget t ''inbounds'')) = Inr sk"
    using assms by (auto simp: from_template_def checks)
  then have all: "list_all2 (\<lambda>v si. project_inbound v = Inr si) (list_items (vget t ''inbounds'')) sk"
    and ne: "list_items (vget t ''inbounds'') \<noteq> []"
    by (auto simp: xray_static_skeleton_def mapS_Inr split: if_splits)
  have good: "project_inbound v = Inr si \<Longrightarrow> good_inbound si" for v si
    by (auto simp: project_inbound_def good_inbound_def checks split: pyval.splits)
  from all have "list_all good_inbound sk"
    by (induction rule: list_all2_induct) (auto simp: good)
  moreover from all ne have "sk \<noteq> []" by auto
  ultimately show ?thesis by simp
qed

lemma deployment_config_good:
  assumes "deployment_config level dest names = Inr dep"
  shows "dc_log_level dep \<in> set allowed_log_levels \<and> nonblank (dc_reality_dest dep) \<and>
     dc_server_names dep \<noteq> [] \<and> list_all (\<lambda>s. nonblank s) (dc_server_names dep)"
  using assms
  by (auto simp: deployment_config_def checks Let_def list_all_iff dest!: normalize_log_level_Inr split: if_splits)

lemma reality_config_good:
  assumes "reality_config key ids = Inr r"
  shows "nonblank (rc_private_key r) \<and> rc_short_ids r \<noteq> [] \<and> list_all (\<lambda>s. nonblank s) (rc_short_ids r)"
  using assms by (auto simp: reality_config_def checks Let_def list_all_iff split: if_splits)

lemma list_all_VStr [simp]: "list_all is_nonblank_str (map VStr ss) \<longleftrightarrow> list_all (\<lambda>s. nonblank s) ss"
  by (induction ss) auto

section \<open>The composed file is valid\<close>

lemma compose_inbound_valid:
  assumes "good_inbound si" "nonblank (dc_reality_dest dep)" "dc_server_names dep \<noteq> []"
    "list_all (\<lambda>s. nonblank s) (dc_server_names dep)"
    "nonblank (rc_private_key r)" "rc_short_ids r \<noteq> []" "list_all (\<lambda>s. nonblank s) (rc_short_ids r)"
  shows "check_owned_inbound (compose_inbound dep r si) = Inr ()"
  using assms unfolding compose_inbound_def check_owned_inbound_def good_inbound_def
  by (simp add: as_mapping_def check_keys_def nonblank_string_def valid_port_def string_list_def)

lemma compose_outbound_valid:
  assumes "compose_outbound creds tags out = Inr v" and "xo_tag out \<noteq> ''DIRECT''"
    and "set tags' = insert ''BLOCK'' (set tags)"
  shows "check_owned_outbound False tags' v = Inr (xo_tag out)"
proof -
  obtain c where "dict_get creds (xo_credential_secret_ref out) = Some c"
    using assms(1) by (cases "dict_get creds (xo_credential_secret_ref out)") (auto simp: compose_outbound_def checks)
  with assms(1) have c: "nonblank (xo_tag out)" "xo_tag out \<noteq> ''BLOCK''" "xo_tag out \<notin> set tags"
      "nonblank (xo_host out)" "1 \<le> xo_port out" "xo_port out \<le> 65535" "nonblank (cr_username c)" "nonblank (cr_password c)"
    and v: "v = socks_outbound (xo_tag out) (xo_host out) (xo_port out) (cr_username c) (cr_password c)"
    by (auto simp: compose_outbound_def checks)
  from c assms(2,3) show ?thesis
    by (simp add: v check_owned_outbound_def check_socks_outbound_def socks_outbound_def as_mapping_def
        check_keys_def nonblank_string_def valid_port_def)
qed

lemma compose_outbounds_valid:
  assumes "compose_outbounds creds tags outs = Inr vs" and "''DIRECT'' \<notin> xo_tag ` set outs"
    and "set tags' = insert ''BLOCK'' (set tags)"
  shows "check_owned_outbounds False tags' vs = Inr (rev (map xo_tag outs) @ tags')"
  using assms
proof (induction outs arbitrary: tags tags' vs)
  case (Cons out outs)
  then obtain w ws where w: "compose_outbound creds tags out = Inr w"
    and ws: "compose_outbounds creds (xo_tag out # tags) outs = Inr ws" and vs: "vs = w # ws"
    by (auto simp: checks)
  have "check_owned_outbound False tags' w = Inr (xo_tag out)"
    using compose_outbound_valid [OF w _ Cons.prems(3)] Cons.prems(2) by auto
  moreover have "check_owned_outbounds False (xo_tag out # tags') ws =
      Inr (rev (map xo_tag outs) @ xo_tag out # tags')"
    using Cons.prems by (intro Cons.IH [OF ws]) auto
  ultimately show ?case by (simp add: vs)
qed simp

lemma compose_rules_valid:
  assumes "mapS (compose_rule tags) routes = Inr rs" and "distinct (map fst routes)"
    and "set (map fst routes) \<inter> set seen = {}" and "''DIRECT'' \<notin> set tags" and "set tags \<subseteq> set tags'"
  shows "check_owned_rules tags' seen rs = Inr ()"
  using assms
proof (induction routes arbitrary: rs seen)
  case (Cons route routes)
  obtain user target where route: "route = (user, target)" by (cases route)
  from Cons.prems(1) obtain r qs where rs: "rs = r # qs" and r: "compose_rule tags (user, target) = Inr r"
    and qs: "mapS (compose_rule tags) routes = Inr qs"
    by (auto simp: checks route)
  from r have ok: "nonblank user" "nonblank target" "target \<noteq> ''BLOCK''" "target \<in> set tags"
    and r_eq: "r = user_rule user target"
    by (auto simp: compose_rule_def split: if_splits)
  have "target \<in> set tags'" "target \<noteq> ''DIRECT''" "user \<notin> set seen" using ok Cons.prems by (auto simp: route)
  with ok have "check_owned_rule tags' seen (user_rule user target) = Inr user"
    by (simp add: check_owned_rule_def user_rule_def as_mapping_def check_keys_def)
  moreover have "check_owned_rules tags' (user # seen) qs = Inr ()"
    using Cons.prems by (intro Cons.IH [OF qs]) (auto simp: route)
  ultimately show ?case by (simp add: rs r_eq)
qed simp

lemma compose_xray_config_Inr:
  assumes "compose_xray_config i = Inr cfg"
  obtains outs routes where
    "compose_outbounds (xi_credentials i) [] (dr_outbounds (xi_desired i)) = Inr outs"
    "mapS (compose_rule (map xo_tag (dr_outbounds (xi_desired i)))) (sorted_items (dr_user_routes (xi_desired i))) = Inr routes"
    "cfg = [(''log'', VMap [(''loglevel'', VStr (dc_log_level (xi_deployment i)))]),
       (''inbounds'', VList (map (compose_inbound (xi_deployment i) (xi_reality i)) (xi_skeleton i))),
       (''outbounds'', VList (block_outbound # outs)),
       (''routing'', VMap [(''domainStrategy'', VStr ''AsIs''), (''rules'', VList (private_rule # routes @ [fallback_rule]))])]"
  using assms by (auto simp: compose_xray_config_def Let_def checks)

lemma block_outbound_first: "check_owned_outbound True [] block_outbound = Inr ''BLOCK''"
  by (simp add: check_owned_outbound_def block_outbound_def as_mapping_def nonblank_string_def check_keys_def
      strip_def lstrip_def rstrip_by_def py_isspace_def)

lemma compose_valid:
  assumes c: "compose_xray_config i = Inr cfg"
    and sk: "from_template t = Inr (xi_skeleton i)"
    and dep: "deployment_config level dest names = Inr (xi_deployment i)"
    and re: "reality_config key ids = Inr (xi_reality i)"
    and keys: "distinct (dict_keys (dr_user_routes (xi_desired i)))"
    and direct: "''DIRECT'' \<notin> xo_tag ` set (dr_outbounds (xi_desired i))"
  shows "validate_repo_owned (VMap cfg) = Inr ()"
proof -
  obtain outs routes where outs: "compose_outbounds (xi_credentials i) [] (dr_outbounds (xi_desired i)) = Inr outs"
    and routes: "mapS (compose_rule (map xo_tag (dr_outbounds (xi_desired i))))
        (sorted_items (dr_user_routes (xi_desired i))) = Inr routes"
    and cfg: "cfg = [(''log'', VMap [(''loglevel'', VStr (dc_log_level (xi_deployment i)))]),
       (''inbounds'', VList (map (compose_inbound (xi_deployment i) (xi_reality i)) (xi_skeleton i))),
       (''outbounds'', VList (block_outbound # outs)),
       (''routing'', VMap [(''domainStrategy'', VStr ''AsIs''), (''rules'', VList (private_rule # routes @ [fallback_rule]))])]"
    using c by (rule compose_xray_config_Inr)
  let ?tags = "map xo_tag (dr_outbounds (xi_desired i))"
  note good = from_template_good [OF sk] deployment_config_good [OF dep] reality_config_good [OF re]
  have inb: "\<forall>v\<in>set (map (compose_inbound (xi_deployment i) (xi_reality i)) (xi_skeleton i)). check_owned_inbound v = Inr ()"
    using good by (auto simp: list_all_iff intro!: compose_inbound_valid)
  have out: "check_owned_outbounds True [] (block_outbound # outs) = Inr (rev ?tags @ [''BLOCK''])"
    using compose_outbounds_valid [OF outs direct, of "[''BLOCK'']"] by (simp add: block_outbound_first)
  have rul: "check_owned_rules (rev ?tags @ [''BLOCK'']) [] routes = Inr ()"
    using compose_rules_valid [OF routes, of "[]" "rev ?tags @ [''BLOCK'']"] keys direct by auto
  have "each check_owned_inbound (map (compose_inbound (xi_deployment i) (xi_reality i)) (xi_skeleton i)) = Inr ()"
    using inb by (simp only: each_Inr)
  with good out rul show ?thesis
    by (simp add: cfg validate_repo_owned_def as_mapping_def check_keys_def normalize_allowed check_owned_routing_def
        butlast_append del: check_owned_outbounds.simps)
qed

section \<open>Routing of the composed file\<close>

lemma find_user_rule:
  assumes "mapS (compose_rule tags) routes = Inr rs" and "\<not> tf_private t"
  shows "find (rule_matches t) rs =
     (case tf_user t of None \<Rightarrow> None
      | Some u \<Rightarrow> map_option (user_rule u) (map_of routes u))"
  using assms(1)
proof (induction routes arbitrary: rs)
  case (Cons route routes)
  obtain user target where route: "route = (user, target)" by (cases route)
  from Cons.prems obtain qs where rs: "rs = user_rule user target # qs"
    and qs: "mapS (compose_rule tags) routes = Inr qs"
    by (auto simp: checks route compose_rule_def [of tags "(user, target)"] split: if_splits)
  have "rule_matches t (user_rule user target) \<longleftrightarrow> tf_user t = Some user"
    by (auto simp: rule_matches_def user_rule_def split: option.splits)
  with Cons.IH [OF qs] show ?case by (auto simp: rs route split: option.splits)
qed (auto split: option.splits)

lemma private_rule_matches [simp]: "rule_matches t private_rule \<longleftrightarrow> tf_private t"
  by (simp add: rule_matches_def private_rule_def)

lemma fallback_rule_matches [simp]: "rule_matches t fallback_rule \<longleftrightarrow> tf_network t \<in> {''tcp'', ''udp''}"
  by (simp add: rule_matches_def fallback_rule_def)

lemma rule_targets [simp]:
  "section_of private_rule ''outboundTag'' = VStr ''BLOCK''" "section_of fallback_rule ''outboundTag'' = VStr ''BLOCK''"
  "section_of (user_rule u target) ''outboundTag'' = VStr target" "section_of block_outbound ''tag'' = VStr ''BLOCK''"
  by (simp_all add: section_of_def private_rule_def fallback_rule_def user_rule_def block_outbound_def)

lemma compose_routing:
  assumes "compose_xray_config i = Inr cfg" and keys: "distinct (dict_keys (dr_user_routes (xi_desired i)))"
  shows "route_traffic cfg t = VStr (if tf_private t then ''BLOCK'' else
     (case Option.bind (tf_user t) (dict_get (dr_user_routes (xi_desired i))) of Some target \<Rightarrow> target | None \<Rightarrow> ''BLOCK''))"
proof -
  obtain outs routes where routes: "mapS (compose_rule (map xo_tag (dr_outbounds (xi_desired i))))
        (sorted_items (dr_user_routes (xi_desired i))) = Inr routes"
    and cfg: "cfg = [(''log'', VMap [(''loglevel'', VStr (dc_log_level (xi_deployment i)))]),
       (''inbounds'', VList (map (compose_inbound (xi_deployment i) (xi_reality i)) (xi_skeleton i))),
       (''outbounds'', VList (block_outbound # outs)),
       (''routing'', VMap [(''domainStrategy'', VStr ''AsIs''), (''rules'', VList (private_rule # routes @ [fallback_rule]))])]"
    using assms(1) by (rule compose_xray_config_Inr)
  have same: "map_of (sorted_items d) = map_of d" if "distinct (map fst d)" for d :: "string dict"
    using that by (simp add: map_of_inject_set)
  have rules: "section_of (VMap [(''domainStrategy'', VStr ''AsIs''), (''rules'', VList rs)]) ''rules'' = VList rs" for rs
    by (simp add: section_of_def)
  show ?thesis
    using find_user_rule [OF routes, of t] same [OF keys]
    by (auto simp: route_traffic_def cfg rules find_append split: option.splits)
qed

section \<open>Every accepted file is fail-closed\<close>

lemma eq_key_VStr [simp]: "eq_key v = VStr s \<longleftrightarrow> v = VStr s"
  by (cases v) auto

lemma eq_key_VList1 [simp]: "eq_key v = VList [VStr s] \<longleftrightarrow> v = VList [VStr s]"
  by (cases v) (auto simp: Cons_eq_map_conv eq_commute [of "[_]"])

text \<open>A mapping that Python finds equal to another one binds the same keys to equal values.\<close>

lemma py_eq_VMap:
  assumes "py_eq v (VMap e)" and "distinct (map fst e)"
  obtains d where "v = VMap d" "\<And>k. map_option eq_key (map_of d k) = map_option eq_key (map_of e k)"
proof -
  let ?f = "\<lambda>(k :: string, v). (k, eq_key v)"
  from assms(1) obtain d where v: "v = VMap d" and s: "sort_key fst (map ?f d) = sort_key fst (map ?f e)"
    by (cases v) (auto simp: py_eq_def)
  have m: "mset (map ?f d) = mset (map ?f e)"
    using arg_cong [OF s, of mset] by (simp only: mset_sort)
  have keys: "map fst (map ?f xs) = map fst xs" for xs :: "(string \<times> pyval) list"
    by (induction xs) auto
  have "mset (map fst (map ?f d)) = mset (map fst (map ?f e))"
    using arg_cong [OF m, of "image_mset fst"] by (simp only: mset_map)
  then have "distinct (map fst (map ?f d))"
    using assms(2) by (metis keys mset_eq_imp_distinct_iff)
  moreover have "distinct (map fst (map ?f e))" using assms(2) by (simp only: keys)
  ultimately have "map_of (map ?f d) = map_of (map ?f e)"
    using mset_eq_setD [OF m] by (simp only: map_of_inject_set)
  moreover have "map_of (map ?f xs) k = map_option eq_key (map_of xs k)" for xs k
    by (induction xs) auto
  ultimately show ?thesis using that v by metis
qed

lemma eq_private_rule:
  assumes "py_eq v private_rule"
  shows "rule_matches t v \<longleftrightarrow> tf_private t" "section_of v ''outboundTag'' = VStr ''BLOCK''"
proof -
  from assms obtain d where v: "v = VMap d" and k: "\<And>k. map_option eq_key (map_of d k) =
      map_option eq_key (map_of [(''type'', VStr ''field''), (''ip'', VList [VStr ''geoip:private'']), (''outboundTag'', VStr ''BLOCK'')] k)"
    unfolding private_rule_def by (rule py_eq_VMap) (simp, blast)
  have "map_of d ''user'' = None" "map_of d ''network'' = None" "map_of d ''ip'' = Some (VList [VStr ''geoip:private''])"
    "map_of d ''outboundTag'' = Some (VStr ''BLOCK'')"
    using k [of "''user''"] k [of "''network''"] k [of "''ip''"] k [of "''outboundTag''"] by auto
  then show "rule_matches t v \<longleftrightarrow> tf_private t" "section_of v ''outboundTag'' = VStr ''BLOCK''"
    by (simp_all add: v rule_matches_def section_of_def vget_def)
qed

lemma eq_fallback_rule:
  assumes "py_eq v fallback_rule"
  shows "section_of v ''outboundTag'' = VStr ''BLOCK''"
proof -
  from assms obtain d where v: "v = VMap d" and k: "\<And>k. map_option eq_key (map_of d k) =
      map_option eq_key (map_of [(''type'', VStr ''field''), (''network'', VStr ''tcp,udp''), (''outboundTag'', VStr ''BLOCK'')] k)"
    unfolding fallback_rule_def by (rule py_eq_VMap) (simp, blast)
  have "map_of d ''outboundTag'' = Some (VStr ''BLOCK'')" using k [of "''outboundTag''"] by auto
  then show ?thesis by (simp add: v section_of_def vget_def)
qed

lemma check_owned_outbound_Inr:
  assumes "check_owned_outbound first tags v = Inr tag"
  shows "section_of v ''tag'' = VStr tag \<and> tag \<noteq> ''DIRECT'' \<and> (first \<longrightarrow> tag = ''BLOCK'')"
  using assms by (auto simp: check_owned_outbound_def checks section_of_def split: if_splits)

lemma check_owned_outbounds_Inr:
  assumes "check_owned_outbounds first tags vs = Inr ts"
  shows "set ts \<subseteq> set tags \<union> {tag. VStr tag \<in> (\<lambda>v. section_of v ''tag'') ` set vs \<and> tag \<noteq> ''DIRECT''}"
  using assms
proof (induction vs arbitrary: first tags)
  case (Cons v vs)
  then obtain tag where tag: "check_owned_outbound first tags v = Inr tag"
    and ts: "check_owned_outbounds False (tag # tags) vs = Inr ts" by (auto simp: checks)
  from Cons.IH [OF ts] check_owned_outbound_Inr [OF tag] show ?case by auto
qed simp

definition routes_user :: "pyval \<Rightarrow> string \<Rightarrow> bool" where
  "routes_user rule u \<longleftrightarrow> section_of rule ''user'' = VList [VStr u]"

lemma check_owned_rule_Inr:
  assumes "check_owned_rule tags seen v = Inr u"
  shows "routes_user v u \<and> (\<exists>target\<in>set tags. section_of v ''outboundTag'' = VStr target \<and> target \<noteq> ''DIRECT'') \<and>
     (rule_matches t v \<longleftrightarrow> tf_user t = Some u)"
proof -
  from assms obtain d where v: "v = VMap d" and keys: "set (map fst d) = {''type'', ''user'', ''outboundTag''}"
    unfolding check_owned_rule_def bindS_Inr thenS_Inr as_mapping_Inr check_keys_Inr by auto
  from assms obtain target where user: "vget d ''user'' = VList [VStr u]" and tg: "vget d ''outboundTag'' = VStr target"
    and ok: "target \<in> set tags" "target \<noteq> ''DIRECT''"
    by (auto simp: v check_owned_rule_def as_mapping_def thenS_Inr require_Inr
        split: pyval.split_asm list.split_asm)
  have "map_of d ''ip'' = None" "map_of d ''network'' = None"
    unfolding map_of_eq_None_iff using keys by auto
  moreover have "map_of d ''user'' = Some (VList [VStr u])"
    using user by (auto simp: vget_def split: option.splits)
  ultimately show ?thesis
    using user tg ok by (auto simp: v routes_user_def section_of_def rule_matches_def split: option.splits)
qed

lemma check_owned_rules_Inr:
  assumes "check_owned_rules tags seen vs = Inr w"
  shows "\<forall>v\<in>set vs. \<exists>u. routes_user v u \<and> (\<forall>t. rule_matches t v \<longleftrightarrow> tf_user t = Some u) \<and>
     (\<exists>target\<in>set tags. section_of v ''outboundTag'' = VStr target \<and> target \<noteq> ''DIRECT'')"
  using assms
proof (induction vs arbitrary: seen)
  case (Cons v vs)
  then obtain u where u: "check_owned_rule tags seen v = Inr u"
    and vs: "check_owned_rules tags (u # seen) vs = Inr w" by (auto simp: checks)
  from Cons.IH [OF vs] check_owned_rule_Inr [OF u] show ?case by auto
qed simp

text \<open>The rules of a file, and its rules for users.\<close>

definition config_rules :: "pyval dict \<Rightarrow> pyval list" where
  "config_rules cfg = list_items (section_of (vget cfg ''routing'') ''rules'')"

definition outbound_tags :: "pyval dict \<Rightarrow> pyval list" where
  "outbound_tags cfg = map (\<lambda>v. section_of v ''tag'') (list_items (vget cfg ''outbounds''))"

lemma accepted_shape:
  assumes "validate_repo_owned (VMap cfg) = Inr ()"
  obtains p mid f where "config_rules cfg = p # mid @ [f]" "py_eq p private_rule" "py_eq f fallback_rule"
    "\<forall>v\<in>set mid. \<exists>u. routes_user v u \<and> (\<forall>t. rule_matches t v \<longleftrightarrow> tf_user t = Some u) \<and>
       (\<exists>target. section_of v ''outboundTag'' = VStr target \<and> target \<noteq> ''DIRECT'' \<and> VStr target \<in> set (outbound_tags cfg))"
    "VStr ''BLOCK'' \<in> set (outbound_tags cfg)" "hd (outbound_tags cfg) = VStr ''BLOCK''"
proof -
  from assms obtain tags where
    outs: "check_owned_outbounds True [] (list_items (vget cfg ''outbounds'')) = Inr tags"
    and block: "''BLOCK'' \<in> set tags" and ne: "list_items (vget cfg ''outbounds'') \<noteq> []"
    and routing: "check_owned_routing tags (vget cfg ''routing'') = Inr ()"
    by (auto simp: validate_repo_owned_def checks)
  from routing obtain r where r: "vget cfg ''routing'' = VMap r"
    and len: "2 \<le> length (list_items (vget r ''rules''))"
    and p: "py_eq (hd (list_items (vget r ''rules''))) private_rule"
    and f: "py_eq (last (list_items (vget r ''rules''))) fallback_rule"
    and mid: "check_owned_rules tags [] (butlast (tl (list_items (vget r ''rules'')))) = Inr ()"
    by (auto simp: check_owned_routing_def checks Let_def)
  have rules: "config_rules cfg = list_items (vget r ''rules'')"
    by (simp add: config_rules_def r section_of_def)
  let ?rs = "list_items (vget r ''rules'')"
  have shape: "?rs = hd ?rs # butlast (tl ?rs) @ [last ?rs]"
    using len by (cases ?rs; cases "tl ?rs") auto
  have tags: "set tags \<subseteq> {tag. VStr tag \<in> set (outbound_tags cfg) \<and> tag \<noteq> ''DIRECT''}"
    using check_owned_outbounds_Inr [OF outs] by (auto simp: outbound_tags_def)
  obtain v vs where vs: "list_items (vget cfg ''outbounds'') = v # vs" using ne by (cases "list_items (vget cfg ''outbounds'')") auto
  from outs vs obtain tag where "check_owned_outbound True [] v = Inr tag" by (auto simp: checks)
  from check_owned_outbound_Inr [OF this] have "hd (outbound_tags cfg) = VStr ''BLOCK''"
    by (simp add: outbound_tags_def vs)
  moreover have "VStr ''BLOCK'' \<in> set (outbound_tags cfg)" using tags block by auto
  moreover have "\<forall>v\<in>set (butlast (tl ?rs)). \<exists>u. routes_user v u \<and> (\<forall>t. rule_matches t v \<longleftrightarrow> tf_user t = Some u) \<and>
       (\<exists>target. section_of v ''outboundTag'' = VStr target \<and> target \<noteq> ''DIRECT'' \<and> VStr target \<in> set (outbound_tags cfg))"
    using check_owned_rules_Inr [OF mid] tags by fast
  moreover have "config_rules cfg = hd ?rs # butlast (tl ?rs) @ [last ?rs]" using shape rules by simp
  ultimately show ?thesis using p f by (intro that)
qed

lemma accepted_fail_closed:
  assumes "validate_repo_owned (VMap cfg) = Inr ()"
  shows "(\<exists>tag. route_traffic cfg t = VStr tag \<and> tag \<noteq> ''DIRECT'' \<and> VStr tag \<in> set (outbound_tags cfg)) \<and>
    (tf_private t \<or> (\<forall>u rule. tf_user t = Some u \<and> rule \<in> set (config_rules cfg) \<longrightarrow> \<not> routes_user rule u) \<longrightarrow>
      route_traffic cfg t = VStr ''BLOCK'')"
proof -
  obtain p mid f where shape: "config_rules cfg = p # mid @ [f]" and p: "py_eq p private_rule" and f: "py_eq f fallback_rule"
    and mid: "\<forall>v\<in>set mid. \<exists>u. routes_user v u \<and> (\<forall>t. rule_matches t v \<longleftrightarrow> tf_user t = Some u) \<and>
       (\<exists>target. section_of v ''outboundTag'' = VStr target \<and> target \<noteq> ''DIRECT'' \<and> VStr target \<in> set (outbound_tags cfg))"
    and block: "VStr ''BLOCK'' \<in> set (outbound_tags cfg)" and first: "hd (outbound_tags cfg) = VStr ''BLOCK''"
    using assms by (rule accepted_shape)
  have ne: "list_items (vget cfg ''outbounds'') \<noteq> []" using block by (auto simp: outbound_tags_def)
  then have dflt: "section_of (hd (list_items (vget cfg ''outbounds''))) ''tag'' = VStr ''BLOCK''"
    using first by (simp add: outbound_tags_def hd_map)
  have route: "route_traffic cfg t = (if tf_private t then VStr ''BLOCK'' else
      case find (rule_matches t) mid of Some rule \<Rightarrow> section_of rule ''outboundTag'' | None \<Rightarrow> VStr ''BLOCK'')"
    using shape eq_private_rule [OF p] eq_fallback_rule [OF f] dflt
    by (auto simp: route_traffic_def config_rules_def find_append split: option.splits)
  show ?thesis
  proof (cases "find (rule_matches t) mid")
    case None
    with route block show ?thesis by auto
  next
    case (Some rule)
    then have "rule \<in> set mid" "rule_matches t rule" by (auto simp: find_Some_iff)
    with mid shape route Some block show ?thesis by (fastforce split: if_splits)
  qed
qed

section \<open>Messages and projections\<close>

text \<open>The fixed texts the validator can return.\<close>

definition validation_messages :: "string list" where
  "validation_messages =
     [''XRAY_LOG_LEVEL is invalid'',
      ''repo-owned Xray inbound is malformed'',
      ''repo-owned Xray inbound contains unknown fields'',
      ''repo-owned Xray inbound tag is invalid'',
      ''repo-owned Xray inbound listen is invalid'',
      ''repo-owned Xray inbound port is invalid'',
      ''repo-owned Xray inbound protocol is invalid'',
      ''repo-owned Xray inbound settings are malformed'',
      ''repo-owned Xray inbound settings contain unknown fields'',
      ''repo-owned Xray clients skeleton is invalid'',
      ''repo-owned Xray decryption is invalid'',
      ''repo-owned Xray streamSettings are malformed'',
      ''repo-owned Xray streamSettings contain unknown fields'',
      ''repo-owned Xray network is invalid'',
      ''repo-owned Xray security is invalid'',
      ''repo-owned Xray Reality settings are malformed'',
      ''repo-owned Xray Reality settings contain unknown fields'',
      ''repo-owned Xray Reality show is invalid'',
      ''repo-owned Xray Reality xver is invalid'',
      ''repo-owned Xray Reality dest is invalid'',
      ''repo-owned Xray Reality serverNames are invalid'',
      ''repo-owned Xray Reality identity is invalid'',
      ''repo-owned Xray outbound contains unknown fields'',
      ''unsupported repo-owned Xray outbound protocol'',
      ''repo-owned Xray outbound settings are malformed'',
      ''repo-owned Xray outbound settings contain unknown fields'',
      ''repo-owned Xray outbound servers are malformed'',
      ''repo-owned Xray outbound server is malformed'',
      ''repo-owned Xray server is malformed'',
      ''repo-owned Xray outbound host is invalid'',
      ''repo-owned Xray outbound port is invalid'',
      ''repo-owned Xray outbound users are malformed'',
      ''repo-owned Xray outbound credential is malformed'',
      ''repo-owned Xray credential is malformed'',
      ''repo-owned Xray credential is invalid'',
      ''repo-owned Xray outbound is malformed'',
      ''repo-owned Xray outbound tag is invalid'',
      ''DIRECT'',
      ''DIRECT fallback is not permitted'',
      ''repo-owned Xray BLOCK outbound is malformed'',
      ''repo-owned Xray BLOCK outbound is invalid'',
      ''repo-owned Xray routing rule is malformed'',
      ''repo-owned Xray route is malformed'',
      ''repo-owned Xray route type is invalid'',
      ''repo-owned Xray route principal is invalid'',
      ''repo-owned Xray route references missing outbound'',
      ''repo-owned Xray routing is malformed'',
      ''repo-owned Xray routing contains unknown fields'',
      ''repo-owned Xray domainStrategy is invalid'',
      ''repo-owned Xray routing rules are malformed'',
      ''repo-owned Xray private BLOCK rule must be first'',
      ''repo-owned Xray tcp,udp BLOCK rule must be last'',
      ''repo-owned Xray config must be an object'',
      ''repo-owned Xray config contains unknown top-level fields'',
      ''repo-owned Xray log is malformed'',
      ''repo-owned Xray log contains unknown fields'',
      ''repo-owned Xray inbounds are malformed'',
      ''repo-owned Xray outbounds are malformed'',
      ''repo-owned Xray BLOCK outbound is missing'']"

definition fails_in :: "'e set \<Rightarrow> 'e + 'a \<Rightarrow> bool" where
  "fails_in M r \<longleftrightarrow> (\<forall>e. r = Inl e \<longrightarrow> e \<in> M)"

lemma fails_in_intros:
  "fails_in M (Inr x)"
  "msg \<in> M \<Longrightarrow> fails_in M (Inl msg)"
  "fails_in M m \<Longrightarrow> (\<And>x. fails_in M (f x)) \<Longrightarrow> fails_in M (bindS m f)"
  "fails_in M n \<Longrightarrow> fails_in M k \<Longrightarrow> fails_in M (thenS n k)"
  "msg \<in> M \<Longrightarrow> fails_in M (require b msg)"
  "msg \<in> M \<Longrightarrow> fails_in M (as_mapping v msg)"
  "msg \<in> M \<Longrightarrow> fails_in M (check_keys d ks msg)"
  "msg \<in> M \<Longrightarrow> fails_in M (nonblank_string v msg)"
  "msg \<in> M \<Longrightarrow> fails_in M (valid_port v msg)"
  "msg \<in> M \<Longrightarrow> fails_in M (string_list v allow msg)"
  "(\<And>x. fails_in M (g x)) \<Longrightarrow> fails_in M (each g xs)"
  "fails_in M r1 \<Longrightarrow> fails_in M r2 \<Longrightarrow> fails_in M (if c then r1 else r2)"
  subgoal by (simp add: fails_in_def)
  subgoal by (simp add: fails_in_def)
  subgoal by (cases m) (simp_all add: fails_in_def)
  subgoal by (cases n) (simp_all add: fails_in_def)
  subgoal by (simp add: fails_in_def fails)
  subgoal by (simp add: fails_in_def fails)
  subgoal by (simp add: fails_in_def fails)
  subgoal by (simp add: fails_in_def fails)
  subgoal by (auto simp: fails_in_def dest: valid_port_Inl)
  subgoal by (auto simp: fails_in_def dest: string_list_Inl)
  subgoal by (induction xs) (simp_all add: fails_in_def fails)
  subgoal by simp
  done

lemma fails_in_cases:
  "fails_in M a \<Longrightarrow> (\<And>x. fails_in M (f1 x)) \<Longrightarrow> (\<And>x. fails_in M (f2 x)) \<Longrightarrow> (\<And>x. fails_in M (f3 x)) \<Longrightarrow>
   (\<And>x. fails_in M (f4 x)) \<Longrightarrow> (\<And>x. fails_in M (f5 x)) \<Longrightarrow> fails_in M (case_pyval a f1 f2 f3 f4 f5 v)"
  "fails_in M a \<Longrightarrow> (\<And>x ys. fails_in M (g x ys)) \<Longrightarrow> fails_in M (case_list a g xs)"
  by (cases v; simp) (cases xs; simp)

lemma validator_messages:
  defines "M \<equiv> set validation_messages"
  shows "fails_in M (check_owned_inbound v)" "fails_in M (check_socks_outbound d)"
    "fails_in M (check_owned_outbound first tags v)" "fails_in M (check_owned_rule tags seen v)"
    "fails_in M (normalize_log_level v)"
proof -
  show "fails_in M (check_owned_inbound v)"
    unfolding check_owned_inbound_def by (intro fails_in_intros) (simp_all add: M_def validation_messages_def)
  show *: "fails_in M (check_socks_outbound d)" for d
    unfolding check_socks_outbound_def by (intro fails_in_intros) (simp_all add: M_def validation_messages_def)
  show "fails_in M (check_owned_outbound first tags v)"
    unfolding check_owned_outbound_def by (intro fails_in_intros *) (simp_all add: M_def validation_messages_def)
  show "fails_in M (check_owned_rule tags seen v)"
    unfolding check_owned_rule_def
    by (intro fails_in_intros fails_in_cases) (simp_all add: M_def validation_messages_def)
  show "fails_in M (normalize_log_level v)"
    unfolding normalize_log_level_def Let_def
    by (intro fails_in_intros fails_in_cases) (simp_all add: M_def validation_messages_def)
qed

lemma validate_messages: "fails_in (set validation_messages) (validate_repo_owned v)"
proof -
  have outs: "fails_in (set validation_messages) (check_owned_outbounds first tags vs)" for first tags vs
    by (induction vs arbitrary: first tags) (simp_all add: fails_in_intros(1,3) validator_messages)
  have rules: "fails_in (set validation_messages) (check_owned_rules tags seen vs)" for tags seen vs
    by (induction vs arbitrary: seen) (simp_all add: fails_in_intros(1,3) validator_messages)
  show ?thesis
    unfolding validate_repo_owned_def check_owned_routing_def Let_def
    by (intro fails_in_intros validator_messages outs rules) (simp_all add: validation_messages_def)
qed

section \<open>A sample render\<close>

definition sample_template :: "pyval dict" where
  "sample_template =
     [(''log'', VMap [(''loglevel'', VStr ''warning'')]),
      (''inbounds'', VList [VMap [(''tag'', VStr ''vless-reality''), (''listen'', VStr ''0.0.0.0''), (''port'', VInt 8443),
         (''protocol'', VStr ''vless''),
         (''settings'', VMap [(''clients'', VList []), (''decryption'', VStr ''none'')]),
         (''streamSettings'', VMap [(''network'', VStr ''tcp''), (''security'', VStr ''reality''),
            (''realitySettings'', VMap [(''show'', VBool False), (''dest'', VStr []), (''xver'', VInt 0),
               (''serverNames'', VList []), (''privateKey'', VStr []), (''shortIds'', VList [])])])]]),
      (''outbounds'', VList []),
      (''routing'', VMap [(''domainStrategy'', VStr ''AsIs''), (''rules'', VList [])])]"

definition sample_input :: xray_full_config_input where
  "sample_input =
     \<lparr>xi_skeleton = [\<lparr>si_listen = ''0.0.0.0'', si_port = 8443, si_protocol = ''vless''\<rparr>],
      xi_deployment = \<lparr>dc_log_level = ''info'', dc_reality_dest = ''d:443'', dc_server_names = [''d'']\<rparr>,
      xi_reality = \<lparr>rc_private_key = ''k'', rc_short_ids = [''ab'']\<rparr>,
      xi_desired = \<lparr>dr_user_routes = [(''2.b'', ''egress-2''), (''1.a'', ''egress-1'')],
         dr_outbounds = [\<lparr>xo_tag = ''egress-1'', xo_host = ''h1'', xo_port = 1080, xo_protocol = ''socks5'', xo_credential_secret_ref = ''r1''\<rparr>,
                         \<lparr>xo_tag = ''egress-2'', xo_host = ''h2'', xo_port = 1081, xo_protocol = ''socks'', xo_credential_secret_ref = ''r2''\<rparr>]\<rparr>,
      xi_credentials = [(''r1'', \<lparr>cr_username = ''u1'', cr_password = ''p1''\<rparr>), (''r2'', \<lparr>cr_username = ''u2'', cr_password = ''p2''\<rparr>)]\<rparr>"

lemmas string_defs = strip_def lstrip_def rstrip_by_def py_isspace_def lower_def lower_char_def

lemmas value_defs = as_mapping_def check_keys_def nonblank_string_def valid_port_def string_list_def

lemma sample_compose: "\<exists>cfg. compose_xray_config sample_input = Inr cfg"
  by (simp add: sample_input_def compose_xray_config_def compose_outbound_def compose_rule_def value_defs string_defs
      sorted_items_def Let_def)

lemma sample_from_template: "from_template sample_template = Inr (xi_skeleton sample_input)"
  by (simp add: sample_input_def sample_template_def from_template_def check_template_inbound_def value_defs string_defs
      xray_static_skeleton_def project_inbound_def)

lemma sample_deployment: "deployment_config '' info '' ''d:443'' [''d ''] = Inr (xi_deployment sample_input)"
  by (simp add: sample_input_def deployment_config_def normalize_log_level_def allowed_log_levels_def value_defs string_defs)

lemma sample_reality: "reality_config ''k'' [''ab''] = Inr (xi_reality sample_input)"
  by (simp add: sample_input_def reality_config_def value_defs string_defs)

lemma sample_desired:
  "distinct (dict_keys (dr_user_routes (xi_desired sample_input)))"
  "''DIRECT'' \<notin> xo_tag ` set (dr_outbounds (xi_desired sample_input))"
  by (simp_all add: sample_input_def)

definition minimal_config :: "pyval dict" where
  "minimal_config =
     [(''log'', VMap [(''loglevel'', VStr ''none'')]),
      (''inbounds'', VList [compose_inbound (xi_deployment sample_input) (xi_reality sample_input)
         \<lparr>si_listen = ''0.0.0.0'', si_port = 8443, si_protocol = ''vless''\<rparr>]),
      (''outbounds'', VList [block_outbound]),
      (''routing'', VMap [(''rules'', VList [private_rule, fallback_rule]), (''domainStrategy'', VStr ''AsIs'')])]"

lemma minimal_config_valid: "validate_repo_owned_xray_config (VMap minimal_config) = []"
  by (simp add: minimal_config_def validate_repo_owned_xray_config_def validate_repo_owned_def check_owned_inbound_def
      compose_inbound_def sample_input_def check_owned_outbound_def block_outbound_def check_owned_routing_def
      normalize_log_level_def allowed_log_levels_def value_defs string_defs insert_commute)

section \<open>Properties\<close>



text \<open>
  C23. The composed file routes as desired: traffic to private addresses and traffic of a user
  without a route goes to BLOCK, every other user's traffic to the outbound its route names.
\<close>

theorem composed_config_routes_as_desired:
  assumes "compose_xray_config i = Inr cfg" and "distinct (dict_keys (dr_user_routes (xi_desired i)))"
  shows "route_traffic cfg t = VStr (if tf_private t then ''BLOCK'' else
     (case Option.bind (tf_user t) (dict_get (dr_user_routes (xi_desired i))) of
        Some target \<Rightarrow> target | None \<Rightarrow> ''BLOCK''))"
  by (rule compose_routing [OF assms])

theorem composed_config_routes_as_desired_witness:
  "\<exists>cfg. compose_xray_config sample_input = Inr cfg \<and>
     route_traffic cfg \<lparr>tf_user = Some ''1.a'', tf_private = False, tf_network = ''tcp''\<rparr> = VStr ''egress-1'' \<and>
     route_traffic cfg \<lparr>tf_user = Some ''3.c'', tf_private = False, tf_network = ''tcp''\<rparr> = VStr ''BLOCK''"
proof -
  obtain cfg where cfg: "compose_xray_config sample_input = Inr cfg" using sample_compose by blast
  show ?thesis
    using cfg composed_config_routes_as_desired [OF cfg sample_desired(1)] by (simp add: sample_input_def)
qed

text \<open>
  C9. Every file the validator accepts is fail-closed: all traffic goes to an outbound the file
  declares, never to DIRECT, and traffic to private addresses or of a user no rule names goes to
  BLOCK.
\<close>

theorem accepted_config_is_fail_closed:
  assumes "validate_repo_owned_xray_config (VMap cfg) = []"
  shows "(\<exists>tag. route_traffic cfg t = VStr tag \<and> tag \<noteq> ''DIRECT'' \<and> VStr tag \<in> set (outbound_tags cfg)) \<and>
    (tf_private t \<or> (\<forall>u rule. tf_user t = Some u \<and> rule \<in> set (config_rules cfg) \<longrightarrow> \<not> routes_user rule u) \<longrightarrow>
      route_traffic cfg t = VStr ''BLOCK'')"
proof -
  have "validate_repo_owned (VMap cfg) = Inr ()"
    using assms by (simp add: validate_repo_owned_xray_config_def split: sum.splits)
  then show ?thesis by (rule accepted_fail_closed)
qed

theorem accepted_config_is_fail_closed_witness:
  "\<exists>tag. route_traffic minimal_config \<lparr>tf_user = Some ''1.a'', tf_private = True, tf_network = ''tcp''\<rparr> = VStr tag \<and>
     tag \<noteq> ''DIRECT'' \<and> VStr tag \<in> set (outbound_tags minimal_config)"
  using accepted_config_is_fail_closed [OF minimal_config_valid] by blast

text \<open>
  What the validator reports is one of its fixed texts, so no value of the file (a private
  key or a password) can reach a log through it.
\<close>

theorem validator_reports_fixed_texts:
  "set (validate_repo_owned_xray_config v) \<subseteq> set validation_messages"
  using validate_messages [of v]
  by (auto simp: validate_repo_owned_xray_config_def fails_in_def split: sum.splits)

text \<open>
  When the comparison of a candidate with the observed file reports nothing, both are valid
  and have the same canonical text, hence the same fingerprint.
\<close>

theorem projection_agreement:
  assumes "repo_owned_projection_errors expected observed = []"
  shows "\<exists>text. repo_owned_xray_projection expected = Inr text \<and> repo_owned_xray_projection observed = Inr text \<and>
    repo_owned_xray_fingerprint sha256 expected = repo_owned_xray_fingerprint sha256 observed"
  using assms
  by (auto simp: repo_owned_projection_errors_def repo_owned_xray_fingerprint_def repo_owned_xray_projection_def Let_def
      split: if_splits)

theorem projection_agreement_witness:
  "\<exists>text. repo_owned_xray_projection (VMap minimal_config) = Inr text \<and>
     repo_owned_xray_fingerprint id (VMap minimal_config) = repo_owned_xray_fingerprint id (VMap minimal_config)"
proof -
  have "repo_owned_projection_errors (VMap minimal_config) (VMap minimal_config) = []"
    by (simp add: repo_owned_projection_errors_def minimal_config_valid)
  from projection_agreement [OF this, of id] show ?thesis by blast
qed

end
