(* ===== verification/Provisioning_State_Properties.thy ===== *)
theory Provisioning_State_Properties
  imports Provisioning_State Xray_Properties
begin

text \<open>
  What the database adapter of the saga guarantees: every routing snapshot it returns can be
  composed into an Xray file that routes as the table says, an endpoint is given to one
  subscription at a time, a route is written only under the lock, and the credentials it saves
  are the ones the resolver returns.
\<close>

section \<open>The routing snapshot\<close>

abbreviation row_route :: "snapshot_row \<Rightarrow> gateway_route_binding" where
  "row_route \<equiv> fst"

definition good_outbound :: "xray_outbound_dto \<Rightarrow> bool" where
  "good_outbound out \<longleftrightarrow> nonblank (xo_tag out) \<and> xo_tag out \<noteq> ''BLOCK'' \<and> nonblank (xo_host out) \<and>
     1 \<le> xo_port out \<and> xo_port out \<le> 65535 \<and> (lower (xo_protocol out) = ''socks'' \<or> lower (xo_protocol out) = ''socks5'')"

definition good_acc :: "snapshot_acc \<Rightarrow> bool" where
  "good_acc acc \<longleftrightarrow> distinct (map fst (fst acc)) \<and> distinct (map fst (snd acc)) \<and>
     (\<forall>(t, out)\<in>set (snd acc). xo_tag out = t \<and> good_outbound out) \<and>
     (\<forall>(p, t)\<in>set (fst acc). nonblank p \<and> t \<in> fst ` set (snd acc))"

lemma dict_get_None: "dict_get d k = None \<longleftrightarrow> k \<notin> fst ` set d"
  by (simp add: map_of_eq_None_iff)

lemma update_new: "k \<notin> fst ` set d \<Longrightarrow> dict_set d k v = d @ [(k, v)]"
  by (induction d) auto

lemma snapshot_step_good:
  assumes "snapshot_step d acc row = Inr acc'" and "good_acc acc"
  shows "good_acc acc' \<and> fst acc' = fst acc @ [(gr_gateway_principal (row_route row), gr_outbound_tag (row_route row))]"
  using assms
  by (cases acc; cases row; cases "fst (snd row)")
    (auto simp: snapshot_step_def checks dict_get_None update_new good_acc_def good_outbound_def)

lemma snapshot_fold_good:
  assumes "foldS (snapshot_step d) acc rows = Inr acc'" and "good_acc acc"
  shows "good_acc acc' \<and>
    fst acc' = fst acc @ map (\<lambda>row. (gr_gateway_principal (row_route row), gr_outbound_tag (row_route row))) rows"
  using assms
proof (induction rows arbitrary: acc)
  case (Cons row rows)
  then obtain b where b: "snapshot_step d acc row = Inr b" "foldS (snapshot_step d) b rows = Inr acc'"
    by (auto simp: checks)
  from snapshot_step_good [OF b(1) Cons.prems(2)] Cons.IH [OF b(2)] show ?case by simp
qed simp

lemma row_routes: "set (map row_route (snapshot_rows d)) = set (filter active_route (db_routes d))"
proof -
  have "partners bs \<noteq> []" for bs :: "egress_binding list" by (simp add: partners_def)
  then have "row_route ` set (map (\<lambda>b. (r, e, b)) (partners bs)) = {r}" for r e and bs :: "egress_binding list"
    by (simp add: image_image image_constant_conv)
  then show ?thesis by (simp add: snapshot_rows_def snapshot_routes_def image_UN image_image)
qed

lemma snapshot_acc:
  assumes "routing_snapshot d = Inr st"
  obtains acc where "good_acc acc" "dr_user_routes st = fst acc" "dr_outbounds st = map snd (sorted_items (snd acc))"
    and "fst acc = map (\<lambda>row. (gr_gateway_principal (row_route row), gr_outbound_tag (row_route row))) (snapshot_rows d)"
proof -
  obtain acc where acc: "foldS (snapshot_step d) ([], []) (snapshot_rows d) = Inr acc"
    "st = \<lparr>dr_user_routes = fst acc, dr_outbounds = map snd (sorted_items (snd acc))\<rparr>"
    using assms by (auto simp: routing_snapshot_def checks)
  then show ?thesis using snapshot_fold_good [OF acc(1)] by (intro that [of acc]) (auto simp: good_acc_def)
qed

text \<open>The outbound a principal's traffic takes according to the table.\<close>

definition route_of :: "database \<Rightarrow> string \<Rightarrow> string" where
  "route_of d p = (case find (\<lambda>r. active_route r \<and> gr_gateway_principal r = p) (db_routes d) of
     Some r \<Rightarrow> gr_outbound_tag r | None \<Rightarrow> ''BLOCK'')"

lemma map_of_unique: "distinct (map fst d) \<Longrightarrow> (k, v) \<in> set d \<Longrightarrow> map_of d k = Some v"
  by simp

lemma snapshot_routes_lookup:
  assumes "routing_snapshot d = Inr st"
  shows "(case dict_get (dr_user_routes st) p of Some t \<Rightarrow> t | None \<Rightarrow> ''BLOCK'') = route_of d p"
proof -
  obtain acc where good: "good_acc acc" and st: "dr_user_routes st = fst acc"
    and routes: "fst acc = map (\<lambda>row. (gr_gateway_principal (row_route row), gr_outbound_tag (row_route row))) (snapshot_rows d)"
    using snapshot_acc [OF assms] by blast
  then have dist: "distinct (map fst (fst acc))" by (simp add: good_acc_def)
  have set_routes: "set (fst acc) = (\<lambda>r. (gr_gateway_principal r, gr_outbound_tag r)) ` set (filter active_route (db_routes d))"
    unfolding routes row_routes [symmetric] by (auto simp: image_image)
  show ?thesis
  proof (cases "find (\<lambda>r. active_route r \<and> gr_gateway_principal r = p) (db_routes d)")
    case None
    then have "p \<notin> fst ` set (fst acc)" unfolding set_routes by (auto simp: find_None_iff)
    with None st show ?thesis by (simp add: route_of_def dict_get_None [THEN iffD2])
  next
    case (Some r)
    then have "active_route r" "r \<in> set (db_routes d)" "gr_gateway_principal r = p"
      by (auto simp: find_Some_iff)
    then have "(p, gr_outbound_tag r) \<in> set (fst acc)" unfolding set_routes by auto
    with dist have "map_of (fst acc) p = Some (gr_outbound_tag r)" by simp
    with Some st show ?thesis by (simp add: route_of_def)
  qed
qed

section \<open>Composition of a snapshot\<close>

lemma lower_socks_nonblank: "lower p = ''socks'' \<or> lower p = ''socks5'' \<Longrightarrow> nonblank p"
proof
  assume "lower p = ''socks'' \<or> lower p = ''socks5''" and "strip p = []"
  then obtain c cs where "p = c # cs" "lower_char c = CHR ''s''" "py_isspace c"
    by (cases p) (auto simp: lower_def strip_eq_Nil)
  then show False
    by (auto simp: lower_char_def py_isspace_def Let_def split: if_splits)
qed

definition resolves :: "credential_dto dict \<Rightarrow> xray_outbound_dto \<Rightarrow> bool" where
  "resolves creds out = (case dict_get creds (xo_credential_secret_ref out) of
     Some c \<Rightarrow> nonblank (cr_username c) \<and> nonblank (cr_password c) | None \<Rightarrow> False)"

lemma compose_outbound_ok:
  assumes "good_outbound out" and "resolves creds out" and "xo_tag out \<notin> set tags"
  shows "\<exists>v. compose_outbound creds tags out = Inr v"
  using assms lower_socks_nonblank [of "xo_protocol out"]
  by (auto simp: compose_outbound_def good_outbound_def resolves_def nonblank_string_def valid_port_def
      split: option.splits)

lemma compose_outbounds_ok:
  assumes "list_all good_outbound outs" and "list_all (resolves creds) outs"
    and "distinct (map xo_tag outs)" and "set tags \<inter> xo_tag ` set outs = {}"
  shows "\<exists>vs. compose_outbounds creds tags outs = Inr vs"
  using assms
proof (induction outs arbitrary: tags)
  case (Cons out outs)
  then obtain v where v: "compose_outbound creds tags out = Inr v"
    using compose_outbound_ok [of out creds tags] by auto
  have "set (xo_tag out # tags) \<inter> xo_tag ` set outs = {}" using Cons.prems by auto
  then obtain vs where "compose_outbounds creds (xo_tag out # tags) outs = Inr vs"
    using Cons.IH [of "xo_tag out # tags"] Cons.prems by auto
  with v show ?case by simp
qed simp

lemma mapS_ok: "list_all (\<lambda>x. \<exists>y. f x = Inr y) xs \<Longrightarrow> \<exists>ys. mapS f xs = Inr ys"
  by (induction xs) auto

lemma compose_ok:
  assumes "routing_snapshot d = Inr (xi_desired i)"
    and "list_all (resolves (xi_credentials i)) (dr_outbounds (xi_desired i))"
  shows "\<exists>cfg. compose_xray_config i = Inr cfg"
    and "distinct (dict_keys (dr_user_routes (xi_desired i)))"
proof -
  obtain acc where good: "good_acc acc" and routes: "dr_user_routes (xi_desired i) = fst acc"
    and outs: "dr_outbounds (xi_desired i) = map snd (sorted_items (snd acc))"
    using snapshot_acc [OF assms(1)] by blast
  have tags: "map xo_tag (dr_outbounds (xi_desired i)) = map fst (sorted_items (snd acc))"
    using good by (auto simp: outs good_acc_def)
  have "distinct (map xo_tag (dr_outbounds (xi_desired i)))" using good by (simp add: tags good_acc_def)
  moreover have "list_all good_outbound (dr_outbounds (xi_desired i))"
    using good by (auto simp: outs good_acc_def list_all_iff)
  ultimately obtain vs where vs: "compose_outbounds (xi_credentials i) [] (dr_outbounds (xi_desired i)) = Inr vs"
    using compose_outbounds_ok [of _ "xi_credentials i" "[]"] assms(2) by auto
  have "list_all (\<lambda>x. \<exists>y. compose_rule (map xo_tag (dr_outbounds (xi_desired i))) x = Inr y)
      (sorted_items (dr_user_routes (xi_desired i)))"
    unfolding list_all_iff
  proof
    fix x assume x: "x \<in> set (sorted_items (dr_user_routes (xi_desired i)))"
    obtain p t where pt: "x = (p, t)" by (cases x)
    with x good obtain out where "nonblank p" "(t, out) \<in> set (snd acc)"
      by (auto simp: routes good_acc_def)
    moreover from this good have "nonblank t" "t \<noteq> ''BLOCK''" by (auto simp: good_acc_def good_outbound_def)
    ultimately show "\<exists>y. compose_rule (map xo_tag (dr_outbounds (xi_desired i))) x = Inr y"
      unfolding tags by (auto simp: compose_rule_def pt intro: rev_image_eqI)
  qed
  then obtain rs where "mapS (compose_rule (map xo_tag (dr_outbounds (xi_desired i))))
      (sorted_items (dr_user_routes (xi_desired i))) = Inr rs"
    using mapS_ok by blast
  with vs show "\<exists>cfg. compose_xray_config i = Inr cfg" by (simp add: compose_xray_config_def Let_def)
  show "distinct (dict_keys (dr_user_routes (xi_desired i)))" using good by (simp add: routes good_acc_def)
qed

section \<open>Endpoints\<close>

text \<open>No active binding refers to an endpoint that can be allocated.\<close>

definition free_unbound :: "database \<Rightarrow> bool" where
  "free_unbound d \<longleftrightarrow> distinct (map ee_id (db_endpoints d)) \<and> (\<forall>e\<in>set (db_endpoints d). 0 < ee_id e) \<and>
     (\<forall>e\<in>set (db_endpoints d). \<forall>b\<in>set (db_bindings d).
        allocatable e \<and> active_binding b \<longrightarrow> eb_egress_id b \<noteq> ee_id e)"

lemma not_allocatable_assigned: "\<not> allocatable (e\<lparr>ee_current_count := 1, ee_status := ''ASSIGNED''\<rparr>)"
  by (simp add: allocatable_def)

lemma free_unbound_assign:
  assumes "free_unbound d" and "e \<in> set (db_endpoints d)" and "ee_id e' = ee_id e" and "\<not> allocatable e'"
  shows "free_unbound (put_endpoint e' d)"
  using assms by (auto simp: free_unbound_def dest!: set_tbl_put)

lemma free_unbound_bind:
  assumes "free_unbound d" and "\<forall>e\<in>set (db_endpoints d). ee_id e = i \<longrightarrow> \<not> allocatable e"
  shows "free_unbound (new_binding sub i d)"
  using assms by (auto simp: free_unbound_def new_binding_def)

text \<open>What an allocation guarantees: the endpoint was free and is now taken.\<close>

definition allocated :: "database \<Rightarrow> egress_endpoint_dto \<Rightarrow> database \<Rightarrow> bool" where
  "allocated d dto d' \<longleftrightarrow> (\<exists>e\<in>set (db_endpoints d). allocatable e \<and> dto = endpoint_dto e \<and>
     (\<forall>b\<in>set (db_bindings d). active_binding b \<longrightarrow> eb_egress_id b \<noteq> ee_id e) \<and>
     (\<forall>e'\<in>set (db_endpoints d'). ee_id e' = ee_id e \<longrightarrow> \<not> allocatable e')) \<and>
   set (db_bindings d) \<subseteq> set (db_bindings d') \<and> free_unbound d'"

lemma allocate_allocated:
  assumes "free_unbound (se_work s)"
  shows "wpE (allocate_endpoint X sub customer_id)
    (\<lambda>dto t. allocated (se_work s) dto (se_work t) \<and> se_store t = se_store s)
    (\<lambda>_ t. se_store t = se_store s) s"
proof -
  have taken: "\<not> allocatable e'"
    if "e \<in> set (db_endpoints d)" "e' \<in> set (tbl_put ee_id (e\<lparr>ee_current_count := 1, ee_status := ''ASSIGNED''\<rparr>) (db_endpoints d))"
      "ee_id e' = ee_id e" for e e' d
    using that by (auto simp: tbl_put_def not_allocatable_assigned split: if_splits)
  have ok: "allocated d (endpoint_dto e) (f (put_endpoint (e\<lparr>ee_current_count := 1, ee_status := ''ASSIGNED''\<rparr>) d))"
    if "free_unbound d" "first_by ee_id (filter allocatable (db_endpoints d)) = Some e"
      "f = id \<or> f = new_binding sub (ee_id e)" for d e f
  proof -
    let ?d = "put_endpoint (e\<lparr>ee_current_count := 1, ee_status := ''ASSIGNED''\<rparr>) d"
    from first_by_filter [OF that(2)] have e: "e \<in> set (db_endpoints d)" "allocatable e" by auto
    have d': "free_unbound ?d" using that(1) e(1) by (rule free_unbound_assign) (simp_all add: not_allocatable_assigned)
    moreover have "free_unbound (new_binding sub (ee_id e) ?d)"
      using d' by (rule free_unbound_bind) (use taken [OF e(1)] in auto)
    ultimately have "free_unbound (f ?d)" using that(3) by auto
    moreover have "set (db_bindings d) \<subseteq> set (db_bindings (f ?d))" "db_endpoints (f ?d) = db_endpoints ?d"
      using that(3) by (auto simp: new_binding_def)
    moreover have "\<forall>b\<in>set (db_bindings d). active_binding b \<longrightarrow> eb_egress_id b \<noteq> ee_id e"
      using that(1) e by (auto simp: free_unbound_def)
    ultimately show ?thesis using e taken [OF e(1)] unfolding allocated_def by force
  qed
  show ?thesis
    using assms ok [OF assms, of _ id] ok [OF assms, of _ "new_binding sub _"]
    by (auto simp: allocate_endpoint_def subscription_of_customer_def wp split: option.splits)
qed

section \<open>Credentials\<close>

text \<open>A subscription with an active binding cannot get one on another endpoint.\<close>

lemma second_binding_rejected:
  assumes "b \<in> set bs" "active_binding b" "eb_subscription_id b = sub" "eb_egress_id b \<noteq> i"
    and "b' \<in> set bs" "active_binding b'" "eb_subscription_id b' = sub" "eb_egress_id b' = i"
  shows "\<not> unique_bindings bs"
proof
  assume "unique_bindings bs"
  then have "inj_on eb_subscription_id (set (filter active_binding bs))"
    by (simp add: unique_bindings_def distinct_map)
  with assms have "b = b'" by (auto dest: inj_onD)
  with assms show False by simp
qed


lemma only_secrets_bindings: "only_secrets d d' \<Longrightarrow> db_bindings d' = db_bindings d"
  by (cases d; cases d') (simp add: only_secrets_def)

lemma save_second_binding:
  assumes "db_id (ep_endpoint_id endpoint) ''endpoint_id'' = Inr i"
    and "distinct (map eb_id (db_bindings (se_work s)))"
    and "b \<in> set (db_bindings (se_work s))" "active_binding b" "eb_subscription_id b = sub" "eb_egress_id b \<noteq> i"
  shows "wpE (save_credentials X C sub endpoint credential) (\<lambda>_ _. False) (\<lambda>_ _. True) s"
proof -
  let ?mine = "\<lambda>b. eb_subscription_id b = sub \<and> eb_egress_id b = i \<and> active_binding b"
  have reject: "\<not> constraints_hold (put_binding (b'\<lparr>eb_credential_secret_ref := Some ref\<rparr>) d)"
    if "distinct (map eb_id (db_bindings d))" "b \<in> set (db_bindings d)" "find ?mine (db_bindings d) = Some b'" for d b' ref
  proof -
    from that(3) have b': "b' \<in> set (db_bindings d)" "?mine b'" by (auto simp: find_Some_iff)
    have "b \<noteq> b'" using b' assms(6) by auto
    with that b' have "eb_id b \<noteq> eb_id b'" by (auto simp: distinct_map dest: inj_onD)
    then have "b \<in> set (tbl_put eb_id (b'\<lparr>eb_credential_secret_ref := Some ref\<rparr>) (db_bindings d))"
      using that by (intro mem_tbl_put_other) auto
    moreover have "b'\<lparr>eb_credential_secret_ref := Some ref\<rparr> \<in> set (tbl_put eb_id (b'\<lparr>eb_credential_secret_ref := Some ref\<rparr>) (db_bindings d))"
      using b' by (intro mem_tbl_put_same [of b']) auto
    ultimately show ?thesis
      using second_binding_rejected [OF _ assms(4,5,6)] b' by (fastforce simp: constraints_hold_def)
  qed
  have fresh: "distinct (map eb_id (db_bindings (new_binding sub i d)))" "b \<in> set (db_bindings (new_binding sub i d))"
    "\<exists>b'. find ?mine (db_bindings (new_binding sub i d)) = Some b'"
    if "distinct (map eb_id (db_bindings d))" "b \<in> set (db_bindings d)" "find ?mine (db_bindings d) = None" for d
    using that bindings.distinct_add [of d] next_id_fresh [of eb_id "db_bindings d"]
    by (auto simp: new_binding_def find_append)
  have rows: "distinct (map eb_id (db_bindings d))" "b \<in> set (db_bindings d)" if "only_secrets (se_work s) d" for d
    using only_secrets_bindings [OF that] assms(2,3) by simp_all
  have found: False
    if "only_secrets (se_work s) d" "find ?mine (db_bindings d) = None" "find ?mine (db_bindings (new_binding sub i d)) = None" for d
    using fresh(3) [OF rows [OF that(1)] that(2)] that(3) by auto
  show ?thesis
    unfolding save_credentials_def Let_def
    by (auto simp: wp assms(1) reject [OF rows] reject [OF fresh(1,2) [OF rows]]
        split: option.splits intro!: put_secret_frame [THEN wp_mono] dest: found)
qed

text \<open>Saved credentials, as the resolver reads them.\<close>

lemma credential_text_reads:
  "json_loads (credential_text c) = Some (VMap [(''username'', VStr (cr_username c)), (''password'', VStr (cr_password c))])"
  unfolding credential_text_def by (rule json_loads_text) simp

lemma credential_text_not_Nil: "credential_text c \<noteq> []"
  by (simp add: credential_text_def)

lemma save_credentials_holds:
  assumes "fernet_ok C" and "list_all (\<lambda>r. 0 < sc_revision r) (db_secrets (se_work s))"
  shows "wpE (save_credentials X C sub endpoint credential)
    (\<lambda>ref t. holds_secret C ref (credential_text credential) ''WEBSHARE_SUBUSER_PROXY_CREDENTIAL'' (se_work t) \<and>
       list_all (\<lambda>r. 0 < sc_revision r) (db_secrets (se_work t)) \<and> nonblank ref)
    (\<lambda>_ _. True) s"
proof -
  have keep: "db_secrets (put_binding b d) = db_secrets d" "db_secrets (new_binding sub i d) = db_secrets d" for b i d
    by (simp_all add: new_binding_def)
  have cong: "holds_secret C ref p q d = holds_secret C ref p q d'" if "db_secrets d = db_secrets d'" for ref p q d d'
    by (simp add: holds_secret_def that)
  have ref: "nonblank (binding_secret_ref sub i)" for i
    by (simp add: binding_secret_ref_def strip_eq_Nil py_isspace_def)
  have put: "wpE (put_secret X C r p q) (\<lambda>_ t. holds_secret C r p q (se_work t) \<and>
      list_all (\<lambda>r. 0 < sc_revision r) (db_secrets (se_work t))) (\<lambda>_ _. True) s" for r p q
    using wp_conj [THEN iffD2, OF conjI, OF put_secret_holds [OF assms(1)] put_secret_frame]
    by (rule wp_mono) (use assms(2) in \<open>auto simp: only_secrets_def\<close>)
  show ?thesis
    unfolding save_credentials_def Let_def
    by (auto simp: wp ref keep cong [OF keep(1)] cong [OF keep(2)] cong [OF trans [OF keep(1) keep(2)]]
        split: option.splits sum.splits intro!: put [THEN wp_mono])
qed

section \<open>Route bindings\<close>

lemma ensure_needs_lock:
  "\<not> se_lock_held s \<Longrightarrow> \<exists>msg. ensure_gateway_route_binding X sub p endpoint s = (Inl (Exn GatewayRouteBindingLockError msg), s)"
  by (simp add: ensure_gateway_route_binding_def eff_defs)

text \<open>The tag of an endpoint is taken for good: the constraint on the tag also covers released rows.\<close>

lemma tag_taken_rejected:
  assumes "r \<in> set rs" "r' \<in> set rs" "r \<noteq> r'" "gr_outbound_tag r = gr_outbound_tag r'"
  shows "\<not> unique_routes rs"
  using assms by (auto simp: unique_routes_def distinct_map dest: inj_onD)

lemma ensure_taken_tag:
  assumes "db_id (ep_endpoint_id endpoint) ''endpoint_id'' = Inr i" and "distinct (map gr_id (db_routes (se_work s)))"
    and "r \<in> set (db_routes (se_work s))" "gr_outbound_tag r = route_tag i"
    and "gr_subscription_id r \<noteq> sub \<or> gr_released_at r \<noteq> None"
  shows "wpE (ensure_gateway_route_binding X sub p endpoint) (\<lambda>_ _. False) (\<lambda>_ _. True) s"
proof -
  let ?mine = "\<lambda>r. gr_subscription_id r = sub \<and> gr_released_at r = None"
  let ?d = "se_work s"
  have new: "\<not> constraints_hold (new_route sub i p ?d)"
  proof -
    have "route_tag i \<in> gr_outbound_tag ` set (db_routes ?d)" using assms(3,4) by (metis imageI)
    then show ?thesis by (simp add: constraints_hold_def new_route_def unique_routes_def)
  qed
  have upd: "\<not> constraints_hold (put_route (q\<lparr>gr_egress_id := i, gr_gateway_principal := p,
       gr_outbound_tag := route_tag i, gr_enabled := True\<rparr>) ?d)" if "find ?mine (db_routes ?d) = Some q" for q
  proof -
    let ?q = "q\<lparr>gr_egress_id := i, gr_gateway_principal := p, gr_outbound_tag := route_tag i, gr_enabled := True\<rparr>"
    from that have q: "q \<in> set (db_routes ?d)" "?mine q" by (auto simp: find_Some_iff)
    with assms have "r \<noteq> q" by auto
    with q assms have ids: "gr_id r \<noteq> gr_id q" by (auto simp: distinct_map dest: inj_onD)
    have "r \<in> set (tbl_put gr_id ?q (db_routes ?d))" "?q \<in> set (tbl_put gr_id ?q (db_routes ?d))"
      using assms(3) ids q(1) by (auto intro: mem_tbl_put_other mem_tbl_put_same [of q])
    moreover have "r \<noteq> ?q" using ids by auto
    ultimately show ?thesis using assms(4) tag_taken_rejected [of r _ ?q] by (auto simp: constraints_hold_def)
  qed
  show ?thesis
    unfolding ensure_gateway_route_binding_def using new upd by (auto simp: wp assms(1) split: option.splits)
qed

lemma filter_tbl_put:
  "(\<And>x. x \<in> set t \<Longrightarrow> key x = key r \<Longrightarrow> \<not> P x) \<Longrightarrow> \<not> P r \<Longrightarrow> filter P (tbl_put key r t) = filter P t"
  by (induction t) (auto simp: tbl_put_def)

text \<open>The table after a write: the subscription's route is live, the other routes are untouched.\<close>

definition route_written :: "int \<Rightarrow> int \<Rightarrow> string \<Rightarrow> database \<Rightarrow> database \<Rightarrow> bool" where
  "route_written sub i p d d' \<longleftrightarrow>
     (\<exists>q\<in>set (db_routes d'). active_route q \<and> gr_subscription_id q = sub \<and> gr_egress_id q = i \<and>
        gr_gateway_principal q = p \<and> gr_outbound_tag q = route_tag i) \<and>
     filter (\<lambda>q. gr_subscription_id q \<noteq> sub) (db_routes d') = filter (\<lambda>q. gr_subscription_id q \<noteq> sub) (db_routes d)"

lemma route_written_new: "route_written sub i p d (new_route sub i p d)"
  by (simp add: route_written_def new_route_def)

lemma route_written_put:
  assumes "distinct (map gr_id (db_routes d))"
    and "find (\<lambda>r. gr_subscription_id r = sub \<and> gr_released_at r = None) (db_routes d) = Some q"
  shows "route_written sub i p d (put_route (q\<lparr>gr_egress_id := i, gr_gateway_principal := p,
    gr_outbound_tag := route_tag i, gr_enabled := True\<rparr>) d)" (is "route_written sub i p d (put_route ?q d)")
proof -
  from assms(2) have q: "q \<in> set (db_routes d)" "gr_subscription_id q = sub" "gr_released_at q = None"
    by (auto simp: find_Some_iff)
  have "?q \<in> set (tbl_put gr_id ?q (db_routes d))" using q(1) by (rule mem_tbl_put_same) simp
  moreover have "filter (\<lambda>q. gr_subscription_id q \<noteq> sub) (tbl_put gr_id ?q (db_routes d)) =
      filter (\<lambda>q. gr_subscription_id q \<noteq> sub) (db_routes d)"
    using assms(1) q by (intro filter_tbl_put) (auto simp: distinct_map dest: inj_onD)
  ultimately show ?thesis unfolding route_written_def using q by (intro conjI bexI [of _ ?q]) simp_all
qed

lemma ensure_writes:
  assumes "distinct (map gr_id (db_routes (se_work s)))"
  shows "wpE (ensure_gateway_route_binding X sub p endpoint)
    (\<lambda>_ t. se_lock_held s \<and> unique_routes (db_routes (se_work t)) \<and>
       (\<exists>i. db_id (ep_endpoint_id endpoint) ''endpoint_id'' = Inr i \<and> route_written sub i p (se_work s) (se_work t)))
    (\<lambda>_ _. True) s"
  unfolding ensure_gateway_route_binding_def
  using route_written_new [of sub _ p "se_work s"] route_written_put [OF assms, of sub _ _ p]
  by (simp add: wp constraints_hold_def split: option.splits sum.splits)

section \<open>Sample database\<close>

definition quiet_oracle :: db_oracle where
  "quiet_oracle = \<lparr>do_statement = (\<lambda>_. None), do_commit = (\<lambda>_. None), do_rollback = (\<lambda>_. None), do_now = int\<rparr>"

definition plain_cipher :: secret_env where
  "plain_cipher = \<lparr>sx_key_valid = True, sx_encrypt = (\<lambda>n p. CHR ''x'' # p), sx_decrypt = (\<lambda>c. case c of [] \<Rightarrow> None | _ # p \<Rightarrow> Some p), sx_mysql = True\<rparr>"

definition endpoint_row :: "int \<Rightarrow> string \<Rightarrow> int \<Rightarrow> egress_endpoint" where
  "endpoint_row i status n = \<lparr>ee_id = i, ee_group_id = 1, ee_code = ''E'' @ show_int i, ee_host = ''h'', ee_port = 1080, ee_protocol = ''socks5'', ee_purpose = ''PRODUCTION'',
     ee_credential_secret_ref = ''ref'', ee_status = status, ee_capacity = 1, ee_current_count = n, ee_mihomo_listen_port = 7000 + i\<rparr>"

definition empty_forwarder :: forwarder_tables where
  "empty_forwarder = \<lparr>fw_route_groups = [], fw_route_bindings = [], fw_route_egress = [], fw_rules = [], fw_egress_groups = [],
     fw_providers = [], fw_nodes = [], fw_assignments = [], fw_receipts = [], fw_capacity_alerts = [], fw_generations = []\<rparr>"

definition empty_db :: database where
  "empty_db = \<lparr>db_jobs = [], db_subscriptions = [], db_orders = [], db_plans = [], db_periods = [], db_samples = [], db_deltas = [],
     db_alerts = [], db_endpoints = [], db_bindings = [], db_routes = [], db_secrets = [], db_audit = [],
     db_forwarder = empty_forwarder\<rparr>"

definition subscription_row :: "int \<Rightarrow> subscription" where
  "subscription_row i = \<lparr>sb_id = i, sb_customer_id = 3, sb_plan_id = 1, sb_order_id = i, sb_accounting_user_id = Some ''u'',
     sb_token_hash = None, sb_token_created_at = None, sb_token_revoked_at = None, sb_status = SubProvisioning,
     sb_service_expire_at = 0, sb_current_period_id = None, sb_reconcile_state = Pending, sb_reconcile_attempts = 0,
     sb_provision_error = None, sb_last_usage_synced_at = None\<rparr>"

definition route_row :: "int \<Rightarrow> int \<Rightarrow> string \<Rightarrow> datetime option \<Rightarrow> gateway_route_binding" where
  "route_row i egress p released = \<lparr>gr_id = i, gr_subscription_id = i, gr_egress_id = egress, gr_gateway_principal = p,
     gr_outbound_tag = route_tag egress, gr_enabled = (released = None), gr_released_at = released\<rparr>"

definition session_on :: "database \<Rightarrow> bool \<Rightarrow> unit session" where
  "session_on d held = \<lparr>se_work = d, se_store = d, se_tick = 0, se_lock_held = held, se_world = ()\<rparr>"

definition sample_db :: database where
  "sample_db = empty_db\<lparr>db_subscriptions := [subscription_row 1, subscription_row 2],
     db_endpoints := [endpoint_row 1 ''ASSIGNED'' 1, endpoint_row 2 ''AVAILABLE'' 0, endpoint_row 3 ''AVAILABLE'' 0],
     db_bindings := [\<lparr>eb_id = 1, eb_subscription_id = 1, eb_egress_id = 1, eb_credential_secret_ref = None, eb_released_at = None\<rparr>],
     db_routes := [route_row 1 1 ''1.a'' None, route_row 9 2 ''9.z'' (Some 5)]\<rparr>"

section \<open>Properties\<close>

text \<open>
  C5. The database decides the routing. Whenever the snapshot of the routing tables is accepted
  and every outbound's credential resolves, the Xray file can be composed from it, and the file
  sends each principal's traffic to the outbound of its active route row and all other traffic
  to BLOCK.
\<close>

theorem snapshot_routes_traffic:
  assumes "routing_snapshot d = Inr (xi_desired i)"
    and "list_all (resolves (xi_credentials i)) (dr_outbounds (xi_desired i))"
  shows "\<exists>cfg. compose_xray_config i = Inr cfg \<and>
    (\<forall>t. route_traffic cfg t = VStr (if tf_private t then ''BLOCK'' else
       (case tf_user t of Some p \<Rightarrow> route_of d p | None \<Rightarrow> ''BLOCK'')))"
proof -
  obtain cfg where cfg: "compose_xray_config i = Inr cfg" using compose_ok(1) [OF assms] by blast
  show ?thesis
    using cfg compose_routing [OF cfg compose_ok(2) [OF assms]] snapshot_routes_lookup [OF assms(1)]
    by (auto split: option.splits)
qed

definition sample_desired_state :: desired_routing_state where
  "sample_desired_state = \<lparr>dr_user_routes = [(''1.a'', ''egress-1'')],
     dr_outbounds = [\<lparr>xo_tag = ''egress-1'', xo_host = ''h'', xo_port = 1080, xo_protocol = ''socks5'', xo_credential_secret_ref = ''ref''\<rparr>]\<rparr>"

lemma sample_snapshot: "routing_snapshot sample_db = Inr sample_desired_state"
  by code_simp

definition sample_routing_input :: xray_full_config_input where
  "sample_routing_input = sample_input\<lparr>xi_desired := sample_desired_state,
     xi_credentials := [(''ref'', \<lparr>cr_username = ''u'', cr_password = ''p''\<rparr>)]\<rparr>"

theorem snapshot_routes_traffic_witness:
  "\<exists>cfg. compose_xray_config sample_routing_input = Inr cfg \<and>
     route_traffic cfg \<lparr>tf_user = Some ''1.a'', tf_private = False, tf_network = ''tcp''\<rparr> = VStr ''egress-1'' \<and>
     route_traffic cfg \<lparr>tf_user = Some ''9.z'', tf_private = False, tf_network = ''tcp''\<rparr> = VStr ''BLOCK''"
proof -
  have snap: "routing_snapshot sample_db = Inr (xi_desired sample_routing_input)"
    by (simp add: sample_snapshot sample_routing_input_def)
  have "list_all (resolves (xi_credentials sample_routing_input)) (dr_outbounds (xi_desired sample_routing_input))"
    by code_simp
  from snapshot_routes_traffic [OF snap this] obtain cfg where cfg: "compose_xray_config sample_routing_input = Inr cfg"
    and route: "\<And>t. route_traffic cfg t = VStr (if tf_private t then ''BLOCK'' else
       (case tf_user t of Some p \<Rightarrow> route_of sample_db p | None \<Rightarrow> ''BLOCK''))" by blast
  have rows: "route_of sample_db ''1.a'' = ''egress-1''" "route_of sample_db ''9.z'' = ''BLOCK''" by code_simp+
  show ?thesis
  proof (intro exI conjI)
    show "compose_xray_config sample_routing_input = Inr cfg" by (fact cfg)
    show "route_traffic cfg \<lparr>tf_user = Some ''1.a'', tf_private = False, tf_network = ''tcp''\<rparr> = VStr ''egress-1''"
      by (simp only: route traffic.simps option.case if_False rows)
    show "route_traffic cfg \<lparr>tf_user = Some ''9.z'', tf_private = False, tf_network = ''tcp''\<rparr> = VStr ''BLOCK''"
      by (simp only: route traffic.simps option.case if_False rows)
  qed
qed

lemma db_id_show: "0 < i \<Longrightarrow> db_id (show_int i) label = Inr i"
  by (simp add: db_id_def py_int_show_int)



text \<open>
  A run that is retried while the subscription still holds a binding cannot store its
  credentials: the allocation hands out a second endpoint without a binding, and saving the
  credentials for it always raises, because the subscription may have only one active binding.
\<close>

theorem retried_run_cannot_store_credentials:
  assumes "free_unbound (se_work s)" and "distinct (map eb_id (db_bindings (se_work t)))"
    and "b \<in> set (db_bindings (se_work s))" "active_binding b" "eb_subscription_id b = sub"
    and "allocate_endpoint X sub customer s = (Inr dto, t)"
  shows "\<exists>exc. fst (save_credentials X C sub dto credential t) = Inl exc"
proof -
  have "allocated (se_work s) dto (se_work t)"
    using allocate_allocated [OF assms(1), of X sub customer] assms(6) by (simp add: wp_run)
  then obtain e where e: "e \<in> set (db_endpoints (se_work s))" "dto = endpoint_dto e" "eb_egress_id b \<noteq> ee_id e"
    and kept: "b \<in> set (db_bindings (se_work t))"
    using assms(3,4) by (auto simp: allocated_def)
  have "db_id (ep_endpoint_id dto) ''endpoint_id'' = Inr (ee_id e)"
    using e assms(1) by (simp add: endpoint_dto_def db_id_show free_unbound_def)
  from save_second_binding [OF this assms(2) kept assms(4,5) e(3), of X C credential]
  show ?thesis by (auto simp: wpE_def split: prod.splits sum.splits)
qed

theorem retried_run_cannot_store_credentials_witness:
  "\<exists>dto t exc. allocate_endpoint quiet_oracle 1 ''3'' (session_on sample_db False) = (Inr dto, t) \<and>
     fst (save_credentials quiet_oracle plain_cipher 1 dto \<lparr>cr_username = ''u'', cr_password = ''p''\<rparr> t) = Inl exc"
proof -
  let ?t = "snd (allocate_endpoint quiet_oracle 1 ''3'' (session_on sample_db False))"
  let ?b = "\<lparr>eb_id = 1, eb_subscription_id = 1, eb_egress_id = 1, eb_credential_secret_ref = None, eb_released_at = None\<rparr>"
  have free: "free_unbound (se_work (session_on sample_db False))" by code_simp
  have ids: "distinct (map eb_id (db_bindings (se_work ?t)))" by code_simp
  have b: "?b \<in> set (db_bindings (se_work (session_on sample_db False)))" by code_simp
  have run: "allocate_endpoint quiet_oracle 1 ''3'' (session_on sample_db False) = (Inr (endpoint_dto (endpoint_row 2 ''AVAILABLE'' 0)), ?t)"
    by code_simp
  from retried_run_cannot_store_credentials [OF free ids b _ _ run] run show ?thesis by fastforce
qed

text \<open>
  A gateway route is written only under the named lock: without it the call raises and the
  session is unchanged. When the call returns, the subscription has an active route to the
  endpoint under the principal, all routes satisfy the unique constraints, and the routes of the
  other subscriptions are the same as before.
\<close>

theorem route_binding_written_under_lock:
  assumes "distinct (map gr_id (db_routes (se_work s)))"
  shows "case ensure_gateway_route_binding X sub p endpoint s of
      (Inl exc, t) \<Rightarrow> se_lock_held s \<or> (exn_class exc = GatewayRouteBindingLockError \<and> t = s)
    | (Inr _, t) \<Rightarrow> se_lock_held s \<and> unique_routes (db_routes (se_work t)) \<and>
        (\<exists>i. db_id (ep_endpoint_id endpoint) ''endpoint_id'' = Inr i \<and> route_written sub i p (se_work s) (se_work t))"
  using ensure_writes [OF assms, of X sub p endpoint] ensure_needs_lock [of s X sub p endpoint]
  by (auto simp: wpE_def split: prod.splits sum.splits)

theorem route_binding_written_under_lock_witness:
  "\<exists>t. ensure_gateway_route_binding quiet_oracle 2 ''2.b'' (endpoint_dto (endpoint_row 3 ''ASSIGNED'' 1)) (session_on sample_db True) = (Inr (), t) \<and>
     route_written 2 3 ''2.b'' sample_db (se_work t)"
proof -
  have "distinct (map gr_id (db_routes (se_work (session_on sample_db True))))" by code_simp
  note spec = route_binding_written_under_lock [OF this, where X = quiet_oracle and sub = 2 and p = "''2.b''" and
      endpoint = "endpoint_dto (endpoint_row 3 ''ASSIGNED'' 1)"]
  have "fst (ensure_gateway_route_binding quiet_oracle 2 ''2.b'' (endpoint_dto (endpoint_row 3 ''ASSIGNED'' 1)) (session_on sample_db True)) = Inr ()"
    by code_simp
  moreover have "db_id (ep_endpoint_id (endpoint_dto (endpoint_row 3 ''ASSIGNED'' 1))) ''endpoint_id'' = Inr 3" by code_simp
  ultimately show ?thesis using spec by (auto split: prod.splits simp: session_on_def)
qed

text \<open>
  C37. The outbound tag of an endpoint is unique over all route rows, released ones included, so
  an endpoint that once was routed for a subscription cannot be routed for another one, nor again
  after a release: the call never returns normally.
\<close>

theorem released_tag_blocks_endpoint:
  assumes "db_id (ep_endpoint_id endpoint) ''endpoint_id'' = Inr i" and "distinct (map gr_id (db_routes (se_work s)))"
    and "r \<in> set (db_routes (se_work s))" "gr_outbound_tag r = route_tag i"
    and "gr_subscription_id r \<noteq> sub \<or> gr_released_at r \<noteq> None"
  shows "\<exists>exc. fst (ensure_gateway_route_binding X sub p endpoint s) = Inl exc"
  using ensure_taken_tag [OF assms, of X p] by (auto simp: wpE_def split: prod.splits sum.splits)

theorem released_tag_blocks_endpoint_witness:
  "\<exists>exc. fst (ensure_gateway_route_binding quiet_oracle 2 ''2.b'' (endpoint_dto (endpoint_row 2 ''ASSIGNED'' 1))
     (session_on sample_db True)) = Inl exc"
proof (rule released_tag_blocks_endpoint)
  show "db_id (ep_endpoint_id (endpoint_dto (endpoint_row 2 ''ASSIGNED'' 1))) ''endpoint_id'' = Inr 2" by code_simp
  show "distinct (map gr_id (db_routes (se_work (session_on sample_db True))))" by code_simp
  show "route_row 9 2 ''9.z'' (Some 5) \<in> set (db_routes (se_work (session_on sample_db True)))" by code_simp
qed code_simp+

text \<open>
  C35. The credentials a run saves are the ones the gateway later renders: after a successful
  save the resolver returns exactly the credential that was saved, through JSON and the cipher.
\<close>

theorem saved_credentials_resolve:
  assumes "fernet_ok C" and "list_all (\<lambda>r. 0 < sc_revision r) (db_secrets (se_work s))"
    and "nonblank (cr_username c)" and "nonblank (cr_password c)"
    and "save_credentials X C sub endpoint c s = (Inr ref, t)" and "do_statement X (se_tick t) = None"
  shows "resolve_credential X C ref t = (Inr c, ticked t)"
proof -
  have holds: "holds_secret C ref (credential_text c) ''WEBSHARE_SUBUSER_PROXY_CREDENTIAL'' (se_work t)"
    and rev: "list_all (\<lambda>r. 0 < sc_revision r) (db_secrets (se_work t))" and ref: "nonblank ref"
    using save_credentials_holds [OF assms(1,2), of X sub endpoint c] assms(5) by (simp_all add: wp_run)
  then obtain row where row: "find_secret ref (se_work t) = Some row" "decrypt_secret C (sc_ciphertext row) = Inr (credential_text c)"
    by (auto simp: holds_secret_def split: option.splits)
  then have "0 < sc_revision row" using rev tbl_get_Some by (fastforce simp: list_all_iff)
  with row ref assms(3,4,6) show ?thesis
    by (simp add: resolve_credential_def resolve_egress_credential_def loads_secret_def credential_text_reads
        egress_credential_of_def nonblank_string_def check_keys_def db_read_def eff_defs Let_def as_mapping_def insert_commute)
qed

theorem saved_credentials_resolve_witness:
  "\<exists>ref t. save_credentials quiet_oracle plain_cipher 2 (endpoint_dto (endpoint_row 3 ''ASSIGNED'' 1)) \<lparr>cr_username = ''u'', cr_password = ''p''\<rparr>
      (session_on sample_db False) = (Inr ref, t) \<and>
     resolve_credential quiet_oracle plain_cipher ref t = (Inr \<lparr>cr_username = ''u'', cr_password = ''p''\<rparr>, ticked t)"
proof -
  let ?run = "save_credentials quiet_oracle plain_cipher 2 (endpoint_dto (endpoint_row 3 ''ASSIGNED'' 1)) \<lparr>cr_username = ''u'', cr_password = ''p''\<rparr>
      (session_on sample_db False)"
  have ok: "fernet_ok plain_cipher" by (simp add: fernet_ok_def plain_cipher_def)
  have rev: "list_all (\<lambda>r. 0 < sc_revision r) (db_secrets (se_work (session_on sample_db False)))" by code_simp
  have "fst ?run = Inr (binding_secret_ref 2 3)" by code_simp
  then have run: "?run = (Inr (binding_secret_ref 2 3), snd ?run)" by (metis prod.collapse)
  moreover have "resolve_credential quiet_oracle plain_cipher (binding_secret_ref 2 3) (snd ?run) =
      (Inr \<lparr>cr_username = ''u'', cr_password = ''p''\<rparr>, ticked (snd ?run))"
    by (rule saved_credentials_resolve [OF ok rev _ _ run])
      (simp_all add: strip_eq_Nil py_isspace_def quiet_oracle_def)
  ultimately show ?thesis by blast
qed

end
