(* ===== verification/Gateway_Guarantees.thy ===== *)
theory Gateway_Guarantees
  imports Gateway_Machine Provisioning_State_Properties
begin

text \<open>
  What the route lock and the durable gateway reconciliation guarantee, whichever statement,
  commit, lock call or provider call fails: the lock is given back and never leaks into the pool,
  the gateway changes only under it and after a committed job, a job ends finalised or blocks
  every later writer, and the committed rows move along the job machine, which bounds the number
  of attempts.
\<close>

section \<open>Blocked writers\<close>

lemma wp_raises: "wpE m (\<lambda>_ _. False) E s \<Longrightarrow> \<exists>e. fst (m s) = Inl e"
  by (auto simp: wpE_def split: prod.splits sum.splits)

text \<open>A session on this data cannot pass the writers' guard.\<close>

definition writers_blocked :: "database \<Rightarrow> bool" where
  "writers_blocked d \<longleftrightarrow> (\<forall>X (u :: unit session). se_work u = d \<longrightarrow>
     (\<exists>e. fst (assert_no_unresolved_gateway_mutation X u) = Inl e))"

lemma unresolved_blocks:
  assumes "unresolved_gateway_job d"
  shows "writers_blocked d"
proof -
  have "wpE (assert_no_unresolved_gateway_mutation X) (\<lambda>_ _. False) (\<lambda>_ _. True) u" if "se_work u = d" for X and u :: "unit session"
    unfolding assert_no_unresolved_gateway_mutation_def by (intro vcg) (use assms that in simp_all)
  from wp_raises [OF this] show ?thesis by (simp add: writers_blocked_def)
qed

lemma unresolved_unresolved: "unresolved i d \<Longrightarrow> unresolved_gateway_job d"
  by (auto simp: unresolved_def split: option.splits intro: unresolved_running)

section \<open>Samples\<close>

definition quiet_lock :: lock_oracle where
  "quiet_lock = \<lparr>lo_bind_error = (\<lambda>_. None), lo_connect_error = (\<lambda>_. None), lo_configure_error = (\<lambda>_. None),
     lo_database = Inr (Some ''lingsway''), lo_get = (\<lambda>_. Granted), lo_release = (\<lambda>_. Released)\<rparr>"

text \<open>A gateway that counts what it applied.\<close>

definition counting_gateway :: "nat gateway" where
  "counting_gateway = \<lparr>gw_render = (\<lambda>_ _ n. (Inr VNone, n)), gw_validate = (\<lambda>_ n. (Inr \<lparr>vr_valid = True, vr_errors = []\<rparr>, n)),
     gw_apply = (\<lambda>_ n. (Inr \<lparr>ar_applied = True, ar_version = ''v1'', ar_rolled_back = False\<rparr>, Suc n)),
     gw_notify = (\<lambda>_ n. (Inr (), n))\<rparr>"

definition sample_payload :: "pyval dict" where
  "sample_payload = [(''operation_kind'', VStr ''PURCHASE''), (''subscription_id'', VInt 1), (''order_id'', VInt 1)]"

definition sample_job :: job where
  "sample_job = new_gateway_job ''GATEWAY_RECONCILE:PURCHASE:1'' sample_payload 0\<lparr>jb_id := 1\<rparr>"

definition sample_order :: order where
  "sample_order = \<lparr>od_id = 1, od_customer_id = 3, od_plan_id = 1, od_target_subscription_id = None, od_status = OrderPaid,
     od_payment_status = PaymentPaid, od_payment_provider = None, od_payment_reference = None, od_paid_at = Some 0, od_activated_at = None\<rparr>"

definition gateway_db :: database where
  "gateway_db = sample_db\<lparr>db_jobs := [sample_job], db_orders := [sample_order]\<rparr>"

definition gateway_session :: "database \<Rightarrow> nat world session" where
  "gateway_session d = \<lparr>se_work = d, se_store = d, se_tick = 0, se_lock_held = False,
     se_world = \<lparr>w_locked = False, w_pool = [], w_gateway = 0, w_applied = []\<rparr>\<rparr>"

section \<open>The route lock\<close>

text \<open>Code that runs under the lock leaves the lock, its connection and the marker alone.\<close>

definition lock_neutral :: "('g, 'a) gdb \<Rightarrow> bool" where
  "lock_neutral body \<longleftrightarrow> (\<forall>s. let t = snd (body s) in
     w_locked (se_world t) = w_locked (se_world s) \<and> w_pool (se_world t) = w_pool (se_world s) \<and> se_lock_held t = se_lock_held s)"

definition pool_clean :: "'g world \<Rightarrow> 'g world \<Rightarrow> bool" where
  "pool_clean w w' \<longleftrightarrow> \<not> w_locked w' \<and> (w_pool w' = w_pool w \<or> w_pool w' = w_pool w @ [False])"

lemma route_lock_gives_back:
  fixes s :: "'g world session"
  assumes "\<not> w_locked (se_world s)" and "lock_neutral body"
  shows "wpE (gateway_route_binding_write L body)
    (\<lambda>_ t. pool_clean (se_world s) (se_world t) \<and> se_lock_held t = se_lock_held s)
    (\<lambda>_ t. pool_clean (se_world s) (se_world t) \<and> se_lock_held t = se_lock_held s) s"
proof (rule wp_route_lock [OF assms(1)])
  fix t assume "acquired s t"
  then have "w_pool (se_world (snd (body t))) = w_pool (se_world s)"
    using assms(2) by (simp add: lock_neutral_def Let_def acquired_def)
  then show "wpE body
      (\<lambda>x. after_release (se_lock_held s) (\<lambda>t. (pool_clean (se_world s) (se_world t) \<and> se_lock_held t = se_lock_held s) \<and>
        (\<forall>e. pool_clean (se_world s) (se_world t) \<and> se_lock_held t = se_lock_held s)))
      (\<lambda>e. after_release (se_lock_held s) (\<lambda>t. \<forall>e. pool_clean (se_world s) (se_world t) \<and> se_lock_held t = se_lock_held s)) t"
    by (auto simp: wpE_def after_release_def same_data_def unlocked_world_def pool_clean_def split: prod.splits sum.splits)
qed (simp add: same_data_def unlocked_world_def pool_clean_def)

lemma route_lock_refused:
  assumes "\<not> w_locked (se_world s)" and "\<forall>n. lo_get L n \<noteq> Granted"
  shows "wpE (gateway_route_binding_write L body) (\<lambda>_ _. False) (\<lambda>e t. same_data s t \<and> (\<exists>message. e = lock_error message)) s"
  unfolding gateway_route_binding_write_def lock_step_def get_lock_def close_connection_def
  using assms
  by (auto simp: wp same_data_def unlocked_world_def gateway_route_binding_lock_name_def Let_def
      split: option.splits sum.splits lock_reply.splits if_splits)

text \<open>
  C13. The named lock around the gateway routes is safe whatever the lock connection does. When
  GET_LOCK does not grant it, the call raises a lock error and neither the session's data nor the
  gateway changes. In every case the lock is free afterwards, the session's marker is as before,
  and the connection that held the lock is either discarded or returned to the pool without it:
  no pooled connection may still hold the lock.
\<close>

theorem route_lock_never_leaks:
  fixes s :: "'g world session"
  assumes "\<not> w_locked (se_world s)" and "lock_neutral body"
  shows "case gateway_route_binding_write L body s of (r, t) \<Rightarrow>
    pool_clean (se_world s) (se_world t) \<and> se_lock_held t = se_lock_held s \<and>
    ((\<forall>n. lo_get L n \<noteq> Granted) \<longrightarrow> same_data s t \<and> (\<exists>message. r = Inl (lock_error message)))"
  using route_lock_gives_back [OF assms, of L] route_lock_refused [OF assms(1), of L body]
  by (auto simp: wpE_def split: prod.splits sum.splits)

definition grumpy_lock :: lock_oracle where
  "grumpy_lock = quiet_lock\<lparr>lo_get := (\<lambda>_. GetRaised (Exn RuntimeError ''lost'') True)\<rparr>"

theorem route_lock_never_leaks_witness:
  "w_pool (se_world (snd (gateway_route_binding_write grumpy_lock (retE ()) (gateway_session gateway_db)))) = [] \<and>
   \<not> w_locked (se_world (snd (gateway_route_binding_write grumpy_lock (retE ()) (gateway_session gateway_db))))"
proof -
  have "\<not> w_locked (se_world (gateway_session gateway_db))" "lock_neutral (retE () :: (nat, unit) gdb)"
    by (simp_all add: gateway_session_def lock_neutral_def retE_def Let_def)
  note route_lock_never_leaks [OF this, of grumpy_lock]
  moreover have "w_pool (se_world (snd (gateway_route_binding_write grumpy_lock (retE ()) (gateway_session gateway_db)))) = []"
    by code_simp
  ultimately show ?thesis by (auto simp: pool_clean_def split: prod.splits)
qed

section \<open>Writers\<close>

lemma find_snoc: "find P (xs @ [x]) = (case find P xs of Some y \<Rightarrow> Some y | None \<Rightarrow> if P x then Some x else None)"
  by (induction xs) auto

definition enqueued :: "string \<Rightarrow> int \<Rightarrow> database \<Rightarrow> bool" where
  "enqueued k i d \<longleftrightarrow> map_option jb_id (job_by_key k d) = Some i"

lemma enqueued_add:
  assumes "job_by_key k d = None" and "jb_dedupe_key j = k"
  shows "enqueued k (next_id jb_id (db_jobs d)) (add_job j d)"
  using assms by (simp add: enqueued_def job_by_key_def add_job_def find_snoc)

lemma get_added: "get_job (add_job j d) (next_id jb_id (db_jobs d)) = Some (j\<lparr>jb_id := next_id jb_id (db_jobs d)\<rparr>)"
  using jobs.get_add_fresh [of "j\<lparr>jb_id := next_id jb_id (db_jobs d)\<rparr>" d] by (simp add: add_job_def)

lemma enqueue_enqueues:
  "wpE (enqueue_gateway_reconciliation X kind sub oid run op)
    (\<lambda>i t. enqueued (gateway_dedupe_key kind op) i (se_work t) \<and>
      (job_by_key (gateway_dedupe_key kind op) (se_work s) = None \<longrightarrow>
       (\<exists>j p. get_job (se_work t) i = Some j \<and> gateway_job j \<and> jb_status j = JobPending \<and> jb_attempts j = 0 \<and>
          job_payload j = Inr p \<and> gateway_payload kind sub oid run = Inr p))) (\<lambda>_ _. True) s"
  unfolding enqueue_gateway_reconciliation_def Let_def
  by (intro vcg)
    (auto simp: enqueued_add get_added new_gateway_job_def gateway_job_def job_payload_def, simp add: enqueued_def)

lemma enqueue_again:
  assumes "enqueued (gateway_dedupe_key kind op) i (se_work s)"
  shows "wpE (enqueue_gateway_reconciliation X kind sub oid run op)
    (\<lambda>k t. k = i \<and> se_work t = se_work s) (\<lambda>_ t. se_work t = se_work s) s"
  unfolding enqueue_gateway_reconciliation_def Let_def
  by (intro vcg) (use assms in \<open>auto simp: enqueued_def\<close>)

text \<open>
  Enqueueing a gateway reconciliation is idempotent. When the call returns a job id, the
  session holds a job with the operation's deduplication key under that id; if the key was
  unknown, it is a new PENDING job with no attempt whose payload reads back as the operation.
  Enqueueing the same operation again, with any arguments and whatever statements fail, changes
  no data and can only return the same id.
\<close>

theorem enqueue_is_idempotent:
  assumes "enqueue_gateway_reconciliation X kind sub oid run op s = (Inr i, t)"
  shows "enqueued (gateway_dedupe_key kind op) i (se_work t) \<and>
    (job_by_key (gateway_dedupe_key kind op) (se_work s) = None \<longrightarrow>
       (\<exists>j p. get_job (se_work t) i = Some j \<and> gateway_job j \<and> jb_status j = JobPending \<and> jb_attempts j = 0 \<and>
          job_payload j = Inr p \<and> gateway_payload kind sub oid run = Inr p)) \<and>
    (case enqueue_gateway_reconciliation X' kind sub' oid' run' op t of (r, u) \<Rightarrow>
       se_work u = se_work t \<and> (\<forall>k. r = Inr k \<longrightarrow> k = i))"
proof -
  note added = enqueue_enqueues [of X kind sub oid run op s, unfolded wpE_def assms, simplified]
  show ?thesis
    using added enqueue_again [OF conjunct1 [OF added], of X' sub' oid' run']
    by (auto simp: wpE_def split: prod.splits sum.splits)
qed

theorem enqueue_is_idempotent_witness:
  "\<exists>i t u. enqueue_gateway_reconciliation quiet_oracle ''RELEASE'' 2 None None ''2'' (gateway_session gateway_db) = (Inr i, t) \<and>
     enqueue_gateway_reconciliation quiet_oracle ''RELEASE'' 2 None None ''2'' t = (Inr i, u) \<and> length (db_jobs (se_work u)) = 2"
proof -
  let ?e = "enqueue_gateway_reconciliation quiet_oracle ''RELEASE'' 2 None None ''2'' :: (nat, int) gdb"
  let ?t = "snd (?e (gateway_session gateway_db))"
  have one: "?e (gateway_session gateway_db) = (Inr 2, ?t)" and two: "?e ?t = (Inr 2, snd (?e ?t))"
    and "length (db_jobs (se_work ?t)) = 2" by code_simp+
  moreover have "se_work (snd (?e ?t)) = se_work ?t"
    using enqueue_is_idempotent [OF one, of quiet_oracle 2 None None] by (auto split: prod.splits)
  ultimately show ?thesis by metis
qed

section \<open>One attempt\<close>

definition blocked_or_finalised :: "pyval dict \<Rightarrow> int \<Rightarrow> database \<Rightarrow> bool" where
  "blocked_or_finalised payload i d \<longleftrightarrow> (unresolved i d \<and> writers_blocked d) \<or> finalised payload i d"

lemma unresolved_blocked: "unresolved i d \<Longrightarrow> unresolved i d \<and> writers_blocked d"
  by (simp add: unresolved_blocks unresolved_unresolved)

lemma in_session_settles:
  assumes "get_job (se_work s) i = Some j" "gateway_job j" "job_payload j = Inr payload" and "unresolved i (se_store s)"
  shows "wpE (reconcile_gateway_job_in_session X G i) (attempt_returns payload i) (\<lambda>_. attempt_raises payload i) s"
proof -
  have ji: "jb_id j = i" using tbl_get_Some [OF assms(1)] by simp
  have run: "wpE (reconcile_claimed_job X G (mark_running now j)) (attempt_returns payload i) (\<lambda>_. attempt_raises payload i) t"
    if "se_work t = update_job i (mark_running now) (se_work s)" "se_store t = se_work t" for now t
    using reconcile_claimed_settles [of "mark_running now j" t payload X G] that assms ji
    by (auto simp: settled_def job_present_def unresolved_def get_update_job gateway_job_def job_payload_def mark_running_def)
  have marked: "unresolved i (update_job i (mark_running now) (se_work s))" for now
    using assms ji by (simp add: unresolved_def get_update_job gateway_job_def)
  show ?thesis
    unfolding reconcile_gateway_job_in_session_def
    by (intro vcg) (use assms marked in \<open>auto simp: attempt_raises_def intro: settled_unresolved intro!: run\<close>)
qed

text \<open>
  C2. The reconciliation run in the purchase's own session is all or nothing. Started on a
  committed job that is not yet succeeded, whatever statement, commit, rollback, probe or gateway
  call fails, lost answers of commits included: when it reports the job finalised, the committed
  data have the job SUCCEEDED and, for a purchase, the subscription active and the order
  activated. When it reports it as not finalised, the committed job is unresolved, and every
  later writer of routes raises. When it raises, one of the two holds.
\<close>

theorem in_session_all_or_nothing:
  assumes "get_job (se_work s) i = Some j" "gateway_job j" "job_payload j = Inr payload" and "unresolved i (se_store s)"
  shows "case reconcile_gateway_job_in_session X G i s of
      (Inr r, t) \<Rightarrow> gr_job_id r = i \<and>
        (if gr_finalized r then finalised payload i (se_store t) else unresolved i (se_store t) \<and> writers_blocked (se_store t))
    | (Inl e, t) \<Rightarrow> blocked_or_finalised payload i (se_store t)"
  using in_session_settles [OF assms, of X G]
  by (auto simp: wpE_def attempt_returns_def attempt_raises_def settled_def blocked_or_finalised_def unresolved_blocked
      split: prod.splits sum.splits if_splits)

text \<open>The commit of the finalisation lands but its answer is lost.\<close>

definition lossy_oracle :: db_oracle where
  "lossy_oracle = quiet_oracle\<lparr>do_commit := (\<lambda>n. if 4 < n then Some (Exn RuntimeError ''lost'', True) else None)\<rparr>"

theorem in_session_all_or_nothing_witness:
  "\<exists>r t. reconcile_gateway_job_in_session lossy_oracle counting_gateway 1 (gateway_session gateway_db) = (Inr r, t) \<and>
     gr_finalized r \<and> finalised sample_payload 1 (se_store t)"
proof -
  let ?s = "gateway_session gateway_db"
  let ?r = "reconcile_gateway_job_in_session lossy_oracle counting_gateway 1 ?s"
  have "get_job (se_work ?s) 1 = Some sample_job" "gateway_job sample_job" "job_payload sample_job = Inr sample_payload"
    "unresolved 1 (se_store ?s)" by code_simp+
  note in_session_all_or_nothing [OF this, of lossy_oracle counting_gateway]
  moreover have "?r = (Inr (reconciled 1), snd ?r)" by code_simp
  ultimately show ?thesis by (metis (no_types, lifting) old.prod.case sum.case(2) gateway_reconciliation_result.select_convs(3) reconciled_def)
qed

section \<open>The worker\<close>

lemma notify_follows:
  assumes "follows d (se_store s)" and "follows d (se_work s)"
  shows "wpE (notify_after_lock X G r) (\<lambda>_. follows_store d) (\<lambda>_. follows_store d) s"
  unfolding notify_after_lock_def by (intro vcg) (use assms in \<open>simp_all add: follows_store_def\<close>)

definition same_lock :: "'g world \<Rightarrow> 'g world \<Rightarrow> bool" where
  "same_lock w w' \<longleftrightarrow> w_locked w' = w_locked w \<and> w_pool w' = w_pool w \<and> w_applied w' = w_applied w"

lemma notify_same_lock:
  "wpE (notify_after_lock X G r) (\<lambda>_ t. same_lock (se_world s) (se_world t)) (\<lambda>_ t. same_lock (se_world s) (se_world t)) s"
  unfolding notify_after_lock_def by (intro vcg) (simp_all add: same_lock_def)

text \<open>What one run of the worker does to the world outside the database.\<close>

definition worker_world :: "'g world \<Rightarrow> 'g world \<Rightarrow> bool" where
  "worker_world w w' \<longleftrightarrow> pool_clean w w' \<and> (\<exists>new. w_applied w' = w_applied w @ new \<and> length new \<le> 1 \<and>
     (\<forall>(held, d) \<in> set new. held \<and> unresolved_gateway_job d))"

lemma worker_world_same: "worker_world w w' \<Longrightarrow> same_lock w' w'' \<Longrightarrow> worker_world w w''"
  by (simp add: worker_world_def same_lock_def pool_clean_def)

lemma commit_first_released:
  assumes "commit_first (se_world s\<lparr>w_locked := True\<rparr>) (se_world t)" and "same_data t t'"
  shows "worker_world (se_world s) (se_world t')"
  using assms by (auto simp: commit_first_def same_data_def unlocked_world_def worker_world_def pool_clean_def list_all_iff)

lemma worker_block_world:
  fixes s :: "'g world session"
  assumes "distinct (map jb_id (db_jobs (se_work s)))" and "\<not> w_locked (se_world s)"
  shows "wpE (gateway_route_binding_write L (locked_attempt X G))
    (\<lambda>_ t. worker_world (se_world s) (se_world t)) (\<lambda>_ t. worker_world (se_world s) (se_world t)) s"
proof (rule wp_route_lock [OF assms(2)])
  fix t assume t: "acquired s t"
  then have "wpE (locked_attempt X G) (\<lambda>_ u. commit_first (se_world t) (se_world u)) (\<lambda>_ u. commit_first (se_world t) (se_world u)) t"
    using assms(1) by (intro locked_attempt_commit_first) (simp_all add: acquired_def)
  then show "wpE (locked_attempt X G)
      (\<lambda>x. after_release (se_lock_held s) (\<lambda>u. worker_world (se_world s) (se_world u) \<and> (\<forall>e. worker_world (se_world s) (se_world u))))
      (\<lambda>e. after_release (se_lock_held s) (\<lambda>u. \<forall>e. worker_world (se_world s) (se_world u))) t"
    by (rule wp_mono) (use t in \<open>auto simp: after_release_def acquired_def intro: commit_first_released\<close>)
qed (auto simp: same_data_def unlocked_world_def worker_world_def pool_clean_def)

lemma reconcile_gateway_job_alt:
  "reconcile_gateway_job X L G = thenE fresh_session
     (bindE (gateway_route_binding_write L (locked_attempt X G)) (\<lambda>result.
     thenE (case result of
         Some r \<Rightarrow> if gr_applied r \<and> gr_finalized r then notify_after_lock X G r else retE ()
       | None \<Rightarrow> retE ())
     (retE result)))"
  by (simp add: reconcile_gateway_job_def locked_attempt_def)

text \<open>
  C7. The worker changes the running gateway at most once per run, only while the server grants
  it the route lock, and only when the committed data already have an unresolved gateway job, so
  a crash right after the change is found and repaired later. After the run the lock is free and
  no pooled connection holds it. This holds whatever statement, commit, lock call, provider call
  or notification fails.
\<close>

theorem worker_applies_under_lock_after_commit:
  fixes s :: "'g world session"
  assumes "distinct (map jb_id (db_jobs (se_store s)))" and "\<not> w_locked (se_world s)"
  shows "worker_world (se_world s) (se_world (snd (reconcile_gateway_job X L G s)))"
proof -
  let ?s = "s\<lparr>se_work := se_store s, se_lock_held := False\<rparr>"
  have tail: "wpE (thenE (case result of
         Some r \<Rightarrow> if gr_applied r \<and> gr_finalized r then notify_after_lock X G r else retE ()
       | None \<Rightarrow> retE ()) (retE result))
     (\<lambda>_ t. worker_world (se_world s) (se_world t)) (\<lambda>_ t. worker_world (se_world s) (se_world t)) t"
    if "worker_world (se_world s) (se_world t)" for result and t :: "'g world session"
    by (intro vcg wp_mono [OF notify_same_lock]) (use that worker_world_same in \<open>auto\<close>)
  have "wpE (reconcile_gateway_job X L G) (\<lambda>_ t. worker_world (se_world s) (se_world t)) (\<lambda>_ t. worker_world (se_world s) (se_world t)) s"
    unfolding reconcile_gateway_job_alt fresh_session_def
    by (intro vcg wp_mono [OF worker_block_world [of ?s]] tail) (use assms in simp_all)
  then show ?thesis by (auto simp: wpE_def split: prod.splits sum.splits)
qed

theorem worker_applies_under_lock_after_commit_witness:
  "\<exists>d. w_applied (se_world (snd (reconcile_gateway_job quiet_oracle quiet_lock counting_gateway (gateway_session gateway_db)))) = [(True, d)] \<and>
     unresolved_gateway_job d"
proof -
  let ?s = "gateway_session gateway_db"
  let ?w = "se_world (snd (reconcile_gateway_job quiet_oracle quiet_lock counting_gateway ?s))"
  have "distinct (map jb_id (db_jobs (se_store ?s)))" "\<not> w_locked (se_world ?s)" by code_simp+
  from worker_applies_under_lock_after_commit [OF this, of quiet_oracle quiet_lock counting_gateway]
  have "worker_world (se_world ?s) ?w" .
  moreover have "w_applied (se_world ?s) = []" "length (w_applied ?w) = 1" by code_simp+
  ultimately show ?thesis by (auto simp: worker_world_def length_Suc_conv)
qed

text \<open>
  The rows the worker relies on: distinct ids, and a gateway job whose payload names a
  provisioning run, not another gateway job.
\<close>

definition jobs_wf :: "database \<Rightarrow> bool" where
  "jobs_wf d \<longleftrightarrow> distinct (map jb_id (db_jobs d)) \<and> (\<forall>j\<in>set (db_jobs d). gateway_job j \<longrightarrow> 0 \<le> jb_attempts j \<and>
     (\<forall>p r. job_payload j = Inr p \<longrightarrow> run_of p = Inr (Some r) \<longrightarrow> other_job r d))"

lemma mark_running_payload [simp]: "job_payload (mark_running now j) = job_payload j"
  by (simp add: job_payload_def mark_running_def)

lemma claimed_ready:
  assumes "jobs_wf d" "j \<in> set (db_jobs d)" "claimable now j"
  defines "d' \<equiv> update_job (jb_id j) (mark_running now) d"
  shows "follows d d'" and "job_payload j = Inr p \<Longrightarrow> ready (jb_id j) p d'"
proof -
  have get: "get_job d (jb_id j) = Some j" and j: "gateway_job j" "0 \<le> jb_attempts j"
    using assms(1-3) by (auto simp: jobs_wf_def claimable_def intro: get_job_mem)
  then show f: "follows d d'"
    unfolding d'_def by (intro follows_update) (use assms(3) job_step.claim in auto)
  have "get_job d' (jb_id j) = Some (mark_running now j)" unfolding d'_def by (simp add: get_update_job get)
  moreover have "gateway_job (mark_running now j)" "0 < jb_attempts (mark_running now j)" using j by (simp_all add: gateway_job_def mark_running_def)
  moreover assume "job_payload j = Inr p"
  ultimately show "ready (jb_id j) p d'"
    using assms(1,2) j(1) by (auto simp: ready_def other_job_follows [OF f] jobs_wf_def)
qed

definition claim_kept :: "database \<Rightarrow> job option \<Rightarrow> 'w session \<Rightarrow> bool" where
  "claim_kept d c t \<longleftrightarrow> follows d (se_store t) \<and> (\<forall>j. c = Some j \<longrightarrow> se_work t = se_store t \<and>
     (\<forall>p. job_payload j = Inr p \<longrightarrow> ready (jb_id j) p (se_store t)))"

lemma claim_follows:
  assumes "jobs_wf (se_store s)" and "se_work s = se_store s"
  shows "wpE (claim_job X now) (claim_kept (se_store s)) (\<lambda>_. follows_store (se_store s)) s"
  unfolding claim_job_def
  by (intro vcg)
    (use assms claimed_ready [OF assms(1)] in \<open>auto simp: claim_kept_def follows_store_def dest!: first_by_filter\<close>)

definition worker_follows :: "database \<Rightarrow> gateway_reconciliation_result option \<Rightarrow> 'w session \<Rightarrow> bool" where
  "worker_follows d c t \<longleftrightarrow> follows d (se_store t) \<and> (\<forall>r. c = Some r \<longrightarrow> gr_finalized r \<longrightarrow> follows d (se_work t))"

lemma locked_attempt_follows:
  fixes s :: "'g world session"
  assumes "jobs_wf (se_store s)" and "se_work s = se_store s"
  shows "wpE (locked_attempt X G) (worker_follows (se_store s)) (\<lambda>_. follows_store (se_store s)) s"
proof -
  let ?d = "se_store s"
  have run: "wpE (bindE (reconcile_claimed_job X G j) (\<lambda>r. retE (Some r))) (worker_follows ?d) (\<lambda>_. follows_store ?d) t"
    if t: "claim_kept ?d (Some j) t" for j and t :: "'g world session"
  proof (cases "job_payload j")
    case (Inl e)
    with t show ?thesis by (simp add: reconcile_claimed_job_def wp_bind wp_lift claim_kept_def follows_store_def)
  next
    case (Inr p)
    with t have "wpE (reconcile_claimed_job X G j) (follows_result (se_store t)) (\<lambda>_. follows_store (se_store t)) t"
      by (intro reconcile_claimed_follows) (auto simp: claim_kept_def)
    then show ?thesis
      by (rule vcg_bind [OF wp_mono])
        (use t in \<open>auto simp: wp_ret claim_kept_def follows_store_def worker_follows_def follows_result_def intro: follows_trans\<close>)
  qed
  show ?thesis
    unfolding locked_attempt_def
    by (intro vcg wp_mono [OF claim_follows [of "ticked s", simplified, OF assms]] run)
      (auto simp: claim_kept_def follows_store_def worker_follows_def)
qed

lemma worker_block_follows:
  fixes s :: "'g world session"
  assumes "jobs_wf (se_store s)" and "se_work s = se_store s" and "\<not> w_locked (se_world s)"
  shows "wpE (gateway_route_binding_write L (locked_attempt X G)) (worker_follows (se_store s)) (\<lambda>_. follows_store (se_store s)) s"
proof (rule wp_route_lock [OF assms(3)])
  fix t :: "'g world session" assume "acquired s t"
  then have t: "se_work t = se_store s" "se_store t = se_store s" using assms(2) by (simp_all add: acquired_def)
  have "wpE (locked_attempt X G) (worker_follows (se_store s)) (\<lambda>_. follows_store (se_store s)) t"
    using locked_attempt_follows [of t X G] assms(1) t by simp
  then show "wpE (locked_attempt X G)
      (\<lambda>x. after_release (se_lock_held s) (\<lambda>u. worker_follows (se_store s) x u \<and> (\<forall>e. follows_store (se_store s) u)))
      (\<lambda>e. after_release (se_lock_held s) (\<lambda>u. \<forall>e. follows_store (se_store s) u)) t"
    by (rule wp_mono) (auto simp: after_release_def same_data_def follows_store_def worker_follows_def)
qed (simp add: same_data_def follows_store_def)

text \<open>
  C17. The worker implements the job machine. From well-formed committed rows, one run of the
  worker, whatever fails, takes every committed gateway job along a path of the machine: claims
  that respect availability and the attempt limit, then a failure with its backoff, a finish or a
  hold for review. No gateway job disappears or changes its identity, key, payload or type, and
  no job becomes a gateway job.
\<close>

theorem worker_implements_machine:
  fixes s :: "'g world session"
  assumes "jobs_wf (se_store s)" and "\<not> w_locked (se_world s)"
  shows "follows (se_store s) (se_store (snd (reconcile_gateway_job X L G s)))"
proof -
  let ?s = "s\<lparr>se_work := se_store s, se_lock_held := False\<rparr>" and ?d = "se_store s"
  have block: "wpE (gateway_route_binding_write L (locked_attempt X G)) (worker_follows ?d) (\<lambda>_. follows_store ?d) ?s"
    using worker_block_follows [of ?s L X G] assms by simp
  have "wpE (reconcile_gateway_job X L G) (\<lambda>_. follows_store ?d) (\<lambda>_. follows_store ?d) s"
    unfolding reconcile_gateway_job_alt fresh_session_def
    by (intro vcg wp_mono [OF block] wp_mono [OF notify_follows [of ?d]]) (auto simp: wp_ret worker_follows_def follows_store_def)
  then show ?thesis by (auto simp: wpE_def follows_store_def split: prod.splits sum.splits)
qed

theorem worker_implements_machine_witness:
  "\<exists>es j'. get_job (se_store (snd (reconcile_gateway_job quiet_oracle quiet_lock counting_gateway (gateway_session gateway_db)))) 1 = Some j' \<and>
     jb_status j' = JobSucceeded \<and> job_run sample_job es j'"
proof -
  let ?s = "gateway_session gateway_db"
  let ?d = "se_store (snd (reconcile_gateway_job quiet_oracle quiet_lock counting_gateway ?s))"
  have ids: "distinct (map jb_id (db_jobs (se_store ?s)))" "db_jobs (se_store ?s) = [sample_job]" "\<not> w_locked (se_world ?s)" by code_simp+
  have "job_payload sample_job = Inr sample_payload" "run_of sample_payload = Inr None" "jb_attempts sample_job = 0" by code_simp+
  with ids have wf: "jobs_wf (se_store ?s)" by (auto simp: jobs_wf_def)
  have "get_job (se_store ?s) 1 = Some sample_job" "gateway_job sample_job" by code_simp+
  from followsE [OF worker_implements_machine [OF wf ids(3), of quiet_oracle quiet_lock counting_gateway] this]
  obtain es j' where "get_job ?d 1 = Some j'" "job_run sample_job es j'" by blast
  moreover have "map_option jb_status (get_job ?d 1) = Some JobSucceeded" by code_simp
  ultimately show ?thesis by auto
qed

section \<open>Bounds\<close>

lemma backoff_bounds: "2 \<le> backoff_minutes n \<and> backoff_minutes n \<le> 60"
proof -
  have "(2 :: int) ^ 1 \<le> 2 ^ nat (max n 1)" by (rule power_increasing) auto
  then show ?thesis by (simp add: backoff_minutes_def)
qed

text \<open>
  C15. A gateway job is attempted at most five times. On every path of the machine from a newly
  enqueued job, the attempt counter equals the number of claims and is at most five, and after
  the fifth claim the job can never be claimed again. A failure on the way makes the job wait for
  between two and sixty minutes.
\<close>

theorem gateway_attempts_bounded:
  assumes "job_run (new_gateway_job key payload created\<lparr>jb_id := i\<rparr>) es j"
  shows "jb_attempts j = int (length (filter is_claim es)) \<and> length (filter is_claim es) \<le> 5 \<and>
    (length (filter is_claim es) = 5 \<longrightarrow> (\<forall>now. \<not> claimable now j)) \<and>
    (\<forall>reason now. now + minutes 2 \<le> jb_available_at (fail_job reason now j) \<and> jb_available_at (fail_job reason now j) \<le> now + minutes 60)"
proof -
  have "jb_attempts j \<le> jb_max_attempts j"
    by (rule job_run_bound [OF assms]) (simp add: new_gateway_job_def GATEWAY_RETRY_LIMIT_def)
  with job_run_invariant [OF assms] backoff_bounds [of "jb_attempts j"] show ?thesis
    by (auto simp: new_gateway_job_def GATEWAY_RETRY_LIMIT_def claimable_def fail_job_def minutes_def)
qed

theorem gateway_attempts_bounded_witness:
  "\<exists>j. job_run sample_job [Claim 0, Fail ''r'' 1, Claim (minutes 3)] j \<and> jb_attempts j = 2"
proof -
  let ?a = "mark_running 0 sample_job" let ?b = "fail_job ''r'' 1 ?a"
  have "claimable 0 sample_job" "0 < jb_attempts ?a" "claimable (minutes 3) ?b" by code_simp+
  then have run: "job_run sample_job [Claim 0, Fail ''r'' 1, Claim (minutes 3)] (mark_running (minutes 3) ?b)"
    by (auto intro!: job_run.intros intro: job_step.intros)
  from gateway_attempts_bounded [OF this [unfolded sample_job_def]] show ?thesis
    using run by (auto simp: sample_job_def)
qed

section \<open>Review\<close>

text \<open>
  C38. A job held for manual review is not held. When the outcome of the finalising commit stays
  unknown, the worker stores a diagnostic for manual review and reports the job as not retryable;
  but the row it commits is claimed again by the next worker once fifteen minutes have passed, as
  long as attempts are left.
\<close>

theorem reviewed_job_is_claimed_again:
  assumes "mark_finalization_unknown X i payload now s = (Inr r, t)"
    and "get_job (se_store s) i = Some j" "gateway_job j" "jb_attempts j < jb_max_attempts j" "jb_available_at j \<le> now"
  shows "\<not> gr_retryable r \<and> (\<exists>j'. get_job (se_store t) i = Some j' \<and>
    jb_last_error_code j' = Some finalization_diagnostic \<and> (\<forall>now'. now + minutes 15 < now' \<longrightarrow> claimable now' j'))"
proof -
  have again: "claimable now' (review_job now j)" if "now + minutes 15 < now'" for now'
    using assms(3-5) that by (simp add: claimable_def review_job_def gateway_job_def STALE_AFTER_def minutes_def)
  have "wpE (mark_finalization_unknown X i payload now)
      (\<lambda>r t. \<not> gr_retryable r \<and> get_job (se_store t) i = Some (review_job now j)) (\<lambda>_ _. True) s"
    unfolding mark_finalization_unknown_def
    by (intro vcg) (use assms(2) in \<open>simp_all add: get_update_job\<close>)
  with again show ?thesis using assms(1) by (simp add: wpE_def review_job_def)
qed

theorem reviewed_job_is_claimed_again_witness:
  "\<exists>r t j'. mark_finalization_unknown quiet_oracle 1 sample_payload 0 (gateway_session gateway_db) = (Inr r, t) \<and> \<not> gr_retryable r \<and>
     get_job (se_store t) 1 = Some j' \<and> claimable (minutes 16) j'"
proof -
  let ?m = "mark_finalization_unknown quiet_oracle 1 sample_payload 0 (gateway_session gateway_db)"
  let ?r = "\<lparr>gr_job_id = 1, gr_applied = True, gr_finalized = False, gr_retryable = False, gr_reason_code = Some finalization_diagnostic\<rparr>"
  have m: "?m = (Inr ?r, snd ?m)" by code_simp
  have "get_job (se_store (gateway_session gateway_db)) 1 = Some sample_job" "gateway_job sample_job"
    "jb_attempts sample_job < jb_max_attempts sample_job" "jb_available_at sample_job \<le> 0" by code_simp+
  from reviewed_job_is_claimed_again [OF m this]
  obtain j' where "\<not> gr_retryable ?r" "get_job (se_store (snd ?m)) 1 = Some j'" "claimable (minutes 16) j'" by (auto simp: minutes_def)
  with m show ?thesis by blast
qed

end
