(* ===== verification/Mihomo_Logic.thy ===== *)
theory Mihomo_Logic
  imports Mihomo_Reconciliation Gateway_Guarantees
begin

text \<open>
  Invariants of the jobs table under the forwarder's worker. \<open>preserves I m\<close> says that \<open>m\<close> keeps
  the predicate \<open>I\<close> whatever fails; its rules follow the combinators. The locale \<open>owner_rows\<close> is
  the contract of a property of single rows that the worker keeps while it owns the job \<open>i\<close>:
  each change the code makes to a row is one of its laws.
\<close>

section \<open>Preservation\<close>

named_theorems preserve \<open>operations that keep a predicate on the state\<close>

definition preserves :: "('s \<Rightarrow> bool) \<Rightarrow> ('s, 'e, 'a) eff \<Rightarrow> bool" where
  "preserves I m \<longleftrightarrow> (\<forall>s. I s \<longrightarrow> wpE m (\<lambda>_. I) (\<lambda>_. I) s)"

lemma preservesD: "preserves I m \<Longrightarrow> I s \<Longrightarrow> I (snd (m s))"
  by (simp add: preserves_def wp_always)

lemma preserves_ret [preserve]: "preserves I (retE x)"
  by (simp add: preserves_def wp)

lemma preserves_raise [preserve]: "preserves I (raiseE e)"
  by (simp add: preserves_def wp)

lemma preserves_lift [preserve]: "preserves I (liftE r)"
  by (simp add: preserves_def wp split: sum.splits)

lemma preserves_gets [preserve]: "preserves I (getsE f)"
  by (simp add: preserves_def wp)

lemma preserves_modify: "(\<And>s. I s \<Longrightarrow> I (f s)) \<Longrightarrow> preserves I (modifyE f)"
  by (simp add: preserves_def wp)

lemma preserves_attempt [preserve]:
  "preserves I m \<Longrightarrow> (\<And>e. preserves I (h e)) \<Longrightarrow> (\<And>x. preserves I (k x)) \<Longrightarrow> preserves I (attemptE m h k)"
  unfolding preserves_def wp by (blast intro: wp_mono)

lemma preserves_bind [preserve]:
  "preserves I m \<Longrightarrow> (\<And>x. preserves I (k x)) \<Longrightarrow> preserves I (bindE m k)"
  by (simp add: bindE_def preserve)

lemma preserves_then [preserve]: "preserves I m \<Longrightarrow> preserves I k \<Longrightarrow> preserves I (thenE m k)"
  by (simp add: thenE_def preserve)

lemma preserves_try [preserve]: "preserves I m \<Longrightarrow> (\<And>e. preserves I (h e)) \<Longrightarrow> preserves I (tryE m h)"
  by (simp add: tryE_def preserve)

lemma preserves_suppress [preserve]: "preserves I m \<Longrightarrow> preserves I (suppressE m)"
  by (simp add: suppressE_def preserve)

lemma preserves_finally [preserve]: "preserves I m \<Longrightarrow> preserves I f \<Longrightarrow> preserves I (finallyE m f)"
  by (simp add: finallyE_def preserve)

lemma preserves_if [preserve]: "preserves I m \<Longrightarrow> preserves I n \<Longrightarrow> preserves I (if b then m else n)"
  by simp

lemma preserves_option [preserve]:
  "(x = None \<Longrightarrow> preserves I m) \<Longrightarrow> (\<And>y. x = Some y \<Longrightarrow> preserves I (f y)) \<Longrightarrow>
   preserves I (case x of None \<Rightarrow> m | Some y \<Rightarrow> f y)"
  by (cases x) auto

lemma preserves_sum [preserve]:
  "(\<And>y. x = Inl y \<Longrightarrow> preserves I (f y)) \<Longrightarrow> (\<And>z. x = Inr z \<Longrightarrow> preserves I (g z)) \<Longrightarrow>
   preserves I (case x of Inl y \<Rightarrow> f y | Inr z \<Rightarrow> g z)"
  by (cases x) auto

lemma preserves_prod [preserve]:
  "(\<And>a b. x = (a, b) \<Longrightarrow> preserves I (f a b)) \<Longrightarrow> preserves I (case x of (a, b) \<Rightarrow> f a b)"
  by (cases x) auto

lemma preserves_outcome [preserve]:
  "preserves I a \<Longrightarrow> preserves I b \<Longrightarrow> preserves I c \<Longrightarrow>
   preserves I (case x of LANDED \<Rightarrow> a | ABSENT \<Rightarrow> b | UNKNOWN \<Rightarrow> c)"
  by (cases x) auto

lemma preserves_lock_reply [preserve]:
  "preserves I a \<Longrightarrow> (\<And>r. preserves I (b r)) \<Longrightarrow> (\<And>e g. preserves I (c e g)) \<Longrightarrow>
   preserves I (case x of Granted \<Rightarrow> a | Refused r \<Rightarrow> b r | GetRaised e g \<Rightarrow> c e g)"
  by (cases x) auto

lemma preserves_release_reply [preserve]:
  "preserves I a \<Longrightarrow> preserves I b \<Longrightarrow> (\<And>e g. preserves I (c e g)) \<Longrightarrow>
   preserves I (case x of Released \<Rightarrow> a | NotConfirmed \<Rightarrow> b | ReleaseRaised e g \<Rightarrow> c e g)"
  by (cases x) auto

section \<open>Invariants of the database\<close>

definition on_data :: "(database \<Rightarrow> bool) \<Rightarrow> 'w session \<Rightarrow> bool" where
  "on_data R s \<longleftrightarrow> R (se_work s) \<and> R (se_store s)"

lemma on_data_ticked [simp]: "on_data R (ticked s) = on_data R s"
  by (simp add: on_data_def)

lemma preserves_now [preserve]: "preserves (on_data R) (db_now X)"
  by (simp add: preserves_def wp)

lemma preserves_tick [preserve]: "preserves (on_data R) tick_of"
  by (simp add: preserves_def wp)

lemma preserves_read [preserve]: "preserves (on_data R) (db_read X f)"
  by (simp add: preserves_def wp split: option.splits)

lemma preserves_probe [preserve]: "preserves (on_data R) (db_probe X f)"
  by (simp add: preserves_def wp split: option.splits)

lemma preserves_flush [preserve]: "preserves (on_data R) (db_flush X)"
  by (simp add: preserves_def wp split: option.splits)

lemma preserves_commit [preserve]: "preserves (on_data R) (db_commit X)"
  by (auto simp: preserves_def wp on_data_def split: option.splits)

lemma preserves_rollback [preserve]: "preserves (on_data R) (db_rollback X)"
  by (auto simp: preserves_def wp on_data_def split: option.splits)

lemma preserves_update: "(\<And>d. R d \<Longrightarrow> R (f d)) \<Longrightarrow> preserves (on_data R) (db_update f)"
  by (simp add: preserves_def wp on_data_def)

lemma preserves_world [preserve]: "preserves (on_data R) (on_world f)"
  by (simp add: preserves_def wp on_data_def)

lemma preserves_provider [preserve]: "preserves (on_data R) (provider_call f)"
  by (auto simp: preserves_def wpE_def provider_call_def on_data_def split: prod.splits sum.splits)


section \<open>Read-only parts\<close>

definition reads_only :: "('w, 'a) db \<Rightarrow> bool" where
  "reads_only m \<longleftrightarrow> (\<forall>s. \<exists>n. snd (m s) = s\<lparr>se_tick := n\<rparr>)"

text \<open>What the worker relies on: the loader and the resolvers only read.\<close>

locale read_only_parts =
  fixes P :: "'p mihomo_parts"
  assumes load_reads: "reads_only (mp_load P j)"
    and finalize_reads: "reads_only (mp_finalize P template)"

lemma wp_reads_only:
  assumes "reads_only m" and "\<And>x n. fst (m s) = Inr x \<Longrightarrow> Q x (s\<lparr>se_tick := n\<rparr>)" and "\<And>e n. E e (s\<lparr>se_tick := n\<rparr>)"
  shows "wpE m Q E s"
  using assms(1) [unfolded reads_only_def, rule_format, of s] assms(2,3)
  by (auto simp: wpE_def split: prod.splits sum.splits)

lemma preserves_reads_only: "reads_only m \<Longrightarrow> preserves (on_data R) m"
  unfolding preserves_def by (auto intro!: wp_reads_only simp: on_data_def)

section \<open>Properties of single rows\<close>

definition job_keys_distinct :: "database \<Rightarrow> bool" where
  "job_keys_distinct d \<longleftrightarrow> distinct (map jb_id (db_jobs d))"

definition rows_ok :: "(job \<Rightarrow> bool) \<Rightarrow> database \<Rightarrow> bool" where
  "rows_ok ok d \<longleftrightarrow> list_all ok (db_jobs d) \<and> job_keys_distinct d"

lemma jobs_update_job:
  "db_jobs (update_job i f d) = (case get_job d i of None \<Rightarrow> db_jobs d | Some j \<Rightarrow> tbl_put jb_id (f j) (db_jobs d))"
  by (simp add: update_job_def split: option.splits)

lemma rows_ok_update:
  assumes "rows_ok ok d" and "\<And>j. j \<in> set (db_jobs d) \<Longrightarrow> jb_id j = i \<Longrightarrow> ok j \<Longrightarrow> ok (f j)"
  shows "rows_ok ok (update_job i f d)"
  using assms
  by (auto simp: rows_ok_def job_keys_distinct_def jobs_update_job list_all_iff
      dest!: tbl_get_Some set_tbl_put split: option.splits)

lemma rows_ok_add:
  assumes "rows_ok ok d" and "\<And>k. ok (j\<lparr>jb_id := k\<rparr>)"
  shows "rows_ok ok (add_job j d)"
  using assms next_id_fresh [of jb_id "db_jobs d"]
  by (auto simp: rows_ok_def job_keys_distinct_def add_job_def)

lemma rows_ok_get: "rows_ok ok d \<Longrightarrow> get_job d i = Some j \<Longrightarrow> ok j"
  by (auto simp: rows_ok_def list_all_iff dest!: tbl_get_Some)

lemma same_row: "rows_ok ok d \<Longrightarrow> j \<in> set (db_jobs d) \<Longrightarrow> k \<in> set (db_jobs d) \<Longrightarrow> jb_id k = jb_id j \<Longrightarrow> k = j"
  by (metis job_keys_distinct_def option.inject rows_ok_def tbl_get_mem)

lemma job_by_key_mem: "job_by_key key d = Some j \<Longrightarrow> j \<in> set (db_jobs d)"
  by (auto simp: job_by_key_def find_Some_iff)

lemma first_by_mem: "first_by key xs = Some x \<Longrightarrow> x \<in> set xs"
  by (auto simp: first_by_def dest!: arg_cong [where f = set] split: list.splits)

locale owner_rows =
  fixes ok :: "job \<Rightarrow> bool" and i :: int
  assumes fail: "ok j \<Longrightarrow> jb_id j = i \<Longrightarrow> ok (fail_job code now j)"
    and review: "ok j \<Longrightarrow> jb_id j = i \<Longrightarrow> diagnostic \<in> set MIHOMO_UNKNOWN_DIAGNOSTICS \<Longrightarrow>
      ok (review_mihomo_job diagnostic now j)"
    and finish: "ok j \<Longrightarrow> jb_id j = i \<Longrightarrow> payload_identity payload = Inr I \<Longrightarrow> safe_text 63 version \<Longrightarrow>
      ok (finish_mihomo_job (dict_set payload ''finalization_evidence'' (finalization_evidence I fp version)) j)"
    and new_row: "check_blocker kind source operation revision reason = Inr key \<Longrightarrow>
      ok ((new_blocker key (blocker_payload kind source operation revision reason) now)\<lparr>jb_id := k\<rparr>)"
    and reopen: "ok j \<Longrightarrow> mihomo_blocker j \<Longrightarrow> ok (reopen_blocker j)"
    and resolve: "ok j \<Longrightarrow> mihomo_blocker j \<Longrightarrow> ok (close_blocker j)"
    and diagnose: "ok j \<Longrightarrow> code \<in> {MIHOMO_DURABLE_STATE_UNKNOWN, MIHOMO_LOCK_RELEASE_UNKNOWN} \<Longrightarrow> ok (set_error_code code j)"
begin

abbreviation good :: "'w session \<Rightarrow> bool" where
  "good \<equiv> on_data (rows_ok ok)"

lemma good_reopen:
  assumes "rows_ok ok d" and "j \<in> set (db_jobs d)" and "mihomo_blocker j"
  shows "rows_ok ok (update_job (jb_id j) reopen_blocker d)"
  by (rule rows_ok_update [OF assms(1)]) (use reopen assms same_row [OF assms(1,2)] in blast)

lemma good_close:
  assumes "rows_ok ok d" and "get_job d b = Some j" and "mihomo_blocker j"
  shows "rows_ok ok (update_job b close_blocker d)"
  by (rule rows_ok_update [OF assms(1)])
    (use resolve assms same_row [OF assms(1)] tbl_get_Some [OF assms(2)] in blast)

lemma good_blocker:
  assumes "rows_ok ok d" and "check_blocker kind source operation revision reason = Inr key"
  shows "rows_ok ok (add_job (new_blocker key (blocker_payload kind source operation revision reason) now) d)"
  by (rule rows_ok_add [OF assms(1) new_row [OF assms(2)]])

lemma keeps_ensure [preserve]:
  "preserves good (ensure_mihomo_blocker X kind source operation revision reason)"
  unfolding preserves_def ensure_mihomo_blocker_def Let_def
  by (intro allI impI vcg)
    (simp_all add: on_data_def checks good_blocker good_reopen [OF _ job_by_key_mem] mihomo_blocker_def)

lemma keeps_resolve [preserve]: "preserves good (resolve_mihomo_blocker X b)"
  unfolding preserves_def resolve_mihomo_blocker_def
  by (intro allI impI vcg) (simp_all add: on_data_def good_close mihomo_blocker_def)

lemma keeps_persist [preserve]: "preserves good (persist_unknown_blocker X job_id operation revision diagnostic applied)"
  unfolding persist_unknown_blocker_def mark_durable_unknown_def by (intro preserve)

lemma keeps_exact [preserve]: "(\<And>f. preserves good (read f)) \<Longrightarrow> preserves good (has_exact_unresolved_release_blocker read job_id I)"
  unfolding has_exact_unresolved_release_blocker_def by (intro preserve)

lemma keeps_classify [preserve]: "preserves good (classify_mihomo_finalization X job_id I fp)"
  unfolding classify_mihomo_finalization_def Let_def by (intro preserve)

lemma keeps_failure [preserve]: "preserves good (mihomo_failure X i error now)"
  unfolding mihomo_failure_def by (intro preserve preserves_update rows_ok_update fail)

lemma keeps_mark_unknown [preserve]:
  assumes "diagnostic \<in> set MIHOMO_UNKNOWN_DIAGNOSTICS"
  shows "preserves good (mark_unknown X i I fp diagnostic persist)"
  unfolding mark_unknown_def mark_unknown_inner_def Let_def mark_durable_unknown_def
  by (intro preserve preserves_update rows_ok_update review assms)

lemma keeps_finalize [preserve]:
  assumes "payload_identity payload = Inr I" and "safe_text 63 version"
  shows "preserves good (finalize_mihomo_job X i payload I fp version)"
  unfolding finalize_mihomo_job_def
  by (intro preserve preserves_update rows_ok_update finish assms) (simp_all add: MIHOMO_UNKNOWN_DIAGNOSTICS_def)

lemma keeps_verify [preserve]:
  assumes "payload_identity payload = Inr I"
  shows "preserves good (verify_and_finalize X V i payload I candidate)"
  unfolding verify_and_finalize_def Let_def
  by (intro preserve assms)
    (auto simp: MIHOMO_UNKNOWN_DIAGNOSTICS_def verification_accepted_def valid_evidence_version_def split: option.splits if_splits)

lemma keeps_apply [preserve]:
  assumes "payload_identity payload = Inr I"
  shows "preserves good (apply_and_finalize X P V i payload I candidate)"
  unfolding apply_and_finalize_def provider_apply_def
  by (intro preserve preserves_modify assms) (simp_all add: on_data_def MIHOMO_UNKNOWN_DIAGNOSTICS_def)

lemma keeps_claimed [preserve]:
  assumes "read_only_parts P" and "jb_id j = i"
  shows "preserves good (reconcile_claimed_mihomo X P V j)"
  unfolding reconcile_claimed_mihomo_def attempt_mihomo_job_def set_release_metadata_def assms(2)
  by (intro preserve preserves_reads_only read_only_parts.load_reads [OF assms(1)]
      read_only_parts.finalize_reads [OF assms(1)]) (auto simp: checks)

lemma keeps_release [preserve]: "preserves good (give_back X L)"
  unfolding give_back_def open_release_blocker_def release_failed_def release_confirmed_def mihomo_release_lock_def
    invalidate_connection_def Let_def
  by (intro preserve preserves_update rows_ok_update diagnose) simp_all

lemma keeps_open [preserve]: "preserves good (open_mihomo_lock L)"
  unfolding open_mihomo_lock_def mihomo_get_lock_def close_lock_connection_def invalidate_connection_def Let_def
  by (intro preserve)

lemma keeps_write [preserve]: "preserves good body \<Longrightarrow> preserves good (mihomo_projection_write X L body)"
  unfolding mihomo_projection_write_def close_lock_connection_def by (intro preserve)

end

text \<open>The contract of the whole worker: the owner may be any job, and it claims and unclaims.\<close>

locale worker_rows =
  fixes ok :: "job \<Rightarrow> bool"
  assumes owner: "owner_rows ok i"
    and claim: "ok j \<Longrightarrow> mihomo_claimable now j \<Longrightarrow> ok (mark_running now j)"
    and unclaim: "ok j \<Longrightarrow> jb_status j = JobRunning \<Longrightarrow> ok (unclaim j)"
begin

lemma keeps_claim: "preserves (on_data (rows_ok ok)) (claim_mihomo X now)"
proof -
  have row: "rows_ok ok (update_job (jb_id j) (mark_running now) d)"
    if d: "rows_ok ok d" and j: "first_by jb_id (filter (mihomo_claimable now) (db_jobs d)) = Some j" for d j
    by (rule rows_ok_update [OF d]) (use claim first_by_mem [OF j] same_row [OF d] in auto)
  show ?thesis
    unfolding preserves_def claim_mihomo_def
    by (intro allI impI vcg) (simp_all add: on_data_def row)
qed

lemma keeps_reset: "preserves (on_data (rows_ok ok)) (reset_blocked_claim X i)"
proof -
  have row: "rows_ok ok (update_job i unclaim d)"
    if d: "rows_ok ok d" and j: "get_job d i = Some j" "jb_status j = JobRunning" for d j
    by (rule rows_ok_update [OF d]) (use unclaim j same_row [OF d] tbl_get_Some [OF j(1)] in blast)
  show ?thesis
    unfolding preserves_def reset_blocked_claim_def
    by (intro allI impI vcg) (simp_all add: on_data_def row)
qed

lemma keeps_worker:
  assumes "read_only_parts P"
  shows "preserves (on_data (rows_ok ok)) (reconcile_mihomo_job X L P verifier)"
  unfolding reconcile_mihomo_job_def fresh_mihomo_session_def assert_no_unresolved_mihomo_mutation_def
  by (intro preserve preserves_modify keeps_claim keeps_reset owner_rows.keeps_write [OF owner]
      owner_rows.keeps_claimed [OF owner assms]) (simp_all add: on_data_def)

end

section \<open>Verification conditions\<close>

lemma vcg_world [vcg]: "R (s\<lparr>se_world := f (se_world s)\<rparr>) \<Longrightarrow> wpE (on_world f) (\<lambda>_. R) E s"
  by (simp add: wp)

lemma vcg_tick [vcg]: "Q (se_tick s) (ticked s) \<Longrightarrow> wpE tick_of Q E s"
  by (simp add: wp)

lemma vcg_provider [vcg]:
  "(\<And>e p. f (mw_provider (se_world s)) = (Inl e, p) \<Longrightarrow> E e (s\<lparr>se_world := (se_world s)\<lparr>mw_provider := p\<rparr>\<rparr>)) \<Longrightarrow>
   (\<And>x p. f (mw_provider (se_world s)) = (Inr x, p) \<Longrightarrow> Q x (s\<lparr>se_world := (se_world s)\<lparr>mw_provider := p\<rparr>\<rparr>)) \<Longrightarrow>
   wpE (provider_call f) Q E s"
  by (auto simp: wpE_def provider_call_def split: prod.splits sum.splits)

lemma vcg_sum [vcg]:
  "(\<And>y. x = Inl y \<Longrightarrow> wpE (f y) Q E s) \<Longrightarrow> (\<And>z. x = Inr z \<Longrightarrow> wpE (g z) Q E s) \<Longrightarrow>
   wpE (case x of Inl y \<Rightarrow> f y | Inr z \<Rightarrow> g z) Q E s"
  by (cases x) auto

lemma vcg_prod [vcg]:
  "(\<And>a b. x = (a, b) \<Longrightarrow> wpE (f a b) Q E s) \<Longrightarrow> wpE (case x of (a, b) \<Rightarrow> f a b) Q E s"
  by (cases x) auto

lemma vcg_commit_outcome [vcg]:
  "(x = LANDED \<Longrightarrow> wpE a Q E s) \<Longrightarrow> (x = ABSENT \<Longrightarrow> wpE b Q E s) \<Longrightarrow> (x = UNKNOWN \<Longrightarrow> wpE c Q E s) \<Longrightarrow>
   wpE (case x of LANDED \<Rightarrow> a | ABSENT \<Rightarrow> b | UNKNOWN \<Rightarrow> c) Q E s"
  by (cases x) auto

end
