(* ===== verification/Mihomo_Outcome.thy ===== *)
theory Mihomo_Outcome
  imports Mihomo_Logic
begin

text \<open>
  What each operation of the forwarder's worker leaves behind: the specifications of
  classification, failure, unknown outcomes, finalisation and of one attempt.
\<close>

section \<open>Predicates on the jobs table\<close>

definition row_status :: "int \<Rightarrow> database \<Rightarrow> job_status option" where
  "row_status i d = map_option jb_status (get_job d i)"

text \<open>The job is SUCCEEDED with evidence of this candidate.\<close>

definition landed_row :: "int \<Rightarrow> mihomo_identity \<Rightarrow> string \<Rightarrow> database \<Rightarrow> bool" where
  "landed_row i I fp d \<longleftrightarrow> (\<exists>j p. get_job d i = Some j \<and> mihomo_job j \<and> jb_status j = JobSucceeded \<and>
     mihomo_payload j = Inr p \<and> same_identity I p \<and>
     evidence_matches I fp (VStr (mi_kind I)) (vget p ''finalization_evidence''))"

definition diagnosed_row :: "int \<Rightarrow> database \<Rightarrow> bool" where
  "diagnosed_row i d \<longleftrightarrow> (\<exists>j. get_job d i = Some j \<and> mihomo_job j \<and> jb_status j = JobRunning \<and> has_unknown_diagnostic j)"

definition open_blocker :: "string \<Rightarrow> database \<Rightarrow> bool" where
  "open_blocker key d \<longleftrightarrow> (\<exists>b\<in>set (db_jobs d). mihomo_blocker b \<and> jb_dedupe_key b = key \<and> jb_status b \<noteq> JobSucceeded)"

definition blocker_key :: "string \<Rightarrow> int \<Rightarrow> string" where
  "blocker_key kind i = ''MIHOMO_BLOCKER:'' @ kind @ '':'' @ show_int i"

text \<open>The outcome of the job is not known, and the database says so.\<close>

definition flagged :: "int \<Rightarrow> database \<Rightarrow> bool" where
  "flagged i d \<longleftrightarrow> diagnosed_row i d \<or> open_blocker (blocker_key MIHOMO_BLOCKER_KIND_FINALIZATION i) d"

lemma landed_not_running: "landed_row i I fp d \<Longrightarrow> row_status i d \<noteq> Some JobRunning"
  by (auto simp: landed_row_def row_status_def)

lemma key_of_blocker: "check_blocker kind (Some i) operation revision reason = Inr key \<Longrightarrow> key = blocker_key kind i"
  by (auto simp: check_blocker_def mihomo_blocker_dedupe_key_def blocker_key_def Let_def checks)

lemma get_job_update:
  assumes "\<And>j. jb_id (f j) = jb_id j"
  shows "get_job (update_job i f d) k = (if k = i then map_option f (get_job d i) else get_job d k)"
  by (rule get_update_job [OF assms])

lemma mihomo_edits_id [simp]:
  "jb_id (review_mihomo_job c now j) = jb_id j" "jb_id (finish_mihomo_job p j) = jb_id j" "jb_id (unclaim j) = jb_id j"
  "jb_id (reopen_blocker j) = jb_id j" "jb_id (close_blocker j) = jb_id j" "jb_id (set_error_code c j) = jb_id j"
  by (simp_all add: review_mihomo_job_def finish_mihomo_job_def unclaim_def reopen_blocker_def close_blocker_def set_error_code_def)

lemma mihomo_edits_type [simp]:
  "jb_job_type (review_mihomo_job c now j) = jb_job_type j" "jb_job_type (finish_mihomo_job p j) = jb_job_type j"
  "jb_job_type (unclaim j) = jb_job_type j" "jb_job_type (reopen_blocker j) = jb_job_type j"
  "jb_job_type (close_blocker j) = jb_job_type j" "jb_job_type (set_error_code c j) = jb_job_type j"
  by (simp_all add: review_mihomo_job_def finish_mihomo_job_def unclaim_def reopen_blocker_def close_blocker_def set_error_code_def)

section \<open>Blockers\<close>

text \<open>The row of a blocker, and what \<open>ensure_mihomo_blocker\<close> returns.\<close>

definition blocker_row :: "string \<Rightarrow> int \<Rightarrow> database \<Rightarrow> bool" where
  "blocker_row key b d \<longleftrightarrow> (\<exists>j. get_job d b = Some j \<and> mihomo_blocker j \<and> jb_dedupe_key j = key \<and> jb_status j \<noteq> JobSucceeded)"

lemma blocker_row_open: "blocker_row key b d \<Longrightarrow> open_blocker key d"
  by (auto simp: blocker_row_def open_blocker_def dest!: tbl_get_Some)

lemma blocker_row_new:
  "blocker_row key (next_id jb_id (db_jobs d)) (add_job (new_blocker key payload now) d)"
  by (simp add: blocker_row_def get_added mihomo_blocker_def new_blocker_def)

lemma blocker_row_reopened:
  assumes "job_keys_distinct d" "job_by_key key d = Some j" "mihomo_blocker j"
  shows "blocker_row key (jb_id j) (update_job (jb_id j) reopen_blocker d)"
proof -
  have "get_job d (jb_id j) = Some j" "jb_dedupe_key j = key"
    using assms(1,2) tbl_get_mem [of jb_id "db_jobs d"] by (auto simp: job_keys_distinct_def job_by_key_def find_Some_iff)
  then show ?thesis
    using assms(3) by (simp add: blocker_row_def get_job_update mihomo_blocker_def reopen_blocker_def)
qed

text \<open>
  Facts that changes to other blockers leave alone. \<open>stable key F\<close>: \<open>F\<close> survives a new blocker and
  any change of the blocker with the key that keeps its identity.
\<close>

definition same_row_identity :: "job \<Rightarrow> job \<Rightarrow> bool" where
  "same_row_identity j k \<longleftrightarrow> jb_id k = jb_id j \<and> jb_job_type k = jb_job_type j \<and> jb_dedupe_key k = jb_dedupe_key j"

definition stable :: "string \<Rightarrow> (database \<Rightarrow> bool) \<Rightarrow> bool" where
  "stable key F \<longleftrightarrow>
     (\<forall>d payload now. F d \<longrightarrow> F (add_job (new_blocker key payload now) d)) \<and>
     (\<forall>d b f j. F d \<longrightarrow> (\<forall>k. same_row_identity k (f k)) \<longrightarrow> get_job d b = Some j \<longrightarrow> mihomo_blocker j \<longrightarrow>
        jb_dedupe_key j = key \<longrightarrow> F (update_job b f d))"

lemma stable_new: "stable key F \<Longrightarrow> F d \<Longrightarrow> F (add_job (new_blocker key payload now) d)"
  by (simp add: stable_def)

lemma stable_update:
  assumes "stable key F" "F d" "\<And>k. same_row_identity k (f k)" "get_job d b = Some j" "mihomo_blocker j" "jb_dedupe_key j = key"
  shows "F (update_job b f d)"
  using assms unfolding stable_def by blast

lemma blocker_edits_identity [simp]:
  "same_row_identity j (reopen_blocker j)" "same_row_identity j (close_blocker j)" "same_row_identity j (set_error_code c j)"
  by (simp_all add: same_row_identity_def reopen_blocker_def close_blocker_def set_error_code_def)

lemma not_both: "mihomo_job j \<Longrightarrow> \<not> mihomo_blocker j"
  by (simp add: mihomo_job_def mihomo_blocker_def MIHOMO_RECONCILE_JOB_TYPE_def MIHOMO_RECONCILE_BLOCKER_JOB_TYPE_def)

lemma get_added_other: "get_job d i = Some j \<Longrightarrow> get_job (add_job k d) i = Some j"
  by (simp add: add_job_def tbl_get_append)

lemma get_updated_other: "(\<And>k. same_row_identity k (f k)) \<Longrightarrow> i \<noteq> b \<Longrightarrow> get_job (update_job b f d) i = get_job d i"
  by (subst get_job_update) (simp_all add: same_row_identity_def)

lemma stable_job: "stable key (\<lambda>d. \<exists>j. get_job d i = Some j \<and> mihomo_job j \<and> A j)"
  unfolding stable_def
  by (auto simp: get_added_other) (metis get_updated_other not_both option.inject)

lemma stable_landed: "stable key (landed_row i I fp)"
  using stable_job [of key i "\<lambda>j. jb_status j = JobSucceeded \<and> (\<exists>p. mihomo_payload j = Inr p \<and> same_identity I p \<and>
     evidence_matches I fp (VStr (mi_kind I)) (vget p ''finalization_evidence''))"]
  by (simp add: landed_row_def [abs_def])

lemma stable_diagnosed: "stable key (diagnosed_row i)"
  using stable_job [of key i "\<lambda>j. jb_status j = JobRunning \<and> has_unknown_diagnostic j"] by (simp add: diagnosed_row_def [abs_def])

lemma stable_distinct: "stable key job_keys_distinct"
  using next_id_fresh [of jb_id]
  by (auto simp: stable_def job_keys_distinct_def add_job_def jobs_update_job split: option.splits)

lemma stable_conj: "stable key F \<Longrightarrow> stable key G \<Longrightarrow> stable key (\<lambda>d. F d \<and> G d)"
  unfolding stable_def by blast

lemma stable_disj: "stable key F \<Longrightarrow> stable key G \<Longrightarrow> stable key (\<lambda>d. F d \<or> G d)"
  unfolding stable_def by blast

lemma stable_const: "stable key (\<lambda>d. B)"
  by (simp add: stable_def)

lemma stable_imp: "stable key G \<Longrightarrow> stable key (\<lambda>d. B \<longrightarrow> G d)"
  unfolding stable_def by blast

lemma stable_open:
  assumes "key' \<noteq> key"
  shows "stable key (\<lambda>d. job_keys_distinct d \<and> open_blocker key' d)"
proof -
  have "open_blocker key' (update_job b f d)"
    if d: "job_keys_distinct d" and o: "open_blocker key' d" and f: "\<forall>k. same_row_identity k (f k)"
      and j: "get_job d b = Some j" "jb_dedupe_key j = key" for d b f j
  proof -
    obtain k where k: "k \<in> set (db_jobs d)" "mihomo_blocker k" "jb_dedupe_key k = key'" "jb_status k \<noteq> JobSucceeded"
      using o by (auto simp: open_blocker_def)
    have "jb_id k \<noteq> jb_id (f j)"
    proof
      assume "jb_id k = jb_id (f j)"
      then have "jb_id k = b" using f tbl_get_Some [OF j(1)] by (simp add: same_row_identity_def)
      then have "k = j" using tbl_get_mem [OF d [unfolded job_keys_distinct_def] k(1)] j(1) by simp
      with k(3) j(2) assms show False by simp
    qed
    then have "k \<in> set (db_jobs (update_job b f d))"
      using k(1) by (simp add: jobs_update_job j(1) mem_tbl_put_other)
    then show ?thesis using k by (auto simp: open_blocker_def)
  qed
  moreover have "open_blocker key' d \<Longrightarrow> open_blocker key' (add_job j d)" for d j
    by (auto simp: open_blocker_def add_job_def)
  ultimately show ?thesis
    using stable_distinct [of key] by (simp add: stable_def)
qed

lemma stable_flagged:
  assumes "blocker_key MIHOMO_BLOCKER_KIND_FINALIZATION i \<noteq> key"
  shows "stable key (\<lambda>d. job_keys_distinct d \<and> flagged i d)"
  using stable_conj [OF stable_distinct stable_disj [OF stable_diagnosed stable_open [OF assms]], of i]
  by (simp add: flagged_def [abs_def] conj_disj_distribL stable_def)

lemma blocker_keys_differ: "blocker_key MIHOMO_BLOCKER_KIND_FINALIZATION i \<noteq> blocker_key MIHOMO_BLOCKER_KIND_LOCK_RELEASE k"
  by (simp add: blocker_key_def MIHOMO_BLOCKER_KIND_FINALIZATION_def MIHOMO_BLOCKER_KIND_LOCK_RELEASE_def)

text \<open>Creating or reopening a blocker keeps every stable fact and leaves an unresolved row.\<close>

lemma wp_ensure:
  assumes stable: "stable (blocker_key kind i) F" and F: "F (se_work s)" "job_keys_distinct (se_work s)"
    and ret: "\<And>b t. se_store t = se_store s \<Longrightarrow> se_world t = se_world s \<Longrightarrow> F (se_work t) \<Longrightarrow> job_keys_distinct (se_work t) \<Longrightarrow>
       blocker_row (blocker_key kind i) b (se_work t) \<Longrightarrow> Q b t"
    and exc: "\<And>e t. se_store t = se_store s \<Longrightarrow> se_world t = se_world s \<Longrightarrow> E e t"
  shows "wpE (ensure_mihomo_blocker X kind (Some i) operation revision reason) Q E s"
proof -
  have old: "F (update_job (jb_id j) reopen_blocker (se_work s)) \<and> job_keys_distinct (update_job (jb_id j) reopen_blocker (se_work s)) \<and>
      blocker_row key (jb_id j) (update_job (jb_id j) reopen_blocker (se_work s))"
    if "key = blocker_key kind i" "job_by_key key (se_work s) = Some j" "jb_job_type j = MIHOMO_RECONCILE_BLOCKER_JOB_TYPE" for key j
  proof -
    have j: "get_job (se_work s) (jb_id j) = Some j" "jb_dedupe_key j = key" "mihomo_blocker j"
      using F(2) that tbl_get_mem [of jb_id "db_jobs (se_work s)"]
      by (auto simp: job_keys_distinct_def job_by_key_def find_Some_iff mihomo_blocker_def)
    show ?thesis
      using stable_update [OF stable_conj [OF stable stable_distinct], of "se_work s" reopen_blocker "jb_id j" j] F j
        blocker_row_reopened [OF F(2) that(2) j(3)] that(1) by simp
  qed
  have new: "F (add_job (new_blocker key payload now) (se_work s)) \<and> job_keys_distinct (add_job (new_blocker key payload now) (se_work s)) \<and>
      blocker_row key (next_id jb_id (db_jobs (se_work s))) (add_job (new_blocker key payload now) (se_work s))"
    if "key = blocker_key kind i" for key payload now
    using stable_new [OF stable_conj [OF stable stable_distinct], of "se_work s"] F blocker_row_new that by simp
  show ?thesis
    unfolding ensure_mihomo_blocker_def Let_def
    by (intro vcg) (use ret exc old new key_of_blocker in \<open>auto simp: checks fails\<close>)
qed

section \<open>Classification and failure\<close>

lemma distinct_update: "job_keys_distinct d \<Longrightarrow> job_keys_distinct (update_job i f d)"
  by (simp add: job_keys_distinct_def jobs_update_job split: option.splits)

lemma ticked_tick: "ticked s = s\<lparr>se_tick := Suc (se_tick s)\<rparr>"
  by (simp add: ticked_def)

lemma evidence_kind: "same_identity I p \<Longrightarrow> vget p ''operation_kind'' = VStr (mi_kind I)"
  by (simp add: same_identity_def)

lemma wp_classify:
  assumes "\<And>r n. (r = LANDED \<Longrightarrow> landed_row i I fp (se_store s)) \<Longrightarrow> Q r (s\<lparr>se_tick := n\<rparr>)"
  shows "wpE (classify_mihomo_finalization X i I fp) Q E s"
  unfolding classify_mihomo_finalization_def has_exact_unresolved_release_blocker_def Let_def
  by (intro vcg) (use assms in \<open>auto simp: ticked_tick landed_row_def evidence_kind\<close>)

text \<open>No change of the forwarder, and the lock as before.\<close>

definition same_effects :: "'p mihomo_world session \<Rightarrow> 'p mihomo_world session \<Rightarrow> bool" where
  "same_effects s t \<longleftrightarrow> mw_applied (se_world t) = mw_applied (se_world s) \<and> mw_provider (se_world t) = mw_provider (se_world s) \<and>
     mw_locked (se_world t) = mw_locked (se_world s)"

text \<open>What is known of an attempt: the result of a normal return, and the exception of an unknown outcome.\<close>

definition attempt_result :: "int \<Rightarrow> 'p mihomo_world session \<Rightarrow> mihomo_reconciliation_result \<Rightarrow> 'p mihomo_world session \<Rightarrow> bool" where
  "attempt_result i s r t \<longleftrightarrow> mr_job_id r = i \<and> same_effects s t \<and>
     (mr_applied r \<longrightarrow> \<not> mr_finalized r \<longrightarrow> flagged i (se_store t))"

lemma wp_failure:
  assumes "\<And>r t. attempt_result i s r t \<Longrightarrow> \<not> mr_finalized r \<Longrightarrow> Q r t"
    and "\<And>e t. same_effects s t \<Longrightarrow> E e t"
  shows "wpE (mihomo_failure X i error now) Q E s"
  unfolding mihomo_failure_def by (intro vcg) (use assms in \<open>auto simp: attempt_result_def same_effects_def\<close>)

section \<open>Unknown outcomes\<close>

lemma wp_persist:
  assumes "job_keys_distinct (se_work s)"
    and "\<And>t. attempt_result i s (unknown_result i applied diagnostic) t \<Longrightarrow> Q (unknown_result i applied diagnostic) t"
    and "\<And>e t. same_effects s t \<Longrightarrow> E e t"
  shows "wpE (persist_unknown_blocker X i operation revision diagnostic applied) Q E s"
  unfolding persist_unknown_blocker_def mark_durable_unknown_def
  by (intro vcg wp_ensure [OF stable_const [of _ True]])
    (use assms in \<open>auto simp: attempt_result_def same_effects_def flagged_def unknown_result_def dest!: blocker_row_open\<close>)

lemma diagnosed_review:
  assumes "get_job d i = Some j" "mihomo_job j" "diagnostic \<in> set MIHOMO_UNKNOWN_DIAGNOSTICS"
  shows "diagnosed_row i (update_job i (review_mihomo_job diagnostic now) d)"
  using assms
  by (simp add: diagnosed_row_def get_job_update mihomo_job_def review_mihomo_job_def has_unknown_diagnostic_def)

lemma attempt_result_chain: "attempt_result i t r u \<Longrightarrow> same_effects s t \<Longrightarrow> attempt_result i s r u"
  by (simp add: attempt_result_def same_effects_def)

text \<open>
  An outcome is only reported as landed when the database said so before; otherwise the job or a
  blocker is flagged.
\<close>

lemma same_effects_trans: "same_effects s t \<Longrightarrow> same_effects t u \<Longrightarrow> same_effects s u"
  by (simp add: same_effects_def)

lemma wp_mark_unknown:
  assumes store: "job_keys_distinct (se_store s)" and diagnostic: "diagnostic \<in> set MIHOMO_UNKNOWN_DIAGNOSTICS"
    and ret: "\<And>r t. attempt_result i s r t \<Longrightarrow> (mr_finalized r \<longrightarrow> landed_row i I fp (se_store s) \<and> se_store t = se_store s) \<Longrightarrow> Q r t"
    and exc: "\<And>e t. same_effects s t \<Longrightarrow> E e t"
  shows "wpE (mark_unknown X i I fp diagnostic persist) Q E s"
proof -
  let ?p = "persist_unknown_blocker X i (Some (mi_operation I)) (Some (mi_revision I)) diagnostic True"
  have persist: "wpE ?p Q (\<lambda>e t. same_effects s t) t" if "job_keys_distinct (se_work t)" "same_effects s t" for t
    by (rule wp_persist [OF that(1)])
      (use ret attempt_result_chain [OF _ that(2)] that(2) in \<open>auto simp: unknown_result_def same_effects_def\<close>)
  have landed: "Q (landed_result i True) t" if "same_effects s t" "se_store t = se_store s" "landed_row i I fp (se_store s)" for t
    using that by (intro ret) (simp_all add: attempt_result_def landed_result_def)
  have diagnosed: "Q (unknown_result i True diagnostic) t" if "same_effects s t" "diagnosed_row i (se_store t)" for t
    using that by (intro ret) (simp_all add: attempt_result_def unknown_result_def flagged_def)
  have "wpE (mark_unknown_inner X i I fp diagnostic persist) Q (\<lambda>e t. same_effects s t) s"
    unfolding mark_unknown_inner_def Let_def has_exact_unresolved_release_blocker_def
    by (intro vcg wp_classify persist)
      (use landed diagnosed in \<open>auto simp: same_effects_def store distinct_update diagnosed_review diagnostic landed_row_def\<close>)
  then show ?thesis
    unfolding mark_unknown_def mark_durable_unknown_def wp
    by (rule wp_mono) (auto intro!: exc simp: same_effects_def)
qed

section \<open>Finalisation\<close>

lemma vget_dict_set: "vget (dict_set p k v) k' = (if k' = k then v else vget p k')"
  by (simp add: vget_def update_conv)

lemma validated_text:
  "validate_operation_id v = Inr a \<Longrightarrow> v = VStr a" "validate_operation_kind v = Inr a \<Longrightarrow> v = VStr a"
  by (cases v; simp add: validate_operation_id_def validate_mihomo_operation_id_def validate_operation_kind_def Let_def split: if_splits)+

lemma validated_revision: "validate_revision v = Inr n \<Longrightarrow> v = VInt n \<and> 0 < n"
  by (cases v) (simp_all add: validate_revision_def Let_def split: if_splits)

lemma identity_same: "payload_identity p = Inr I \<Longrightarrow> same_identity I p"
  unfolding payload_identity_def bindS_Inr
  by (auto dest!: validated_text validated_revision simp: same_identity_def)

lemma landed_finish:
  assumes "get_job d i = Some j" "mihomo_job j" "payload_identity p = Inr I" "safe_text 63 version"
  shows "landed_row i I fp (update_job i (finish_mihomo_job
    (dict_set p ''finalization_evidence'' (finalization_evidence I fp version))) d)"
  using assms(1,2,4) identity_same [OF assms(3)]
  by (simp add: landed_row_def get_job_update mihomo_job_def finish_mihomo_job_def mihomo_payload_def same_identity_def
      vget_dict_set evidence_matches_def finalization_evidence_def valid_evidence_version_def)

lemma wp_finalize:
  assumes store: "job_keys_distinct (se_store s)" "se_work s = se_store s" and row: "get_job (se_store s) i = Some j" "mihomo_job j"
    and identity: "payload_identity payload = Inr I" and version: "safe_text 63 version"
    and ret: "\<And>r t. attempt_result i s r t \<Longrightarrow> (mr_finalized r \<longrightarrow> landed_row i I fp (se_store t)) \<Longrightarrow> Q r t"
    and exc: "\<And>e t. same_effects s t \<Longrightarrow> E e t"
  shows "wpE (finalize_mihomo_job X i payload I fp version) Q E s"
proof -
  let ?d = "update_job i (finish_mihomo_job (dict_set payload ''finalization_evidence'' (finalization_evidence I fp version))) (se_store s)"
  have landed: "landed_row i I fp ?d" by (rule landed_finish [OF row identity version])
  have result: "Q (landed_result i True) t" if "same_effects s t" "landed_row i I fp (se_store t)" for t
    using that by (intro ret) (simp_all add: attempt_result_def landed_result_def)
  have failed: "wpE (mihomo_failure X i error now) Q E t" if "same_effects s t" for t error now
    by (rule wp_failure) (use ret exc attempt_result_chain [OF _ that] same_effects_trans [OF that] in blast)+
  have unknown: "wpE (mark_unknown X i I fp MIHOMO_FINALIZATION_UNKNOWN False) Q E t"
    if "same_effects s t" "job_keys_distinct (se_store t)" for t
    by (rule wp_mark_unknown [OF that(2)], simp add: MIHOMO_UNKNOWN_DIAGNOSTICS_def)
      (use ret exc attempt_result_chain [OF _ that(1)] same_effects_trans [OF that(1)] in metis)+
  show ?thesis
    unfolding finalize_mihomo_job_def
    by (intro vcg wp_ensure [OF stable_conj [OF stable_landed [of _ i I fp] stable_distinct]] wp_classify failed unknown)
      (use landed result exc store distinct_update in \<open>auto simp: same_effects_def\<close>)
qed

section \<open>One attempt\<close>

text \<open>The log of changes and the lock are as before; the provider's own state may have changed.\<close>

definition same_log :: "'p mihomo_world session \<Rightarrow> 'p mihomo_world session \<Rightarrow> bool" where
  "same_log s t \<longleftrightarrow> mw_applied (se_world t) = mw_applied (se_world s) \<and> mw_locked (se_world t) = mw_locked (se_world s)"

lemma same_effects_log: "same_effects s t \<Longrightarrow> same_log s t"
  by (simp add: same_effects_def same_log_def)

text \<open>The candidate was applied and the verifier confirmed it.\<close>

definition confirmed_run :: "'p mihomo_parts \<Rightarrow> 'p verifier \<Rightarrow> mihomo_identity \<Rightarrow> mihomo_candidate_config \<Rightarrow> 'p \<Rightarrow> 'p \<Rightarrow> bool" where
  "confirmed_run P V I c p0 p2 \<longleftrightarrow> (\<exists>a p1 v. mp_apply P c p0 = (Inr a, p1) \<and> ar_applied a \<and>
     V c (mi_operation I) (mi_revision I) p1 = (Inr v, p2) \<and> verification_accepted v \<noteq> None)"

text \<open>The candidate was built from a snapshot of the data \<open>d\<close> for the generation of the intent.\<close>

definition built_from :: "'p mihomo_parts \<Rightarrow> job \<Rightarrow> mihomo_identity \<Rightarrow> mihomo_candidate_config \<Rightarrow> database \<Rightarrow> 'p \<Rightarrow> bool" where
  "built_from P j I c d p0 \<longleftrightarrow> (\<exists>s0 desired template q s1. se_work s0 = d \<and> fst (mp_load P j s0) = Inr desired \<and>
     ds_snapshot_revision desired = mi_revision I \<and> mp_render P desired q = (Inr template, p0) \<and>
     fst (mp_finalize P template s1) = Inr c \<and> se_work s1 = d)"

definition running_row :: "int \<Rightarrow> 'w session \<Rightarrow> bool" where
  "running_row i s \<longleftrightarrow> job_keys_distinct (se_store s) \<and> se_work s = se_store s \<and>
     (\<exists>j. get_job (se_store s) i = Some j \<and> mihomo_job j \<and> jb_status j = JobRunning)"

lemma running_not_landed: "running_row i s \<Longrightarrow> \<not> landed_row i I fp (se_store s)"
  by (auto simp: running_row_def landed_row_def)

text \<open>A returned result: a job applied but not finalised is flagged; a finalised one satisfies \<open>A\<close>.\<close>

definition returned :: "int \<Rightarrow> mihomo_reconciliation_result \<Rightarrow> database \<Rightarrow> bool \<Rightarrow> bool" where
  "returned i r d A \<longleftrightarrow> mr_job_id r = i \<and> (mr_applied r \<longrightarrow> \<not> mr_finalized r \<longrightarrow> flagged i d) \<and> (mr_finalized r \<longrightarrow> A)"

lemma wp_unknown_running:
  assumes run: "running_row i s" and diagnostic: "diagnostic \<in> set MIHOMO_UNKNOWN_DIAGNOSTICS"
    and ret: "\<And>r t. same_log s t \<Longrightarrow> returned i r (se_store t) False \<Longrightarrow> Q r t"
    and exc: "\<And>e t. same_log s t \<Longrightarrow> E e t"
  shows "wpE (mark_unknown X i I fp diagnostic persist) Q E s"
proof (rule wp_mark_unknown [OF _ diagnostic])
  fix r t assume "attempt_result i s r t" "mr_finalized r \<longrightarrow> landed_row i I fp (se_store s) \<and> se_store t = se_store s"
  then show "Q r t"
    using running_not_landed [OF run] by (intro ret) (auto simp: attempt_result_def returned_def same_effects_log)
qed (use run in \<open>auto simp: running_row_def intro: exc same_effects_log\<close>)

lemma wp_verify:
  assumes run: "running_row i s" and identity: "payload_identity payload = Inr I"
    and ret: "\<And>r t. same_log s t \<Longrightarrow> returned i r (se_store t) (landed_row i I (mc_version c) (se_store t) \<and>
       (\<exists>v. V c (mi_operation I) (mi_revision I) (mw_provider (se_world s)) = (Inr v, mw_provider (se_world t)) \<and>
         verification_accepted v \<noteq> None)) \<Longrightarrow> Q r t"
    and exc: "\<And>e t. same_log s t \<Longrightarrow> E e t"
  shows "wpE (verify_and_finalize X V i payload I c) Q E s"
proof -
  have unknown: "wpE (mark_unknown X i I (mc_version c) MIHOMO_RUNTIME_UNKNOWN False) Q E t"
    if "running_row i t" "same_log s t" for t
    by (rule wp_unknown_running [OF that(1)])
      (use that(2) in \<open>auto simp: MIHOMO_UNKNOWN_DIAGNOSTICS_def same_log_def returned_def intro!: ret exc\<close>)
  have accepted: "safe_text 63 version" if "verification_accepted v = Some version" for v version
    using that by (auto simp: verification_accepted_def valid_evidence_version_def split: option.splits if_splits)
  have finish: "wpE (finalize_mihomo_job X i payload I (mc_version c) version) Q E (s\<lparr>se_world := (se_world s)\<lparr>mw_provider := p\<rparr>\<rparr>)"
    if "V c (mi_operation I) (mi_revision I) (mw_provider (se_world s)) = (Inr v, p)" "verification_accepted v = Some version" for v p version
  proof -
    let ?s = "s\<lparr>se_world := (se_world s)\<lparr>mw_provider := p\<rparr>\<rparr>"
    obtain j where j: "get_job (se_store ?s) i = Some j" "mihomo_job j" using run by (auto simp: running_row_def)
    show ?thesis
    proof (rule wp_finalize [OF _ _ j identity accepted [OF that(2)]])
      fix r t assume "attempt_result i ?s r t" "mr_finalized r \<longrightarrow> landed_row i I (mc_version c) (se_store t)"
      then show "Q r t" using that
        by (intro ret) (auto simp: attempt_result_def same_effects_def same_log_def returned_def)
    next
      fix e t assume "same_effects ?s t"
      then show "E e t" by (intro exc) (simp add: same_effects_def same_log_def)
    qed (use run in \<open>simp_all add: running_row_def\<close>)
  qed
  show ?thesis
    unfolding verify_and_finalize_def Let_def
    by (intro vcg unknown finish) (use run in \<open>auto simp: running_row_def same_log_def\<close>)
qed

text \<open>What an attempt started in \<open>s\<close> has done in \<open>t\<close>: at most one change, under the lock.\<close>

definition at_most_one_apply :: "'p mihomo_world session \<Rightarrow> 'p mihomo_world session \<Rightarrow> bool" where
  "at_most_one_apply s t \<longleftrightarrow> mw_locked (se_world t) = mw_locked (se_world s) \<and>
     (mw_applied (se_world t) = mw_applied (se_world s) \<or>
      mw_applied (se_world t) = mw_applied (se_world s) @ [(mw_locked (se_world s), se_store s)])"

definition finalized_as :: "'p mihomo_parts \<Rightarrow> 'p verifier \<Rightarrow> job \<Rightarrow> database \<Rightarrow> 'p mihomo_world session \<Rightarrow> bool" where
  "finalized_as P V j d t \<longleftrightarrow> (\<exists>I c p0. landed_row (jb_id j) I (mc_version c) (se_store t) \<and>
     built_from P j I c d p0 \<and> confirmed_run P V I c p0 (mw_provider (se_world t)))"

lemma wp_apply:
  assumes run: "running_row i s" and identity: "payload_identity payload = Inr I"
    and ret: "\<And>r t. at_most_one_apply s t \<Longrightarrow> returned i r (se_store t) (landed_row i I (mc_version c) (se_store t) \<and>
       confirmed_run P V I c (mw_provider (se_world s)) (mw_provider (se_world t))) \<Longrightarrow> Q r t"
    and exc: "\<And>e t. at_most_one_apply s t \<Longrightarrow> E e t"
  shows "wpE (apply_and_finalize X P V i payload I c) Q E s"
proof -
  let ?a = "\<lambda>p. s\<lparr>se_world := (se_world s)\<lparr>mw_applied := mw_applied (se_world s) @ [(mw_locked (se_world s), se_store s)], mw_provider := p\<rparr>\<rparr>"
  have run': "running_row i (?a p)" for p using run by (simp add: running_row_def)
  have log: "at_most_one_apply s t" if "same_log (?a p) t" for t p
    using that by (simp add: same_log_def at_most_one_apply_def)
  have unknown: "wpE (mark_unknown X i I fp diagnostic persist) Q E (?a p)"
    if "diagnostic \<in> set MIHOMO_UNKNOWN_DIAGNOSTICS" for p fp diagnostic persist
    by (rule wp_unknown_running [OF run' that]) (auto simp: returned_def intro!: ret exc dest: log)
  have failed: "wpE (mihomo_failure X i error now) Q E (ticked (?a p))" for p error now
    by (rule wp_failure)
      (auto simp: attempt_result_def same_effects_def returned_def at_most_one_apply_def intro!: ret exc)
  have verify: "wpE (verify_and_finalize X V i payload I c) Q E (?a p)"
    if "mp_apply P c (mw_provider (se_world s)) = (Inr a, p)" "ar_applied a" for a p
    by (rule wp_verify [OF run' identity])
      (use that in \<open>auto simp: returned_def confirmed_run_def intro!: ret exc dest: log\<close>)
  show ?thesis
    unfolding apply_and_finalize_def provider_apply_def
    by (intro vcg)
      (auto simp: MIHOMO_UNKNOWN_DIAGNOSTICS_def at_most_one_apply_def intro!: unknown failed verify exc)
qed

lemma finalized_asI:
  "landed_row (jb_id j) I (mc_version c) (se_store t) \<Longrightarrow> built_from P j I c d p0 \<Longrightarrow>
   confirmed_run P V I c p0 (mw_provider (se_world t)) \<Longrightarrow> finalized_as P V j d t"
  unfolding finalized_as_def by blast

lemma built_fromI:
  "fst (mp_load P j s0) = Inr desired \<Longrightarrow> mp_render P desired q = (Inr template, p0) \<Longrightarrow>
   fst (mp_finalize P template s1) = Inr c \<Longrightarrow> ds_snapshot_revision desired = mi_revision I \<Longrightarrow>
   se_work s0 = d \<Longrightarrow> se_work s1 = d \<Longrightarrow> built_from P j I c d p0"
  unfolding built_from_def by blast

lemma returned_mono: "returned i r d A \<Longrightarrow> (A \<Longrightarrow> B) \<Longrightarrow> returned i r d B"
  by (simp add: returned_def)

lemma at_most_one_apply_chain: "at_most_one_apply s t \<Longrightarrow> same_log t u \<Longrightarrow> at_most_one_apply s u"
  by (auto simp: at_most_one_apply_def same_log_def)

lemma wp_attempt_job:
  assumes parts: "read_only_parts P" and run: "running_row (jb_id j) s"
    and ret: "\<And>r t. at_most_one_apply s t \<Longrightarrow> returned (jb_id j) r (se_store t) (finalized_as P V j (se_store s) t) \<Longrightarrow> Q r t"
    and exc: "\<And>e t. at_most_one_apply s t \<Longrightarrow> E e t"
  shows "wpE (attempt_mihomo_job X P V j) Q E s"
proof -
  let ?s = "\<lambda>n md p. s\<lparr>se_world := (se_world s)\<lparr>mw_release := md, mw_provider := p\<rparr>, se_tick := n\<rparr>"
  have work: "se_work s = se_store s" using run by (simp add: running_row_def)
  have persist: "wpE (persist_unknown_blocker X (jb_id j) None None MIHOMO_FINALIZATION_UNKNOWN False) Q E s"
    by (rule wp_persist)
      (use run in \<open>auto simp: running_row_def attempt_result_def same_effects_def returned_def unknown_result_def
         at_most_one_apply_def intro!: ret exc\<close>)
  have activate: "wpE (apply_and_finalize X P V (jb_id j) payload I c) Q E (?s n md p)"
    if "payload_identity payload = Inr I" "built_from P j I c (se_store s) p" for payload I c n md p
  proof (rule wp_apply [OF _ that(1)])
    fix r t assume a: "at_most_one_apply (?s n md p) t" and r: "returned (jb_id j) r (se_store t)
      (landed_row (jb_id j) I (mc_version c) (se_store t) \<and>
       confirmed_run P V I c (mw_provider (se_world (?s n md p))) (mw_provider (se_world t)))"
    from a have "at_most_one_apply s t" by (simp add: at_most_one_apply_def)
    then show "Q r t"
      by (rule ret) (rule returned_mono [OF r], use that(2) in \<open>auto intro: finalized_asI\<close>)
  qed (use run exc in \<open>simp_all add: running_row_def at_most_one_apply_def\<close>)
  show ?thesis
    unfolding attempt_mihomo_job_def set_release_metadata_def
    apply (intro vcg persist wp_reads_only [OF read_only_parts.load_reads [OF parts]]
        wp_reads_only [OF read_only_parts.finalize_reads [OF parts]])
      apply (simp_all add: exc at_most_one_apply_def checks)
    apply (rule activate, simp)
    apply (rule built_fromI, assumption+)
     apply (simp_all add: work)
    done
qed

lemma wp_claimed:
  assumes parts: "read_only_parts P" and run: "running_row (jb_id j) s"
    and ret: "\<And>r t. at_most_one_apply s t \<Longrightarrow> returned (jb_id j) r (se_store t) (finalized_as P V j (se_store s) t) \<Longrightarrow> Q r t"
    and exc: "\<And>e t. at_most_one_apply s t \<Longrightarrow> E e t"
  shows "wpE (reconcile_claimed_mihomo X P V j) Q E s"
proof -
  let ?s = "s\<lparr>se_world := (se_world s)\<lparr>mw_release := Some \<lparr>md_source_job = jb_id j, md_operation = None, md_revision = None\<rparr>\<rparr>\<rparr>"
  have run': "running_row (jb_id j) ?s" using run by (simp add: running_row_def)
  have failed: "wpE (mihomo_failure X (jb_id j) error now) Q E t" if "at_most_one_apply s t" for error now t
  proof (rule wp_failure)
    fix r u assume "attempt_result (jb_id j) t r u" "\<not> mr_finalized r"
    then show "Q r u" using at_most_one_apply_chain [OF that same_effects_log]
      by (intro ret) (auto simp: attempt_result_def returned_def)
  next
    fix e u assume "same_effects t u"
    then show "E e u" using at_most_one_apply_chain [OF that same_effects_log] by (intro exc)
  qed
  have attempt: "wpE (attempt_mihomo_job X P V j) Q
      (\<lambda>exc. wpE (if is_outcome_unknown exc then raiseE exc else bindE (db_now X) (mihomo_failure X (jb_id j) exc)) Q E) ?s"
  proof (rule wp_attempt_job [OF parts run'])
    fix r t assume "at_most_one_apply ?s t" "returned (jb_id j) r (se_store t) (finalized_as P V j (se_store ?s) t)"
    then show "Q r t" by (intro ret) (simp_all add: at_most_one_apply_def)
  next
    fix e t assume "at_most_one_apply ?s t"
    then have a: "at_most_one_apply s t" by (simp add: at_most_one_apply_def)
    show "wpE (if is_outcome_unknown e then raiseE e else bindE (db_now X) (mihomo_failure X (jb_id j) e)) Q E t"
      by (intro vcg exc [OF a] failed) (use a in \<open>simp add: at_most_one_apply_def\<close>)
  qed
  show ?thesis
    unfolding reconcile_claimed_mihomo_def set_release_metadata_def by (intro vcg attempt)
qed

end
