(* ===== verification/Mihomo_Guarantees.thy ===== *)
theory Mihomo_Guarantees
  imports Mihomo_Outcome
begin

text \<open>
  What the forwarder's lock and its worker guarantee, whichever statement, commit, lock call or
  provider call fails.
\<close>

section \<open>Giving the lock back\<close>

abbreviation release_key :: "int \<Rightarrow> string" where
  "release_key i \<equiv> blocker_key MIHOMO_BLOCKER_KIND_LOCK_RELEASE i"

lemma stable_row:
  assumes "stable key F" "F d" "blocker_row key b d" "\<And>k. same_row_identity k (f k)"
  shows "F (update_job b f d)"
  using assms(3) stable_update [OF assms(1,2,4)] by (auto simp: blocker_row_def)

lemma blocker_row_code: "blocker_row key b d \<Longrightarrow> blocker_row key b (update_job b (set_error_code c) d)"
  by (auto simp: blocker_row_def get_job_update mihomo_blocker_def set_error_code_def)

text \<open>The state of the forwarder and the log of its changes.\<close>

definition same_forwarder :: "'p mihomo_world session \<Rightarrow> 'p mihomo_world session \<Rightarrow> bool" where
  "same_forwarder s t \<longleftrightarrow> mw_applied (se_world t) = mw_applied (se_world s) \<and> mw_provider (se_world t) = mw_provider (se_world s)"

definition kept :: "(database \<Rightarrow> bool) \<Rightarrow> 'p mihomo_world session \<Rightarrow> 'p mihomo_world session \<Rightarrow> bool" where
  "kept F s t \<longleftrightarrow> F (se_store t) \<and> same_forwarder s t"

lemma wp_open_release:
  assumes stable: "stable (release_key (md_source_job md)) F"
    and F: "F (se_store s)" and distinct: "\<And>d. F d \<Longrightarrow> job_keys_distinct d"
    and ret: "\<And>b t. kept F s t \<Longrightarrow> blocker_row (release_key (md_source_job md)) b (se_store t) \<Longrightarrow>
      mw_locked (se_world t) = mw_locked (se_world s) \<Longrightarrow> Q b t"
    and exc: "\<And>e t. kept F s t \<Longrightarrow> E e t"
  shows "wpE (open_release_blocker X md unknown) Q E s"
  unfolding open_release_blocker_def invalidate_connection_def
  by (intro vcg wp_ensure [OF stable])
    (use F distinct in \<open>auto simp: kept_def same_forwarder_def intro!: ret exc stable_row [OF stable] blocker_row_code\<close>)

lemma wp_release_failed:
  assumes stable: "\<And>b. r = Some b \<Longrightarrow> stable key F \<and> blocker_row key b (se_store t)" and t: "kept F s t"
    and exc: "\<And>e u. kept F s u \<Longrightarrow> E e u"
  shows "wpE (release_failed X r) Q E t"
proof -
  have F: "F (se_store t)" "same_forwarder s t" using t by (simp_all add: kept_def)
  have marked: "F (update_job b (set_error_code c) (se_store t))" if "r = Some b" for b c
    using stable [OF that] F(1) by (auto intro: stable_row)
  show ?thesis
    unfolding release_failed_def
    by (intro vcg exc) (use F marked in \<open>simp_all add: kept_def same_forwarder_def\<close>)
qed

lemma wp_release_confirmed:
  assumes stable: "\<And>b. r = Some b \<Longrightarrow> stable key F \<and> blocker_row key b (se_store t)" and t: "kept F s t"
    and exc: "\<And>e u. kept F s u \<Longrightarrow> E e u"
    and ret: "\<And>u. kept F s u \<Longrightarrow> mw_locked (se_world u) = mw_locked (se_world t) \<Longrightarrow>
       (r \<noteq> None \<longrightarrow> unknown \<longrightarrow> se_store u = se_store t) \<Longrightarrow> Q () u"
  shows "wpE (release_confirmed X r unknown) Q E t"
proof -
  have unit: "Q = (\<lambda>_. Q ())" by auto
  have F: "F (se_store t)" "same_forwarder s t" using t by (simp_all add: kept_def)
  have closed: "F (update_job b close_blocker (se_store t))" if "r = Some b" for b
    using stable [OF that] F(1) by (auto intro: stable_row)
  show ?thesis
    unfolding release_confirmed_def resolve_mihomo_blocker_def
    by (subst unit, intro vcg exc ret) (use F closed in \<open>simp_all add: kept_def same_forwarder_def\<close>)
qed

lemma wp_give_back:
  assumes stable: "\<And>md. mw_release (se_world s) = Some md \<Longrightarrow> stable (release_key (md_source_job md)) F"
    and F: "F (se_store s)" and distinct: "\<And>d. F d \<Longrightarrow> job_keys_distinct d"
    and ret: "\<And>t. kept F s t \<Longrightarrow> \<not> mw_locked (se_world t) \<Longrightarrow>
      (\<forall>md. mw_release (se_world s) = Some md \<longrightarrow> mw_unknown (se_world s) \<longrightarrow> open_blocker (release_key (md_source_job md)) (se_store t)) \<Longrightarrow> Q () t"
    and exc: "\<And>e t. kept F s t \<Longrightarrow> E e t"
  shows "wpE (give_back X L) Q E s"
proof -
  have released: "wpE (attemptE (mihomo_release_lock L) (\<lambda>_. release_failed X r)
      (\<lambda>_. release_confirmed X r ((mw_unknown \<circ> se_world) s))) Q E t"
    if t: "kept F s t" and r: "r = None \<and> mw_release (se_world s) = None \<or>
       (\<exists>b md. r = Some b \<and> mw_release (se_world s) = Some md \<and> blocker_row (release_key (md_source_job md)) b (se_store t))" for t r
  proof -
    define key where "key = (case mw_release (se_world s) of Some md \<Rightarrow> release_key (md_source_job md) | None \<Rightarrow> [])"
    have row: "stable key F \<and> blocker_row key b (se_store t)" if "r = Some b" for b
      using r stable that by (auto simp: key_def)
    have fail: "wpE (release_failed X r) Q E u" if "se_store u = se_store t" "same_forwarder t u" for u
      by (rule wp_release_failed [where key = key and F = F and s = s])
        (use row that t exc in \<open>auto simp: kept_def same_forwarder_def\<close>)
    have confirm: "wpE (release_confirmed X r (mw_unknown (se_world s))) Q E u"
      if "se_store u = se_store t" "same_forwarder t u" "\<not> mw_locked (se_world u)" for u
    proof (rule wp_release_confirmed [where key = key and F = F and s = s])
      fix v assume v: "kept F s v" "mw_locked (se_world v) = mw_locked (se_world u)"
        "r \<noteq> None \<longrightarrow> mw_unknown (se_world s) \<longrightarrow> se_store v = se_store u"
      show "Q () v"
        by (rule ret [OF v(1)]) (use v that r row in \<open>auto simp: key_def dest: blocker_row_open\<close>)
    qed (use row that t exc in \<open>auto simp: kept_def same_forwarder_def\<close>)
    show ?thesis
      unfolding mihomo_release_lock_def invalidate_connection_def
      by (intro vcg; (cases "lo_release L (se_tick t)")?) (auto simp: wp same_forwarder_def intro!: fail confirm)
  qed
  show ?thesis
    unfolding give_back_def
    by (intro vcg_bind vcg_gets vcg_option vcg_ret released wp_open_release [OF stable])
      (use F distinct exc in \<open>auto simp: kept_def same_forwarder_def\<close>)
qed

section \<open>The lock\<close>

definition leaves :: "'p mihomo_world session \<Rightarrow> 'p mihomo_world session \<Rightarrow> bool" where
  "leaves s t \<longleftrightarrow> se_store t = se_store s \<and> same_forwarder s t"

definition entered :: "'p mihomo_world session \<Rightarrow> 'p mihomo_world session \<Rightarrow> bool" where
  "entered s t \<longleftrightarrow> se_work t = se_work s \<and> se_store t = se_store s \<and>
     se_world t = (se_world s)\<lparr>mw_locked := True, mw_held := True\<rparr>"

lemma vcg_close:
  "R (s\<lparr>se_world := (if mw_discard (se_world s) then (se_world s)\<lparr>mw_locked := False, mw_discard := False\<rparr>
      else (se_world s)\<lparr>mw_pool := mw_pool (se_world s) @ [mw_locked (se_world s)], mw_locked := False\<rparr>)\<rparr>) \<Longrightarrow>
   wpE close_lock_connection (\<lambda>_. R) E s"
  by (simp add: close_lock_connection_def wp)

lemma wp_open_lock:
  assumes "\<And>t. se_work t = se_work s \<Longrightarrow> se_store t = se_store s \<Longrightarrow> se_world t = (se_world s)\<lparr>mw_locked := True\<rparr> \<Longrightarrow> Q () t"
    and "\<And>e t. se_work t = se_work s \<Longrightarrow> leaves s t \<Longrightarrow> E e t"
  shows "wpE (open_mihomo_lock L) Q E s"
proof -
  have unit: "Q = (\<lambda>_. Q ())" by auto
  have get: "wpE (tryE (mihomo_get_lock L) (\<lambda>exc. thenE close_lock_connection (raiseE exc))) Q E t"
    if "se_work t = se_work s" "se_store t = se_store s" "se_world t = se_world s" for t
    unfolding mihomo_get_lock_def close_lock_connection_def invalidate_connection_def
    by (cases "lo_get L (se_tick t)") (use that assms in \<open>auto simp: wp leaves_def same_forwarder_def\<close>)
  show ?thesis
    unfolding open_mihomo_lock_def Let_def
    by (intro vcg_bind vcg_tick vcg_if vcg_raise vcg_then vcg_close vcg_sum get)
      (use assms(2) in \<open>simp_all add: leaves_def same_forwarder_def\<close>)
qed

text \<open>The rule for a block under the lock.\<close>

lemma wp_mihomo_write:
  assumes failed: "\<And>e t. leaves s t \<Longrightarrow> E e t"
    and body: "\<And>t. entered s t \<Longrightarrow> wpE body
       (\<lambda>x. wpE (give_back X L) (\<lambda>_ v. \<forall>w. leaves v w \<longrightarrow> Q x w) (\<lambda>e v. \<forall>w. leaves v w \<longrightarrow> E e w))
       (\<lambda>e. wpE (give_back X L) (\<lambda>_ v. \<forall>w. leaves v w \<longrightarrow> E e w) (\<lambda>e' v. \<forall>w. leaves v w \<longrightarrow> E e' w)) t"
  shows "wpE (mihomo_projection_write X L body) Q E s"
  unfolding mihomo_projection_write_def close_lock_connection_def wp
  apply (rule wp_open_lock)
   apply (rule wp_mono [OF body])
     apply (simp add: entered_def)
    apply (erule wp_mono; drule spec; erule mp; simp add: leaves_def same_forwarder_def)
   apply (erule wp_mono; drule spec; erule mp; simp add: leaves_def same_forwarder_def)
  apply (rule failed, assumption)
  done

section \<open>Older intents\<close>

text \<open>Every intent older than \<open>i\<close> is SUCCEEDED, an invariant while \<open>i\<close> is the owner.\<close>

definition below :: "int \<Rightarrow> job \<Rightarrow> bool" where
  "below i k \<longleftrightarrow> mihomo_job k \<longrightarrow> jb_id k < i \<longrightarrow> jb_status k = JobSucceeded"

interpretation below: owner_rows "below i" i for i
proof unfold_locales
  fix j assume "mihomo_blocker j"
  then show "below i (reopen_blocker j)" "below i (close_blocker j)"
    using not_both [of j] by (auto simp: below_def mihomo_job_def mihomo_blocker_def)
qed (auto simp: below_def mihomo_job_def new_blocker_def set_error_code_def MIHOMO_RECONCILE_JOB_TYPE_def
    MIHOMO_RECONCILE_BLOCKER_JOB_TYPE_def)

lemma stable_below: "stable key (rows_ok (below i))"
proof -
  have "rows_ok (below i) (add_job (new_blocker key payload now) d)" if "rows_ok (below i) d" for payload now d
    by (rule rows_ok_add [OF that])
      (simp add: below_def new_blocker_def mihomo_job_def MIHOMO_RECONCILE_JOB_TYPE_def MIHOMO_RECONCILE_BLOCKER_JOB_TYPE_def)
  moreover have "rows_ok (below i) (update_job b f d)"
    if d: "rows_ok (below i) d" and f: "\<forall>k. same_row_identity k (f k)" and j: "get_job d b = Some j" "mihomo_blocker j" for b f d j
  proof (rule rows_ok_update [OF d])
    fix k assume "k \<in> set (db_jobs d)" "jb_id k = b"
    then have "k = j" using same_row [OF d] tbl_get_Some [OF j(1)] by blast
    then show "below i (f k)"
      using j(2) f not_both [of "f k"] by (auto simp: below_def mihomo_blocker_def same_row_identity_def)
  qed
  ultimately show ?thesis by (simp add: stable_def)
qed

end
