(* ===== verification/Mihomo_Worker.thy ===== *)
theory Mihomo_Worker
  imports Mihomo_Guarantees
begin

text \<open>
  One run of the forwarder's worker: what it may change, what its result means, and why a run
  whose outcome is not known stops every later one.
\<close>

section \<open>What lets a writer change the forwarder\<close>

definition writer_state :: "int \<Rightarrow> database \<Rightarrow> bool" where
  "writer_state i d \<longleftrightarrow> row_status i d = Some JobRunning \<and> \<not> unresolved_blocker d \<and> \<not> unresolved_intent (Some i) d"

definition may_write :: "'p mihomo_world session \<Rightarrow> 'p mihomo_world session \<Rightarrow> bool" where
  "may_write s t \<longleftrightarrow> mw_applied (se_world t) = mw_applied (se_world s) \<or>
     (\<exists>i d. mw_applied (se_world t) = mw_applied (se_world s) @ [(True, d)] \<and> writer_state i d)"

text \<open>
  The durable states in which the outcome of a mutation is not known: an unresolved blocker, or
  a running job with a diagnostic such that all older intents are SUCCEEDED.
\<close>

definition stuck :: "database \<Rightarrow> bool" where
  "stuck d \<longleftrightarrow> job_keys_distinct d \<and> (unresolved_blocker d \<or> (\<exists>i. diagnosed_row i d \<and> rows_ok (below i) d))"

definition run_result :: "'p mihomo_parts \<Rightarrow> 'p verifier \<Rightarrow> 'p mihomo_world session \<Rightarrow> mihomo_reconciliation_result option \<Rightarrow>
    'p mihomo_world session \<Rightarrow> bool" where
  "run_result P V s r t \<longleftrightarrow> (case r of None \<Rightarrow> mw_applied (se_world t) = mw_applied (se_world s)
    | Some r \<Rightarrow> (mr_applied r \<longrightarrow> \<not> mr_finalized r \<longrightarrow> stuck (se_store t)) \<and>
        (mr_finalized r \<longrightarrow> (\<exists>j d. jb_id j = mr_job_id r \<and> writer_state (jb_id j) d \<and> finalized_as P V j d t)))"

lemma unresolved_below: "job_keys_distinct d \<Longrightarrow> \<not> unresolved_intent (Some i) d \<Longrightarrow> rows_ok (below i) d"
  by (auto simp: rows_ok_def below_def unresolved_intent_def list_all_iff list_ex_iff)

lemma open_unresolved: "open_blocker key d \<Longrightarrow> unresolved_blocker d"
  by (auto simp: open_blocker_def unresolved_blocker_def list_ex_iff)

lemma flagged_stuck: "job_keys_distinct d \<Longrightarrow> flagged i d \<Longrightarrow> rows_ok (below i) d \<Longrightarrow> stuck d"
  using open_unresolved by (auto simp: stuck_def flagged_def)

lemma stable_outcome:
  "stable (release_key k) (\<lambda>d. (job_keys_distinct d \<and> flagged i d) \<and> rows_ok (below i) d)"
  by (intro stable_conj stable_flagged blocker_keys_differ stable_below)

section \<open>Giving the lock back after a run\<close>

interpretation unconstrained: owner_rows "\<lambda>_. True" i for i
  by unfold_locales simp_all

text \<open>A fact that is stable under the release blocker's changes survives the lock.\<close>

lemma wp_give_back_fact:
  assumes "\<And>k. stable (release_key k) F" and "F (se_store s)" and "job_keys_distinct (se_store s)"
    and "\<And>t. F (se_store t) \<Longrightarrow> same_forwarder s t \<Longrightarrow> Q () t" and "\<And>e t. same_forwarder s t \<Longrightarrow> E e t"
  shows "wpE (give_back X L) Q E s"
  by (rule wp_give_back [OF stable_conj [OF assms(1) stable_distinct]])
    (use assms in \<open>auto simp: kept_def\<close>)

lemma same_forwarder_trans: "same_forwarder s t \<Longrightarrow> same_forwarder t u \<Longrightarrow> same_forwarder s u"
  by (simp add: same_forwarder_def)

text \<open>A claimed job, from the state the assertion has accepted to the end of the run.\<close>

lemma wp_run_claimed:
  assumes parts: "read_only_parts P" and run: "running_row (jb_id j) s" and authorised: "writer_state (jb_id j) (se_store s)"
    and locked: "mw_locked (se_world s)"
    and ret: "\<And>r t. may_write s t \<Longrightarrow> run_result P V s (Some r) t \<Longrightarrow> Q (Some r) t"
    and exc: "\<And>e t. may_write s t \<Longrightarrow> E e t"
  shows "wpE (reconcile_claimed_mihomo X P V j)
     (\<lambda>r. wpE (give_back X L) (\<lambda>_ v. \<forall>w. leaves v w \<longrightarrow> Q (Some r) w) (\<lambda>e v. \<forall>w. leaves v w \<longrightarrow> E e w))
     (\<lambda>e. wpE (give_back X L) (\<lambda>_ v. \<forall>w. leaves v w \<longrightarrow> E e w) (\<lambda>e' v. \<forall>w. leaves v w \<longrightarrow> E e' w)) s"
proof -
  let ?i = "jb_id j"
  have below: "rows_ok (below ?i) (se_store s)" "se_work s = se_store s"
    using run unresolved_below authorised by (auto simp: running_row_def writer_state_def)
  have keeps: "wpE (reconcile_claimed_mihomo X P V j) (\<lambda>_. below.good ?i) (\<lambda>_. below.good ?i) s"
    using below.keeps_claimed [where X = X and V = V, OF parts refl] below by (simp add: preserves_def on_data_def)
  have one: "may_write s w" if "at_most_one_apply s t" "same_forwarder t u" "leaves u w" for t u w
    using that locked authorised by (auto simp: may_write_def at_most_one_apply_def same_forwarder_def leaves_def)
  have raised: "wpE (give_back X L) (\<lambda>_ v. \<forall>w. leaves v w \<longrightarrow> E e w) (\<lambda>e' v. \<forall>w. leaves v w \<longrightarrow> E e' w) t"
    if "at_most_one_apply s t" "below.good ?i t" for e t
    by (rule wp_give_back_fact [where F = "\<lambda>d. True"])
      (use that exc one in \<open>auto simp: stable_const on_data_def rows_ok_def\<close>)
  have returned: "wpE (give_back X L) (\<lambda>_ v. \<forall>w. leaves v w \<longrightarrow> Q (Some r) w) (\<lambda>e v. \<forall>w. leaves v w \<longrightarrow> E e w) t"
    if t: "at_most_one_apply s t" "below.good ?i t" and r: "returned ?i r (se_store t) (finalized_as P V j (se_store s) t)" for r t
  proof -
    have d: "job_keys_distinct (se_store t)" "rows_ok (below ?i) (se_store t)"
      using t(2) by (simp_all add: on_data_def rows_ok_def)
    obtain I c p0 where f: "mr_finalized r \<Longrightarrow> landed_row ?i I (mc_version c) (se_store t) \<and>
        built_from P j I c (se_store s) p0 \<and> confirmed_run P V I c p0 (mw_provider (se_world t))"
      using r by (auto simp: returned_def finalized_as_def)
    define F where "F d \<longleftrightarrow> (mr_applied r \<and> \<not> mr_finalized r \<longrightarrow> (job_keys_distinct d \<and> flagged ?i d) \<and> rows_ok (below ?i) d) \<and>
        (mr_finalized r \<longrightarrow> landed_row ?i I (mc_version c) d)" for d
    have stable: "stable (release_key k) F" for k
      unfolding F_def by (rule stable_conj [OF stable_imp [OF stable_outcome] stable_imp [OF stable_landed]])
    show ?thesis
    proof (rule wp_give_back_fact [OF stable _ d(1)])
      show "F (se_store t)" using r f d by (auto simp: F_def returned_def)
    next
      fix u assume u: "F (se_store u)" "same_forwarder t u"
      have "Q (Some r) w" if w: "leaves u w" for w
      proof (rule ret [OF one [OF t(1) u(2) w]])
        have "finalized_as P V j (se_store s) w" if "mr_finalized r"
          using that f u w by (intro finalized_asI [of j I c]) (auto simp: F_def same_forwarder_def leaves_def)
        moreover have "stuck (se_store w)" if "mr_applied r" "\<not> mr_finalized r"
          using that u w flagged_stuck by (auto simp: F_def leaves_def)
        moreover have "mr_job_id r = ?i" using r by (simp add: returned_def)
        ultimately show "run_result P V s (Some r) w"
          using authorised by (auto simp: run_result_def)
      qed
      then show "\<forall>w. leaves u w \<longrightarrow> Q (Some r) w" by simp
    qed (use one [OF t(1)] exc in blast)
  qed
  have "wpE (reconcile_claimed_mihomo X P V j)
      (\<lambda>r t. (at_most_one_apply s t \<and> returned ?i r (se_store t) (finalized_as P V j (se_store s) t)) \<and> below.good ?i t)
      (\<lambda>e t. at_most_one_apply s t \<and> below.good ?i t) s"
    unfolding wp_conj by (intro conjI keeps wp_claimed [OF parts run]) (simp_all add: wp_conj)
  then show ?thesis
    by (rule wp_mono) (use returned raised in blast)+
qed

section \<open>A run\<close>

lemma mark_running_fields [simp]:
  "jb_id (mark_running now j) = jb_id j" "jb_job_type (mark_running now j) = jb_job_type j" "jb_status (mark_running now j) = JobRunning"
  by (simp_all add: mark_running_def)

text \<open>The parts of the worker that never reach the forwarder.\<close>

definition claimed_in :: "datetime \<Rightarrow> database \<Rightarrow> job \<Rightarrow> bool" where
  "claimed_in now d j \<longleftrightarrow> j \<in> set (db_jobs d) \<and> mihomo_claimable now j \<and> get_job d (jb_id j) = Some j"

lemma wp_claim:
  assumes distinct: "job_keys_distinct (se_work s)" "se_store s = se_work s"
    and none: "\<And>t. se_store t = se_store s \<Longrightarrow> se_world t = se_world s \<Longrightarrow> Q None t"
    and some: "\<And>j t. claimed_in now (se_store s) j \<Longrightarrow> se_work t = update_job (jb_id j) (mark_running now) (se_store s) \<Longrightarrow>
      se_store t = se_work t \<Longrightarrow> se_world t = se_world s \<Longrightarrow> Q (Some (mark_running now j)) t"
    and exc: "\<And>e t. se_world t = se_world s \<Longrightarrow> se_store t = se_store s \<or>
      (\<exists>j. claimed_in now (se_store s) j \<and> se_store t = update_job (jb_id j) (mark_running now) (se_store s)) \<Longrightarrow> E e t"
  shows "wpE (claim_mihomo X now) Q E s"
proof -
  have claimed: "claimed_in now (se_work s) j" if "first_by jb_id (filter (mihomo_claimable now) (db_jobs (se_work s))) = Some j" for j
    using first_by_mem [OF that] distinct(1) tbl_get_mem [of jb_id "db_jobs (se_work s)" j]
    by (auto simp: claimed_in_def job_keys_distinct_def)
  have lost: "E e t" if "claimed_in now (se_store s) j" "se_store t = update_job (jb_id j) (mark_running now) (se_store s)"
      "se_world t = se_world s" for e t j
    using that exc by blast
  have unclaimed: "E e t" if "se_store t = se_store s" "se_world t = se_world s" for e t
    using that exc by blast
  show ?thesis
    unfolding claim_mihomo_def
    by (intro vcg) (use distinct none some lost unclaimed claimed in auto)
qed

lemma wp_assert_clear:
  assumes "\<And>n. \<not> unresolved_blocker (se_work s) \<Longrightarrow> \<not> unresolved_intent owning (se_work s) \<Longrightarrow> Q () (s\<lparr>se_tick := n\<rparr>)"
    and "\<And>e n. E e (s\<lparr>se_tick := n\<rparr>)"
  shows "wpE (assert_no_unresolved_mihomo_mutation X owning) Q E s"
proof -
  have unit: "Q = (\<lambda>_. Q ())" by auto
  show ?thesis
    unfolding assert_no_unresolved_mihomo_mutation_def
    using assms assms(2) [of _ "se_tick s"] by (subst unit) (intro vcg, auto simp: ticked_tick)
qed

lemma wp_reset:
  assumes "se_store s = d" and "\<And>t. se_world t = se_world s \<Longrightarrow> se_store t = d \<or>
      (\<exists>j. get_job d i = Some j \<and> jb_status j = JobRunning \<and> se_store t = update_job i unclaim d) \<Longrightarrow> Q () t \<and> (\<forall>e. E e t)"
  shows "wpE (reset_blocked_claim X i) Q E s"
proof -
  have unit: "Q = (\<lambda>_. Q ())" by auto
  show ?thesis
    unfolding reset_blocked_claim_def
    by (subst unit) (intro vcg; use assms in auto)
qed

text \<open>The session as the worker opens it and holds the lock.\<close>

definition opened :: "'p mihomo_world session \<Rightarrow> 'p mihomo_world session \<Rightarrow> bool" where
  "opened s t \<longleftrightarrow> se_work t = se_store s \<and> se_store t = se_store s \<and>
     se_world t = (se_world s)\<lparr>mw_held := True, mw_release := None, mw_unknown := False, mw_locked := True\<rparr>"

definition run_body :: "db_oracle \<Rightarrow> 'p mihomo_parts \<Rightarrow> 'p verifier \<Rightarrow> ('p, mihomo_reconciliation_result option) mdb" where
  "run_body X P V = bindE (db_now X) (\<lambda>now.
     bindE (claim_mihomo X now) (\<lambda>claimed. case claimed of
       None \<Rightarrow> retE None
     | Some j \<Rightarrow> attemptE (assert_no_unresolved_mihomo_mutation X (Some (jb_id j)))
         (\<lambda>exc. if is_blocked exc then thenE (reset_blocked_claim X (jb_id j)) (retE None) else raiseE exc)
         (\<lambda>_. bindE (reconcile_claimed_mihomo X P V j) (\<lambda>r. retE (Some r)))))"

lemma wp_worker_run:
  assumes failed: "\<And>e t. same_forwarder s t \<Longrightarrow> se_store t = se_store s \<Longrightarrow> E e t"
    and body: "\<And>t. opened s t \<Longrightarrow> wpE (run_body X P V)
       (\<lambda>x. wpE (give_back X L) (\<lambda>_ v. \<forall>w. leaves v w \<longrightarrow> Q x w) (\<lambda>e v. \<forall>w. leaves v w \<longrightarrow> E e w))
       (\<lambda>e. wpE (give_back X L) (\<lambda>_ v. \<forall>w. leaves v w \<longrightarrow> E e w) (\<lambda>e' v. \<forall>w. leaves v w \<longrightarrow> E e' w)) t"
  shows "wpE (reconcile_mihomo_job X L P (Some V)) Q E s"
  unfolding reconcile_mihomo_job_def fresh_mihomo_session_def option.case run_body_def [symmetric]
  by (intro vcg_then vcg_modify wp_mihomo_write failed body)
    (simp_all add: leaves_def same_forwarder_def entered_def opened_def)

lemma wp_worker:
  assumes parts: "read_only_parts P" and distinct: "job_keys_distinct (se_store s)"
    and ret: "\<And>r t. may_write s t \<Longrightarrow> run_result P V s r t \<Longrightarrow> Q r t" and exc: "\<And>e t. may_write s t \<Longrightarrow> E e t"
  shows "wpE (reconcile_mihomo_job X L P (Some V)) Q E s"
proof (rule wp_worker_run)
  fix e t assume "same_forwarder s t"
  then show "E e t" by (intro exc) (simp add: may_write_def same_forwarder_def)
next
  fix t :: "'a mihomo_world session" assume t: "opened s t"
  have same: "may_write s v \<and> run_result P V s None v" if "same_forwarder s u" "leaves u v" for u v
    using that by (simp add: may_write_def run_result_def same_forwarder_def leaves_def)
  have none: "wpE (give_back X L) (\<lambda>_ v. \<forall>w. leaves v w \<longrightarrow> Q None w) (\<lambda>e v. \<forall>w. leaves v w \<longrightarrow> E e w) u"
    and raised: "wpE (give_back X L) (\<lambda>_ v. \<forall>w. leaves v w \<longrightarrow> E e w) (\<lambda>e' v. \<forall>w. leaves v w \<longrightarrow> E e' w) u"
    if "same_forwarder s u" "job_keys_distinct (se_store u)" for u e
    using same_forwarder_trans [OF that(1)] same ret exc that(2)
    by (intro wp_give_back_fact [where F = "\<lambda>d. True"]; blast intro: stable_const)+
  have run: "wpE (reconcile_claimed_mihomo X P V (mark_running now j))
     (\<lambda>r. wpE (give_back X L) (\<lambda>_ v. \<forall>w. leaves v w \<longrightarrow> Q (Some r) w) (\<lambda>e v. \<forall>w. leaves v w \<longrightarrow> E e w))
     (\<lambda>e. wpE (give_back X L) (\<lambda>_ v. \<forall>w. leaves v w \<longrightarrow> E e w) (\<lambda>e' v. \<forall>w. leaves v w \<longrightarrow> E e' w)) u"
    if j: "claimed_in now (se_store t) j" and u: "se_work u = update_job (jb_id j) (mark_running now) (se_store t)"
      "se_store u = se_work u" "se_world u = se_world t"
      and clear: "\<not> unresolved_blocker (se_work u)" "\<not> unresolved_intent (Some (jb_id j)) (se_work u)" for now j u
  proof (rule wp_run_claimed [OF parts])
    have row: "get_job (se_store u) (jb_id j) = Some (mark_running now j)" "mihomo_job j"
      using j u by (auto simp: claimed_in_def get_job_update mihomo_claimable_def)
    show "running_row (jb_id (mark_running now j)) u"
      using row u t distinct by (simp add: running_row_def mihomo_job_def opened_def distinct_update)
    show "writer_state (jb_id (mark_running now j)) (se_store u)"
      using row clear u by (simp add: writer_state_def row_status_def)
    show "mw_locked (se_world u)" using t u by (simp add: opened_def)
  next
    fix r v assume "may_write u v" "run_result P V u (Some r) v"
    then show "Q (Some r) v" using t u by (intro ret) (simp_all add: may_write_def run_result_def opened_def)
  next
    fix e v assume "may_write u v"
    then show "E e v" using t u by (intro exc) (simp add: may_write_def opened_def)
  qed
  have fwd: "same_forwarder s u" if "se_world u = se_world t" for u
    using t that by (simp add: same_forwarder_def opened_def)
  have d: "job_keys_distinct (se_store t)" "se_work t = se_store t" using t distinct by (simp_all add: opened_def)
  show "wpE (run_body X P V)
     (\<lambda>x. wpE (give_back X L) (\<lambda>_ v. \<forall>w. leaves v w \<longrightarrow> Q x w) (\<lambda>e v. \<forall>w. leaves v w \<longrightarrow> E e w))
     (\<lambda>e. wpE (give_back X L) (\<lambda>_ v. \<forall>w. leaves v w \<longrightarrow> E e w) (\<lambda>e' v. \<forall>w. leaves v w \<longrightarrow> E e' w)) t"
    unfolding run_body_def
    by (intro vcg_bind vcg_now wp_claim vcg_option vcg_ret vcg_attempt wp_assert_clear vcg_if vcg_then vcg_raise
        wp_reset [OF refl] none raised conjI allI)
      (use d fwd in \<open>auto simp: distinct_update wp_ret intro!: run\<close>)
qed

section \<open>A stuck forwarder\<close>

text \<open>The reason of a stuck state lies before the job \<open>i\<close>.\<close>

definition stuck_before :: "int \<Rightarrow> database \<Rightarrow> bool" where
  "stuck_before i d \<longleftrightarrow> job_keys_distinct d \<and>
     (unresolved_blocker d \<or> (\<exists>k. k < i \<and> diagnosed_row k d \<and> rows_ok (below k) d))"

lemma stuck_before_stuck: "stuck_before i d \<Longrightarrow> stuck d"
  by (auto simp: stuck_before_def stuck_def)

lemma stuck_before_blocks: "stuck_before i d \<Longrightarrow> unresolved_blocker d \<or> unresolved_intent (Some i) d"
  by (auto simp: stuck_before_def diagnosed_row_def unresolved_intent_def list_ex_iff dest!: tbl_get_Some)

lemma stuck_claimed:
  assumes "stuck d" and j: "claimed_in now d j"
  shows "stuck_before (jb_id j) d"
proof -
  have "k < jb_id j" if "diagnosed_row k d" "rows_ok (below k) d" for k
  proof -
    have "jb_id j \<noteq> k" using that(1) j by (auto simp: diagnosed_row_def claimed_in_def mihomo_claimable_def)
    moreover have "\<not> jb_id j < k"
      using that(2) j by (auto simp: rows_ok_def list_all_iff below_def claimed_in_def mihomo_claimable_def)
    ultimately show ?thesis by simp
  qed
  then show ?thesis using assms(1) unfolding stuck_def stuck_before_def by blast
qed

lemma unresolved_blocker_update:
  assumes "job_keys_distinct d" "get_job d i = Some j" "mihomo_job j" "unresolved_blocker d" "\<And>j. jb_id (f j) = jb_id j"
  shows "unresolved_blocker (update_job i f d)"
proof -
  obtain b where b: "b \<in> set (db_jobs d)" "mihomo_blocker b" "jb_status b \<noteq> JobSucceeded"
    using assms(4) by (auto simp: unresolved_blocker_def list_ex_iff)
  have "jb_id b \<noteq> i" using tbl_get_mem [of jb_id "db_jobs d" b] b assms(1-3) not_both by (auto simp: job_keys_distinct_def)
  then have "b \<in> set (db_jobs (update_job i f d))"
    using b(1) tbl_get_Some [OF assms(2)] assms(5) by (simp add: jobs_update_job assms(2) mem_tbl_put_other)
  then show ?thesis using b by (auto simp: unresolved_blocker_def list_ex_iff)
qed

lemma stuck_before_update:
  assumes stuck: "stuck_before i d" and j: "get_job d i = Some j" "mihomo_job j" and f: "\<And>k. jb_id (f k) = jb_id k"
  shows "stuck_before i (update_job i f d)"
proof -
  have d: "job_keys_distinct d" using stuck by (simp add: stuck_before_def)
  have "diagnosed_row k (update_job i f d) \<and> rows_ok (below k) (update_job i f d)"
    if "diagnosed_row k d" "rows_ok (below k) d" "k < i" for k
    using that f by (auto simp: diagnosed_row_def get_job_update below_def intro!: rows_ok_update)
  then show ?thesis
    using stuck unresolved_blocker_update [OF d j _ f] d unfolding stuck_before_def by (blast intro: distinct_update)
qed

text \<open>The run claims nothing that it may apply: the forwarder is left alone and the state stays stuck.\<close>

definition frozen :: "'p mihomo_world session \<Rightarrow> 'p mihomo_world session \<Rightarrow> bool" where
  "frozen s t \<longleftrightarrow> stuck (se_store t) \<and> same_forwarder s t"

lemma wp_give_back_plain:
  assumes "mw_release (se_world s) = None" and "job_keys_distinct (se_store s)"
    and "\<And>t. se_store t = se_store s \<Longrightarrow> same_forwarder s t \<Longrightarrow> Q () t \<and> (\<forall>e. E e t)"
  shows "wpE (give_back X L) Q E s"
  by (rule wp_give_back [where F = "\<lambda>d. d = se_store s"]) (use assms in \<open>auto simp: kept_def\<close>)

lemma wp_stuck:
  assumes stuck: "stuck (se_store s)"
  shows "wpE (reconcile_mihomo_job X L P (Some V)) (\<lambda>r t. r = None \<and> frozen s t) (\<lambda>e t. frozen s t) s"
proof (rule wp_worker_run)
  fix e t assume "same_forwarder s t" "se_store t = se_store s"
  then show "frozen s t" using stuck by (simp add: frozen_def)
next
  fix t :: "'a mihomo_world session" assume t: "opened s t"
  have end_: "wpE (give_back X L) (\<lambda>_ v. \<forall>w. leaves v w \<longrightarrow> A \<and> frozen s w) (\<lambda>e v. \<forall>w. leaves v w \<longrightarrow> frozen s w) u"
    if "se_world u = se_world t" "stuck (se_store u)" A for u A
  proof (rule wp_give_back_plain)
    fix v assume "se_store v = se_store u" "same_forwarder u v"
    then show "(\<forall>w. leaves v w \<longrightarrow> A \<and> frozen s w) \<and> (\<forall>e. \<forall>w. leaves v w \<longrightarrow> frozen s w)"
      using that t by (auto simp: leaves_def frozen_def same_forwarder_def opened_def)
  qed (use that t in \<open>simp_all add: opened_def stuck_def\<close>)
  have raised: "wpE (give_back X L) (\<lambda>_ v. \<forall>w. leaves v w \<longrightarrow> frozen s w) (\<lambda>e v. \<forall>w. leaves v w \<longrightarrow> frozen s w) u"
    if "se_world u = se_world t" "stuck (se_store u)" for u
    using end_ [OF that, of True] by simp
  have d: "job_keys_distinct (se_store t)" "se_work t = se_store t" "stuck (se_store t)"
    using t stuck by (simp_all add: opened_def stuck_def)
  have claimed: "stuck_before (jb_id j) (update_job (jb_id j) (mark_running now) (se_store t))"
    if "claimed_in now (se_store t) j" for now j
    using stuck_before_update [OF stuck_claimed [OF d(3) that], of j] that by (simp add: claimed_in_def mihomo_claimable_def)
  have reset: "stuck (update_job (jb_id j) unclaim (update_job (jb_id j) (mark_running now) (se_store t)))"
    if "claimed_in now (se_store t) j" for now j
    using stuck_before_stuck [OF stuck_before_update [OF claimed [OF that], of "mark_running now j" unclaim]] that
    by (simp add: claimed_in_def mihomo_claimable_def get_job_update mihomo_job_def)
  have marked: "stuck (update_job (jb_id j) (mark_running now) (se_store t))"
    and blocks: "\<not> unresolved_blocker (update_job (jb_id j) (mark_running now) (se_store t)) \<Longrightarrow>
      unresolved_intent (Some (jb_id j)) (update_job (jb_id j) (mark_running now) (se_store t))"
    if "claimed_in now (se_store t) j" for now j
    using stuck_before_stuck [OF claimed [OF that]] stuck_before_blocks [OF claimed [OF that]] by auto
  show "wpE (run_body X P V)
     (\<lambda>x. wpE (give_back X L) (\<lambda>_ v. \<forall>w. leaves v w \<longrightarrow> x = None \<and> frozen s w) (\<lambda>e v. \<forall>w. leaves v w \<longrightarrow> frozen s w))
     (\<lambda>e. wpE (give_back X L) (\<lambda>_ v. \<forall>w. leaves v w \<longrightarrow> frozen s w) (\<lambda>e' v. \<forall>w. leaves v w \<longrightarrow> frozen s w)) t"
    unfolding run_body_def
    by (intro vcg_bind vcg_now wp_claim vcg_option vcg_ret vcg_attempt wp_assert_clear vcg_if vcg_then vcg_raise
        wp_reset [OF refl] end_ raised conjI allI)
      (use d blocks marked reset in auto)
qed

end
