(* ===== verification/Py_Url.thy ===== *)
theory Py_Url
  imports Py_Library
begin

text \<open>
  The functions of \<open>urllib.parse\<close> the providers use: \<open>urlsplit\<close>, \<open>urljoin\<close>, \<open>unquote\<close> and
  \<open>parse_qsl\<close>. An authority with brackets is refused without a look at the address in it, and an
  escape of a byte outside ASCII is left in place: the code points above \<open>0xFF\<close> it may stand for
  are not characters of the model.
\<close>

section \<open>Splitting\<close>

lemma split_on_code [code]:
  "split_on c [] = [[]]"
  "split_on c (x # xs) = (if x = c then [] # split_on c xs
     else (case split_on c xs of w # ws \<Rightarrow> (x # w) # ws | [] \<Rightarrow> [[x]]))"
proof -
  have "split_on c xs \<noteq> []" by (cases xs) simp_all
  then show "split_on c (x # xs) = (if x = c then [] # split_on c xs
     else (case split_on c xs of w # ws \<Rightarrow> (x # w) # ws | [] \<Rightarrow> [[x]]))"
    by (cases "split_on c xs") simp_all
qed simp

text \<open>\<open>s.split(c, 1)\<close>, with an empty second part when the separator does not occur.\<close>

definition split_once :: "char \<Rightarrow> string \<Rightarrow> string \<times> string" where
  "split_once c s = (takeWhile (\<lambda>x. x \<noteq> c) s, drop 1 (dropWhile (\<lambda>x. x \<noteq> c) s))"

record url_parts =
  ul_scheme :: string
  ul_netloc :: string
  ul_path :: string
  ul_query :: string
  ul_fragment :: string

definition ascii_letter :: "char \<Rightarrow> bool" where
  "ascii_letter c = (let n = of_char c :: nat in (97 \<le> n \<and> n \<le> 122) \<or> (65 \<le> n \<and> n \<le> 90))"

definition scheme_char :: "char \<Rightarrow> bool" where
  "scheme_char c = (ascii_letter c \<or> is_ascii_digit c \<or> c \<in> set ''+-.'')"

definition clean_url :: "string \<Rightarrow> string" where
  "clean_url s = filter (\<lambda>c. (of_char c :: nat) \<notin> {9, 10, 13}) (dropWhile (\<lambda>c. (of_char c :: nat) \<le> 32) s)"

definition split_scheme :: "string \<Rightarrow> string \<times> string" where
  "split_scheme s = (let h = takeWhile (\<lambda>x. x \<noteq> CHR '':'') s in
     if CHR '':'' \<in> set s \<and> h \<noteq> [] \<and> ascii_letter (hd h) \<and> list_all scheme_char h
     then (lower h, drop (length h + 1) s) else ([], s))"

definition split_netloc :: "string \<Rightarrow> string \<times> string" where
  "split_netloc s = (if startswith s ''//''
     then (takeWhile (\<lambda>c. c \<notin> set ''/?#'') (drop 2 s), dropWhile (\<lambda>c. c \<notin> set ''/?#'') (drop 2 s)) else ([], s))"

definition urlsplit :: "string \<Rightarrow> string + url_parts" where
  "urlsplit url =
     (let (scheme, s) = split_scheme (clean_url url);
          (netloc, s) = split_netloc s;
          (s, fragment) = split_once (CHR ''#'') s;
          (path, query) = split_once (CHR ''?'') s in
      if CHR ''['' \<in> set netloc \<or> CHR '']'' \<in> set netloc then Inl ''Invalid IPv6 URL''
      else Inr \<lparr>ul_scheme = scheme, ul_netloc = netloc, ul_path = path, ul_query = query, ul_fragment = fragment\<rparr>)"

section \<open>Joining\<close>

definition uses_relative :: "string list" where
  "uses_relative = [[], ''ftp'', ''http'', ''gopher'', ''nntp'', ''imap'', ''wais'', ''file'', ''https'', ''shttp'', ''mms'',
     ''prospero'', ''rtsp'', ''rtsps'', ''rtspu'', ''sftp'', ''svn'', ''svn+ssh'', ''ws'', ''wss'']"

definition uses_netloc :: "string list" where
  "uses_netloc = [[], ''ftp'', ''http'', ''gopher'', ''nntp'', ''telnet'', ''imap'', ''wais'', ''file'', ''mms'', ''https'', ''shttp'',
     ''snews'', ''prospero'', ''rtsp'', ''rtsps'', ''rtspu'', ''rsync'', ''svn'', ''svn+ssh'', ''sftp'', ''nfs'', ''git'', ''git+ssh'',
     ''ws'', ''wss'', ''itms-services'']"

definition uses_params :: "string list" where
  "uses_params = [[], ''ftp'', ''hdl'', ''prospero'', ''http'', ''https'', ''shttp'', ''rtsp'', ''rtsps'', ''rtspu'', ''sip'', ''sips'',
     ''mms'', ''sftp'', ''tel'']"

text \<open>The parameters of the last segment of a path.\<close>

definition split_params :: "string \<Rightarrow> string \<Rightarrow> string \<times> string" where
  "split_params scheme path =
     (let (dir, base) = (case rpartition (CHR ''/'') path of Some (d, b) \<Rightarrow> (d @ ''/'', b) | None \<Rightarrow> ([], path)) in
      if scheme \<in> set uses_params \<and> CHR '';'' \<in> set base
      then (dir @ fst (split_once (CHR '';'') base), snd (split_once (CHR '';'') base)) else (path, []))"

definition urlunsplit :: "url_parts \<Rightarrow> string" where
  "urlunsplit u =
     (let url = ul_path u;
          url = (if ul_netloc u \<noteq> [] then ''//'' @ ul_netloc u @ (if url \<noteq> [] \<and> hd url \<noteq> CHR ''/'' then ''/'' @ url else url)
                 else if startswith url ''//'' then ''//'' @ url
                 else if ul_scheme u \<noteq> [] \<and> ul_scheme u \<in> set uses_netloc \<and> (url = [] \<or> hd url = CHR ''/'') then ''//'' @ url
                 else url) in
      (if ul_scheme u \<noteq> [] then ul_scheme u @ '':'' else []) @ url @
      (if ul_query u \<noteq> [] then ''?'' @ ul_query u else []) @ (if ul_fragment u \<noteq> [] then ''#'' @ ul_fragment u else []))"

text \<open>The loop over the segments that resolves \<open>.\<close> and \<open>..\<close>.\<close>

definition resolve_segment :: "string \<Rightarrow> string list \<Rightarrow> string list" where
  "resolve_segment s resolved = (if s = ''..'' then butlast resolved else if s = ''.'' then resolved else resolved @ [s])"

definition resolve_segments :: "string list \<Rightarrow> string" where
  "resolve_segments segments =
     (let resolved = fold resolve_segment segments [];
          path = join ''/'' (if last segments \<in> {''.'', ''..''} then resolved @ [[]] else resolved) in
      if path = [] then ''/'' else path)"

definition join_segments :: "string \<Rightarrow> string \<Rightarrow> string list" where
  "join_segments base_path path =
     (if startswith path ''/'' then split_on (CHR ''/'') path
      else (let base = split_on (CHR ''/'') base_path;
                base = (if last base \<noteq> [] then butlast base else base);
                segments = base @ split_on (CHR ''/'') path in
            if length segments < 2 then segments
            else [hd segments] @ filter (\<lambda>s. s \<noteq> []) (butlast (tl segments)) @ [last segments]))"

definition with_params :: "string \<Rightarrow> string \<Rightarrow> string" where
  "with_params path params = (if params \<noteq> [] then path @ '';'' @ params else path)"

definition urljoin :: "string \<Rightarrow> string \<Rightarrow> string + string" where
  "urljoin base url =
     (if base = [] then Inr url else if url = [] then Inr base else
      bindS (urlsplit base) (\<lambda>b. bindS (urlsplit url) (\<lambda>u.
      (let scheme = (if ul_scheme u = [] then ul_scheme b else ul_scheme u);
           (bpath, bparams) = split_params (ul_scheme b) (ul_path b);
           (path, params) = split_params scheme (ul_path u) in
       if scheme \<noteq> ul_scheme b \<or> scheme \<notin> set uses_relative then Inr url
       else if scheme \<in> set uses_netloc \<and> ul_netloc u \<noteq> [] then Inr (urlunsplit (u\<lparr>ul_scheme := scheme\<rparr>))
       else (let netloc = (if scheme \<in> set uses_netloc then ul_netloc b else ul_netloc u) in
         if path = [] \<and> params = [] then
           Inr (urlunsplit \<lparr>ul_scheme = scheme, ul_netloc = netloc, ul_path = with_params bpath bparams,
             ul_query = (if ul_query u = [] then ul_query b else ul_query u), ul_fragment = ul_fragment u\<rparr>)
         else Inr (urlunsplit \<lparr>ul_scheme = scheme, ul_netloc = netloc,
             ul_path = with_params (resolve_segments (join_segments bpath path)) params,
             ul_query = ul_query u, ul_fragment = ul_fragment u\<rparr>))))))"

section \<open>Escapes and queries\<close>

fun unquote :: "string \<Rightarrow> string" where
  "unquote (c # a # b # cs) = (case (if c = CHR ''%'' then (hextet_digit a, hextet_digit b) else (None, None)) of
     (Some h, Some l) \<Rightarrow> if h < 8 then char_of (16 * h + l) # unquote cs else c # unquote (a # b # cs)
   | _ \<Rightarrow> c # unquote (a # b # cs))"
| "unquote s = s"

definition unquote_plus :: "string \<Rightarrow> string" where
  "unquote_plus s = unquote (map (\<lambda>c. if c = CHR ''+'' then CHR '' '' else c) s)"

text \<open>\<open>parse_qsl(query, keep_blank_values=True)\<close>.\<close>

definition parse_qsl :: "string \<Rightarrow> (string \<times> string) list" where
  "parse_qsl query = map (\<lambda>pair. (unquote_plus (fst (split_once (CHR ''='') pair)), unquote_plus (snd (split_once (CHR ''='') pair))))
     (filter (\<lambda>pair. pair \<noteq> []) (split_on (CHR ''&'') query))"

end
