(* ===== verification/Py_Text.thy ===== *)
theory Py_Text
  imports Py_Url Json_Text Provider_Types
begin

text \<open>
  The parts of an authority, URL-safe base64, UTF-8 and lines of text, as Python's library reads
  them. A UTF-8 text with a code point above \<open>0xFF\<close> is not a text of the model, and is refused.
\<close>

section \<open>Integers and alternatives\<close>

definition or_else :: "pyval \<Rightarrow> pyval \<Rightarrow> pyval" where
  "or_else v w = (if truthy v then v else w)"

abbreviation type_error :: "string \<Rightarrow> exn" where
  "type_error \<equiv> Exn (OtherException ''TypeError'')"

abbreviation key_error :: "string \<Rightarrow> exn" where
  "key_error \<equiv> Exn (OtherException ''KeyError'')"

abbreviation no_get :: exn where
  "no_get \<equiv> Exn (OtherException ''AttributeError'') ''object has no attribute get''"

text \<open>\<open>int(v)\<close>.\<close>

definition int_value :: "pyval \<Rightarrow> exn + int" where
  "int_value v = (case v of
     VInt n \<Rightarrow> Inr n
   | VBool b \<Rightarrow> Inr (if b then 1 else 0)
   | VStr s \<Rightarrow> (case py_int s of Some n \<Rightarrow> Inr n
       | None \<Rightarrow> Inl (value_error (''invalid literal for int() with base 10: '' @ py_repr s)))
   | _ \<Rightarrow> Inl (type_error ''int() argument must be a string, a bytes-like object or a real number''))"

section \<open>Authorities\<close>

text \<open>\<open>s.rpartition('@')\<close>: what stands before the last at sign, and what stands after it.\<close>

definition split_userinfo :: "string \<Rightarrow> string option \<times> string" where
  "split_userinfo netloc = (case rpartition (CHR ''@'') netloc of
     None \<Rightarrow> (None, netloc) | Some (info, host) \<Rightarrow> (Some info, host))"

definition host_and_port :: "string \<Rightarrow> string \<times> string" where
  "host_and_port hostinfo =
     (if CHR ''['' \<in> set hostinfo then
        (let bracketed = snd (split_once (CHR ''['') hostinfo) in
         (fst (split_once (CHR '']'') bracketed), snd (split_once (CHR '':'') (snd (split_once (CHR '']'') bracketed)))))
      else split_once (CHR '':'') hostinfo)"

definition url_hostname :: "url_parts \<Rightarrow> string option" where
  "url_hostname u =
     (let host = fst (host_and_port (snd (split_userinfo (ul_netloc u)))) in
      if host = [] then None
      else Some (lower (takeWhile (\<lambda>c. c \<noteq> CHR ''%'') host) @ dropWhile (\<lambda>c. c \<noteq> CHR ''%'') host))"

definition url_port :: "url_parts \<Rightarrow> exn + int option" where
  "url_port u =
     (let port = snd (host_and_port (snd (split_userinfo (ul_netloc u)))) in
      if port = [] then Inr None
      else if \<not> list_all is_ascii_digit port
        then Inl (value_error (''Port could not be cast to integer value as '' @ py_repr port))
      else (case read_digits 0 port of
          Some n \<Rightarrow> if n \<le> 65535 then Inr (Some (int n)) else Inl (value_error ''Port out of range 0-65535'')
        | None \<Rightarrow> Inl (value_error ''Port could not be cast to integer value'')))"

text \<open>\<open>parse_qs(query).get(key, [None])[0]\<close>: blank values are dropped.\<close>

definition query_first :: "string \<Rightarrow> string \<Rightarrow> string option" where
  "query_first query key = map_option snd (find (\<lambda>(k, v). k = key \<and> v \<noteq> []) (parse_qsl query))"

section \<open>Base64\<close>

definition base64_value :: "char \<Rightarrow> nat option" where
  "base64_value c = (let n = of_char c :: nat in
     if 65 \<le> n \<and> n \<le> 90 then Some (n - 65)
     else if 97 \<le> n \<and> n \<le> 122 then Some (n - 71)
     else if 48 \<le> n \<and> n \<le> 57 then Some (n + 4)
     else if c = CHR ''+'' then Some 62 else if c = CHR ''/'' then Some 63 else None)"

text \<open>
  \<open>binascii.a2b_base64\<close>, which skips what is not a digit: the position in a group of four, the bits
  left over, the padding seen, and the text.
\<close>

fun a2b_base64 :: "nat \<Rightarrow> nat \<Rightarrow> nat \<Rightarrow> string \<Rightarrow> exn + string" where
  "a2b_base64 quad left pads [] = (if quad = 0 then Inr [] else Inl (value_error
     (if quad = 1 then ''Invalid base64-encoded string: number of data characters cannot be 1 more than a multiple of 4''
      else ''Incorrect padding'')))"
| "a2b_base64 quad left pads (c # cs) =
     (if c = CHR ''='' then
        (if 2 \<le> quad \<and> 4 \<le> quad + pads + 1 then Inr []
         else a2b_base64 quad left (if 2 \<le> quad then pads + 1 else pads) cs)
      else (case base64_value c of
          None \<Rightarrow> a2b_base64 quad left pads cs
        | Some v \<Rightarrow>
            (if quad = 0 then a2b_base64 1 v 0 cs
             else if quad = 1 then bindS (a2b_base64 2 (v mod 16) 0 cs) (\<lambda>r. Inr (char_of (4 * left + v div 16) # r))
             else if quad = 2 then bindS (a2b_base64 3 (v mod 4) 0 cs) (\<lambda>r. Inr (char_of (16 * left + v div 4) # r))
             else bindS (a2b_base64 0 0 0 cs) (\<lambda>r. Inr (char_of (64 * left + v) # r)))))"

definition urlsafe_b64decode :: "string \<Rightarrow> exn + string" where
  "urlsafe_b64decode s =
     (if \<not> is_ascii s then Inl (value_error ''string argument should contain only ASCII characters'')
      else a2b_base64 0 0 0 (map (\<lambda>c. if c = CHR ''-'' then CHR ''+'' else if c = CHR ''_'' then CHR ''/'' else c) s))"

fun decode_utf8 :: "string \<Rightarrow> exn + string" where
  "decode_utf8 [] = Inr []"
| "decode_utf8 (c # cs) = (let n = of_char c :: nat in
     if n < 128 then bindS (decode_utf8 cs) (\<lambda>r. Inr (c # r))
     else (case cs of
         [] \<Rightarrow> Inl (value_error ''unexpected end of data'')
       | d # ds \<Rightarrow> (let m = of_char d :: nat in
           if 194 \<le> n \<and> n \<le> 195 \<and> 128 \<le> m \<and> m < 192
           then bindS (decode_utf8 ds) (\<lambda>r. Inr (char_of (64 * (n - 192) + (m - 128)) # r))
           else Inl (value_error ''invalid start byte''))))"

section \<open>Lines\<close>

definition line_break :: "char \<Rightarrow> bool" where
  "line_break c = ((of_char c :: nat) \<in> {10, 11, 12, 13, 28, 29, 30, 133})"

function lines_from :: "string \<Rightarrow> string \<Rightarrow> string list" where
  "lines_from cur [] = (if cur = [] then [] else [rev cur])"
| "lines_from cur (c # cs) =
     (if line_break c then
        rev cur # lines_from [] (case cs of d # ds \<Rightarrow> if c = CHR 0x0D \<and> d = CHR 0x0A then ds else cs | [] \<Rightarrow> cs)
      else lines_from (c # cur) cs)"
  by pat_completeness auto
termination by (relation "measure (length \<circ> snd)") (auto split: list.split)

definition splitlines :: "string \<Rightarrow> string list" where
  "splitlines s = lines_from [] s"

end
