(* ===== verification/Transport_Subscription.thy ===== *)
theory Transport_Subscription
  imports Py_Text
begin

text \<open>
  Subscriptions of transport providers (\<open>providers/transport/subscription.py\<close>): reading the
  documents and links a third party serves, and the provider that fetches them and keeps a copy of
  the bytes on disk.

  SHA-256, PyYAML and the HTTP client are parameters: \<open>te_yaml\<close> is \<open>None\<close> where \<open>safe_load\<close> raises a
  \<open>YAMLError\<close>, and a call of the client ends with an exception (\<open>HTTPError\<close> stands for the class of
  the library and its subclasses) or with the text, the bytes and the usage header of an answer.
  \<open>tv_write\<close> says when writing a cache file raises, and whether the file was replaced by then.
\<close>

record transport_endpoint_dto =
  te_external_id :: string
  te_name :: string
  te_region :: string
  te_protocol :: string
  te_host :: string
  te_port :: int
  te_transport :: "string option"
  te_tls_mode :: "string option"
  te_auth_secret_ref :: "string option"
  te_raw_metadata :: "pyval dict"

record transport_capacity_dto =
  tc_quota_bytes :: int
  tc_used_bytes :: int
  tc_measured_at :: int
  tc_expire_at :: "int option"

record subscription_response =
  su_userinfo :: "string option"
  su_text :: string
  su_content :: string

record transport_env =
  tv_sha256 :: "string \<Rightarrow> string"
  tv_yaml :: "string \<Rightarrow> pyval option"
  tv_fetch :: "nat \<Rightarrow> string \<Rightarrow> exn + subscription_response"
  tv_write :: "nat \<Rightarrow> (exn \<times> bool) option"

section \<open>The usage header\<close>

text \<open>One field \<open>key=number\<close>; \<open>None\<close> is a \<open>ValueError\<close>.\<close>

definition userinfo_field :: "string \<Rightarrow> (string \<times> int) option" where
  "userinfo_field item =
     (let s = strip item in
      if CHR ''='' \<notin> set s then None
      else map_option (\<lambda>n. (lower (strip (fst (split_once (CHR ''='') s))), n)) (py_int (strip (snd (split_once (CHR ''='') s)))))"

fun userinfo_fields :: "int dict \<Rightarrow> string list \<Rightarrow> int dict option" where
  "userinfo_fields acc [] = Some acc"
| "userinfo_fields acc (item # items) = (case userinfo_field item of
     None \<Rightarrow> None | Some (k, n) \<Rightarrow> userinfo_fields (dict_set acc k n) items)"

text \<open>
  \<open>datetime.fromtimestamp(seconds, UTC)\<close>. What does not fit the clock of the platform is an
  \<open>OverflowError\<close> there; no caller tells the exceptions apart.
\<close>

definition from_timestamp :: "int \<Rightarrow> exn + int" where
  "from_timestamp secs =
     (if - 62135596800 \<le> secs \<and> secs \<le> 253402300799 then Inr (secs * 1000000)
      else Inl (value_error ''year is out of range''))"

definition parse_subscription_userinfo :: "string option \<Rightarrow> int \<Rightarrow> exn + transport_capacity_dto option" where
  "parse_subscription_userinfo value measured_at = (case value of
     None \<Rightarrow> Inr None
   | Some v \<Rightarrow> if v = [] then Inr None else
       (case userinfo_fields [] (split_on (CHR '';'') v) of
          None \<Rightarrow> Inr None
        | Some fs \<Rightarrow> (case dict_get fs ''total'' of
            None \<Rightarrow> Inr None
          | Some quota \<Rightarrow>
              (let number = (\<lambda>k. case dict_get fs k of Some n \<Rightarrow> n | None \<Rightarrow> 0) in
               bindS (case dict_get fs ''expire'' of
                   None \<Rightarrow> Inr None
                 | Some e \<Rightarrow> if e = 0 then Inr None else bindS (from_timestamp e) (\<lambda>t. Inr (Some t))) (\<lambda>expire_at.
               Inr (Some \<lparr>tc_quota_bytes = quota, tc_used_bytes = number ''upload'' + number ''download'',
                 tc_measured_at = measured_at, tc_expire_at = expire_at\<rparr>))))))"

section \<open>Endpoints\<close>

text \<open>\<open>str.encode()\<close>.\<close>

definition encode_utf8 :: "string \<Rightarrow> string" where
  "encode_utf8 s = concat (map (\<lambda>c. let n = of_char c :: nat in
     if n < 128 then [c] else [char_of (192 + n div 64), char_of (128 + n mod 64)]) s)"

definition endpoint_id :: "transport_env \<Rightarrow> string \<Rightarrow> string \<Rightarrow> string \<Rightarrow> int \<Rightarrow> string \<Rightarrow> string" where
  "endpoint_id V provider_code protocol host port name =
     take 24 (tv_sha256 V (encode_utf8 (join ''|'' [provider_code, protocol, host, show_int port, name])))"

definition item_get :: "pyval dict \<Rightarrow> string \<Rightarrow> pyval \<Rightarrow> pyval" where
  "item_get item key fallback = (case dict_get item key of Some v \<Rightarrow> v | None \<Rightarrow> fallback)"

definition normalize_clash_proxy :: "transport_env \<Rightarrow> string \<Rightarrow> pyval dict \<Rightarrow> exn + transport_endpoint_dto" where
  "normalize_clash_proxy V provider_code item =
     (let protocol = lower (py_str (item_get item ''type'' (VStr ''unknown'')));
          host = py_str (item_get item ''server'' (VStr [])) in
      bindS (int_value (item_get item ''port'' (VInt 0))) (\<lambda>port.
      (let name = py_str (item_get item ''name'' (VStr (protocol @ ''-'' @ host @ '':'' @ show_int port)));
           external_id = endpoint_id V provider_code protocol host port name;
           network = or_else (vget item ''network'') (vget item ''transport'') in
       Inr \<lparr>te_external_id = external_id, te_name = name, te_region = ''UNKNOWN'', te_protocol = protocol,
         te_host = host, te_port = port, te_transport = (if truthy network then Some (py_str network) else None),
         te_tls_mode = (if truthy (vget item ''tls'') then Some ''tls'' else None),
         te_auth_secret_ref = Some (''transport/'' @ provider_code @ ''/endpoint/'' @ external_id),
         te_raw_metadata = [(''udp'', VBool (truthy (vget item ''udp'')))]\<rparr>)))"

definition decode_base64_text :: "string \<Rightarrow> exn + string" where
  "decode_base64_text value =
     bindS (urlsafe_b64decode (value @ replicate ((4 - length value mod 4) mod 4) (CHR ''=''))) decode_utf8"

definition SUPPORTED_URI_SCHEMES :: "string list" where
  "SUPPORTED_URI_SCHEMES = [''vless'', ''vmess'', ''trojan'', ''ss'', ''socks'', ''socks5'', ''http'', ''https'']"

text \<open>The body of a \<open>vmess\<close> link; a missing field is a \<open>KeyError\<close>.\<close>

definition required_field :: "pyval dict \<Rightarrow> string \<Rightarrow> exn + pyval" where
  "required_field body key = (case dict_get body key of Some v \<Rightarrow> Inr v | None \<Rightarrow> Inl (key_error (py_repr key)))"

definition vmess_endpoint :: "transport_env \<Rightarrow> string \<Rightarrow> string \<Rightarrow> exn + transport_endpoint_dto" where
  "vmess_endpoint V provider_code encoded =
     bindS (decode_base64_text encoded) (\<lambda>text.
     bindS (case json_loads text of None \<Rightarrow> Inl (value_error ''invalid JSON'') | Some v \<Rightarrow> as_mapping v no_get) (\<lambda>body.
     bindS (required_field body ''add'') (\<lambda>server.
     bindS (bindS (required_field body ''port'') int_value) (\<lambda>port.
     normalize_clash_proxy V provider_code [(''name'', item_get body ''ps'' (VStr ''vmess'')), (''type'', VStr ''vmess''),
       (''server'', server), (''port'', VInt port), (''network'', vget body ''net''),
       (''tls'', VBool (py_eq (vget body ''tls'') (VStr ''tls'')))]))))"

definition is_skipped :: "exn \<Rightarrow> bool" where
  "is_skipped e \<longleftrightarrow> exn_class e = ValueError \<or> exn_class e = OtherException ''KeyError''"

definition optional_str :: "string option \<Rightarrow> pyval" where
  "optional_str s = (case s of None \<Rightarrow> VNone | Some v \<Rightarrow> VStr v)"

definition normalize_uri :: "transport_env \<Rightarrow> string \<Rightarrow> string \<Rightarrow> exn + transport_endpoint_dto option" where
  "normalize_uri V provider_code uri =
     (if startswith uri ''vmess://'' then
        (case vmess_endpoint V provider_code (drop (length ''vmess://'') uri) of
           Inr e \<Rightarrow> Inr (Some e) | Inl exc \<Rightarrow> if is_skipped exc then Inr None else Inl exc)
      else (case urlsplit uri of
          Inl m \<Rightarrow> Inl (value_error m)
        | Inr u \<Rightarrow> (case (if ul_scheme u \<in> set SUPPORTED_URI_SCHEMES then url_hostname u else None) of
            None \<Rightarrow> Inr None
          | Some hostname \<Rightarrow> bindS (url_port u) (\<lambda>found. case found of
              None \<Rightarrow> Inr None
            | Some port \<Rightarrow> if port = 0 then Inr None else
                (let fragment = unquote (ul_fragment u);
                     name = (if fragment = [] then ul_scheme u @ ''-'' @ hostname @ '':'' @ show_int port else fragment) in
                 bindS (normalize_clash_proxy V provider_code [(''name'', VStr name), (''type'', VStr (ul_scheme u)),
                   (''server'', VStr hostname), (''port'', VInt port), (''network'', optional_str (query_first (ul_query u) ''type'')),
                   (''tls'', VBool (query_first (ul_query u) ''security'' \<in> {Some ''tls'', Some ''reality''}))])
                 (\<lambda>e. Inr (Some e)))))))"

section \<open>Documents\<close>

definition malformed_entry :: exn where
  "malformed_entry = value_error ''Subscription contains a malformed proxy entry''"

definition malformed_uri :: exn where
  "malformed_uri = value_error ''Subscription contains an unsupported or malformed URI''"

text \<open>\<open>except (TypeError, ValueError): raise ... from None\<close>.\<close>

definition conversion_error :: "exn \<Rightarrow> exn \<Rightarrow> exn" where
  "conversion_error replacement e =
     (if exn_class e = ValueError \<or> exn_class e = OtherException ''TypeError'' then replacement else e)"

definition map_error :: "('e \<Rightarrow> 'f) \<Rightarrow> 'e + 'a \<Rightarrow> 'f + 'a" where
  "map_error f r = (case r of Inl e \<Rightarrow> Inl (f e) | Inr x \<Rightarrow> Inr x)"

definition document_endpoint :: "transport_env \<Rightarrow> string \<Rightarrow> pyval \<Rightarrow> exn + transport_endpoint_dto" where
  "document_endpoint V provider_code v =
     bindS (as_mapping v malformed_entry) (\<lambda>item.
     thenS (require (truthy (vget item ''server'') \<and> truthy (vget item ''port'')) malformed_entry)
     (map_error (conversion_error malformed_entry) (normalize_clash_proxy V provider_code item)))"

definition line_endpoint :: "transport_env \<Rightarrow> string \<Rightarrow> string \<Rightarrow> exn + transport_endpoint_dto" where
  "line_endpoint V provider_code line =
     bindS (map_error (conversion_error malformed_uri) (normalize_uri V provider_code line)) (\<lambda>found.
     case found of None \<Rightarrow> Inl malformed_uri | Some e \<Rightarrow> Inr e)"

definition no_endpoints :: exn where
  "no_endpoints = value_error ''Subscription contains no supported endpoints''"

definition nonempty :: "exn \<Rightarrow> 'a list \<Rightarrow> exn + 'a list" where
  "nonempty e xs = (if xs = [] then Inl e else Inr xs)"

definition parse_uri_list :: "transport_env \<Rightarrow> string \<Rightarrow> string \<Rightarrow> exn + transport_endpoint_dto list" where
  "parse_uri_list V provider_code content =
     bindS (if contains_sub (strip content) ''://'' then Inr (strip content)
            else map_error (conversion_error (value_error ''Subscription is not valid base64 URI data'')) (decode_base64_text (strip content)))
       (\<lambda>decoded.
     bindS (mapS (line_endpoint V provider_code) (filter (\<lambda>l. l \<noteq> []) (map strip (splitlines decoded)))) (nonempty no_endpoints))"

definition parse_subscription :: "transport_env \<Rightarrow> string \<Rightarrow> string \<Rightarrow> exn + transport_endpoint_dto list" where
  "parse_subscription V provider_code content =
     thenS (require (nonblank content) (value_error ''Subscription content is empty''))
     (case tv_yaml V content of
        None \<Rightarrow> Inl (value_error ''Subscription is not valid YAML or encoded URI data'')
      | Some document \<Rightarrow> (case document of
          VMap d \<Rightarrow> (if is_list (vget d ''proxies'')
            then bindS (mapS (document_endpoint V provider_code) (list_items (vget d ''proxies''))) (nonempty no_endpoints)
            else parse_uri_list V provider_code content)
        | _ \<Rightarrow> parse_uri_list V provider_code content))"

definition validate_mihomo_provider_document :: "transport_env \<Rightarrow> string \<Rightarrow> exn + unit" where
  "validate_mihomo_provider_document V content = (case tv_yaml V content of
     None \<Rightarrow> Inl (value_error ''Subscription is not valid YAML for a Mihomo file provider'')
   | Some document \<Rightarrow>
       (let incompatible = value_error ''Subscription is not a Mihomo-compatible proxies document'' in
        bindS (as_mapping document incompatible) (\<lambda>d.
        thenS (require (is_list (vget d ''proxies'')) incompatible)
        (require (list_items (vget d ''proxies'') \<noteq> []) (value_error ''Subscription provider file contains no proxies'')))))"

section \<open>The provider\<close>

record subscription_provider =
  sp_code :: string
  sp_url :: string
  sp_owns_client :: bool
  sp_cache_path :: "string option"
  sp_source_revision :: "int option"
  sp_enabled :: bool
  sp_endpoints :: "transport_endpoint_dto list"
  sp_capacity :: "transport_capacity_dto option"
  sp_close_failed :: bool
  sp_last_content_hash :: "string option"
  sp_last_cache_identity :: "string option"

type_synonym cache_files = "string \<Rightarrow> string option"

definition new_subscription_provider :: "string \<Rightarrow> string \<Rightarrow> bool \<Rightarrow> string option \<Rightarrow> int option \<Rightarrow> subscription_provider" where
  "new_subscription_provider code url owns_client path revision =
     \<lparr>sp_code = code, sp_url = url, sp_owns_client = owns_client, sp_cache_path = path, sp_source_revision = revision,
      sp_enabled = True, sp_endpoints = [], sp_capacity = None, sp_close_failed = False,
      sp_last_content_hash = None, sp_last_cache_identity = None\<rparr>"

text \<open>A temporary file beside the target, synchronised and moved over it.\<close>

definition write_provider_cache :: "transport_env \<Rightarrow> nat \<Rightarrow> string \<Rightarrow> string \<Rightarrow> cache_files \<Rightarrow> (exn + unit) \<times> cache_files" where
  "write_provider_cache V n path content files = (case tv_write V n of
     None \<Rightarrow> (Inr (), files(path \<mapsto> content))
   | Some (e, replaced) \<Rightarrow> (Inl e, if replaced then files(path \<mapsto> content) else files))"

definition fetch_error :: "exn \<Rightarrow> exn" where
  "fetch_error e = (if exn_class e = OtherException ''HTTPError'' then runtime_error ''Subscription fetch failed'' else e)"

definition read_response :: "transport_env \<Rightarrow> int \<Rightarrow> subscription_provider \<Rightarrow> subscription_response \<Rightarrow>
    exn + transport_capacity_dto option \<times> transport_endpoint_dto list" where
  "read_response V now p r =
     bindS (parse_subscription_userinfo (su_userinfo r) now) (\<lambda>capacity.
     bindS (parse_subscription V (sp_code p) (su_text r)) (\<lambda>endpoints.
     thenS (if sp_cache_path p = None then Inr () else validate_mihomo_provider_document V (su_text r))
     (Inr (capacity, endpoints))))"

definition publish :: "transport_capacity_dto option \<Rightarrow> transport_endpoint_dto list \<Rightarrow> subscription_provider \<Rightarrow> subscription_provider" where
  "publish capacity endpoints p = p\<lparr>sp_endpoints := endpoints, sp_capacity := capacity\<rparr>"

definition sync_nodes :: "transport_env \<Rightarrow> nat \<Rightarrow> int \<Rightarrow> subscription_provider \<times> cache_files \<Rightarrow>
    (exn + unit) \<times> subscription_provider \<times> cache_files" where
  "sync_nodes V n now = (\<lambda>(p, files). case tv_fetch V n (sp_url p) of
     Inl e \<Rightarrow> (Inl (fetch_error e), p, files)
   | Inr r \<Rightarrow> (case read_response V now p r of
       Inl e \<Rightarrow> (Inl e, p, files)
     | Inr (capacity, endpoints) \<Rightarrow> (case sp_cache_path p of
         None \<Rightarrow> (Inr (), publish capacity endpoints p, files)
       | Some path \<Rightarrow> (case write_provider_cache V n path (su_content r) files of
           (Inl e, files') \<Rightarrow> (Inl e, p, files')
         | (Inr _, files') \<Rightarrow> (Inr (), publish capacity endpoints (p\<lparr>sp_last_content_hash := Some (tv_sha256 V (su_content r)),
             sp_last_cache_identity := Some path\<rparr>), files')))))"

definition materialization_proof :: "subscription_provider \<Rightarrow> (string \<times> string \<times> int) option" where
  "materialization_proof p = (case (sp_last_cache_identity p, sp_last_content_hash p, sp_source_revision p) of
     (Some i, Some h, Some r) \<Rightarrow> Some (i, h, r) | _ \<Rightarrow> None)"

definition health_check :: "subscription_provider \<Rightarrow> bool" where
  "health_check p \<longleftrightarrow> sp_enabled p \<and> sp_endpoints p \<noteq> []"

definition find_endpoint :: "string \<Rightarrow> subscription_provider \<Rightarrow> transport_endpoint_dto option" where
  "find_endpoint external_id p = find (\<lambda>e. te_external_id e = external_id) (sp_endpoints p)"

definition set_enabled :: "bool \<Rightarrow> subscription_provider \<Rightarrow> subscription_provider" where
  "set_enabled b p = p\<lparr>sp_enabled := b\<rparr>"

text \<open>\<open>close\<close>, where \<open>fault\<close> is what closing the client raises.\<close>

definition close_provider :: "exn option \<Rightarrow> subscription_provider \<Rightarrow> (exn + unit) \<times> subscription_provider" where
  "close_provider fault p =
     (if \<not> sp_owns_client p then (Inr (), p)
      else if sp_close_failed p then (Inl (runtime_error ''SubscriptionTransportProvider previously failed to close''), p)
      else (case fault of None \<Rightarrow> (Inr (), p) | Some e \<Rightarrow> (Inl e, p\<lparr>sp_close_failed := True\<rparr>)))"

end
