(* ===== verification/Transport_Resolver.thy ===== *)
theory Transport_Resolver
  imports Transport_Subscription Platform_Database
begin

text \<open>
  The owner of the subscription providers of a process (\<open>providers/transport/resolver.py\<close>): one
  provider per record, made when it is first asked for, with a cache file whose name comes from
  the descriptor. The secret is read by the caller's loader, with effects of its own.
\<close>

section \<open>Descriptors\<close>

record transport_descriptor =
  td_record_id :: int
  td_code :: string
  td_kind :: string
  td_secret_ref :: string
  td_implementation :: string

definition code_char :: "char \<Rightarrow> bool" where
  "code_char c = (ascii_letter c \<or> is_ascii_digit c \<or> c \<in> set ''._-'')"

text \<open>\<open>re.sub(r"[^A-Za-z0-9._-]+", "_", s)\<close>.\<close>

function replace_unsafe :: "string \<Rightarrow> string" where
  "replace_unsafe [] = []"
| "replace_unsafe (c # cs) = (if code_char c then c # replace_unsafe cs
     else CHR ''_'' # replace_unsafe (dropWhile (\<lambda>x. \<not> code_char x) cs))"
  by pat_completeness auto
termination by (relation "measure length") (auto simp: le_imp_less_Suc length_dropWhile_le)

definition strip_dots :: "string \<Rightarrow> string" where
  "strip_dots s = rstrip_by (\<lambda>c. c \<in> set ''._'') (dropWhile (\<lambda>c. c \<in> set ''._'') s)"

definition descriptor_cache_path :: "(string \<Rightarrow> string) \<Rightarrow> string \<Rightarrow> transport_descriptor \<Rightarrow> string" where
  "descriptor_cache_path sha256 cache_root d =
     (let code = strip_dots (replace_unsafe (td_code d));
          safe_code = (if code = [] then ''provider'' else code);
          identity = join ''|'' [show_int (td_record_id d), td_code d, td_kind d, td_implementation d] in
      cache_root @ ''/'' @ show_int (td_record_id d) @ ''-'' @ safe_code @ ''-'' @
        take 16 (sha256 (encode_utf8 identity)) @ ''.yaml'')"

definition kind_value :: "transport_provider_kind \<Rightarrow> string" where
  "kind_value k = (case k of Subscription_Provider \<Rightarrow> ''SUBSCRIPTION'' | Self_Hosted_Provider \<Rightarrow> ''SELF_HOSTED'')"

definition descriptor_of :: "transport_provider_record \<Rightarrow> transport_descriptor" where
  "descriptor_of p = \<lparr>td_record_id = tp_id p, td_code = tp_code p, td_kind = kind_value (tp_kind p),
     td_secret_ref = tp_secret_ref p, td_implementation = ''subscription''\<rparr>"

section \<open>The resolver\<close>

record transport_resolver =
  rs_cache_root :: string
  rs_providers :: "(int \<times> transport_descriptor \<times> int \<times> subscription_provider) list"
  rs_codes :: "(string \<times> int) list"
  rs_cache_paths :: "(string \<times> int) list"
  rs_closed_ids :: "int list"
  rs_shutdown_started :: bool
  rs_closed :: bool

abbreviation resolution_error :: "string \<Rightarrow> exn" where
  "resolution_error \<equiv> Exn (OtherException ''TransportResolutionError'')"

definition validate_descriptor :: "transport_descriptor \<Rightarrow> exn + unit" where
  "validate_descriptor d =
     thenS (require (0 < td_record_id d \<and> nonblank (td_code d) \<and> nonblank (td_secret_ref d))
       (resolution_error ''TRANSPORT_DESCRIPTOR_INVALID''))
    (thenS (require (td_kind d = ''SUBSCRIPTION'') (resolution_error ''TRANSPORT_KIND_UNSUPPORTED''))
    (require (td_implementation d = ''subscription'') (resolution_error ''TRANSPORT_IMPLEMENTATION_UNSUPPORTED'')))"

text \<open>The provider of a descriptor and the resolver that owns it; \<open>load\<close> reads the secret and its revision.\<close>

definition known_provider ::
  "(string \<Rightarrow> ('s, exn, string \<times> int) eff) \<Rightarrow> transport_descriptor \<Rightarrow> transport_resolver \<Rightarrow>
   transport_descriptor \<times> int \<times> subscription_provider \<Rightarrow> ('s, exn, subscription_provider \<times> transport_resolver) eff" where
  "known_provider load d R = (\<lambda>(old, revision, p).
     if old \<noteq> d then raiseE (resolution_error ''TRANSPORT_DESCRIPTOR_DRIFT'')
     else bindE (load (td_secret_ref d)) (\<lambda>(_, current).
       if current \<noteq> revision then raiseE (resolution_error ''TRANSPORT_SECRET_REVISION_DRIFT'') else retE (p, R)))"

definition own_provider :: "transport_descriptor \<Rightarrow> string \<Rightarrow> string \<Rightarrow> int \<Rightarrow> transport_resolver \<Rightarrow> subscription_provider \<times> transport_resolver" where
  "own_provider d path url revision R =
     (let p = new_subscription_provider (td_code d) url True (Some path) (Some revision) in
      (p, R\<lparr>rs_providers := rs_providers R @ [(td_record_id d, d, revision, p)],
        rs_codes := AList.update (td_code d) (td_record_id d) (rs_codes R),
        rs_cache_paths := AList.update path (td_record_id d) (rs_cache_paths R)\<rparr>))"

definition resolve_transport ::
  "(string \<Rightarrow> string) \<Rightarrow> (string \<Rightarrow> ('s, exn, string \<times> int) eff) \<Rightarrow> transport_descriptor \<Rightarrow> transport_resolver \<Rightarrow>
   ('s, exn, subscription_provider \<times> transport_resolver) eff" where
  "resolve_transport sha256 load d R =
     thenE (liftE (require (\<not> rs_shutdown_started R) (resolution_error ''TRANSPORT_RESOLVER_SHUTDOWN'')))
    (thenE (liftE (validate_descriptor d))
    (case map_of (rs_providers R) (td_record_id d) of
       Some known \<Rightarrow> known_provider load d R known
     | None \<Rightarrow>
         (let path = descriptor_cache_path sha256 (rs_cache_root R) d in
          if map_of (rs_codes R) (td_code d) \<notin> {None, Some (td_record_id d)}
          then raiseE (resolution_error ''TRANSPORT_CODE_COLLISION'')
          else if map_of (rs_cache_paths R) path \<notin> {None, Some (td_record_id d)}
          then raiseE (resolution_error ''TRANSPORT_CACHE_IDENTITY_COLLISION'')
          else bindE (load (td_secret_ref d)) (\<lambda>(url, revision). retE (own_provider d path url revision R)))))"

text \<open>\<open>close\<close>: providers that closed are not closed again; \<open>fault\<close> says what a client raises.\<close>

definition close_entry :: "(int \<Rightarrow> exn option) \<Rightarrow> int list \<Rightarrow> int \<times> transport_descriptor \<times> int \<times> subscription_provider \<Rightarrow>
    exn option \<times> int \<times> transport_descriptor \<times> int \<times> subscription_provider" where
  "close_entry fault closed = (\<lambda>(i, d, revision, p).
     if i \<in> set closed then (None, i, d, revision, p)
     else (case close_provider (fault i) p of
         (Inl e, q) \<Rightarrow> (Some e, i, d, revision, q) | (Inr _, q) \<Rightarrow> (None, i, d, revision, q)))"

definition close_resolver :: "(int \<Rightarrow> exn option) \<Rightarrow> transport_resolver \<Rightarrow> (exn + unit) \<times> transport_resolver" where
  "close_resolver fault R =
     (if rs_closed R then (Inr (), R) else
      (let closed = map (close_entry fault (rs_closed_ids R)) (rs_providers R);
           S = R\<lparr>rs_shutdown_started := True, rs_providers := map snd closed,
             rs_closed_ids := remdups (rs_closed_ids R @ map (fst \<circ> snd) (filter (\<lambda>c. fst c = None) closed))\<rparr> in
       if list_ex (\<lambda>c. fst c \<noteq> None) closed
       then (Inl (Exn (OtherException ''ExceptionGroup'') ''Subscription transport resolver close failed''), S)
       else (Inr (), S\<lparr>rs_closed := True\<rparr>)))"

end
