(* ===== verification/Mihomo_Snapshot.thy ===== *)
theory Mihomo_Snapshot
  imports Mihomo_Reconciliation Secret_Store Transport_Resolver "HOL-Library.Product_Lexorder"
begin

text \<open>
  The desired state as the database says it: the receipts of the transport caches
  (\<open>infra/mihomo_materialization.py\<close>), the loader of \<open>infra/mihomo_reconciliation.py\<close>, the resolvers of the secrets
  (\<open>infra/credential_resolver.py\<close>) and the parts of the worker built from them.

  The parameters are the cache files (\<open>sv_read\<close>, \<open>None\<close> for an \<open>OSError\<close>), \<open>yaml.safe_load\<close>
  (\<open>None\<close> for a \<open>YAMLError\<close>; values other than those of \<open>pyval\<close> are not modelled), SHA-256 over
  bytes and the two settings. Instants read from the database carry their zone, and texts are
  ordered by code points. \<open>sv_cache_root\<close> is the text of an absolute directory.
\<close>

record snapshot_env =
  sv_cache_root :: string
  sv_external_controller :: string
  sv_sha256 :: "string \<Rightarrow> string"
  sv_yaml :: "string \<Rightarrow> pyval option"
  sv_read :: "nat \<Rightarrow> string \<Rightarrow> string option"

section \<open>Cache paths\<close>

definition cache_path :: "snapshot_env \<Rightarrow> transport_provider_record \<Rightarrow> string" where
  "cache_path E p = descriptor_cache_path (sv_sha256 E) (sv_cache_root E) (descriptor_of p)"

section \<open>Receipts\<close>

abbreviation materialization_error :: "string \<Rightarrow> exn" where
  "materialization_error \<equiv> Exn (OtherException ''MaterializationVerificationError'')"

record verified_materialization =
  vm_owner_record_id :: int
  vm_provider_code :: string
  vm_source_revision :: int
  vm_cache_identity :: string
  vm_content_hash :: string
  vm_freshness_deadline :: datetime
  vm_content :: string

definition verified_of :: "materialization_receipt \<Rightarrow> string \<Rightarrow> verified_materialization" where
  "verified_of r content = \<lparr>vm_owner_record_id = mz_owner_record_id r, vm_provider_code = mz_provider_code r,
     vm_source_revision = mz_source_revision r, vm_cache_identity = mz_cache_identity r,
     vm_content_hash = mz_content_hash r, vm_freshness_deadline = mz_freshness_deadline r, vm_content = content\<rparr>"

definition verify_materialization ::
  "db_oracle \<Rightarrow> snapshot_env \<Rightarrow> int \<Rightarrow> string \<Rightarrow> string \<Rightarrow> int \<Rightarrow> ('w, verified_materialization) db" where
  "verify_materialization X E owner_record_id path provider_code source_revision =
     bindE (db_read X (\<lambda>d. find (\<lambda>r. mz_owner_record_id r = owner_record_id) (fw_receipts (db_forwarder d)))) (\<lambda>receipt.
     case receipt of
       None \<Rightarrow> raiseE (materialization_error ''MIHOMO_MATERIALIZATION_RECEIPT_MISSING'')
     | Some r \<Rightarrow>
         if mz_provider_code r \<noteq> provider_code \<or> mz_source_revision r \<noteq> source_revision \<or> mz_cache_identity r \<noteq> path
         then raiseE (materialization_error ''MIHOMO_MATERIALIZATION_IDENTITY_MISMATCH'')
         else bindE tick_of (\<lambda>n. case sv_read E n path of
             None \<Rightarrow> raiseE (materialization_error ''MIHOMO_MATERIALIZATION_CACHE_MISSING'')
           | Some content \<Rightarrow>
               if sv_sha256 E content \<noteq> mz_content_hash r
               then raiseE (materialization_error ''MIHOMO_MATERIALIZATION_HASH_MISMATCH'')
               else bindE (db_now X) (\<lambda>now.
                 if mz_freshness_deadline r \<le> now
                 then raiseE (materialization_error ''MIHOMO_MATERIALIZATION_EXPIRED'')
                 else retE (verified_of r content))))"

definition load_transport_materialization ::
  "snapshot_env \<Rightarrow> verified_materialization \<Rightarrow> exn + transport_materialization" where
  "load_transport_materialization E v = (case sv_yaml E (vm_content v) of
     None \<Rightarrow> Inl (materialization_error ''MIHOMO_MATERIALIZATION_YAML_INVALID'')
   | Some document \<Rightarrow>
       (let invalid = materialization_error ''MIHOMO_MATERIALIZATION_CONTENT_INVALID'' in
       bindS (as_mapping document invalid) (\<lambda>content.
       thenS (require (is_list (vget content ''proxies'')) invalid)
       (Inr \<lparr>tm_owner_record_id = vm_owner_record_id v, tm_provider_code = vm_provider_code v,
         tm_source_revision = vm_source_revision v, tm_cache_identity = vm_cache_identity v,
         tm_content_hash = vm_content_hash v, tm_freshness_deadline = vm_freshness_deadline v,
         tm_content = content, tm_implementation = ''subscription''\<rparr>))))"

section \<open>Rows of the snapshot\<close>

text \<open>\<open>column.in_(ids or {-1})\<close>.\<close>

definition within :: "int list \<Rightarrow> int \<Rightarrow> bool" where
  "within ids i = (if ids = [] then i = -1 else i \<in> set ids)"

definition active_groups :: "database \<Rightarrow> route_group list" where
  "active_groups d = sort_key (\<lambda>g. (rg_code g, rg_id g))
     (filter (\<lambda>g. rg_status g = GroupActive) (fw_route_groups (db_forwarder d)))"

definition group_bindings :: "route_group list \<Rightarrow> database \<Rightarrow> route_binding list" where
  "group_bindings groups d = sort_key (\<lambda>b. (rb_route_group_id b, rb_priority b, rb_id b))
     (filter (\<lambda>b. rb_enabled b \<and> within (map rg_id groups) (rb_route_group_id b)) (fw_route_bindings (db_forwarder d)))"

definition group_egress_bindings :: "route_group list \<Rightarrow> database \<Rightarrow> route_egress_binding list" where
  "group_egress_bindings groups d = sort_key (\<lambda>b. (rx_route_group_id b, rx_id b))
     (filter (\<lambda>b. rx_enabled b \<and> within (map rg_id groups) (rx_route_group_id b)) (fw_route_egress (db_forwarder d)))"

definition enabled_rules :: "database \<Rightarrow> traffic_rule list" where
  "enabled_rules d = sort_key (\<lambda>r. (tk_priority r, tk_id r)) (filter tk_enabled (fw_rules (db_forwarder d)))"

definition active_egress_groups :: "database \<Rightarrow> egress_group list" where
  "active_egress_groups d = sort_key (\<lambda>g. (eg_code g, eg_id g))
     (filter (\<lambda>g. eg_status g = ''ACTIVE'') (fw_egress_groups (db_forwarder d)))"

definition projected_endpoints :: "egress_group list \<Rightarrow> database \<Rightarrow> egress_endpoint list" where
  "projected_endpoints groups d = sort_key (\<lambda>e. (ee_code e, ee_id e))
     (filter (\<lambda>e. ee_status e \<in> {''AVAILABLE'', ''ASSIGNED'', ''DEGRADED''} \<and> within (map eg_id groups) (ee_group_id e))
       (db_endpoints d))"

definition bound_providers :: "route_binding list \<Rightarrow> database \<Rightarrow> transport_provider_record list" where
  "bound_providers bindings d = sort_key (\<lambda>p. (tp_code p, tp_id p))
     (filter (\<lambda>p. tp_enabled p \<and> within (map rb_provider_id bindings) (tp_id p)) (fw_providers (db_forwarder d)))"

definition transport_nodes :: "database \<Rightarrow> transport_endpoint_record list" where
  "transport_nodes d = sort_key (\<lambda>n. (tn_provider_id n, tn_external_id n, tn_id n)) (fw_nodes (db_forwarder d))"

definition active_assignments :: "database \<Rightarrow> egress_transport_assignment list" where
  "active_assignments d = sort_key (\<lambda>a. (ta_transport_provider_id a, ta_transport_node_id a, ta_id a))
     (filter (\<lambda>a. ta_state a = ''ACTIVE'') (fw_assignments (db_forwarder d)))"

definition active_egress_bindings :: "database \<Rightarrow> egress_binding list" where
  "active_egress_bindings d = sort_key (\<lambda>b. (eb_subscription_id b, eb_egress_id b, eb_id b)) (filter active_binding (db_bindings d))"

definition provider_receipts :: "transport_provider_record list \<Rightarrow> database \<Rightarrow> materialization_receipt list" where
  "provider_receipts providers d = sort_key mz_owner_record_id
     (filter (\<lambda>r. within (map tp_id providers) (mz_owner_record_id r)) (fw_receipts (db_forwarder d)))"

definition secret_with_purpose :: "string \<Rightarrow> string \<Rightarrow> database \<Rightarrow> secret option" where
  "secret_with_purpose ref purpose d = find (\<lambda>r. sc_secret_ref r = ref \<and> sc_purpose r = purpose) (db_secrets d)"

section \<open>Checks and parts of the snapshot\<close>

text \<open>One turn of the loop over the assignments: the exits that have one so far.\<close>

definition check_assignment ::
  "transport_endpoint_record list \<Rightarrow> int list \<Rightarrow> int list \<Rightarrow> egress_transport_assignment \<Rightarrow> exn + int list" where
  "check_assignment nodes egress_ids seen a =
     (case tbl_get tn_id nodes (ta_transport_node_id a) of
        None \<Rightarrow> Inl (mihomo_reconciliation_error ''MIHOMO_TRANSPORT_ASSIGNMENT_NODE_MISSING'')
      | Some node \<Rightarrow>
          thenS (require (ta_transport_provider_id a = tn_provider_id node)
                   (mihomo_reconciliation_error ''MIHOMO_TRANSPORT_ASSIGNMENT_PROVIDER_MISMATCH''))
         (thenS (require (ta_egress_id a \<in> set egress_ids)
                   (mihomo_reconciliation_error ''MIHOMO_TRANSPORT_ASSIGNMENT_EGRESS_UNKNOWN''))
         (thenS (require (ta_egress_id a \<notin> set seen)
                   (mihomo_reconciliation_error ''MIHOMO_TRANSPORT_ASSIGNMENT_AMBIGUOUS''))
         (Inr (ta_egress_id a # seen)))))"

text \<open>The material of a provider and the reference to it.\<close>

definition load_material ::
  "db_oracle \<Rightarrow> snapshot_env \<Rightarrow> materialization_receipt list \<Rightarrow> transport_provider_record \<Rightarrow>
   ('w, transport_materialization \<times> transport_reference) db" where
  "load_material X E receipts p = (case find (\<lambda>r. mz_owner_record_id r = tp_id p) receipts of
     None \<Rightarrow> raiseE (mihomo_reconciliation_error ''MIHOMO_MATERIALIZATION_RECEIPT_MISSING'')
   | Some receipt \<Rightarrow>
       bindE (db_read X (secret_with_purpose (tp_secret_ref p) ''TRANSPORT_SUBSCRIPTION_URL'')) (\<lambda>source.
       if (case source of None \<Rightarrow> True | Some row \<Rightarrow> sc_revision row \<noteq> mz_source_revision receipt)
       then raiseE (mihomo_reconciliation_error ''MIHOMO_MATERIALIZATION_SOURCE_REVISION_MISMATCH'')
       else bindE (verify_materialization X E (tp_id p) (cache_path E p) (tp_code p) (mz_source_revision receipt)) (\<lambda>verified.
         bindE (liftE (load_transport_materialization E verified)) (\<lambda>material.
         retE (material, \<lparr>tr_owner_record_id = tp_id p, tr_provider_code = tp_code p,
           tr_source_revision = mz_source_revision receipt, tr_cache_identity = mz_cache_identity receipt,
           tr_implementation = ''subscription''\<rparr>)))))"

definition credential_ref_of :: "egress_binding list \<Rightarrow> egress_endpoint \<Rightarrow> exn + string" where
  "credential_ref_of bindings e =
     (let override = Option.bind (find (\<lambda>b. eb_egress_id b = ee_id e) bindings) eb_credential_secret_ref;
          invalid = Inl (mihomo_reconciliation_error ''MIHOMO_EGRESS_CREDENTIAL_REF_INVALID'') in
      case override of
        Some ref \<Rightarrow> if ref = [] then (if strip (ee_credential_secret_ref e) = [] then invalid else Inr (strip (ee_credential_secret_ref e)))
          else if \<not> nonblank ref then invalid else Inr ref
      | None \<Rightarrow> if strip (ee_credential_secret_ref e) = [] then invalid else Inr (strip (ee_credential_secret_ref e)))"

definition is_node :: "transport_endpoint_record \<Rightarrow> pyval \<Rightarrow> bool" where
  "is_node node proxy = (case proxy of
     VMap p \<Rightarrow> py_eq (vget p ''name'') (VStr (tn_name node)) \<and> py_eq (vget p ''server'') (VStr (tn_host node)) \<and>
       py_eq (vget p ''port'') (VInt (tn_port node))
   | _ \<Rightarrow> False)"

text \<open>The proxy an assigned exit dials through: exactly one of the provider's proxies is the node.\<close>

definition assigned_proxy ::
  "transport_endpoint_record list \<Rightarrow> egress_transport_assignment list \<Rightarrow> transport_materialization list \<Rightarrow> egress_endpoint \<Rightarrow>
   exn + (transport_endpoint_record \<times> string) option" where
  "assigned_proxy nodes assignments materials e =
     (case find (\<lambda>a. ta_egress_id a = ee_id e) assignments of
        None \<Rightarrow> Inr None
      | Some a \<Rightarrow> (case tbl_get tn_id nodes (ta_transport_node_id a) of
          None \<Rightarrow> Inr None
        | Some node \<Rightarrow>
            (let candidates = (case find (\<lambda>m. tm_owner_record_id m = ta_transport_provider_id a) materials of
                 None \<Rightarrow> [] | Some m \<Rightarrow> filter (is_node node) (list_items (vget (tm_content m) ''proxies''))) in
             thenS (require (length candidates = 1) (mihomo_reconciliation_error ''MIHOMO_TRANSPORT_PROXY_UNRESOLVED''))
             (Inr (Some (node, tn_name node))))))"

definition load_egress_proxy ::
  "db_oracle \<Rightarrow> transport_endpoint_record list \<Rightarrow> egress_transport_assignment list \<Rightarrow> transport_materialization list \<Rightarrow>
   egress_binding list \<Rightarrow> egress_endpoint \<Rightarrow> ('w, forwarder_egress_proxy_dto) db" where
  "load_egress_proxy X nodes assignments materials bindings e =
     bindE (liftE (credential_ref_of bindings e)) (\<lambda>ref.
     bindE (db_read X (find_secret ref)) (\<lambda>stored.
     if (case stored of None \<Rightarrow> True | Some row \<Rightarrow> sc_revision row \<le> 0)
     then raiseE (mihomo_reconciliation_error ''MIHOMO_EGRESS_CREDENTIAL_METADATA_INVALID'')
     else bindE (liftE (assigned_proxy nodes assignments materials e)) (\<lambda>assigned.
       retE \<lparr>fe_name = ee_code e, fe_protocol = ee_protocol e, fe_host = ee_host e, fe_port = ee_port e,
         fe_credential_secret_ref = ref, fe_credential_revision = (case stored of Some row \<Rightarrow> sc_revision row | None \<Rightarrow> 0),
         fe_transport_proxy_name = map_option snd assigned,
         fe_transport_node_identity = map_option (\<lambda>(n, _). (tn_name n, tn_host n, tn_port n)) assigned\<rparr>)))"

definition group_entry :: "egress_endpoint list \<Rightarrow> route_egress_binding list \<Rightarrow> route_group \<Rightarrow> pyval" where
  "group_entry endpoints bindings g = VMap [(''name'', VStr (rg_code g)), (''type'', VStr ''select''),
     (''proxies'', VList (List.map_filter (\<lambda>b. if rx_route_group_id b = rg_id g
        then map_option (\<lambda>e. VStr (ee_code e)) (tbl_get ee_id endpoints (rx_egress_endpoint_id b)) else None) bindings))]"

definition endpoint_listener :: "egress_endpoint \<Rightarrow> forwarder_listener_dto" where
  "endpoint_listener e = \<lparr>fl_name = ''listener-'' @ ee_code e, fl_type = ''mixed'', fl_listen = ''127.0.0.1'',
     fl_port = ee_mihomo_listen_port e, fl_proxy = ee_code e\<rparr>"

definition rule_entry :: "traffic_rule \<Rightarrow> pyval" where
  "rule_entry r = VMap ([(''match'', VStr (tk_match_type r))] @
     (if tk_match_type r \<noteq> ''MATCH'' then [(''value'', VStr (tk_match_value r))] else []) @
     [(''target'', VStr (tk_target_egress r))])"

definition fallback_entry :: pyval where
  "fallback_entry = VMap [(''match'', VStr ''MATCH''), (''target'', VStr ''BLOCK'')]"

definition desired_rules :: "traffic_rule list \<Rightarrow> pyval list" where
  "desired_rules rules = map rule_entry rules @
     (if rules = [] \<or> tk_match_type (last rules) \<noteq> ''MATCH'' then [fallback_entry] else [])"

section \<open>The loader\<close>

definition MIHOMO_CONTROLLER_SECRET_REF :: string where
  "MIHOMO_CONTROLLER_SECRET_REF = ''mihomo/api-secret''"

definition MIHOMO_CONTROLLER_SECRET_PURPOSE :: string where
  "MIHOMO_CONTROLLER_SECRET_PURPOSE = ''MIHOMO_CONTROLLER_API_SECRET''"

text \<open>The rows that are read before any secret: the topology of the forwarder.\<close>

record forwarder_topology =
  ft_groups :: "route_group list"
  ft_egress_bindings :: "route_egress_binding list"
  ft_rules :: "traffic_rule list"
  ft_endpoints :: "egress_endpoint list"
  ft_providers :: "transport_provider_record list"
  ft_nodes :: "transport_endpoint_record list"
  ft_assignments :: "egress_transport_assignment list"
  ft_bindings :: "egress_binding list"
  ft_receipts :: "materialization_receipt list"

definition load_topology :: "db_oracle \<Rightarrow> ('w, forwarder_topology) db" where
  "load_topology X =
     bindE (db_read X active_groups) (\<lambda>groups.
     bindE (db_read X (group_bindings groups)) (\<lambda>bindings.
     bindE (db_read X (group_egress_bindings groups)) (\<lambda>egress_bindings.
     bindE (db_read X enabled_rules) (\<lambda>rules.
     bindE (db_read X active_egress_groups) (\<lambda>egress_groups.
     bindE (db_read X (projected_endpoints egress_groups)) (\<lambda>endpoints.
     bindE (db_read X (bound_providers bindings)) (\<lambda>providers.
     bindE (db_read X transport_nodes) (\<lambda>nodes.
     bindE (db_read X active_assignments) (\<lambda>assignments.
     bindE (liftE (foldS (check_assignment nodes (map ee_id endpoints)) [] assignments)) (\<lambda>_.
     bindE (db_read X active_egress_bindings) (\<lambda>active.
     thenE (liftE (require (list_all (\<lambda>b. eb_egress_id b \<in> set (map ee_id endpoints)) active)
       (mihomo_reconciliation_error ''MIHOMO_EGRESS_BINDING_INVALID'')))
     (bindE (db_read X (provider_receipts providers)) (\<lambda>receipts.
     retE \<lparr>ft_groups = groups, ft_egress_bindings = egress_bindings, ft_rules = rules, ft_endpoints = endpoints,
       ft_providers = providers, ft_nodes = nodes, ft_assignments = assignments, ft_bindings = active,
       ft_receipts = receipts\<rparr>)))))))))))))"

definition assemble_snapshot ::
  "snapshot_env \<Rightarrow> forwarder_topology \<Rightarrow> (transport_materialization \<times> transport_reference) list \<Rightarrow>
   forwarder_egress_proxy_dto list \<Rightarrow> int \<Rightarrow> mihomo_desired_state" where
  "assemble_snapshot E T materials egress controller_revision =
     \<lparr>ds_listeners = [], ds_listener_specs = map endpoint_listener (ft_endpoints T), ds_proxies = [],
      ds_egress_proxies = sort_key fe_name egress,
      ds_proxy_groups = map (group_entry (ft_endpoints T) (ft_egress_bindings T)) (sort_key rg_id (ft_groups T)),
      ds_rules = desired_rules (ft_rules T), ds_dns = [(''enable'', VBool True), (''ipv6'', VBool False)], ds_policy = [],
      ds_transport_materializations = map (Some \<circ> fst) materials, ds_transport_references = map (Some \<circ> snd) materials,
      ds_deployment_constants = [(''external-controller'', VStr (sv_external_controller E)),
        (''api-secret-ref'', VStr MIHOMO_CONTROLLER_SECRET_REF), (''api-secret-revision'', VInt controller_revision)],
      ds_snapshot_revision = 1, ds_snapshot_identity = ''default''\<rparr>"

definition load_current :: "db_oracle \<Rightarrow> snapshot_env \<Rightarrow> ('w, mihomo_desired_state) db" where
  "load_current X E =
     bindE (load_topology X) (\<lambda>T.
     bindE (mapE (load_material X E (ft_receipts T)) (ft_providers T)) (\<lambda>materials.
     bindE (mapE (load_egress_proxy X (ft_nodes T) (ft_assignments T) (map fst materials) (ft_bindings T)) (ft_endpoints T)) (\<lambda>egress.
     bindE (db_read X (secret_with_purpose MIHOMO_CONTROLLER_SECRET_REF MIHOMO_CONTROLLER_SECRET_PURPOSE)) (\<lambda>controller.
     case controller of
       None \<Rightarrow> raiseE (mihomo_reconciliation_error ''MIHOMO_CONTROLLER_SECRET_METADATA_INVALID'')
     | Some row \<Rightarrow>
         if sc_revision row \<le> 0 then raiseE (mihomo_reconciliation_error ''MIHOMO_CONTROLLER_SECRET_METADATA_INVALID'')
         else liftE (build_desired_state (assemble_snapshot E T materials egress (sc_revision row)))))))"

text \<open>\<open>load\<close>: the current rows, labelled with the generation the job names.\<close>

definition load_snapshot :: "db_oracle \<Rightarrow> snapshot_env \<Rightarrow> job \<Rightarrow> ('w, mihomo_desired_state) db" where
  "load_snapshot X E j =
     bindE (liftE (mihomo_payload j)) (\<lambda>payload.
     case validate_revision (vget payload ''snapshot_revision'') of
       Inl _ \<Rightarrow> raiseE (mihomo_payload_error ''MIHOMO_RECONCILIATION_PAYLOAD_INVALID'')
     | Inr revision \<Rightarrow>
         bindE (db_read X (\<lambda>d. find (\<lambda>g. mg_revision g = revision) (generations d))) (\<lambda>generation. case generation of
           None \<Rightarrow> raiseE (mihomo_reconciliation_error ''MIHOMO_GENERATION_MISSING'')
         | Some g \<Rightarrow>
             bindE (load_current X E) (\<lambda>desired.
             bindE (liftE (snapshot_identity (mg_revision g) (mg_desired_fingerprint g) (mg_manifest_version g))) (\<lambda>identity.
             liftE (build_desired_state (desired\<lparr>ds_snapshot_revision := mg_revision g, ds_snapshot_identity := identity\<rparr>))))))"

section \<open>Secrets and the parts of the worker\<close>

text \<open>\<open>SqlMihomoControllerSecretResolver.resolve\<close>; other exceptions pass.\<close>

definition resolve_controller_secret :: "db_oracle \<Rightarrow> secret_env \<Rightarrow> string \<Rightarrow> ('w, controller_secret_snapshot) db" where
  "resolve_controller_secret X C ref =
     thenE (liftE (require (nonblank ref) (credential_error ''CREDENTIAL_REF_INVALID'')))
     (bindE (tryE (reveal_secret_snapshot_for_purpose X C ref MIHOMO_CONTROLLER_SECRET_PURPOSE)
        (\<lambda>exc. raiseE (if exn_class exc = SecretStoreError \<or> exn_class exc = ValueError
           then credential_error ''CREDENTIAL_RESOLUTION_FAILED'' else exc))) (\<lambda>(secret, revision).
      if \<not> nonblank secret \<or> revision \<le> 0 then raiseE (credential_error ''CREDENTIAL_RESOLUTION_FAILED'')
      else retE \<lparr>cs_ref = ref, cs_revision = revision, cs_value = secret\<rparr>))"

definition egress_snapshot :: "db_oracle \<Rightarrow> secret_env \<Rightarrow> string \<Rightarrow> ('w, egress_credential_snapshot) db" where
  "egress_snapshot X C ref = bindE (resolve_egress_credential X C ref) (\<lambda>(revision, c).
     retE \<lparr>es_secret_ref = ref, es_revision = revision, es_credential = c\<rparr>)"

text \<open>
  \<open>finalize\<close> with the resolvers of the session. A resolution is one statement, so the controller
  secret is read at the current tick and the credential of the requirement \<open>i\<close> at \<open>i + 1\<close> ticks later.
\<close>

definition sql_finalize :: "db_oracle \<Rightarrow> secret_env \<Rightarrow> projection_template \<Rightarrow> ('w, mihomo_candidate_config) db" where
  "sql_finalize X C template s =
     (finalize_mihomo (\<lambda>ref. fst (resolve_controller_secret X C ref s))
        (\<lambda>i ref. fst (egress_snapshot X C ref (s\<lparr>se_tick := se_tick s + i + 1\<rparr>))) (Some template),
      s\<lparr>se_tick := se_tick s + length (pt_egress_credentials template) + 1\<rparr>)"

definition sql_parts ::
  "db_oracle \<Rightarrow> snapshot_env \<Rightarrow> secret_env \<Rightarrow> mihomo_oracle \<Rightarrow> (nat \<Rightarrow> datetime) \<Rightarrow> mihomo_host mihomo_parts" where
  "sql_parts X E C M clock = \<lparr>mp_load = load_snapshot X E,
     mp_render = (\<lambda>desired h. (render_mihomo M (sv_sha256 E) clock desired, h)),
     mp_finalize = sql_finalize X C,
     mp_apply = (\<lambda>candidate. apply_mihomo M (Some candidate))\<rparr>"

end
