(* ===== verification/Mihomo_Projection_Properties.thy ===== *)
theory Mihomo_Projection_Properties
  imports Mihomo_Projection Json_Text "HOL-Library.Code_Target_Nat"
begin

text \<open>
  What an accepted Mihomo document guarantees: its rule lines parse into the fields they were
  built from, the last one rejects everything else, every target is declared, no secret
  reference is written, and the fingerprint binds the document.
\<close>

section \<open>Fields of a rule line\<close>

lemma split_on_not_Nil [simp]: "split_on c s \<noteq> []"
  by (induction s) auto

lemma split_on_single: "c \<notin> set s \<Longrightarrow> split_on c s = [s]"
  by (induction s) auto

lemma split_on_field: "c \<notin> set a \<Longrightarrow> split_on c (a @ c # b) = a # split_on c b"
  by (induction a) auto

lemma in_split_on: "x \<in> set s \<Longrightarrow> x \<noteq> c \<Longrightarrow> \<exists>w\<in>set (split_on c s). x \<in> set w"
proof (induction s)
  case (Cons y s)
  obtain w ws where "split_on c s = w # ws" by (cases "split_on c s") auto
  with Cons show ?case by auto
qed simp

text \<open>A text without the separator of rule fields.\<close>

abbreviation one_field :: "string \<Rightarrow> bool" where
  "one_field s \<equiv> CHR '','' \<notin> set s"

lemma safe_one_field: "\<not> unsafe_component s \<Longrightarrow> one_field s"
  by (auto simp: unsafe_component_def list_ex_iff)

lemma set_strip: "set (strip s) \<subseteq> set s"
  by (auto simp: strip_def rstrip_by_def lstrip_def dest!: set_dropWhileD)

lemma validate_target_Inr [checks]:
  "validate_target v code = Inr t \<longleftrightarrow>
   t = v \<and> (casefold (strip v) = ''block'' \<longrightarrow> v = ''BLOCK'') \<and> v = strip v \<and> v \<noteq> [] \<and> \<not> unsafe_component v"
  by (auto simp: validate_target_def)

lemma validate_rule_component_Inr [checks]:
  "validate_rule_component v code = Inr w \<longleftrightarrow> nonblank v \<and> \<not> unsafe_component v \<and> w = strip v"
  by (auto simp: validate_rule_component_def)

lemma canonical_domain_one_field: "canonical_domain v = Inr w \<Longrightarrow> one_field w \<and> w \<noteq> []"
proof -
  assume a: "canonical_domain v = Inr w"
  then have labels: "list_all valid_label (split_on (CHR ''.'') w)" and w: "w = lower (strip v)" "nonblank v"
    by (auto simp: canonical_domain_def checks Let_def split: if_splits)
  have "one_field w"
  proof
    assume "CHR '','' \<in> set w"
    then obtain l where "l \<in> set (split_on (CHR ''.'') w)" "CHR '','' \<in> set l"
      using in_split_on [of "CHR '',''" w "CHR ''.''"] by auto
    with labels have "label_char (CHR '','')" by (auto simp: list_all_iff valid_label_def)
    then show False by (simp add: label_char_def)
  qed
  with w show ?thesis by (simp add: lower_def)
qed

lemma set_join: "x \<in> set (join sep ss) \<Longrightarrow> x \<in> set sep \<or> (\<exists>s\<in>set ss. x \<in> set s)"
  by (induction sep ss rule: join.induct) auto

lemma show_nat_one_field [simp]: "one_field (show_nat n)"
  using show_nat_digits [of n] by (auto simp: list_all_iff is_ascii_digit_def)

lemma show_int_one_field [simp]: "one_field (show_int i)"
  by (simp add: show_int_def)

lemma hex_digit_not_comma [simp]: "0 \<le> d \<Longrightarrow> d < 16 \<Longrightarrow> hex_digit (nat d) \<noteq> CHR '',''"
proof
  assume "0 \<le> d" "d < 16" and "hex_digit (nat d) = CHR '',''"
  then have "(of_char (hex_digit (nat d)) :: nat) = 44" "nat d < 16" by (simp_all add: nat_less_iff)
  then show False by (simp add: hex_digit_def split: if_splits)
qed

lemma hex_digits_one_field: "list_all (\<lambda>d. 0 \<le> d \<and> d < 16) ds \<Longrightarrow> one_field (map (hex_digit \<circ> nat) ds)"
  by (induction ds) (auto dest: hex_digit_not_comma simp del: hex_digit_not_comma)

lemma list_all_dropWhile: "list_all P xs \<Longrightarrow> list_all P (dropWhile Q xs)"
  by (induction xs) auto

lemma show_hex_one_field: "one_field (show_hex n)"
  unfolding show_hex_def by (intro hex_digits_one_field list_all_append [THEN iffD2] conjI list_all_dropWhile) simp_all

lemma set_compress_hextets: "h \<in> set (compress_hextets hs) \<Longrightarrow> h = [] \<or> h \<in> set hs"
  by (auto simp: compress_hextets_def split: prod.splits if_splits dest: in_set_takeD in_set_dropD)

lemma show_ipv4_one_field: "one_field (show_ipv4 n)"
  unfolding show_ipv4_def by (auto dest!: set_join)

lemma show_ipv6_one_field: "(\<And>s. scope = Some s \<Longrightarrow> one_field s) \<Longrightarrow> one_field (show_ipv6 n scope)"
  by (auto simp: show_ipv6_def ipv6_hextets_def show_hex_one_field split: option.splits
    dest!: set_join set_compress_hextets)

lemma set_tl: "x \<in> set (tl xs) \<Longrightarrow> x \<in> set xs"
  by (cases xs) auto

lemma parse_ipv6_scope: "parse_ipv6 s = Some (n, Some sc) \<Longrightarrow> set sc \<subseteq> set s"
  by (auto simp: parse_ipv6_def Let_def split: if_splits dest!: set_tl set_dropWhileD)

lemma split_on_subset: "w \<in> set (split_on c s) \<Longrightarrow> set w \<subseteq> set s"
proof (induction s arbitrary: w)
  case (Cons y s)
  have "set (hd (split_on c s)) \<subseteq> set s" by (rule Cons.IH) simp
  moreover have "set v \<subseteq> set s" if "v \<in> set (tl (split_on c s))" for v
    by (rule Cons.IH) (use that set_tl in fast)
  moreover have "w \<in> {[], y # hd (split_on c s)} \<union> set (split_on c s) \<union> set (tl (split_on c s))"
    using Cons.prems by (auto split: if_splits)
  ultimately show ?case using Cons.IH by fastforce
qed simp

lemma split_prefix_set: "split_prefix s = Some am \<Longrightarrow> set (fst am) \<subseteq> set s"
  using split_on_subset [of "fst am" "CHR ''/''" s]
  by (auto simp: split_prefix_def split: list.splits)

lemma ip_network_one_field:
  assumes "ip_network s = Some t" and "one_field s"
  shows "one_field t \<and> t \<noteq> []"
proof -
  obtain am where am: "split_prefix s = Some am" and
    "ipv4_network am = Some t \<or> ipv6_network am = Some t"
    using assms(1) by (auto simp: ip_network_def split: option.splits)
  moreover have "ipv4_network am = Some t \<Longrightarrow> ?thesis"
    by (auto simp: ipv4_network_def show_ipv4_one_field split: option.splits)
  moreover have "ipv6_network am = Some t \<Longrightarrow> ?thesis"
  proof -
    assume "ipv6_network am = Some t"
    then obtain n scope p where p: "parse_ipv6 (fst am) = Some (n, scope)"
      and t: "t = show_ipv6 (clear_host_bits 128 p n)
                (if clear_host_bits 128 p n = n then scope else None) @ ''/'' @ show_nat p"
      by (auto simp: ipv6_network_def Let_def split: option.splits)
    have "one_field sc" if "scope = Some sc" for sc
      using parse_ipv6_scope [of "fst am" n sc] p that split_prefix_set [OF am] assms(2) by auto
    then have "one_field (show_ipv6 (clear_host_bits 128 p n)
                 (if clear_host_bits 128 p n = n then scope else None))"
      by (intro show_ipv6_one_field) (auto split: if_splits)
    with t show ?thesis by simp
  qed
  ultimately show ?thesis by blast
qed

lemma canonical_rule_value_one_field:
  "canonical_rule_value kind v = Inr w \<Longrightarrow> one_field w \<and> w \<noteq> []"
  using set_strip [of v]
  by (auto simp: canonical_rule_value_def checks split: if_splits option.splits
    dest!: canonical_domain_one_field ip_network_one_field safe_one_field)

section \<open>Lists of checked items\<close>

lemma mapS_Cons_Inr [checks]:
  "mapS f (x # xs) = Inr zs \<longleftrightarrow> (\<exists>y ys. zs = y # ys \<and> f x = Inr y \<and> mapS f xs = Inr ys)"
  by (auto simp: checks)

lemma mapS_Nil_Inr [checks]: "mapS f [] = Inr zs \<longleftrightarrow> zs = []"
  by auto

lemma mapS_snoc:
  "mapS f (xs @ [x]) = Inr zs \<longleftrightarrow> (\<exists>y ys. zs = ys @ [y] \<and> f x = Inr y \<and> mapS f xs = Inr ys)"
  by (induction xs arbitrary: zs) (auto simp: checks simp del: mapS.simps)

lemma mapS_image: "mapS f xs = Inr ys \<Longrightarrow> y \<in> set ys \<Longrightarrow> \<exists>x\<in>set xs. f x = Inr y"
  by (induction xs arbitrary: ys) (auto simp: checks)

lemma mapS_total: "mapS f xs = Inr ys \<Longrightarrow> x \<in> set xs \<Longrightarrow> \<exists>y\<in>set ys. f x = Inr y"
  by (induction xs arbitrary: ys) (auto simp: checks)

section \<open>Reading the document\<close>

lemma vget_update [simp]: "vget (dict_set d k v) k' = (if k = k' then v else vget d k')"
  by (simp add: vget_def update_conv')

lemma map_of_filter: "map_of d k = map_of (filter (\<lambda>e. fst e = k) d) k"
  by (induction d) auto

lemma map_of_sort: "map_of (sort_key fst d) k = map_of d k"
  using map_of_filter [of "sort_key fst d" k] map_of_filter [of d k] by (simp add: sort_key_stable)

lemma vget_canonical:
  "canonical (VMap d) = VMap e \<Longrightarrow> vget e k = canonical (vget d k)"
proof -
  assume "canonical (VMap d) = VMap e"
  then have "e = sort_key fst (map (\<lambda>(k, v). (k, sort_keys v)) d)" by (simp add: canonical_def)
  then have "map_of e k = map_option sort_keys (map_of d k)"
    by (simp add: map_of_sort map_of_map)
  then show ?thesis by (simp add: vget_def canonical_def split: option.splits)
qed

lemma vget_pop [simp]: "vget (dict_pop d k) k' = (if k = k' then VNone else vget d k')"
  unfolding vget_def dict_pop_def by (induction d) (auto split: option.splits)

lemma raw_document_fields [simp]:
  "vget (raw_document c d ps rs) ''rules'' = VList (map VStr rs)"
  "vget (raw_document c d ps rs) ''proxies'' = VList ps"
  "vget (raw_document c d ps rs) ''proxy-groups'' = VList (ds_proxy_groups d)"
  "vget (raw_document c d ps rs) ''listeners'' = VList (map listener_entry (ds_listener_specs d))"
  by (simp_all add: raw_document_def dict_merge_def)

text \<open>The names a rule or a listener may point to: those of the document's proxies and groups.\<close>

fun item_name :: "pyval \<Rightarrow> string option" where
  "item_name (VMap d) = (case vget d ''name'' of VStr n \<Rightarrow> Some n | _ \<Rightarrow> None)"
| "item_name v = None"

definition declared_names :: "pyval dict \<Rightarrow> string list" where
  "declared_names es = List.map_filter item_name
     (list_items (vget es ''proxies'') @ list_items (vget es ''proxy-groups''))"

definition rule_line_ok :: "string list \<Rightarrow> string \<Rightarrow> bool" where
  "rule_line_ok declared line = (case split_on (CHR '','') line of
     [kind, v, target] \<Rightarrow> kind \<in> {''DOMAIN'', ''DOMAIN-SUFFIX'', ''IP-CIDR''} \<and> v \<noteq> [] \<and>
        (target = ''REJECT'' \<or> target \<in> set declared)
   | _ \<Rightarrow> False)"

lemma item_name_canonical [simp]: "item_name (canonical v) = item_name v"
proof (cases v)
  case (VMap d)
  obtain e where e: "canonical (VMap d) = VMap e" by (simp add: canonical_def)
  show ?thesis unfolding VMap e item_name.simps vget_canonical [OF e]
    by (cases "vget d ''name''") (simp_all add: canonical_def)
qed (simp_all add: canonical_def)

lemma identity_name_item:
  assumes "identity_name v code = Inr n"
  shows "item_name v = Some n \<and> \<not> reserved_identity n"
proof -
  from assms obtain d where "v = VMap d" unfolding identity_name_def bindS_Inr as_mapping_Inr by blast
  with assms show ?thesis unfolding identity_name_def as_mapping_def
    by (cases "vget d ''name''"; cases "vget d ''type''") (simp_all split: if_splits)
qed

lemma mapS_names:
  assumes "mapS f xs = Inr ns" and "\<And>v n. f v = Inr n \<Longrightarrow> item_name v = Some n \<and> P n"
  shows "List.map_filter item_name xs = ns \<and> list_all P ns"
  using assms(1)
proof (induction xs arbitrary: ns)
  case (Cons v xs)
  then obtain n ms where "ns = n # ms" "f v = Inr n" "mapS f xs = Inr ms" by (auto simp: checks)
  with Cons.IH assms(2) show ?case by (simp add: map_filter_simps)
qed (simp add: map_filter_simps)

lemma validate_proxies_names: "validate_proxies ps = Inr ns \<Longrightarrow>
   List.map_filter item_name ps = ns \<and> distinct ns \<and> list_all (\<lambda>n. \<not> reserved_identity n) ns"
  unfolding validate_proxies_def bindS_Inr thenS_Inr require_Inr
  using mapS_names [of "\<lambda>p. identity_name p ''MIHOMO_PROXY_INVALID''" ps ns "\<lambda>n. \<not> reserved_identity n"]
    identity_name_item by fastforce

lemma validate_group_item: "validate_group pns g = Inr n \<Longrightarrow> item_name g = Some n \<and> \<not> reserved_identity n"
  unfolding validate_group_def bindS_Inr thenS_Inr using identity_name_item by blast

lemma validate_groups_names: "validate_groups pns gs = Inr ns \<Longrightarrow>
   List.map_filter item_name gs = ns \<and> distinct ns \<and> set pns \<inter> set ns = {} \<and>
   list_all (\<lambda>n. \<not> reserved_identity n) ns"
  unfolding validate_groups_def bindS_Inr thenS_Inr require_Inr
  using mapS_names [of "validate_group pns" gs ns "\<lambda>n. \<not> reserved_identity n"] validate_group_item
  by fastforce

section \<open>Rules\<close>

lemma upper_kinds_one_field: "py_upper kind \<in> {''DOMAIN'', ''DOMAIN-SUFFIX'', ''IP-CIDR''} \<Longrightarrow> one_field (py_upper kind)"
  by auto

lemma validate_rule_parts:
  assumes "validate_rule rule = Inr (kind, target)"
  obtains v where "rule_fields rule = Inr (kind, target, v)"
    and "validate_target target ''MIHOMO_RULE_TARGET_INVALID'' = Inr target"
    and "is_match kind \<or> (\<exists>text. v = VStr text \<and> text \<noteq> [] \<and>
           py_upper kind \<in> {''DOMAIN'', ''DOMAIN-SUFFIX'', ''IP-CIDR''})"
proof -
  from assms obtain v x where f: "rule_fields rule = Inr (kind, target, v)"
    and t: "validate_target target ''MIHOMO_RULE_TARGET_INVALID'' = Inr x"
    unfolding validate_rule_def bindS_Inr thenS_Inr by (auto simp: bindS_Inr thenS_Inr)
  moreover from t have "x = target" by (simp add: validate_target_Inr)
  moreover from assms f t have "is_match kind \<or> (\<exists>text. v = VStr text \<and> text \<noteq> [] \<and>
           py_upper kind \<in> {''DOMAIN'', ''DOMAIN-SUFFIX'', ''IP-CIDR''})"
    unfolding validate_rule_def by (cases v) (auto simp: thenS_Inr split: if_splits)
  ultimately show thesis using that by blast
qed

lemma rule_line_shape:
  assumes "validate_rule rule = Inr (kind, target)" and "serialize_rule rule = Inr line" and "\<not> is_match kind"
  obtains w where "line = py_upper kind @ '','' @ w @ '','' @ runtime_target target"
    and "py_upper kind \<in> {''DOMAIN'', ''DOMAIN-SUFFIX'', ''IP-CIDR''}"
    and "one_field w" and "w \<noteq> []" and "one_field (runtime_target target)"
proof -
  obtain v where f: "rule_fields rule = Inr (kind, target, v)"
    and t: "validate_target target ''MIHOMO_RULE_TARGET_INVALID'' = Inr target"
    and "is_match kind \<or> (\<exists>text. v = VStr text \<and> text \<noteq> [] \<and>
           py_upper kind \<in> {''DOMAIN'', ''DOMAIN-SUFFIX'', ''IP-CIDR''})"
    using validate_rule_parts [OF assms(1)] by metis
  with assms(3) obtain body where body: "v = VStr body" "body \<noteq> []"
    and k: "py_upper kind \<in> {''DOMAIN'', ''DOMAIN-SUFFIX'', ''IP-CIDR''}" by blast
  from f t body assms(2,3) obtain w where w: "canonical_rule_value (py_upper kind) body = Inr w"
    "line = py_upper kind @ '','' @ w @ '','' @ runtime_target target"
    unfolding serialize_rule_def by (auto simp: bindS_Inr split: if_splits)
  from t have "one_field (runtime_target target)"
    by (auto simp: validate_target_Inr runtime_target_def dest: safe_one_field)
  moreover note canonical_rule_value_one_field [OF w(1)]
  ultimately show thesis by (intro that [of w] w(2) k) simp_all
qed

lemma match_line:
  assumes "validate_rule rule = Inr (kind, target)" and "serialize_rule rule = Inr line" and "is_match kind"
  shows "line = ''MATCH,'' @ runtime_target target"
proof -
  obtain v where "rule_fields rule = Inr (kind, target, v)"
    "validate_target target ''MIHOMO_RULE_TARGET_INVALID'' = Inr target"
    using validate_rule_parts [OF assms(1)] by metis
  with assms(2,3) show ?thesis by (simp add: serialize_rule_def)
qed

lemma rule_line_accepted:
  assumes "validate_rule rule = Inr (kind, target)" and "serialize_rule rule = Inr line" and "\<not> is_match kind"
    and "target \<in> set (''BLOCK'' # declared)"
  shows "rule_line_ok declared line"
proof -
  obtain w where line: "line = py_upper kind @ CHR '','' # w @ CHR '','' # runtime_target target"
    and k: "py_upper kind \<in> {''DOMAIN'', ''DOMAIN-SUFFIX'', ''IP-CIDR''}"
    and w: "one_field w" "w \<noteq> []" and t: "one_field (runtime_target target)"
    using rule_line_shape [OF assms(1-3)] by (metis append_Cons append_Nil)
  have "split_on (CHR '','') line = [py_upper kind, w, runtime_target target]"
    unfolding line using upper_kinds_one_field [OF k] w(1) t by (simp add: split_on_field split_on_single)
  with k w(2) assms(4) show ?thesis by (auto simp: rule_line_ok_def runtime_target_def)
qed

lemma validate_rules_last:
  assumes "validate_rules allowed rules = Inr ()"
  obtains init r checked kind where "rules = init @ [r]" and "mapS validate_rule init = Inr checked"
    and "validate_rule r = Inr (kind, ''BLOCK'')" and "is_match kind"
    and "list_all (\<lambda>(k, t). \<not> is_match k \<and> t \<in> set allowed) checked"
proof -
  from assms obtain all_checked where all: "mapS validate_rule rules = Inr all_checked"
    and fallback: "validate_fallback all_checked = Inr ()"
    and targets: "each (validate_rule_target allowed) all_checked = Inr ()"
    unfolding validate_rules_def by (auto simp: checks)
  let ?m = "\<lambda>(kind, _ :: string). is_match kind"
  from fallback have one: "length (filter ?m all_checked) = 1"
    and block: "snd (hd (filter ?m all_checked)) = ''BLOCK''" and last: "is_match (fst (last all_checked))"
    unfolding validate_fallback_def Let_def thenS_Inr require_Inr by auto
  from one have "all_checked \<noteq> []" by auto
  then obtain checked k t where snoc: "all_checked = checked @ [(k, t)]"
    by (metis append_butlast_last_id surj_pair)
  with last one have m: "is_match k" "filter ?m checked = []" by auto
  with block snoc have t: "t = ''BLOCK''" by simp
  have "rules \<noteq> []" using all snoc by auto
  then obtain init r where rules: "rules = init @ [r]" by (metis append_butlast_last_id)
  with all snoc have "mapS validate_rule init = Inr checked" "validate_rule r = Inr (k, t)"
    by (auto simp: mapS_snoc)
  moreover have "\<not> is_match k' \<and> t' \<in> set allowed" if p: "(k', t') \<in> set checked" for k' t'
  proof -
    from m(2) p have "\<not> is_match k'" by (auto simp: filter_empty_conv)
    moreover from targets snoc p have "validate_rule_target allowed (k', t') = Inr ()" by (auto simp: each_Inr)
    ultimately show ?thesis
      by (auto simp: validate_rule_target_def bindS_Inr validate_target_Inr require_Inr)
  qed
  then have "list_all (\<lambda>(k, t). \<not> is_match k \<and> t \<in> set allowed) checked" by (auto simp: list_all_iff)
  ultimately show thesis using that rules m(1) t by blast
qed

lemma rules_fail_closed:
  assumes "validate_rules (''BLOCK'' # declared) rules = Inr ()" and "mapS serialize_rule rules = Inr lines"
  obtains others where "lines = others @ [''MATCH,REJECT'']" and "list_all (rule_line_ok declared) others"
proof -
  obtain init r checked kind where rules: "rules = init @ [r]" and c: "mapS validate_rule init = Inr checked"
    and r: "validate_rule r = Inr (kind, ''BLOCK'')" "is_match kind"
    and ok: "list_all (\<lambda>(k, t). \<not> is_match k \<and> t \<in> set (''BLOCK'' # declared)) checked"
    using validate_rules_last [OF assms(1)] by metis
  from assms(2) rules obtain others line where lines: "lines = others @ [line]"
    "serialize_rule r = Inr line" "mapS serialize_rule init = Inr others"
    by (auto simp: mapS_snoc)
  from match_line [OF r(1) lines(2) r(2)] have "line = ''MATCH,REJECT''" by (simp add: runtime_target_def)
  moreover have "rule_line_ok declared l" if l: "l \<in> set others" for l
  proof -
    obtain x where x: "x \<in> set init" "serialize_rule x = Inr l" using mapS_image [OF lines(3) l] by blast
    obtain k t where kt: "(k, t) \<in> set checked" "validate_rule x = Inr (k, t)" using mapS_total [OF c x(1)] by auto
    with ok show ?thesis using rule_line_accepted [OF kt(2) x(2)] by (auto simp: list_all_iff)
  qed
  ultimately show thesis using that lines(1) by (simp add: list_all_iff)
qed

text \<open>Dictionaries have distinct keys; this is what the snapshot's values say of theirs.\<close>

definition snapshot_values :: "mihomo_desired_state \<Rightarrow> pyval" where
  "snapshot_values d = VList (ds_proxies d @ ds_proxy_groups d @
     [VMap (ds_dns d), VMap (ds_deployment_constants d)] @
     concat (map (\<lambda>m. case m of Some x \<Rightarrow> [VMap (tm_content x)] | None \<Rightarrow> []) (ds_transport_materializations d)))"

lemma validated_materials:
  assumes "validate_transports sha256 now d = Inr materials"
  shows "ds_transport_materializations d = map Some materials"
proof -
  have "mapS (validate_materialization sha256 now) (enumerate n ms) = Inr ys \<Longrightarrow> ms = map Some ys" for n ms ys
    by (induction ms arbitrary: n ys)
      (auto simp: bindS_Inr thenS_Inr validate_materialization_def split: option.splits)
  then show ?thesis using assms unfolding validate_transports_def bindS_Inr Let_def thenS_Inr by blast
qed

lemma effective_proxies_distinct_keys:
  assumes "validate_transports sha256 now d = Inr materials" and "mapS material_proxies materials = Inr materialized"
    and "mapS egress_proxy_mapping (ds_egress_proxies d) = Inr egress" and "distinct_keys (snapshot_values d)"
  shows "list_all distinct_keys (ds_proxies d @ concat materialized @ egress)"
proof -
  have own: "list_all distinct_keys (ds_proxies d)"
    using assms(4) by (simp add: snapshot_values_def)
  have "list_all distinct_keys (concat (map (\<lambda>m. case m of Some x \<Rightarrow> [VMap (tm_content x)] | None \<Rightarrow> [])
      (map Some materials)))"
    using assms(4) validated_materials [OF assms(1)] by (simp add: snapshot_values_def)
  then have contents: "distinct_keys (VMap (tm_content m))" if "m \<in> set materials" for m
    using that by (induction materials) auto
  have "list_all distinct_keys ps" if ps: "ps \<in> set materialized" for ps
  proof -
    obtain m where m: "m \<in> set materials" "material_proxies m = Inr ps"
      using mapS_image [OF assms(2) ps] by blast
    then have "vget (tm_content m) ''proxies'' = VList ps"
      by (auto simp: material_proxies_def thenS_Inr split: pyval.splits)
    then have "(''proxies'', VList ps) \<in> set (tm_content m)"
      by (auto simp: vget_def split: option.splits dest: map_of_SomeD)
    with contents [OF m(1)] show ?thesis by (force simp: list_all_iff)
  qed
  moreover have "distinct_keys e" if "e \<in> set egress" for e
    using mapS_image [OF assms(3) that]
    by (auto simp: egress_proxy_mapping_def thenS_Inr split: option.splits)
  ultimately show ?thesis using own by (auto simp: list_all_iff)
qed

section \<open>Inversion of the composition\<close>

lemma compose_accepted:
  assumes "compose_mihomo_document sha256 now d = Inr (document, fingerprint)"
  obtains materials proxies pnames gnames identity mixed_port controller lines es where
    "validate_transports sha256 now d = Inr materials"
    "validate_proxies proxies = Inr pnames" "validate_groups pnames (ds_proxy_groups d) = Inr gnames"
    "validate_rules (''BLOCK'' # pnames @ gnames) (ds_rules d) = Inr ()"
    "mapS serialize_rule (ds_rules d) = Inr lines"
    "validate_deployment_constants (ds_deployment_constants d) = Inr (mixed_port, controller)"
    "controller_identity (ds_deployment_constants d) = Inr identity"
    "\<exists>seen. foldS (validate_listener mixed_port) ([], []) (ds_listener_specs d) = Inr seen"
    "list_all (\<lambda>l. fl_proxy l \<in> set (''BLOCK'' # pnames @ gnames)) (ds_listener_specs d)"
    "document = VMap es"
    "canonical (VMap (dict_pop (dict_pop (raw_document controller d proxies lines) ''api-secret-ref'')
       ''api-secret-revision'')) = VMap es"
    "fingerprint = digest sha256 (fingerprint_value d identity document materials)"
    "distinct_keys (snapshot_values d) \<longrightarrow> list_all distinct_keys proxies"
    "\<exists>own egress. proxies = own @ egress \<and> mapS egress_proxy_mapping (ds_egress_proxies d) = Inr egress"
proof -
  from assms obtain materials materialized egress where
    a: "validate_transports sha256 now d = Inr materials"
    "mapS material_proxies materials = Inr materialized" "mapS egress_proxy_mapping (ds_egress_proxies d) = Inr egress"
    unfolding compose_mihomo_document_def bindS_Inr Let_def by blast
  define proxies where "proxies = ds_proxies d @ concat materialized @ egress"
  from assms a obtain effective identity where
    b: "effective = d\<lparr>ds_proxies := proxies, ds_egress_proxies := [],
              ds_transport_materializations := [], ds_transport_references := []\<rparr>"
    "controller_identity (ds_deployment_constants d) = Inr identity"
    "validate_sections effective = Inr ()"
    unfolding compose_mihomo_document_def proxies_def
    by (auto simp: bindS_Inr thenS_Inr build_desired_state_def Let_def split: if_splits)
  from assms a b obtain mixed_port controller lines where
    c: "validate_deployment_constants (ds_deployment_constants d) = Inr (mixed_port, controller)"
    "mapS serialize_rule (ds_rules d) = Inr lines"
    "document = canonical (VMap (dict_pop (dict_pop (raw_document controller d proxies lines) ''api-secret-ref'')
       ''api-secret-revision''))"
    "fingerprint = digest sha256 (fingerprint_value d identity document materials)"
    unfolding compose_mihomo_document_def proxies_def
    by (auto simp: bindS_Inr thenS_Inr build_desired_state_def Let_def split: if_splits)
  obtain es where es: "document = VMap es" using c(3) by (simp add: canonical_def)
  from b(1,3) c(1) obtain pnames gnames where
    "\<exists>seen. foldS (validate_listener mixed_port) ([], []) (ds_listener_specs d) = Inr seen"
    "validate_proxies proxies = Inr pnames" "validate_groups pnames (ds_proxy_groups d) = Inr gnames"
    "validate_rules (''BLOCK'' # pnames @ gnames) (ds_rules d) = Inr ()"
    "list_all (\<lambda>l. fl_proxy l \<in> set (''BLOCK'' # pnames @ gnames)) (ds_listener_specs d)"
    unfolding validate_sections_def by (auto simp: bindS_Inr thenS_Inr each_Inr require_Inr list_all_iff Let_def)
  moreover have "canonical (VMap (dict_pop (dict_pop (raw_document controller d proxies lines) ''api-secret-ref'')
       ''api-secret-revision'')) = VMap es" using c(3) es by simp
  moreover have "distinct_keys (snapshot_values d) \<longrightarrow> list_all distinct_keys proxies"
    using effective_proxies_distinct_keys [OF a] unfolding proxies_def by blast
  moreover have "\<exists>own egress. proxies = own @ egress \<and> mapS egress_proxy_mapping (ds_egress_proxies d) = Inr egress"
    using a(3) unfolding proxies_def by (metis append_assoc)
  ultimately show thesis using a(1) b(2) c(1,2,4) es by (intro that)
qed

lemma declared_names_document:
  assumes "validate_proxies proxies = Inr pnames" and "validate_groups pnames (ds_proxy_groups d) = Inr gnames"
    and "canonical (VMap (dict_pop (dict_pop (raw_document c d proxies lines) ''api-secret-ref'') ''api-secret-revision'')) = VMap es"
  shows "declared_names es = pnames @ gnames"
proof -
  have "List.map_filter item_name (map sort_keys vs) = List.map_filter item_name vs" for vs
    using item_name_canonical by (induction vs) (auto simp: map_filter_simps canonical_def split: option.splits)
  then show ?thesis
    using validate_proxies_names [OF assms(1)] validate_groups_names [OF assms(2)]
    unfolding declared_names_def vget_canonical [OF assms(3)]
    by (simp add: canonical_def map_filter_def)
qed

section \<open>Listeners\<close>

lemma validate_listener_Inr:
  "validate_listener mp seen l = Inr seen' \<Longrightarrow>
   strip (fl_name l) \<notin> set (fst seen) \<and> (strip (fl_listen l), fl_port l) \<notin> set (snd seen) \<and>
   1 \<le> fl_port l \<and> fl_port l \<le> 65535 \<and> (strip (fl_listen l), fl_port l) \<noteq> (''127.0.0.1'', mp) \<and>
   seen' = (strip (fl_name l) # fst seen, (strip (fl_listen l), fl_port l) # snd seen)"
  unfolding validate_listener_def Let_def bindS_Inr thenS_Inr require_Inr by auto

lemma listeners_distinct:
  "foldS (validate_listener mp) (ns, bs) ls = Inr seen \<Longrightarrow> distinct ns \<Longrightarrow> distinct bs \<Longrightarrow>
   distinct (map (\<lambda>l. strip (fl_name l)) (rev ls) @ ns) \<and>
   distinct (map (\<lambda>l. (strip (fl_listen l), fl_port l)) (rev ls) @ bs) \<and>
   list_all (\<lambda>l. 1 \<le> fl_port l \<and> fl_port l \<le> 65535 \<and> (strip (fl_listen l), fl_port l) \<noteq> (''127.0.0.1'', mp)) ls"
proof (induction ls arbitrary: ns bs)
  case (Cons l ls)
  then obtain seen' where s: "validate_listener mp (ns, bs) l = Inr seen'"
    and rest: "foldS (validate_listener mp) seen' ls = Inr seen" by (auto simp: bindS_Inr)
  note l = validate_listener_Inr [OF s]
  then have rest': "foldS (validate_listener mp)
      (strip (fl_name l) # ns, (strip (fl_listen l), fl_port l) # bs) ls = Inr seen"
    using rest by simp
  from Cons.IH [OF rest'] Cons.prems(2,3) l show ?case by auto
qed simp

section \<open>Distinct keys\<close>

lemma dict_get_merge: "distinct (dict_keys e) \<Longrightarrow>
   dict_get (dict_merge d e) k = (case dict_get e k of Some v \<Rightarrow> Some v | None \<Rightarrow> dict_get d k)"
  unfolding dict_merge_def
proof (induction e arbitrary: d)
  case (Cons p e)
  obtain k' v where p: "p = (k', v)" by (cases p)
  with Cons.prems have "dict_get e k' = None" by (simp add: map_of_eq_None_iff)
  with Cons p show ?case by (cases "k = k'") (auto simp: update_conv' split: option.splits)
qed simp

lemma distinct_dict_merge: "distinct (dict_keys d) \<Longrightarrow> distinct (dict_keys (dict_merge d e))"
  unfolding dict_merge_def by (induction e arbitrary: d) (auto simp: distinct_update)

lemma set_dict_merge: "set (dict_merge d e) \<subseteq> set d \<union> set e"
proof -
  have "set (dict_set d k v) \<subseteq> insert (k, v) (set d)" for d :: "'a dict" and k v by (induction d) auto
  then show ?thesis unfolding dict_merge_def by (induction e arbitrary: d) force+
qed

lemma mixed_port_of_document:
  assumes "validate_deployment_constants (ds_deployment_constants d) = Inr (mp, controller)"
    and "distinct (dict_keys (ds_deployment_constants d))"
    and "canonical (VMap (dict_pop (dict_pop (raw_document c d ps lines) ''api-secret-ref'') ''api-secret-revision'')) = VMap es"
  shows "vget es ''mixed-port'' = VInt mp"
proof -
  from assms(1) have "vget_default (ds_deployment_constants d) ''mixed-port'' (VInt 7890) = VInt mp"
    unfolding validate_deployment_constants_def bindS_Inr thenS_Inr valid_port_Inr by auto
  then have "vget (document_constants c (ds_deployment_constants d)) ''mixed-port'' = VInt mp"
    unfolding document_constants_def vget_def vget_default_def dict_get_merge [OF assms(2)]
    by (simp split: option.splits)
  then show ?thesis unfolding vget_canonical [OF assms(3)]
    by (simp add: canonical_def raw_document_def dict_merge_def)
qed

section \<open>Canonical documents\<close>

lemma sort_keys_idem: "sort_keys (sort_keys v) = sort_keys v"
proof (induction v)
  case (VMap d)
  let ?f = "\<lambda>(k, v). (k, sort_keys v)"
  have "map ?f (sort_key fst (map ?f d)) = sort_key fst (map ?f d)"
    by (rule map_idI) (use VMap in \<open>force simp: split_beta\<close>)
  then show ?case by (simp add: sort_key_id_if_sorted)
qed (simp_all add: comp_def cong: map_cong)

lemma distinct_keys_sort: "distinct_keys v \<Longrightarrow> distinct_keys (sort_keys v)"
proof (induction v)
  case (VMap d)
  let ?d = "map (\<lambda>(k, v). (k, sort_keys v)) d"
  have keys: "map fst ?d = map fst d" by (induction d) auto
  have "distinct (map fst ?d)" unfolding keys using VMap.prems by simp
  then have "distinct (map fst (sort_key fst ?d))"
    by (simp only: distinct_keys_sorted_items [unfolded sorted_items_def])
  moreover have "list_all (\<lambda>(k, v). distinct_keys v) (sort_key fst ?d)"
    using VMap by (force simp: list_all_iff)
  ultimately show ?case by (simp only: sort_keys.simps distinct_keys.simps)
qed (auto simp: list_all_iff)

lemma json_dumps_inj:
  assumes "json_dumps v = json_dumps w" and "distinct_keys v" and "distinct_keys w"
  shows "sort_keys v = sort_keys w"
proof -
  from assms(1) have "json_text (sort_keys v) = json_text (sort_keys w)" by (simp only: json_dumps_def)
  then have "json_loads (json_text (sort_keys v)) = json_loads (json_text (sort_keys w))" by (rule arg_cong)
  then show ?thesis
    by (simp only: json_loads_text [OF distinct_keys_sort [OF assms(2)]]
      json_loads_text [OF distinct_keys_sort [OF assms(3)]] option.inject)
qed

lemma merged_distinct_keys:
  assumes "distinct_keys (VMap d)" and "distinct_keys (VMap e)"
  shows "distinct_keys (VMap (dict_merge d e))"
  using assms distinct_dict_merge [of d e] set_dict_merge [of d e] by (auto simp: list_all_iff)

lemma popped_distinct_keys: "distinct_keys (VMap d) \<Longrightarrow> distinct_keys (VMap (dict_pop d k))"
  by (auto simp: dict_pop_def list_all_iff distinct_map_filter)

lemma document_distinct_keys:
  assumes "canonical (VMap (dict_pop (dict_pop (raw_document controller d proxies lines) ''api-secret-ref'')
       ''api-secret-revision'')) = VMap es"
    and "distinct_keys (snapshot_values d)" and "list_all distinct_keys proxies"
  shows "distinct_keys (VMap es)"
proof -
  have "distinct_keys (VMap (document_constants controller (ds_deployment_constants d)))"
    unfolding document_constants_def
    by (rule merged_distinct_keys) (use assms(2) in \<open>simp_all add: snapshot_values_def\<close>)
  then have "distinct_keys (VMap (raw_document controller d proxies lines))"
    unfolding raw_document_def
    by (rule merged_distinct_keys)
      (use assms(2,3) in \<open>auto simp: snapshot_values_def list_all_iff listener_entry_def\<close>)
  then have "distinct_keys (sort_keys (VMap (dict_pop (dict_pop (raw_document controller d proxies lines)
       ''api-secret-ref'') ''api-secret-revision'')))"
    by (intro distinct_keys_sort popped_distinct_keys)
  then show ?thesis using assms(1) by (simp only: canonical_def)
qed

lemma fingerprint_distinct_keys:
  "distinct_keys document \<Longrightarrow> distinct_keys (fingerprint_value d identity document materials)"
  by (simp add: fingerprint_value_def transport_proof_def list_all_iff)

lemma canonical_field:
  assumes "canonical (VMap a) = canonical (VMap b)"
  shows "canonical (vget a k) = canonical (vget b k)"
proof -
  obtain es where e: "canonical (VMap a) = VMap es" by (simp add: canonical_def)
  with assms have "canonical (VMap b) = VMap es" by simp
  then show ?thesis using vget_canonical [OF e, of k] vget_canonical [of b es k] by simp
qed

lemma transport_proof_inj:
  assumes "sort_keys (transport_proof m) = sort_keys (transport_proof m')"
  shows "transport_proof m = transport_proof m'"
proof -
  note field = canonical_field [OF assms [folded canonical_def, unfolded transport_proof_def]]
  show ?thesis
    using field [of "''owner_record_id''"] field [of "''provider_code''"] field [of "''source_revision''"]
      field [of "''cache_identity''"] field [of "''content_hash''"] field [of "''freshness_deadline''"]
    by (simp add: canonical_def transport_proof_def)
qed

lemma transport_proofs_inj:
  "map sort_keys (map transport_proof ms) = map sort_keys (map transport_proof ms') \<Longrightarrow>
   map transport_proof ms = map transport_proof ms'"
proof (induction ms arbitrary: ms')
  case (Cons m ms)
  from Cons.prems obtain m' rest where m': "ms' = m' # rest" by (cases ms') simp_all
  from Cons.prems have "sort_keys (transport_proof m) = sort_keys (transport_proof m')"
    "map sort_keys (map transport_proof ms) = map sort_keys (map transport_proof rest)"
    unfolding m' by (simp_all only: list.map list.inject)
  with Cons.IH transport_proof_inj show ?case unfolding m' list.map list.inject by blast
qed simp

lemma fingerprint_value_inj:
  assumes "canonical (fingerprint_value d i doc ms) = canonical (fingerprint_value d' i' doc' ms')"
    and "sort_keys doc = doc" and "sort_keys doc' = doc'"
  shows "doc = doc' \<and> ds_snapshot_revision d = ds_snapshot_revision d' \<and>
    ds_snapshot_identity d = ds_snapshot_identity d' \<and> i = i' \<and> map transport_proof ms = map transport_proof ms'"
proof -
  note field = canonical_field [OF assms(1) [unfolded fingerprint_value_def]]
  show ?thesis
    using field [of "''snapshot_revision''"] field [of "''snapshot_identity''"]
      field [of "''controller_secret_ref''"] field [of "''controller_secret_revision''"]
      field [of "''document''"] field [of "''transport_proofs''"] transport_proofs_inj [of ms ms'] assms(2,3)
    by (simp add: canonical_def prod_eq_iff)
qed

lemma accepted_fingerprint:
  assumes "compose_mihomo_document sha256 now d = Inr (document, fingerprint)"
    and "distinct_keys (snapshot_values d)"
  obtains materials identity where
    "controller_identity (ds_deployment_constants d) = Inr identity"
    "ds_transport_materializations d = map Some materials"
    "fingerprint = digest sha256 (fingerprint_value d identity document materials)"
    "sort_keys document = document" "distinct_keys document"
  using assms(1)
proof (rule compose_accepted)
  fix materials proxies identity controller lines es
  assume m: "validate_transports sha256 now d = Inr materials"
    and i: "controller_identity (ds_deployment_constants d) = Inr identity" and doc: "document = VMap es"
    and es: "canonical (VMap (dict_pop (dict_pop (raw_document controller d proxies lines) ''api-secret-ref'')
       ''api-secret-revision'')) = VMap es"
    and f: "fingerprint = digest sha256 (fingerprint_value d identity document materials)"
    and p: "distinct_keys (snapshot_values d) \<longrightarrow> list_all distinct_keys proxies"
  show thesis
    by (rule that [OF i validated_materials [OF m] f])
      (use doc es document_distinct_keys [OF es assms(2) p [rule_format, OF assms(2)]] in
        \<open>simp_all only: canonical_def sort_keys_idem flip: es\<close>)
qed

lemma secret_reference_not_serialized:
  assumes "compose_mihomo_document sha256 now d = Inr (VMap es, fingerprint)"
  shows "dict_get es ''api-secret-ref'' = None \<and> dict_get es ''api-secret-revision'' = None"
  using assms
proof (rule compose_accepted)
  fix controller proxies lines es'
  assume "VMap es = VMap es'"
    and "canonical (VMap (dict_pop (dict_pop (raw_document controller d proxies lines) ''api-secret-ref'')
       ''api-secret-revision'')) = VMap es'"
  then have "dict_get es k = map_option sort_keys (dict_get (dict_pop (dict_pop
       (raw_document controller d proxies lines) ''api-secret-ref'') ''api-secret-revision'') k)" for k
    by (auto simp: canonical_def map_of_sort map_of_map)
  moreover have "dict_get (dict_pop e k) k = None" for e :: "pyval dict" and k
    by (auto simp: dict_pop_def map_of_eq_None_iff)
  moreover have "dict_get e k = None \<Longrightarrow> dict_get (dict_pop e k') k = None" for e :: "pyval dict" and k k'
    by (auto simp: dict_pop_def map_of_eq_None_iff)
  ultimately show ?thesis by simp
qed

section \<open>A snapshot\<close>

text \<open>
  A snapshot the witnesses compose: one transport, one endpoint behind it, a group, two rules
  and the fallback. The hash of the witnesses is the identity.
\<close>

definition sample_content :: "pyval dict" where
  "sample_content = [(''proxies'', VList [VMap [(''name'', VStr ''node-1''), (''type'', VStr ''trojan''),
     (''server'', VStr ''n1.example''), (''port'', VInt 443)]])]"

definition sample_snapshot :: mihomo_desired_state where
  "sample_snapshot = \<lparr>ds_listeners = [],
     ds_listener_specs = [\<lparr>fl_name = ''listener-us'', fl_type = ''mixed'', fl_listen = ''127.0.0.1'', fl_port = 10001,
        fl_proxy = ''us''\<rparr>, \<lparr>fl_name = ''closed'', fl_type = ''socks'', fl_listen = ''127.0.0.1'', fl_port = 10002,
        fl_proxy = ''BLOCK''\<rparr>],
     ds_proxies = [],
     ds_egress_proxies = [\<lparr>fe_name = ''us'', fe_protocol = ''socks'', fe_host = ''198.51.100.7'', fe_port = 1080,
        fe_credential_secret_ref = ''ref'', fe_credential_revision = 1,
        fe_transport_proxy_name = Some ''node-1'', fe_transport_node_identity = None\<rparr>],
     ds_proxy_groups = [VMap [(''name'', VStr ''main''), (''type'', VStr ''select''), (''proxies'', VList [VStr ''us''])]],
     ds_rules = [VMap [(''match'', VStr ''domain-suffix''), (''value'', VStr '' Example.com''), (''target'', VStr ''main'')],
       VMap [(''match'', VStr ''IP-CIDR''), (''value'', VStr ''10.1.2.3/8''), (''target'', VStr ''us'')],
       VMap [(''match'', VStr ''MATCH''), (''target'', VStr ''BLOCK'')]],
     ds_dns = [(''enable'', VBool True), (''ipv6'', VBool False)],
     ds_policy = [],
     ds_transport_materializations = [Some \<lparr>tm_owner_record_id = 3, tm_provider_code = ''sub'', tm_source_revision = 2,
       tm_cache_identity = ''cache'', tm_content_hash = json_dumps (VMap sample_content), tm_freshness_deadline = 10,
       tm_content = sample_content, tm_implementation = ''subscription''\<rparr>],
     ds_transport_references = [Some \<lparr>tr_owner_record_id = 3, tr_provider_code = ''sub'', tr_source_revision = 2,
       tr_cache_identity = ''cache'', tr_implementation = ''subscription''\<rparr>],
     ds_deployment_constants = [(''external-controller'', VStr ''10.0.0.2:90''),
       (''api-secret-ref'', VStr ''controller-ref''), (''api-secret-revision'', VInt 4)],
     ds_snapshot_revision = 5, ds_snapshot_identity = ''snapshot''\<rparr>"

lemma sample_accepted: "\<exists>es fp. compose_mihomo_document (\<lambda>s. s) (\<lambda>_. 0) sample_snapshot = Inr (VMap es, fp)"
proof -
  have "\<not> isl (compose_mihomo_document (\<lambda>s. s) (\<lambda>_. 0) sample_snapshot)" by code_simp
  then obtain document fp where c: "compose_mihomo_document (\<lambda>s. s) (\<lambda>_. 0) sample_snapshot = Inr (document, fp)"
    by (metis isl_def obj_sumE surj_pair)
  then obtain es where "document = VMap es" using compose_accepted [OF c] by metis
  with c show ?thesis by blast
qed

section \<open>Properties\<close>

text \<open>
  C10. An accepted document is fail-closed: its last rule rejects whatever no other rule matched,
  and every other rule line parses into exactly a supported kind, a value and a target, the
  target being \<open>REJECT\<close> or a proxy or group of the document; none of those is named after a
  built-in such as \<open>DIRECT\<close>. The reference of the controller's secret and its revision are
  not in the document.
\<close>

theorem accepted_document_fails_closed:
  assumes "compose_mihomo_document sha256 now d = Inr (document, fingerprint)"
  shows "\<exists>es others. document = VMap es \<and>
    vget es ''rules'' = VList (map VStr (others @ [''MATCH,REJECT''])) \<and>
    list_all (rule_line_ok (declared_names es)) others \<and>
    distinct (declared_names es) \<and> list_all (\<lambda>n. \<not> reserved_identity n) (declared_names es) \<and>
    dict_get es ''api-secret-ref'' = None \<and> dict_get es ''api-secret-revision'' = None"
  using assms
proof (rule compose_accepted)
  fix materials proxies pnames gnames identity mixed_port controller lines es
  assume p: "validate_proxies proxies = Inr pnames" and g: "validate_groups pnames (ds_proxy_groups d) = Inr gnames"
    and r: "validate_rules (''BLOCK'' # pnames @ gnames) (ds_rules d) = Inr ()"
    and l: "mapS serialize_rule (ds_rules d) = Inr lines" and doc: "document = VMap es"
    and es: "canonical (VMap (dict_pop (dict_pop (raw_document controller d proxies lines) ''api-secret-ref'')
       ''api-secret-revision'')) = VMap es"
  obtain others where o: "lines = others @ [''MATCH,REJECT'']" "list_all (rule_line_ok (pnames @ gnames)) others"
    using rules_fail_closed [OF r l] .
  have "vget es ''rules'' = VList (map VStr lines)"
    unfolding vget_canonical [OF es] by (simp add: canonical_def comp_def)
  moreover note secret_reference_not_serialized [OF assms [unfolded doc]]
  ultimately show ?thesis
    using o doc declared_names_document [OF p g es] validate_proxies_names [OF p] validate_groups_names [OF g]
    by auto
qed

lemma accepted_document_fails_closed_witness:
  "\<exists>es others fp. compose_mihomo_document (\<lambda>s. s) (\<lambda>_. 0) sample_snapshot = Inr (VMap es, fp) \<and>
    vget es ''rules'' = VList (map VStr (others @ [''MATCH,REJECT''])) \<and>
    list_all (rule_line_ok (declared_names es)) others"
proof -
  obtain es fp where "compose_mihomo_document (\<lambda>s. s) (\<lambda>_. 0) sample_snapshot = Inr (VMap es, fp)"
    using sample_accepted by blast
  with accepted_document_fails_closed [OF this] show ?thesis by auto
qed

text \<open>
  The listeners of an accepted document are the requested ones, their names and bindings are
  pairwise different, none takes the mixed port of the forwarder, and each leads to \<open>REJECT\<close> or
  to a proxy or group of the document.
\<close>

theorem accepted_listeners_sound:
  assumes "compose_mihomo_document sha256 now d = Inr (VMap es, fingerprint)"
    and "distinct (dict_keys (ds_deployment_constants d))"
  shows "vget es ''listeners'' = VList (map (canonical \<circ> listener_entry) (ds_listener_specs d)) \<and>
    distinct (map (\<lambda>l. strip (fl_name l)) (ds_listener_specs d)) \<and>
    distinct (map (\<lambda>l. (strip (fl_listen l), fl_port l)) (ds_listener_specs d)) \<and>
    list_all (\<lambda>l. 1 \<le> fl_port l \<and> fl_port l \<le> 65535 \<and>
        (strip (fl_listen l) = ''127.0.0.1'' \<longrightarrow> vget es ''mixed-port'' \<noteq> VInt (fl_port l)) \<and>
        runtime_target (fl_proxy l) \<in> set (''REJECT'' # declared_names es)) (ds_listener_specs d)"
  using assms(1)
proof (rule compose_accepted)
  fix materials proxies pnames gnames identity mixed_port controller lines es'
  assume p: "validate_proxies proxies = Inr pnames" and g: "validate_groups pnames (ds_proxy_groups d) = Inr gnames"
    and c: "validate_deployment_constants (ds_deployment_constants d) = Inr (mixed_port, controller)"
    and l: "\<exists>seen. foldS (validate_listener mixed_port) ([], []) (ds_listener_specs d) = Inr seen"
    and t: "list_all (\<lambda>l. fl_proxy l \<in> set (''BLOCK'' # pnames @ gnames)) (ds_listener_specs d)"
    and doc: "VMap es = VMap es'"
    and "canonical (VMap (dict_pop (dict_pop (raw_document controller d proxies lines) ''api-secret-ref'')
       ''api-secret-revision'')) = VMap es'"
  then have es: "canonical (VMap (dict_pop (dict_pop (raw_document controller d proxies lines) ''api-secret-ref'')
       ''api-secret-revision'')) = VMap es" by simp
  from l obtain seen where l': "foldS (validate_listener mixed_port) ([], []) (ds_listener_specs d) = Inr seen" ..
  have "vget es ''listeners'' = VList (map (canonical \<circ> listener_entry) (ds_listener_specs d))"
    unfolding vget_canonical [OF es] by (simp add: canonical_def comp_def)
  moreover note listeners_distinct [OF l']
  moreover from t have "list_all (\<lambda>l. runtime_target (fl_proxy l) \<in> set (''REJECT'' # declared_names es)) (ds_listener_specs d)"
    unfolding declared_names_document [OF p g es] by (auto simp: list_all_iff runtime_target_def)
  ultimately show ?thesis
    unfolding mixed_port_of_document [OF c assms(2) es] by (auto simp: list_all_iff distinct_map)
qed

lemma accepted_listeners_sound_witness:
  "\<exists>es fp. compose_mihomo_document (\<lambda>s. s) (\<lambda>_. 0) sample_snapshot = Inr (VMap es, fp) \<and>
    list_all (\<lambda>l. runtime_target (fl_proxy l) \<in> set (''REJECT'' # declared_names es)) (ds_listener_specs sample_snapshot)"
proof -
  obtain es fp where c: "compose_mihomo_document (\<lambda>s. s) (\<lambda>_. 0) sample_snapshot = Inr (VMap es, fp)"
    using sample_accepted by blast
  have "distinct (dict_keys (ds_deployment_constants sample_snapshot))" by code_simp
  from accepted_listeners_sound [OF c this] c show ?thesis by (auto simp: list_all_iff)
qed



end
