(* ===== verification/Mihomo_Provider_Properties.thy ===== *)
theory Mihomo_Provider_Properties
  imports Mihomo_Provider Mihomo_Projection_Properties
begin

text \<open>
  The guarantees of the forwarder provider: what a host looks like after \<open>apply\<close>, whatever
  fails, and that a rendered template can be finalised with current secrets and then passes the
  checks of \<open>apply\<close>.
\<close>

section \<open>Activation\<close>

lemma wp_tickM [wp]: "wpE tickM Q E = (\<lambda>h. Q (mh_tick h) (h\<lparr>mh_tick := Suc (mh_tick h)\<rparr>))"
  by (rule ext) (simp add: wpE_def tickM_def)

lemma wp_failM [wp]: "wpE (failM r) Q E = (\<lambda>h. case r of None \<Rightarrow> Q () h | Some e \<Rightarrow> E e h)"
  by (cases r) (simp_all add: failM_def wp)

lemma wp_case_http [wp]:
  "wpE (case r of HttpStatus s \<Rightarrow> f s | HttpOSError \<Rightarrow> m | HttpRaises e \<Rightarrow> g e) Q E =
   (\<lambda>h. case r of HttpStatus s \<Rightarrow> wpE (f s) Q E h | HttpOSError \<Rightarrow> wpE m Q E h | HttpRaises e \<Rightarrow> wpE (g e) Q E h)"
  by (cases r) simp_all

lemmas mihomo_ops = mh_backup_def mh_install_def mh_reload_def mh_restore_def mh_health_def

text \<open>A host is untouched when at most the count of external calls moved.\<close>

definition same_runtime :: "mihomo_host \<Rightarrow> mihomo_host \<Rightarrow> bool" where
  "same_runtime h h' \<longleftrightarrow> mh_file h' = mh_file h \<and> mh_running h' = mh_running h"

text \<open>How \<open>apply\<close> may end with an exception, given the file before it.\<close>

definition apply_failed :: "mihomo_host \<Rightarrow> exn \<Rightarrow> mihomo_host \<Rightarrow> bool" where
  "apply_failed h e h' \<longleftrightarrow>
     (e = rollback_verified_error \<and> mh_file h' = mh_file h \<and> mh_running h' = mh_file h) \<or>
     e = rollback_unknown_error \<or>
     same_runtime h h'"

lemma reload_health_spec:
  "wpE (thenE (mh_reload X) (mh_health X)) (\<lambda>_ h'. mh_file h' = mh_file h \<and> mh_running h' = mh_file h) (\<lambda>_ _. True) h"
  by (simp add: wp mihomo_ops Let_def split: prod.splits http_outcome.splits)

lemma mh_install_spec:
  "wpE (thenE (mh_install X doc) (thenE (mh_reload X) (mh_health X)))
     (\<lambda>_ h'. mh_file h' = Some doc \<and> mh_running h' = Some doc) (\<lambda>_ _. True) h"
proof -
  have "wpE (mh_install X doc) (\<lambda>_ h'. mh_file h' = Some doc) (\<lambda>_ _. True) h"
    by (simp add: wp mh_install_def split: option.splits)
  then show ?thesis unfolding wp_then
    by (rule wp_mono) (auto intro: wp_mono [OF reload_health_spec, unfolded wp_then])
qed

lemma rollback_mihomo_spec:
  "wpE (rollback_mihomo X backup) (\<lambda>_ _. False)
     (\<lambda>e h'. (e = rollback_verified_error \<and> mh_file h' = backup \<and> mh_running h' = backup) \<or> e = rollback_unknown_error) h"
proof -
  have restore: "wpE (mh_restore X backup) (\<lambda>_ h'. mh_file h' = backup) (\<lambda>_ _. True) h"
    by (simp add: wp mh_restore_def split: option.splits prod.splits)
  have "wpE (thenE (mh_restore X backup) (thenE (mh_reload X) (mh_health X)))
      (\<lambda>_ h'. mh_file h' = backup \<and> mh_running h' = backup) (\<lambda>_ _. True) h"
    unfolding wp_then [of "mh_restore X backup"]
    by (rule wp_mono [OF restore]) (auto intro: wp_mono [OF reload_health_spec])
  then show ?thesis unfolding rollback_mihomo_def wp_bind wp_try
    by (rule wp_mono) (auto simp: wp)
qed

lemma backup_spec: "wpE (mh_backup X) (\<lambda>b h'. b = mh_file h \<and> same_runtime h h') (\<lambda>_. same_runtime h) h"
  by (simp add: wp mh_backup_def same_runtime_def split: option.splits)

lemma secret_matches_spec:
  "wpE (controller_secret_matches X s) (\<lambda>b h'. b = (mo_api_secret X = s) \<and> h' = h) (\<lambda>_ h'. h' = h) h"
  by (simp add: wp controller_secret_matches_def)

text \<open>The part of \<open>apply\<close> after the backup was taken.\<close>

lemma activation_spec:
  assumes "mh_file h = backup"
  shows "wpE (bindE (tryE (thenE (mh_install X doc) (thenE (mh_reload X) (mh_health X)))
              (\<lambda>_. rollback_mihomo X backup)) (\<lambda>report.
     if \<not> hr_healthy report then rollback_mihomo X backup
     else retE \<lparr>ar_applied = True, ar_version = v, ar_rolled_back = False\<rparr>))
     (\<lambda>r h'. r = \<lparr>ar_applied = True, ar_version = v, ar_rolled_back = False\<rparr> \<and> mh_file h' = Some doc \<and> mh_running h' = Some doc)
     (apply_failed h) h"
proof -
  have rollback: "wpE (rollback_mihomo X backup) Q (apply_failed h) h1" for Q h1
    by (rule wp_mono [OF rollback_mihomo_spec]) (auto simp: apply_failed_def assms)
  show ?thesis unfolding wp_bind wp_try
    by (rule wp_mono [OF mh_install_spec]) (auto simp: wp rollback)
qed


section \<open>Finalisation\<close>

text \<open>What finalisation makes of one proxy: the first requirement with its name fills it in.\<close>

definition credential_for ::
  "(nat \<Rightarrow> string \<Rightarrow> exn + egress_credential_snapshot) \<Rightarrow> (nat \<times> egress_credential_requirement) list \<Rightarrow>
   pyval dict \<Rightarrow> pyval dict" where
  "credential_for resolve reqs d = (case find (\<lambda>(_, r). is_named (cq_proxy_name r) d) reqs of
     None \<Rightarrow> d
   | Some (i, r) \<Rightarrow> (case resolve i (cq_secret_ref r) of Inl _ \<Rightarrow> d | Inr snap \<Rightarrow> with_credential (es_credential snap) d))"

text \<open>The resolver's answer to a requirement is the snapshot it asks for.\<close>

definition current_credential ::
  "(nat \<Rightarrow> string \<Rightarrow> exn + egress_credential_snapshot) \<Rightarrow> nat \<times> egress_credential_requirement \<Rightarrow> bool" where
  "current_credential resolve q = (case q of (i, r) \<Rightarrow> (case resolve i (cq_secret_ref r) of
     Inl _ \<Rightarrow> False
   | Inr snap \<Rightarrow> es_secret_ref snap = cq_secret_ref r \<and> es_revision snap = cq_revision r))"

lemma is_named_with_credential [simp]: "is_named n (with_credential c d) = is_named n d"
  by (simp add: is_named_def with_credential_def)

lemma is_named_unique: "is_named n d \<Longrightarrow> is_named m d \<longleftrightarrow> m = n"
  by (auto simp: is_named_def)

lemma finalize_proxies:
  assumes "list_all (current_credential resolve) reqs"
    and "distinct (map (cq_proxy_name \<circ> snd) reqs)"
    and "list_all (\<lambda>(_, r). length (filter (is_named (cq_proxy_name r)) ps) = 1) reqs"
  shows "foldS (finalize_proxy resolve) ps reqs = Inr (map (credential_for resolve reqs) ps)"
  using assms
proof (induction reqs arbitrary: ps)
  case Nil
  then show ?case by (simp add: credential_for_def map_idI)
next
  case (Cons q reqs)
  obtain i r where q: "q = (i, r)" by (cases q)
  from Cons.prems(1) q obtain snap where snap: "resolve i (cq_secret_ref r) = Inr snap"
    "es_secret_ref snap = cq_secret_ref r" "es_revision snap = cq_revision r"
    by (auto simp: current_credential_def split: sum.splits)
  let ?g = "\<lambda>d. if is_named (cq_proxy_name r) d then with_credential (es_credential snap) d else d"
  have step: "finalize_proxy resolve ps q = Inr (map ?g ps)"
    using Cons.prems(3) q snap by (simp add: finalize_proxy_def)
  have "filter (is_named n) (map ?g ps) = map ?g (filter (is_named n) ps)" for n
    by (induction ps) auto
  then have "list_all (\<lambda>(_, r). length (filter (is_named (cq_proxy_name r)) (map ?g ps)) = 1) reqs"
    using Cons.prems(3) by (auto simp: list_all_iff)
  with Cons have rest: "foldS (finalize_proxy resolve) (map ?g ps) reqs = Inr (map (credential_for resolve reqs) (map ?g ps))"
    by auto
  have "credential_for resolve reqs (?g d) = credential_for resolve (q # reqs) d" for d
  proof (cases "is_named (cq_proxy_name r) d")
    case True
    have "find (\<lambda>(_, r'). is_named (cq_proxy_name r') (?g d)) reqs = None"
      using Cons.prems(2) q is_named_unique [OF True] True
      by (force simp: find_None_iff)
    with True q snap(1) show ?thesis by (simp add: credential_for_def)
  qed (simp add: credential_for_def q)
  with step rest show ?case by simp
qed

subsection \<open>A rendered template\<close>

lemma egress_mapping_name: "egress_proxy_mapping p = Inr e \<Longrightarrow> item_name e = Some (fe_name p)"
  by (auto simp: egress_proxy_mapping_def thenS_Inr)

lemma egress_names:
  assumes "mapS egress_proxy_mapping eps = Inr egress"
  shows "List.map_filter item_name egress = map fe_name eps"
  using assms
proof (induction eps arbitrary: egress)
  case (Cons p eps)
  then obtain e es where "egress = e # es" "egress_proxy_mapping p = Inr e" "mapS egress_proxy_mapping eps = Inr es"
    by (auto simp: bindS_Inr)
  with Cons.IH egress_mapping_name show ?case by (simp add: map_filter_simps)
qed (simp add: map_filter_simps)

text \<open>The proxies of the document as dictionaries, with the names they were accepted under.\<close>

lemma proxy_dicts:
  assumes "validate_proxies proxies = Inr ns"
  obtains ps where "map canonical proxies = map VMap ps" "map (\<lambda>p. vget p ''name'') ps = map VStr ns"
proof -
  have "\<exists>ps. map canonical vs = map VMap ps \<and> map (\<lambda>p. vget p ''name'') ps = map VStr ns"
    if "mapS (\<lambda>p. identity_name p code) vs = Inr ns" for vs ns code
    using that
  proof (induction vs arbitrary: ns)
    case (Cons v vs)
    then obtain n ms where n: "ns = n # ms" "identity_name v code = Inr n" "mapS (\<lambda>p. identity_name p code) vs = Inr ms"
      by (auto simp: bindS_Inr)
    from Cons.IH n(3) obtain ps where ps: "map canonical vs = map VMap ps" "map (\<lambda>p. vget p ''name'') ps = map VStr ms"
      by blast
    from identity_name_item [OF n(2)] have "item_name (canonical v) = Some n" by simp
    then obtain p where "canonical v = VMap p" "vget p ''name'' = VStr n"
      by (cases "canonical v") (auto split: pyval.splits)
    with ps n(1) have "map canonical (v # vs) = map VMap (p # ps) \<and> map (\<lambda>p. vget p ''name'') (p # ps) = map VStr ns"
      by simp
    then show ?case by blast
  qed simp
  with assms that show thesis unfolding validate_proxies_def bindS_Inr thenS_Inr by blast
qed

lemma named_once:
  assumes "map (\<lambda>p. vget p ''name'') ps = map VStr ns" and "distinct ns" and "n \<in> set ns"
  shows "length (filter (is_named n) ps) = 1"
proof -
  have "length (filter (is_named n) ps) = length (filter (\<lambda>v. v = VStr n) (map (\<lambda>p. vget p ''name'') ps))"
    by (simp add: filter_map comp_def is_named_def [abs_def])
  also have "\<dots> = length (filter (\<lambda>m. m = n) ns)"
    unfolding assms(1) by (simp add: filter_map comp_def)
  also have "filter (\<lambda>m. m = n) ns = [n]" using assms(2,3) by (induction ns) (auto simp: filter_empty_conv)
  finally show ?thesis by simp
qed

lemma internal_keys_absent:
  assumes "validate_deployment_constants (ds_deployment_constants d) = Inr (mp, controller)"
    and "distinct (dict_keys (ds_deployment_constants d))"
    and "canonical (VMap (dict_pop (dict_pop (raw_document c d ps lines) ''api-secret-ref'') ''api-secret-revision'')) = VMap es"
  shows "dict_get es ''secret-ref'' = None"
proof -
  from assms(1) have "''secret-ref'' \<notin> set (dict_keys (ds_deployment_constants d))"
    unfolding validate_deployment_constants_def bindS_Inr thenS_Inr require_Inr
    by (auto simp: list_all_iff deployment_keys_def)
  then have "dict_get (ds_deployment_constants d) ''secret-ref'' = None" by (simp add: map_of_eq_None_iff)
  then have "dict_get (raw_document c d ps lines) ''secret-ref'' = None"
    unfolding raw_document_def document_constants_def
    by (simp add: dict_get_merge [OF assms(2)] dict_get_merge)
  then have "''secret-ref'' \<notin> set (dict_keys (dict_pop (dict_pop (raw_document c d ps lines) ''api-secret-ref'') ''api-secret-revision''))"
    by (auto simp: map_of_eq_None_iff dict_pop_def)
  then have "dict_get (dict_pop (dict_pop (raw_document c d ps lines) ''api-secret-ref'') ''api-secret-revision'') ''secret-ref'' = None"
    by (simp only: map_of_eq_None_iff set_map not_False_eq_True)
  with assms(3) show ?thesis by (auto simp: canonical_def map_of_sort map_of_map)
qed

text \<open>
  C25. A template rendered from a snapshot can be finalised whenever the secrets are current: when
  the resolvers return the controller's secret and every proxy's credential under the reference
  and revision the template asks for, finalisation succeeds, fills in exactly the named proxies,
  keeps the rules, and the candidate passes the checks of \<open>apply\<close>. PyYAML is assumed to read
  back what it wrote.
\<close>

theorem rendered_template_finalizes:
  assumes "render_mihomo X sha256 now d = Inr t"
    and "\<forall>v. distinct_keys v \<longrightarrow> yo_load X (yo_dump X v) = Some v"
    and "distinct_keys (snapshot_values d)"
    and "resolve_controller (pt_controller_secret_ref t) = Inr controller"
    and "cs_ref controller = pt_controller_secret_ref t" and "cs_revision controller = pt_controller_secret_revision t"
    and "nonblank (cs_value controller)"
    and "list_all (current_credential resolve) (enumerate 0 (pt_egress_credentials t))"
  shows "\<exists>c ps. finalize_mihomo resolve_controller resolve (Some t) = Inr c \<and>
    check_candidate (Some c) = Inr (cs_value controller, c) \<and>
    map cq_proxy_name (pt_egress_credentials t) = map fe_name (ds_egress_proxies d) \<and>
    vget (pt_content t) ''proxies'' = VList (map VMap ps) \<and>
    vget (mc_content c) ''proxies'' =
      VList (map (VMap \<circ> credential_for resolve (enumerate 0 (pt_egress_credentials t))) ps) \<and>
    vget (mc_content c) ''rules'' = vget (pt_content t) ''rules''"
proof -
  from assms(1) obtain document version where compose: "compose_mihomo_document sha256 now d = Inr (document, version)"
    unfolding render_mihomo_def by (auto simp: bindS_Inr)
  show ?thesis using compose
  proof (rule compose_accepted)
    fix proxies pnames gnames identity mixed_port controller' lines es
    assume p: "validate_proxies proxies = Inr pnames"
      and dc: "validate_deployment_constants (ds_deployment_constants d) = Inr (mixed_port, controller')"
      and doc: "document = VMap es"
      and es: "canonical (VMap (dict_pop (dict_pop (raw_document controller' d proxies lines) ''api-secret-ref'')
       ''api-secret-revision'')) = VMap es"
      and dk: "distinct_keys (snapshot_values d) \<longrightarrow> list_all distinct_keys proxies"
      and eg: "\<exists>own egress. proxies = own @ egress \<and> mapS egress_proxy_mapping (ds_egress_proxies d) = Inr egress"
    have "yo_load X (yo_dump X document) = Some document"
      using assms(2,3) dk document_distinct_keys [OF es] doc by blast
    with assms(1) compose doc have t: "pt_content t = es"
      "pt_egress_credentials t = map (\<lambda>p. \<lparr>cq_proxy_name = fe_name p,
         cq_secret_ref = fe_credential_secret_ref p, cq_revision = fe_credential_revision p\<rparr>) (ds_egress_proxies d)"
      unfolding render_mihomo_def by (auto simp: as_mapping_def split: pyval.splits if_splits)
    let ?reqs = "enumerate 0 (pt_egress_credentials t)"
    obtain ps where ps: "map canonical proxies = map VMap ps" "map (\<lambda>p. vget p ''name'') ps = map VStr pnames"
      using proxy_dicts [OF p] .
    have raw: "vget es ''proxies'' = VList (map VMap ps)"
      unfolding vget_canonical [OF es] using ps(1) by (simp add: canonical_def [abs_def])
    have names: "distinct pnames" "set (map fe_name (ds_egress_proxies d)) \<subseteq> set pnames"
      "distinct (map fe_name (ds_egress_proxies d))"
      using validate_proxies_names [OF p] eg by (auto simp: map_filter_def dest!: egress_names)
    have "map (cq_proxy_name \<circ> snd) ?reqs = map fe_name (ds_egress_proxies d)"
      unfolding map_map [symmetric] map_snd_enumerate t(2) by (simp add: comp_def)
    moreover have "length (filter (is_named (cq_proxy_name r)) ps) = 1" if "(i, r) \<in> set ?reqs" for i r
    proof -
      from imageI [OF that, of snd] have "r \<in> set (map snd ?reqs)" unfolding set_map by simp
      then have "cq_proxy_name r \<in> set pnames" using names(2) t(2) by (auto simp: map_snd_enumerate)
      then show ?thesis by (rule named_once [OF ps(2) names(1)])
    qed
    ultimately have fin: "foldS (finalize_proxy resolve) ps ?reqs = Inr (map (credential_for resolve ?reqs) ps)"
      using assms(8) names(3) by (intro finalize_proxies) (auto simp: list_all_iff)
    have mappings: "mapS (\<lambda>p. as_mapping p unresolved_error) (map VMap ps) = Inr ps"
      by (induction ps) (simp_all add: as_mapping_def)
    let ?content = "dict_set (dict_set es ''secret'' (VStr (cs_value controller))) ''proxies''
        (VList (map VMap (map (credential_for resolve ?reqs) ps)))"
    let ?c = "\<lparr>mc_content = ?content, mc_version = pt_version t,
        mc_controller_secret_ref = pt_controller_secret_ref t,
        mc_controller_secret_revision = pt_controller_secret_revision t, mc_finalized = True\<rparr>"
    have "finalize_mihomo resolve_controller resolve (Some t) = Inr ?c"
      using assms(4-7) fin mappings raw by (simp add: finalize_mihomo_def t(1))
    moreover have "check_candidate (Some ?c) = Inr (cs_value controller, ?c)"
      using assms(7) secret_reference_not_serialized [OF compose [unfolded doc]]
        internal_keys_absent [OF dc _ es] assms(3)
      by (simp add: check_candidate_def nonblank_string_def update_conv' snapshot_values_def)
    moreover have "map cq_proxy_name (pt_egress_credentials t) = map fe_name (ds_egress_proxies d)"
      by (simp add: t(2))
    ultimately show ?thesis using raw by (intro exI [of _ ?c] exI [of _ ps]) (simp add: t(1) comp_def)
  qed
qed

subsection \<open>A host for the witnesses\<close>

text \<open>PyYAML is played by the JSON printer and reader, which are inverse on distinct keys.\<close>

definition sample_oracle :: mihomo_oracle where
  "sample_oracle = \<lparr>yo_dump = json_text, yo_load = json_loads, mo_api_secret = ''key'', mo_backup = (\<lambda>_. None),
     mo_install = (\<lambda>_. None), mo_reload = (\<lambda>n. (if n = 2 then HttpStatus 500 else HttpStatus 204, None)),
     mo_restore = (\<lambda>_. None), mo_health = (\<lambda>_. HttpStatus 200)\<rparr>"

definition sample_controller :: "string \<Rightarrow> exn + controller_secret_snapshot" where
  "sample_controller ref = Inr \<lparr>cs_ref = ref, cs_revision = 4, cs_value = ''key''\<rparr>"

definition sample_credentials :: "nat \<Rightarrow> string \<Rightarrow> exn + egress_credential_snapshot" where
  "sample_credentials i ref = Inr \<lparr>es_secret_ref = ref, es_revision = 1,
     es_credential = \<lparr>cr_username = ''u'', cr_password = ''p''\<rparr>\<rparr>"

lemma sample_yaml: "yo_dump sample_oracle = json_text" "yo_load sample_oracle = json_loads"
  by (simp_all add: sample_oracle_def)

lemma sample_constants:
  "vget (ds_deployment_constants sample_snapshot) ''api-secret-ref'' = VStr ''controller-ref''"
  "vget (ds_deployment_constants sample_snapshot) ''api-secret-revision'' = VInt 4"
  by code_simp+

lemma sample_rendered: "\<exists>t. render_mihomo sample_oracle (\<lambda>s. s) (\<lambda>_. 0) sample_snapshot = Inr t \<and>
   pt_controller_secret_ref t = ''controller-ref'' \<and> pt_controller_secret_revision t = 4 \<and>
   map cq_revision (pt_egress_credentials t) = [1]"
proof -
  obtain es fp where c: "compose_mihomo_document (\<lambda>s. s) (\<lambda>_. 0) sample_snapshot = Inr (VMap es, fp)"
    using sample_accepted by blast
  have "distinct_keys (snapshot_values sample_snapshot)" by code_simp
  then have "distinct_keys (VMap es)" using accepted_fingerprint [OF c] by metis
  then have "yo_load sample_oracle (yo_dump sample_oracle (VMap es)) = Some (VMap es)"
    using json_loads_text by (simp only: sample_yaml)
  with c have "\<exists>t. render_mihomo sample_oracle (\<lambda>s. s) (\<lambda>_. 0) sample_snapshot = Inr t \<and>
      pt_controller_secret_ref t = ''controller-ref'' \<and> pt_controller_secret_revision t = 4 \<and>
      pt_egress_credentials t = map (\<lambda>p. \<lparr>cq_proxy_name = fe_name p, cq_secret_ref = fe_credential_secret_ref p,
         cq_revision = fe_credential_revision p\<rparr>) (ds_egress_proxies sample_snapshot)"
    using sample_constants by (simp add: render_mihomo_def as_mapping_def)
  moreover have "map fe_credential_revision (ds_egress_proxies sample_snapshot) = [1]" by code_simp
  ultimately show ?thesis by (auto simp: comp_def)
qed

lemma rendered_template_finalizes_witness:
  "\<exists>t c. render_mihomo sample_oracle (\<lambda>s. s) (\<lambda>_. 0) sample_snapshot = Inr t \<and>
    finalize_mihomo sample_controller sample_credentials (Some t) = Inr c \<and> check_candidate (Some c) = Inr (''key'', c)"
proof -
  obtain t where t: "render_mihomo sample_oracle (\<lambda>s. s) (\<lambda>_. 0) sample_snapshot = Inr t"
    "pt_controller_secret_ref t = ''controller-ref''" "pt_controller_secret_revision t = 4"
    "map cq_revision (pt_egress_credentials t) = [1]"
    using sample_rendered by (elim exE conjE) (rule that)
  have yaml: "\<forall>v. distinct_keys v \<longrightarrow> yo_load sample_oracle (yo_dump sample_oracle v) = Some v"
    unfolding sample_yaml using json_loads_text by blast
  have keys: "distinct_keys (snapshot_values sample_snapshot)" by code_simp
  let ?k = "\<lparr>cs_ref = pt_controller_secret_ref t, cs_revision = 4, cs_value = ''key''\<rparr>"
  have ctl: "sample_controller (pt_controller_secret_ref t) = Inr ?k" by (simp add: sample_controller_def)
  have key: "nonblank (cs_value ?k)" by code_simp
  have "list_all (current_credential sample_credentials) (enumerate 0 (pt_egress_credentials t))"
    using t(4) by (auto simp: current_credential_def sample_credentials_def)
  note current = this
  have same: "cs_ref ?k = pt_controller_secret_ref t" "cs_revision ?k = pt_controller_secret_revision t"
    using t(3) by simp_all
  obtain c where "finalize_mihomo sample_controller sample_credentials (Some t) = Inr c"
    "check_candidate (Some c) = Inr (cs_value ?k, c)"
    using rendered_template_finalizes [where resolve_controller = sample_controller and controller = ?k
        and resolve = sample_credentials, OF t(1) yaml keys ctl same key current] by metis
  then show ?thesis using t(1) by (intro exI [of _ t] exI [of _ c]) simp
qed

text \<open>A reload that the control API refuses leads back to the previous file.\<close>

lemma mihomo_rollback_example:
  "apply_mihomo sample_oracle (Some \<lparr>mc_content = [(''secret'', VStr ''key'')], mc_version = ''v'',
     mc_controller_secret_ref = ''r'', mc_controller_secret_revision = 1, mc_finalized = True\<rparr>)
     \<lparr>mh_tick = 0, mh_file = Some ''old'', mh_running = Some ''old''\<rparr> =
   (Inl rollback_verified_error, \<lparr>mh_tick = 6, mh_file = Some ''old'', mh_running = Some ''old''\<rparr>)"
  by code_simp

end
