(* ===== verification/Mihomo_Snapshot_Properties.thy ===== *)
theory Mihomo_Snapshot_Properties
  imports Mihomo_Snapshot Mihomo_Logic Mihomo_Provider_Properties "HOL-Library.Code_Target_Nat"
begin

text \<open>
  The desired state as a function of the rows: what a successful load has read, what the checks of
  the projection then ask of the cache files, and the generations.
\<close>

section \<open>The loader and the resolvers read only\<close>

definition only_ticks :: "'w session \<Rightarrow> 'w session \<Rightarrow> bool" where
  "only_ticks s t \<longleftrightarrow> (\<exists>n. t = s\<lparr>se_tick := n\<rparr>)"

lemma reads_only_preserves: "(\<And>s. preserves (only_ticks s) m) \<Longrightarrow> reads_only m"
  by (simp add: reads_only_def preserves_def wp_always only_ticks_def) (metis session.surjective session.update_convs(3))

lemma preserves_mapE [preserve]: "(\<And>x. preserves I (f x)) \<Longrightarrow> preserves I (mapE f xs)"
  by (induction xs) (simp_all add: preserve)

lemma only_ticks_ticked [simp]: "only_ticks s t \<Longrightarrow> only_ticks s (ticked t)"
  by (auto simp: only_ticks_def ticked_def)

lemma statement_reads [preserve]:
  "preserves (only_ticks s) (db_read X f)" "preserves (only_ticks s) (db_now X)" "preserves (only_ticks s) tick_of"
  by (simp_all add: preserves_def wp split: option.splits)

lemma reads_current: "preserves (only_ticks s) (load_current X E)"
  unfolding load_current_def load_topology_def load_material_def verify_materialization_def load_egress_proxy_def
  by (intro preserve)

lemma reads_snapshot: "reads_only (load_snapshot X E j)"
  unfolding load_snapshot_def by (intro reads_only_preserves preserve reads_current)

lemma reads_finalize: "reads_only (sql_finalize X C template)"
  by (auto simp: reads_only_def sql_finalize_def)

interpretation sql: read_only_parts "sql_parts X E C M clock" for X E C M clock
  by unfold_locales (simp_all add: sql_parts_def reads_snapshot reads_finalize)

section \<open>Loading\<close>

text \<open>The topology the committed rows describe.\<close>

definition topology :: "database \<Rightarrow> forwarder_topology" where
  "topology d = (let groups = active_groups d; bindings = group_bindings groups d; providers = bound_providers bindings d in
     \<lparr>ft_groups = groups, ft_egress_bindings = group_egress_bindings groups d, ft_rules = enabled_rules d,
       ft_endpoints = projected_endpoints (active_egress_groups d) d, ft_providers = providers, ft_nodes = transport_nodes d,
       ft_assignments = active_assignments d, ft_bindings = active_egress_bindings d,
       ft_receipts = provider_receipts providers d\<rparr>)"

definition bindings_projected :: "database \<Rightarrow> bool" where
  "bindings_projected d \<longleftrightarrow> list_all (\<lambda>b. eb_egress_id b \<in> set (map ee_id (ft_endpoints (topology d)))) (active_egress_bindings d)"

lemma wp_topology:
  "wpE (load_topology X) (\<lambda>T t. T = topology (se_work s) \<and> bindings_projected (se_work s) \<and> only_ticks s t) (\<lambda>_ _. True) s"
  unfolding load_topology_def topology_def bindings_projected_def
  by (intro vcg) (auto simp: checks Let_def only_ticks_def ticked_def)

lemma wp_mapE:
  assumes "\<And>x s. x \<in> set xs \<Longrightarrow> I s \<Longrightarrow> wpE (f x) (\<lambda>y t. R x y \<and> I t) (\<lambda>_ _. True) s" and "I s"
  shows "wpE (mapE f xs) (\<lambda>ys t. list_all2 R xs ys \<and> I t) (\<lambda>_ _. True) s"
  using assms
proof (induction xs arbitrary: s)
  case Nil
  then show ?case by (simp add: wp)
next
  case (Cons x xs)
  show ?case
    unfolding mapE.simps
  proof (intro vcg_bind, rule wp_mono [OF Cons.prems(1)])
    fix y t assume y: "R x y \<and> I t"
    show "wpE (bindE (mapE f xs) (\<lambda>ys. retE (y # ys))) (\<lambda>ys t. list_all2 R (x # xs) ys \<and> I t) (\<lambda>_ _. True) t"
      by (intro vcg_bind wp_mono [OF Cons.IH]) (use Cons.prems(1) y in \<open>auto simp: wp_ret\<close>)
  qed (use Cons.prems in auto)
qed

text \<open>A cache file that holds the material of a provider.\<close>

definition cached :: "snapshot_env \<Rightarrow> transport_provider_record \<Rightarrow> transport_materialization \<Rightarrow> bool" where
  "cached E p m \<longleftrightarrow> tm_owner_record_id m = tp_id p \<and> tm_provider_code m = tp_code p \<and>
     (\<exists>n content. sv_read E n (cache_path E p) = Some content \<and> sv_sha256 E content = tm_content_hash m \<and>
        sv_yaml E content = Some (VMap (tm_content m)))"

lemma wp_verify_materialization:
  "wpE (verify_materialization X E owner path code revision) (\<lambda>v t. only_ticks s t \<and> vm_owner_record_id v = owner \<and>
     vm_provider_code v = code \<and> (\<exists>n. sv_read E n path = Some (vm_content v)) \<and> sv_sha256 E (vm_content v) = vm_content_hash v)
     (\<lambda>_ _. True) s"
  unfolding verify_materialization_def
  by (intro vcg) (auto simp: only_ticks_def ticked_def verified_of_def find_Some_iff)

lemma loaded_content:
  "load_transport_materialization E v = Inr m \<Longrightarrow> sv_yaml E (vm_content v) = Some (VMap (tm_content m)) \<and>
   tm_content_hash m = vm_content_hash v \<and> tm_owner_record_id m = vm_owner_record_id v \<and> tm_provider_code m = vm_provider_code v"
  by (auto simp: load_transport_materialization_def Let_def checks as_mapping_def split: option.splits pyval.splits)

lemma cachedI:
  assumes "load_transport_materialization E v = Inr m" "sv_read E n (cache_path E p) = Some (vm_content v)"
    "sv_sha256 E (vm_content v) = vm_content_hash v" "vm_owner_record_id v = tp_id p" "vm_provider_code v = tp_code p"
  shows "cached E p m"
  using loaded_content [OF assms(1)] assms(2-5) unfolding cached_def by auto

lemma only_ticks_trans: "only_ticks s t \<Longrightarrow> only_ticks t u \<Longrightarrow> only_ticks s u"
  by (auto simp: only_ticks_def)

lemma wp_material:
  "wpE (load_material X E receipts p) (\<lambda>y t. cached E p (fst y) \<and> only_ticks s t) (\<lambda>_ _. True) s"
proof -
  have tick: "only_ticks s (ticked s)" by (auto simp: only_ticks_def ticked_def)
  show ?thesis
    unfolding load_material_def
    by (intro vcg_option vcg_raise vcg_bind vcg_read vcg_if wp_mono [OF wp_verify_materialization] vcg_lift vcg_ret)
      (auto intro: cachedI only_ticks_trans [OF tick])
qed

text \<open>What the entry of an exit takes from its row.\<close>

definition from_row :: "egress_endpoint \<Rightarrow> forwarder_egress_proxy_dto \<Rightarrow> bool" where
  "from_row e p \<longleftrightarrow> fe_name p = ee_code e \<and> fe_protocol p = ee_protocol e \<and> fe_host p = ee_host e \<and> fe_port p = ee_port e \<and>
     0 < fe_credential_revision p"

lemma wp_egress:
  "wpE (load_egress_proxy X nodes assignments materials bindings e) (\<lambda>p t. from_row e p \<and> only_ticks s t) (\<lambda>_ _. True) s"
  unfolding load_egress_proxy_def
  by (intro vcg) (auto simp: from_row_def only_ticks_def ticked_def split: option.splits)

text \<open>The snapshot is assembled from the rows, the cached material and the current credentials.\<close>

definition snapshot_of :: "snapshot_env \<Rightarrow> database \<Rightarrow> mihomo_desired_state \<Rightarrow> bool" where
  "snapshot_of E d0 d \<longleftrightarrow> (\<exists>materials egress n. d = assemble_snapshot E (topology d0) materials egress n \<and> 0 < n \<and>
      list_all2 (\<lambda>p y. cached E p (fst y)) (ft_providers (topology d0)) materials \<and>
      list_all2 from_row (ft_endpoints (topology d0)) egress)"

lemma snapshot_ofI:
  "\<not> n \<le> 0 \<Longrightarrow> list_all2 (\<lambda>p y. cached E p (fst y)) (ft_providers (topology d0)) materials \<Longrightarrow>
   list_all2 from_row (ft_endpoints (topology d0)) egress \<Longrightarrow> snapshot_of E d0 (assemble_snapshot E (topology d0) materials egress n)"
  unfolding snapshot_of_def not_le by blast

lemma wp_current:
  "wpE (load_current X E) (\<lambda>d t. bindings_projected (se_work s) \<and> only_ticks s t \<and> snapshot_of E (se_work s) d) (\<lambda>_ _. True) s"
proof -
  have materials: "wpE (mapE (load_material X E receipts) ps) (\<lambda>ys t. list_all2 (\<lambda>p y. cached E p (fst y)) ps ys \<and> only_ticks s t)
      (\<lambda>_ _. True) t" if "only_ticks s t" for receipts ps t
    by (rule wp_mapE [OF wp_mono [OF wp_material]]) (use that in \<open>auto intro: only_ticks_trans\<close>)
  have egress: "wpE (mapE (load_egress_proxy X nodes assignments ms bindings) es) (\<lambda>ys t. list_all2 from_row es ys \<and> only_ticks s t)
      (\<lambda>_ _. True) t" if "only_ticks s t" for nodes assignments ms bindings es t
    by (rule wp_mapE [OF wp_mono [OF wp_egress]]) (use that in \<open>auto intro: only_ticks_trans\<close>)
  have tick: "only_ticks s t \<Longrightarrow> only_ticks s (ticked t)" for t by (rule only_ticks_ticked)
  have built: "build_desired_state (assemble_snapshot E T ms es n) = Inr (assemble_snapshot E T ms es n)" for T ms es n
  proof -
    have "nonblank ''default''" by code_simp
    then show ?thesis by (simp add: build_desired_state_def assemble_snapshot_def)
  qed
  show ?thesis
    unfolding load_current_def
    by (intro vcg_bind wp_mono [OF wp_topology] wp_mono [OF materials] wp_mono [OF egress] vcg_read vcg_option vcg_if vcg_raise vcg_lift)
      (auto simp: built tick intro: snapshot_ofI)
qed

section \<open>Samples\<close>

definition forwarder_session :: "'p \<Rightarrow> database \<Rightarrow> 'p mihomo_world session" where
  "forwarder_session p d = \<lparr>se_work = d, se_store = d, se_tick = 0, se_lock_held = False, se_world =
     \<lparr>mw_held = False, mw_release = None, mw_unknown = False, mw_locked = False, mw_discard = False, mw_pool = [],
       mw_provider = p, mw_applied = []\<rparr>\<rparr>"

text \<open>One route group that leads through one provider to one exit.\<close>

definition sample_env :: snapshot_env where
  "sample_env = \<lparr>sv_cache_root = ''/c'', sv_external_controller = ''10.0.0.2:90'', sv_sha256 = (\<lambda>s. s), sv_yaml = json_loads,
     sv_read = (\<lambda>_ _. Some (json_dumps (canonical (VMap sample_content))))\<rparr>"

definition sample_provider :: transport_provider_record where
  "sample_provider = \<lparr>tp_id = 3, tp_code = ''sub'', tp_kind = Subscription_Provider, tp_secret_ref = ''url'',
     tp_status = ProviderHealthy, tp_enabled = True, tp_quota_bytes = None, tp_used_bytes = None, tp_measured_at = None,
     tp_last_refresh_at = None, tp_last_health_at = None\<rparr>"

definition projected_db :: database where
  "projected_db = empty_db\<lparr>
     db_endpoints := [(endpoint_row 1 ''AVAILABLE'' 0)\<lparr>ee_code := ''us''\<rparr>],
     db_secrets := [\<lparr>sc_secret_ref = ''ref'', sc_ciphertext = [], sc_purpose = ''EGRESS'', sc_revision = 1\<rparr>,
       \<lparr>sc_secret_ref = ''url'', sc_ciphertext = [], sc_purpose = ''TRANSPORT_SUBSCRIPTION_URL'', sc_revision = 2\<rparr>,
       \<lparr>sc_secret_ref = MIHOMO_CONTROLLER_SECRET_REF, sc_ciphertext = [], sc_purpose = MIHOMO_CONTROLLER_SECRET_PURPOSE, sc_revision = 4\<rparr>],
     db_forwarder := empty_forwarder\<lparr>
       fw_route_groups := [\<lparr>rg_id = 1, rg_code = ''main'', rg_status = GroupActive\<rparr>],
       fw_route_bindings := [\<lparr>rb_id = 1, rb_route_group_id = 1, rb_provider_id = 3, rb_priority = 1, rb_enabled = True\<rparr>],
       fw_route_egress := [\<lparr>rx_id = 1, rx_route_group_id = 1, rx_egress_endpoint_id = 1, rx_enabled = True\<rparr>],
       fw_egress_groups := [\<lparr>eg_id = 1, eg_code = ''eg'', eg_status = ''ACTIVE''\<rparr>],
       fw_providers := [sample_provider],
       fw_receipts := [\<lparr>mz_id = 1, mz_owner_record_id = 3, mz_provider_code = ''sub'', mz_source_revision = 2,
          mz_cache_identity = cache_path sample_env sample_provider, mz_content_hash = json_dumps (canonical (VMap sample_content)),
          mz_freshness_deadline = 100\<rparr>]\<rparr>\<rparr>"

definition sample_loaded :: mihomo_desired_state where
  "sample_loaded = assemble_snapshot sample_env (topology projected_db)
     [(\<lparr>tm_owner_record_id = 3, tm_provider_code = ''sub'', tm_source_revision = 2, tm_cache_identity = cache_path sample_env sample_provider,
         tm_content_hash = json_dumps (canonical (VMap sample_content)), tm_freshness_deadline = 100,
         tm_content = (case canonical (VMap sample_content) of VMap c \<Rightarrow> c | _ \<Rightarrow> []), tm_implementation = ''subscription''\<rparr>,
       \<lparr>tr_owner_record_id = 3, tr_provider_code = ''sub'', tr_source_revision = 2, tr_cache_identity = cache_path sample_env sample_provider,
         tr_implementation = ''subscription''\<rparr>)]
     [\<lparr>fe_name = ''us'', fe_protocol = ''socks5'', fe_host = ''h'', fe_port = 1080, fe_credential_secret_ref = ''ref'',
        fe_credential_revision = 1, fe_transport_proxy_name = None, fe_transport_node_identity = None\<rparr>] 4"

lemma sample_loads: "fst (load_current quiet_oracle sample_env (forwarder_session () projected_db)) = Inr sample_loaded"
  by code_simp

lemma sample_load:
  "\<exists>d t r. load_current quiet_oracle sample_env (forwarder_session () projected_db) = (Inr d, t) \<and>
     compose_mihomo_document (sv_sha256 sample_env) (\<lambda>_. 0) d = Inr r"
proof -
  have "\<not> isl (compose_mihomo_document (sv_sha256 sample_env) (\<lambda>_. 0) sample_loaded)" by code_simp
  then obtain r where "compose_mihomo_document (sv_sha256 sample_env) (\<lambda>_. 0) sample_loaded = Inr r"
    by (cases "compose_mihomo_document (sv_sha256 sample_env) (\<lambda>_. 0) sample_loaded") auto
  then show ?thesis using sample_loads by (metis prod.collapse)
qed

section \<open>Properties\<close>

lemma last_rule_matches: "\<exists>others target. desired_rules rules = others @ [VMap [(''match'', VStr ''MATCH''), (''target'', VStr target)]]"
proof (cases "rules = [] \<or> tk_match_type (last rules) \<noteq> ''MATCH''")
  case True
  then show ?thesis by (simp add: desired_rules_def fallback_entry_def)
next
  case False
  then have "map rule_entry rules = map rule_entry (butlast rules) @ [rule_entry (last rules)]"
    by (metis append_butlast_last_id list.simps(8,9) map_append)
  with False show ?thesis by (simp add: desired_rules_def rule_entry_def)
qed



text \<open>
  C40. A projection needs canonical caches. If the projection of a loaded snapshot is accepted,
  then the cache file of every provider in it, a YAML document as the subscription service
  delivered it, has the SHA-256 of the canonical JSON text of its own content: the receipt proves
  the bytes of the file, but the projection compares the same hash with that of the parsed and
  re-serialised document. With a hash that is injective, only a file that is this JSON text passes.
\<close>

theorem projection_needs_canonical_caches:
  assumes "load_current X E s = (Inr d, t)" and "compose_mihomo_document (sv_sha256 E) now d = Inr r"
    and "p \<in> set (ft_providers (topology (se_work s)))"
  shows "\<exists>n content document. sv_read E n (cache_path E p) = Some content \<and> sv_yaml E content = Some (VMap document) \<and>
    sv_sha256 E content = sv_sha256 E (json_dumps (canonical (VMap document))) \<and>
    (inj (sv_sha256 E) \<longrightarrow> content = json_dumps (canonical (VMap document)))"
proof -
  obtain materials egress n where d: "d = assemble_snapshot E (topology (se_work s)) materials egress n"
    and m: "list_all2 (\<lambda>p y. cached E p (fst y)) (ft_providers (topology (se_work s))) materials"
    using wp_current [of X E s] assms(1) by (auto simp: wpE_def snapshot_of_def)
  obtain y where y: "y \<in> set materials" "cached E p (fst y)"
    using m assms(3) unfolding list_all2_conv_all_nth in_set_conv_nth [of p] by (metis nth_mem)
  obtain ms where ms: "mapS (validate_materialization (sv_sha256 E) now) (enumerate 0 (ds_transport_materializations d)) = Inr ms"
    using assms(2) by (cases r) (auto simp: compose_mihomo_document_def validate_transports_def Let_def checks)
  have "Some (fst y) \<in> set (ds_transport_materializations d)" using y(1) by (simp add: d assemble_snapshot_def)
  then obtain i where "i < length (ds_transport_materializations d)" "ds_transport_materializations d ! i = Some (fst y)"
    unfolding in_set_conv_nth by blast
  then have "(i, Some (fst y)) \<in> set (enumerate 0 (ds_transport_materializations d))"
    by (simp add: in_set_enumerate_eq)
  then obtain m' where "validate_materialization (sv_sha256 E) now (i, Some (fst y)) = Inr m'"
    using mapS_total [OF ms] by blast
  then have "sv_sha256 E (json_dumps (canonical (VMap (tm_content (fst y))))) = tm_content_hash (fst y)"
    by (auto simp: validate_materialization_def checks digest_def)
  note proof_ = this
  from y(2) obtain n content where c: "sv_read E n (cache_path E p) = Some content"
    "sv_sha256 E content = tm_content_hash (fst y)" "sv_yaml E content = Some (VMap (tm_content (fst y)))"
    by (auto simp: cached_def)
  have same: "sv_sha256 E content = sv_sha256 E (json_dumps (canonical (VMap (tm_content (fst y)))))"
    using c(2) proof_ by simp
  show ?thesis
    by (rule exI [of _ n], rule exI [of _ content], rule exI [of _ "tm_content (fst y)"])
      (use c(1,3) same injD [of "sv_sha256 E" content "json_dumps (canonical (VMap (tm_content (fst y))))"] in blast)
qed

lemma projection_needs_canonical_caches_witness:
  "\<exists>content document. sv_read sample_env 0 (cache_path sample_env sample_provider) = Some content \<and>
     content = json_dumps (canonical (VMap document))"
proof -
  obtain d t r where l: "load_current quiet_oracle sample_env (forwarder_session () projected_db) = (Inr d, t)"
    "compose_mihomo_document (sv_sha256 sample_env) (\<lambda>_. 0) d = Inr r"
    using sample_load by blast
  have "ft_providers (topology projected_db) = [sample_provider]" by code_simp
  then have p: "sample_provider \<in> set (ft_providers (topology (se_work (forwarder_session () projected_db))))"
    by (simp add: forwarder_session_def)
  from projection_needs_canonical_caches [OF l p] show ?thesis
    by (auto simp: sample_env_def inj_def)
qed

section \<open>Generations\<close>

lemma sort_key_snoc:
  assumes "\<And>x. x \<in> set xs \<Longrightarrow> f x < f h"
  shows "sort_key f (xs @ [h]) = sort_key f xs @ [h]"
proof -
  have "insort_key f x (ys @ [h]) = insort_key f x ys @ [h]" if "f x < f h" for x ys
    using that by (induction ys) (auto simp: less_imp_le)
  then show ?thesis using assms by (induction xs) simp_all
qed

lemma latest_mem: "latest_generation d = Some g \<Longrightarrow> g \<in> set (generations d)"
  by (auto simp: latest_generation_def dest!: arg_cong [where f = set] split: list.splits)

text \<open>
  Revisions are append-only and stable. Allocating a generation for a manifest keeps every
  existing row; a new row gets a revision above all of them; and allocating the manifest again
  right afterwards returns the same generation and adds nothing.
\<close>

theorem generations_append_only:
  assumes "allocate_generation X sha256 manifest s = (Inr g, t)"
    and "distinct (map mg_revision (generations (se_work s)))"
  shows "(generations (se_work t) = generations (se_work s) \<and> g \<in> set (generations (se_work s)) \<or>
      generations (se_work t) = generations (se_work s) @ [g] \<and> (\<forall>h\<in>set (generations (se_work s)). mg_revision h < mg_revision g)) \<and>
    mg_desired_fingerprint g = manifest_fingerprint sha256 manifest \<and> distinct (map mg_revision (generations (se_work t))) \<and>
    latest_generation (se_work t) = Some g"
proof -
  let ?gs = "generations (se_work s)"
  have latest: "latest_generation (d\<lparr>db_forwarder := (db_forwarder d)\<lparr>fw_generations := generations d @ [h]\<rparr>\<rparr>) = Some h"
    if "mg_revision h = next_id mg_revision (generations d)" for h d
    using sort_key_snoc [of "generations d" mg_revision h] next_id_greater [of _ "generations d" mg_revision] that
    by (simp add: latest_generation_def)
  have "wpE (allocate_generation X sha256 manifest) (\<lambda>g t. mg_desired_fingerprint g = manifest_fingerprint sha256 manifest \<and>
      (se_work t = se_work s \<and> latest_generation (se_work s) = Some g \<or>
       mg_revision g = next_id mg_revision ?gs \<and> se_work t = add_generation g (se_work s))) (\<lambda>_ _. True) s"
    unfolding allocate_generation_def Let_def
    by (intro vcg) (auto split: option.splits if_splits)
  with assms(1) have g: "mg_desired_fingerprint g = manifest_fingerprint sha256 manifest"
    and cases: "se_work t = se_work s \<and> latest_generation (se_work s) = Some g \<or>
       mg_revision g = next_id mg_revision ?gs \<and> se_work t = add_generation g (se_work s)"
    by (simp_all add: wpE_def)
  from cases show ?thesis
  proof
    assume "se_work t = se_work s \<and> latest_generation (se_work s) = Some g"
    then show ?thesis using g assms(2) latest_mem by auto
  next
    assume "mg_revision g = next_id mg_revision ?gs \<and> se_work t = add_generation g (se_work s)"
    then show ?thesis
      using g assms(2) latest next_id_greater [of _ ?gs mg_revision] next_id_fresh [of mg_revision ?gs]
      by (auto simp: add_generation_def)
  qed
qed

lemma generations_append_only_witness:
  "\<exists>g t. allocate_generation quiet_oracle (\<lambda>s. s) (VInt 1) (forwarder_session () empty_db) = (Inr g, t) \<and>
     latest_generation (se_work t) = Some g \<and> mg_revision g = 1"
proof -
  let ?a = "allocate_generation quiet_oracle (\<lambda>s. s) (VInt 1) (forwarder_session () empty_db)"
  have "\<not> isl (fst ?a)" "mg_revision (projr (fst ?a)) = 1" by code_simp+
  then obtain g t where a: "?a = (Inr g, t)" "mg_revision g = 1" by (cases ?a; cases "fst ?a") auto
  have "distinct (map mg_revision (generations (se_work (forwarder_session () empty_db))))" by code_simp
  from generations_append_only [OF a(1) this] a show ?thesis by blast
qed

end
