(* ===== verification/Mihomo_Run_Properties.thy ===== *)
theory Mihomo_Run_Properties
  imports Mihomo_Worker Mihomo_Snapshot_Properties
begin

text \<open>
  The properties of the forwarder's durable reconciliation: what a run may do, what an unknown
  outcome does to the runs after it, what the rows of the jobs table say, and what the loader reads.
\<close>

section \<open>Rows\<close>

text \<open>A SUCCEEDED intent carries the evidence of a candidate for its own identity.\<close>

definition evidenced :: "job \<Rightarrow> bool" where
  "evidenced j \<longleftrightarrow> (mihomo_job j \<longrightarrow> jb_status j = JobSucceeded \<longrightarrow> (\<exists>I fp p. mihomo_payload j = Inr p \<and> same_identity I p \<and>
     evidence_matches I fp (VStr (mi_kind I)) (vget p ''finalization_evidence'')))"

text \<open>The columns of a job of the forwarder and its attempts.\<close>

definition within_limits :: "job \<Rightarrow> bool" where
  "within_limits j \<longleftrightarrow> (mihomo_job j \<or> mihomo_blocker j \<longrightarrow> 0 \<le> jb_attempts j \<and> jb_attempts j \<le> jb_max_attempts j \<and>
     length (jb_dedupe_key j) \<le> 160 \<and> (case jb_last_error_code j of Some code \<Rightarrow> length code \<le> 80 | None \<Rightarrow> True))"

lemma evidence_finish:
  assumes "payload_identity p = Inr I" "safe_text 63 version"
  shows "evidenced (finish_mihomo_job (dict_set p ''finalization_evidence'' (finalization_evidence I fp version)) j)"
proof -
  have "same_identity I (dict_set p ''finalization_evidence'' (finalization_evidence I fp version))"
    using identity_same [OF assms(1)] by (simp add: same_identity_def vget_dict_set)
  moreover have "evidence_matches I fp (VStr (mi_kind I)) (finalization_evidence I fp version)"
    using assms(2) by (simp add: evidence_matches_def finalization_evidence_def valid_evidence_version_def vget_def)
  ultimately show ?thesis
    unfolding evidenced_def finish_mihomo_job_def mihomo_payload_def by (auto simp: vget_dict_set)
qed

lemma edits_fields [simp]:
  "mihomo_job (fail_job c now j) = mihomo_job j" "mihomo_blocker (fail_job c now j) = mihomo_blocker j"
  "mihomo_payload (set_error_code c j) = mihomo_payload j"
  by (simp_all add: fail_job_def set_error_code_def mihomo_job_def mihomo_blocker_def mihomo_payload_def)

interpretation evidence: worker_rows evidenced
proof unfold_locales
  fix j and code :: string and now :: datetime
  assume j: "evidenced j"
  show "evidenced (fail_job code now j)" by (simp add: evidenced_def fail_job_def)
next
  fix j diagnostic now
  show "evidenced (review_mihomo_job diagnostic now j)" by (simp add: evidenced_def review_mihomo_job_def)
next
  fix j p I version fp
  assume "payload_identity p = Inr I" "safe_text 63 version"
  then show "evidenced (finish_mihomo_job (dict_set p ''finalization_evidence'' (finalization_evidence I fp version)) j)"
    by (rule evidence_finish)
next
  fix kind source operation revision reason key now k
  show "evidenced (new_blocker key (blocker_payload kind source operation revision reason) now\<lparr>jb_id := k\<rparr>)"
    by (simp add: evidenced_def new_blocker_def)
next
  fix j assume "mihomo_blocker j"
  then have "\<not> mihomo_job j" using not_both by blast
  then show "evidenced (reopen_blocker j)" "evidenced (close_blocker j)"
    by (simp_all add: evidenced_def mihomo_job_def)
next
  fix j code assume "evidenced j"
  then show "evidenced (set_error_code code j)" by (simp add: evidenced_def set_error_code_def mihomo_job_def mihomo_payload_def)
next
  fix now j show "evidenced (mark_running now j)" by (simp add: evidenced_def)
next
  fix j show "evidenced (unclaim j)" by (simp add: evidenced_def unclaim_def)
qed

interpretation limits: worker_rows within_limits
proof unfold_locales
  fix i j and code :: string and now :: datetime
  assume "within_limits j"
  then show "within_limits (fail_job code now j)" by (simp add: within_limits_def) (simp add: fail_job_def)
next
  fix j diagnostic now
  assume "within_limits j" "diagnostic \<in> set MIHOMO_UNKNOWN_DIAGNOSTICS"
  then show "within_limits (review_mihomo_job diagnostic now j)"
    by (auto simp: within_limits_def review_mihomo_job_def mihomo_job_def mihomo_blocker_def MIHOMO_UNKNOWN_DIAGNOSTICS_def
        MIHOMO_FINALIZATION_UNKNOWN_def MIHOMO_RUNTIME_UNKNOWN_def MIHOMO_ROLLBACK_UNKNOWN_def)
next
  fix j p I version fp
  assume "within_limits j"
  then show "within_limits (finish_mihomo_job (dict_set p ''finalization_evidence'' (finalization_evidence I fp version)) j)"
    by (simp add: within_limits_def finish_mihomo_job_def mihomo_job_def mihomo_blocker_def)
next
  fix kind source operation revision reason key now k
  assume "check_blocker kind source operation revision reason = Inr key"
  then have "length key \<le> 160" by (auto simp: check_blocker_def mihomo_blocker_dedupe_key_def Let_def checks)
  then show "within_limits (new_blocker key (blocker_payload kind source operation revision reason) now\<lparr>jb_id := k\<rparr>)"
    by (simp add: within_limits_def new_blocker_def)
next
  fix j assume "within_limits j"
  then show "within_limits (reopen_blocker j)" "within_limits (close_blocker j)"
    by (auto simp: within_limits_def reopen_blocker_def close_blocker_def mihomo_job_def mihomo_blocker_def)
next
  fix j code assume "within_limits j" "code \<in> {MIHOMO_DURABLE_STATE_UNKNOWN, MIHOMO_LOCK_RELEASE_UNKNOWN}"
  then show "within_limits (set_error_code code j)"
    by (auto simp: within_limits_def set_error_code_def mihomo_job_def mihomo_blocker_def
      MIHOMO_DURABLE_STATE_UNKNOWN_def MIHOMO_LOCK_RELEASE_UNKNOWN_def)
next
  fix now j assume "within_limits j" "mihomo_claimable now j"
  then show "within_limits (mark_running now j)"
    by (simp add: within_limits_def mihomo_claimable_def) (simp add: mark_running_def)
next
  fix j assume "within_limits j"
  then show "within_limits (unclaim j)"
    by (auto simp: within_limits_def unclaim_def mihomo_job_def mihomo_blocker_def)
qed

lemma enqueued_within_limits:
  assumes "payload_identity p = Inr I"
  shows "within_limits (new_mihomo_job (OPERATION_ID_PREFIX @ mi_operation I) I now\<lparr>jb_id := k\<rparr>)"
proof -
  have "length (mi_operation I) \<le> MAX_OPERATION_ID_LENGTH"
    using assms unfolding payload_identity_def bindS_Inr
    by (auto simp: validate_operation_id_def validate_mihomo_operation_id_def split: pyval.splits if_splits)
  then show ?thesis
    by (simp add: within_limits_def new_mihomo_job_def MAX_OPERATION_ID_LENGTH_def OPERATION_ID_PREFIX_def MIHOMO_RETRY_LIMIT_def)
qed

lemma keeps_enqueue:
  assumes "\<And>p I now k. payload_identity p = Inr I \<Longrightarrow> ok (new_mihomo_job (OPERATION_ID_PREFIX @ mi_operation I) I now\<lparr>jb_id := k\<rparr>)"
  shows "preserves (on_data (rows_ok ok)) (enqueue_mihomo_reconciliation X operation_id operation_kind snapshot_revision)"
  unfolding preserves_def enqueue_mihomo_reconciliation_def Let_def
  by (intro allI impI vcg) (simp_all add: on_data_def assms rows_ok_add)

section \<open>Samples\<close>

definition sample_identity :: mihomo_identity where
  "sample_identity = \<lparr>mi_operation = ''op-1'', mi_kind = ''RECONCILE'', mi_revision = 5\<rparr>"

definition sample_intent :: "int \<Rightarrow> job" where
  "sample_intent i = new_mihomo_job (''MIHOMO_RECONCILE:op-'' @ show_int i) (sample_identity\<lparr>mi_operation := ''op-'' @ show_int i\<rparr>) 0\<lparr>jb_id := i\<rparr>"

definition forwarder_db :: database where
  "forwarder_db = empty_db\<lparr>db_jobs := [sample_intent 1, sample_intent 2]\<rparr>"

definition sample_candidate :: mihomo_candidate_config where
  "sample_candidate = \<lparr>mc_content = [], mc_version = ''v1'', mc_controller_secret_ref = ''ref'', mc_controller_secret_revision = 1,
     mc_finalized = True\<rparr>"

text \<open>A forwarder that accepts everything, and the verifiers that confirm it or cannot tell.\<close>

definition sample_parts :: "unit mihomo_parts" where
  "sample_parts = \<lparr>mp_load = (\<lambda>_. retE sample_snapshot),
     mp_render = (\<lambda>_ p. (Inr \<lparr>pt_content = [], pt_version = ''v1'', pt_controller_secret_ref = ''ref'',
       pt_controller_secret_revision = 1, pt_egress_credentials = []\<rparr>, p)),
     mp_finalize = (\<lambda>_. retE sample_candidate),
     mp_apply = (\<lambda>_ p. (Inr \<lparr>ar_applied = True, ar_version = ''v1'', ar_rolled_back = False\<rparr>, p))\<rparr>"

definition sure :: "unit verifier" where
  "sure _ _ _ p = (Inr (Some \<lparr>pv_verified = True, pv_evidence_version = ''e1''\<rparr>), p)"

definition unsure :: "unit verifier" where
  "unsure _ _ _ p = (Inr None, p)"

lemma sample_reads: "read_only_parts sample_parts"
  by unfold_locales (simp_all add: sample_parts_def reads_only_def retE_def, (metis session.surjective session.update_convs(3))+)

abbreviation sample_run :: "unit verifier \<Rightarrow> unit mihomo_world session \<Rightarrow>
    (exn + mihomo_reconciliation_result option) \<times> unit mihomo_world session" where
  "sample_run V \<equiv> reconcile_mihomo_job quiet_oracle quiet_lock sample_parts (Some V)"

text \<open>A run, assembled from the results of its three parts.\<close>

definition held_session :: "unit mihomo_world session" where
  "held_session = snd (thenE (thenE fresh_mihomo_session (open_mihomo_lock quiet_lock))
     (on_world (\<lambda>w. w\<lparr>mw_held := True\<rparr>)) (forwarder_session () forwarder_db))"

definition after_body :: "unit verifier \<Rightarrow> unit mihomo_world session" where
  "after_body V = snd (run_body quiet_oracle sample_parts V held_session)"

lemma run_assembled:
  assumes "\<not> isl (fst (thenE fresh_mihomo_session (open_mihomo_lock quiet_lock) (forwarder_session () forwarder_db)))"
    and "fst (run_body quiet_oracle sample_parts V held_session) = Inr r"
    and "\<not> isl (fst (give_back quiet_oracle quiet_lock (after_body V)))"
  shows "fst (sample_run V (forwarder_session () forwarder_db)) = Inr r"
proof -
  let ?s = "forwarder_session () forwarder_db"
  obtain a where a: "thenE fresh_mihomo_session (open_mihomo_lock quiet_lock) ?s = (Inr (), a)"
    using assms(1) by (cases "thenE fresh_mihomo_session (open_mihomo_lock quiet_lock) ?s"; cases "fst (thenE fresh_mihomo_session (open_mihomo_lock quiet_lock) ?s)") auto
  have h: "held_session = a\<lparr>se_world := (se_world a)\<lparr>mw_held := True\<rparr>\<rparr>"
    unfolding held_session_def thenE_def [of "thenE _ _"] attemptE_def a by (simp add: on_world_def modifyE_def)
  have b: "run_body quiet_oracle sample_parts V held_session = (Inr r, after_body V)"
    using assms(2) by (simp add: after_body_def prod_eq_iff)
  obtain c where c: "give_back quiet_oracle quiet_lock (after_body V) = (Inr (), c)"
    using assms(3) by (cases "give_back quiet_oracle quiet_lock (after_body V)"; cases "fst (give_back quiet_oracle quiet_lock (after_body V))") auto
  have o: "open_mihomo_lock quiet_lock (snd (fresh_mihomo_session ?s)) = (Inr (), a)"
    using a by (simp add: thenE_def attemptE_def fresh_mihomo_session_def modifyE_def)
  show ?thesis
    unfolding reconcile_mihomo_job_def option.case run_body_def [symmetric]
    using o b c unfolding h
    by (simp add: thenE_def attemptE_def fresh_mihomo_session_def modifyE_def mihomo_projection_write_def bindE_def getsE_def
        finallyE_def on_world_def retE_def close_lock_connection_def)
qed

lemma sample_opens: "\<not> isl (fst (thenE fresh_mihomo_session (open_mihomo_lock quiet_lock) (forwarder_session () forwarder_db)))"
  by code_simp

lemma sample_unknown: "fst (sample_run unsure (forwarder_session () forwarder_db)) = Inr (Some (unknown_result 1 True MIHOMO_RUNTIME_UNKNOWN))"
proof (rule run_assembled [OF sample_opens])
  show "fst (run_body quiet_oracle sample_parts unsure held_session) = Inr (Some (unknown_result 1 True MIHOMO_RUNTIME_UNKNOWN))"
    by code_simp
  show "\<not> isl (fst (give_back quiet_oracle quiet_lock (after_body unsure)))"
    by code_simp
qed

lemma sample_distinct: "job_keys_distinct (se_store (forwarder_session () forwarder_db))"
  by code_simp

section \<open>Properties\<close>

text \<open>
  C3. One run of the forwarder's worker, whatever fails: it changes the forwarder at most once,
  under the lock, and while the committed database has the claimed job RUNNING, no unresolved
  blocker and every older intent SUCCEEDED. A result that is applied but not finalised leaves the
  database stuck, and a finalised result means that the job's row is SUCCEEDED with evidence of a
  candidate that was built from that very database for the job's generation, applied, and
  confirmed by the verifier.
\<close>

theorem forwarder_run_is_safe:
  assumes "read_only_parts P" and "job_keys_distinct (se_store s)"
    and "reconcile_mihomo_job X L P (Some V) s = (r, t)"
  shows "may_write s t \<and> (\<forall>result. r = Inr result \<longrightarrow> run_result P V s result t)"
proof -
  have "wpE (reconcile_mihomo_job X L P (Some V)) (\<lambda>x t. may_write s t \<and> run_result P V s x t) (\<lambda>_ t. may_write s t) s"
    by (rule wp_worker [OF assms(1,2)]) simp_all
  with assms(3) show ?thesis by (auto simp: wpE_def split: sum.splits)
qed

lemma forwarder_run_is_safe_witness:
  "\<exists>t. sample_run unsure (forwarder_session () forwarder_db) = (Inr (Some (unknown_result 1 True MIHOMO_RUNTIME_UNKNOWN)), t) \<and>
     stuck (se_store t)"
proof -
  obtain t where t: "sample_run unsure (forwarder_session () forwarder_db) = (Inr (Some (unknown_result 1 True MIHOMO_RUNTIME_UNKNOWN)), t)"
    using sample_unknown by (metis prod.collapse)
  from forwarder_run_is_safe [OF sample_reads sample_distinct t] t show ?thesis
    by (auto simp: run_result_def unknown_result_def)
qed

text \<open>
  C4. An unknown outcome stops the forwarder. After a run that has applied a configuration but
  could not finalise it, any sequence of further runs, with whatever loaders, providers, verifiers
  and faults, neither changes the forwarder nor calls it, and the database stays stuck: only
  somebody who edits the rows can release the writers.
\<close>

theorem unknown_outcome_freezes_forwarder:
  assumes "read_only_parts P" and "job_keys_distinct (se_store s)"
    and "reconcile_mihomo_job X L P (Some V) s = (Inr (Some result), t)" and "mr_applied result" "\<not> mr_finalized result"
    and "u = fold (\<lambda>(X', L', P', V') v. snd (reconcile_mihomo_job X' L' P' (Some V') v)) later t"
  shows "mw_applied (se_world u) = mw_applied (se_world t) \<and> mw_provider (se_world u) = mw_provider (se_world t) \<and> stuck (se_store u)"
proof -
  have "stuck (se_store t)"
  proof -
    have "wpE (reconcile_mihomo_job X L P (Some V)) (\<lambda>x t. run_result P V s x t) (\<lambda>_ _. True) s"
      by (rule wp_worker [OF assms(1,2)]) simp_all
    with assms(3-5) show ?thesis by (simp add: wpE_def run_result_def)
  qed
  then have "stuck (se_store v) \<and> same_forwarder t v"
    if "v = fold (\<lambda>(X', L', P', V') v. snd (reconcile_mihomo_job X' L' P' (Some V') v)) later t" for later v
    using that
  proof (induction later arbitrary: v rule: rev_induct)
    case Nil
    then show ?case by (simp add: same_forwarder_def)
  next
    case (snoc run runs)
    obtain X' L' P' V' where run: "run = (X', L', P', V')" by (cases run) auto
    let ?w = "fold (\<lambda>(X', L', P', V') v. snd (reconcile_mihomo_job X' L' P' (Some V') v)) runs t"
    have w: "stuck (se_store ?w)" "same_forwarder t ?w" using snoc.IH [OF snoc.prems(1) refl] by simp_all
    have "frozen ?w (snd (reconcile_mihomo_job X' L' P' (Some V') ?w))"
      using wp_mono [OF wp_stuck [OF w(1)], of "\<lambda>_. frozen ?w" "\<lambda>_. frozen ?w"] unfolding wp_always by simp
    then show ?case
      using snoc.prems(2) w(2) by (simp add: run frozen_def same_forwarder_def)
  qed
  from this [OF assms(6)] show ?thesis by (simp add: same_forwarder_def)
qed

lemma unknown_outcome_freezes_forwarder_witness:
  "\<exists>t. sample_run unsure (forwarder_session () forwarder_db) = (Inr (Some (unknown_result 1 True MIHOMO_RUNTIME_UNKNOWN)), t) \<and>
     mw_applied (se_world (snd (sample_run sure t))) = mw_applied (se_world t)"
proof -
  obtain t where t: "sample_run unsure (forwarder_session () forwarder_db) = (Inr (Some (unknown_result 1 True MIHOMO_RUNTIME_UNKNOWN)), t)"
    using sample_unknown by (metis prod.collapse)
  have "mr_applied (unknown_result 1 True MIHOMO_RUNTIME_UNKNOWN)" "\<not> mr_finalized (unknown_result 1 True MIHOMO_RUNTIME_UNKNOWN)"
    by (simp_all add: unknown_result_def)
  from unknown_outcome_freezes_forwarder [OF sample_reads sample_distinct t this, where later = "[(quiet_oracle, quiet_lock, sample_parts, sure)]"]
  show ?thesis using t by simp
qed

text \<open>
  C8. The rows of the jobs table stay sound. Queueing an intent and a run of the worker with the
  loader and the resolvers of the platform keep, in the session and in the committed database:
  every SUCCEEDED intent carries evidence for its own identity, the attempts of intents and
  blockers never exceed their maximum, and their keys and error codes fit their columns.
\<close>

theorem forwarder_rows_stay_sound:
  assumes "on_data (rows_ok evidenced) s" and "on_data (rows_ok within_limits) s"
  shows "on_data (rows_ok evidenced) (snd (reconcile_mihomo_job X L (sql_parts X E C M clock) verifier s)) \<and>
    on_data (rows_ok within_limits) (snd (reconcile_mihomo_job X L (sql_parts X E C M clock) verifier s)) \<and>
    on_data (rows_ok evidenced) (snd (enqueue_mihomo_reconciliation X operation_id operation_kind snapshot_revision s)) \<and>
    on_data (rows_ok within_limits) (snd (enqueue_mihomo_reconciliation X operation_id operation_kind snapshot_revision s))"
proof -
  have new: "evidenced (new_mihomo_job key I now\<lparr>jb_id := k\<rparr>)" for key I now k
    by (simp add: evidenced_def new_mihomo_job_def)
  show ?thesis
    by (intro conjI preservesD [OF evidence.keeps_worker [OF sql.read_only_parts_axioms]]
        preservesD [OF limits.keeps_worker [OF sql.read_only_parts_axioms]]
        preservesD [OF keeps_enqueue [where ok = evidenced]] preservesD [OF keeps_enqueue [where ok = within_limits]]
        assms new enqueued_within_limits)
qed

lemma sample_rows: "on_data (rows_ok evidenced) (forwarder_session p forwarder_db)" "on_data (rows_ok within_limits) (forwarder_session p forwarder_db)"
proof -
  have "list_all (\<lambda>j. jb_status j \<noteq> JobSucceeded) (db_jobs forwarder_db)" "list_all within_limits (db_jobs forwarder_db)"
    "job_keys_distinct forwarder_db" by code_simp+
  then show "on_data (rows_ok evidenced) (forwarder_session p forwarder_db)" "on_data (rows_ok within_limits) (forwarder_session p forwarder_db)"
    by (auto simp: on_data_def forwarder_session_def rows_ok_def evidenced_def list_all_iff)
qed

lemma forwarder_rows_stay_sound_witness:
  "\<forall>X L E C M clock verifier (h :: mihomo_host). on_data (rows_ok evidenced)
     (snd (reconcile_mihomo_job X L (sql_parts X E C M clock) verifier (forwarder_session h forwarder_db)))"
  using forwarder_rows_stay_sound [OF sample_rows] by blast

section \<open>Two ways to lose the lock or a success\<close>

text \<open>
  A rollback that raises while the release blocker is being stored: the connection goes back to
  the pool and the server still counts it as the holder of the lock.
\<close>

lemma lock_leak_example:
  "mw_pool (se_world (snd (mihomo_projection_write (quiet_oracle\<lparr>do_rollback := (\<lambda>_. Some (Exn RuntimeError ''lost''))\<rparr>) quiet_lock
     (set_release_metadata 1 None None) (forwarder_session () forwarder_db)))) = [True]"
  by code_simp

text \<open>
  The finalising commit lands but its answer is lost, and the rollback after it raises: the job,
  SUCCEEDED in the database, is marked FAILED and will be applied again.
\<close>

lemma landed_job_fails_example:
  "map jb_status (db_jobs (se_store (snd (reconcile_claimed_mihomo (quiet_oracle\<lparr>do_commit := (\<lambda>_. Some (Exn RuntimeError ''lost'', True)),
     do_rollback := (\<lambda>n. if n = 4 then Some (Exn RuntimeError ''lost'') else None)\<rparr>) sample_parts sure (mark_running 0 (sample_intent 1))
     (forwarder_session () (update_job 1 (mark_running 0) forwarder_db)))))) = [JobFailed, JobPending, JobPending]"
  by code_simp
end
