(* ===== verification/Webshare.thy ===== *)
theory Webshare
  imports Py_Url Provider_Types
begin

text \<open>
  The client of the Webshare API (\<open>providers/egress/webshare.py\<close>): a sliding-window limiter, a
  write policy in front of the transport, retries, pagination, and the procurement facade.

  The transport is a parameter that answers or raises, \<open>float\<close> on a header is the parameter
  \<open>we_float\<close> (\<open>None\<close> when it raises), and a number of a body that is a float is the value
  \<open>we_json_float\<close> gives. Times are microseconds: a reading of the monotonic clock lets \<open>we_delay\<close>
  of them pass, and a sleep lasts at least as long as asked. A limit is positive in the code's
  two limiters; with another one the code raises an \<open>IndexError\<close>, as the model does.
\<close>

definition seconds :: "int \<Rightarrow> int" where
  "seconds n = n * 1000000"

abbreviation webshare_guard_error :: "string \<Rightarrow> exn" where
  "webshare_guard_error \<equiv> Exn (OtherException ''WebshareGuardError'')"

abbreviation webshare_contract_error :: "string \<Rightarrow> exn" where
  "webshare_contract_error \<equiv> Exn (OtherException ''WebshareContractError'')"

abbreviation webshare_rate_limit_error :: "string \<Rightarrow> exn" where
  "webshare_rate_limit_error \<equiv> Exn (OtherException ''WebshareRateLimitError'')"

record webshare_response =
  wr_status_code :: int
  wr_headers :: "(string \<times> string) list"
  wr_json :: "exn + pyval"

record webshare_call =
  wc_method :: string
  wc_url :: string
  wc_headers :: "string dict"
  wc_params :: "pyval dict option"
  wc_json :: "pyval dict option"

record sliding_window_limiter =
  sl_limit :: int
  sl_window_seconds :: int
  sl_events :: "int list"

record 'w webshare_env =
  we_api_key :: string
  we_base_url :: string
  we_transport :: "webshare_call \<Rightarrow> 'w \<Rightarrow> (exn + webshare_response) \<times> 'w"
  we_delay :: "nat \<Rightarrow> nat"
  we_float :: "string \<Rightarrow> int option"
  we_json_float :: "decimal \<Rightarrow> pyval"

text \<open>The clock, the limiters, what was sent, and the state of the service.\<close>

record 'w webshare_state =
  ws_now :: int
  ws_reading :: nat
  ws_general :: sliding_window_limiter
  ws_proxy :: sliding_window_limiter
  ws_sent :: "webshare_call list"
  ws_service :: 'w

type_synonym ('w, 'a) webshare = "('w webshare_state, exn, 'a) eff"

section \<open>The limiter\<close>

definition clock :: "'w webshare_env \<Rightarrow> ('w, int) webshare" where
  "clock E s = (let now = ws_now s + int (we_delay E (ws_reading s)) in
     (Inr now, s\<lparr>ws_now := now, ws_reading := Suc (ws_reading s)\<rparr>))"

definition sleep :: "'w webshare_env \<Rightarrow> int \<Rightarrow> ('w, unit) webshare" where
  "sleep E d s = (Inr (), s\<lparr>ws_now := ws_now s + d + int (we_delay E (ws_reading s)), ws_reading := Suc (ws_reading s)\<rparr>)"

text \<open>The loop that forgets the events that have left the window.\<close>

definition expire :: "int \<Rightarrow> sliding_window_limiter \<Rightarrow> sliding_window_limiter" where
  "expire now l = l\<lparr>sl_events := dropWhile (\<lambda>e. e \<le> now - sl_window_seconds l) (sl_events l)\<rparr>"

definition acquire :: "'w webshare_env \<Rightarrow> ('w webshare_state \<Rightarrow> sliding_window_limiter) \<Rightarrow>
    ((sliding_window_limiter \<Rightarrow> sliding_window_limiter) \<Rightarrow> 'w webshare_state \<Rightarrow> 'w webshare_state) \<Rightarrow> ('w, unit) webshare" where
  "acquire E get upd =
     bindE (clock E) (\<lambda>now.
     thenE (modifyE (upd (expire now)))
     (bindE (getsE get) (\<lambda>l.
     bindE (if sl_limit l \<le> int (length (sl_events l)) then (case sl_events l of
         [] \<Rightarrow> raiseE (Exn (OtherException ''IndexError'') ''deque index out of range'')
       | first # _ \<Rightarrow>
           thenE (sleep E (max (sl_window_seconds l - (now - first)) 0))
           (bindE (clock E) (\<lambda>now.
            thenE (modifyE (upd (expire now))) (retE now))))
       else retE now) (\<lambda>now.
     modifyE (upd (\<lambda>l. l\<lparr>sl_events := sl_events l @ [now]\<rparr>))))))"

section \<open>The policy\<close>

definition forbidden_paths :: "string list" where
  "forbidden_paths = [''/subscription/purchase'', ''/subscription/renew'', ''/subscription/auto_renewal'', ''/payment/'', ''/billing/'']"

text \<open>Full matches of \<open>^/api/v2/subuser/[^/]+/$\<close> and \<open>^/api/v3/proxy/replace/.+\<close>.\<close>

definition is_subuser :: "string \<Rightarrow> bool" where
  "is_subuser path = (let rest = drop (length ''/api/v2/subuser/'') path in
     startswith path ''/api/v2/subuser/'' \<and> 2 \<le> length rest \<and> last rest = CHR ''/'' \<and> CHR ''/'' \<notin> set (butlast rest))"

definition is_dry_replacement :: "string \<Rightarrow> bool" where
  "is_dry_replacement path = (let rest = drop (length ''/api/v3/proxy/replace/'') path in
     startswith path ''/api/v3/proxy/replace/'' \<and> rest \<noteq> [] \<and> CHR 0x0A \<notin> set rest)"

definition guard :: "string \<Rightarrow> string \<Rightarrow> bool option \<Rightarrow> exn + unit" where
  "guard http_method path dry_run =
     (if http_method = ''GET'' then Inr ()
      else if list_ex (contains_sub path) forbidden_paths
        then Inl (webshare_guard_error (''Webshare write is permanently blocked: '' @ path))
      else if contains_sub path ''/proxy/replace/'' \<and> dry_run \<noteq> Some True
        then Inl (webshare_guard_error ''replacement requires dry_run=true'')
      else if http_method = ''POST'' \<and> path = ''/api/v2/subuser/'' then Inr ()
      else if http_method \<in> {''PATCH'', ''PUT''} \<and> is_subuser path then Inr ()
      else if http_method = ''POST'' \<and> is_dry_replacement path \<and> dry_run = Some True then Inr ()
      else Inl (webshare_guard_error (''Webshare write is not allowlisted: '' @ http_method @ '' '' @ path)))"

section \<open>Requests\<close>

definition url_path :: "string \<Rightarrow> exn + url_parts" where
  "url_path path = (case urlsplit path of Inl m \<Rightarrow> Inl (value_error m) | Inr u \<Rightarrow> Inr u)"

definition retry_after :: "'w webshare_env \<Rightarrow> webshare_response \<Rightarrow> int option" where
  "retry_after E r = (case find (\<lambda>(k, _). lower k = ''retry-after'') (wr_headers r) of
     None \<Rightarrow> None
   | Some (_, v) \<Rightarrow> (case we_float E v of None \<Rightarrow> None | Some t \<Rightarrow> if 0 \<le> t then Some t else None))"

definition transport_call :: "'w webshare_env \<Rightarrow> webshare_call \<Rightarrow> ('w, webshare_response) webshare" where
  "transport_call E c s = (case we_transport E c (ws_service s) of
     (r, w) \<Rightarrow> (r, s\<lparr>ws_sent := ws_sent s @ [c], ws_service := w\<rparr>))"

fun attempts :: "'w webshare_env \<Rightarrow> webshare_call \<Rightarrow> nat list \<Rightarrow> ('w, webshare_response) webshare" where
  "attempts E c [] = raiseE (Exn (OtherException ''AssertionError'') ''unreachable'')"
| "attempts E c (a # as) = bindE (transport_call E c) (\<lambda>r.
     if wr_status_code r \<noteq> 429 then retE r
     else if a = 3 then raiseE (webshare_rate_limit_error ''Webshare returned 429 after 3 retries'')
     else thenE (sleep E (case retry_after E r of Some t \<Rightarrow> t | None \<Rightarrow> seconds (2 ^ a))) (attempts E c as))"

definition request :: "'w webshare_env \<Rightarrow> string \<Rightarrow> string \<Rightarrow> bool option \<Rightarrow> pyval dict option \<Rightarrow> pyval dict option \<Rightarrow>
    string dict option \<Rightarrow> string list \<Rightarrow> ('w, webshare_response) webshare" where
  "request E http_method path dry_run params json extra_headers options =
     (let normalized_method = py_upper http_method in
     bindE (liftE (url_path path)) (\<lambda>u.
     (let normalized_path = unquote (ul_path u) in
     thenE (liftE (require (list_all (\<lambda>k. k \<notin> {''force'', ''override'', ''bypass''}) options)
              (webshare_guard_error ''force/override/bypass options are not supported'')))
     (thenE (liftE (require (\<forall>k\<in>set (dict_keys (case extra_headers of None \<Rightarrow> [] | Some h \<Rightarrow> h)). lower k \<noteq> ''authorization'')
              (webshare_guard_error ''authorization header cannot be overridden'')))
     (thenE (liftE (guard normalized_method normalized_path dry_run))
     (thenE (acquire E ws_general ws_general_update)
     (thenE (if contains_sub normalized_path ''/proxy/'' then acquire E ws_proxy ws_proxy_update else retE ())
     (bindE (liftE (case urljoin (we_base_url E) (dropWhile (\<lambda>c. c = CHR ''/'') normalized_path) of
          Inl m \<Rightarrow> Inl (value_error m) | Inr url \<Rightarrow> Inr url)) (\<lambda>url.
      attempts E \<lparr>wc_method = normalized_method, wc_url = url,
        wc_headers = dict_merge [(''Authorization'', ''Token '' @ we_api_key E)] (case extra_headers of None \<Rightarrow> [] | Some h \<Rightarrow> h),
        wc_params = params, wc_json = json\<rparr> [0..<4])))))))))"

section \<open>Pagination\<close>

definition query_dict :: "string \<Rightarrow> pyval dict" where
  "query_dict query = foldl (\<lambda>d (k, v). dict_set d k (VStr v)) [] (parse_qsl query)"

text \<open>One page: its items and the path and parameters of the next one.\<close>

definition read_page :: "exn + pyval \<Rightarrow> exn + pyval dict list \<times> (string \<times> pyval dict option) option" where
  "read_page json =
     bindS json (\<lambda>v.
     (let malformed = webshare_contract_error ''Webshare paginated response is malformed'' in
     bindS (as_mapping v malformed) (\<lambda>payload.
     thenS (require (is_list (vget payload ''results'')) malformed)
     (bindS (mapS (\<lambda>item. as_mapping item (webshare_contract_error ''Webshare result item is malformed''))
               (list_items (vget payload ''results''))) (\<lambda>items.
     (let next_value = vget payload ''next'' in
      if truthy next_value then bindS (url_path (py_str next_value)) (\<lambda>u.
        Inr (items, Some (ul_path u, Some (query_dict (ul_query u)))))
      else Inr (items, None)))))))"

text \<open>
  \<open>_paginate\<close>, a loop that ends when a page has no next path; \<open>None\<close> is a loop that does not end.
\<close>

partial_function (option) pages ::
  "'w webshare_env \<Rightarrow> string dict option \<Rightarrow> string \<Rightarrow> pyval dict option \<Rightarrow> pyval dict list \<Rightarrow> 'w webshare_state \<Rightarrow>
   ((exn + pyval dict list) \<times> 'w webshare_state) option" where
  "pages E extra_headers path params results s =
     (if path = [] then Some (Inr results, s) else
      (case request E ''GET'' path None params None extra_headers [] s of
         (Inl exc, t) \<Rightarrow> Some (Inl exc, t)
       | (Inr response, t) \<Rightarrow> (case read_page (wr_json response) of
           Inl exc \<Rightarrow> Some (Inl exc, t)
         | Inr (items, None) \<Rightarrow> Some (Inr (results @ items), t)
         | Inr (items, Some (p, q)) \<Rightarrow> pages E extra_headers p q (results @ items) t)))"

definition paginate :: "'w webshare_env \<Rightarrow> string \<Rightarrow> pyval dict option \<Rightarrow> string dict option \<Rightarrow> 'w webshare_state \<Rightarrow>
    ((exn + pyval dict list) \<times> 'w webshare_state) option" where
  "paginate E path params extra_headers s = pages E extra_headers path params [] s"

section \<open>Responses\<close>

definition required_string :: "pyval dict \<Rightarrow> string \<Rightarrow> string \<Rightarrow> exn + string" where
  "required_string item field operation =
     nonblank_string (vget item field) (webshare_contract_error (operation @ '' field '' @ py_repr field @ '' is missing or malformed''))"

definition parse_endpoint :: "pyval dict \<Rightarrow> exn + egress_endpoint_dto" where
  "parse_endpoint item =
     bindS (required_string item ''id'' ''proxy endpoint'') (\<lambda>endpoint_id.
     bindS (required_string item ''proxy_address'' ''proxy endpoint'') (\<lambda>host.
     (let invalid = Inl (webshare_contract_error (''proxy endpoint field '' @ py_repr ''port'' @ '' is missing or malformed'')) in
      case vget item ''port'' of
        VInt port \<Rightarrow> if 1 \<le> port \<and> port \<le> 65535
          then Inr \<lparr>ep_endpoint_id = endpoint_id, ep_host = host, ep_port = port, ep_protocol = ''socks5'', ep_public_ip = Some host\<rparr>
          else invalid
      | _ \<Rightarrow> invalid)))"

text \<open>\<open>Decimal(text)\<close> of a finite number; the others are refused by the caller with the same error.\<close>

definition read_exponent :: "string \<Rightarrow> int option" where
  "read_exponent s = (let digits = (if s \<noteq> [] \<and> hd s \<in> set ''+-'' then tl s else s) in
     if digits = [] \<or> \<not> list_all is_ascii_digit digits then None
     else map_option (\<lambda>n. (if hd s = CHR ''-'' then - int n else int n)) (read_digits 0 digits))"

definition read_decimal :: "string \<Rightarrow> decimal option" where
  "read_decimal number =
     (let s = filter (\<lambda>c. c \<noteq> CHR ''_'') (strip number);
          negative = (s \<noteq> [] \<and> hd s = CHR ''-'');
          s = (if s \<noteq> [] \<and> hd s \<in> set ''+-'' then tl s else s);
          mantissa = takeWhile (\<lambda>c. c \<notin> set ''eE'') s;
          rest = dropWhile (\<lambda>c. c \<notin> set ''eE'') s;
          (whole, fraction) = split_once (CHR ''.'') mantissa in
      if (whole = [] \<and> fraction = []) \<or> \<not> list_all is_ascii_digit (whole @ fraction) then None
      else (case (if rest = [] then Some 0 else read_exponent (tl rest), read_digits 0 (whole @ fraction)) of
          (Some e, Some n) \<Rightarrow> Some (Dec (if negative then - int n else int n) (e - int (length fraction)))
        | _ \<Rightarrow> None))"

definition parse_tenant :: "exn + pyval \<Rightarrow> exn + tenant_dto" where
  "parse_tenant json =
     (let malformed = (\<lambda>field. webshare_contract_error (''Webshare sub-user field '' @ py_repr field @ '' is missing or malformed'')) in
     bindS json (\<lambda>v.
     bindS (as_mapping v (webshare_contract_error ''Webshare sub-user response is malformed'')) (\<lambda>payload.
     bindS (case vget payload ''id'' of VInt i \<Rightarrow> Inr i | _ \<Rightarrow> Inl (malformed ''id'')) (\<lambda>tenant_id.
     bindS (required_string payload ''label'' ''sub-user'') (\<lambda>label.
     bindS (case vget payload ''proxy_limit'' of VInt n \<Rightarrow> Inr (show_int n) | VStr s \<Rightarrow> Inr s
            | _ \<Rightarrow> Inl (malformed ''proxy_limit'')) (\<lambda>proxy_limit.
     bindS (case vget payload ''max_thread_count'' of VInt n \<Rightarrow> Inr n | _ \<Rightarrow> Inl (malformed ''max_thread_count'')) (\<lambda>thread_limit.
     (case read_decimal proxy_limit of
        None \<Rightarrow> Inl (malformed ''proxy_limit'')
      | Some quota_gb \<Rightarrow> if dec_lt quota_gb (Dec 0 0) then Inl (malformed ''proxy_limit'')
          else Inr \<lparr>tn_tenant_id = show_int tenant_id, tn_label = label, tn_quota_gb = quota_gb,
            tn_thread_limit = thread_limit\<rparr>))))))))"

section \<open>The provider's operations\<close>

definition list_parameters :: "pyval dict" where
  "list_parameters = [(''mode'', VStr ''direct''), (''page_size'', VInt 100)]"

definition list_endpoints :: "'w webshare_env \<Rightarrow> 'w webshare_state \<Rightarrow> ((exn + egress_endpoint_dto list) \<times> 'w webshare_state) option" where
  "list_endpoints E s = map_option (\<lambda>(r, t). (bindS r (mapS parse_endpoint), t))
     (paginate E ''/api/v2/proxy/list/'' (Some list_parameters) None s)"

definition webshare_capacity :: "exn + capacity_dto" where
  "webshare_capacity = Inl (webshare_contract_error (''capacity mapping is gated: Webshare does not expose the DTO'' @
     [CHR 0x27] @ ''s allocated_gb and reserved_gb fields in the recorded contract''))"

definition webshare_tenant_usage :: "string \<Rightarrow> exn + usage_dto" where
  "webshare_tenant_usage tenant_id = Inl (webshare_contract_error (''tenant usage mapping is gated: the recorded Webshare aggregate-stats '' @
     ''contract does not establish a byte unit for UsageDTO''))"

definition webshare_create_tenant :: "'w webshare_env \<Rightarrow> string \<Rightarrow> decimal \<Rightarrow> int \<Rightarrow> ('w, tenant_dto) webshare" where
  "webshare_create_tenant E label quota_gb thread_limit =
     bindE (request E ''POST'' ''/api/v2/subuser/'' None None (Some [(''label'', VStr label),
        (''proxy_limit'', we_json_float E quota_gb), (''max_thread_count'', VInt thread_limit)]) None []) (\<lambda>response.
     liftE (parse_tenant (wr_json response)))"

definition webshare_update_tenant_quota :: "'w webshare_env \<Rightarrow> string \<Rightarrow> decimal \<Rightarrow> ('w, tenant_dto) webshare" where
  "webshare_update_tenant_quota E tenant_id quota_gb =
     bindE (request E ''PATCH'' (''/api/v2/subuser/'' @ tenant_id @ ''/'') None None
        (Some [(''proxy_limit'', we_json_float E quota_gb)]) None []) (\<lambda>response.
     liftE (parse_tenant (wr_json response)))"

definition find_credentials :: "string \<Rightarrow> pyval dict list \<Rightarrow> exn + credential_dto" where
  "find_credentials endpoint_id payloads = (case find (\<lambda>item. py_eq (vget item ''id'') (VStr endpoint_id)) payloads of
     None \<Rightarrow> Inl (webshare_contract_error ''proxy endpoint was not found for credentials'')
   | Some item \<Rightarrow>
       bindS (required_string item ''username'' ''proxy credential'') (\<lambda>username.
       bindS (required_string item ''password'' ''proxy credential'') (\<lambda>password.
       Inr \<lparr>cr_username = username, cr_password = password\<rparr>)))"

definition webshare_get_credentials :: "'w webshare_env \<Rightarrow> string \<Rightarrow> string \<Rightarrow> 'w webshare_state \<Rightarrow>
    ((exn + credential_dto) \<times> 'w webshare_state) option" where
  "webshare_get_credentials E tenant_id endpoint_id s = map_option (\<lambda>(r, t). (bindS r (find_credentials endpoint_id), t))
     (paginate E ''/api/v2/proxy/list/'' (Some list_parameters) (Some [(''X-Subuser'', tenant_id)]) s)"

definition replace_endpoint :: "'w webshare_env \<Rightarrow> string \<Rightarrow> bool \<Rightarrow> ('w, string \<times> bool) webshare" where
  "replace_endpoint E endpoint_id dry_run =
     bindE (request E ''POST'' (''/api/v3/proxy/replace/'' @ endpoint_id @ ''/'') (Some dry_run) None None None []) (\<lambda>_.
     retE (endpoint_id, dry_run))"

section \<open>The procurement facade\<close>

fun redact_payload :: "pyval \<Rightarrow> pyval" where
  "redact_payload (VMap d) = VMap (map (\<lambda>(k, v). (k,
     if list_ex (contains_sub (lower k)) [''password'', ''username'', ''token'', ''api_key'', ''secret'']
     then VStr ''<redacted>'' else redact_payload v)) d)"
| "redact_payload (VList vs) = VList (map redact_payload vs)"
| "redact_payload v = v"

definition procurement_path :: "string \<Rightarrow> exn + string" where
  "procurement_path path = bindS (url_path path) (\<lambda>u.
     (let normalized = unquote (ul_path u) in
      Inr (if startswith normalized ''/api/'' then normalized
           else (if startswith normalized ''/proxy/config'' \<or> startswith normalized ''/proxy/replace'' then ''/api/v3'' else ''/api/v2'') @
             ''/'' @ dropWhile (\<lambda>c. c = CHR ''/'') normalized)))"

definition merge_query_params :: "string \<Rightarrow> pyval dict option \<Rightarrow> pyval dict option" where
  "merge_query_params query params =
     (let merged = dict_merge (query_dict query) (case params of None \<Rightarrow> [] | Some p \<Rightarrow> p) in
      if merged = [] then None else Some merged)"

text \<open>An API error carries its message; its payload is the redacted one.\<close>

definition request_json :: "'w webshare_env \<Rightarrow> string \<Rightarrow> string \<Rightarrow> pyval dict option \<Rightarrow> pyval dict option \<Rightarrow> ('w, pyval) webshare" where
  "request_json E http_method path params json_body =
     bindE (liftE (url_path path)) (\<lambda>parsed_url.
     bindE (liftE (procurement_path path)) (\<lambda>normalized_path.
     (let normalized_method = py_upper http_method;
          dry_run = map_option (\<lambda>body. vget body ''dry_run'' = VBool True) json_body in
     thenE (liftE (require (normalized_method = ''GET'' \<or> (normalized_method = ''POST'' \<and>
              startswith normalized_path ''/api/v3/proxy/replace/'' \<and> dry_run = Some True))
              (webshare_guard_error ''procurement adapter permits GET and dry_run replacement only'')))
     (bindE (request E normalized_method normalized_path dry_run (merge_query_params (ul_query parsed_url) params) json_body None []) (\<lambda>response.
      bindE (liftE (wr_json response)) (\<lambda>payload.
      if 400 \<le> wr_status_code response
      then raiseE (Exn (OtherException ''WebshareApiError'') (''Webshare API HTTP '' @ show_int (wr_status_code response)))
      else retE payload))))))"

text \<open>The facade's own loop over pages; anything it does not understand is skipped.\<close>

definition mappings :: "pyval \<Rightarrow> pyval dict list" where
  "mappings page = List.map_filter (\<lambda>item. case item of VMap d \<Rightarrow> Some d | _ \<Rightarrow> None) (list_items page)"

partial_function (option) facade_pages ::
  "'w webshare_env \<Rightarrow> string \<Rightarrow> pyval dict \<Rightarrow> pyval dict list \<Rightarrow> 'w webshare_state \<Rightarrow>
   ((exn + pyval dict list) \<times> 'w webshare_state) option" where
  "facade_pages E path query results s =
     (if path = [] then Some (Inr results, s) else
      (case request_json E ''GET'' path (Some query) None s of
         (Inl exc, t) \<Rightarrow> Some (Inl exc, t)
       | (Inr payload, t) \<Rightarrow> (case payload of
           VMap d \<Rightarrow> (if truthy (vget d ''next'')
             then facade_pages E (py_str (vget d ''next'')) [] (results @ mappings (vget d ''results'')) t
             else Some (Inr (results @ mappings (vget d ''results'')), t))
         | _ \<Rightarrow> Some (Inr results, t))))"

definition facade_paginate :: "'w webshare_env \<Rightarrow> string \<Rightarrow> pyval dict option \<Rightarrow> 'w webshare_state \<Rightarrow>
    ((exn + pyval dict list) \<times> 'w webshare_state) option" where
  "facade_paginate E path params s = facade_pages E path (case params of None \<Rightarrow> [] | Some p \<Rightarrow> p) [] s"

end
