(* ===== verification/Webshare_Limiter.thy ===== *)
theory Webshare_Limiter
  imports Webshare
begin

text \<open>
  The sliding window and what a request sends. The locale \<open>limiter\<close> is the interface of a limiter
  in the state of the client; it is interpreted for both of the client's limiters.
\<close>

section \<open>The slots of the two limiters\<close>

locale limiter =
  fixes get :: "'w webshare_state \<Rightarrow> sliding_window_limiter"
    and upd :: "(sliding_window_limiter \<Rightarrow> sliding_window_limiter) \<Rightarrow> 'w webshare_state \<Rightarrow> 'w webshare_state"
  assumes get_upd: "get (upd f s) = f (get s)"
    and get_clock: "get (s\<lparr>ws_now := n, ws_reading := k\<rparr>) = get s"
    and upd_keeps: "ws_sent (upd f s) = ws_sent s" "ws_service (upd f s) = ws_service s" "ws_now (upd f s) = ws_now s"
begin

lemmas slot = get_upd get_clock upd_keeps

text \<open>Taking a slot sends nothing.\<close>

lemma acquire_sends_nothing:
  "ws_sent (snd (acquire E get upd s)) = ws_sent s \<and> ws_service (snd (acquire E get upd s)) = ws_service s"
  by (simp add: acquire_def clock_def sleep_def eff_defs expire_def Let_def slot split: list.split)

text \<open>
  \<open>window_ok h s\<close>: \<open>h\<close> are the times of all slots taken, the limiter remembers the last of them,
  and the forgotten ones have left the window.
\<close>

definition window_ok :: "int list \<Rightarrow> 'w webshare_state \<Rightarrow> bool" where
  "window_ok h s \<longleftrightarrow> (\<exists>old. h = old @ sl_events (get s) \<and> (\<forall>e\<in>set old. e \<le> ws_now s - sl_window_seconds (get s))) \<and>
     sorted h \<and> (\<forall>e\<in>set h. e \<le> ws_now s) \<and> int (length (sl_events (get s))) \<le> sl_limit (get s)"

text \<open>Slots that are a whole limit apart are a window apart.\<close>

definition spaced :: "int \<Rightarrow> int \<Rightarrow> int list \<Rightarrow> bool" where
  "spaced limit window h \<longleftrightarrow> (\<forall>i. i + nat limit < length h \<longrightarrow> h ! i + window \<le> h ! (i + nat limit))"

lemma window_ok_expire:
  assumes "window_ok h s" and "ws_now s \<le> n"
  shows "window_ok h (upd (expire n) (s\<lparr>ws_now := n, ws_reading := k\<rparr>))"
proof -
  from assms(1) obtain old where h: "h = old @ sl_events (get s)"
    and old: "\<forall>e\<in>set old. e \<le> ws_now s - sl_window_seconds (get s)" by (auto simp: window_ok_def)
  let ?P = "\<lambda>e. e \<le> n - sl_window_seconds (get s)"
  let ?u = "upd (expire n) (s\<lparr>ws_now := n, ws_reading := k\<rparr>)"
  have u: "get ?u = expire n (get s)" "ws_now ?u = n" by (simp_all add: slot)
  have "h = (old @ takeWhile ?P (sl_events (get s))) @ sl_events (get ?u)" unfolding u by (simp add: h expire_def)
  moreover have "\<forall>e\<in>set (old @ takeWhile ?P (sl_events (get s))). e \<le> ws_now ?u - sl_window_seconds (get ?u)"
    using old assms(2) by (auto simp: u expire_def dest: set_takeWhileD)
  ultimately have 1: "\<exists>old. h = old @ sl_events (get ?u) \<and> (\<forall>e\<in>set old. e \<le> ws_now ?u - sl_window_seconds (get ?u))" by blast
  have "length (sl_events (get ?u)) \<le> length (sl_events (get s))"
    unfolding u by (simp add: expire_def length_dropWhile_le)
  then have 2: "int (length (sl_events (get ?u))) \<le> sl_limit (get ?u)"
    using assms(1) by (simp add: window_ok_def u expire_def)
  have 3: "\<forall>e\<in>set h. e \<le> ws_now ?u" using assms by (auto simp: window_ok_def u)
  show ?thesis unfolding window_ok_def using 1 2 3 assms(1) window_ok_def by blast
qed

lemma window_ok_append:
  assumes "window_ok h s" and "spaced (sl_limit (get s)) (sl_window_seconds (get s)) h"
    and "int (length (sl_events (get s))) < sl_limit (get s)"
  shows "window_ok (h @ [ws_now s]) (upd (\<lambda>l. l\<lparr>sl_events := sl_events l @ [ws_now s]\<rparr>) s) \<and>
    spaced (sl_limit (get s)) (sl_window_seconds (get s)) (h @ [ws_now s])"
proof -
  from assms(1) obtain old where h: "h = old @ sl_events (get s)"
    and old: "\<forall>e\<in>set old. e \<le> ws_now s - sl_window_seconds (get s)" by (auto simp: window_ok_def)
  have "window_ok (h @ [ws_now s]) (upd (\<lambda>l. l\<lparr>sl_events := sl_events l @ [ws_now s]\<rparr>) s)"
    using assms(1,3) by (auto simp: window_ok_def slot sorted_append)
  moreover have "(h @ [ws_now s]) ! i + sl_window_seconds (get s) \<le> (h @ [ws_now s]) ! (i + nat (sl_limit (get s)))"
    if i: "i + nat (sl_limit (get s)) < length (h @ [ws_now s])" for i
  proof (cases "i + nat (sl_limit (get s)) < length h")
    case True
    then show ?thesis using assms(2) by (simp add: spaced_def nth_append)
  next
    case False
    then have eq: "i + nat (sl_limit (get s)) = length h" using i by simp
    then have "i < length old" using assms(3) by (simp add: h)
    then have "h ! i \<le> ws_now s - sl_window_seconds (get s)" using old by (simp add: h nth_append)
    then show ?thesis using eq \<open>i < length old\<close> by (simp add: nth_append h)
  qed
  ultimately show ?thesis by (simp add: spaced_def)
qed

text \<open>Forgetting the first event makes room.\<close>

lemma expire_shorter:
  assumes "sl_events l = first # rest" and "first \<le> n - sl_window_seconds l"
  shows "length (sl_events (expire n l)) < length (sl_events l)"
  using assms length_dropWhile_le [of "\<lambda>e. e \<le> n - sl_window_seconds l" rest] by (simp add: expire_def)

text \<open>\<open>acquire\<close> takes a slot at a time that the history records.\<close>

definition taken :: "int list \<Rightarrow> 'w webshare_state \<Rightarrow> 'w webshare_state \<Rightarrow> bool" where
  "taken h s u \<longleftrightarrow> sl_limit (get u) = sl_limit (get s) \<and> sl_window_seconds (get u) = sl_window_seconds (get s) \<and>
     sl_events (get u) \<noteq> [] \<and> window_ok (h @ [last (sl_events (get u))]) u \<and>
     spaced (sl_limit (get s)) (sl_window_seconds (get s)) (h @ [last (sl_events (get u))])"

lemma taken_append:
  assumes "window_ok h t" and "spaced (sl_limit (get t)) (sl_window_seconds (get t)) h"
    and "int (length (sl_events (get t))) < sl_limit (get t)" and "ws_now t = now"
    and "sl_limit (get t) = sl_limit (get s)" "sl_window_seconds (get t) = sl_window_seconds (get s)"
  shows "taken h s (upd (\<lambda>l. l\<lparr>sl_events := sl_events l @ [now]\<rparr>) t)"
  using window_ok_append [OF assms(1-3)] assms(4-6) by (simp add: taken_def slot)

lemma expire_keeps: "sl_limit (expire n l) = sl_limit l" "sl_window_seconds (expire n l) = sl_window_seconds l"
  by (simp_all add: expire_def)

lemma acquire_takes:
  assumes ok: "window_ok h s" "spaced (sl_limit (get s)) (sl_window_seconds (get s)) h" "0 < sl_limit (get s)"
  shows "\<exists>u. acquire E get upd s = (Inr (), u) \<and> taken h s u"
proof -
  define now where "now = ws_now s + int (we_delay E (ws_reading s))"
  define t where "t = upd (expire now) (s\<lparr>ws_now := now, ws_reading := Suc (ws_reading s)\<rparr>)"
  have t: "window_ok h t" unfolding t_def by (rule window_ok_expire [OF ok(1)]) (simp add: now_def)
  have get_t: "get t = expire now (get s)" "ws_now t = now" by (simp_all add: t_def slot)
  show ?thesis
  proof (cases "sl_limit (get t) \<le> int (length (sl_events (get t)))")
    case False
    then have "acquire E get upd s = (Inr (), upd (\<lambda>l. l\<lparr>sl_events := sl_events l @ [now]\<rparr>) t)"
      by (simp add: acquire_def clock_def eff_defs Let_def now_def [symmetric] t_def [symmetric])
    moreover have "taken h s (upd (\<lambda>l. l\<lparr>sl_events := sl_events l @ [now]\<rparr>) t)"
      using t ok(2) False by (intro taken_append) (simp_all add: get_t expire_keeps)
    ultimately show ?thesis by blast
  next
    case True
    then obtain first rest where ev: "sl_events (get t) = first # rest"
      using ok(3) by (cases "sl_events (get t)") (simp_all add: get_t expire_keeps)
    define d where "d = max (sl_window_seconds (get t) - (now - first)) 0"
    define t2 where "t2 = snd (sleep E d t)"
    define now' where "now' = ws_now t2 + int (we_delay E (ws_reading t2))"
    define t3 where "t3 = upd (expire now') (t2\<lparr>ws_now := now', ws_reading := Suc (ws_reading t2)\<rparr>)"
    have t2: "t2 = t\<lparr>ws_now := ws_now t2, ws_reading := ws_reading t2\<rparr>" by (simp add: t2_def sleep_def)
    have later: "now + d \<le> now'" by (simp add: now'_def t2_def sleep_def get_t)
    have t3': "t3 = upd (expire now') (t\<lparr>ws_now := now', ws_reading := Suc (ws_reading t2)\<rparr>)"
      unfolding t3_def by (subst t2) simp
    have "window_ok h t3" unfolding t3' by (rule window_ok_expire [OF t]) (use later in \<open>simp add: d_def get_t\<close>)
    moreover have get_t3: "get t3 = expire now' (get t)" "ws_now t3 = now'" by (simp_all add: t3' slot)
    moreover have "first \<le> now' - sl_window_seconds (get t)" using later by (simp add: d_def)
    then have "length (sl_events (get t3)) < length (sl_events (get t))"
      unfolding get_t3 by (rule expire_shorter [OF ev])
    then have "int (length (sl_events (get t3))) < sl_limit (get t3)"
      using t by (simp add: window_ok_def get_t3 expire_keeps)
    ultimately have "taken h s (upd (\<lambda>l. l\<lparr>sl_events := sl_events l @ [now']\<rparr>) t3)"
      using ok(2) by (intro taken_append) (simp_all add: get_t expire_keeps)
    moreover have "acquire E get upd s = (Inr (), upd (\<lambda>l. l\<lparr>sl_events := sl_events l @ [now']\<rparr>) t3)"
      using True by (simp add: acquire_def eff_defs Let_def ev clock_def [of E s] now_def [symmetric] t_def [symmetric]
        d_def [symmetric], simp add: eff_defs Let_def clock_def sleep_def t2_def now'_def t3_def)
    ultimately show ?thesis by blast
  qed
qed

end

section \<open>The two limiters\<close>

interpretation general: limiter ws_general ws_general_update
  by unfold_locales simp_all

interpretation proxy: limiter ws_proxy ws_proxy_update
  by unfold_locales simp_all

text \<open>The times at which \<open>n\<close> slots are taken one after the other.\<close>

fun acquire_times :: "'w webshare_env \<Rightarrow> ('w webshare_state \<Rightarrow> sliding_window_limiter) \<Rightarrow>
    ((sliding_window_limiter \<Rightarrow> sliding_window_limiter) \<Rightarrow> 'w webshare_state \<Rightarrow> 'w webshare_state) \<Rightarrow>
    nat \<Rightarrow> 'w webshare_state \<Rightarrow> int list" where
  "acquire_times E get upd 0 s = []"
| "acquire_times E get upd (Suc n) s = (case acquire E get upd s of
     (Inr _, t) \<Rightarrow> last (sl_events (get t)) # acquire_times E get upd n t | _ \<Rightarrow> [])"

context limiter begin

lemma acquire_times_spaced:
  assumes "window_ok h s" and "spaced (sl_limit (get s)) (sl_window_seconds (get s)) h" and "0 < sl_limit (get s)"
  shows "length (acquire_times E get upd n s) = n \<and>
    spaced (sl_limit (get s)) (sl_window_seconds (get s)) (h @ acquire_times E get upd n s)"
  using assms
proof (induction n arbitrary: h s)
  case (Suc n)
  obtain u where u: "acquire E get upd s = (Inr (), u)" "taken h s u" using acquire_takes [OF Suc.prems] by blast
  from u(2) have l: "sl_limit (get u) = sl_limit (get s)" "sl_window_seconds (get u) = sl_window_seconds (get s)"
    and ok: "window_ok (h @ [last (sl_events (get u))]) u"
      "spaced (sl_limit (get s)) (sl_window_seconds (get s)) (h @ [last (sl_events (get u))])"
    by (simp_all add: taken_def)
  show ?case using Suc.IH [of "h @ [last (sl_events (get u))]" u, unfolded l, OF ok Suc.prems(3)] u(1) by simp
qed simp

lemma fresh_window: "sl_events (get s) = [] \<Longrightarrow> 0 < sl_limit (get s) \<Longrightarrow> window_ok [] s"
  by (simp add: window_ok_def)

lemma spaced_Nil: "spaced limit window []"
  by (simp add: spaced_def)

lemma fresh_times_spaced:
  assumes "sl_events (get s) = []" and "0 < sl_limit (get s)"
  shows "length (acquire_times E get upd n s) = n \<and> (\<forall>i. i + nat (sl_limit (get s)) < n \<longrightarrow>
    acquire_times E get upd n s ! i + sl_window_seconds (get s) \<le> acquire_times E get upd n s ! (i + nat (sl_limit (get s))))"
  using acquire_times_spaced [OF fresh_window [OF assms] spaced_Nil assms(2), of E n] by (simp add: spaced_def)

end

end
