(* ===== verification/Webshare_Properties.thy ===== *)
theory Webshare_Properties
  imports Webshare_Limiter Mihomo_Projection_Properties
begin

text \<open>
  Properties of the Webshare client: what reaches the transport, how far apart the slots of a
  limiter are, and when the loop over pages returns.
\<close>

section \<open>What a request sends\<close>

lemma dict_get_merge_other:
  "k \<notin> set (dict_keys e) \<Longrightarrow> dict_get (dict_merge d e) k = dict_get d k"
  unfolding dict_merge_def by (induction e arbitrary: d) (auto simp: update_conv')

lemma bind_Inr: "bindE (liftE (Inr x)) f = f x"
  by (rule ext) (simp add: eff_defs)

lemma attempts_send:
  assumes "attempts E c as s = (r, t)"
  shows "\<exists>n \<le> length as. ws_sent t = ws_sent s @ replicate n c \<and> (as \<noteq> [] \<longrightarrow> 0 < n) \<and>
    (\<forall>a. r = Inr a \<longrightarrow> wr_status_code a \<noteq> 429)"
  using assms
proof (induction as arbitrary: s)
  case Nil
  then show ?case by (auto simp: eff_defs)
next
  case (Cons k as)
  obtain r' w where call: "we_transport E c (ws_service s) = (r', w)" by fastforce
  define u where "u = s\<lparr>ws_sent := ws_sent s @ [c], ws_service := w\<rparr>"
  show ?case
  proof (cases r')
    case (Inl e)
    then show ?thesis using Cons.prems by (intro exI [of _ 1]) (auto simp: eff_defs transport_call_def call)
  next
    case (Inr a)
    consider (answer) "wr_status_code a \<noteq> 429" | (last) "wr_status_code a = 429" "k = 3"
      | (again) "wr_status_code a = 429" "k \<noteq> 3" by blast
    then show ?thesis
    proof cases
      case answer
      then show ?thesis using Cons.prems Inr by (intro exI [of _ 1]) (auto simp: eff_defs transport_call_def call)
    next
      case last
      then show ?thesis using Cons.prems Inr by (intro exI [of _ 1]) (auto simp: eff_defs transport_call_def call)
    next
      case again
      let ?d = "case retry_after E a of Some t \<Rightarrow> t | None \<Rightarrow> seconds (2 ^ k)"
      from Cons.prems Inr again have "attempts E c as (snd (sleep E ?d u)) = (r, t)"
        by (simp add: eff_defs transport_call_def call u_def sleep_def)
      from Cons.IH [OF this] obtain n where "n \<le> length as" "ws_sent t = ws_sent u @ replicate n c"
        "\<forall>a. r = Inr a \<longrightarrow> wr_status_code a \<noteq> 429" by (auto simp: sleep_def)
      then show ?thesis by (intro exI [of _ "Suc n"]) (auto simp: u_def)
    qed
  qed
qed

text \<open>The writes the policy lets through.\<close>

lemma guard_allows:
  assumes "guard http_method path dry_run = Inr ()" and "http_method \<noteq> ''GET''"
  shows "(\<forall>f\<in>set forbidden_paths. \<not> contains_sub path f) \<and>
    (http_method = ''POST'' \<and> path = ''/api/v2/subuser/'' \<or>
     http_method \<in> {''PATCH'', ''PUT''} \<and> (\<exists>i. i \<noteq> [] \<and> CHR ''/'' \<notin> set i \<and> path = ''/api/v2/subuser/'' @ i @ ''/'') \<or>
     http_method = ''POST'' \<and> dry_run = Some True \<and> (\<exists>i. i \<noteq> [] \<and> path = ''/api/v3/proxy/replace/'' @ i))"
proof -
  have split: "\<exists>rest. path = p @ rest" if "startswith path p" for p
    using that by (induction path p rule: startswith.induct) auto
  have sub: "\<exists>i. i \<noteq> [] \<and> CHR ''/'' \<notin> set i \<and> path = ''/api/v2/subuser/'' @ i @ ''/''" if p: "is_subuser path"
  proof -
    from p split [of "''/api/v2/subuser/''"] obtain rest where rest: "path = ''/api/v2/subuser/'' @ rest"
      by (auto simp: is_subuser_def Let_def)
    with p have "2 \<le> length rest" "last rest = CHR ''/''" "CHR ''/'' \<notin> set (butlast rest)"
      by (auto simp: is_subuser_def Let_def)
    then have "rest = butlast rest @ ''/''" using append_butlast_last_id [of rest] by fastforce
    moreover have "butlast rest \<noteq> []" using \<open>2 \<le> length rest\<close> by (cases rest) auto
    ultimately show ?thesis using rest \<open>CHR ''/'' \<notin> set (butlast rest)\<close> by (intro exI [of _ "butlast rest"]) simp
  qed
  have repl: "\<exists>i. i \<noteq> [] \<and> path = ''/api/v3/proxy/replace/'' @ i" if p: "is_dry_replacement path"
    using p split [of "''/api/v3/proxy/replace/''"] by (auto simp: is_dry_replacement_def Let_def)
  show ?thesis using assms sub repl
    by (auto simp: guard_def list_ex_iff split: if_splits)
qed

text \<open>The token of a call is the client's.\<close>

lemma merged_token:
  assumes "\<forall>k\<in>set (dict_keys h). lower k \<noteq> ''authorization''"
  shows "dict_get (dict_merge [(''Authorization'', token)] h) ''Authorization'' = Some token"
proof -
  have "lower ''Authorization'' = ''authorization''" by code_simp
  then have "''Authorization'' \<notin> set (dict_keys h)" using assms by auto
  then show ?thesis by (simp add: dict_get_merge_other)
qed

definition request_call :: "'w webshare_env \<Rightarrow> string \<Rightarrow> string \<Rightarrow> pyval dict option \<Rightarrow> pyval dict option \<Rightarrow>
    string dict option \<Rightarrow> webshare_call" where
  "request_call E m url params json h = \<lparr>wc_method = py_upper m, wc_url = url,
     wc_headers = dict_merge [(''Authorization'', ''Token '' @ we_api_key E)] (case h of None \<Rightarrow> [] | Some x \<Rightarrow> x),
     wc_params = params, wc_json = json\<rparr>"

lemma request_cases:
  assumes "request E m path dry params json h opts s = (r, t)"
  shows "(\<exists>e. r = Inl e \<and> ws_sent t = ws_sent s \<and> ws_service t = ws_service s) \<or>
    (\<exists>u url w. urlsplit path = Inr u \<and> guard (py_upper m) (unquote (ul_path u)) dry = Inr () \<and>
       (\<forall>k\<in>set (dict_keys (case h of None \<Rightarrow> [] | Some x \<Rightarrow> x)). lower k \<noteq> ''authorization'') \<and>
       urljoin (we_base_url E) (dropWhile (\<lambda>c. c = CHR ''/'') (unquote (ul_path u))) = Inr url \<and>
       ws_sent w = ws_sent s \<and> ws_service w = ws_service s \<and>
       attempts E (request_call E m url params json h) [0..<4] w = (r, t))"
proof -
  note keep = general.acquire_sends_nothing proxy.acquire_sends_nothing
  show ?thesis
  proof (cases "urlsplit path")
    case (Inl msg)
    then show ?thesis using assms by (auto simp: request_def Let_def url_path_def eff_defs)
  next
    case (Inr u)
    let ?p = "unquote (ul_path u)" let ?h = "case h of None \<Rightarrow> [] | Some x \<Rightarrow> x"
    show ?thesis
    proof (cases "list_all (\<lambda>k. k \<notin> {''force'', ''override'', ''bypass''}) opts \<and>
        (\<forall>k\<in>set (dict_keys ?h). lower k \<noteq> ''authorization'') \<and> guard (py_upper m) ?p dry = Inr ()")
      case False
      then have "\<exists>e. r = Inl e \<and> t = s" using assms
        by (cases "guard (py_upper m) ?p dry")
          (auto simp: request_def Let_def url_path_def Inr eff_defs require_def simp del: list_all_iff split: if_splits)
      then show ?thesis by blast
    next
      case True
      obtain a v where v: "acquire E ws_general ws_general_update s = (a, v)" by fastforce
      then have sv: "ws_sent v = ws_sent s" "ws_service v = ws_service s" using keep(1) [of E s] by simp_all
      define proxy_slot where
        "proxy_slot = (if contains_sub ?p ''/proxy/'' then acquire E ws_proxy ws_proxy_update else retE ())"
      obtain b w where w: "proxy_slot v = (b, w)" by fastforce
      then have sw: "ws_sent w = ws_sent s" "ws_service w = ws_service s"
        using keep(2) [of E v] sv by (auto simp: eff_defs proxy_slot_def split: if_splits)
      let ?url = "urljoin (we_base_url E) (dropWhile (\<lambda>c. c = CHR ''/'') ?p)"
      have run: "request E m path dry params json h opts s = (case a of Inl e \<Rightarrow> (Inl e, v) | Inr _ \<Rightarrow>
          (case b of Inl e \<Rightarrow> (Inl e, w) | Inr _ \<Rightarrow>
          (case ?url of Inl msg \<Rightarrow> (Inl (value_error msg), w)
           | Inr url \<Rightarrow> attempts E (request_call E m url params json h) [0..<4] w)))"
        using True unfolding request_def Let_def url_path_def Inr sum.case
        by (simp only: bind_Inr proxy_slot_def [symmetric])
          (simp add: eff_defs require_def v w request_call_def split: sum.split)
      show ?thesis
      proof (cases "\<exists>url. ?url = Inr url \<and> attempts E (request_call E m url params json h) [0..<4] w = (r, t)")
        case ended: True
        then show ?thesis using True Inr sw by blast
      next
        case False
        then show ?thesis using assms run sv sw by (auto split: sum.splits)
      qed
    qed
  qed
qed

section \<open>Only allowlisted writes\<close>


section \<open>Dot segments\<close>

text \<open>A client with fresh limiters, whose clock does not move by itself.\<close>

definition webshare_client :: "string \<Rightarrow> (webshare_call \<Rightarrow> 'w \<Rightarrow> (exn + webshare_response) \<times> 'w) \<Rightarrow> 'w webshare_env" where
  "webshare_client key transport = \<lparr>we_api_key = key, we_base_url = ''https://proxy.webshare.io/'', we_transport = transport,
     we_delay = (\<lambda>_. 0), we_float = (\<lambda>_. None), we_json_float = (\<lambda>_. VNone)\<rparr>"

definition fresh_client :: "'w \<Rightarrow> 'w webshare_state" where
  "fresh_client w = \<lparr>ws_now = 0, ws_reading = 0,
     ws_general = \<lparr>sl_limit = 240, sl_window_seconds = seconds 60, sl_events = []\<rparr>,
     ws_proxy = \<lparr>sl_limit = 60, sl_window_seconds = seconds 60, sl_events = []\<rparr>, ws_sent = [], ws_service = w\<rparr>"

lemma fresh_slots:
  "acquire (webshare_client key transport) ws_general ws_general_update (fresh_client w) = (Inr (),
     (fresh_client w)\<lparr>ws_reading := Suc 0, ws_general := \<lparr>sl_limit = 240, sl_window_seconds = seconds 60, sl_events = [0]\<rparr>\<rparr>)"
  "acquire (webshare_client key transport) ws_proxy ws_proxy_update
     ((fresh_client w)\<lparr>ws_reading := Suc 0, ws_general := \<lparr>sl_limit = 240, sl_window_seconds = seconds 60, sl_events = [0]\<rparr>\<rparr>) = (Inr (),
     (fresh_client w)\<lparr>ws_reading := Suc (Suc 0), ws_general := \<lparr>sl_limit = 240, sl_window_seconds = seconds 60, sl_events = [0]\<rparr>,
       ws_proxy := \<lparr>sl_limit = 60, sl_window_seconds = seconds 60, sl_events = [0]\<rparr>\<rparr>)"
  by (simp_all add: acquire_def clock_def eff_defs expire_def fresh_client_def webshare_client_def)

lemma attempts_first:
  "\<exists>n. ws_sent (snd (attempts E c [0..<4] s)) = ws_sent s @ replicate (Suc n) c"
proof -
  obtain r t where run: "attempts E c [0..<4] s = (r, t)" by fastforce
  from attempts_send [OF this] obtain n where "0 < n" "ws_sent t = ws_sent s @ replicate n c" by auto
  then show ?thesis using run by (intro exI [of _ "n - 1"]) simp
qed

text \<open>A request of a fresh client that the policy lets through.\<close>

lemma fresh_request:
  assumes "urlsplit path = Inr \<lparr>ul_scheme = [], ul_netloc = [], ul_path = q, ul_query = [], ul_fragment = []\<rparr>"
    and "unquote q = p" and "py_upper m = m'"
    and "guard m' p dry = Inr ()"
    and "urljoin ''https://proxy.webshare.io/'' (dropWhile (\<lambda>c. c = CHR ''/'') p) = Inr url"
  shows "\<exists>n. ws_sent (snd (request (webshare_client key transport) m path dry params json None [] (fresh_client w))) =
    replicate (Suc n) \<lparr>wc_method = m', wc_url = url, wc_headers = [(''Authorization'', ''Token '' @ key)],
      wc_params = params, wc_json = json\<rparr>"
proof -
  let ?E = "webshare_client key transport"
  let ?c = "request_call ?E m url params json None"
  have c: "?c = \<lparr>wc_method = m', wc_url = url, wc_headers = [(''Authorization'', ''Token '' @ key)],
      wc_params = params, wc_json = json\<rparr>"
    by (simp add: request_call_def webshare_client_def dict_merge_def assms(3))
  have base: "we_base_url ?E = ''https://proxy.webshare.io/''" by (simp add: webshare_client_def)
  have "\<exists>v. ws_sent v = [] \<and> request ?E m path dry params json None [] (fresh_client w) = attempts ?E ?c [0..<4] v"
    unfolding request_def Let_def url_path_def assms(1) sum.case bind_Inr
    by (cases "contains_sub p ''/proxy/''")
      (rule exI, rule conjI [rotated], simp add: eff_defs require_def assms base fresh_slots request_call_def, simp add: fresh_client_def)+
  then show ?thesis using attempts_first [of ?E ?c] by (metis append_Nil c)
qed

text \<open>
  C39. The policy looks at the path before the base address is joined to it, and joining resolves
  dot segments: an endpoint identifier with dot segments turns a dry replacement into a POST to a
  path the policy refuses, with no body to say that it is dry. A path that is an address sends the
  token of the client to another host.
\<close>

theorem dot_segments_escape_the_policy:
  "(\<exists>msg. guard ''POST'' ''/api/v2/subscription/purchase/'' (Some True) = Inl (webshare_guard_error msg)) \<and>
   (\<exists>n. ws_sent (snd (replace_endpoint (webshare_client key transport) ''../../../v2/subscription/./purchase'' True (fresh_client w))) =
     replicate (Suc n) \<lparr>wc_method = ''POST'', wc_url = ''https://proxy.webshare.io/api/v2/subscription/purchase/'',
       wc_headers = [(''Authorization'', ''Token '' @ key)], wc_params = None, wc_json = None\<rparr>) \<and>
   (\<exists>n. ws_sent (snd (request (webshare_client key transport) ''get'' ''/https://example.com/'' None None None None [] (fresh_client w))) =
     replicate (Suc n) \<lparr>wc_method = ''GET'', wc_url = ''https://example.com/'',
       wc_headers = [(''Authorization'', ''Token '' @ key)], wc_params = None, wc_json = None\<rparr>)"
proof (intro conjI)
  show "\<exists>msg. guard ''POST'' ''/api/v2/subscription/purchase/'' (Some True) = Inl (webshare_guard_error msg)"
    by (simp add: guard_def forbidden_paths_def)
next
  let ?p = "''/api/v3/proxy/replace/../../../v2/subscription/./purchase/''"
  have "replace_endpoint (webshare_client key transport) ''../../../v2/subscription/./purchase'' True (fresh_client w) =
    bindE (request (webshare_client key transport) ''POST'' ?p (Some True) None None None [])
      (\<lambda>_. retE (''../../../v2/subscription/./purchase'', True)) (fresh_client w)" by (simp add: replace_endpoint_def)
  then have sent: "ws_sent (snd (replace_endpoint (webshare_client key transport) ''../../../v2/subscription/./purchase'' True (fresh_client w))) =
    ws_sent (snd (request (webshare_client key transport) ''POST'' ?p (Some True) None None None [] (fresh_client w)))"
    by (simp add: eff_defs split: prod.split sum.split)
  have "urlsplit ?p = Inr \<lparr>ul_scheme = [], ul_netloc = [], ul_path = ?p, ul_query = [], ul_fragment = []\<rparr>" by code_simp
  moreover have "unquote ?p = ?p" by code_simp
  moreover have "py_upper ''POST'' = ''POST''" by code_simp
  moreover have "guard ''POST'' ?p (Some True) = Inr ()" by code_simp
  moreover have "urljoin ''https://proxy.webshare.io/'' (dropWhile (\<lambda>c. c = CHR ''/'') ?p) =
    Inr ''https://proxy.webshare.io/api/v2/subscription/purchase/''" by code_simp
  ultimately show "\<exists>n. ws_sent (snd (replace_endpoint (webshare_client key transport) ''../../../v2/subscription/./purchase'' True (fresh_client w))) =
     replicate (Suc n) \<lparr>wc_method = ''POST'', wc_url = ''https://proxy.webshare.io/api/v2/subscription/purchase/'',
       wc_headers = [(''Authorization'', ''Token '' @ key)], wc_params = None, wc_json = None\<rparr>"
    unfolding sent by (rule fresh_request)
next
  have "urlsplit ''/https://example.com/'' = Inr \<lparr>ul_scheme = [], ul_netloc = [], ul_path = ''/https://example.com/'', ul_query = [], ul_fragment = []\<rparr>"
    by code_simp
  moreover have "unquote ''/https://example.com/'' = ''/https://example.com/''" by code_simp
  moreover have "py_upper ''get'' = ''GET''" by code_simp
  moreover have "guard ''GET'' ''/https://example.com/'' None = Inr ()" by code_simp
  moreover have "urljoin ''https://proxy.webshare.io/'' (dropWhile (\<lambda>c. c = CHR ''/'') ''/https://example.com/'') =
    Inr ''https://example.com/''" by code_simp
  ultimately show "\<exists>n. ws_sent (snd (request (webshare_client key transport) ''get'' ''/https://example.com/'' None None None None [] (fresh_client w))) =
     replicate (Suc n) \<lparr>wc_method = ''GET'', wc_url = ''https://example.com/'',
       wc_headers = [(''Authorization'', ''Token '' @ key)], wc_params = None, wc_json = None\<rparr>"
    by (rule fresh_request)
qed

section \<open>The sliding window\<close>

text \<open>
  C28. However the clock moves, a limiter that starts empty always gives a slot, and a slot and the
  one that is a whole limit later are at least a window apart: no window holds more slots than the
  limit allows. This holds for both limiters of the client.
\<close>

theorem slots_are_a_window_apart:
  assumes "(get, upd) = (ws_general, ws_general_update) \<or> (get, upd) = (ws_proxy, ws_proxy_update)"
    and "sl_events (get s) = []" and "0 < sl_limit (get s)"
  shows "length (acquire_times E get upd n s) = n \<and>
    (\<forall>i. i + nat (sl_limit (get s)) < n \<longrightarrow>
       acquire_times E get upd n s ! i + sl_window_seconds (get s) \<le>
       acquire_times E get upd n s ! (i + nat (sl_limit (get s))))"
  using assms general.fresh_times_spaced [of s E n] proxy.fresh_times_spaced [of s E n] by auto

theorem slots_are_a_window_apart_witness:
  "length (acquire_times (webshare_client ''key'' (\<lambda>_ w. (Inl (value_error ''down''), w))) ws_proxy ws_proxy_update 100 (fresh_client ())) = 100 \<and>
   acquire_times (webshare_client ''key'' (\<lambda>_ w. (Inl (value_error ''down''), w))) ws_proxy ws_proxy_update 100 (fresh_client ()) ! 7 + 60000000 \<le>
   acquire_times (webshare_client ''key'' (\<lambda>_ w. (Inl (value_error ''down''), w))) ws_proxy ws_proxy_update 100 (fresh_client ()) ! 67"
  using slots_are_a_window_apart [of ws_proxy ws_proxy_update "fresh_client ()"
    "webshare_client ''key'' (\<lambda>_ w. (Inl (value_error ''down''), w))" 100]
  by (auto simp: fresh_client_def seconds_def dest: spec [of _ 7])

section \<open>The loop over pages\<close>

text \<open>A page that links to another one.\<close>

definition links_on :: "webshare_response \<Rightarrow> bool" where
  "links_on a = (case read_page (wr_json a) of Inr (items, Some (p, q)) \<Rightarrow> p \<noteq> [] | _ \<Rightarrow> False)"

lemma attempts_rank:
  fixes rank :: "'w \<Rightarrow> nat"
  assumes rank: "\<And>c w b w'. we_transport E c w = (b, w') \<Longrightarrow> rank w' \<le> rank w \<and> (\<forall>a. b = Inr a \<longrightarrow> links_on a \<longrightarrow> rank w' < rank w)"
    and "attempts E c as s = (r, t)"
  shows "rank (ws_service t) \<le> rank (ws_service s) \<and> (\<forall>a. r = Inr a \<longrightarrow> links_on a \<longrightarrow> rank (ws_service t) < rank (ws_service s))"
  using assms(2)
proof (induction as arbitrary: s)
  case (Cons k as)
  obtain b w where call: "we_transport E c (ws_service s) = (b, w)" by fastforce
  note step = rank [OF this]
  show ?case
  proof (cases "\<exists>a. b = Inr a \<and> wr_status_code a = 429 \<and> k \<noteq> 3")
    case True
    then obtain d where "attempts E c as (snd (sleep E d (s\<lparr>ws_sent := ws_sent s @ [c], ws_service := w\<rparr>))) = (r, t)"
      using Cons.prems by (auto simp: eff_defs transport_call_def call sleep_def)
    from Cons.IH [OF this] step show ?thesis by (fastforce simp: sleep_def)
  next
    case False
    then show ?thesis using Cons.prems step
      by (cases b) (auto simp: eff_defs transport_call_def call split: if_splits)
  qed
qed (auto simp: eff_defs)

lemma pages_return:
  fixes rank :: "'w \<Rightarrow> nat"
  assumes rank: "\<And>c w b w'. we_transport E c w = (b, w') \<Longrightarrow> rank w' \<le> rank w \<and> (\<forall>a. b = Inr a \<longrightarrow> links_on a \<longrightarrow> rank w' < rank w)"
  shows "\<exists>x. pages E h path params results s = Some x"
proof (induction "rank (ws_service s)" arbitrary: path params results s rule: less_induct)
  case less
  obtain r t where run: "request E ''GET'' path None params None h [] s = (r, t)" by fastforce
  show ?case
  proof (cases "\<exists>a items p q. r = Inr a \<and> read_page (wr_json a) = Inr (items, Some (p, q)) \<and> p \<noteq> []")
    case True
    then obtain a items p q where a: "r = Inr a" "read_page (wr_json a) = Inr (items, Some (p, q))" "p \<noteq> []" by blast
    then have "rank (ws_service t) < rank (ws_service s)"
      using request_cases [OF run] attempts_rank [of E rank, OF rank] by (fastforce simp: links_on_def)
    from less.hyps [OF this, of p q "results @ items"] show ?thesis
      using a run by (subst pages.simps) simp
  next
    case False
    then show ?thesis using run
      by (subst pages.simps) (auto simp: pages.simps [of E h "[]"] split: sum.split option.split)
  qed
qed

text \<open>What an accepted item says.\<close>

lemma parsed_endpoint:
  assumes "parse_endpoint item = Inr e"
  shows "1 \<le> ep_port e \<and> ep_port e \<le> 65535 \<and> strip (ep_host e) \<noteq> [] \<and> strip (ep_endpoint_id e) \<noteq> []"
  using assms by (cases "vget item ''port''")
    (auto simp: parse_endpoint_def required_string_def checks Let_def split: if_splits)


text \<open>A service with as many linking pages as its state says.\<close>

definition page_json :: "string option \<Rightarrow> pyval" where
  "page_json link = VMap ([(''results'', VList [])] @ (case link of None \<Rightarrow> [] | Some l \<Rightarrow> [(''next'', VStr l)]))"

definition counting_service :: "webshare_call \<Rightarrow> nat \<Rightarrow> (exn + webshare_response) \<times> nat" where
  "counting_service c n = (Inr \<lparr>wr_status_code = 200, wr_headers = [],
     wr_json = Inr (page_json (if n = 0 then None else Some ''/api/v2/proxy/list/?page=2''))\<rparr>, n - 1)"

lemma list_returns: "\<exists>r t. x = Some (r, t) \<and> P r \<Longrightarrow> \<exists>r t. x = Some (r, t)"
  by blast



section \<open>A page that links to itself\<close>

lemma acquire_keeps_limits:
  "0 < sl_limit (ws_general s) \<Longrightarrow> \<exists>u. acquire E ws_general ws_general_update s = (Inr (), u) \<and>
     sl_limit (ws_general u) = sl_limit (ws_general s) \<and> ws_proxy u = ws_proxy s"
  "0 < sl_limit (ws_proxy s) \<Longrightarrow> \<exists>u. acquire E ws_proxy ws_proxy_update s = (Inr (), u) \<and>
     sl_limit (ws_proxy u) = sl_limit (ws_proxy s) \<and> ws_general u = ws_general s"
  by (auto simp: acquire_def clock_def sleep_def eff_defs expire_def Let_def split: list.split
    simp del: dropWhile_eq_Nil_conv)

definition looping_service :: "webshare_call \<Rightarrow> 'w \<Rightarrow> (exn + webshare_response) \<times> 'w" where
  "looping_service c w = (Inr \<lparr>wr_status_code = 200, wr_headers = [],
     wr_json = Inr (page_json (Some ''/api/v2/proxy/list/''))\<rparr>, w)"

lemma looping_request:
  assumes "0 < sl_limit (ws_general s)" and "0 < sl_limit (ws_proxy s)"
  shows "\<exists>t. request (webshare_client key looping_service) ''GET'' ''/api/v2/proxy/list/'' None params None None [] s =
      (Inr \<lparr>wr_status_code = 200, wr_headers = [], wr_json = Inr (page_json (Some ''/api/v2/proxy/list/''))\<rparr>, t) \<and>
    0 < sl_limit (ws_general t) \<and> 0 < sl_limit (ws_proxy t)"
proof -
  let ?E = "webshare_client key looping_service" let ?p = "''/api/v2/proxy/list/''"
  obtain v where v: "acquire ?E ws_general ws_general_update s = (Inr (), v)"
    "sl_limit (ws_general v) = sl_limit (ws_general s)" "ws_proxy v = ws_proxy s"
    using acquire_keeps_limits(1) [OF assms(1)] by blast
  have "0 < sl_limit (ws_proxy v)" using v(3) assms(2) by simp
  from acquire_keeps_limits(2) [OF this, of ?E] obtain w where w: "acquire ?E ws_proxy ws_proxy_update v = (Inr (), w)"
    "sl_limit (ws_proxy w) = sl_limit (ws_proxy v)" "ws_general w = ws_general v" by blast
  have "url_path ?p = Inr \<lparr>ul_scheme = [], ul_netloc = [], ul_path = ?p, ul_query = [], ul_fragment = []\<rparr>" by code_simp
  note url = this
  have fixed: "unquote ?p = ?p" "py_upper ''GET'' = ''GET''" "contains_sub ?p ''/proxy/'' = True" by code_simp+
  have join: "(case urljoin (we_base_url ?E) (dropWhile (\<lambda>c. c = CHR ''/'') ?p) of
      Inl m \<Rightarrow> Inl (value_error m) | Inr url \<Rightarrow> Inr url) = Inr ''https://proxy.webshare.io/api/v2/proxy/list/''"
    unfolding webshare_client_def by code_simp
  have first: "attempts ?E c [0..<4] w = (Inr \<lparr>wr_status_code = 200, wr_headers = [],
      wr_json = Inr (page_json (Some ?p))\<rparr>, w\<lparr>ws_sent := ws_sent w @ [c]\<rparr>)" for c
    by (simp add: upt_conv_Cons eff_defs transport_call_def webshare_client_def looping_service_def)
  show ?thesis
    unfolding request_def url Let_def bind_Inr url_parts.simps fixed join if_True
    using v w assms by (simp add: eff_defs require_def guard_def first)
qed

text \<open>Reading all pages of such a service never returns.\<close>

lemma self_linking_page_never_ends:
  "list_endpoints (webshare_client key looping_service) (fresh_client w) = None"
proof -
  have page: "read_page (Inr (page_json (Some ''/api/v2/proxy/list/''))) =
    Inr ([], Some (''/api/v2/proxy/list/'', Some (query_dict [])))"
    by code_simp
  let ?P = "\<lambda>E h path params results s x. \<not> (E = webshare_client key looping_service \<and> h = None \<and>
    path = ''/api/v2/proxy/list/'' \<and> 0 < sl_limit (ws_general s) \<and> 0 < sl_limit (ws_proxy s))"
  have "?P E h path params results s x" if "pages E h path params results s = Some x"
    for E :: "'a webshare_env" and h path params results s x
  proof (rule pages.raw_induct [where P = ?P, OF _ that], rule notI)
    fix rec E h path params results s y
    assume IH: "\<And>E h path params results s y. rec E h path params results s = Some y \<Longrightarrow> ?P E h path params results s y"
      and body: "(if path = [] then Some (Inr results, s) else
        (case request E ''GET'' path None params None h [] s of
           (Inl exc, t) \<Rightarrow> Some (Inl exc, t)
         | (Inr response, t) \<Rightarrow> (case read_page (wr_json response) of
             Inl exc \<Rightarrow> Some (Inl exc, t)
           | Inr (items, None) \<Rightarrow> Some (Inr (results @ items), t)
           | Inr (items, Some (p, q)) \<Rightarrow> rec E h p q (results @ items) t))) = Some y"
      and a: "E = webshare_client key looping_service \<and> h = None \<and> path = ''/api/v2/proxy/list/'' \<and>
        0 < sl_limit (ws_general s) \<and> 0 < sl_limit (ws_proxy (s :: 'a webshare_state))"
    then obtain t where "request E ''GET'' path None params None h [] s =
        (Inr \<lparr>wr_status_code = 200, wr_headers = [], wr_json = Inr (page_json (Some ''/api/v2/proxy/list/''))\<rparr>, t)"
      and t: "0 < sl_limit (ws_general t)" "0 < sl_limit (ws_proxy t)" using looping_request [of s key params] by blast
    with body a page have "rec E h ''/api/v2/proxy/list/'' (Some (query_dict [])) (results @ []) t = Some y" by simp
    from IH [OF this] show False using a t by simp
  qed
  then have "pages (webshare_client key looping_service) None ''/api/v2/proxy/list/'' (Some list_parameters) [] (fresh_client w) = None"
    by (cases "pages (webshare_client key looping_service) None ''/api/v2/proxy/list/'' (Some list_parameters) [] (fresh_client w)")
      (fastforce simp: fresh_client_def)+
  then show ?thesis by (simp add: list_endpoints_def paginate_def)
qed

end
