(* ===== verification/Usage_Collector.thy ===== *)
theory Usage_Collector
  imports Py_Text
begin

text \<open>
  The collector that attributes the traffic of Mihomo's connections to days, hosts and the two
  sides (\<open>ops/forwarder/collect_mihomo_usage.py\<close>), on its SQLite file.

  An instant is a count of microseconds and a day a count of days; their ISO texts are ordered in
  the same way. A failure of SQLite, wherever it strikes in a transaction, rolls the transaction
  back, so one exception per transaction stands for it. A number that does not fit 64 bits cannot
  be bound; sums of rows that leave 64 bits, and JSON numbers that are not integers, are outside
  the model.
\<close>

record connection_maximum =
  cm_connection_id :: string
  cm_side :: string
  cm_host :: string
  cm_max_upload :: int
  cm_max_download :: int
  cm_first_seen_at :: int
  cm_last_seen_at :: int

record daily_row =
  dy_key :: "int \<times> string"
  dy_upload_bytes :: int
  dy_download_bytes :: int

record domain_row =
  dm_key :: "int \<times> string \<times> string"
  dm_upload_bytes :: int
  dm_download_bytes :: int

record collector_state =
  cs_last_success_at :: "int option"
  cs_last_error_type :: "string option"
  cs_consecutive_errors :: int

record usage_store =
  st_maxima :: "connection_maximum list"
  st_daily :: "daily_row list"
  st_domains :: "domain_row list"
  st_state :: collector_state

text \<open>The store the schema creates.\<close>

definition open_store :: usage_store where
  "open_store = \<lparr>st_maxima = [], st_daily = [], st_domains = [],
     st_state = \<lparr>cs_last_success_at = None, cs_last_error_type = None, cs_consecutive_errors = 0\<rparr>\<rparr>"

section \<open>Reading an item\<close>

definition byte_count :: "pyval dict \<Rightarrow> string \<Rightarrow> exn + int" where
  "byte_count item key = bindS (int_value (or_else (vget item key) (VInt 0))) (\<lambda>n. Inr (max 0 n))"

definition normalized_host :: "pyval dict \<Rightarrow> string" where
  "normalized_host metadata =
     (let v = py_str (or_else (vget metadata ''host'') (or_else (vget metadata ''destinationIP'') (VStr ''UNKNOWN'')));
          host = take 253 (lower (rstrip_by (\<lambda>c. c = CHR ''.'') v)) in
      if host = [] then ''UNKNOWN'' else host)"

definition classify_connection :: "string \<Rightarrow> pyval dict \<Rightarrow> exn + string" where
  "classify_connection residential_chain item =
     bindS (case or_else (vget item ''chains'') (VList []) of
         VList vs \<Rightarrow> Inr (list_ex (\<lambda>v. py_eq v (VStr residential_chain)) vs)
       | VMap d \<Rightarrow> Inr (residential_chain \<in> set (dict_keys d))
       | VStr s \<Rightarrow> Inr (contains_sub s residential_chain)
       | _ \<Rightarrow> Inl (type_error ''argument is not iterable''))
     (\<lambda>found. Inr (if found then ''RESIDENTIAL'' else ''AIRPORT''))"

section \<open>Adding usage\<close>

definition upsert :: "('r \<Rightarrow> 'k) \<Rightarrow> ('r \<Rightarrow> 'r) \<Rightarrow> 'r \<Rightarrow> 'r list \<Rightarrow> 'r list" where
  "upsert key add r t = (if key r \<in> set (map key t) then map (\<lambda>q. if key q = key r then add q else q) t else t @ [r])"

definition add_usage :: "int \<Rightarrow> string \<Rightarrow> string \<Rightarrow> int \<Rightarrow> int \<Rightarrow> usage_store \<Rightarrow> usage_store" where
  "add_usage usage_day side host upload_delta download_delta s =
     (if upload_delta = 0 \<and> download_delta = 0 then s else s\<lparr>
        st_daily := upsert dy_key (\<lambda>r. r\<lparr>dy_upload_bytes := dy_upload_bytes r + upload_delta,
            dy_download_bytes := dy_download_bytes r + download_delta\<rparr>)
          \<lparr>dy_key = (usage_day, side), dy_upload_bytes = upload_delta, dy_download_bytes = download_delta\<rparr> (st_daily s),
        st_domains := upsert dm_key (\<lambda>r. r\<lparr>dm_upload_bytes := dm_upload_bytes r + upload_delta,
            dm_download_bytes := dm_download_bytes r + download_delta\<rparr>)
          \<lparr>dm_key = (usage_day, host, side), dm_upload_bytes = upload_delta, dm_download_bytes = download_delta\<rparr> (st_domains s)\<rparr>)"

definition bind_int :: "int \<Rightarrow> exn + unit" where
  "bind_int n = require (- (2 ^ 63) \<le> n \<and> n < 2 ^ 63)
     (Exn (OtherException ''OverflowError'') ''Python int too large to convert to SQLite INTEGER'')"

record ingest_totals =
  it_connections :: int
  it_upload_delta :: int
  it_download_delta :: int

definition count_delta :: "int \<Rightarrow> int \<Rightarrow> ingest_totals \<Rightarrow> ingest_totals" where
  "count_delta upload download t = \<lparr>it_connections = it_connections t + 1,
     it_upload_delta = it_upload_delta t + upload, it_download_delta = it_download_delta t + download\<rparr>"

definition new_maximum :: "string \<Rightarrow> string \<Rightarrow> string \<Rightarrow> int \<Rightarrow> int \<Rightarrow> int \<Rightarrow> connection_maximum" where
  "new_maximum connection_id side host upload download now =
     \<lparr>cm_connection_id = connection_id, cm_side = side, cm_host = host, cm_max_upload = upload,
      cm_max_download = download, cm_first_seen_at = now, cm_last_seen_at = now\<rparr>"

definition raise_maximum :: "int \<Rightarrow> int \<Rightarrow> int \<Rightarrow> connection_maximum \<Rightarrow> connection_maximum" where
  "raise_maximum upload download now r = r\<lparr>cm_max_upload := max (cm_max_upload r) upload,
     cm_max_download := max (cm_max_download r) download, cm_last_seen_at := now\<rparr>"

definition day_of :: "int \<Rightarrow> int" where
  "day_of t = t div 86400000000"

text \<open>A connection seen for the first time, and one that is known.\<close>

definition ingest_new ::
  "string \<Rightarrow> int \<Rightarrow> pyval dict \<Rightarrow> string \<Rightarrow> int \<Rightarrow> int \<Rightarrow> ingest_totals \<times> usage_store \<Rightarrow> exn + ingest_totals \<times> usage_store" where
  "ingest_new residential_chain now item connection_id upload download = (\<lambda>(totals, s).
     bindS (classify_connection residential_chain item) (\<lambda>side.
     bindS (as_mapping (or_else (vget item ''metadata'') (VMap [])) no_get) (\<lambda>metadata.
     thenS (bind_int upload) (thenS (bind_int download)
     (let host = normalized_host metadata in
      Inr (count_delta upload download totals, add_usage (day_of now) side host upload download
        (s\<lparr>st_maxima := st_maxima s @ [new_maximum connection_id side host upload download now]\<rparr>)))))))"

definition ingest_known ::
  "int \<Rightarrow> connection_maximum \<Rightarrow> int \<Rightarrow> int \<Rightarrow> ingest_totals \<times> usage_store \<Rightarrow> exn + ingest_totals \<times> usage_store" where
  "ingest_known now existing upload download = (\<lambda>(totals, s).
     thenS (bind_int upload) (thenS (bind_int download)
     (let upload_delta = max 0 (upload - cm_max_upload existing);
          download_delta = max 0 (download - cm_max_download existing) in
      Inr (count_delta upload_delta download_delta totals,
        add_usage (day_of now) (cm_side existing) (cm_host existing) upload_delta download_delta
          (s\<lparr>st_maxima := tbl_put cm_connection_id (raise_maximum upload download now existing) (st_maxima s)\<rparr>)))))"

definition ingest_item :: "string \<Rightarrow> int \<Rightarrow> ingest_totals \<times> usage_store \<Rightarrow> pyval \<Rightarrow> exn + ingest_totals \<times> usage_store" where
  "ingest_item residential_chain now acc v =
     bindS (as_mapping v no_get) (\<lambda>item.
     (let connection_id = py_str (or_else (vget item ''id'') (VStr [])) in
      if connection_id = [] then Inr acc else
      bindS (byte_count item ''upload'') (\<lambda>upload.
      bindS (byte_count item ''download'') (\<lambda>download.
      (case tbl_get cm_connection_id (st_maxima (snd acc)) connection_id of
         None \<Rightarrow> ingest_new residential_chain now item connection_id upload download acc
       | Some existing \<Rightarrow> ingest_known now existing upload download acc)))))"

definition mark_success :: "int \<Rightarrow> usage_store \<Rightarrow> usage_store" where
  "mark_success now s = s\<lparr>st_state := \<lparr>cs_last_success_at = Some now, cs_last_error_type = None, cs_consecutive_errors = 0\<rparr>\<rparr>"

definition ingest_connections :: "string \<Rightarrow> int \<Rightarrow> pyval list \<Rightarrow> usage_store \<Rightarrow> exn + ingest_totals \<times> usage_store" where
  "ingest_connections residential_chain now connections s =
     bindS (foldS (ingest_item residential_chain now)
        (\<lparr>it_connections = 0, it_upload_delta = 0, it_download_delta = 0\<rparr>, s) connections)
       (\<lambda>(totals, t). Inr (totals, mark_success now t))"

section \<open>Errors and pruning\<close>

definition record_error :: "string \<Rightarrow> usage_store \<Rightarrow> usage_store" where
  "record_error error_type s = s\<lparr>st_state := (st_state s)\<lparr>cs_last_error_type := Some (take 100 error_type),
     cs_consecutive_errors := cs_consecutive_errors (st_state s) + 1\<rparr>\<rparr>"

definition retention_days :: int where
  "retention_days = 30"

definition prune_connection_maxima :: "int \<Rightarrow> usage_store \<Rightarrow> usage_store" where
  "prune_connection_maxima now s =
     s\<lparr>st_maxima := filter (\<lambda>r. \<not> cm_last_seen_at r < now - retention_days * 86400000000) (st_maxima s)\<rparr>"

section \<open>The report\<close>

record usage_report =
  ur_generated_at :: int
  ur_state :: collector_state
  ur_airport_bytes :: int
  ur_residential_bytes :: int
  ur_residential_ratio :: "(int \<times> int) option"
  ur_observed_calendar_days :: int
  ur_average_daily_residential_bytes :: "int option"
  ur_daily :: "(int \<times> int \<times> int) list"
  ur_top_domains :: "(string \<times> string \<times> int) list"

definition daily_bytes :: "daily_row \<Rightarrow> int" where
  "daily_bytes r = dy_upload_bytes r + dy_download_bytes r"

definition side_bytes :: "string \<Rightarrow> daily_row list \<Rightarrow> int" where
  "side_bytes side rows = (\<Sum>r\<leftarrow>filter (\<lambda>r. snd (dy_key r) = side) rows. daily_bytes r)"

definition observed_days :: "daily_row list \<Rightarrow> int list" where
  "observed_days rows = remdups (sort (map (fst \<circ> dy_key) rows))"

definition host_bytes :: "domain_row list \<Rightarrow> (string \<times> string) \<Rightarrow> int" where
  "host_bytes rows k = (\<Sum>r\<leftarrow>filter (\<lambda>r. snd (dm_key r) = k) rows. dm_upload_bytes r + dm_download_bytes r)"

text \<open>Hosts with as many bytes come in the order of their index, host and side.\<close>

definition top_domains :: "domain_row list \<Rightarrow> (string \<times> string \<times> int) list" where
  "top_domains rows = map (\<lambda>k. (fst k, snd k, host_bytes rows k))
     (take 20 (sort_key (\<lambda>k. - host_bytes rows k)
       (sort_key fst (sort_key snd (remdups (map (snd \<circ> dm_key) rows))))))"

text \<open>The ratio is the pair of its numerator and denominator.\<close>

definition build_report :: "int \<Rightarrow> usage_store \<Rightarrow> usage_report" where
  "build_report generated_at s =
     (let airport = side_bytes ''AIRPORT'' (st_daily s);
          residential = side_bytes ''RESIDENTIAL'' (st_daily s);
          days = observed_days (st_daily s);
          calendar_days = (if days = [] then 0 else last days - hd days + 1) in
      \<lparr>ur_generated_at = generated_at, ur_state = st_state s, ur_airport_bytes = airport, ur_residential_bytes = residential,
       ur_residential_ratio = (if airport + residential = 0 then None else Some (residential, airport + residential)),
       ur_observed_calendar_days = calendar_days,
       ur_average_daily_residential_bytes = (if calendar_days = 0 then None else Some (residential div calendar_days)),
       ur_daily = map (\<lambda>d. (d, side_bytes ''AIRPORT'' (filter (\<lambda>r. fst (dy_key r) = d) (st_daily s)),
         side_bytes ''RESIDENTIAL'' (filter (\<lambda>r. fst (dy_key r) = d) (st_daily s)))) days,
       ur_top_domains = top_domains (st_domains s)\<rparr>)"

section \<open>The loop\<close>

record collector =
  co_store :: usage_store
  co_last_prune :: "int option"
  co_report :: "usage_report option"

text \<open>What one round meets: the answer of the control API and the failures of its five effects.\<close>

record collector_round =
  io_now :: int
  io_document :: "exn + pyval"
  io_ingest_fault :: "exn option"
  io_prune_fault :: "exn option"
  io_report_fault :: "exn option"
  io_error_fault :: "exn option"
  io_error_report_fault :: "exn option"

definition connections_of :: "pyval \<Rightarrow> exn + pyval list" where
  "connections_of document =
     bindS (as_mapping document no_get) (\<lambda>d.
     (case or_else (vget d ''connections'') (VList []) of
        VList vs \<Rightarrow> Inr vs
      | VMap m \<Rightarrow> Inr (map (VStr \<circ> fst) m)
      | VStr s \<Rightarrow> Inr (map (\<lambda>c. VStr [c]) s)
      | _ \<Rightarrow> Inl (type_error ''object is not iterable'')))"

text \<open>\<open>with db:\<close>, which commits the body or rolls it back.\<close>

definition in_transaction :: "exn option \<Rightarrow> (usage_store \<Rightarrow> exn + usage_store) \<Rightarrow> (collector, exn, unit) eff" where
  "in_transaction fault body c = (case fault of Some e \<Rightarrow> (Inl e, c) | None \<Rightarrow>
     (case body (co_store c) of Inl e \<Rightarrow> (Inl e, c) | Inr t \<Rightarrow> (Inr (), c\<lparr>co_store := t\<rparr>)))"

definition write_report :: "exn option \<Rightarrow> int \<Rightarrow> (collector, exn, unit) eff" where
  "write_report fault now c = (case fault of Some e \<Rightarrow> (Inl e, c) | None \<Rightarrow>
     (Inr (), c\<lparr>co_report := Some (build_report now (co_store c))\<rparr>))"

definition prune_daily :: "exn option \<Rightarrow> int \<Rightarrow> (collector, exn, unit) eff" where
  "prune_daily fault now =
     bindE (getsE co_last_prune) (\<lambda>last_prune.
     if last_prune = Some (day_of now) then retE ()
     else thenE (in_transaction fault (\<lambda>s. Inr (prune_connection_maxima now s)))
       (modifyE (\<lambda>c. c\<lparr>co_last_prune := Some (day_of now)\<rparr>)))"

definition collect_round :: "string \<Rightarrow> collector_round \<Rightarrow> (collector, exn, unit) eff" where
  "collect_round residential_chain io = tryE
     (bindE (liftE (bindS (io_document io) connections_of)) (\<lambda>connections.
      thenE (in_transaction (io_ingest_fault io)
        (\<lambda>s. bindS (ingest_connections residential_chain (io_now io) connections s) (\<lambda>(_, t). Inr t)))
     (thenE (prune_daily (io_prune_fault io) (io_now io))
      (write_report (io_report_fault io) (io_now io)))))
     (\<lambda>exc. thenE (in_transaction (io_error_fault io) (\<lambda>s. Inr (record_error (type_name exc) s)))
        (write_report (io_error_report_fault io) (io_now io)))"

text \<open>The rounds until the process is stopped or an exception leaves the loop.\<close>

definition run_loop :: "string \<Rightarrow> collector_round list \<Rightarrow> (collector, exn, unit) eff" where
  "run_loop residential_chain = forE (collect_round residential_chain)"

definition start_collector :: collector where
  "start_collector = \<lparr>co_store = open_store, co_last_prune = None, co_report = None\<rparr>"

end
