(* ===== verification/Usage_Collector_Properties.thy ===== *)
theory Usage_Collector_Properties
  imports Usage_Collector
begin

text \<open>
  The books of the collector: what it adds to a day is what the counters of the connections grew
  by, day by day and host by host, and a snapshot that is seen twice is counted once.
\<close>

section \<open>Sums over rows\<close>

definition sum_where :: "('r \<Rightarrow> bool) \<Rightarrow> ('r \<Rightarrow> int) \<Rightarrow> 'r list \<Rightarrow> int" where
  "sum_where P f rows = (\<Sum>r\<leftarrow>rows. if P r then f r else 0)"

lemma sum_where_append [simp]: "sum_where P f (xs @ ys) = sum_where P f xs + sum_where P f ys"
  by (simp add: sum_where_def)

lemma sum_where_simps [simp]: "sum_where P f [] = 0" "sum_where P f (r # rs) = (if P r then f r else 0) + sum_where P f rs"
  by (simp_all add: sum_where_def)

lemma sum_where_nonneg: "\<forall>r\<in>set rows. 0 \<le> f r \<Longrightarrow> 0 \<le> sum_where P f rows"
  by (induction rows) auto

lemma sum_where_filter: "\<forall>r\<in>set rows. 0 \<le> f r \<Longrightarrow> sum_where P f (filter Q rows) \<le> sum_where P f rows"
  by (induction rows) auto

text \<open>A change of the row with one key.\<close>

lemma sum_where_update:
  assumes "distinct (map key rows)" and "r \<in> set rows"
    and "P (g r) = P r"
  shows "sum_where P f (map (\<lambda>q. if key q = key r then g q else q) rows) =
    sum_where P f rows + (if P r then f (g r) - f r else 0)"
  using assms
proof (induction rows)
  case (Cons q rows)
  have same: "map (\<lambda>x. if key x = key r then g x else x) rows = rows" if "q = r"
    using Cons.prems(1) that by (intro map_idI) (auto simp: image_iff)
  show ?case
  proof (cases "q = r")
    case True
    then show ?thesis using same Cons.prems(3) by simp
  next
    case False
    then have "key q \<noteq> key r" "r \<in> set rows" using Cons.prems by auto
    then show ?thesis using Cons by simp
  qed
qed simp

lemma sum_where_upsert:
  assumes "distinct (map key rows)"
    and "\<And>q. key q = key r \<Longrightarrow> P (add q) = P q \<and> P q = P r \<and> f (add q) = f q + f r"
  shows "sum_where P f (upsert key add r rows) = sum_where P f rows + (if P r then f r else 0)"
proof (cases "key r \<in> set (map key rows)")
  case True
  then obtain q where q: "q \<in> set rows" "key q = key r" by auto
  have "sum_where P f (upsert key add r rows) = sum_where P f (map (\<lambda>x. if key x = key q then add x else x) rows)"
    using True q by (simp add: upsert_def)
  also have "\<dots> = sum_where P f rows + (if P q then f (add q) - f q else 0)"
    using sum_where_update [OF assms(1) q(1), of P add f] assms(2) [OF q(2)] by simp
  finally show ?thesis using assms(2) [OF q(2)] by simp
next
  case False
  then show ?thesis by (simp add: upsert_def)
qed

lemma upsert_keys:
  assumes "distinct (map key rows)" and "\<And>q. key (add q) = key q"
  shows "distinct (map key (upsert key add r rows))"
proof -
  have "map key (map (\<lambda>q. if key q = key r then add q else q) rows) = map key rows" using assms(2) by simp
  then have "map key (upsert key add r rows) = (if key r \<in> set (map key rows) then map key rows else map key rows @ [key r])"
    by (simp only: upsert_def split: if_split) simp
  then show ?thesis using assms(1) by simp
qed

lemma upsert_all:
  assumes "\<forall>q\<in>set rows. R q" and "R r" and "\<And>q. R q \<Longrightarrow> R r \<Longrightarrow> key q = key r \<Longrightarrow> R (add q)"
  shows "\<forall>q\<in>set (upsert key add r rows). R q"
  using assms by (auto simp: upsert_def)

section \<open>The books\<close>

definition daily_of :: "(daily_row \<Rightarrow> int) \<Rightarrow> int \<Rightarrow> string \<Rightarrow> usage_store \<Rightarrow> int" where
  "daily_of f day side s = sum_where (\<lambda>r. dy_key r = (day, side)) f (st_daily s)"

definition domains_of :: "(domain_row \<Rightarrow> int) \<Rightarrow> int \<Rightarrow> string \<Rightarrow> usage_store \<Rightarrow> int" where
  "domains_of f day side s = sum_where (\<lambda>r. fst (dm_key r) = day \<and> snd (snd (dm_key r)) = side) f (st_domains s)"

definition side_daily :: "(daily_row \<Rightarrow> int) \<Rightarrow> string \<Rightarrow> usage_store \<Rightarrow> int" where
  "side_daily f side s = sum_where (\<lambda>r. snd (dy_key r) = side) f (st_daily s)"

definition side_maxima :: "(connection_maximum \<Rightarrow> int) \<Rightarrow> string \<Rightarrow> usage_store \<Rightarrow> int" where
  "side_maxima f side s = sum_where (\<lambda>r. cm_side r = side) f (st_maxima s)"

lemmas sums = daily_of_def domains_of_def side_daily_def side_maxima_def

definition sides :: "string list" where
  "sides = [''AIRPORT'', ''RESIDENTIAL'']"

text \<open>
  Keys are unique, counters are not negative, sides are the two the schema allows; the rows of a
  day and a side agree with the rows of its hosts; the counters kept of a side are covered by its
  days.
\<close>

definition rows_ok :: "usage_store \<Rightarrow> bool" where
  "rows_ok s \<longleftrightarrow> distinct (map cm_connection_id (st_maxima s)) \<and> distinct (map dy_key (st_daily s)) \<and>
     distinct (map dm_key (st_domains s)) \<and>
     (\<forall>r\<in>set (st_maxima s). 0 \<le> cm_max_upload r \<and> 0 \<le> cm_max_download r \<and> cm_side r \<in> set sides) \<and>
     (\<forall>r\<in>set (st_daily s). 0 \<le> dy_upload_bytes r \<and> 0 \<le> dy_download_bytes r \<and> snd (dy_key r) \<in> set sides)"

definition books_ok :: "usage_store \<Rightarrow> bool" where
  "books_ok s \<longleftrightarrow> rows_ok s \<and>
     (\<forall>day side. daily_of dy_upload_bytes day side s = domains_of dm_upload_bytes day side s \<and>
        daily_of dy_download_bytes day side s = domains_of dm_download_bytes day side s) \<and>
     (\<forall>side. side_maxima cm_max_upload side s \<le> side_daily dy_upload_bytes side s \<and>
        side_maxima cm_max_download side s \<le> side_daily dy_download_bytes side s)"

text \<open>What \<open>add_usage\<close> adds.\<close>

lemma add_usage_sums:
  assumes "rows_ok s"
  shows "daily_of dy_upload_bytes d x (add_usage day side host u v s) =
      daily_of dy_upload_bytes d x s + (if (d, x) = (day, side) then u else 0)"
    "daily_of dy_download_bytes d x (add_usage day side host u v s) =
      daily_of dy_download_bytes d x s + (if (d, x) = (day, side) then v else 0)"
    "domains_of dm_upload_bytes d x (add_usage day side host u v s) =
      domains_of dm_upload_bytes d x s + (if (d, x) = (day, side) then u else 0)"
    "domains_of dm_download_bytes d x (add_usage day side host u v s) =
      domains_of dm_download_bytes d x s + (if (d, x) = (day, side) then v else 0)"
    "side_daily dy_upload_bytes x (add_usage day side host u v s) = side_daily dy_upload_bytes x s + (if x = side then u else 0)"
    "side_daily dy_download_bytes x (add_usage day side host u v s) = side_daily dy_download_bytes x s + (if x = side then v else 0)"
  using assms unfolding sums add_usage_def rows_ok_def
  by (auto simp: sum_where_upsert)

lemma add_usage_maxima [simp]: "st_maxima (add_usage day side host u v s) = st_maxima s"
  by (simp add: add_usage_def)

lemma add_usage_rows:
  assumes "rows_ok s" and "0 \<le> u" "0 \<le> v" and "side \<in> set sides"
  shows "rows_ok (add_usage day side host u v s)"
proof (cases "u = 0 \<and> v = 0")
  case True
  then show ?thesis using assms(1) by (simp add: add_usage_def)
next
  case False
  let ?t = "add_usage day side host u v s"
  have "distinct (map dy_key (st_daily ?t))" "distinct (map dm_key (st_domains ?t))"
    using assms(1) False by (auto simp: add_usage_def rows_ok_def intro!: upsert_keys)
  moreover have daily: "st_daily ?t = upsert dy_key (\<lambda>r. r\<lparr>dy_upload_bytes := dy_upload_bytes r + u,
      dy_download_bytes := dy_download_bytes r + v\<rparr>) \<lparr>dy_key = (day, side), dy_upload_bytes = u, dy_download_bytes = v\<rparr> (st_daily s)"
    unfolding add_usage_def if_not_P [OF False] by simp
  have "\<forall>r\<in>set (st_daily ?t). 0 \<le> dy_upload_bytes r \<and> 0 \<le> dy_download_bytes r \<and> snd (dy_key r) \<in> set sides"
    unfolding daily by (rule upsert_all) (use assms in \<open>auto simp: rows_ok_def\<close>)
  ultimately show ?thesis using assms(1) by (simp add: rows_ok_def)
qed

text \<open>
  \<open>grew s u d x t\<close>: on side \<open>x\<close>, the days and the counters both grew by \<open>u\<close> and \<open>d\<close>; the other side is
  as before.
\<close>

definition grew :: "usage_store \<Rightarrow> int \<Rightarrow> int \<Rightarrow> string \<Rightarrow> usage_store \<Rightarrow> bool" where
  "grew s u d x t \<longleftrightarrow> (\<forall>side.
     side_daily dy_upload_bytes side t = side_daily dy_upload_bytes side s + (if side = x then u else 0) \<and>
     side_maxima cm_max_upload side t = side_maxima cm_max_upload side s + (if side = x then u else 0) \<and>
     side_daily dy_download_bytes side t = side_daily dy_download_bytes side s + (if side = x then d else 0) \<and>
     side_maxima cm_max_download side t = side_maxima cm_max_download side s + (if side = x then d else 0))"

text \<open>Usage is added after the maxima were raised by as much.\<close>

lemma add_usage_books:
  assumes ok: "books_ok s" and m: "rows_ok m" "st_daily m = st_daily s" "st_domains m = st_domains s"
    and up: "\<And>side. side_maxima cm_max_upload side m = side_maxima cm_max_upload side s + (if side = x then u else 0)"
    and down: "\<And>side. side_maxima cm_max_download side m = side_maxima cm_max_download side s + (if side = x then d else 0)"
    and pos: "0 \<le> u" "0 \<le> d" "x \<in> set sides"
  shows "books_ok (add_usage day x host u d m) \<and> grew s u d x (add_usage day x host u d m)"
proof -
  have same: "daily_of f dd y m = daily_of f dd y s" "domains_of g dd y m = domains_of g dd y s"
    "side_daily f y m = side_daily f y s" for f g dd y by (simp_all add: sums m(2,3))
  have max: "side_maxima f y (add_usage day x host u d m) = side_maxima f y m" for f y by (simp add: sums)
  note adds = add_usage_sums [OF m(1)]
  show ?thesis
    using ok add_usage_rows [OF m(1) pos] pos(1,2)
    unfolding books_ok_def grew_def by (auto simp: adds same max up down add_mono)
qed

lemma rows_ok_insert:
  assumes "rows_ok s" and "tbl_get cm_connection_id (st_maxima s) cid = None" and "x \<in> set sides" and "0 \<le> u" "0 \<le> d"
  shows "rows_ok (s\<lparr>st_maxima := st_maxima s @ [new_maximum cid x host u d now]\<rparr>)"
  using assms by (auto simp: rows_ok_def new_maximum_def tbl_get_None)

lemma tbl_put_as_map:
  "key r = key q \<Longrightarrow> tbl_put key r t = map (\<lambda>x. if key x = key q then r else x) t"
  by (simp add: tbl_put_def)

lemma raise_sums:
  assumes "rows_ok s" and "tbl_get cm_connection_id (st_maxima s) cid = Some r"
  shows "sum_where (\<lambda>q. cm_side q = side) cm_max_upload (tbl_put cm_connection_id (raise_maximum u d now r) (st_maxima s)) =
      sum_where (\<lambda>q. cm_side q = side) cm_max_upload (st_maxima s) + (if side = cm_side r then max 0 (u - cm_max_upload r) else 0)"
    "sum_where (\<lambda>q. cm_side q = side) cm_max_download (tbl_put cm_connection_id (raise_maximum u d now r) (st_maxima s)) =
      sum_where (\<lambda>q. cm_side q = side) cm_max_download (st_maxima s) + (if side = cm_side r then max 0 (d - cm_max_download r) else 0)"
proof -
  from assms have r: "distinct (map cm_connection_id (st_maxima s))" "r \<in> set (st_maxima s)"
    by (auto simp: rows_ok_def dest: tbl_get_Some)
  have put: "tbl_put cm_connection_id (raise_maximum u d now r) (st_maxima s) =
      map (\<lambda>q. if cm_connection_id q = cm_connection_id r then (\<lambda>_. raise_maximum u d now r) q else q) (st_maxima s)"
    by (simp add: tbl_put_def raise_maximum_def)
  show "sum_where (\<lambda>q. cm_side q = side) cm_max_upload (tbl_put cm_connection_id (raise_maximum u d now r) (st_maxima s)) =
      sum_where (\<lambda>q. cm_side q = side) cm_max_upload (st_maxima s) + (if side = cm_side r then max 0 (u - cm_max_upload r) else 0)"
    unfolding put by (subst sum_where_update [OF r]) (auto simp: raise_maximum_def max_def)
  show "sum_where (\<lambda>q. cm_side q = side) cm_max_download (tbl_put cm_connection_id (raise_maximum u d now r) (st_maxima s)) =
      sum_where (\<lambda>q. cm_side q = side) cm_max_download (st_maxima s) + (if side = cm_side r then max 0 (d - cm_max_download r) else 0)"
    unfolding put by (subst sum_where_update [OF r]) (auto simp: raise_maximum_def max_def)
qed

lemma rows_ok_raise:
  assumes "rows_ok s" and "tbl_get cm_connection_id (st_maxima s) cid = Some r"
  shows "rows_ok (s\<lparr>st_maxima := tbl_put cm_connection_id (raise_maximum u d now r) (st_maxima s)\<rparr>)"
proof -
  from assms have r: "r \<in> set (st_maxima s)" by (auto dest: tbl_get_Some)
  have "0 \<le> cm_max_upload q \<and> 0 \<le> cm_max_download q \<and> cm_side q \<in> set sides"
    if "q \<in> set (tbl_put cm_connection_id (raise_maximum u d now r) (st_maxima s))" for q
    using set_tbl_put [OF that] r assms(1) by (auto simp: rows_ok_def raise_maximum_def)
  then show ?thesis using assms(1) by (simp add: rows_ok_def)
qed

section \<open>Reading a snapshot\<close>

lemma classify_sides: "classify_connection chain item = Inr side \<Longrightarrow> side \<in> set sides"
  by (auto simp: classify_connection_def sides_def checks split: if_splits)

lemma byte_count_nonneg: "byte_count item key = Inr n \<Longrightarrow> 0 \<le> n"
  by (auto simp: byte_count_def checks)

text \<open>One item: nothing, or one side grows by what is counted.\<close>

lemma ingest_item_grows:
  assumes "ingest_item chain now (T, s) v = Inr (T', t)" and "books_ok s"
  shows "books_ok t \<and> (\<exists>u d x. x \<in> set sides \<and> grew s u d x t \<and>
    it_upload_delta T' = it_upload_delta T + u \<and> it_download_delta T' = it_download_delta T + d)"
proof -
  from assms(1) obtain item where item: "v = VMap item"
    by (cases v) (auto simp: ingest_item_def as_mapping_def)
  let ?cid = "py_str (or_else (vget item ''id'') (VStr []))"
  have rows: "rows_ok s" using assms(2) by (simp add: books_ok_def)
  show ?thesis
  proof (cases "?cid = []")
    case True
    then have "t = s" "T' = T" using assms(1) by (simp_all add: ingest_item_def item as_mapping_def)
    then show ?thesis using assms(2) by (auto simp: grew_def sides_def intro!: exI [of _ 0])
  next
    case False
    from assms(1) False obtain u d where n: "byte_count item ''upload'' = Inr u" "byte_count item ''download'' = Inr d"
      by (auto simp: ingest_item_def item as_mapping_def Let_def checks)
    note pos = byte_count_nonneg [OF n(1)] byte_count_nonneg [OF n(2)]
    show ?thesis
    proof (cases "tbl_get cm_connection_id (st_maxima s) ?cid")
      case None
      with assms(1) False n obtain x host where x: "classify_connection chain item = Inr x"
        and t: "t = add_usage (day_of now) x host u d (s\<lparr>st_maxima := st_maxima s @ [new_maximum ?cid x host u d now]\<rparr>)"
        and T: "T' = count_delta u d T"
        by (auto simp: ingest_item_def item as_mapping_def Let_def ingest_new_def checks)
      have "books_ok t \<and> grew s u d x t" unfolding t
        by (rule add_usage_books [OF assms(2) rows_ok_insert [OF rows None classify_sides [OF x] pos] _ _ _ _ pos classify_sides [OF x]])
          (auto simp: sums new_maximum_def)
      then show ?thesis using classify_sides [OF x] T by (auto simp: count_delta_def)
    next
      case (Some r)
      let ?u = "max 0 (u - cm_max_upload r)" and ?d = "max 0 (d - cm_max_download r)"
      from assms(1) False n Some have
        t: "t = add_usage (day_of now) (cm_side r) (cm_host r) ?u ?d (s\<lparr>st_maxima := tbl_put cm_connection_id (raise_maximum u d now r) (st_maxima s)\<rparr>)"
        and T: "T' = count_delta ?u ?d T"
        by (auto simp: ingest_item_def item as_mapping_def Let_def ingest_known_def checks)
      have x: "cm_side r \<in> set sides" using rows Some by (auto simp: rows_ok_def dest: tbl_get_Some)
      have "books_ok t \<and> grew s ?u ?d (cm_side r) t" unfolding t
        by (rule add_usage_books [OF assms(2) rows_ok_raise [OF rows Some] _ _ _ _ _ _ x])
          (auto simp: sums raise_sums [OF rows Some])
      then show ?thesis using x T by (auto simp: count_delta_def)
    qed
  qed
qed

text \<open>A snapshot: the days grow by what the counters grow by, and the totals say how much.\<close>

definition counted :: "ingest_totals \<times> usage_store \<Rightarrow> ingest_totals \<times> usage_store \<Rightarrow> bool" where
  "counted = (\<lambda>(T, s) (T', t).
     (\<forall>side. side_daily dy_upload_bytes side t - side_daily dy_upload_bytes side s =
          side_maxima cm_max_upload side t - side_maxima cm_max_upload side s \<and>
        side_daily dy_download_bytes side t - side_daily dy_download_bytes side s =
          side_maxima cm_max_download side t - side_maxima cm_max_download side s) \<and>
     it_upload_delta T' - it_upload_delta T =
       (\<Sum>side\<leftarrow>sides. side_daily dy_upload_bytes side t - side_daily dy_upload_bytes side s) \<and>
     it_download_delta T' - it_download_delta T =
       (\<Sum>side\<leftarrow>sides. side_daily dy_download_bytes side t - side_daily dy_download_bytes side s))"

lemma counted_refl: "counted a a"
  by (cases a) (simp add: counted_def sides_def)

lemma counted_trans: "counted a b \<Longrightarrow> counted b c \<Longrightarrow> counted a c"
  unfolding counted_def sides_def by (clarsimp split: prod.splits) (smt (verit))

lemma grew_counted:
  assumes "grew s u d x t" and "x \<in> set sides"
    and "it_upload_delta T' = it_upload_delta T + u" "it_download_delta T' = it_download_delta T + d"
  shows "counted (T, s) (T', t)"
  using assms by (auto simp: counted_def grew_def sides_def)

lemma ingest_fold_counts:
  assumes "foldS (ingest_item chain now) (T, s) vs = Inr (T', t)" and "books_ok s"
  shows "books_ok t \<and> counted (T, s) (T', t)"
  using assms
proof (induction vs arbitrary: T s)
  case Nil
  then show ?case by (simp add: counted_refl)
next
  case (Cons v vs)
  then obtain U r where step: "ingest_item chain now (T, s) v = Inr (U, r)"
    and rest: "foldS (ingest_item chain now) (U, r) vs = Inr (T', t)" by (auto simp: checks)
  from ingest_item_grows [OF step Cons.prems(2)] have r: "books_ok r" "counted (T, s) (U, r)"
    using grew_counted by blast+
  then show ?case using Cons.IH [OF rest r(1)] counted_trans by blast
qed

lemma mark_success_sums:
  "st_maxima (mark_success now s) = st_maxima s" "st_daily (mark_success now s) = st_daily s"
  "st_domains (mark_success now s) = st_domains s"
  by (simp_all add: mark_success_def)

lemma books_ok_cong:
  "st_maxima t = st_maxima s \<Longrightarrow> st_daily t = st_daily s \<Longrightarrow> st_domains t = st_domains s \<Longrightarrow> books_ok t = books_ok s"
  by (simp add: books_ok_def rows_ok_def sums)

section \<open>A snapshot seen again\<close>

text \<open>An item whose counters are covered by the row of its connection.\<close>

definition covered :: "pyval \<Rightarrow> usage_store \<Rightarrow> bool" where
  "covered v s \<longleftrightarrow> (\<exists>item. v = VMap item \<and> (py_str (or_else (vget item ''id'') (VStr [])) = [] \<or>
     (\<exists>u d r. byte_count item ''upload'' = Inr u \<and> byte_count item ''download'' = Inr d \<and>
        bind_int u = Inr () \<and> bind_int d = Inr () \<and>
        tbl_get cm_connection_id (st_maxima s) (py_str (or_else (vget item ''id'') (VStr []))) = Some r \<and>
        u \<le> cm_max_upload r \<and> d \<le> cm_max_download r)))"

definition grown :: "usage_store \<Rightarrow> usage_store \<Rightarrow> bool" where
  "grown s t \<longleftrightarrow> (\<forall>k r. tbl_get cm_connection_id (st_maxima s) k = Some r \<longrightarrow>
     (\<exists>q. tbl_get cm_connection_id (st_maxima t) k = Some q \<and> cm_max_upload r \<le> cm_max_upload q \<and>
        cm_max_download r \<le> cm_max_download q))"

lemma grown_refl: "grown s s"
  by (simp add: grown_def)

lemma grown_trans: "grown s t \<Longrightarrow> grown t u \<Longrightarrow> grown s u"
  unfolding grown_def by (meson order_trans)

lemma covered_grown:
  assumes "covered v s" and "grown s t"
  shows "covered v t"
proof -
  from assms(1) obtain item where item: "v = VMap item" by (auto simp: covered_def)
  let ?cid = "py_str (or_else (vget item ''id'') (VStr []))"
  show ?thesis
  proof (cases "?cid = []")
    case False
    with assms(1) obtain u d r where n: "byte_count item ''upload'' = Inr u" "byte_count item ''download'' = Inr d"
        "bind_int u = Inr ()" "bind_int d = Inr ()" "tbl_get cm_connection_id (st_maxima s) ?cid = Some r"
        "u \<le> cm_max_upload r" "d \<le> cm_max_download r" by (auto simp: covered_def item)
    with assms(2) obtain q where "tbl_get cm_connection_id (st_maxima t) ?cid = Some q"
        "cm_max_upload r \<le> cm_max_upload q" "cm_max_download r \<le> cm_max_download q" unfolding grown_def by blast
    then show ?thesis using n by (auto simp: covered_def item)
  qed (simp add: covered_def item)
qed

lemma grown_append: "grown s (s\<lparr>st_maxima := st_maxima s @ [r]\<rparr>)"
  by (auto simp: grown_def tbl_get_append)

lemma grown_raise:
  assumes "tbl_get cm_connection_id (st_maxima s) k = Some r"
  shows "grown s (s\<lparr>st_maxima := tbl_put cm_connection_id (raise_maximum u d now r) (st_maxima s)\<rparr>)"
  using assms tbl_get_Some [OF assms] by (auto simp: grown_def tbl_get_put raise_maximum_def)

lemma ingest_item_covers:
  assumes "ingest_item chain now (T, s) v = Inr (T', t)"
  shows "grown s t \<and> covered v t"
proof -
  from assms obtain item where item: "v = VMap item"
    by (cases v) (auto simp: ingest_item_def as_mapping_def)
  let ?cid = "py_str (or_else (vget item ''id'') (VStr []))"
  show ?thesis
  proof (cases "?cid = []")
    case True
    then show ?thesis using assms by (simp add: ingest_item_def item as_mapping_def grown_refl covered_def)
  next
    case False
    from assms False obtain u d where n: "byte_count item ''upload'' = Inr u" "byte_count item ''download'' = Inr d"
      by (auto simp: ingest_item_def item as_mapping_def Let_def checks)
    show ?thesis
    proof (cases "tbl_get cm_connection_id (st_maxima s) ?cid")
      case None
      with assms False n obtain x host where b: "bind_int u = Inr ()" "bind_int d = Inr ()"
        and t: "st_maxima t = st_maxima s @ [new_maximum ?cid x host u d now]"
        by (auto simp: ingest_item_def item as_mapping_def Let_def ingest_new_def checks)
      have "grown s t" using grown_append [of s "new_maximum ?cid x host u d now"] t by (simp add: grown_def)
      moreover have "tbl_get cm_connection_id (st_maxima t) ?cid = Some (new_maximum ?cid x host u d now)"
        using None by (simp add: t tbl_get_append new_maximum_def)
      then have "covered v t" using n b by (auto simp: item covered_def new_maximum_def)
      ultimately show ?thesis by simp
    next
      case (Some r)
      from assms False n Some have b: "bind_int u = Inr ()" "bind_int d = Inr ()"
        and t: "st_maxima t = tbl_put cm_connection_id (raise_maximum u d now r) (st_maxima s)"
        by (auto simp: ingest_item_def item as_mapping_def Let_def ingest_known_def checks)
      have "cm_connection_id (raise_maximum u d now r) = ?cid" using tbl_get_Some [OF Some] by (simp add: raise_maximum_def)
      then have "tbl_get cm_connection_id (st_maxima t) ?cid = Some (raise_maximum u d now r)"
        using Some by (simp add: t tbl_get_put)
      then have "covered v t" using n b by (auto simp: item covered_def raise_maximum_def)
      moreover have "grown s t" using grown_raise [OF Some, of u d now] t by (simp add: grown_def)
      ultimately show ?thesis by simp
    qed
  qed
qed

lemma ingest_fold_covers:
  assumes "foldS (ingest_item chain now) (T, s) vs = Inr (T', t)"
  shows "grown s t \<and> (\<forall>v\<in>set vs. covered v t)"
  using assms
proof (induction vs arbitrary: T s)
  case (Cons v vs)
  then obtain U r where step: "ingest_item chain now (T, s) v = Inr (U, r)"
    and rest: "foldS (ingest_item chain now) (U, r) vs = Inr (T', t)" by (auto simp: checks)
  from ingest_item_covers [OF step] Cons.IH [OF rest] show ?case using grown_trans covered_grown by auto
qed (simp add: grown_refl)

lemma ingest_covered:
  assumes "covered v s"
  shows "\<exists>T' t. ingest_item chain now (T, s) v = Inr (T', t) \<and> it_upload_delta T' = it_upload_delta T \<and>
    it_download_delta T' = it_download_delta T \<and> st_daily t = st_daily s \<and> st_domains t = st_domains s"
proof -
  from assms obtain item where item: "v = VMap item" by (auto simp: covered_def)
  show ?thesis
  proof (cases "py_str (or_else (vget item ''id'') (VStr [])) = []")
    case True
    then show ?thesis by (simp add: ingest_item_def item as_mapping_def)
  next
    case False
    with assms show ?thesis
      by (auto simp: covered_def item ingest_item_def as_mapping_def Let_def ingest_known_def add_usage_def count_delta_def)
  qed
qed

lemma ingest_all_covered:
  assumes "\<forall>v\<in>set vs. covered v s"
  shows "\<exists>T' t. foldS (ingest_item chain now) (T, s) vs = Inr (T', t) \<and> it_upload_delta T' = it_upload_delta T \<and>
    it_download_delta T' = it_download_delta T \<and> st_daily t = st_daily s \<and> st_domains t = st_domains s"
  using assms
proof (induction vs arbitrary: T s)
  case (Cons v vs)
  from ingest_covered [of v s chain now T] Cons.prems obtain U r where
    step: "ingest_item chain now (T, s) v = Inr (U, r)" "it_upload_delta U = it_upload_delta T"
      "it_download_delta U = it_download_delta T" "st_daily r = st_daily s" "st_domains r = st_domains s" by auto
  have "\<forall>v\<in>set vs. covered v r" using ingest_item_covers [OF step(1)] Cons.prems covered_grown by auto
  from Cons.IH [OF this, of U] step show ?case by (auto simp: checks)
qed simp

section \<open>The loop\<close>

lemma books_ok_open: "books_ok open_store"
  by (simp add: books_ok_def rows_ok_def sums open_store_def)

lemma books_ok_ingest:
  assumes "ingest_connections chain now items s = Inr (T, t)" and "books_ok s"
  shows "books_ok t \<and> counted (\<lparr>it_connections = 0, it_upload_delta = 0, it_download_delta = 0\<rparr>, s) (T, t)"
proof -
  from assms(1) obtain u where fold: "foldS (ingest_item chain now) (\<lparr>it_connections = 0, it_upload_delta = 0, it_download_delta = 0\<rparr>, s) items = Inr (T, u)"
    and t: "t = mark_success now u" by (auto simp: ingest_connections_def checks)
  have "books_ok t = books_ok u" unfolding t by (rule books_ok_cong) (simp_all add: mark_success_sums)
  then show ?thesis using ingest_fold_counts [OF fold assms(2)]
    by (simp add: t counted_def side_daily_def side_maxima_def mark_success_sums)
qed

lemma books_ok_prune:
  assumes "books_ok s"
  shows "books_ok (prune_connection_maxima now s)"
proof -
  let ?t = "prune_connection_maxima now s"
  have m: "st_maxima ?t = filter (\<lambda>r. \<not> cm_last_seen_at r < now - retention_days * 86400000000) (st_maxima s)"
    "st_daily ?t = st_daily s" "st_domains ?t = st_domains s" by (simp_all add: prune_connection_maxima_def)
  have "side_maxima cm_max_upload x ?t \<le> side_maxima cm_max_upload x s"
    "side_maxima cm_max_download x ?t \<le> side_maxima cm_max_download x s" for x
    using assms unfolding side_maxima_def m by (auto simp: books_ok_def rows_ok_def intro!: sum_where_filter)
  note less = this
  have "rows_ok ?t" using assms by (auto simp: books_ok_def rows_ok_def m distinct_map_filter)
  then show ?thesis using assms order_trans [OF less(1)] order_trans [OF less(2)] unfolding books_ok_def
    by (simp add: daily_of_def domains_of_def side_daily_def m)
qed

lemma books_ok_record_error: "books_ok (record_error e s) = books_ok s"
  by (rule books_ok_cong) (simp_all add: record_error_def)

abbreviation balanced :: "collector \<Rightarrow> bool" where
  "balanced c \<equiv> books_ok (co_store c)"

lemma wp_transaction:
  assumes "balanced c" and "\<And>t. body (co_store c) = Inr t \<Longrightarrow> books_ok t"
    and "\<And>c. balanced c \<Longrightarrow> Q () c" and "\<And>e c. balanced c \<Longrightarrow> R e c"
  shows "wpE (in_transaction fault body) Q R c"
  using assms by (auto simp: wpE_def in_transaction_def split: option.split sum.split)

lemma wp_report:
  assumes "balanced c" and "\<And>c. balanced c \<Longrightarrow> Q () c" and "\<And>e c. balanced c \<Longrightarrow> R e c"
  shows "wpE (write_report fault now) Q R c"
  using assms by (auto simp: wpE_def write_report_def split: option.split)

lemma wp_prune:
  assumes "balanced c" and "\<And>c. balanced c \<Longrightarrow> Q () c" and "\<And>e c. balanced c \<Longrightarrow> R e c"
  shows "wpE (prune_daily fault now) Q R c"
  using assms unfolding prune_daily_def wp by (auto intro!: wp_transaction simp: books_ok_prune wp)

lemma collect_round_balanced:
  assumes "balanced c"
  shows "wpE (collect_round chain io) (\<lambda>_. balanced) (\<lambda>_. balanced) c"
proof -
  have handler: "wpE (in_transaction fault (\<lambda>s. Inr (record_error e s))) (\<lambda>_. wpE (write_report fault' now) (\<lambda>_. balanced) (\<lambda>_. balanced))
      (\<lambda>_. balanced) c" if "balanced c" for fault fault' now e c
    using that by (auto intro!: wp_transaction wp_report simp: books_ok_record_error)
  have ingest: "books_ok t" if "bindS (ingest_connections chain now items s) (\<lambda>(_, t). Inr t) = Inr t" "books_ok s" for now items s t
    using that books_ok_ingest by (auto simp: checks)
  show ?thesis unfolding collect_round_def wp
    by (split sum.split, intro conjI allI impI handler assms wp_transaction wp_prune wp_report)
      (erule ingest; rule assms)
qed

lemma run_loop_balanced:
  assumes "balanced c"
  shows "wpE (run_loop chain ios) (\<lambda>_. balanced) (\<lambda>_. balanced) c"
  using assms unfolding run_loop_def
proof (induction ios arbitrary: c)
  case (Cons io ios)
  then show ?case by (auto simp: wp intro!: wp_mono [OF collect_round_balanced])
qed (simp add: wp)

text \<open>
  C30. In every run of the collector, whatever the control API answers and whichever transactions
  or reports fail, each connection, each day and side, and each day, host and side has one row; the
  bytes of a day and side are the sum over its hosts; and the counters kept of the connections of a
  side are covered by the bytes of its days.
\<close>

theorem attribution_books_balance:
  "let s = co_store (snd (run_loop chain ios start_collector)) in
    distinct (map cm_connection_id (st_maxima s)) \<and> distinct (map dy_key (st_daily s)) \<and> distinct (map dm_key (st_domains s)) \<and>
    (\<forall>day side. daily_of dy_upload_bytes day side s = domains_of dm_upload_bytes day side s \<and>
       daily_of dy_download_bytes day side s = domains_of dm_download_bytes day side s) \<and>
    (\<forall>side. side_maxima cm_max_upload side s \<le> side_daily dy_upload_bytes side s \<and>
       side_maxima cm_max_download side s \<le> side_daily dy_download_bytes side s)"
proof -
  have "wpE (run_loop chain ios) (\<lambda>_. balanced) (\<lambda>_. balanced) start_collector"
    by (rule run_loop_balanced) (simp add: start_collector_def books_ok_open)
  then have "books_ok (co_store (snd (run_loop chain ios start_collector)))"
    by (cases "run_loop chain ios start_collector") (auto simp: wpE_def split: sum.splits)
  then show ?thesis by (simp add: books_ok_def rows_ok_def Let_def)
qed

text \<open>
  C31. A snapshot adds to the days of a side exactly what the counters of its connections grew by,
  and its totals say how much that is. The same snapshot seen again, at any later time, is accepted
  and adds nothing.
\<close>

theorem snapshots_are_counted_once:
  assumes "ingest_connections chain now items s = Inr (T, t)" and "books_ok s"
  shows "(\<forall>side. side_daily dy_upload_bytes side t - side_daily dy_upload_bytes side s =
        side_maxima cm_max_upload side t - side_maxima cm_max_upload side s \<and>
      side_daily dy_download_bytes side t - side_daily dy_download_bytes side s =
        side_maxima cm_max_download side t - side_maxima cm_max_download side s) \<and>
    it_upload_delta T = (\<Sum>side\<leftarrow>sides. side_daily dy_upload_bytes side t - side_daily dy_upload_bytes side s) \<and>
    it_download_delta T = (\<Sum>side\<leftarrow>sides. side_daily dy_download_bytes side t - side_daily dy_download_bytes side s) \<and>
    (\<exists>T' u. ingest_connections chain later items t = Inr (T', u) \<and> it_upload_delta T' = 0 \<and> it_download_delta T' = 0 \<and>
      st_daily u = st_daily t \<and> st_domains u = st_domains t)"
proof -
  let ?T = "\<lparr>it_connections = 0, it_upload_delta = 0, it_download_delta = 0\<rparr>"
  from assms(1) obtain r where fold: "foldS (ingest_item chain now) (?T, s) items = Inr (T, r)" and t: "t = mark_success now r"
    by (auto simp: ingest_connections_def checks)
  have "\<forall>v\<in>set items. covered v t" using ingest_fold_covers [OF fold] by (simp add: t covered_def mark_success_sums)
  from ingest_all_covered [OF this, of chain later ?T] have
    "\<exists>T' u. ingest_connections chain later items t = Inr (T', u) \<and> it_upload_delta T' = 0 \<and> it_download_delta T' = 0 \<and>
      st_daily u = st_daily t \<and> st_domains u = st_domains t"
    by (auto simp: ingest_connections_def checks mark_success_sums)
  then show ?thesis using books_ok_ingest [OF assms] by (simp add: counted_def)
qed

definition sample_connections :: "pyval list" where
  "sample_connections = [VMap [(''id'', VStr ''a''), (''upload'', VInt 5), (''download'', VInt 7),
      (''chains'', VList [VStr ''EGRESS_US_01'']), (''metadata'', VMap [(''host'', VStr ''Example.COM.'')])],
    VMap [(''id'', VStr ''b''), (''upload'', VInt 2), (''metadata'', VMap [])]]"

theorem snapshots_are_counted_once_witness:
  "\<exists>T t T' u. ingest_connections ''EGRESS_US_01'' 0 sample_connections open_store = Inr (T, t) \<and> it_upload_delta T = 7 \<and>
     ingest_connections ''EGRESS_US_01'' 9 sample_connections t = Inr (T', u) \<and> it_upload_delta T' = 0 \<and> st_daily u = st_daily t"
proof -
  have "case ingest_connections ''EGRESS_US_01'' 0 sample_connections open_store of Inr (T, t) \<Rightarrow> it_upload_delta T = 7 | _ \<Rightarrow> False"
    by code_simp
  then obtain T t where run: "ingest_connections ''EGRESS_US_01'' 0 sample_connections open_store = Inr (T, t)" "it_upload_delta T = 7"
    by (auto split: sum.splits)
  from snapshots_are_counted_once [OF run(1) books_ok_open, of 9] run show ?thesis by blast
qed

end
