(* ===== verification/Paid_Properties.thy ===== *)
theory Paid_Properties
  imports Paid_Workflow
begin

text \<open>
  The contracts of the paid-order workflow as monitors of its trace.

  \<^item> \<open>route_lock\<close>: routing state is written and the gateway is driven only while the named
    route lock is held, and the lock is released only when the routing write has been committed
    or rolled back (ADR-016, ADR-017).
  \<^item> \<open>business_first\<close>: the terminal status of the run is written only after the business commit
    it reports, and a purchase under manual review is never activated (ADR-017, ADR-026).
\<close>

section \<open>Monitors\<close>

text \<open>\<open>RollbackBroken\<close>: a rollback raised while routing state was pending; nothing is claimed after it.\<close>

datatype route_lock_state = Free | Held | HeldDirty | RollbackBroken

definition route_lock :: "route_lock_state monitor" where
  "route_lock q e =
     (if q = RollbackBroken then Some q else
      let ended = (\<lambda>r. if q = HeldDirty then (if r = None then Held else RollbackBroken) else q) in
      case fst e of
        LockAcquire \<Rightarrow> if q = Free then Some (if snd e = None then Held else Free) else None
      | LockRelease \<Rightarrow> if q = Held then Some Free else None
      | DesiredRouting _ _ _ _ \<Rightarrow> if q = Free then None else Some HeldDirty
      | GatewayRender _ \<Rightarrow> if q = Free then None else Some q
      | GatewayValidate \<Rightarrow> if q = Free then None else Some q
      | GatewayApply \<Rightarrow> if q = Free then None else Some q
      | ReconcileInSession _ \<Rightarrow> if q = Held then Some q else None
      | RollbackDatabase \<Rightarrow> Some (ended (snd e))
      | OrderRollback \<Rightarrow> Some (ended (snd e))
      | OrderCommit \<Rightarrow> Some (if snd e = None \<and> q = HeldDirty then Held else q)
      | _ \<Rightarrow> Some q)"

datatype business = Idle | ActivateFlushed | ActivateCommitted | PendingFlushed | PendingCommitted

definition business_first :: "business monitor" where
  "business_first q e =
     (let undone = (if q = ActivateFlushed \<or> q = PendingFlushed then Idle else q) in
      case fst e of
        ActivateSubscription _ \<Rightarrow>
          if q = PendingFlushed \<or> q = PendingCommitted then None
          else Some (if snd e = None then ActivateFlushed else q)
      | MarkProvisionPending _ _ \<Rightarrow> Some (if snd e = None then PendingFlushed else q)
      | MarkProvisionFailed _ _ \<Rightarrow> Some (if snd e = None then Idle else q)
      | OrderCommit \<Rightarrow> Some (if snd e \<noteq> None then q else if q = ActivateFlushed then ActivateCommitted
                         else if q = PendingFlushed then PendingCommitted else q)
      | OrderRollback \<Rightarrow> Some (if snd e = None then undone else q)
      | RollbackDatabase \<Rightarrow> Some (if snd e = None then undone else q)
      | MarkStatus _ st _ \<Rightarrow>
          if (st = SUCCEEDED \<and> q \<noteq> ActivateCommitted) \<or> (st = PENDING_MANUAL \<and> q \<noteq> PendingCommitted)
          then None else Some q
      | _ \<Rightarrow> Some q)"

definition takes_payment :: "event \<Rightarrow> bool" where
  "takes_payment ev = (case ev of
     ConfirmManual _ \<Rightarrow> True | RecordPayment _ _ \<Rightarrow> True | PreparePurchase _ \<Rightarrow> True
   | ApplyRenewal _ \<Rightarrow> True | RunsStart _ \<Rightarrow> True | ActivateSubscription _ \<Rightarrow> True | _ \<Rightarrow> False)"

text \<open>The texts the workflow may store in \<open>Subscription.provision_error\<close> for a manual review.\<close>

definition review_messages :: "string list" where
  "review_messages =
     [''provisioning requires manual review'',
      ''durable gateway commit outcome could not be confirmed; requires review''] @
     map PENDING_MANUAL_BUSINESS_MESSAGES
       [EXTERNAL_TENANT_CREATION, ACCOUNTING_CREATE_AMBIGUOUS, ACCOUNTING_COMPENSATION_FAILED,
        FORWARDER_COMPENSATION_FAILED, GATEWAY_COMPENSATION_FAILED]"

definition unvetted_message :: "event \<Rightarrow> bool" where
  "unvetted_message ev = (case ev of MarkProvisionPending _ msg \<Rightarrow> msg \<notin> set review_messages | _ \<Rightarrow> False)"

text \<open>Calls on the order state and the payment provider.\<close>

definition order_event :: "event \<Rightarrow> bool" where
  "order_event ev = (case ev of
     ConfirmManual _ \<Rightarrow> True | OrderCommit \<Rightarrow> True | OrderRollback \<Rightarrow> True | OrderRejectCapacity _ _ \<Rightarrow> True
   | RecordPayment _ _ \<Rightarrow> True | PreparePurchase _ \<Rightarrow> True | ApplyRenewal _ \<Rightarrow> True
   | ActivateSubscription _ \<Rightarrow> True | MarkProvisionPending _ _ \<Rightarrow> True | MarkProvisionFailed _ _ \<Rightarrow> True
   | _ \<Rightarrow> False)"

datatype payment = Unpaid | Confirmed | Recorded | Paid

text \<open>
  Payment is recorded once, after the provider confirmed it; a run starts only after the
  payment was committed, and nothing touches the payment again.
\<close>

definition payment_order :: "payment monitor" where
  "payment_order q e = (case fst e of
     ConfirmManual _ \<Rightarrow> if q = Unpaid then Some (if snd e = None then Confirmed else Unpaid) else None
   | RecordPayment _ _ \<Rightarrow> if q = Confirmed then Some (if snd e = None then Recorded else Confirmed) else None
   | OrderCommit \<Rightarrow> Some (if q = Recorded \<and> snd e = None then Paid else q)
   | OrderRollback \<Rightarrow> Some (if q = Recorded \<and> snd e = None then Confirmed else q)
   | RunsStart _ \<Rightarrow> if q = Paid then Some q else None
   | CreateTenant _ _ _ \<Rightarrow> if q = Paid then Some q else None
   | ForwarderApply \<Rightarrow> if q = Paid then Some q else None
   | CreateUser _ _ _ \<Rightarrow> if q = Paid then Some q else None
   | GatewayApply \<Rightarrow> if q = Paid then Some q else None
   | ReconcileInSession _ \<Rightarrow> if q = Paid then Some q else None
   | _ \<Rightarrow> Some q)"

definition charges :: "event \<Rightarrow> bool" where
  "charges ev = (case ev of ConfirmManual _ \<Rightarrow> True | RecordPayment _ _ \<Rightarrow> True | _ \<Rightarrow> False)"

text \<open>Protocols that answer a paid order, for the witnesses.\<close>

definition paid_answering :: "answers \<Rightarrow> (unit, unit, unit) paid_env" where
  "paid_answering a = saga_env.extend (answering a)
     (paid_env.fields (\<lambda>_ w. (Inr (), w)) (\<lambda>_. 0) (\<lambda>w. (Inr (), w)) (\<lambda>w. (Inr (), w))
        (\<lambda>_ _ w. (Inr (), w)) (\<lambda>_ _ w. (Inr (), w)) (\<lambda>_ w. (Inr (), w)) (\<lambda>_ w. (Inr (), w))
        (\<lambda>_ w. (Inr (), w)) (\<lambda>_ _ w. (Inr (), w)) (\<lambda>_ _ w. (Inr (), w))
        (\<lambda>w. (Inr (), w)) (\<lambda>w. (Inr (), w)) False (\<lambda>_ w. (Inr (Some 5), w)) (\<lambda>w. (Inr (), w))
        (\<lambda>_ _ w. (Inr (), w)) (\<lambda>_ _ _ w. (Inr 1, w)) (\<lambda>_ _ w. (Inr ABSENT, w))
        (\<lambda>n w. (Inr \<lparr>gr_job_id = n, gr_applied = True, gr_finalized = True, gr_retryable = False,
                     gr_reason_code = None\<rparr>, w))
        (\<lambda>_ _ w. (Inr None, w)))"

definition sample_command :: billing_command where
  "sample_command = \<lparr>bc_order_id = ''7'', bc_subscription_id = None, bc_order_type = PURCHASE,
     bc_plan_id = None, bc_addon_bytes = 0\<rparr>"

text \<open>The same protocols with a route lock whose release raises.\<close>

definition release_failing :: "(unit, unit, unit) paid_env" where
  "release_failing = (paid_answering sample_answers)
     \<lparr>lock_release := (\<lambda>w. (Inl (Exn (OtherException ''OperationalError'') ''gone''), w))\<rparr>"

text \<open>
  The same protocols with a gateway that cannot be applied, a user that cannot be disabled and
  an order state that cannot record the manual review.
\<close>

definition review_failing :: "(unit, unit, unit) paid_env" where
  "review_failing = (paid_answering sample_answers)
     \<lparr>gateway_apply := (\<lambda>_ w. (Inl (runtime_error ''apply''), w)),
      accounting_disable_user := (\<lambda>_ w. (Inl (runtime_error ''disable''), w)),
      order_mark_provision_pending := (\<lambda>_ _ w. (Inl (runtime_error ''db''), w))\<rparr>"

section \<open>Symbolic execution\<close>

lemmas workflow_defs = transaction_def apply_paid_billing_change_def activate_paid_purchase_def
  mark_provision_pending_def fail_paid_purchase_def mark_pending_manual_def handle_pre_gateway_failure_def
  mark_first_commit_unknown_def quiet_rollback_def durable_intent_def first_commit_failed_def
  durable_locked_def fail_before_gateway_authoritative_commit_def fail_apply_gateway_lock_acquisition_def

lemma safe_case_first_commit [safe_intros]:
  "(x = LANDED \<Longrightarrow> safe D q a Q E) \<Longrightarrow> (x = ABSENT \<Longrightarrow> safe D q b Q E) \<Longrightarrow> (x = UNKNOWN \<Longrightarrow> safe D q c Q E) \<Longrightarrow>
   safe D q (case x of LANDED \<Rightarrow> a | ABSENT \<Rightarrow> b | UNKNOWN \<Rightarrow> c) Q E"
  by (cases x) auto

lemmas paid_rules = safe_intros allI conjI impI

subsection \<open>FAILED only when clean\<close>

lemma clean_workflow_parts:
  "safe failed_when_clean q (mark_pending_manual P command out) (\<lambda>_ _. True) (\<lambda>_ _. True)"
  "safe failed_when_clean q (handle_pre_gateway_failure P command ck req err) (\<lambda>_ _. True) (\<lambda>_ _. True)"
  "safe failed_when_clean q (mark_first_commit_unknown P command ck) (\<lambda>_ _. True) (\<lambda>_ _. True)"
  "safe failed_when_clean q (durable_intent P command req ck sid) (\<lambda>_ _. True) (\<lambda>_ _. True)"
  "safe failed_when_clean q (quiet_rollback P) (\<lambda>_ _. True) (\<lambda>_ _. True)"
  unfolding workflow_defs helper_defs
  by (((rule paid_rules)+ | simp add: clean_simps)+)

lemmas clean_workflow = clean_workflow_parts [THEN safe_mono] clean_phases

lemma clean_durable:
  "safe failed_when_clean q (confirm_paid_purchase_durable P command req ck) (\<lambda>_ _. True) (\<lambda>_ _. True)"
  unfolding confirm_paid_purchase_durable_def durable_locked_def first_commit_failed_def send_def
  by (((rule paid_rules clean_workflow)+ | simp add: clean_simps)+)

lemma clean_phase_B:
  "safe failed_when_clean q (phase_B P command req ck) (\<lambda>_ _. True) (\<lambda>_ _. True)"
  unfolding phase_B_def locked_phase_B_def transaction_def activate_paid_purchase_def fail_paid_purchase_def
    fail_apply_gateway_lock_acquisition_def helper_defs
  by (((rule paid_rules clean_workflow)+ | simp add: clean_simps)+)

lemmas clean_tails = clean_durable [THEN safe_mono] clean_phase_B [THEN safe_mono]

lemma clean_confirm:
  "safe failed_when_clean q (confirm_payment_and_provision P command req code ref) (\<lambda>_ _. True) (\<lambda>_ _. True)"
  unfolding confirm_payment_and_provision_def provision_paid_purchase_def transaction_def
    apply_paid_billing_change_def fail_paid_purchase_def helper_defs
  by (((rule paid_rules clean_workflow clean_tails)+ | simp add: clean_simps)+)

subsection \<open>The route lock\<close>

lemmas lock_simps = route_lock_def Let_def

lemma lock_prepare:
  "safe route_lock Free (provision_prepare P req) (\<lambda>_ q. q = Free) (\<lambda>_ q. q = Free)"
proof -
  have "route_lock Free (ev, r) = Some Free" if "\<not> touches_gateway ev" for ev r
    using that by (cases ev) (simp_all add: lock_simps touches_gateway_def)
  from safe_frame [where D = route_lock and q = Free, OF no_gateway_prepare this] show ?thesis
    by (rule safe_mono) simp_all
qed

lemma lock_apply_gateway:
  "safe route_lock Held (provision_apply_gateway P ck req) (\<lambda>_ q. q \<noteq> Free) (\<lambda>_ q. q \<noteq> Free)"
  unfolding provision_apply_gateway_def step_defs helper_defs
  by (((rule safe_rules)+ | simp add: lock_simps)+)

text \<open>Parts that run without the lock, and under it after the routing write ended.\<close>

lemma lock_workflow_parts:
  assumes "q \<noteq> HeldDirty"
  shows "safe route_lock q (handle_pre_gateway_failure P command ck req err) (\<lambda>_ q'. q' = q) (\<lambda>_ q'. q' = q)"
    "safe route_lock q (mark_first_commit_unknown P command ck) (\<lambda>_ q'. q' = q) (\<lambda>_ q'. q' = q)"
    "safe route_lock q (fail_apply_gateway_lock_acquisition P ck req err) (\<lambda>_ q'. q' = q) (\<lambda>_ q'. q' = q)"
    "safe route_lock q (mark_pending_manual P command out) (\<lambda>_ q'. q' = q) (\<lambda>_ q'. q' = q)"
  unfolding workflow_defs helper_defs
  by (((rule paid_rules)+ | simp add: lock_simps assms)+)

lemma lock_pending_dirty:
  "safe route_lock HeldDirty (mark_pending_manual P command out)
     (\<lambda>_ q. q = Held \<or> q = RollbackBroken) (\<lambda>_ q. q = Held \<or> q = RollbackBroken)"
  unfolding workflow_defs helper_defs
  by (((rule paid_rules)+ | simp add: lock_simps)+)

lemmas lock_clean_parts = lock_workflow_parts [THEN safe_mono]

lemma lock_pending:
  "q \<noteq> Free \<Longrightarrow> safe route_lock q (mark_pending_manual P command out)
     (\<lambda>_ q'. q' = Held \<or> q' = RollbackBroken) (\<lambda>_ q'. q' = Held \<or> q' = RollbackBroken)"
  by (cases q) (auto intro: lock_pending_dirty lock_clean_parts)

lemma lock_activate:
  "q \<noteq> Free \<Longrightarrow> safe route_lock q (transaction P (activate_paid_purchase P command))
     (\<lambda>_ q'. q' = Held \<or> q' = RollbackBroken) (\<lambda>_ q'. q' = Held \<or> q' = RollbackBroken)"
  unfolding transaction_def activate_paid_purchase_def
  by (cases q) (((rule paid_rules)+ | simp add: lock_simps)+)

lemma lock_rollback:
  "q \<noteq> Free \<Longrightarrow> safe route_lock q (rollback_database P)
     (\<lambda>_ q'. q' = Held \<or> q' = RollbackBroken) (\<lambda>_ q'. q' = Held \<or> q' = RollbackBroken)"
  "safe route_lock Free (rollback_database P) (\<lambda>_ q'. q' = Free) (\<lambda>_ q'. q' = Free)"
  "q \<noteq> Free \<Longrightarrow> safe route_lock q (quiet_rollback P)
     (\<lambda>_ q'. q' = Held \<or> q' = RollbackBroken) (\<lambda>_ _. False)"
  "safe route_lock Free (quiet_rollback P) (\<lambda>_ q'. q' = Free) (\<lambda>_ _. False)"
  unfolding rollback_database_def quiet_rollback_def
  by (cases q; ((rule paid_rules)+ | simp add: lock_simps)+)+

lemma lock_marks:
  "safe route_lock q (mark_apply_gateway_succeeded P run_id) (\<lambda>_ q'. q' = q) (\<lambda>_ _. False)"
  "safe route_lock q (mark_run_failed P run_id err) (\<lambda>_ q'. q' = q) (\<lambda>_ q'. q' = q)"
  "q \<noteq> HeldDirty \<Longrightarrow> safe route_lock q (transaction P (fail_paid_purchase P command e)) (\<lambda>_ q'. q' = q) (\<lambda>_ q'. q' = q)"
  unfolding transaction_def fail_paid_purchase_def helper_defs
  by (((rule paid_rules)+ | simp add: lock_simps)+)

lemmas lock_parts = lock_pending [THEN safe_mono] lock_activate [THEN safe_mono]
  lock_rollback [THEN safe_mono] lock_marks [THEN safe_mono]

lemma lock_locked_phase_B:
  "safe route_lock Held (locked_phase_B P command req ck)
     (\<lambda>_ q. q = Held \<or> q = RollbackBroken) (\<lambda>_ q. q = Held \<or> q = RollbackBroken)"
  unfolding locked_phase_B_def
  by (rule safe_bind safe_try lock_apply_gateway [THEN safe_mono])+
    (auto intro!: safe_if safe_then safe_raise safe_ret lock_parts)

lemma lock_release_step:
  "q = Held \<or> q = RollbackBroken \<Longrightarrow> safe route_lock q (perform LockRelease op)
     (\<lambda>_ q'. q' = Free \<or> q' = RollbackBroken) (\<lambda>_ q'. q' = Free \<or> q' = RollbackBroken)"
  by (cases q) (((rule paid_rules)+ | simp add: lock_simps)+)

lemmas lock_ended = lock_release_step [THEN safe_mono] lock_locked_phase_B [THEN safe_mono]

abbreviation unlocked :: "'a \<Rightarrow> route_lock_state \<Rightarrow> bool" where
  "unlocked x q \<equiv> q = Free \<or> q = RollbackBroken"

lemma lock_acquire_step:
  "Q () Held \<Longrightarrow> (\<And>e. E e Free) \<Longrightarrow> safe route_lock Free (perform LockAcquire op) Q E"
  by (((rule paid_rules)+ | simp add: lock_simps)+)

lemma lock_fail_lock:
  "q \<noteq> HeldDirty \<Longrightarrow> safe route_lock q (rollback_database P) (\<lambda>_ q'. q' = q) (\<lambda>_ q'. q' = q)"
  unfolding rollback_database_def by (((rule paid_rules)+ | simp add: lock_simps)+)

lemma lock_phase_B: "safe route_lock Free (phase_B P command req ck) unlocked unlocked"
proof -
  have handler: "safe route_lock q
      (if exn_class exc = GatewayRouteBindingLockError then
          thenE (rollback_database P)
          (bindE (fail_apply_gateway_lock_acquisition P ck req exc) (\<lambda>pending. case pending of
             Some out \<Rightarrow> mark_pending_manual P command out
           | None \<Rightarrow> thenE (transaction P (fail_paid_purchase P command (type_name exc))) (raiseE exc)))
        else
          thenE (transaction P (fail_paid_purchase P command (type_name exc)))
          (thenE (mark_run_failed P (pc_run_id ck) exc) (raiseE exc))) unlocked unlocked"
    if "q = Free \<or> q = RollbackBroken" for exc q
    using that by (auto intro!: safe_then safe_bind safe_raise safe_case_option lock_fail_lock [THEN safe_mono]
        lock_clean_parts(3,4) lock_marks [THEN safe_mono])
  show ?thesis
    unfolding phase_B_def
    by (auto intro!: safe_try safe_then safe_finally lock_acquire_step lock_locked_phase_B [THEN safe_mono]
        lock_release_step [THEN safe_mono] handler)
qed

lemma lock_intent:
  "safe route_lock Held (durable_intent P command req ck sid)
     (\<lambda>_ q. q = HeldDirty) (\<lambda>_ q. q = Held \<or> q = HeldDirty)"
  unfolding durable_intent_def helper_defs
  by (((rule paid_rules)+ | simp add: lock_simps)+)

lemma lock_commit:
  "Q () Held \<Longrightarrow> (\<And>e. E e HeldDirty) \<Longrightarrow> safe route_lock HeldDirty (perform OrderCommit op) Q E"
  by (((rule paid_rules)+ | simp add: lock_simps)+)

text \<open>Calls the lock monitor does not look at.\<close>

lemma lock_unobserved:
  "(\<And>x. Q1 x q) \<Longrightarrow> (\<And>e. E e q) \<Longrightarrow> safe route_lock q (perform (ClassifyFirstCommit k n) op1) Q1 E"
  "(\<And>x. Q2 x q) \<Longrightarrow> (\<And>e. E e q) \<Longrightarrow> safe route_lock q (perform (SubscriptionOf k) op2) Q2 E"
  "(\<And>x. Q3 x q) \<Longrightarrow> (\<And>e. E e q) \<Longrightarrow> safe route_lock q (perform (NotifySend ne) op3) Q3 E"
  "(\<And>x. Q4 x q) \<Longrightarrow> (\<And>e. E e q) \<Longrightarrow> safe route_lock q (perform (MarkNotificationFailed k d) op4) Q4 E"
  "(\<And>x. Q5 x q) \<Longrightarrow> (\<And>e. E e q) \<Longrightarrow> safe route_lock q (perform (CurrentSubscriptionUrl n d) op5) Q5 E"
  by (auto intro!: safe_perform simp: lock_simps)

lemma lock_order_rollback:
  "q \<noteq> HeldDirty \<Longrightarrow> (\<And>x. Q x q) \<Longrightarrow> (\<And>e. E e q) \<Longrightarrow> safe route_lock q (perform OrderRollback op) Q E"
  by (auto intro!: safe_perform simp: lock_simps)

lemma lock_first_commit_failed:
  "safe route_lock HeldDirty (first_commit_failed P command req ck sid err)
     (\<lambda>_ q. q = Held \<or> q = RollbackBroken) (\<lambda>_ q. q = Held \<or> q = RollbackBroken)"
  unfolding first_commit_failed_def
  by (auto intro!: safe_then safe_attempt safe_if safe_raise safe_ret safe_case_first_commit lock_unobserved
      lock_order_rollback lock_rollback(3) [THEN safe_mono] lock_clean_parts(1,2))

lemma lock_durable_locked:
  "safe route_lock Held (durable_locked P command req ck sid)
     (\<lambda>_ q. q = Held \<or> q = RollbackBroken) (\<lambda>_ q. q = Held \<or> q = RollbackBroken)"
  unfolding durable_locked_def
  by (auto intro!: safe_attempt safe_then safe_bind safe_ret lock_intent [THEN safe_mono] lock_commit
      lock_rollback(3) [THEN safe_mono] lock_clean_parts(1) lock_first_commit_failed [THEN safe_mono]
      safe_perform simp: lock_simps)

lemma lock_durable:
  "safe route_lock Free (confirm_paid_purchase_durable P command req ck) unlocked unlocked"
  unfolding confirm_paid_purchase_durable_def send_def
  by (auto intro!: safe_bind safe_case_option safe_raise safe_attempt safe_then safe_ret safe_finally safe_case_sum
      safe_if safe_try lock_acquire_step lock_rollback(4) [THEN safe_mono] lock_clean_parts(1)
      lock_durable_locked [THEN safe_mono] lock_release_step [THEN safe_mono] lock_unobserved)

lemma lock_transaction:
  "safe route_lock Free body (\<lambda>_ q. q = Free) (\<lambda>_ q. q = Free) \<Longrightarrow>
   safe route_lock Free (transaction P body) (\<lambda>_ q. q = Free) (\<lambda>_ q. q = Free)"
  unfolding transaction_def
  by (auto intro!: safe_attempt safe_bind safe_then safe_ret safe_raise safe_perform simp: lock_simps elim!: safe_mono)

lemma lock_confirm:
  "safe route_lock Free (confirm_payment_and_provision P command req code ref) unlocked unlocked"
  unfolding confirm_payment_and_provision_def provision_paid_purchase_def apply_paid_billing_change_def
    fail_paid_purchase_def
  by (auto intro!: safe_bind safe_attempt safe_lift safe_then safe_raise safe_gets safe_if safe_ret safe_case_sum
      lock_transaction [THEN safe_mono] lock_prepare [THEN safe_mono] lock_rollback(2) [THEN safe_mono]
      lock_clean_parts(4) lock_durable [THEN safe_mono] lock_phase_B [THEN safe_mono] safe_perform
      simp: lock_simps)

subsection \<open>Business commit before the terminal status\<close>

lemmas business_simps = business_first_def Let_def

text \<open>The saga itself writes no business transition and no terminal status but FAILED.\<close>

abbreviation returned_pending :: "provision_outcome + 'a \<Rightarrow> bool" where
  "returned_pending r \<equiv> pred_sum (\<lambda>out. po_status out = PENDING_MANUAL) (\<lambda>_. True) r"

lemma business_steps:
  "safe business_first Idle (step_capacity P run_id req) (\<lambda>_ q. q = Idle) (\<lambda>_ q. q = Idle)"
  "safe business_first Idle (step_allocate_endpoint P run_id req) (\<lambda>_ q. q = Idle) (\<lambda>_ q. q = Idle)"
  "safe business_first Idle (step_create_tenant P run_id req) (\<lambda>r q. q = Idle \<and> returned_pending r) (\<lambda>_ q. q = Idle)"
  "safe business_first Idle (step_store_credentials P run_id ep tn) (\<lambda>_ q. q = Idle) (\<lambda>_ q. q = Idle)"
  "safe business_first Idle (step_apply_forwarder P run_id ep tn ref) (\<lambda>r q. q = Idle \<and> returned_pending r) (\<lambda>_ q. q = Idle)"
  "safe business_first Idle (step_create_accounting_user P run_id req) (\<lambda>r q. q = Idle \<and> returned_pending r) (\<lambda>_ q. q = Idle)"
  "safe business_first Idle (step_apply_gateway P ck req) (\<lambda>r q. q = Idle \<and> returned_pending r) (\<lambda>_ q. q = Idle)"
  "safe business_first Idle (step_issue_subscription P run_id req) (\<lambda>_ q. q = Idle) (\<lambda>_ q. q = Idle)"
  "safe business_first Idle (step_notify P run_id req) (\<lambda>_ q. q = Idle) (\<lambda>_ q. q = Idle)"
  unfolding step_defs helper_defs
  by (((rule safe_rules)+ | simp add: business_simps)+)

lemmas business_rules = business_steps [THEN safe_mono]

lemma business_saga:
  "safe business_first Idle (provision_prepare P req) (\<lambda>r q. q = Idle \<and> returned_pending r) (\<lambda>_ q. q = Idle)"
  "safe business_first Idle (provision_apply_gateway P ck req)
     (\<lambda>out q. q = Idle \<and> (po_status out = PENDING_MANUAL \<or> po_status out = SUCCEEDED)) (\<lambda>_ q. q = Idle)"
  unfolding provision_prepare_def provision_apply_gateway_def unless_outcome_def Let_def
  by (((rule safe_rules business_rules)+ | simp add: business_simps)+)

lemma business_parts:
  "safe business_first q (mark_pending_manual P command out)
     (\<lambda>x q'. q' = PendingCommitted \<and> x = out) (\<lambda>_ _. True)"
  "safe business_first q (handle_pre_gateway_failure P command ck req err)
     (\<lambda>x q'. q' = PendingCommitted \<and> po_status x = PENDING_MANUAL) (\<lambda>_ _. True)"
  "safe business_first q (mark_first_commit_unknown P command ck)
     (\<lambda>x q'. q' = PendingCommitted \<and> po_status x = PENDING_MANUAL) (\<lambda>_ _. True)"
  "safe business_first q (fail_apply_gateway_lock_acquisition P ck req err)
     (\<lambda>x _. pred_option (\<lambda>out. po_status out = PENDING_MANUAL) x) (\<lambda>_ _. True)"
  "safe business_first q (transaction P (fail_paid_purchase P command e)) (\<lambda>_ _. True) (\<lambda>_ _. True)"
  "safe business_first q (mark_run_failed P run_id err) (\<lambda>_ _. True) (\<lambda>_ _. True)"
  "safe business_first q (rollback_database P) (\<lambda>_ _. True) (\<lambda>_ _. True)"
  "safe business_first q (quiet_rollback P) (\<lambda>_ _. True) (\<lambda>_ _. True)"
  "safe business_first q (durable_intent P command req ck sid) (\<lambda>_ _. True) (\<lambda>_ _. True)"
  unfolding workflow_defs helper_defs
  by (((rule paid_rules)+ | simp add: business_simps)+)

lemmas business_workflow = business_parts [THEN safe_mono]

text \<open>Calls the business monitor only passes through.\<close>

lemma business_unobserved:
  "(\<And>x. Q1 x q) \<Longrightarrow> (\<And>e. E e q) \<Longrightarrow> safe business_first q (perform (ClassifyFirstCommit k n) op1) Q1 E"
  "(\<And>x. Q2 x q) \<Longrightarrow> (\<And>e. E e q) \<Longrightarrow> safe business_first q (perform (SubscriptionOf k) op2) Q2 E"
  "(\<And>x. Q3 x q) \<Longrightarrow> (\<And>e. E e q) \<Longrightarrow> safe business_first q (perform (NotifySend ne) op3) Q3 E"
  "(\<And>x. Q4 x q) \<Longrightarrow> (\<And>e. E e q) \<Longrightarrow> safe business_first q (perform (MarkNotificationFailed k d) op4) Q4 E"
  "(\<And>x. Q5 x q) \<Longrightarrow> (\<And>e. E e q) \<Longrightarrow> safe business_first q (perform (CurrentSubscriptionUrl n d) op5) Q5 E"
  "(\<And>x. Q6 x q) \<Longrightarrow> (\<And>e. E e q) \<Longrightarrow> safe business_first q (perform LockAcquire op6) Q6 E"
  "(\<And>x. Q7 x q) \<Longrightarrow> (\<And>e. E e q) \<Longrightarrow> safe business_first q (perform LockRelease op7) Q7 E"
  "(\<And>x. Q8 x q) \<Longrightarrow> (\<And>e. E e q) \<Longrightarrow> safe business_first q (perform (ReconcileInSession n) op8) Q8 E"
  by (auto intro!: safe_perform simp: business_simps)

lemma business_free:
  "(\<And>x q'. Q x q') \<Longrightarrow> (\<And>e q'. E e q') \<Longrightarrow> safe business_first q (perform OrderCommit op) Q E"
  "(\<And>x q'. Q x q') \<Longrightarrow> (\<And>e q'. E e q') \<Longrightarrow> safe business_first q (perform OrderRollback op) Q E"
  by (auto intro!: safe_perform simp: business_simps)

lemma business_activate:
  "safe business_first Idle (transaction P (activate_paid_purchase P command))
     (\<lambda>_ q. q = ActivateCommitted) (\<lambda>_ _. True)"
  "safe business_first ActivateCommitted (mark_apply_gateway_succeeded P run_id)
     (\<lambda>_ q. q = ActivateCommitted) (\<lambda>_ _. True)"
  unfolding workflow_defs helper_defs
  by (((rule paid_rules)+ | simp add: business_simps)+)

text \<open>What the returned outcome says of the committed business state.\<close>

definition reported :: "bool \<Rightarrow> provision_outcome \<Rightarrow> business \<Rightarrow> bool" where
  "reported durable out q = (case po_status out of
     PENDING_MANUAL \<Rightarrow> q = PendingCommitted
   | SUCCEEDED \<Rightarrow> durable \<or> q = ActivateCommitted
   | RUNNING \<Rightarrow> durable
   | FAILED \<Rightarrow> False)"

lemma business_phase_B: "safe business_first Idle (phase_B P command req ck) (reported False) (\<lambda>_ _. True)"
  unfolding phase_B_def locked_phase_B_def
  by (auto intro!: safe_try safe_then safe_finally safe_bind safe_if safe_ret safe_raise safe_case_option
      business_unobserved business_saga(2) [THEN safe_mono] business_activate [THEN safe_mono] business_workflow
      simp: reported_def)

lemma business_durable:
  "safe business_first Idle (confirm_paid_purchase_durable P command req ck) (reported True) (\<lambda>_ _. True)"
  unfolding confirm_paid_purchase_durable_def durable_locked_def first_commit_failed_def send_def
  by (auto intro!: safe_bind safe_case_option safe_raise safe_attempt safe_then safe_ret safe_finally safe_case_sum
      safe_if safe_try safe_case_first_commit business_unobserved business_free business_workflow
      simp: reported_def running_outcome_def)

lemma business_transaction:
  "safe business_first Idle body (\<lambda>_ q. q = Idle) (\<lambda>_ q. q = Idle) \<Longrightarrow>
   safe business_first Idle (transaction P body) (\<lambda>_ q. q = Idle) (\<lambda>_ q. q = Idle)"
  unfolding transaction_def
  by (auto intro!: safe_attempt safe_bind safe_then safe_ret safe_raise safe_perform simp: business_simps elim!: safe_mono)

lemma business_confirm:
  "safe business_first Idle (confirm_payment_and_provision P command req code ref)
     (\<lambda>r q. pred_option (\<lambda>out. reported (durable_gateway P) out q) r) (\<lambda>_ _. True)"
proof -
  have *: "safe business_first Idle (provision_paid_purchase P command req) (reported (durable_gateway P)) (\<lambda>_ _. True)"
    unfolding provision_paid_purchase_def
    by (auto intro!: safe_attempt safe_then safe_raise safe_case_sum safe_if business_saga(1) [THEN safe_mono]
        business_workflow business_durable [THEN safe_mono] business_phase_B [THEN safe_mono]
        simp: reported_def split: if_splits)
  show ?thesis
    unfolding confirm_payment_and_provision_def apply_paid_billing_change_def
    by (auto intro!: safe_bind safe_attempt safe_lift safe_then safe_raise safe_gets safe_if safe_ret
        business_transaction [THEN safe_mono] * [THEN safe_mono] safe_perform simp: business_simps)
qed

subsection \<open>The saga does not touch the order\<close>

lemma saga_no_order_event:
  "safe (never order_event) () (provision_prepare P req) (\<lambda>_ _. True) (\<lambda>_ _. True)"
  "safe (never order_event) () (provision_apply_gateway P ck req) (\<lambda>_ _. True) (\<lambda>_ _. True)"
  unfolding provision_prepare_def provision_apply_gateway_def step_defs helper_defs
  by (((rule safe_rules)+ | simp add: never_def order_event_def)+)

lemma saga_never:
  assumes "\<And>ev. p ev \<Longrightarrow> order_event ev"
  shows "safe (never p) () (provision_prepare P req) (\<lambda>_ _. True) (\<lambda>_ _. True)"
    "safe (never p) () (provision_apply_gateway P ck req) (\<lambda>_ _. True) (\<lambda>_ _. True)"
  using saga_no_order_event [THEN safe_never_mono] assms by blast+

lemma review_message [simp]:
  "business_message r \<in> set review_messages" "PENDING_MANUAL_BUSINESS_MESSAGES reason \<in> set review_messages"
  "''durable gateway commit outcome could not be confirmed; requires review'' \<in> set review_messages"
proof -
  show *: "PENDING_MANUAL_BUSINESS_MESSAGES reason \<in> set review_messages" for reason
    by (cases reason) (simp_all only: review_messages_def set_append set_map list.set image_insert Un_iff insert_iff simp_thms)
  show "business_message r \<in> set review_messages"
    by (cases r) (simp_all only: business_message_def option.case *, simp only: review_messages_def set_append list.set Un_iff insert_iff simp_thms)
qed (simp only: review_messages_def set_append list.set Un_iff insert_iff simp_thms)

lemma never_parts:
  assumes "p = unvetted_message \<or> p = charges"
  shows "safe (never p) () (mark_pending_manual P command out) (\<lambda>_ _. True) (\<lambda>_ _. True)"
    "safe (never p) () (handle_pre_gateway_failure P command ck req err) (\<lambda>_ _. True) (\<lambda>_ _. True)"
    "safe (never p) () (mark_first_commit_unknown P command ck) (\<lambda>_ _. True) (\<lambda>_ _. True)"
    "safe (never p) () (fail_apply_gateway_lock_acquisition P ck req err) (\<lambda>_ _. True) (\<lambda>_ _. True)"
    "safe (never p) () (transaction P (fail_paid_purchase P command e)) (\<lambda>_ _. True) (\<lambda>_ _. True)"
    "safe (never p) () (transaction P (activate_paid_purchase P command)) (\<lambda>_ _. True) (\<lambda>_ _. True)"
    "safe (never p) () (mark_apply_gateway_succeeded P run_id) (\<lambda>_ _. True) (\<lambda>_ _. True)"
    "safe (never p) () (mark_run_failed P run_id err) (\<lambda>_ _. True) (\<lambda>_ _. True)"
    "safe (never p) () (rollback_database P) (\<lambda>_ _. True) (\<lambda>_ _. True)"
    "safe (never p) () (quiet_rollback P) (\<lambda>_ _. True) (\<lambda>_ _. True)"
    "safe (never p) () (durable_intent P command req ck sid) (\<lambda>_ _. True) (\<lambda>_ _. True)"
  using assms unfolding workflow_defs helper_defs
  by (auto intro!: safe_intros simp: never_def unvetted_message_def charges_def
      simp del: PENDING_MANUAL_BUSINESS_MESSAGES.simps split: if_splits)

lemma never_plain:
  "\<not> p ev \<Longrightarrow> (\<And>x. Q x ()) \<Longrightarrow> (\<And>e. E e ()) \<Longrightarrow> safe (never p) () (perform ev op) Q E"
  by (auto intro!: safe_perform simp: never_def)

lemma vetted_events [simp]:
  "\<not> charges LockAcquire" "\<not> charges LockRelease" "\<not> charges OrderCommit" "\<not> charges OrderRollback"
  "\<not> charges (SubscriptionOf oid)" "\<not> charges (ClassifyFirstCommit k n)" "\<not> charges (ReconcileInSession n)"
  "\<not> charges (NotifySend ne)" "\<not> charges (MarkNotificationFailed k d)" "\<not> charges (CurrentSubscriptionUrl n d)"
  "\<not> unvetted_message LockAcquire" "\<not> unvetted_message LockRelease" "\<not> unvetted_message OrderCommit"
  "\<not> unvetted_message OrderRollback" "\<not> unvetted_message (SubscriptionOf oid)"
  "\<not> unvetted_message (ClassifyFirstCommit k n)" "\<not> unvetted_message (ReconcileInSession n)"
  "\<not> unvetted_message (NotifySend ne)" "\<not> unvetted_message (MarkNotificationFailed k d)"
  "\<not> unvetted_message (CurrentSubscriptionUrl n d)"
  by (simp_all add: charges_def unvetted_message_def)

lemma never_purchase:
  assumes p: "p = unvetted_message \<or> p = charges"
  shows "safe (never p) () (provision_paid_purchase P command req) (\<lambda>_ _. True) (\<lambda>_ _. True)"
proof -
  have "p ev \<Longrightarrow> order_event ev" for ev
    using p by (cases ev) (auto simp: unvetted_message_def charges_def order_event_def)
  note saga = saga_never [OF this, THEN safe_mono]
  have durable: "safe (never p) () (confirm_paid_purchase_durable P command req ck) (\<lambda>_ _. True) (\<lambda>_ _. True)" for ck
    unfolding confirm_paid_purchase_durable_def durable_locked_def first_commit_failed_def send_def
    using p by (auto intro!: safe_bind safe_case_option safe_raise safe_attempt safe_then safe_ret safe_finally
        safe_case_sum safe_if safe_try safe_case_first_commit never_parts [THEN safe_mono] never_plain)
  have legacy: "safe (never p) () (phase_B P command req ck) (\<lambda>_ _. True) (\<lambda>_ _. True)" for ck
    unfolding phase_B_def locked_phase_B_def
    using p by (auto intro!: safe_bind safe_case_option safe_raise safe_then safe_ret safe_finally safe_if safe_try
        never_parts [THEN safe_mono] never_plain saga)
  show ?thesis
    unfolding provision_paid_purchase_def
    by (auto intro!: safe_attempt safe_then safe_raise safe_case_sum safe_if never_parts [OF p, THEN safe_mono] saga
        durable [THEN safe_mono] legacy [THEN safe_mono])
qed

lemma payment_confirm:
  "safe payment_order Unpaid (confirm_payment_and_provision P command req code ref)
     (\<lambda>_ q. q = Paid) (\<lambda>_ _. True)"
proof -
  have frame: "payment_order Paid (ev, r) = Some Paid" if "\<not> charges ev" for ev r
    using that by (cases ev) (simp_all add: payment_order_def charges_def)
  have purchase: "safe payment_order Paid (provision_paid_purchase P command req) (\<lambda>_ q. q = Paid) (\<lambda>_ q. q = Paid)"
    using safe_frame [where D = payment_order and q = Paid, OF never_purchase frame] by (rule safe_mono) auto
  show ?thesis
    unfolding confirm_payment_and_provision_def apply_paid_billing_change_def transaction_def
    by (auto intro!: safe_bind safe_attempt safe_lift safe_then safe_raise safe_gets safe_if safe_ret safe_perform
        purchase [THEN safe_mono] simp: payment_order_def)
qed

lemma vetted_confirm:
  "safe (never unvetted_message) () (confirm_payment_and_provision P command req code ref) (\<lambda>_ _. True) (\<lambda>_ _. True)"
  unfolding confirm_payment_and_provision_def apply_paid_billing_change_def transaction_def
  by (auto intro!: safe_bind safe_attempt safe_lift safe_then safe_raise safe_gets safe_if safe_ret
      never_purchase [THEN safe_mono] safe_perform simp: never_def unvetted_message_def)

lemma capacity_refusal:
  assumes "returns (egress_capacity P) c" and "ensure_capacity c (pr_quota_gb req) = Inl e"
  shows "safe (never takes_payment) () (confirm_payment_and_provision P command req code ref)
     (\<lambda>_ _. False) (\<lambda>_ _. True)"
  using assms unfolding confirm_payment_and_provision_def transaction_def returns_def
  by (intro safe_bind, intro safe_perform_known [where x = c])
    (auto intro!: safe_bind safe_attempt safe_lift safe_then safe_raise safe_perform safe_ret
      simp: never_def takes_payment_def)

section \<open>Properties\<close>

text \<open>
  C12. The paid-order workflow drives the gateway and writes routing state only while it holds
  the named route lock, starts the reconciliation only after the first durable commit, and
  releases the lock only when the routing write was committed or rolled back; when it ends the
  lock is free. Nothing is claimed after a rollback that itself raised.
\<close>

theorem confirm_respects_route_lock:
  "\<exists>q. run_mon route_lock Free
      (trace (snd (confirm_payment_and_provision P command req code ref (start_of w)))) = Some q \<and>
    (q = Free \<or> q = RollbackBroken)"
  using safe_run [OF lock_confirm surjective_pairing, of P command req code ref w] by (auto split: sum.splits)


text \<open>
  C33. The workflow confirms and records the payment at most once and in this order, and no
  run, tenant, forwarder change, accounting user or gateway change happens before the payment
  is committed. When the workflow returns, the payment is committed.
\<close>

theorem confirm_payment_before_provisioning:
  "\<exists>q. run_mon payment_order Unpaid
      (trace (snd (confirm_payment_and_provision P command req code ref (start_of w)))) = Some q \<and>
    (case fst (confirm_payment_and_provision P command req code ref (start_of w)) of
       Inr _ \<Rightarrow> q = Paid | Inl _ \<Rightarrow> True)"
  using safe_run [OF payment_confirm surjective_pairing, of P command req code ref w]
  by (auto split: sum.splits)

text \<open>
  An order that does not fit the provider's capacity is never charged: the workflow
  raises and makes no payment, purchase or provisioning call.
\<close>

theorem confirm_refuses_over_capacity:
  assumes "returns (egress_capacity P) c" and "ensure_capacity c (pr_quota_gb req) = Inl e"
  shows "list_all (\<lambda>ev. \<not> takes_payment (fst ev))
      (trace (snd (confirm_payment_and_provision P command req code ref (start_of w)))) \<and>
    (\<exists>exc. fst (confirm_payment_and_provision P command req code ref (start_of w)) = Inl exc)"
  using safe_run [OF capacity_refusal [OF assms] surjective_pairing, of command code ref w]
  by (auto simp: run_mon_never list_all_iff split: sum.splits)

theorem confirm_refuses_over_capacity_witness:
  "list_all (\<lambda>ev. \<not> takes_payment (fst ev))
      (trace (snd (confirm_payment_and_provision (paid_answering sample_answers) sample_command
        (sample_request\<lparr>pr_quota_gb := Dec 90 0\<rparr>) ''manual'' ''r'' (start_of ())))) \<and>
    (\<exists>exc. fst (confirm_payment_and_provision (paid_answering sample_answers) sample_command
        (sample_request\<lparr>pr_quota_gb := Dec 90 0\<rparr>) ''manual'' ''r'' (start_of ())) = Inl exc)"
proof (rule confirm_refuses_over_capacity)
  show "returns (egress_capacity (paid_answering sample_answers)) (an_capacity sample_answers)"
    by (simp add: returns_def paid_answering_def answering_def paid_env.defs saga_env.defs)
  show "ensure_capacity (an_capacity sample_answers) (pr_quota_gb (sample_request\<lparr>pr_quota_gb := Dec 90 0\<rparr>)) =
      Inl (capacity_exceeded_error (an_capacity sample_answers) (Dec 90 0))"
    by (simp add: ensure_capacity_def sample_answers_def dec_le_def dec_align_def dec_add_def dec_fix_id dec_prec_def)
qed

text \<open>
  In the whole workflow, too, the run is marked FAILED only when no database write of the
  run or of the order is pending.
\<close>

theorem confirm_failed_after_rollback:
  "run_mon failed_when_clean False
     (trace (snd (confirm_payment_and_provision P command req code ref (start_of w)))) \<noteq> None"
  using safe_run [OF clean_confirm surjective_pairing] by fastforce

text \<open>
  The text stored for a subscription under manual review is one of the fixed messages; no
  exception or provider text reaches it.
\<close>

theorem confirm_review_messages_fixed:
  "list_all (\<lambda>e. case fst e of MarkProvisionPending _ msg \<Rightarrow> msg \<in> set review_messages | _ \<Rightarrow> True)
     (trace (snd (confirm_payment_and_provision P command req code ref (start_of w))))"
  using safe_never [OF vetted_confirm, of P command req code ref w]
  by (auto simp: list_all_iff unvetted_message_def split: event.splits)

lemmas run_defs = confirm_payment_and_provision_def provision_paid_purchase_def phase_B_def locked_phase_B_def
  workflow_defs provision_prepare_def provision_apply_gateway_def step_defs helper_defs eff_defs
  perform_def outcome_of_def answering_def paid_answering_def paid_env.defs saga_env.defs
  sample_command_def sample_checks

lemma sample_run_id: "an_run_id sample_answers = ''r1''"
  by (simp add: sample_answers_def)

lemma sample_username: "pr_username sample_request = ''u7''"
  by (simp add: sample_request_def)

text \<open>
  When the release of the route lock raises after a purchase was activated and its run
  marked SUCCEEDED, the workflow goes on to commit the purchase as failed and to mark the same
  run FAILED, although the customer's gateway route is live and the activation was committed.
\<close>

theorem release_failure_undoes_success:
  "\<exists>calls. map fst (trace (snd (confirm_payment_and_provision release_failing sample_command sample_request
      ''manual'' ''ref'' (start_of ())))) =
     calls @ [ActivateSubscription sample_command, OrderCommit, MarkStatus ''r1'' SUCCEEDED None, LockRelease,
       MarkProvisionFailed sample_command ''OperationalError'', OrderCommit, MarkStatus ''r1'' FAILED (Some ''gone'')]"
  by (simp add: run_defs release_failing_def sample_run_id)

text \<open>
  When the gateway cannot be applied, the accounting user cannot be disabled and the
  manual-review state cannot be stored, the direct path records a plain failure: the purchase
  is committed as failed and the run is marked FAILED while the user may still be enabled.
\<close>

theorem review_failure_reported_as_failed:
  "\<exists>calls. map fst (trace (snd (confirm_payment_and_provision review_failing sample_command sample_request
      ''manual'' ''ref'' (start_of ())))) =
     calls @ [DisableUser ''u7'', RecordStep ''r1'' APPLY_GATEWAY ''PENDING_MANUAL'',
       MarkProvisionPending sample_command (PENDING_MANUAL_BUSINESS_MESSAGES GATEWAY_COMPENSATION_FAILED),
       OrderRollback, LockRelease, MarkProvisionFailed sample_command ''RuntimeError'', OrderCommit,
       MarkStatus ''r1'' FAILED (Some ''db'')]"
  by (simp add: run_defs review_failing_def sample_run_id sample_username pending_outcome_def business_message_def)

end
