(* ===== verification/Xray_File.thy ===== *)
theory Xray_File
  imports Xray_Properties
begin

text \<open>
  The file-backed gateway provider: writer baseline and nine-step safe reload
  (\<open>backend/app/providers/gateway/xray_baseline.py\<close>, \<open>xray_file.py\<close>).

  The host is a record: the configuration on disk, the configuration the Xray process runs, the
  baseline file and the audit, alert and disable callbacks as logs. Everything that can go wrong
  outside the code (file system, subprocess, control API, health) is decided by \<open>xray_oracle\<close>,
  an arbitrary function of the number of operations so far: a failing reload may leave any
  configuration running, a failing restore may leave any file, and a failing baseline write may
  or may not have replaced the file. Audit, alert and disable callbacks do not raise.
\<close>

section \<open>Host\<close>

datatype xray_exn =
    XrayValidationError string
  | XrayReloadError string
  | XrayBaselineError string
  | OtherError string

datatype baseline_state = Applied | Degraded

record xray_baseline_record =
  bl_state :: baseline_state
  bl_sha256 :: "string option"

record xray_oracle =
  oc_sha256 :: "string \<Rightarrow> string"
  oc_store :: bool
  oc_test :: "nat \<Rightarrow> pyval \<Rightarrow> xray_exn + bool"
  oc_backup_error :: "nat \<Rightarrow> xray_exn option"
  oc_exists_error :: "nat \<Rightarrow> xray_exn option"
  oc_read_error :: "nat \<Rightarrow> xray_exn option"
  oc_install_error :: "nat \<Rightarrow> xray_exn option"
  oc_reload_error :: "nat \<Rightarrow> (xray_exn \<times> pyval option) option"
  oc_health :: "nat \<Rightarrow> xray_exn + health_report"
  oc_restore_error :: "nat \<Rightarrow> (xray_exn \<times> pyval option) option"
  oc_load_error :: "nat \<Rightarrow> bool"
  oc_persist_error :: "nat \<Rightarrow> bool option"

record xray_host =
  xh_tick :: nat
  xh_file :: "pyval option"
  xh_running :: "pyval option"
  xh_baseline :: "xray_baseline_record option"
  xh_audit :: "string list"
  xh_alerts :: "string list"
  xh_disabled :: "string list"

type_synonym 'a xray = "(xray_host, xray_exn, 'a) eff"

definition exn_text :: "xray_exn \<Rightarrow> string" where
  "exn_text e = (case e of XrayValidationError m \<Rightarrow> m | XrayReloadError m \<Rightarrow> m | XrayBaselineError m \<Rightarrow> m | OtherError m \<Rightarrow> m)"

text \<open>Each operation that reaches outside consumes one tick.\<close>

definition tick :: "nat xray" where
  "tick h = (Inr (xh_tick h), h\<lparr>xh_tick := Suc (xh_tick h)\<rparr>)"

definition failing :: "xray_exn option \<Rightarrow> unit xray" where
  "failing r = (case r of None \<Rightarrow> retE () | Some e \<Rightarrow> raiseE e)"

definition audit :: "string \<Rightarrow> unit xray" where
  "audit ev = modifyE (\<lambda>h. h\<lparr>xh_audit := xh_audit h @ [ev]\<rparr>)"

definition alert_xray :: "string \<Rightarrow> unit xray" where
  "alert_xray msg = modifyE (\<lambda>h. h\<lparr>xh_alerts := xh_alerts h @ [msg]\<rparr>)"

section \<open>Runtime operations\<close>

definition rt_backup :: "xray_oracle \<Rightarrow> pyval option xray" where
  "rt_backup X = bindE tick (\<lambda>n. thenE (failing (oc_backup_error X n)) (getsE xh_file))"

definition rt_config_exists :: "xray_oracle \<Rightarrow> bool xray" where
  "rt_config_exists X = bindE tick (\<lambda>n. thenE (failing (oc_exists_error X n)) (getsE (\<lambda>h. xh_file h \<noteq> None)))"

definition rt_current :: "xray_oracle \<Rightarrow> pyval xray" where
  "rt_current X = bindE tick (\<lambda>n. thenE (failing (oc_read_error X n))
     (bindE (getsE xh_file) (\<lambda>f. case f of
        None \<Rightarrow> raiseE (OtherError ''FileNotFoundError'')
      | Some v \<Rightarrow> (case v of VMap d \<Rightarrow> retE v | _ \<Rightarrow> raiseE (XrayValidationError ''current Xray config must be an object'')))))"

definition rt_test :: "xray_oracle \<Rightarrow> pyval \<Rightarrow> bool xray" where
  "rt_test X v = bindE tick (\<lambda>n. liftE (oc_test X n v))"

text \<open>\<open>install\<close> writes a temporary file and renames it over the configuration.\<close>

definition rt_install :: "xray_oracle \<Rightarrow> pyval \<Rightarrow> unit xray" where
  "rt_install X v = bindE tick (\<lambda>n. thenE (failing (oc_install_error X n)) (modifyE (\<lambda>h. h\<lparr>xh_file := Some v\<rparr>)))"

definition rt_reload :: "xray_oracle \<Rightarrow> unit xray" where
  "rt_reload X = bindE tick (\<lambda>n. case oc_reload_error X n of
     None \<Rightarrow> modifyE (\<lambda>h. h\<lparr>xh_running := xh_file h\<rparr>)
   | Some (e, running) \<Rightarrow> thenE (modifyE (\<lambda>h. h\<lparr>xh_running := running\<rparr>)) (raiseE e))"

definition rt_health :: "xray_oracle \<Rightarrow> health_report xray" where
  "rt_health X = bindE tick (\<lambda>n. liftE (oc_health X n))"

definition rt_restore :: "xray_oracle \<Rightarrow> pyval option \<Rightarrow> unit xray" where
  "rt_restore X backup = bindE tick (\<lambda>n. case oc_restore_error X n of
     None \<Rightarrow> modifyE (\<lambda>h. h\<lparr>xh_file := backup\<rparr>)
   | Some (e, file) \<Rightarrow> thenE (modifyE (\<lambda>h. h\<lparr>xh_file := file\<rparr>)) (raiseE e))"

section \<open>The writer baseline\<close>

definition bl_load_state :: "xray_oracle \<Rightarrow> xray_baseline_record option xray" where
  "bl_load_state X = bindE tick (\<lambda>n.
     if oc_load_error X n then raiseE (XrayBaselineError ''Xray baseline is unreadable'') else getsE xh_baseline)"

definition bl_persist :: "xray_oracle \<Rightarrow> xray_baseline_record \<Rightarrow> unit xray" where
  "bl_persist X r = bindE tick (\<lambda>n. case oc_persist_error X n of
     None \<Rightarrow> modifyE (\<lambda>h. h\<lparr>xh_baseline := Some r\<rparr>)
   | Some landed \<Rightarrow>
       thenE (modifyE (\<lambda>h. if landed then h\<lparr>xh_baseline := Some r\<rparr> else h))
       (raiseE (XrayBaselineError ''cannot persist Xray baseline'')))"

definition bl_save :: "xray_oracle \<Rightarrow> pyval \<Rightarrow> unit xray" where
  "bl_save X config = (case repo_owned_xray_fingerprint (oc_sha256 X) config of
     Inl _ \<Rightarrow> raiseE (XrayBaselineError ''cannot persist an invalid Xray baseline'')
   | Inr digest \<Rightarrow> bl_persist X \<lparr>bl_state = Applied, bl_sha256 = Some digest\<rparr>)"

definition bl_mark_degraded :: "xray_oracle \<Rightarrow> unit xray" where
  "bl_mark_degraded X = bl_persist X \<lparr>bl_state = Degraded, bl_sha256 = None\<rparr>"

definition ensure_current_matches_baseline :: "xray_oracle \<Rightarrow> unit xray" where
  "ensure_current_matches_baseline X =
     bindE (bl_load_state X) (\<lambda>baseline.
     bindE (tryE (rt_config_exists X)
              (\<lambda>_. raiseE (XrayBaselineError ''cannot determine whether Xray config exists''))) (\<lambda>exists.
     case baseline of
       None \<Rightarrow> if exists
         then raiseE (XrayBaselineError ''Xray baseline is missing for an existing config; explicit bootstrap required'')
         else retE ()
     | Some r \<Rightarrow>
         if bl_state r = Degraded
         then raiseE (XrayBaselineError ''Xray baseline is degraded; explicit reconciliation required'')
         else if \<not> exists then raiseE (XrayBaselineError ''Xray config is missing while its baseline exists'')
         else bindE (tryE (bindE (rt_current X) (\<lambda>observed.
                  case repo_owned_xray_fingerprint (oc_sha256 X) observed of
                    Inl msg \<Rightarrow> raiseE (OtherError msg) | Inr d \<Rightarrow> retE d))
                (\<lambda>_. raiseE (XrayBaselineError ''current Xray config cannot be projected safely''))) (\<lambda>digest.
              if Some digest \<noteq> bl_sha256 r
              then raiseE (XrayBaselineError ''Xray writer drift detected; current config differs from baseline'')
              else retE ())))"

section \<open>Validation\<close>

definition routed_users :: "pyval \<Rightarrow> string list" where
  "routed_users config =
     concat (map (\<lambda>rule. concat (map (\<lambda>u. case u of VStr s \<Rightarrow> [s] | _ \<Rightarrow> []) (list_items (section_of rule ''user''))))
       (list_items (section_of (section_of config ''routing'') ''rules'')))"

text \<open>\<open>json.loads(json.dumps(content))\<close> is the content itself: it has string keys and no tuples.\<close>

definition xray_validate :: "xray_oracle \<Rightarrow> pyval \<Rightarrow> string option \<Rightarrow> validation_result xray" where
  "xray_validate X content new_username =
     (let errors = validate_repo_owned_xray_config content @
        (case new_username of None \<Rightarrow> []
         | Some u \<Rightarrow> if u \<in> set (routed_users content) then [] else [''candidate is missing the new user route'']) in
      if errors \<noteq> [] then retE \<lparr>vr_valid = False, vr_errors = errors\<rparr>
      else bindE (rt_test X content) (\<lambda>ok.
        if ok then retE \<lparr>vr_valid = True, vr_errors = []\<rparr>
        else retE \<lparr>vr_valid = False, vr_errors = [''xray run -test failed'']\<rparr>))"

section \<open>Apply and rollback\<close>

definition finish_with_alert :: "string option \<Rightarrow> string \<Rightarrow> unit xray" where
  "finish_with_alert new_username msg =
     thenE (case new_username of None \<Rightarrow> retE ()
            | Some u \<Rightarrow> thenE (modifyE (\<lambda>h. h\<lparr>xh_disabled := xh_disabled h @ [u]\<rparr>)) (audit ''new_user_disabled''))
     (thenE (alert_xray msg) (audit ''alert_sent''))"

definition marker_failed_message :: string where
  "marker_failed_message = ''rollback failed and degraded baseline marker could not be persisted''"

definition fail_after_rollback_failure :: "xray_oracle \<Rightarrow> string option \<Rightarrow> string \<Rightarrow> string \<Rightarrow> 'a xray" where
  "fail_after_rollback_failure X new_username alert_message error_message =
     thenE (if oc_store X then
        attemptE (bl_mark_degraded X)
          (\<lambda>_. thenE (audit ''baseline_degraded_marker_failed'')
             (thenE (finish_with_alert new_username
                (''Xray rollback state is unknown and the degraded baseline '' @
                 ''marker could not be persisted; manual intervention required''))
             (raiseE (XrayReloadError marker_failed_message))))
          (\<lambda>_. audit ''baseline_degraded'')
      else retE ())
     (thenE (finish_with_alert new_username alert_message)
     (raiseE (XrayReloadError error_message)))"

definition rollback_xray :: "xray_oracle \<Rightarrow> pyval option \<Rightarrow> string option \<Rightarrow> string \<Rightarrow> string \<Rightarrow> 'a xray" where
  "rollback_xray X backup new_username failure_summary reload_error_message =
     thenE (tryE (thenE (rt_restore X backup) (audit ''backup_restored''))
        (\<lambda>_. thenE (audit ''rollback_restore_failed'')
           (fail_after_rollback_failure X new_username
             (''Xray rollback failed: could not restore the previous '' @ ''config; system state is unknown'')
             (''rollback failed: restore() raised; system state is '' @ ''unknown and unverified''))))
     (thenE (tryE (thenE (rt_reload X) (audit ''rollback_reload''))
        (\<lambda>_. thenE (audit ''rollback_reload_failed'')
           (fail_after_rollback_failure X new_username
             (''Xray rollback failed: reload after restore raised; '' @ ''runtime state is unknown'')
             (''rollback failed: reload() after restore raised; runtime '' @ ''state is unknown and unverified''))))
     (bindE (tryE (rt_health X)
        (\<lambda>_. thenE (audit ''rollback_health_check_failed'')
           (fail_after_rollback_failure X new_username
             (''Xray rollback failed: health check after restore raised; '' @ ''runtime state is unknown'')
             (''rollback failed: health() after restore raised; runtime '' @ ''state is unknown and unverified'')))) (\<lambda>health.
      thenE (audit ''rollback_reverified'')
      (thenE (if \<not> hr_healthy health then
           fail_after_rollback_failure X new_username
             (''Xray rollback restored the previous config but the '' @ ''runtime is unhealthy afterwards'')
             (''rollback restore succeeded but post-rollback health '' @ ''check reported unhealthy'')
         else retE ())
      (thenE (finish_with_alert new_username failure_summary)
      (raiseE (XrayReloadError reload_error_message)))))))"

definition install_and_reload :: "xray_oracle \<Rightarrow> pyval \<Rightarrow> health_report xray" where
  "install_and_reload X content =
     thenE (rt_install X content) (thenE (rt_reload X) (thenE (audit ''reload'') (rt_health X)))"

text \<open>The writer guard of \<open>apply\<close>.\<close>

definition writer_guard :: "xray_oracle \<Rightarrow> unit xray" where
  "writer_guard X =
     (if oc_store X then
        tryE (ensure_current_matches_baseline X)
          (\<lambda>e. case e of
             XrayBaselineError msg \<Rightarrow>
               thenE (audit ''writer_guard_rejected'')
               (thenE (alert_xray ''Xray writer guard rejected the candidate'')
               (raiseE (XrayValidationError msg)))
           | _ \<Rightarrow> raiseE e)
      else retE ())"

text \<open>The mutating part of \<open>apply\<close>, after the candidate was validated.\<close>

definition apply_validated ::
  "xray_oracle \<Rightarrow> pyval \<Rightarrow> string \<Rightarrow> string option \<Rightarrow> pyval option \<Rightarrow> apply_result xray" where
  "apply_validated X content version new_username backup =
     bindE (tryE (install_and_reload X content)
        (\<lambda>_. thenE (audit ''apply_mutation_failed'')
           (rollback_xray X backup new_username
             (''Xray candidate install, reload, or post-reload health '' @ ''check raised an exception; backup restored'')
             (''candidate install, reload, or health check raised an '' @ ''exception before health could be confirmed'')))) (\<lambda>report.
     bindE (tryE (bindE (rt_current X) (\<lambda>observed. retE (repo_owned_projection_errors content observed)))
              (\<lambda>_. retE [''observed repo-owned Xray config is unavailable''])) (\<lambda>post_reload_errors.
     if hr_healthy report \<and> post_reload_errors = [] then
       thenE (if oc_store X then
           tryE (bl_save X content)
             (\<lambda>e. case e of
                XrayBaselineError _ \<Rightarrow>
                  thenE (audit ''baseline_persistence_failed'')
                  (rollback_xray X backup new_username
                    (''Xray apply succeeded but its writer baseline could not '' @ ''be persisted; previous config restored'')
                    ''Xray writer baseline persistence failed after apply'')
              | _ \<Rightarrow> raiseE e)
         else retE ())
       (thenE (audit ''health_ok'')
       (retE \<lparr>ar_applied = True, ar_version = version, ar_rolled_back = False\<rparr>))
     else
       thenE (if post_reload_errors \<noteq> [] then audit ''post_reload_projection_failed'' else retE ())
       (rollback_xray X backup new_username
         ''Xray health or route check failed; backup restored'' ''post-reload health check failed'')))"

definition xray_apply :: "xray_oracle \<Rightarrow> pyval \<Rightarrow> string \<Rightarrow> string option \<Rightarrow> apply_result xray" where
  "xray_apply X content version new_username =
     bindE (rt_backup X) (\<lambda>backup.
     thenE (audit ''backup_created'')
     (thenE (writer_guard X)
     (bindE (xray_validate X content new_username) (\<lambda>validation.
     if \<not> vr_valid validation then
       thenE (audit ''candidate_rejected'')
       (thenE (alert_xray ''Xray candidate rejected before reload'')
       (raiseE (XrayValidationError (join ''; '' (vr_errors validation)))))
     else apply_validated X content version new_username backup))))"

section \<open>Render\<close>

text \<open>
  The resolver is a parameter: the Reality identity and one credential per secret reference;
  a composition error becomes a validation error.
\<close>

definition xray_render ::
  "xray_static_skeleton option \<Rightarrow> xray_deployment_config option \<Rightarrow> (xray_exn + xray_reality_config) \<Rightarrow>
   (string \<Rightarrow> xray_exn + credential_dto) \<Rightarrow> desired_routing_state \<Rightarrow> xray_exn + pyval dict" where
  "xray_render skeleton deployment resolve_reality resolve desired =
     (case skeleton of None \<Rightarrow> Inl (XrayValidationError ''Xray static skeleton is not configured'')
      | Some sk \<Rightarrow> (case deployment of None \<Rightarrow> Inl (XrayValidationError ''Xray deployment configuration is not configured'')
      | Some dep \<Rightarrow>
        bindS resolve_reality (\<lambda>reality.
        bindS (mapS (\<lambda>out. bindS (resolve (xo_credential_secret_ref out)) (\<lambda>c. Inr (xo_credential_secret_ref out, c)))
                 (dr_outbounds desired)) (\<lambda>pairs.
        (case compose_xray_config \<lparr>xi_skeleton = sk, xi_deployment = dep, xi_reality = reality, xi_desired = desired,
              xi_credentials = foldl (\<lambda>d (k, c). dict_set d k c) [] pairs\<rparr> of
           Inl msg \<Rightarrow> Inl (XrayValidationError msg) | Inr cfg \<Rightarrow> Inr cfg)))))"

end
