(* ===== verification/Xray_File_Properties.thy ===== *)
theory Xray_File_Properties
  imports Xray_File
begin

text \<open>
  The safe reload: an apply that returns has installed, loaded and recorded the candidate; one
  that raises has changed nothing, or restored and reloaded the previous file, or left the
  baseline degraded, which blocks every later apply.
\<close>

section \<open>Weakest preconditions of the runtime\<close>

lemma wp_tick [wp]: "wpE tick Q E = (\<lambda>h. Q (xh_tick h) (h\<lparr>xh_tick := Suc (xh_tick h)\<rparr>))"
  by (rule ext) (simp add: wpE_def tick_def)

lemma wp_failing [wp]: "wpE (failing r) Q E = (\<lambda>h. case r of None \<Rightarrow> Q () h | Some e \<Rightarrow> E e h)"
  by (cases r) (simp_all add: failing_def wp)

lemma wp_case_xray_exn [wp]:
  "wpE (case e of XrayValidationError m \<Rightarrow> a m | XrayReloadError m \<Rightarrow> b m | XrayBaselineError m \<Rightarrow> c m | OtherError m \<Rightarrow> d m) Q E =
   (\<lambda>h. case e of XrayValidationError m \<Rightarrow> wpE (a m) Q E h | XrayReloadError m \<Rightarrow> wpE (b m) Q E h
      | XrayBaselineError m \<Rightarrow> wpE (c m) Q E h | OtherError m \<Rightarrow> wpE (d m) Q E h)"
  by (cases e) simp_all

lemma wp_case_pyval [wp]:
  "wpE (case_pyval a f1 f2 f3 f4 f5 v) Q E =
   (\<lambda>h. case_pyval (wpE a Q E h) (\<lambda>x. wpE (f1 x) Q E h) (\<lambda>x. wpE (f2 x) Q E h) (\<lambda>x. wpE (f3 x) Q E h)
      (\<lambda>x. wpE (f4 x) Q E h) (\<lambda>x. wpE (f5 x) Q E h) v)"
  by (cases v) simp_all

section \<open>Outcomes\<close>

definition untouched :: "xray_host \<Rightarrow> xray_host \<Rightarrow> bool" where
  "untouched h h' \<longleftrightarrow> xh_file h' = xh_file h \<and> xh_running h' = xh_running h \<and> xh_baseline h' = xh_baseline h"

definition degraded :: "xray_host \<Rightarrow> bool" where
  "degraded h \<longleftrightarrow> map_option bl_state (xh_baseline h) = Some Degraded"

text \<open>
  After a rollback of \<open>backup\<close>: the file and the process are back on it, or the baseline is
  degraded, or even the degraded marker could not be written, which the message says; without a
  baseline store only the message tells. In every case an alert was raised.
\<close>

definition rolled_back :: "bool \<Rightarrow> pyval option \<Rightarrow> xray_exn \<Rightarrow> xray_host \<Rightarrow> bool" where
  "rolled_back store backup e h \<longleftrightarrow> (\<exists>msg. e = XrayReloadError msg \<and>
     (xh_file h = backup \<and> xh_running h = backup \<or>
      store \<and> degraded h \<or> store \<and> msg = marker_failed_message \<or> \<not> store) \<and> xh_alerts h \<noteq> [])"

definition applied_ok :: "xray_oracle \<Rightarrow> pyval \<Rightarrow> xray_host \<Rightarrow> bool" where
  "applied_ok X content h \<longleftrightarrow>
     xh_file h = Some content \<and> xh_running h = Some content \<and> validate_repo_owned_xray_config content = [] \<and>
     (oc_store X \<longrightarrow> (\<exists>digest. repo_owned_xray_fingerprint (oc_sha256 X) content = Inr digest \<and>
        xh_baseline h = Some \<lparr>bl_state = Applied, bl_sha256 = Some digest\<rparr>))"

lemmas xray_ops = rt_backup_def rt_config_exists_def rt_current_def rt_test_def rt_install_def rt_reload_def
  rt_health_def rt_restore_def bl_load_state_def bl_persist_def bl_save_def bl_mark_degraded_def
  audit_def alert_xray_def finish_with_alert_def

lemma finish_with_alert_wp:
  "wpE (finish_with_alert u msg) Q E = (\<lambda>h. Q () (snd (finish_with_alert u msg h)))"
  by (rule ext) (cases u, simp_all add: wpE_def xray_ops eff_defs)

lemma finish_with_alert_frame [simp]:
  "xh_file (snd (finish_with_alert u msg h)) = xh_file h" "xh_running (snd (finish_with_alert u msg h)) = xh_running h"
  "xh_baseline (snd (finish_with_alert u msg h)) = xh_baseline h"
  "xh_alerts (snd (finish_with_alert u msg h)) = xh_alerts h @ [msg]"
  by (cases u, simp_all add: xray_ops eff_defs)+

lemma fail_after_rollback_failure_spec:
  "wpE (fail_after_rollback_failure X u a m) (\<lambda>_ _. False) (rolled_back (oc_store X) backup) h"
  by (simp add: fail_after_rollback_failure_def wp finish_with_alert_wp bl_mark_degraded_def bl_persist_def audit_def
      rolled_back_def degraded_def split: option.splits)

lemma rollback_spec:
  "wpE (rollback_xray X backup u s m) (\<lambda>_ _. False) (rolled_back (oc_store X) backup) h"
proof -
  have fail: "wpE (fail_after_rollback_failure X u a m') Q (rolled_back (oc_store X) backup) h" for a m' Q h
    by (rule wp_mono [OF fail_after_rollback_failure_spec]) auto
  show ?thesis
    by (simp add: rollback_xray_def wp rt_restore_def rt_reload_def rt_health_def audit_def fail
        finish_with_alert_wp rolled_back_def [of _ _ "XrayReloadError m"] split: option.splits sum.splits prod.splits)
qed

lemma guard_frame:
  "wpE (ensure_current_matches_baseline X) (\<lambda>_. untouched h) (\<lambda>e h'. (\<exists>m. e = XrayBaselineError m) \<and> untouched h h') h"
  by (simp add: ensure_current_matches_baseline_def wp xray_ops untouched_def
      split: option.splits sum.splits pyval.splits)

text \<open>Until the candidate is installed only the tick and the logs move.\<close>

lemma backup_frame:
  "wpE (rt_backup X) (\<lambda>b h'. b = xh_file h \<and> untouched h h') (\<lambda>_. untouched h) h"
  by (simp add: rt_backup_def wp untouched_def split: option.splits)

lemma audit_frame: "wpE (audit ev) Q E = (\<lambda>h. Q () (h\<lparr>xh_audit := xh_audit h @ [ev]\<rparr>))"
  by (simp add: audit_def wp)

lemma untouched_logs [simp]:
  "untouched h (h'\<lparr>xh_audit := l\<rparr>) = untouched h h'" "untouched h (h'\<lparr>xh_alerts := l\<rparr>) = untouched h h'"
  "untouched h (h'\<lparr>xh_tick := n\<rparr>) = untouched h h'" "untouched h h"
  by (simp_all add: untouched_def)

lemma untouched_trans: "untouched h h1 \<Longrightarrow> untouched h1 h2 \<Longrightarrow> untouched h h2"
  by (simp add: untouched_def)

lemma validate_frame:
  "wpE (xray_validate X c u) (\<lambda>v h'. untouched h h' \<and> (vr_valid v \<longrightarrow> validate_repo_owned_xray_config c = []))
     (\<lambda>_. untouched h) h"
  by (auto simp: xray_validate_def Let_def wp rt_test_def split: sum.splits)

lemma install_spec:
  "wpE (install_and_reload X c) (\<lambda>_ h'. xh_file h' = Some c \<and> xh_running h' = Some c) (\<lambda>_ _. True) h"
  by (simp add: install_and_reload_def wp rt_install_def rt_reload_def rt_health_def audit_def
      split: option.splits sum.splits prod.splits)

lemma current_frame:
  "wpE (rt_current X) (\<lambda>v h'. xh_file h' = xh_file h \<and> xh_running h' = xh_running h) (\<lambda>_ h'. xh_file h' = xh_file h \<and> xh_running h' = xh_running h) h"
  by (simp add: rt_current_def wp split: option.splits pyval.splits)

lemma save_spec:
  "wpE (bl_save X c) (\<lambda>_ h'. xh_file h' = xh_file h \<and> xh_running h' = xh_running h \<and>
       (\<exists>digest. repo_owned_xray_fingerprint (oc_sha256 X) c = Inr digest \<and>
          xh_baseline h' = Some \<lparr>bl_state = Applied, bl_sha256 = Some digest\<rparr>))
     (\<lambda>e _. \<exists>m. e = XrayBaselineError m) h"
  by (simp add: bl_save_def bl_persist_def wp split: option.splits sum.splits)

lemma rollback_wp:
  "oc_store X = st \<Longrightarrow> wpE (rollback_xray X backup u s m) Q (rolled_back st backup) h"
  by (rule wp_mono [OF rollback_spec]) auto

lemma save_wp:
  assumes "xh_file h = Some c" "xh_running h = Some c" "validate_repo_owned_xray_config c = []"
    and "\<And>h'. applied_ok X c h' \<Longrightarrow> Q () h'" and "\<And>m h'. E (XrayBaselineError m) h'"
  shows "wpE (bl_save X c) Q E h"
  by (rule wp_mono [OF save_spec]) (use assms in \<open>auto simp: applied_ok_def\<close>)

lemma applied_ok_audit [simp]: "applied_ok X c (h\<lparr>xh_audit := l\<rparr>) = applied_ok X c h"
  by (simp add: applied_ok_def)

lemma apply_validated_spec:
  assumes valid: "validate_repo_owned_xray_config c = []"
  shows "wpE (apply_validated X c version u backup)
     (\<lambda>r h'. r = \<lparr>ar_applied = True, ar_version = version, ar_rolled_back = False\<rparr> \<and> applied_ok X c h')
     (rolled_back (oc_store X) backup) h"
proof (cases "oc_store X")
  case True
  then show ?thesis
    unfolding apply_validated_def
    by (auto simp: wp audit_frame rollback_wp valid intro!: wp_mono [OF install_spec] wp_mono [OF current_frame] save_wp)
next
  case False
  then show ?thesis
    unfolding apply_validated_def
    by (auto simp: wp audit_frame rollback_wp valid applied_ok_def intro!: wp_mono [OF install_spec] wp_mono [OF current_frame])
qed

lemma guard_wp:
  assumes "untouched h h1" and "\<And>h2. untouched h h2 \<Longrightarrow> Q () h2" and "\<And>e h2. untouched h h2 \<Longrightarrow> E e h2"
  shows "wpE (writer_guard X) Q E h1"
proof (cases "oc_store X")
  case True
  then show ?thesis
    unfolding writer_guard_def
    by (auto simp: wp audit_frame alert_xray_def intro!: wp_mono [OF guard_frame] assms(2,3) untouched_trans [OF assms(1)])
qed (simp add: writer_guard_def wp assms)

lemma apply_spec:
  "wpE (xray_apply X c version u)
     (\<lambda>r h'. r = \<lparr>ar_applied = True, ar_version = version, ar_rolled_back = False\<rparr> \<and> applied_ok X c h')
     (\<lambda>e h'. untouched h h' \<or> rolled_back (oc_store X) (xh_file h) e h') h"
proof -
  have validate: "wpE (xray_validate X c u) Q (\<lambda>e h'. untouched h h' \<or> rolled_back (oc_store X) (xh_file h) e h') h1"
    if "untouched h h1" "\<And>v h2. untouched h h2 \<Longrightarrow> (vr_valid v \<longrightarrow> validate_repo_owned_xray_config c = []) \<Longrightarrow> Q v h2" for Q h1
    by (rule wp_mono [OF validate_frame]) (use that in \<open>auto intro: untouched_trans\<close>)
  have go: "wpE (apply_validated X c version u (xh_file h))
     (\<lambda>r h'. r = \<lparr>ar_applied = True, ar_version = version, ar_rolled_back = False\<rparr> \<and> applied_ok X c h')
     (\<lambda>e h'. untouched h h' \<or> rolled_back (oc_store X) (xh_file h) e h') h1"
    if "validate_repo_owned_xray_config c = []" for h1
    by (rule wp_mono [OF apply_validated_spec [OF that]]) auto
  show ?thesis
    unfolding xray_apply_def
    by (auto simp: wp audit_frame alert_xray_def intro!: wp_mono [OF backup_frame] guard_wp validate go)
qed

section \<open>The guard\<close>

lemma guard_degraded:
  assumes "degraded h" and "oc_store X"
  shows "wpE (writer_guard X) (\<lambda>_ _. False) (\<lambda>e h'. (\<exists>msg. e = XrayValidationError msg) \<and> untouched h h') h"
  using assms
  by (auto simp: writer_guard_def ensure_current_matches_baseline_def degraded_def wp xray_ops untouched_def
      split: option.splits)

lemma guard_accepts:
  assumes "applied_ok X c h" and "oc_store X" and "c = VMap d"
    and "\<And>n. \<not> oc_load_error X n" "\<And>n. oc_exists_error X n = None" "\<And>n. oc_read_error X n = None"
  shows "wpE (ensure_current_matches_baseline X) (\<lambda>_. untouched h) (\<lambda>_ _. False) h"
  using assms
  by (auto simp: ensure_current_matches_baseline_def applied_ok_def wp xray_ops untouched_def)

definition sample_oracle :: xray_oracle where
  "sample_oracle = \<lparr>oc_sha256 = id, oc_store = True, oc_test = (\<lambda>_ _. Inr True), oc_backup_error = (\<lambda>_. None),
     oc_exists_error = (\<lambda>_. None), oc_read_error = (\<lambda>_. None), oc_install_error = (\<lambda>_. None),
     oc_reload_error = (\<lambda>_. None), oc_health = (\<lambda>_. Inr \<lparr>hr_healthy = True, hr_details = []\<rparr>),
     oc_restore_error = (\<lambda>_. None), oc_load_error = (\<lambda>_. False), oc_persist_error = (\<lambda>_. None)\<rparr>"

definition empty_host :: xray_host where
  "empty_host = \<lparr>xh_tick = 0, xh_file = None, xh_running = None, xh_baseline = None, xh_audit = [], xh_alerts = [], xh_disabled = []\<rparr>"

text \<open>The baseline write replaces the file and then raises, as a failing directory sync does.\<close>

definition late_persist_oracle :: xray_oracle where
  "late_persist_oracle = sample_oracle\<lparr>oc_persist_error := (\<lambda>_. Some True)\<rparr>"

lemma minimal_fingerprint:
  "repo_owned_xray_fingerprint sha (VMap minimal_config) = Inr (sha (json_dumps (VMap minimal_config)))"
  by (simp add: repo_owned_xray_fingerprint_def repo_owned_xray_projection_def minimal_config_valid)

lemma minimal_agrees: "repo_owned_projection_errors (VMap minimal_config) (VMap minimal_config) = []"
  by (simp add: repo_owned_projection_errors_def minimal_config_valid)

lemmas apply_run_defs = xray_apply_def writer_guard_def ensure_current_matches_baseline_def xray_validate_def apply_validated_def
  install_and_reload_def rollback_xray_def xray_ops eff_defs tick_def failing_def Let_def

section \<open>Properties\<close>


text \<open>
  A degraded baseline stops every later apply with a validation error before anything is
  changed.
\<close>

theorem degraded_baseline_blocks_apply:
  assumes "degraded h" and "oc_store X" and "\<And>n. oc_backup_error X n = None"
  shows "\<exists>msg h'. xray_apply X c version u h = (Inl (XrayValidationError msg), h') \<and> untouched h h'"
proof -
  have "wpE (xray_apply X c version u) (\<lambda>_ _. False) (\<lambda>e h'. (\<exists>msg. e = XrayValidationError msg) \<and> untouched h h') h"
    unfolding xray_apply_def rt_backup_def
    using assms by (auto simp: wp audit_frame degraded_def untouched_def intro!: wp_mono [OF guard_degraded])
  then show ?thesis by (auto simp: wpE_def split: prod.splits sum.splits)
qed

theorem degraded_baseline_blocks_apply_witness:
  "\<exists>msg h'. xray_apply sample_oracle (VMap minimal_config) ''v'' None
      (empty_host\<lparr>xh_baseline := Some \<lparr>bl_state = Degraded, bl_sha256 = None\<rparr>\<rparr>) = (Inl (XrayValidationError msg), h') \<and>
    untouched (empty_host\<lparr>xh_baseline := Some \<lparr>bl_state = Degraded, bl_sha256 = None\<rparr>\<rparr>) h'"
  by (rule degraded_baseline_blocks_apply) (simp_all add: degraded_def sample_oracle_def)

text \<open>
  After a successful apply the writer guard accepts the file again: the fingerprint saved
  with the baseline is the fingerprint of the file on disk, as long as both can be read.
\<close>

theorem baseline_round_trip:
  assumes "xray_apply X (VMap d) version u h = (Inr r, h')" and "oc_store X"
    and "\<And>n. \<not> oc_load_error X n" "\<And>n. oc_exists_error X n = None" "\<And>n. oc_read_error X n = None"
  shows "\<exists>h''. ensure_current_matches_baseline X h' = (Inr (), h'') \<and> untouched h' h''"
proof -
  have "applied_ok X (VMap d) h'" using apply_spec [of X "VMap d" version u h] assms(1) by (simp add: wpE_def)
  from guard_accepts [OF this assms(2) refl assms(3-5)] show ?thesis
    by (auto simp: wpE_def split: prod.splits sum.splits)
qed

theorem baseline_round_trip_witness:
  "\<exists>r h' h''. xray_apply sample_oracle (VMap minimal_config) ''v'' None empty_host = (Inr r, h') \<and>
     ensure_current_matches_baseline sample_oracle h' = (Inr (), h'')"
proof -
  have "\<exists>r h'. xray_apply sample_oracle (VMap minimal_config) ''v'' None empty_host = (Inr r, h')"
    by (simp add: apply_run_defs sample_oracle_def empty_host_def minimal_config_valid minimal_fingerprint minimal_agrees)
  then obtain r h' where run: "xray_apply sample_oracle (VMap minimal_config) ''v'' None empty_host = (Inr r, h')" by blast
  from baseline_round_trip [OF run] show ?thesis using run by (auto simp: sample_oracle_def)
qed

text \<open>
  When the baseline write raises after it has replaced the baseline file (a failing
  directory sync), the apply restores the previous state of the configuration but not of the
  baseline: on a fresh host the file is gone again while the baseline records the candidate, and
  every later apply is refused.
\<close>

theorem late_baseline_failure_blocks_writer:
  "\<exists>h'. snd (xray_apply late_persist_oracle (VMap minimal_config) ''v'' None empty_host) = h' \<and>
     xh_file h' = None \<and> map_option bl_state (xh_baseline h') = Some Applied \<and>
     fst (xray_apply sample_oracle (VMap minimal_config) ''v'' None h') =
       Inl (XrayValidationError ''Xray config is missing while its baseline exists'')"
  by (simp add: apply_run_defs sample_oracle_def late_persist_oracle_def empty_host_def minimal_config_valid
      minimal_fingerprint minimal_agrees)

end
