(* ===== verification/Usage_Accounting.thy ===== *)
theory Usage_Accounting
  imports Gateway_Reconciliation
begin

text \<open>
  The usage ledger and the accounting worker (\<open>workers/accounting_sync.py\<close>): samples of the
  external counter become deltas, deltas add up in the current usage period, an exhausted period
  rolls over to the next one in the queue or into the grace time, and the accounting provider is
  overwritten from the database. A mapped object is the row of the working copy; the datetimes are
  in UTC, so \<open>as_utc\<close> is the identity. The accounting provider is a parameter whose calls may
  raise and change its state; the grace time in hours comes from the settings.
\<close>

record 'g accounting =
  ac_get_usage :: "string \<Rightarrow> 'g \<Rightarrow> (exn + usage_dto) \<times> 'g"
  ac_set_quota :: "string \<Rightarrow> int \<Rightarrow> 'g \<Rightarrow> (exn + unit) \<times> 'g"
  ac_set_expire :: "string \<Rightarrow> datetime \<Rightarrow> 'g \<Rightarrow> (exn + unit) \<times> 'g"

definition update_period :: "int \<Rightarrow> (usage_period \<Rightarrow> usage_period) \<Rightarrow> database \<Rightarrow> database" where
  "update_period i f d = (case get_period d i of Some p \<Rightarrow> put_period (f p) d | None \<Rightarrow> d)"

text \<open>Reading an attribute of a mapped object.\<close>

definition row_of :: "int \<Rightarrow> ('w, subscription) db" where
  "row_of i = bindE (getsE (\<lambda>s. get_subscription (se_work s) i)) (\<lambda>row. case row of
     Some r \<Rightarrow> retE r
   | None \<Rightarrow> raiseE (Exn (OtherException ''ObjectDeletedError'') ''instance has been deleted''))"

definition or_now :: "db_oracle \<Rightarrow> datetime option \<Rightarrow> ('w, datetime) db" where
  "or_now X now = (case now of Some n \<Rightarrow> retE n | None \<Rightarrow> db_now X)"

section \<open>Alerts\<close>

definition alert_exists :: "int \<Rightarrow> int \<Rightarrow> database \<Rightarrow> bool" where
  "alert_exists period threshold d \<longleftrightarrow> list_ex (\<lambda>a. ua_period_id a = period \<and> ua_threshold a = threshold) (db_alerts d)"

definition add_alert :: "usage_alert \<Rightarrow> database \<Rightarrow> database" where
  "add_alert a d = d\<lparr>db_alerts := db_alerts d @ [a]\<rparr>"

definition record_usage_alert :: "db_oracle \<Rightarrow> int \<Rightarrow> int \<Rightarrow> int \<Rightarrow> ('w, unit) db" where
  "record_usage_alert X sub period threshold =
     bindE (db_read X (alert_exists period threshold)) (\<lambda>existing.
     if existing then retE () else
       tryE (db_nested (thenE (db_update (add_alert \<lparr>ua_subscription_id = sub, ua_period_id = period, ua_threshold = threshold\<rparr>))
              (db_flush X)))
         (\<lambda>exc. if exn_class exc \<noteq> IntegrityError then raiseE exc else
            bindE (db_read X (alert_exists period threshold)) (\<lambda>recovered.
            if recovered then retE () else raiseE exc)))"

definition record_usage_alerts :: "db_oracle \<Rightarrow> int \<Rightarrow> usage_period \<Rightarrow> ('w, unit) db" where
  "record_usage_alerts X sub period =
     (if up_quota_bytes period \<le> 0 then retE () else
      (let percent = (up_used_bytes period * 100) div up_quota_bytes period in
       forE (\<lambda>threshold. if percent < threshold then retE () else record_usage_alert X sub (up_id period) threshold) [70, 90, 100]))"

section \<open>Expiry\<close>

definition period_over :: "datetime \<Rightarrow> usage_period \<Rightarrow> bool" where
  "period_over now p \<longleftrightarrow> up_quota_bytes p \<le> up_used_bytes p \<or> up_period_end p \<le> now"

definition queued_periods :: "int \<Rightarrow> database \<Rightarrow> usage_period list" where
  "queued_periods sub d = sort_key up_id (filter (\<lambda>p. up_subscription_id p = sub \<and> up_status p = PeriodQueued) (db_periods d))"

definition close_period :: "usage_period \<Rightarrow> usage_period" where
  "close_period p = p\<lparr>up_status := PeriodClosed\<rparr>"

definition start_period :: "datetime \<Rightarrow> usage_period \<Rightarrow> usage_period" where
  "start_period now p = p\<lparr>up_status := PeriodActive, up_period_start := now, up_period_end := now + days 30\<rparr>"

definition roll_over :: "datetime \<Rightarrow> int \<Rightarrow> int \<Rightarrow> usage_period \<Rightarrow> database \<Rightarrow> database" where
  "roll_over now sub period next_period d =
     update_subscription sub (\<lambda>r. r\<lparr>sb_current_period_id := Some (up_id next_period),
         sb_plan_id := (case up_plan_id next_period of Some p \<Rightarrow> p | None \<Rightarrow> sb_plan_id r),
         sb_service_expire_at := now + days 30, sb_status := SubActive, sb_reconcile_state := Pending\<rparr>)
       (update_period (up_id next_period) (start_period now) (update_period period close_period d))"

definition enter_grace :: "datetime \<Rightarrow> subscription \<Rightarrow> subscription" where
  "enter_grace until r = r\<lparr>sb_status := SubGrace, sb_service_expire_at := until, sb_reconcile_state := Pending\<rparr>"

definition service_expiry :: "int \<Rightarrow> subscription \<Rightarrow> datetime \<Rightarrow> ('w, bool) db" where
  "service_expiry grace sub now =
     (if sb_status sub = SubActive \<and> sb_service_expire_at sub \<le> now then
        thenE (db_update (update_subscription (sb_id sub) (enter_grace (sb_service_expire_at sub + hours grace)))) (retE True)
      else if sb_status sub = SubGrace \<and> sb_service_expire_at sub \<le> now then
        thenE (db_update (update_subscription (sb_id sub) (\<lambda>r. r\<lparr>sb_status := SubExpired\<rparr>))) (retE False)
      else retE False)"

definition end_period :: "db_oracle \<Rightarrow> int \<Rightarrow> subscription \<Rightarrow> usage_period \<Rightarrow> datetime \<Rightarrow> ('w, bool) db" where
  "end_period X grace sub period now =
     bindE (db_read X (queued_periods (sb_id sub))) (\<lambda>queued.
     thenE (db_update (case queued of
         next_period # _ \<Rightarrow> roll_over now (sb_id sub) (up_id period) next_period
       | [] \<Rightarrow> update_subscription (sb_id sub) (enter_grace (now + hours grace)) \<circ> update_period (up_id period) close_period))
     (retE True))"

definition apply_expiry_policy :: "db_oracle \<Rightarrow> int \<Rightarrow> int \<Rightarrow> datetime \<Rightarrow> ('w, bool) db" where
  "apply_expiry_policy X grace sub_id now =
     bindE (row_of sub_id) (\<lambda>sub.
     bindE (case sb_current_period_id sub of Some i \<Rightarrow> db_read X (\<lambda>d. get_period d i) | None \<Rightarrow> retE None) (\<lambda>period.
     case period of
       Some p \<Rightarrow> if sb_status sub = SubActive \<and> period_over now p then end_period X grace sub p now else service_expiry grace sub now
     | None \<Rightarrow> service_expiry grace sub now))"

section \<open>Accounting provider\<close>

definition set_reconcile_state :: "reconcile_state \<Rightarrow> subscription \<Rightarrow> subscription" where
  "set_reconcile_state st r = r\<lparr>sb_reconcile_state := st\<rparr>"

definition disappeared :: exn where
  "disappeared = value_error ''Subscription disappeared during reconcile''"

text \<open>The two \<open>except\<close> clauses: both roll back, store the state and raise the exception again.\<close>

definition account_missing :: "db_oracle \<Rightarrow> int \<Rightarrow> exn \<Rightarrow> ('w, 'a) db" where
  "account_missing X sub exc =
     thenE (db_rollback X)
     (bindE (db_read X (\<lambda>d. get_subscription d sub)) (\<lambda>current. case current of
        None \<Rightarrow> raiseE disappeared
      | Some _ \<Rightarrow>
          thenE (db_update (add_audit (subscription_audit ''ACCOUNTING_USER_MISSING'' sub ''FAILED''
              (''external accounting identity check failed: '' @ type_name exc)) \<circ>
            update_subscription sub (set_reconcile_state Pending)))
          (thenE (db_commit X) (raiseE exc))))"

definition reconcile_failed :: "db_oracle \<Rightarrow> int \<Rightarrow> bool \<Rightarrow> exn \<Rightarrow> ('w, 'a) db" where
  "reconcile_failed X sub pending_manual_on_failure exc =
     thenE (db_rollback X)
     (bindE (db_read X (\<lambda>d. get_subscription d sub)) (\<lambda>current. case current of
        None \<Rightarrow> raiseE disappeared
      | Some _ \<Rightarrow>
          thenE (db_update (update_subscription sub (\<lambda>r. if pending_manual_on_failure
              then r\<lparr>sb_reconcile_state := PendingManual, sb_provision_error := Some (exn_str exc)\<rparr>
              else r\<lparr>sb_reconcile_state := Pending\<rparr>)))
          (thenE (db_commit X) (raiseE exc))))"

definition write_account :: "db_oracle \<Rightarrow> 'g accounting \<Rightarrow> int \<Rightarrow> string \<Rightarrow> int \<Rightarrow> datetime \<Rightarrow> ('g, unit) gdb" where
  "write_account X A sub user quota expire_at =
     thenE (tryE (bindE (gateway_call (ac_get_usage A user)) (\<lambda>_. retE ())) (account_missing X sub))
     (thenE (gateway_call (ac_set_quota A user quota))
     (gateway_call (ac_set_expire A user expire_at)))"

definition mark_synced :: "subscription \<Rightarrow> subscription" where
  "mark_synced r = r\<lparr>sb_reconcile_state := Synced, sb_reconcile_attempts := 0\<rparr>"

definition mark_attempt :: "subscription \<Rightarrow> subscription" where
  "mark_attempt r = r\<lparr>sb_reconcile_state := Pending, sb_reconcile_attempts := sb_reconcile_attempts r + 1\<rparr>"

definition push_account ::
  "db_oracle \<Rightarrow> 'g accounting \<Rightarrow> int \<Rightarrow> string \<Rightarrow> int \<Rightarrow> datetime \<Rightarrow> bool \<Rightarrow> ('g, unit) gdb" where
  "push_account X A sub user quota expire_at pending_manual_on_failure =
     attemptE (write_account X A sub user quota expire_at) (reconcile_failed X sub pending_manual_on_failure)
       (\<lambda>_. bindE (db_read X (\<lambda>d. get_subscription d sub)) (\<lambda>current. case current of
          None \<Rightarrow> raiseE disappeared
        | Some _ \<Rightarrow> thenE (db_update (update_subscription sub mark_synced)) (db_commit X)))"

definition reconcile_subscription :: "db_oracle \<Rightarrow> 'g accounting \<Rightarrow> int \<Rightarrow> bool \<Rightarrow> ('g, unit) gdb" where
  "reconcile_subscription X A sub_id pending_manual_on_failure =
     bindE (row_of sub_id) (\<lambda>sub.
     case (sb_accounting_user_id sub, sb_current_period_id sub) of
       (Some (c # cs), Some i) \<Rightarrow>
         bindE (db_read X (\<lambda>d. get_period d i)) (\<lambda>period. case period of
           None \<Rightarrow> raiseE (value_error ''Current usage period not found'')
         | Some p \<Rightarrow>
             thenE (db_update (update_subscription sub_id mark_attempt))
             (thenE (db_commit X)
             (push_account X A sub_id (c # cs) (up_quota_bytes p) (sb_service_expire_at sub) pending_manual_on_failure)))
     | _ \<Rightarrow> raiseE (value_error ''Subscription is not ready for reconcile''))"

fun reconcile_each :: "db_oracle \<Rightarrow> 'g accounting \<Rightarrow> int list \<Rightarrow> int \<Rightarrow> ('g, int) gdb" where
  "reconcile_each X A [] completed = retE completed"
| "reconcile_each X A (sub # subs) completed =
     attemptE (reconcile_subscription X A sub False)
       (\<lambda>_. reconcile_each X A subs completed) (\<lambda>_. reconcile_each X A subs (completed + 1))"

definition pending_subscriptions :: "nat \<Rightarrow> database \<Rightarrow> int list" where
  "pending_subscriptions limit d = take limit (map sb_id (sort_key sb_id
     (filter (\<lambda>r. sb_reconcile_state r = Pending) (db_subscriptions d))))"

definition run_pending_reconcile :: "db_oracle \<Rightarrow> 'g accounting \<Rightarrow> nat \<Rightarrow> ('g, int) gdb" where
  "run_pending_reconcile X A limit =
     bindE (db_read X (pending_subscriptions limit)) (\<lambda>subs. reconcile_each X A subs 0)"

section \<open>Release of an egress endpoint\<close>

definition active_binding_of :: "int \<Rightarrow> database \<Rightarrow> egress_binding option" where
  "active_binding_of sub d = find (\<lambda>b. eb_subscription_id b = sub \<and> active_binding b) (db_bindings d)"

definition open_route_of :: "int \<Rightarrow> database \<Rightarrow> gateway_route_binding option" where
  "open_route_of sub d = find (\<lambda>r. gr_subscription_id r = sub \<and> gr_released_at r = None) (db_routes d)"

definition quarantine :: "egress_endpoint \<Rightarrow> egress_endpoint" where
  "quarantine e = e\<lparr>ee_current_count := 0, ee_status := ''QUARANTINED''\<rparr>"

text \<open>The desired state of a release: the binding, the route and the endpoint.\<close>

definition release_rows ::
  "datetime \<Rightarrow> egress_binding \<Rightarrow> gateway_route_binding option \<Rightarrow> egress_endpoint option \<Rightarrow> database \<Rightarrow> database" where
  "release_rows now b route endpoint d =
     (case endpoint of Some e \<Rightarrow> put_endpoint (quarantine e) | None \<Rightarrow> id)
       ((case route of Some r \<Rightarrow> put_route (r\<lparr>gr_enabled := False, gr_released_at := Some now\<rparr>) | None \<Rightarrow> id)
         (put_binding (b\<lparr>eb_released_at := Some now\<rparr>) d))"

definition release_operation :: "string option \<Rightarrow> int \<Rightarrow> egress_binding \<Rightarrow> string" where
  "release_operation operation_id sub b = (case operation_id of
     Some (c # cs) \<Rightarrow> c # cs | _ \<Rightarrow> show_int sub @ '':'' @ show_int (eb_id b))"

definition release_binding ::
  "db_oracle \<Rightarrow> 'g gateway option \<Rightarrow> subscription \<Rightarrow> egress_binding \<Rightarrow> datetime \<Rightarrow> string option \<Rightarrow> ('g, bool) gdb" where
  "release_binding X G sub b now operation_id =
     thenE (assert_no_unresolved_gateway_mutation X)
     (bindE (db_read X (\<lambda>d. get_endpoint d (eb_egress_id b))) (\<lambda>endpoint.
     bindE (db_read X (open_route_of (sb_id sub))) (\<lambda>route.
     thenE (db_update (release_rows now b route endpoint))
     (bindE (enqueue_gateway_reconciliation X ''RELEASE'' (sb_id sub) (Some (sb_order_id sub)) None
        (release_operation operation_id (sb_id sub) b)) (\<lambda>job.
     thenE (db_commit X)
     (case G of
        None \<Rightarrow> retE False
      | Some g \<Rightarrow> bindE (reconcile_gateway_job_in_session X g job) (\<lambda>result. retE (gr_applied result))))))))"

definition release_locked ::
  "db_oracle \<Rightarrow> 'g gateway option \<Rightarrow> int \<Rightarrow> datetime \<Rightarrow> string option \<Rightarrow> ('g, bool) gdb" where
  "release_locked X G sub_id now operation_id =
     bindE (db_read X (\<lambda>d. get_subscription d sub_id)) (\<lambda>subscription. case subscription of
       None \<Rightarrow> raiseE (value_error ''Subscription not found'')
     | Some sub \<Rightarrow> bindE (db_read X (active_binding_of sub_id)) (\<lambda>binding. case binding of
         None \<Rightarrow> retE False
       | Some b \<Rightarrow> release_binding X G sub b now operation_id))"

definition release_egress ::
  "db_oracle \<Rightarrow> lock_oracle \<Rightarrow> 'g gateway option \<Rightarrow> int \<Rightarrow> datetime option \<Rightarrow> string option \<Rightarrow> ('g, bool) gdb" where
  "release_egress X L G sub_id now operation_id =
     bindE (or_now X now) (\<lambda>now. gateway_route_binding_write L (release_locked X G sub_id now operation_id))"

section \<open>The usage ledger\<close>

definition latest_sample :: "int \<Rightarrow> database \<Rightarrow> usage_sample option" where
  "latest_sample sub d = first_by (\<lambda>m. (- sm_sampled_at m, - sm_id m))
     (filter (\<lambda>m. sm_subscription_id m = sub \<and> sm_node_id m = ''default'') (db_samples d))"

definition usage_increment :: "int option \<Rightarrow> int \<Rightarrow> int \<times> usage_delta_reason" where
  "usage_increment previous current = (case previous of
     None \<Rightarrow> (current, Bootstrap)
   | Some p \<Rightarrow> if p \<le> current then (current - p, Normal) else (current, CounterReset))"

definition add_sample :: "usage_sample \<Rightarrow> database \<Rightarrow> database" where
  "add_sample m d = d\<lparr>db_samples := db_samples d @ [m\<lparr>sm_id := next_id sm_id (db_samples d)\<rparr>]\<rparr>"

definition add_delta :: "usage_delta \<Rightarrow> database \<Rightarrow> database" where
  "add_delta u d = d\<lparr>db_deltas := db_deltas d @ [u\<lparr>ud_id := next_id ud_id (db_deltas d)\<rparr>]\<rparr>"

definition delta_of_sample :: "int \<Rightarrow> int \<Rightarrow> database \<Rightarrow> usage_delta option" where
  "delta_of_sample sub sample d = find (\<lambda>u. ud_subscription_id u = sub \<and> ud_node_id u = ''default'' \<and> ud_to_sample_id u = sample) (db_deltas d)"

definition count_usage :: "int \<Rightarrow> usage_period \<Rightarrow> usage_period" where
  "count_usage n p = p\<lparr>up_used_bytes := up_used_bytes p + n\<rparr>"

text \<open>After the delta is stored: the cache, the alerts, the expiry policy and the commit.\<close>

definition account_usage :: "db_oracle \<Rightarrow> int \<Rightarrow> int \<Rightarrow> usage_period \<Rightarrow> int \<Rightarrow> datetime \<Rightarrow> ('w, bool \<times> bool \<times> bool) db" where
  "account_usage X grace sub period delta_bytes now =
     thenE (db_update (update_subscription sub (\<lambda>r. r\<lparr>sb_last_usage_synced_at := Some now\<rparr>) \<circ> update_period (up_id period) (count_usage delta_bytes)))
     (thenE (record_usage_alerts X sub (count_usage delta_bytes period))
     (bindE (apply_expiry_policy X grace sub now) (\<lambda>needs_reconcile.
     bindE (row_of sub) (\<lambda>row.
     thenE (db_commit X)
     (retE (needs_reconcile, sb_current_period_id row \<noteq> Some (up_id period), sb_status row = SubExpired))))))"

definition after_usage ::
  "db_oracle \<Rightarrow> lock_oracle \<Rightarrow> 'g accounting \<Rightarrow> 'g gateway option \<Rightarrow> int \<Rightarrow> datetime \<Rightarrow> bool \<times> bool \<times> bool \<Rightarrow> ('g, unit) gdb" where
  "after_usage X L A G sub now flags = (case flags of (needs_reconcile, rolled_period, release_requested) \<Rightarrow>
     thenE (if release_requested then bindE (release_egress X L G sub (Some now) None) (\<lambda>_. retE ()) else retE ())
     (if needs_reconcile then tryE (reconcile_subscription X A sub rolled_period) (\<lambda>_. db_rollback X) else retE ()))"

definition store_delta ::
  "db_oracle \<Rightarrow> int \<Rightarrow> int \<Rightarrow> usage_sample option \<Rightarrow> int \<Rightarrow> int \<times> usage_delta_reason \<Rightarrow> ('w, unit) db" where
  "store_delta X sub period previous sample increment =
     db_nested (thenE (db_update (add_delta \<lparr>ud_id = 0, ud_subscription_id = sub, ud_period_id = period, ud_node_id = ''default'',
         ud_from_sample_id = map_option sm_id previous, ud_to_sample_id = sample, ud_delta_bytes = fst increment, ud_reason = snd increment\<rparr>))
       (db_flush X))"

definition ledger_entry ::
  "db_oracle \<Rightarrow> lock_oracle \<Rightarrow> 'g accounting \<Rightarrow> 'g gateway option \<Rightarrow> int \<Rightarrow> int \<Rightarrow> usage_period \<Rightarrow> int \<Rightarrow> datetime \<Rightarrow> ('g, int) gdb" where
  "ledger_entry X L A G grace sub period current now =
     bindE (db_read X (latest_sample sub)) (\<lambda>previous.
     bindE (getsE (\<lambda>s. next_id sm_id (db_samples (se_work s)))) (\<lambda>sample.
     thenE (db_update (add_sample \<lparr>sm_id = 0, sm_subscription_id = sub, sm_node_id = ''default'', sm_source_counter = current, sm_sampled_at = now\<rparr>))
     (thenE (db_flush X)
     (let increment = usage_increment (map_option sm_source_counter previous) current in
      attemptE (store_delta X sub (up_id period) previous sample increment)
        (\<lambda>exc. if exn_class exc \<noteq> IntegrityError then raiseE exc else
           bindE (db_read X (delta_of_sample sub sample)) (\<lambda>recovered. case recovered of
             None \<Rightarrow> raiseE exc | Some u \<Rightarrow> retE (ud_delta_bytes u)))
        (\<lambda>_. bindE (account_usage X grace sub period (fst increment) now) (\<lambda>flags.
           thenE (after_usage X L A G sub now flags) (retE (fst increment))))))))"

definition sync_subscription_usage ::
  "db_oracle \<Rightarrow> lock_oracle \<Rightarrow> 'g accounting \<Rightarrow> 'g gateway option \<Rightarrow> int \<Rightarrow> int \<Rightarrow> datetime option \<Rightarrow> ('g, int) gdb" where
  "sync_subscription_usage X L A G grace sub_id now =
     bindE (row_of sub_id) (\<lambda>subscription. case sb_accounting_user_id subscription of
       Some (c # cs) \<Rightarrow>
         bindE (or_now X now) (\<lambda>now.
         bindE (gateway_call (ac_get_usage A (c # cs))) (\<lambda>usage.
         bindE (db_read X (\<lambda>d. get_subscription d sub_id)) (\<lambda>locked.
         case Option.bind locked sb_current_period_id of
           None \<Rightarrow> raiseE (value_error ''Subscription has no active usage period'')
         | Some i \<Rightarrow> bindE (db_read X (\<lambda>d. get_period d i)) (\<lambda>period. case period of
             None \<Rightarrow> raiseE (value_error ''Current usage period not found'')
           | Some p \<Rightarrow> ledger_entry X L A G grace sub_id p (max 0 (us_used_bytes usage)) now))))
     | _ \<Rightarrow> raiseE (value_error ''Subscription has no accounting identity''))"

section \<open>Repair of the cached totals\<close>

definition authoritative :: "int \<Rightarrow> database \<Rightarrow> int" where
  "authoritative period d = (\<Sum>u\<leftarrow>filter (\<lambda>u. ud_period_id u = period) (db_deltas d). ud_delta_bytes u)"

definition repair_audit :: "usage_period \<Rightarrow> int \<Rightarrow> audit_log" where
  "repair_audit p n = \<lparr>al_action = ''USAGE_CACHE_REPAIRED'', al_entity_type = ''USAGE_PERIOD'', al_entity_id = show_int (up_id p),
     al_result = ''SUCCESS'', al_detail = Some (''cached='' @ show_int (up_used_bytes p) @ '',authoritative='' @ show_int n)\<rparr>"

definition repair_period :: "db_oracle \<Rightarrow> int \<Rightarrow> ('w, bool) db" where
  "repair_period X i =
     bindE (db_read X (\<lambda>d. get_period d i)) (\<lambda>period. case period of
       None \<Rightarrow> retE False
     | Some p \<Rightarrow> bindE (db_read X (authoritative i)) (\<lambda>total.
         if up_used_bytes p = total then retE False
         else thenE (db_update (add_audit (repair_audit p total) \<circ> update_period i (\<lambda>p. p\<lparr>up_used_bytes := total\<rparr>))) (retE True)))"

fun repair_each :: "db_oracle \<Rightarrow> int list \<Rightarrow> int \<Rightarrow> ('w, int) db" where
  "repair_each X [] repaired = retE repaired"
| "repair_each X (i # is) repaired = bindE (repair_period X i) (\<lambda>fixed. repair_each X is (if fixed then repaired + 1 else repaired))"

definition reconcile_usage_period_cache :: "db_oracle \<Rightarrow> ('w, int) db" where
  "reconcile_usage_period_cache X =
     bindE (db_read X (\<lambda>d. sort (map up_id (db_periods d)))) (\<lambda>period_ids.
     bindE (repair_each X period_ids 0) (\<lambda>repaired.
     thenE (db_commit X) (retE repaired)))"

section \<open>Usage jobs\<close>

definition usage_dedupe_key :: "int \<Rightarrow> string \<Rightarrow> string" where
  "usage_dedupe_key sub cycle_key = ''USAGE_SYNC:'' @ show_int sub @ '':'' @ cycle_key"

definition new_usage_job :: "int \<Rightarrow> string \<Rightarrow> datetime \<Rightarrow> job" where
  "new_usage_job sub dedupe_key now = \<lparr>jb_id = 0, jb_job_type = ''USAGE_SYNC'', jb_dedupe_key = dedupe_key,
     jb_payload = Some (VMap [(''subscription_id'', VInt sub)]), jb_status = JobPending, jb_attempts = 0, jb_max_attempts = 5,
     jb_available_at = now, jb_locked_at = None, jb_last_error_code = None\<rparr>"

definition enqueue_usage_sync :: "db_oracle \<Rightarrow> int \<Rightarrow> string \<Rightarrow> ('w, int) db" where
  "enqueue_usage_sync X sub cycle_key =
     (let dedupe_key = usage_dedupe_key sub cycle_key in
     bindE (db_read X (job_by_key dedupe_key)) (\<lambda>existing. case existing of
       Some j \<Rightarrow> retE (jb_id j)
     | None \<Rightarrow>
         bindE (db_now X) (\<lambda>now.
         bindE (getsE (\<lambda>s. next_id jb_id (db_jobs (se_work s)))) (\<lambda>i.
         thenE (db_update (add_job (new_usage_job sub dedupe_key now)))
         (attemptE (db_commit X)
           (\<lambda>exc. if exn_class exc \<noteq> IntegrityError then raiseE exc else
              thenE (db_rollback X)
              (bindE (db_read X (job_by_key dedupe_key)) (\<lambda>recovered. case recovered of
                 None \<Rightarrow> raiseE exc | Some j \<Rightarrow> retE (jb_id j))))
           (\<lambda>_. thenE (db_read X (\<lambda>_. ())) (retE i)))))))"

definition usage_claimable :: "datetime \<Rightarrow> job \<Rightarrow> bool" where
  "usage_claimable now j \<longleftrightarrow> jb_job_type j = ''USAGE_SYNC'' \<and>
     (jb_status j = JobPending \<or> jb_status j = JobFailed \<or>
      (jb_status j = JobRunning \<and> (case jb_locked_at j of Some t \<Rightarrow> t < now - minutes 15 | None \<Rightarrow> False))) \<and>
     jb_available_at j \<le> now \<and> jb_attempts j < jb_max_attempts j"

text \<open>\<open>int(json.loads(payload)["subscription_id"])\<close>.\<close>

definition usage_job_subscription :: "job \<Rightarrow> exn + int" where
  "usage_job_subscription j = (case jb_payload j of
     None \<Rightarrow> Inl (Exn (OtherException ''JSONDecodeError'') ''invalid payload'')
   | Some (VMap d) \<Rightarrow> (case map_of d ''subscription_id'' of
       None \<Rightarrow> Inl (Exn (OtherException ''KeyError'') ''subscription_id'')
     | Some v \<Rightarrow> (case v of
         VStr s \<Rightarrow> (case py_int s of Some i \<Rightarrow> Inr i | None \<Rightarrow> Inl (value_error ''invalid literal for int()''))
       | _ \<Rightarrow> (case as_int v of Some i \<Rightarrow> Inr i | None \<Rightarrow> Inl (Exn (OtherException ''TypeError'') ''int() argument''))))
   | Some _ \<Rightarrow> Inl (Exn (OtherException ''TypeError'') ''payload is not a mapping''))"

definition succeed_usage_job :: "job \<Rightarrow> job" where
  "succeed_usage_job j = j\<lparr>jb_status := JobSucceeded, jb_last_error_code := None\<rparr>"

definition fail_usage_job :: "exn \<Rightarrow> datetime \<Rightarrow> job \<Rightarrow> job" where
  "fail_usage_job exc now j = j\<lparr>jb_status := JobFailed, jb_last_error_code := Some (type_name exc),
     jb_available_at := now + minutes (min (2 ^ nat (jb_attempts j)) 60)\<rparr>"

definition usage_job_body ::
  "db_oracle \<Rightarrow> lock_oracle \<Rightarrow> 'g accounting \<Rightarrow> 'g gateway option \<Rightarrow> int \<Rightarrow> job \<Rightarrow> datetime \<Rightarrow> ('g, unit) gdb" where
  "usage_job_body X L A G grace j now =
     bindE (liftE (usage_job_subscription j)) (\<lambda>sub.
     bindE (db_read X (\<lambda>d. get_subscription d sub)) (\<lambda>subscription. case subscription of
       None \<Rightarrow> raiseE (value_error ''Subscription not found'')
     | Some _ \<Rightarrow>
         thenE (sync_subscription_usage X L A G grace sub (Some now))
         (bindE (db_read X (\<lambda>d. get_job d (jb_id j))) (\<lambda>found. case found of
            None \<Rightarrow> raiseE (value_error ''Usage job disappeared after sync'')
          | Some _ \<Rightarrow> db_update (update_job (jb_id j) succeed_usage_job)))))"

definition usage_job_failed :: "db_oracle \<Rightarrow> int \<Rightarrow> datetime \<Rightarrow> exn \<Rightarrow> ('w, unit) db" where
  "usage_job_failed X job_id now exc =
     thenE (db_rollback X)
     (bindE (db_read X (\<lambda>d. get_job d job_id)) (\<lambda>found. case found of
        None \<Rightarrow> raiseE (value_error ''Usage job disappeared during failure handling'')
      | Some _ \<Rightarrow> db_update (update_job job_id (fail_usage_job exc now))))"

definition run_next_usage_job ::
  "db_oracle \<Rightarrow> lock_oracle \<Rightarrow> 'g accounting \<Rightarrow> 'g gateway option \<Rightarrow> int \<Rightarrow> datetime option \<Rightarrow> ('g, int option) gdb" where
  "run_next_usage_job X L A G grace now =
     bindE (or_now X now) (\<lambda>now.
     bindE (db_read X (\<lambda>d. first_by jb_id (filter (usage_claimable now) (db_jobs d)))) (\<lambda>found. case found of
       None \<Rightarrow> retE None
     | Some j \<Rightarrow>
         thenE (db_update (update_job (jb_id j) (mark_running now)))
         (thenE (db_commit X)
         (thenE (tryE (usage_job_body X L A G grace j now) (usage_job_failed X (jb_id j) now))
         (thenE (db_update (update_job (jb_id j) (\<lambda>j. j\<lparr>jb_locked_at := None\<rparr>)))
         (thenE (db_commit X)
         (thenE (db_read X (\<lambda>_. ())) (retE (Some (jb_id j))))))))))"

end
