(* ===== verification/Transport_Sync.thy ===== *)
theory Transport_Sync
  imports Transport_Resolver Usage_Accounting
begin

text \<open>
  The inventory of transport endpoints (\<open>workers/transport_sync.py\<close>): what a provider reports
  becomes the rows of its endpoints, its capacity and the receipt of the bytes it left on disk.

  The worker sees a provider through four calls, and acts on the row of the provider through the
  session. \<open>subscription_ops\<close> are the calls on a provider that a resolver owns.
\<close>

record 'g transport_ops =
  to_sync :: "nat \<Rightarrow> datetime \<Rightarrow> 'g \<Rightarrow> (exn + unit) \<times> 'g"
  to_endpoints :: "'g \<Rightarrow> (exn + transport_endpoint_dto list) \<times> 'g"
  to_capacity :: "'g \<Rightarrow> (exn + transport_capacity_dto option) \<times> 'g"
  to_proof :: "'g \<Rightarrow> (string \<times> string \<times> int) option"

section \<open>Rows\<close>

definition on_forwarder :: "(forwarder_tables \<Rightarrow> forwarder_tables) \<Rightarrow> database \<Rightarrow> database" where
  "on_forwarder f d = d\<lparr>db_forwarder := f (db_forwarder d)\<rparr>"

definition get_provider :: "int \<Rightarrow> database \<Rightarrow> transport_provider_record option" where
  "get_provider i d = tbl_get tp_id (fw_providers (db_forwarder d)) i"

definition update_provider :: "int \<Rightarrow> (transport_provider_record \<Rightarrow> transport_provider_record) \<Rightarrow> database \<Rightarrow> database" where
  "update_provider i f = on_forwarder (fw_providers_update (map (\<lambda>p. if tp_id p = i then f p else p)))"

definition is_endpoint :: "int \<Rightarrow> string \<Rightarrow> transport_endpoint_record \<Rightarrow> bool" where
  "is_endpoint provider ext n \<longleftrightarrow> tn_provider_id n = provider \<and> tn_external_id n = ext"

definition find_node :: "int \<Rightarrow> string \<Rightarrow> database \<Rightarrow> transport_endpoint_record option" where
  "find_node provider ext d = find (is_endpoint provider ext) (fw_nodes (db_forwarder d))"

text \<open>\<open>json.dumps(raw_metadata or {}, separators=(",", ":"))\<close>.\<close>

definition metadata_json :: "transport_endpoint_dto \<Rightarrow> string" where
  "metadata_json e = json_dumps (VMap (te_raw_metadata e))"

definition overwrite_node :: "transport_endpoint_dto \<Rightarrow> transport_endpoint_record \<Rightarrow> transport_endpoint_record" where
  "overwrite_node e n = n\<lparr>tn_name := te_name e, tn_region := te_region e, tn_protocol := te_protocol e,
     tn_host := te_host e, tn_port := te_port e, tn_transport := te_transport e, tn_tls_mode := te_tls_mode e,
     tn_status := ''AVAILABLE'', tn_raw_metadata_json := metadata_json e\<rparr>"

definition new_node :: "int \<Rightarrow> int \<Rightarrow> transport_endpoint_dto \<Rightarrow> transport_endpoint_record" where
  "new_node i provider e = \<lparr>tn_id = i, tn_provider_id = provider, tn_external_id = te_external_id e, tn_name = te_name e,
     tn_region = te_region e, tn_protocol = te_protocol e, tn_host = te_host e, tn_port = te_port e,
     tn_transport = te_transport e, tn_tls_mode = te_tls_mode e,
     tn_auth_secret_ref = (case te_auth_secret_ref e of Some r \<Rightarrow> r | None \<Rightarrow> []), tn_status = ''AVAILABLE'',
     tn_raw_metadata_json = metadata_json e\<rparr>"

definition add_node :: "int \<Rightarrow> transport_endpoint_dto \<Rightarrow> database \<Rightarrow> database" where
  "add_node provider e = on_forwarder (\<lambda>t. t\<lparr>fw_nodes := fw_nodes t @ [new_node (next_id tn_id (fw_nodes t)) provider e]\<rparr>)"

definition update_node :: "int \<Rightarrow> (transport_endpoint_record \<Rightarrow> transport_endpoint_record) \<Rightarrow> database \<Rightarrow> database" where
  "update_node i f = on_forwarder (fw_nodes_update (map (\<lambda>n. if tn_id n = i then f n else n)))"

text \<open>One turn of the loop over the endpoints: the row is found, or added, and overwritten.\<close>

definition store_endpoint :: "db_oracle \<Rightarrow> int \<Rightarrow> transport_endpoint_dto \<Rightarrow> ('w, unit) db" where
  "store_endpoint X provider e =
     bindE (db_read X (find_node provider (te_external_id e))) (\<lambda>found.
     bindE (case found of
         Some n \<Rightarrow> retE (tn_id n)
       | None \<Rightarrow> attemptE (db_nested (bindE (getsE (\<lambda>s. next_id tn_id (fw_nodes (db_forwarder (se_work s))))) (\<lambda>i.
             thenE (db_update (add_node provider e)) (thenE (db_flush X) (retE i)))))
           (\<lambda>exc. if exn_class exc \<noteq> IntegrityError then raiseE exc
              else bindE (db_read X (find_node provider (te_external_id e))) (\<lambda>winner. case winner of
                None \<Rightarrow> raiseE exc | Some n \<Rightarrow> retE (tn_id n)))
           retE) (\<lambda>i.
     db_update (update_node i (overwrite_node e))))"

definition retire_node :: "int \<Rightarrow> string list \<Rightarrow> transport_endpoint_record \<Rightarrow> transport_endpoint_record" where
  "retire_node provider seen n =
     (if tn_provider_id n = provider \<and> tn_external_id n \<notin> set seen then n\<lparr>tn_status := ''REMOVED''\<rparr> else n)"

definition retire_nodes :: "int \<Rightarrow> string list \<Rightarrow> database \<Rightarrow> database" where
  "retire_nodes provider seen = on_forwarder (fw_nodes_update (map (retire_node provider seen)))"

section \<open>Capacity\<close>

definition CAPACITY_LEVELS :: "(int \<times> string) list" where
  "CAPACITY_LEVELS = [(60, ''REMINDER''), (80, ''PROCURE''), (95, ''EMERGENCY'')]"

definition capacity_alert_exists :: "int \<Rightarrow> int \<Rightarrow> int \<Rightarrow> database \<Rightarrow> bool" where
  "capacity_alert_exists provider threshold quota d \<longleftrightarrow> list_ex (\<lambda>a. ca_provider_id a = provider \<and> ca_threshold a = threshold \<and>
     ca_quota_bytes a = quota) (fw_capacity_alerts (db_forwarder d))"

definition add_capacity_alert :: "transport_capacity_alert \<Rightarrow> database \<Rightarrow> database" where
  "add_capacity_alert a = on_forwarder (\<lambda>t. t\<lparr>fw_capacity_alerts := fw_capacity_alerts t @ [a]\<rparr>)"

definition record_capacity_alert :: "db_oracle \<Rightarrow> int \<Rightarrow> int \<Rightarrow> int \<Rightarrow> int \<times> string \<Rightarrow> ('w, unit) db" where
  "record_capacity_alert X provider quota used = (\<lambda>(threshold, level).
     bindE (db_read X (capacity_alert_exists provider threshold quota)) (\<lambda>existing.
     if existing then retE () else
       tryE (db_nested (thenE (db_update (add_capacity_alert \<lparr>ca_provider_id = provider, ca_threshold = threshold,
              ca_level = level, ca_quota_bytes = quota, ca_used_bytes = used\<rparr>)) (db_flush X)))
         (\<lambda>exc. if exn_class exc \<noteq> IntegrityError then raiseE exc else
            bindE (db_read X (capacity_alert_exists provider threshold quota)) (\<lambda>recovered.
            if recovered then retE () else raiseE exc))))"

definition record_capacity_alerts :: "db_oracle \<Rightarrow> int \<Rightarrow> int \<Rightarrow> int \<Rightarrow> ('w, unit) db" where
  "record_capacity_alerts X provider quota used =
     (if quota = 0 then retE () else
      (let percent = (used * 100) div quota in
       forE (record_capacity_alert X provider quota used) (filter (\<lambda>l. fst l \<le> percent) CAPACITY_LEVELS)))"

definition set_capacity :: "transport_capacity_dto option \<Rightarrow> transport_provider_record \<Rightarrow> transport_provider_record" where
  "set_capacity capacity p = p\<lparr>tp_quota_bytes := map_option tc_quota_bytes capacity,
     tp_used_bytes := map_option tc_used_bytes capacity, tp_measured_at := map_option tc_measured_at capacity\<rparr>"

section \<open>Receipts\<close>

definition find_receipt :: "int \<Rightarrow> database \<Rightarrow> materialization_receipt option" where
  "find_receipt owner d = find (\<lambda>r. mz_owner_record_id r = owner) (fw_receipts (db_forwarder d))"

definition receipt_deadline :: "transport_capacity_dto option \<Rightarrow> datetime \<Rightarrow> datetime" where
  "receipt_deadline capacity now = (case Option.bind capacity tc_expire_at of Some t \<Rightarrow> t | None \<Rightarrow> now + hours 1)"

definition new_receipt :: "int \<Rightarrow> int \<Rightarrow> string \<Rightarrow> string \<times> string \<times> int \<Rightarrow> datetime \<Rightarrow> materialization_receipt" where
  "new_receipt i owner code = (\<lambda>(cache_identity, content_hash, source_revision) deadline.
     \<lparr>mz_id = i, mz_owner_record_id = owner, mz_provider_code = code, mz_source_revision = source_revision,
      mz_cache_identity = cache_identity, mz_content_hash = content_hash, mz_freshness_deadline = deadline\<rparr>)"

text \<open>The receipt that was read is overwritten; without one a new row is added.\<close>

definition put_receipt ::
  "materialization_receipt option \<Rightarrow> int \<Rightarrow> string \<Rightarrow> string \<times> string \<times> int \<Rightarrow> datetime \<Rightarrow> database \<Rightarrow> database" where
  "put_receipt found owner code evidence deadline = on_forwarder (fw_receipts_update (\<lambda>rs. case found of
     Some r \<Rightarrow> map (\<lambda>q. if mz_id q = mz_id r then new_receipt (mz_id r) owner code evidence deadline else q) rs
   | None \<Rightarrow> rs @ [new_receipt (next_id mz_id rs) owner code evidence deadline]))"

definition store_receipt ::
  "db_oracle \<Rightarrow> int \<Rightarrow> string \<Rightarrow> transport_capacity_dto option \<Rightarrow> datetime \<Rightarrow> (string \<times> string \<times> int) option \<Rightarrow> ('w, unit) db" where
  "store_receipt X owner code capacity now evidence = (case evidence of
     None \<Rightarrow> retE ()
   | Some p \<Rightarrow> bindE (db_read X (find_receipt owner)) (\<lambda>found.
       db_update (put_receipt found owner code p (receipt_deadline capacity now))))"

section \<open>The refresh\<close>

definition mark_refreshed :: "bool \<Rightarrow> datetime \<Rightarrow> transport_provider_record \<Rightarrow> transport_provider_record" where
  "mark_refreshed any now p = p\<lparr>tp_status := (if any then ProviderHealthy else ProviderDegraded),
     tp_last_refresh_at := Some now, tp_last_health_at := Some now\<rparr>"

definition store_capacity :: "db_oracle \<Rightarrow> int \<Rightarrow> transport_capacity_dto option \<Rightarrow> ('w, unit) db" where
  "store_capacity X provider capacity =
     thenE (db_update (update_provider provider (set_capacity capacity)))
     (case capacity of None \<Rightarrow> retE () | Some c \<Rightarrow> record_capacity_alerts X provider (tc_quota_bytes c) (tc_used_bytes c))"

definition provider_sync :: "db_oracle \<Rightarrow> 'g transport_ops \<Rightarrow> ('g, unit) gdb" where
  "provider_sync X P = bindE tick_of (\<lambda>n. bindE (db_now X) (\<lambda>at. gateway_call (to_sync P n at)))"

definition refresh_provider_inventory ::
  "db_oracle \<Rightarrow> transport_provider_record \<Rightarrow> 'g transport_ops \<Rightarrow> datetime option \<Rightarrow> ('g, int) gdb" where
  "refresh_provider_inventory X row P now =
     bindE (or_now X now) (\<lambda>now.
     thenE (provider_sync X P)
     (bindE (gateway_call (to_endpoints P)) (\<lambda>endpoints.
     thenE (forE (store_endpoint X (tp_id row)) endpoints)
     (thenE (db_read X (\<lambda>_. ()))
     (thenE (db_update (retire_nodes (tp_id row) (map te_external_id endpoints)))
     (bindE (gateway_call (to_capacity P)) (\<lambda>capacity.
     thenE (store_capacity X (tp_id row) capacity)
     (thenE (db_update (update_provider (tp_id row) (mark_refreshed (endpoints \<noteq> []) now)))
     (bindE (getsE (\<lambda>s. to_proof P (w_gateway (se_world s)))) (\<lambda>evidence.
     thenE (store_receipt X (tp_id row) (tp_code row) capacity now evidence)
     (thenE (db_commit X) (retE (int (length endpoints))))))))))))))"

section \<open>Providers of a resolver\<close>

text \<open>The transports of a process: the providers and the cache files they write. Other state may stand beside them.\<close>

record transport_state =
  ts_resolver :: transport_resolver
  ts_files :: cache_files

definition resolved :: "int \<Rightarrow> 'x transport_state_scheme \<Rightarrow> subscription_provider option" where
  "resolved i w = map_option (snd \<circ> snd) (map_of (rs_providers (ts_resolver w)) i)"

definition set_resolved :: "int \<Rightarrow> subscription_provider \<Rightarrow> 'x transport_state_scheme \<Rightarrow> 'x transport_state_scheme" where
  "set_resolved i p w = w\<lparr>ts_resolver := (ts_resolver w)\<lparr>rs_providers :=
     map (\<lambda>(j, d, r, q). (j, d, r, if j = i then p else q)) (rs_providers (ts_resolver w))\<rparr>\<rparr>"

definition with_resolved :: "int \<Rightarrow> (subscription_provider \<Rightarrow> 'a) \<Rightarrow> 'x transport_state_scheme \<Rightarrow> (exn + 'a) \<times> 'x transport_state_scheme" where
  "with_resolved i f w = (case resolved i w of
     None \<Rightarrow> (Inl (key_error (show_int i)), w) | Some p \<Rightarrow> (Inr (f p), w))"

definition sync_resolved :: "transport_env \<Rightarrow> int \<Rightarrow> nat \<Rightarrow> datetime \<Rightarrow> 'x transport_state_scheme \<Rightarrow> (exn + unit) \<times> 'x transport_state_scheme" where
  "sync_resolved V i n at w = (case resolved i w of
     None \<Rightarrow> (Inl (key_error (show_int i)), w)
   | Some p \<Rightarrow> (case sync_nodes V n at (p, ts_files w) of
       (r, q, files) \<Rightarrow> (r, (set_resolved i q w)\<lparr>ts_files := files\<rparr>)))"

definition subscription_ops :: "transport_env \<Rightarrow> int \<Rightarrow> 'x transport_state_scheme transport_ops" where
  "subscription_ops V i = \<lparr>to_sync = sync_resolved V i, to_endpoints = with_resolved i sp_endpoints,
     to_capacity = with_resolved i sp_capacity,
     to_proof = (\<lambda>w. Option.bind (resolved i w) materialization_proof)\<rparr>"

end
