(* ===== verification/Scheduler.thy ===== *)
theory Scheduler
  imports Transport_Sync Secret_Store
begin

text \<open>
  One batch of the scheduler (\<open>workers/scheduler.py\<close>) and the check for drifted exits
  (\<open>workers/drift_check.py\<close>). The registry and the settings are parameters; the state of the
  providers is the one of the transports, extended by whatever the other providers keep. Closing the
  independent session that reads a secret does not fail.
\<close>

section \<open>Drift of exits\<close>

record drift_finding =
  df_endpoint_code :: string
  df_db_host :: string
  df_db_port :: int
  df_provider_host :: string
  df_provider_port :: int

record drift_check_result =
  dr_checked :: int
  dr_findings :: "drift_finding list"
  dr_provider_returned_no_data :: bool

definition ACTIVE_ENDPOINT_STATUSES :: "string list" where
  "ACTIVE_ENDPOINT_STATUSES = [''AVAILABLE'', ''ASSIGNED'']"

definition active_endpoints :: "database \<Rightarrow> egress_endpoint list" where
  "active_endpoints d = filter (\<lambda>e. ee_status e \<in> set ACTIVE_ENDPOINT_STATUSES) (db_endpoints d)"

text \<open>The last report of an identity counts; an exit that is not reported is not flagged.\<close>

definition drift_of :: "egress_endpoint_dto list \<Rightarrow> egress_endpoint \<Rightarrow> drift_finding option" where
  "drift_of dtos e = (case map_of (rev (map (\<lambda>d. (ep_endpoint_id d, d)) dtos)) (ee_code e) of
     None \<Rightarrow> None
   | Some d \<Rightarrow> if ep_host d \<noteq> ee_host e \<or> ep_port d \<noteq> ee_port e
       then Some \<lparr>df_endpoint_code = ee_code e, df_db_host = ee_host e, df_db_port = ee_port e,
         df_provider_host = ep_host d, df_provider_port = ep_port d\<rparr>
       else None)"

definition no_data_audit :: "nat \<Rightarrow> audit_log" where
  "no_data_audit expected = \<lparr>al_action = ''EGRESS_DRIFT_CHECK_NO_DATA'', al_entity_type = ''EGRESS_PROVIDER'', al_entity_id = ''*'',
     al_result = ''FAILURE'', al_detail = Some (''list_endpoints() returned no data while '' @ show_nat expected @
       '' DB endpoint(s) were expected; drift could not be verified this round.'')\<rparr>"

definition drift_audit :: "drift_finding \<Rightarrow> audit_log" where
  "drift_audit f = \<lparr>al_action = ''EGRESS_DRIFT_DETECTED'', al_entity_type = ''EGRESS_ENDPOINT'', al_entity_id = df_endpoint_code f,
     al_result = ''FAILURE'', al_detail = Some (''DB host/port '' @ df_db_host f @ '':'' @ show_int (df_db_port f) @
       '' does not match provider-reported '' @ df_provider_host f @ '':'' @ show_int (df_provider_port f) @
       ''; requires manual review, no automatic correction performed.'')\<rparr>"

definition check_egress_drift ::
  "db_oracle \<Rightarrow> ('g \<Rightarrow> (exn + egress_endpoint_dto list) \<times> 'g) \<Rightarrow> ('g, drift_check_result) gdb" where
  "check_egress_drift X list_endpoints =
     bindE (db_read X active_endpoints) (\<lambda>endpoints.
     if endpoints = [] then retE \<lparr>dr_checked = 0, dr_findings = [], dr_provider_returned_no_data = False\<rparr>
     else bindE (gateway_call list_endpoints) (\<lambda>dtos.
       if dtos = [] then
         thenE (db_update (add_audit (no_data_audit (length endpoints))))
         (thenE (db_commit X)
         (retE \<lparr>dr_checked = int (length endpoints), dr_findings = [], dr_provider_returned_no_data = True\<rparr>))
       else
         (let findings = List.map_filter (drift_of dtos) endpoints in
          thenE (db_update (fold (\<lambda>f. add_audit (drift_audit f)) findings))
          (thenE (if findings \<noteq> [] then db_commit X else retE ())
          (retE \<lparr>dr_checked = int (length endpoints), dr_findings = findings, dr_provider_returned_no_data = False\<rparr>)))))"

section \<open>Transports\<close>

text \<open>A reader with a session of its own sees what is committed.\<close>

definition on_committed :: "('w, 'a) db \<Rightarrow> ('w, 'a) db" where
  "on_committed m s = (case m (s\<lparr>se_work := se_store s\<rparr>) of (r, t) \<Rightarrow> (r, t\<lparr>se_work := se_work s\<rparr>))"

definition load_subscription_url :: "db_oracle \<Rightarrow> secret_env \<Rightarrow> string \<Rightarrow> ('w, string \<times> int) db" where
  "load_subscription_url X C ref =
     tryE (on_committed (reveal_secret_snapshot_for_purpose X C ref ''TRANSPORT_SUBSCRIPTION_URL''))
       (\<lambda>exc. raiseE (if exn_class exc = SecretStoreError then runtime_error ''TRANSPORT_SECRET_UNAVAILABLE'' else exc))"

record 'g scheduler_registry =
  sr_subscription_mode :: bool
  sr_has_resolver :: bool
  sr_transport :: "'g transport_ops option"
  sr_accounting :: "'g accounting"
  sr_gateway :: "'g gateway option"
  sr_list_endpoints :: "'g \<Rightarrow> (exn + egress_endpoint_dto list) \<times> 'g"

text \<open>The settings and services a batch works with; \<open>sn_gateway_file\<close> says the gateway is \<open>xray_file\<close>.\<close>

record scheduler_env =
  sn_database :: db_oracle
  sn_lock :: lock_oracle
  sn_secrets :: secret_env
  sn_transport :: transport_env
  sn_gateway_file :: bool
  sn_grace_hours :: int
  sn_batch_size :: nat

definition resolve_record ::
  "scheduler_env \<Rightarrow> transport_provider_record \<Rightarrow> ('x transport_state_scheme, 'x transport_state_scheme transport_ops) gdb" where
  "resolve_record N row =
     bindE (getsE (\<lambda>s. ts_resolver (w_gateway (se_world s)))) (\<lambda>R.
     bindE (resolve_transport (tv_sha256 (sn_transport N)) (load_subscription_url (sn_database N) (sn_secrets N)) (descriptor_of row) R)
       (\<lambda>(_, R').
     thenE (gateway_call (\<lambda>g. (Inr (), g\<lparr>ts_resolver := R'\<rparr>)))
     (retE (subscription_ops (sn_transport N) (tp_id row)))))"

definition record_provider ::
  "scheduler_env \<Rightarrow> 'x transport_state_scheme scheduler_registry \<Rightarrow> transport_provider_record \<Rightarrow>
   ('x transport_state_scheme, 'x transport_state_scheme transport_ops) gdb" where
  "record_provider N G row =
     (if sr_subscription_mode G then
        (if \<not> sr_has_resolver G then raiseE (runtime_error ''Subscription transport resolver is unavailable'')
         else resolve_record N row)
      else (case sr_transport G of
          None \<Rightarrow> raiseE (runtime_error ''Mock transport provider is unavailable'') | Some P \<Rightarrow> retE P))"

definition sync_record ::
  "scheduler_env \<Rightarrow> 'x transport_state_scheme scheduler_registry \<Rightarrow> transport_provider_record \<Rightarrow> ('x transport_state_scheme, int) gdb" where
  "sync_record N G row =
     bindE (record_provider N G row) (\<lambda>P. refresh_provider_inventory (sn_database N) row P None)"

definition sync_failed_audit :: "int \<Rightarrow> audit_log" where
  "sync_failed_audit i = \<lparr>al_action = ''TRANSPORT_PROVIDER_SYNC_FAILED'', al_entity_type = ''TRANSPORT_PROVIDER'',
     al_entity_id = show_int i, al_result = ''FAILURE'',
     al_detail = Some ''Previous provider cache retained; inspect provider connectivity.''\<rparr>"

definition degrade :: "transport_provider_record \<Rightarrow> transport_provider_record" where
  "degrade p = p\<lparr>tp_status := ProviderDegraded\<rparr>"

definition sync_failed :: "db_oracle \<Rightarrow> int \<Rightarrow> ('w, unit) db" where
  "sync_failed X i =
     thenE (db_rollback X)
     (bindE (db_read X (get_provider i)) (\<lambda>failed. case failed of
        None \<Rightarrow> raiseE (Exn (OtherException ''AttributeError'') ''object has no attribute status'')
      | Some p \<Rightarrow>
          thenE (db_update (update_provider i degrade))
          (thenE (if tp_status p \<noteq> ProviderDegraded then db_update (add_audit (sync_failed_audit i)) else retE ())
          (db_commit X))))"

fun sync_records ::
  "scheduler_env \<Rightarrow> 'x transport_state_scheme scheduler_registry \<Rightarrow> transport_provider_record list \<Rightarrow> int \<Rightarrow>
   ('x transport_state_scheme, int) gdb" where
  "sync_records N G [] completed = retE completed"
| "sync_records N G (row # rows) completed =
     attemptE (sync_record N G row)
       (\<lambda>_. thenE (sync_failed (sn_database N) (tp_id row)) (sync_records N G rows completed))
       (\<lambda>_. sync_records N G rows (completed + 1))"

definition syncable_providers :: "database \<Rightarrow> transport_provider_record list" where
  "syncable_providers d = filter (\<lambda>p. tp_enabled p \<and> tp_kind p = Subscription_Provider) (fw_providers (db_forwarder d))"

definition sync_transport_capacity_and_inventory ::
  "scheduler_env \<Rightarrow> 'x transport_state_scheme scheduler_registry \<Rightarrow> ('x transport_state_scheme, int) gdb" where
  "sync_transport_capacity_and_inventory N G =
     bindE (db_read (sn_database N) syncable_providers) (\<lambda>rows. sync_records N G rows 0)"

section \<open>The batch\<close>

definition polled_subscriptions :: "database \<Rightarrow> (string \<times> int option) list" where
  "polled_subscriptions d = List.map_filter (\<lambda>r. if sb_status r \<in> {SubActive, SubGrace}
     then map_option (\<lambda>u. (u, sb_current_period_id r)) (sb_accounting_user_id r) else None) (db_subscriptions d)"

fun any_near_quota :: "db_oracle \<Rightarrow> 'g accounting \<Rightarrow> (string \<times> int option) list \<Rightarrow> ('g, bool) gdb" where
  "any_near_quota X A [] = retE False"
| "any_near_quota X A ((user, None) # rest) = any_near_quota X A rest"
| "any_near_quota X A ((user, Some i) # rest) =
     bindE (db_read X (\<lambda>d. get_period d i)) (\<lambda>period. case period of
       None \<Rightarrow> any_near_quota X A rest
     | Some p \<Rightarrow>
         if up_quota_bytes p \<le> 0 then any_near_quota X A rest
         else bindE (gateway_call (ac_get_usage A user)) (\<lambda>usage.
           if up_quota_bytes p * 90 \<le> us_used_bytes usage * 100 then retE True else any_near_quota X A rest))"

definition usage_requires_fast_poll :: "db_oracle \<Rightarrow> 'g accounting \<Rightarrow> ('g, bool) gdb" where
  "usage_requires_fast_poll X A = bindE (db_read X polled_subscriptions) (any_near_quota X A)"

definition usage_poll_interval_seconds :: "bool \<Rightarrow> int" where
  "usage_poll_interval_seconds fast = (if fast then 60 else 300)"

text \<open>\<open>for _ in range(limit)\<close>, which stops when no job is left.\<close>

fun run_usage_jobs :: "db_oracle \<Rightarrow> lock_oracle \<Rightarrow> 'g accounting \<Rightarrow> 'g gateway option \<Rightarrow> int \<Rightarrow> nat \<Rightarrow> int \<Rightarrow> ('g, int) gdb" where
  "run_usage_jobs X L A G grace 0 n = retE n"
| "run_usage_jobs X L A G grace (Suc k) n =
     bindE (run_next_usage_job X L A G grace None) (\<lambda>job. case job of
       None \<Rightarrow> retE n | Some _ \<Rightarrow> run_usage_jobs X L A G grace k (n + 1))"

record scheduler_batch_result =
  bt_transport_records :: int
  bt_reconciled_subscriptions :: int
  bt_usage_jobs :: int
  bt_fast_usage_poll :: bool
  bt_egress_endpoints_checked :: int
  bt_egress_drift_findings :: int

definition processed_jobs :: "scheduler_batch_result \<Rightarrow> int" where
  "processed_jobs r = bt_reconciled_subscriptions r + bt_usage_jobs r"

definition run_batch ::
  "scheduler_env \<Rightarrow> 'x transport_state_scheme scheduler_registry \<Rightarrow> ('x transport_state_scheme, scheduler_batch_result) gdb" where
  "run_batch N G =
     (let X = sn_database N; gateway = (if sn_gateway_file N then None else sr_gateway G) in
      bindE (sync_transport_capacity_and_inventory N G) (\<lambda>transport_records.
      bindE (run_pending_reconcile X (sr_accounting G) (sn_batch_size N)) (\<lambda>reconciled.
      thenE (reconcile_usage_period_cache X)
      (bindE (run_usage_jobs X (sn_lock N) (sr_accounting G) gateway (sn_grace_hours N) (sn_batch_size N) 0) (\<lambda>usage_jobs.
      bindE (usage_requires_fast_poll X (sr_accounting G)) (\<lambda>fast.
      bindE (check_egress_drift X (sr_list_endpoints G)) (\<lambda>drift.
      retE \<lparr>bt_transport_records = transport_records, bt_reconciled_subscriptions = reconciled, bt_usage_jobs = usage_jobs,
        bt_fast_usage_poll = fast, bt_egress_endpoints_checked = dr_checked drift,
        bt_egress_drift_findings = int (length (dr_findings drift))\<rparr>)))))))"

end
