(* ===== verification/Usage_Properties.thy ===== *)
theory Usage_Properties
  imports Usage_Accounting Gateway_Guarantees
begin

text \<open>
  The usage ledger. The cached total of a usage period is the sum of its deltas: every run of the
  accounting worker keeps this in the committed data, whatever fails, and the repair establishes
  it. An invariant that does not look at the rows a component writes is kept by all its code; the
  locales state this once for the gateway reconciliation and for the release of an endpoint.
\<close>

section \<open>Invariants the gateway code keeps\<close>

locale row_invariant =
  fixes I :: "database \<Rightarrow> bool"
  assumes I_jobs: "I (db_jobs_update f d) = I d"
    and I_subscriptions: "I (db_subscriptions_update g d) = I d"
    and I_orders: "I (db_orders_update h d) = I d"
    and I_audit: "I (db_audit_update k d) = I d"
begin

definition inv :: "bool \<Rightarrow> 'g world session \<Rightarrow> bool" where
  "inv l s \<longleftrightarrow> I (se_work s) \<and> I (se_store s) \<and> w_locked (se_world s) = l"

lemma row_frames [simp]:
  "I (update_job i f d) = I d" "I (update_subscription i f' d) = I d" "I (update_order i f'' d) = I d" "I (add_audit a d) = I d"
  "I (add_job j d) = I d"
  by (simp_all add: update_job_def update_subscription_def update_order_def add_audit_def add_job_def I_jobs I_subscriptions I_orders I_audit
      split: option.splits)

abbreviation keeps :: "('g, 'a) gdb \<Rightarrow> bool" where
  "keeps m \<equiv> (\<forall>l s. inv l s \<longrightarrow> wpE m (\<lambda>_. inv l) (\<lambda>_. inv l) s)"

lemma keepsD: "keeps m \<Longrightarrow> inv l s \<Longrightarrow> (\<And>x t. inv l t \<Longrightarrow> Q x t) \<Longrightarrow> (\<And>e t. inv l t \<Longrightarrow> E e t) \<Longrightarrow> wpE m Q E s"
  using wp_mono [of m "\<lambda>_. inv l" "\<lambda>_. inv l" s Q E] by auto

lemma keeps_bookkeeping:
  "keeps (record_failure X i exc now)"
  "keeps (mark_finalization_unknown X i payload now)"
  "keeps (finalize X i payload)"
  "keeps (classify_finalization_outcome X i sub oid run kind)"
  "keeps (assert_no_unresolved_gateway_mutation X)"
  "keeps (enqueue_gateway_reconciliation X kind sub oid r op)"
  unfolding record_failure_def Let_def mark_finalization_unknown_def finalize_def finalize_purchase_def
    classify_finalization_outcome_def probing_def assert_no_unresolved_gateway_mutation_def enqueue_gateway_reconciliation_def
  by (intro allI impI vcg; simp add: inv_def)+

lemma keeps_commit_finalization: "keeps (commit_finalization X i payload values)"
proof (intro allI impI)
  fix l and s :: "'a world session" assume s: "inv l s"
  obtain sub oid run where v: "values = (sub, oid, run)" by (cases "values")
  show "wpE (commit_finalization X i payload values) (\<lambda>_. inv l) (\<lambda>_. inv l) s"
    unfolding commit_finalization_def v prod.case
    by (intro vcg vcg_outcome keepsD [OF keeps_bookkeeping(4)] keepsD [OF keeps_bookkeeping(1)] keepsD [OF keeps_bookkeeping(2)])
      (use s in \<open>simp_all add: inv_def\<close>)
qed

lemma keeps_attempt_failed: "keeps (attempt_failed X i exc)"
  unfolding attempt_failed_def
  by (intro allI impI vcg keepsD [OF keeps_bookkeeping(1)]) (simp_all add: inv_def)

lemma keeps_apply: "keeps (apply_desired_state X G)"
  by (intro allI impI wp_mono [OF apply_desired_state_frame]) (simp_all add: inv_def gateway_only_def)

lemma keeps_reconcile: "keeps (reconcile_claimed_job X G j)"
  unfolding reconcile_claimed_job_def
  by (intro allI impI vcg keepsD [OF keeps_apply] keepsD [OF keeps_bookkeeping(3)] keepsD [OF keeps_commit_finalization]
      keepsD [OF keeps_attempt_failed]) simp_all

lemma keeps_in_session: "keeps (reconcile_gateway_job_in_session X G i)"
  unfolding reconcile_gateway_job_in_session_def
  by (intro allI impI vcg keepsD [OF keeps_reconcile]) (simp_all add: inv_def)

end

text \<open>An invariant that also ignores endpoints, bindings, routes, samples and alerts.\<close>

locale usage_invariant = row_invariant +
  assumes I_endpoints: "I (db_endpoints_update f d) = I d"
    and I_bindings: "I (db_bindings_update g d) = I d"
    and I_routes: "I (db_routes_update h d) = I d"
    and I_samples: "I (db_samples_update k d) = I d"
    and I_alerts: "I (db_alerts_update l d) = I d"
begin

lemma usage_frames [simp]:
  "I (release_rows now b route endpoint d) = I d" "I (add_alert a d) = I d" "I (add_sample m d) = I d"
  by (simp_all add: release_rows_def add_alert_def add_sample_def I_endpoints I_bindings I_routes I_samples I_alerts split: option.splits)

lemma keeps_release_locked: "keeps (release_locked X G sub now op)"
  unfolding release_locked_def release_binding_def
  by (intro allI impI vcg keepsD [OF keeps_bookkeeping(5)] keepsD [OF keeps_bookkeeping(6)] keepsD [OF keeps_in_session])
    (simp_all add: inv_def)

lemma keeps_release:
  assumes "inv False s"
  shows "wpE (release_egress X L G sub now op) (\<lambda>_. inv False) (\<lambda>_. inv False) s"
proof -
  have locked: "wpE (gateway_route_binding_write L (release_locked X G sub n op)) (\<lambda>_. inv False) (\<lambda>_. inv False) t"
    if "inv False t" for n t
  proof (rule wp_route_lock)
    show "\<not> w_locked (se_world t)" using that by (simp add: inv_def)
    fix u assume "acquired t u"
    then have "inv True u" using that by (simp add: acquired_def inv_def)
    then show "wpE (release_locked X G sub n op) (\<lambda>x. after_release (se_lock_held t) (\<lambda>t. inv False t \<and> (\<forall>e. inv False t)))
        (\<lambda>e. after_release (se_lock_held t) (\<lambda>t. \<forall>e. inv False t)) u"
      by (rule keepsD [OF keeps_release_locked]) (auto simp: after_release_def same_data_def unlocked_world_def inv_def)
  qed (use that in \<open>simp add: same_data_def unlocked_world_def inv_def\<close>)
  show ?thesis
    unfolding release_egress_def or_now_def
    by (intro vcg locked) (use assms in \<open>simp_all add: inv_def\<close>)
qed

lemma keeps_account:
  "keeps (row_of i)" "keeps (account_missing X i exc)" "keeps (reconcile_failed X i manual exc)" "keeps (record_usage_alert X i p t)"
  unfolding row_of_def account_missing_def reconcile_failed_def record_usage_alert_def
  by (intro allI impI vcg; simp add: inv_def)+

end

section \<open>The ledger\<close>

text \<open>The traffic recorded for a period.\<close>

definition recorded :: "int \<Rightarrow> database \<Rightarrow> int" where
  "recorded i d = sum_list (map ud_delta_bytes [u \<leftarrow> db_deltas d. ud_period_id u = i])"

lemma authoritative_recorded [simp]: "authoritative i d = recorded i d"
  by (simp add: authoritative_def recorded_def)

definition ledger_ok :: "database \<Rightarrow> bool" where
  "ledger_ok d \<longleftrightarrow> distinct (map up_id (db_periods d)) \<and> (\<forall>p\<in>set (db_periods d). up_used_bytes p = recorded (up_id p) d)"

interpretation ledger: usage_invariant ledger_ok
  by unfold_locales (simp_all add: ledger_ok_def recorded_def)

lemma update_period_ids:
  assumes "\<And>p. up_id (f p) = up_id p"
  shows "map up_id (db_periods (update_period i f d)) = map up_id (db_periods d)"
  by (simp add: update_period_def split: option.splits)

lemma update_period_mem:
  assumes "q \<in> set (db_periods (update_period i f d))" and "\<And>p. up_id (f p) = up_id p"
  shows "(\<exists>p. get_period d i = Some p \<and> q = f p) \<or> (q \<in> set (db_periods d) \<and> up_id q \<noteq> i)"
proof (cases "get_period d i")
  case None
  with assms(1) show ?thesis by (auto simp: update_period_def tbl_get_None)
next
  case (Some p)
  then have "up_id p = i" using tbl_get_Some [OF Some] by simp
  with assms Some show ?thesis by (auto simp: update_period_def tbl_put_def)
qed

lemma ledger_ok_total: "ledger_ok d \<Longrightarrow> get_period d i = Some p \<Longrightarrow> up_used_bytes p = recorded i d"
  using tbl_get_Some [of up_id "db_periods d" i p] by (auto simp: ledger_ok_def)

lemma recorded_frames [simp]:
  "recorded i (db_periods_update f d) = recorded i d" "recorded i (update_period k g d) = recorded i d"
  by (simp_all add: recorded_def update_period_def split: option.splits)

lemma ledger_update:
  assumes "ledger_ok d" and f: "\<And>p. up_id (f p) = up_id p" and "\<And>p. up_used_bytes (f p) = up_used_bytes p"
  shows "ledger_ok (update_period i f d)"
  unfolding ledger_ok_def update_period_ids [OF f]
proof
  show "\<forall>q\<in>set (db_periods (update_period i f d)). up_used_bytes q = recorded (up_id q) (update_period i f d)"
    using assms tbl_get_Some [of up_id "db_periods d" i] by (auto simp: ledger_ok_def dest!: update_period_mem)
qed (use assms(1) in \<open>simp add: ledger_ok_def\<close>)

lemma recorded_add:
  "recorded i (add_delta u d) = recorded i d + (if ud_period_id u = i then ud_delta_bytes u else 0)"
  by (simp add: recorded_def add_delta_def)

text \<open>A delta and the count of its bytes go together.\<close>

lemma ledger_entry_balances:
  assumes "ledger_ok d" and "ud_period_id u = i" and "n = ud_delta_bytes u"
  shows "ledger_ok (update_period i (count_usage n) (add_delta u d))"
proof -
  have f: "up_id (count_usage n p) = up_id p" for p by (simp add: count_usage_def)
  have same: "get_period (add_delta u d) i = get_period d i" "db_periods (add_delta u d) = db_periods d" by (simp_all add: add_delta_def)
  have "up_used_bytes q = recorded (up_id q) (update_period i (count_usage n) (add_delta u d))"
    if q: "q \<in> set (db_periods (update_period i (count_usage n) (add_delta u d)))" for q
    using update_period_mem [OF q f]
  proof
    assume "\<exists>p. get_period (add_delta u d) i = Some p \<and> q = count_usage n p"
    then obtain p where p: "get_period d i = Some p" "q = count_usage n p" by (auto simp: same)
    then have "up_id p = i" using tbl_get_Some [OF p(1)] by simp
    with p ledger_ok_total [OF assms(1) p(1)] assms(2,3) show ?thesis by (simp add: recorded_add count_usage_def)
  next
    assume "q \<in> set (db_periods (add_delta u d)) \<and> up_id q \<noteq> i"
    with assms(1,2) show ?thesis by (auto simp: same recorded_add ledger_ok_def)
  qed
  then show ?thesis using assms(1) by (simp add: ledger_ok_def update_period_ids [OF f] same)
qed

section \<open>The worker keeps the ledger\<close>

lemma expiry_keeps: "ledger.keeps (apply_expiry_policy X grace sub now)"
proof -
  have "ledger_ok (roll_over now s p n d)" if "ledger_ok d" for s p n d
    unfolding roll_over_def by (simp add: ledger_update close_period_def start_period_def that)
  then show ?thesis
    unfolding apply_expiry_policy_def end_period_def service_expiry_def row_of_def
    by (intro allI impI vcg; auto simp: ledger.inv_def ledger_update close_period_def split: list.splits)
qed

lemma alerts_keep: "ledger.keeps (record_usage_alerts X sub p)"
  unfolding record_usage_alerts_def Let_def forE.simps
  by (intro allI impI vcg ledger.keepsD [OF ledger.keeps_account(4)]; simp)

lemma push_keeps: "ledger.keeps (push_account X A sub user quota expire_at manual)"
  unfolding push_account_def write_account_def
  by (intro allI impI vcg ledger.keepsD [OF ledger.keeps_account(2)] ledger.keepsD [OF ledger.keeps_account(3)];
      simp add: ledger.inv_def)

lemma reconcile_keeps: "ledger.keeps (reconcile_subscription X A sub manual)"
  unfolding reconcile_subscription_def
  by (intro allI impI vcg_bind ledger.keepsD [OF ledger.keeps_account(1)])
    (auto split: option.splits list.splits intro!: vcg ledger.keepsD [OF push_keeps] simp: ledger.inv_def)

text \<open>Code that may leave the session unbalanced when it raises, but never the committed data.\<close>

definition balanced :: "'g world session \<Rightarrow> bool" where
  "balanced t \<longleftrightarrow> ledger_ok (se_store t) \<and> \<not> w_locked (se_world t)"

lemma inv_balanced: "ledger.inv False t \<Longrightarrow> balanced t"
  by (simp add: ledger.inv_def balanced_def)

lemma account_usage_keeps:
  assumes "balanced s" and "ledger_ok d" and "se_work s = add_delta u d" and "ud_period_id u = up_id p" "n = ud_delta_bytes u"
  shows "wpE (account_usage X grace sub p n now) (\<lambda>_. ledger.inv False) (\<lambda>_. balanced) s"
    unfolding account_usage_def
    by (intro vcg ledger.keepsD [OF alerts_keep] ledger.keepsD [OF expiry_keeps] ledger.keepsD [OF ledger.keeps_account(1)])
      (use assms ledger_entry_balances [OF assms(2,4,5)] in \<open>auto simp: ledger.inv_def balanced_def\<close>)

lemma after_usage_keeps:
  assumes "ledger.inv False s"
  shows "wpE (after_usage X L A G sub now flags) (\<lambda>_. ledger.inv False) (\<lambda>_. balanced) s"
proof -
  obtain needs rolled release where f: "flags = (needs, rolled, release)" by (cases flags)
  have rec: "wpE (tryE (reconcile_subscription X A sub rolled) (\<lambda>_. db_rollback X)) (\<lambda>_. ledger.inv False) (\<lambda>_. balanced) t"
    if "ledger.inv False t" for t
    by (intro vcg ledger.keepsD [OF reconcile_keeps]) (use that in \<open>auto simp: ledger.inv_def balanced_def\<close>)
  show ?thesis
    unfolding after_usage_def f prod.case
    by (intro vcg rec wp_mono [OF ledger.keeps_release]) (use assms inv_balanced in auto)
qed

lemma ledger_entry_keeps:
  assumes "ledger.inv False s"
  shows "wpE (ledger_entry X L A G grace sub p current now) (\<lambda>_. ledger.inv False) (\<lambda>_. balanced) s"
  unfolding ledger_entry_def Let_def store_delta_def
  by (intro vcg wp_mono [OF account_usage_keeps] wp_mono [OF after_usage_keeps])
    (use assms in \<open>auto simp: ledger.inv_def balanced_def\<close>)

lemma sync_keeps:
  assumes "ledger.inv False s"
  shows "wpE (sync_subscription_usage X L A G grace sub now) (\<lambda>_. ledger.inv False) (\<lambda>_. balanced) s"
proof -
  have entry: "wpE (ledger_entry X L A G grace sub p current n) (\<lambda>_. ledger.inv False) (\<lambda>_. balanced) t" if "ledger.inv False t" for p current n t
    by (rule ledger_entry_keeps [OF that])
  show ?thesis
    unfolding sync_subscription_usage_def or_now_def
    by (intro vcg_bind ledger.keepsD [OF ledger.keeps_account(1)])
      (use assms in \<open>auto simp: ledger.inv_def balanced_def split: option.splits list.splits intro!: vcg entry\<close>)
qed

lemma usage_job_keeps:
  assumes "ledger.inv False s"
  shows "wpE (tryE (usage_job_body X L A G grace j now) (usage_job_failed X (jb_id j) now)) (\<lambda>_. ledger.inv False) (\<lambda>_. balanced) s"
proof -
  have failed: "wpE (usage_job_failed X (jb_id j) now exc) (\<lambda>_. ledger.inv False) (\<lambda>_. balanced) t" if "balanced t" for exc t
    unfolding usage_job_failed_def by (intro vcg) (use that in \<open>auto simp: ledger.inv_def balanced_def\<close>)
  show ?thesis
    unfolding usage_job_body_def
    by (intro vcg failed wp_mono [OF sync_keeps]) (use assms in \<open>auto simp: ledger.inv_def balanced_def intro!: vcg failed\<close>)
qed

lemma run_next_keeps:
  assumes "ledger.inv False s"
  shows "wpE (run_next_usage_job X L A G grace now) (\<lambda>_. ledger.inv False) (\<lambda>_. balanced) s"
  unfolding run_next_usage_job_def or_now_def
  by (intro vcg wp_mono [OF usage_job_keeps]) (use assms in \<open>auto simp: ledger.inv_def balanced_def\<close>)

section \<open>The repair\<close>

lemma get_update_period:
  assumes "\<And>p. up_id (f p) = up_id p"
  shows "get_period (update_period i f d) k = (if k = i then map_option f (get_period d i) else get_period d k)"
  using tbl_get_Some [of up_id "db_periods d" i]
  by (auto simp: update_period_def tbl_get_put assms split: option.splits)

lemma recorded_deltas: "db_deltas d' = db_deltas d \<Longrightarrow> recorded i d' = recorded i d"
  by (simp add: recorded_def)

text \<open>What the repair does to the periods with the given ids.\<close>

definition corrected :: "int set \<Rightarrow> database \<Rightarrow> database \<Rightarrow> bool" where
  "corrected is d d' \<longleftrightarrow> db_deltas d' = db_deltas d \<and> map up_id (db_periods d') = map up_id (db_periods d) \<and>
     (\<forall>k. get_period d' k = map_option (\<lambda>p. if k \<in> is then p\<lparr>up_used_bytes := recorded k d\<rparr> else p) (get_period d k))"

definition wrong_periods :: "database \<Rightarrow> int set" where
  "wrong_periods d = {k. \<exists>p. get_period d k = Some p \<and> up_used_bytes p \<noteq> recorded k d}"

lemma corrected_none: "corrected {} d d"
  by (simp add: corrected_def option.map_ident)

lemma corrected_step:
  assumes "corrected is d d'" and "get_period d' i = Some p" and "i \<notin> is"
  shows "corrected (insert i is) d (add_audit a (update_period i (\<lambda>p. p\<lparr>up_used_bytes := recorded i d'\<rparr>) d'))"
proof -
  have "get_period (add_audit a x) k = get_period x k" "db_deltas (update_period i f d') = db_deltas d'" for x k f
    by (simp_all add: add_audit_def update_period_def split: option.splits)
  with assms show ?thesis
    by (auto simp: corrected_def get_update_period update_period_ids recorded_deltas [of d' d] add_audit_def option.map_comp comp_def)
qed

lemma corrected_skip:
  assumes "corrected is d d'" and "\<And>p. get_period d' i = Some p \<Longrightarrow> up_used_bytes p = recorded i d'"
  shows "corrected (insert i is) d d'"
proof -
  have "get_period d' k = map_option (\<lambda>p. if k \<in> insert i is then p\<lparr>up_used_bytes := recorded k d\<rparr> else p) (get_period d k)" for k
    using assms by (cases "get_period d k"; cases "k = i") (auto simp: corrected_def recorded_deltas [of d' d] split: if_splits)
  with assms(1) show ?thesis by (simp add: corrected_def)
qed

lemma wrong_corrected: "corrected is d d' \<Longrightarrow> i \<notin> is \<Longrightarrow> i \<in> wrong_periods d' \<longleftrightarrow> i \<in> wrong_periods d"
  by (auto simp: wrong_periods_def corrected_def recorded_deltas [of d' d])

lemma repair_period_corrects:
  assumes "corrected is d (se_work s)" and "i \<notin> is"
  shows "wpE (repair_period X i)
    (\<lambda>fixed t. corrected (insert i is) d (se_work t) \<and> se_store t = se_store s \<and> fixed = (i \<in> wrong_periods d))
    (\<lambda>_ t. se_store t = se_store s) s"
  unfolding repair_period_def
  by (intro vcg)
    (use assms corrected_step [OF assms(1) _ assms(2)] corrected_skip [OF assms(1), of i] wrong_corrected [OF assms]
      in \<open>auto simp: wrong_periods_def\<close>)

lemma repair_each_corrects:
  fixes s :: "'w session"
  assumes "corrected done d (se_work s)" and "distinct is" "set is \<inter> done = {}"
  shows "wpE (repair_each X is n)
    (\<lambda>m t. corrected (done \<union> set is) d (se_work t) \<and> se_store t = se_store s \<and> m = n + int (card (wrong_periods d \<inter> set is)))
    (\<lambda>_ t. se_store t = se_store s) s"
  using assms
proof (induction "is" arbitrary: "done" n s)
  case Nil
  then show ?case by (simp add: wp_ret)
next
  case (Cons i "is")
  have i: "i \<notin> done" "i \<notin> set is" using Cons.prems by auto
  have count: "int (card (wrong_periods d \<inter> set (i # is))) = (if i \<in> wrong_periods d then 1 else 0) + int (card (wrong_periods d \<inter> set is))"
    using i(2) by (simp add: Int_insert_right)
  have rest: "wpE (repair_each X is (if fixed then n + 1 else n))
      (\<lambda>m t. corrected (done \<union> set (i # is)) d (se_work t) \<and> se_store t = se_store s \<and> m = n + int (card (wrong_periods d \<inter> set (i # is))))
      (\<lambda>_ t. se_store t = se_store s) t"
    if "corrected (insert i done) d (se_work t) \<and> se_store t = se_store s \<and> fixed = (i \<in> wrong_periods d)" for fixed and t :: "'w session"
    by (rule wp_mono [OF Cons.IH [of "insert i done" t]]) (use that Cons.prems count in \<open>auto\<close>)
  show ?case
    unfolding repair_each.simps
    by (rule vcg_bind, rule wp_mono [OF repair_period_corrects [OF Cons.prems(1) i(1)]], erule rest, assumption)
qed

lemma corrected_ledger:
  assumes "corrected K d d'" "distinct (map up_id (db_periods d))" "up_id ` set (db_periods d) \<subseteq> K"
  shows "ledger_ok d'"
proof -
  have ids: "map up_id (db_periods d') = map up_id (db_periods d)" using assms(1) by (simp add: corrected_def)
  have "up_used_bytes p = recorded (up_id p) d'" if p: "p \<in> set (db_periods d')" for p
  proof -
    have "get_period d' (up_id p) = Some p" using p assms(2) ids by (simp add: tbl_get_mem)
    moreover have "up_id p \<in> K" using p ids assms(3) by (metis image_eqI set_map subsetD)
    ultimately obtain z where "z\<lparr>up_used_bytes := recorded (up_id p) d\<rparr> = p" using assms(1) by (auto simp: corrected_def)
    from arg_cong [OF this, of up_used_bytes] show ?thesis using assms(1) by (simp add: corrected_def recorded_deltas [of d' d])
  qed
  with assms(2) ids show ?thesis by (simp add: ledger_ok_def)
qed

text \<open>The ids of the periods are all there are.\<close>

lemma period_ids:
  assumes "K = up_id ` set (db_periods d)"
  shows "wrong_periods d \<inter> K = wrong_periods d" and "corrected K d d' = corrected UNIV d d'"
proof -
  have none: "get_period d k = None" if "k \<notin> K" for k using that assms by (simp add: tbl_get_None)
  have "k \<in> K" if "k \<in> wrong_periods d" for k
  proof (rule ccontr)
    assume "k \<notin> K" from none [OF this] that show False by (simp add: wrong_periods_def)
  qed
  then show "wrong_periods d \<inter> K = wrong_periods d" by blast
  have "map_option (\<lambda>p. if k \<in> K then f p else p) (get_period d k) = map_option f (get_period d k)" for k and f :: "usage_period \<Rightarrow> usage_period"
    using none [of k] by (cases "k \<in> K") simp_all
  then show "corrected K d d' = corrected UNIV d d'" by (simp add: corrected_def)
qed

lemma repair_corrects:
  assumes "distinct (map up_id (db_periods (se_work s)))"
  shows "wpE (reconcile_usage_period_cache X)
    (\<lambda>n t. corrected UNIV (se_work s) (se_store t) \<and> n = int (card (wrong_periods (se_work s))))
    (\<lambda>_ t. se_store t = se_store s \<or> corrected UNIV (se_work s) (se_store t)) s"
proof -
  let ?d = "se_work s" let ?K = "up_id ` set (db_periods ?d)"
  have each: "wpE (repair_each X (sort (map up_id (db_periods ?d))) 0)
      (\<lambda>m t. corrected UNIV ?d (se_work t) \<and> se_store t = se_store s \<and> m = int (card (wrong_periods ?d)))
      (\<lambda>_ t. se_store t = se_store s) (ticked s)"
    using repair_each_corrects [of "{}" ?d "ticked s" "sort (map up_id (db_periods ?d))" X 0] assms period_ids [OF refl, of ?d]
    by (simp add: corrected_none)
  show ?thesis
    unfolding reconcile_usage_period_cache_def
    by (rule vcg_bind, rule vcg_read, simp, rule vcg_bind, rule wp_mono [OF each]) (auto intro!: vcg)
qed

section \<open>Counter readings\<close>

fun increments :: "int option \<Rightarrow> int list \<Rightarrow> int list" where
  "increments previous [] = []"
| "increments previous (c # cs) = fst (usage_increment previous c) # increments (Some c) cs"

text \<open>
  The reference: a counter that only grows until it restarts. The traffic is what it showed at the
  end of each ascending stretch.
\<close>

fun stretch_ends :: "int list \<Rightarrow> int list" where
  "stretch_ends [] = []"
| "stretch_ends [c] = [c]"
| "stretch_ends (c # c' # cs) = (if c \<le> c' then stretch_ends (c' # cs) else c # stretch_ends (c' # cs))"

lemma increments_from: "sum_list (increments (Some p) cs) = sum_list (stretch_ends (p # cs)) - p"
  by (induction cs arbitrary: p) (auto simp: usage_increment_def)

lemma increments_nonneg:
  "\<forall>c\<in>set cs. 0 \<le> c \<Longrightarrow> i \<in> set (increments previous cs) \<Longrightarrow> 0 \<le> i"
  by (induction cs arbitrary: previous) (auto simp: usage_increment_def split: option.splits if_splits)

section \<open>The end of a period\<close>

definition ended :: "int \<Rightarrow> datetime \<Rightarrow> int \<Rightarrow> int \<Rightarrow> database \<Rightarrow> database" where
  "ended grace now sub i d = (case queued_periods sub d of
     q # _ \<Rightarrow> roll_over now sub i q d
   | [] \<Rightarrow> update_subscription sub (enter_grace (now + hours grace)) (update_period i close_period d))"

lemma policy_ends:
  assumes "get_subscription (se_work s) sub = Some r" "sb_status r = SubActive" "sb_current_period_id r = Some i"
    and "get_period (se_work s) i = Some p" "period_over now p"
  shows "wpE (apply_expiry_policy X grace sub now) (\<lambda>b t. b \<and> se_work t = ended grace now sub i (se_work s)) (\<lambda>_ _. True) s"
proof -
  have "sb_id r = sub" "up_id p = i" using tbl_get_Some [OF assms(1)] tbl_get_Some [OF assms(4)] by simp_all
  with assms show ?thesis
    unfolding apply_expiry_policy_def row_of_def end_period_def
    by (intro vcg) (auto simp: ended_def split: list.splits)
qed

lemma queued_head:
  assumes "queued_periods sub d = q # qs"
  shows "q \<in> set (db_periods d)" "up_subscription_id q = sub" "up_status q = PeriodQueued"
    and "q' \<in> set (db_periods d) \<Longrightarrow> up_subscription_id q' = sub \<Longrightarrow> up_status q' = PeriodQueued \<Longrightarrow> up_id q \<le> up_id q'"
proof -
  have mem: "set (queued_periods sub d) = {p \<in> set (db_periods d). up_subscription_id p = sub \<and> up_status p = PeriodQueued}"
    by (auto simp: queued_periods_def)
  then show "q \<in> set (db_periods d)" "up_subscription_id q = sub" "up_status q = PeriodQueued" using assms by auto
  have "sorted (map up_id (q # qs))" using assms by (metis queued_periods_def sorted_sort_key)
  moreover assume "q' \<in> set (db_periods d)" "up_subscription_id q' = sub" "up_status q' = PeriodQueued"
  then have "q' \<in> set (q # qs)" using mem assms by auto
  ultimately show "up_id q \<le> up_id q'" by auto
qed

lemma period_edits [simp]:
  "up_id (close_period p) = up_id p" "up_id (start_period now p) = up_id p"
  "up_used_bytes (close_period p) = up_used_bytes p" "up_used_bytes (start_period now p) = up_used_bytes p"
  "up_quota_bytes (close_period p) = up_quota_bytes p" "up_quota_bytes (start_period now p) = up_quota_bytes p"
  by (simp_all add: close_period_def start_period_def)

lemma get_period_subscription [simp]: "get_period (update_subscription i f d) k = get_period d k"
  by (simp add: update_subscription_def split: option.splits)

lemma get_subscription_period [simp]: "get_subscription (update_period i f d) k = get_subscription d k"
  by (simp add: update_period_def split: option.splits)

section \<open>Samples\<close>

definition usage_sub :: subscription where
  "usage_sub = (subscription_row 1)\<lparr>sb_status := SubActive, sb_current_period_id := Some 1, sb_service_expire_at := minutes 100\<rparr>"

definition usage_period_row :: "int \<Rightarrow> int \<Rightarrow> usage_period_status \<Rightarrow> usage_period" where
  "usage_period_row i used st = \<lparr>up_id = i, up_subscription_id = 1, up_order_id = i, up_plan_id = Some 1, up_period_start = 0,
     up_period_end = minutes 100, up_used_bytes = used, up_quota_bytes = 100, up_status = st\<rparr>"

definition usage_delta_row :: usage_delta where
  "usage_delta_row = \<lparr>ud_id = 1, ud_subscription_id = 1, ud_period_id = 1, ud_node_id = ''default'', ud_from_sample_id = None,
     ud_to_sample_id = 1, ud_delta_bytes = 40, ud_reason = Bootstrap\<rparr>"

definition usage_sample_row :: usage_sample where
  "usage_sample_row = \<lparr>sm_id = 1, sm_subscription_id = 1, sm_node_id = ''default'', sm_source_counter = 40, sm_sampled_at = 0\<rparr>"

definition usage_db :: "int \<Rightarrow> database" where
  "usage_db used = empty_db\<lparr>db_subscriptions := [usage_sub],
     db_periods := [usage_period_row 1 used PeriodActive, usage_period_row 5 0 PeriodQueued, usage_period_row 3 0 PeriodQueued],
     db_deltas := [usage_delta_row], db_samples := [usage_sample_row],
     db_jobs := [(new_usage_job 1 ''USAGE_SYNC:1:c'' 0)\<lparr>jb_id := 1\<rparr>]\<rparr>"

text \<open>A provider whose counter is its state.\<close>

definition counter_provider :: "nat accounting" where
  "counter_provider = \<lparr>ac_get_usage = (\<lambda>_ n. (Inr \<lparr>us_tenant_id = [], us_used_gb = dec_of_int 0, us_measured_at = 0, us_used_bytes = int n, us_status = []\<rparr>, n)),
     ac_set_quota = (\<lambda>_ _ n. (Inr (), n)), ac_set_expire = (\<lambda>_ _ n. (Inr (), n))\<rparr>"

definition usage_session :: "nat \<Rightarrow> database \<Rightarrow> nat world session" where
  "usage_session n d = (gateway_session d)\<lparr>se_world := \<lparr>w_locked = False, w_pool = [], w_gateway = n, w_applied = []\<rparr>\<rparr>"

section \<open>Properties\<close>

text \<open>
  The accounting worker keeps the usage ledger. When the committed total of every period is
  the sum of its deltas, then so it is after any run of the worker, whatever statement, commit,
  rollback, provider call or lock call fails: with the sample, the delta, the alerts, the rollover
  to the next period, the release of an expired endpoint and the update of the provider included.
\<close>

theorem usage_worker_keeps_ledger:
  fixes s :: "'g world session"
  assumes "ledger_ok (se_store s)" and "se_work s = se_store s" and "\<not> w_locked (se_world s)"
  shows "ledger_ok (se_store (snd (run_next_usage_job X L A G grace now s)))"
  using run_next_keeps [of s X L A G grace now] assms
  by (auto simp: wpE_def balanced_def ledger.inv_def split: prod.splits sum.splits)

theorem usage_worker_keeps_ledger_witness:
  "\<exists>d. d = se_store (snd (run_next_usage_job quiet_oracle quiet_lock counter_provider None 24 (Some 60) (usage_session 110 (usage_db 40)))) \<and>
     map_option up_used_bytes (get_period d 1) = Some 110 \<and> length (db_deltas d) = 2 \<and> ledger_ok d"
proof -
  let ?s = "usage_session 110 (usage_db 40)"
  let ?d = "se_store (snd (run_next_usage_job quiet_oracle quiet_lock counter_provider None 24 (Some 60) ?s))"
  have "ledger_ok (se_store ?s)" "se_work ?s = se_store ?s" "\<not> w_locked (se_world ?s)" by code_simp+
  moreover have "map_option up_used_bytes (get_period ?d 1) = Some 110" "length (db_deltas ?d) = 2" by code_simp+
  ultimately show ?thesis
    using usage_worker_keeps_ledger [of ?s quiet_oracle quiet_lock counter_provider None 24 "Some 60"] by blast
qed

text \<open>
  C16. The repair of the cached totals is exact. When it returns n, every committed period has the
  sum of its deltas as its total and is otherwise unchanged, and n is the number of periods whose
  total was wrong. When it raises, the committed data are unchanged or repaired in full.
\<close>

theorem cache_repair_exact:
  assumes "distinct (map up_id (db_periods (se_store s)))" and "se_work s = se_store s"
  shows "case reconcile_usage_period_cache X s of
      (Inr n, t) \<Rightarrow> ledger_ok (se_store t) \<and> n = int (card (wrong_periods (se_store s))) \<and>
        (\<forall>k. get_period (se_store t) k = map_option (\<lambda>p. p\<lparr>up_used_bytes := recorded k (se_store s)\<rparr>) (get_period (se_store s) k))
    | (Inl e, t) \<Rightarrow> se_store t = se_store s \<or> ledger_ok (se_store t)"
  using repair_corrects [of s X] assms corrected_ledger [of UNIV "se_store s"]
  by (auto simp: wpE_def corrected_def split: prod.splits sum.splits)

theorem cache_repair_exact_witness:
  "\<exists>t. reconcile_usage_period_cache quiet_oracle (usage_session 0 (usage_db 17)) = (Inr 1, t) \<and> ledger_ok (se_store t)"
proof -
  let ?s = "usage_session 0 (usage_db 17)"
  have "distinct (map up_id (db_periods (se_store ?s)))" "se_work ?s = se_store ?s" by code_simp+
  note cache_repair_exact [OF this, of quiet_oracle]
  moreover have "reconcile_usage_period_cache quiet_oracle ?s = (Inr 1, snd (reconcile_usage_period_cache quiet_oracle ?s))" by code_simp
  ultimately show ?thesis by (metis (no_types, lifting) old.prod.case sum.case(2))
qed

text \<open>
  C36. An exhausted or outdated period ends the right way. For an active subscription the policy
  closes the period and asks for a reconciliation. If periods are queued, the one with the lowest
  id, the first one bought, becomes the active one for thirty days from now, and the service
  expires with it; otherwise the subscription enters the grace time. No total and no quota changes.
\<close>

theorem period_ends_first_in_first_out:
  assumes "get_subscription (se_work s) sub = Some r" "sb_status r = SubActive" "sb_current_period_id r = Some i"
    and "get_period (se_work s) i = Some p" "up_status p = PeriodActive" "period_over now p" "distinct (map up_id (db_periods (se_work s)))"
    and "apply_expiry_policy X grace sub now s = (Inr needs_reconcile, t)"
  shows "needs_reconcile \<and> get_period (se_work t) i = Some (close_period p) \<and>
    (case queued_periods sub (se_work s) of
       [] \<Rightarrow> get_subscription (se_work t) sub = Some (enter_grace (now + hours grace) r)
     | q # _ \<Rightarrow> (\<forall>q'\<in>set (db_periods (se_work s)). up_subscription_id q' = sub \<longrightarrow> up_status q' = PeriodQueued \<longrightarrow> up_id q \<le> up_id q') \<and>
         get_period (se_work t) (up_id q) = Some (start_period now q) \<and>
         (\<exists>r'. get_subscription (se_work t) sub = Some r' \<and> sb_current_period_id r' = Some (up_id q) \<and> sb_status r' = SubActive \<and>
            sb_service_expire_at r' = up_period_end (start_period now q))) \<and>
    (\<forall>k. map_option (\<lambda>p. (up_used_bytes p, up_quota_bytes p)) (get_period (se_work t) k) =
         map_option (\<lambda>p. (up_used_bytes p, up_quota_bytes p)) (get_period (se_work s) k))"
proof -
  let ?d = "se_work s"
  have t: "needs_reconcile" "se_work t = ended grace now sub i ?d"
    using policy_ends [OF assms(1-4,6), of X grace] assms(8) by (simp_all add: wpE_def)
  show ?thesis
  proof (cases "queued_periods sub ?d")
    case Nil
    with t assms(1,4) show ?thesis
      by (auto simp: ended_def get_update_period get_update_subscription enter_grace_def option.map_comp comp_def)
  next
    case (Cons q qs)
    note q = queued_head [OF Cons]
    have got: "get_period ?d (up_id q) = Some q" using q(1) assms(7) by (simp add: tbl_get_mem)
    have other: "up_id q \<noteq> i" using got assms(4,5) q(3) by auto
    have new: "se_work t = roll_over now sub i q ?d" using t(2) Cons by (simp add: ended_def)
    have "map_option (\<lambda>p. (up_used_bytes p, up_quota_bytes p)) (get_period (se_work t) k) =
         map_option (\<lambda>p. (up_used_bytes p, up_quota_bytes p)) (get_period ?d k)" for k
      using got other assms(4) by (auto simp: new roll_over_def get_update_period)
    with t(1) q(4) got other assms(1,4) show ?thesis
      by (auto simp: Cons new roll_over_def get_update_period get_update_subscription start_period_def)
  qed
qed

theorem period_ends_first_in_first_out_witness:
  "\<exists>t. apply_expiry_policy quiet_oracle 24 1 (minutes 200) (usage_session 0 (usage_db 40)) = (Inr True, t) \<and>
     get_period (se_work t) 3 = Some (start_period (minutes 200) (usage_period_row 3 0 PeriodQueued))"
proof -
  let ?s = "usage_session 0 (usage_db 40)"
  let ?r = "apply_expiry_policy quiet_oracle 24 1 (minutes 200) ?s"
  have pre: "get_subscription (se_work ?s) 1 = Some usage_sub" "sb_status usage_sub = SubActive" "sb_current_period_id usage_sub = Some 1"
    "get_period (se_work ?s) 1 = Some (usage_period_row 1 40 PeriodActive)" "up_status (usage_period_row 1 40 PeriodActive) = PeriodActive"
    "period_over (minutes 200) (usage_period_row 1 40 PeriodActive)" "distinct (map up_id (db_periods (se_work ?s)))" by code_simp+
  have run: "?r = (Inr True, snd ?r)" by code_simp
  have queue: "queued_periods 1 (se_work ?s) = [usage_period_row 3 0 PeriodQueued, usage_period_row 5 0 PeriodQueued]" by code_simp
  from period_ends_first_in_first_out [OF pre run] have "get_period (se_work (snd ?r)) 3 = Some (start_period (minutes 200) (usage_period_row 3 0 PeriodQueued))"
    by (simp add: queue) (simp add: usage_period_row_def)
  with run show ?thesis by blast
qed

text \<open>
  The deltas count the traffic of a counter that restarts. For any readings of the counter,
  the recorded increments add up to the sum of the readings at the ends of its ascending
  stretches, and none is negative when no reading is.
\<close>

theorem increments_count_traffic:
  "sum_list (increments None cs) = sum_list (stretch_ends cs) \<and>
   ((\<forall>c\<in>set cs. 0 \<le> c) \<longrightarrow> (\<forall>i\<in>set (increments None cs). 0 \<le> i))"
proof
  show "sum_list (increments None cs) = sum_list (stretch_ends cs)"
    by (cases cs) (simp_all add: increments_from usage_increment_def)
  show "(\<forall>c\<in>set cs. 0 \<le> c) \<longrightarrow> (\<forall>i\<in>set (increments None cs). 0 \<le> i)"
    using increments_nonneg by blast
qed

theorem increments_count_traffic_witness:
  "sum_list (increments None [40, 110, 10, 30]) = 140 \<and> list_all ((\<le>) 0) (increments None [40, 110, 10, 30])"
  using increments_count_traffic [of "[40, 110, 10, 30]"] by (simp add: list_all_iff)

end
