(* ===== verification/Transport_Properties.thy ===== *)
theory Transport_Properties
  imports Transport_Sync Gateway_Guarantees
begin

text \<open>
  The inventory of transport endpoints. A refresh is all or nothing: the committed rows of a provider
  are the ones it had before or exactly what it reported.
\<close>

section \<open>Inventories\<close>

abbreviation nodes :: "database \<Rightarrow> transport_endpoint_record list" where
  "nodes d \<equiv> fw_nodes (db_forwarder d)"

text \<open>A row that shows an endpoint as available.\<close>

definition shows_endpoint :: "transport_endpoint_dto \<Rightarrow> transport_endpoint_record \<Rightarrow> bool" where
  "shows_endpoint e n \<longleftrightarrow> tn_status n = ''AVAILABLE'' \<and> tn_name n = te_name e \<and> tn_region n = te_region e \<and>
     tn_protocol n = te_protocol e \<and> tn_host n = te_host e \<and> tn_port n = te_port e \<and>
     tn_transport n = te_transport e \<and> tn_tls_mode n = te_tls_mode e \<and> tn_raw_metadata_json n = metadata_json e"

definition last_report :: "transport_endpoint_dto list \<Rightarrow> string \<Rightarrow> transport_endpoint_dto option" where
  "last_report es x = find (\<lambda>e. te_external_id e = x) (rev es)"

text \<open>The rows of a provider after it reported some endpoints.\<close>

definition inventory_is :: "int \<Rightarrow> transport_endpoint_dto list \<Rightarrow> database \<Rightarrow> bool" where
  "inventory_is i es d \<longleftrightarrow>
     (\<forall>e\<in>set es. list_ex (is_endpoint i (te_external_id e)) (nodes d)) \<and>
     (\<forall>n\<in>set (nodes d). tn_provider_id n = i \<longrightarrow> (case last_report es (tn_external_id n) of
        Some e \<Rightarrow> shows_endpoint e n | None \<Rightarrow> tn_status n = ''REMOVED''))"

definition other_nodes :: "int \<Rightarrow> database \<Rightarrow> transport_endpoint_record list" where
  "other_nodes i d = filter (\<lambda>n. tn_provider_id n \<noteq> i) (nodes d)"

definition keyed_nodes :: "database \<Rightarrow> bool" where
  "keyed_nodes d \<longleftrightarrow> distinct (map tn_id (nodes d)) \<and> unique_nodes (nodes d)"

text \<open>What holds between two turns of the loop, when the endpoints \<open>es\<close> are stored.\<close>

definition stored :: "int \<Rightarrow> transport_endpoint_dto list \<Rightarrow> database \<Rightarrow> database \<Rightarrow> bool" where
  "stored i es d0 d \<longleftrightarrow> keyed_nodes d \<and> other_nodes i d = other_nodes i d0 \<and>
     (\<forall>e\<in>set es. list_ex (is_endpoint i (te_external_id e)) (nodes d)) \<and>
     (\<forall>n\<in>set (nodes d). tn_provider_id n = i \<longrightarrow> (case last_report es (tn_external_id n) of
        Some e \<Rightarrow> shows_endpoint e n | None \<Rightarrow> True))"

lemma last_report_snoc: "last_report (es @ [e]) x = (if te_external_id e = x then Some e else last_report es x)"
  by (simp add: last_report_def)

lemma last_report_None: "last_report es x = None \<longleftrightarrow> x \<notin> te_external_id ` set es"
  by (auto simp: last_report_def find_None_iff)

lemma last_report_Some: "last_report es x = Some e \<Longrightarrow> e \<in> set es \<and> te_external_id e = x"
  by (auto simp: last_report_def find_Some_iff) (metis nth_mem set_rev length_rev)

lemma node_frames [simp]:
  "nodes (update_provider i f d) = nodes d" "nodes (add_capacity_alert a d) = nodes d"
  "nodes (put_receipt r i c p t d) = nodes d" "nodes (add_audit x d) = nodes d"
  by (simp_all add: update_provider_def add_capacity_alert_def put_receipt_def on_forwarder_def add_audit_def)

lemma nodes_updated [simp]:
  "nodes (update_node j f d) = map (\<lambda>n. if tn_id n = j then f n else n) (nodes d)"
  "nodes (add_node i e d) = nodes d @ [new_node (next_id tn_id (nodes d)) i e]"
  "nodes (retire_nodes i xs d) = map (retire_node i xs) (nodes d)"
  by (simp_all add: update_node_def add_node_def retire_nodes_def on_forwarder_def)

lemma overwrite_fields [simp]:
  "tn_id (overwrite_node e n) = tn_id n" "tn_provider_id (overwrite_node e n) = tn_provider_id n"
  "tn_external_id (overwrite_node e n) = tn_external_id n"
  by (simp_all add: overwrite_node_def)

lemma new_node_fields [simp]:
  "tn_id (new_node j i e) = j" "tn_provider_id (new_node j i e) = i" "tn_external_id (new_node j i e) = te_external_id e"
  by (simp_all add: new_node_def)

lemma keyed_unique:
  assumes "keyed_nodes d" "m \<in> set (nodes d)" "n \<in> set (nodes d)"
  shows "tn_id m = tn_id n \<Longrightarrow> m = n"
    and "tn_provider_id m = tn_provider_id n \<Longrightarrow> tn_external_id m = tn_external_id n \<Longrightarrow> m = n"
  using assms by (auto simp: keyed_nodes_def unique_nodes_def distinct_map inj_on_def)

lemma map_id_if:
  "(\<And>n. n \<in> set ns \<Longrightarrow> g (if tn_id n = j then f n else n) = g n) \<Longrightarrow> map g (map (\<lambda>n. if tn_id n = j then f n else n) ns) = map g ns"
  by simp

lemma keyed_overwrite: "keyed_nodes (update_node j (overwrite_node e) d) = keyed_nodes d"
  by (simp add: keyed_nodes_def unique_nodes_def comp_def if_distrib cong: if_cong)

lemma stored_overwrite:
  assumes "stored i es d0 d" and n: "n \<in> set (nodes d)" "is_endpoint i (te_external_id e) n"
  shows "stored i (es @ [e]) d0 (update_node (tn_id n) (overwrite_node e) d)"
proof -
  have k: "keyed_nodes d" using assms(1) by (simp add: stored_def)
  have only: "tn_id m = tn_id n \<longleftrightarrow> m = n" if "m \<in> set (nodes d)" for m using keyed_unique(1) [OF k that n(1)] by auto
  have other: "filter (\<lambda>n. tn_provider_id n \<noteq> i) (map (\<lambda>m. if tn_id m = tn_id n then overwrite_node e m else m) ms) =
      filter (\<lambda>n. tn_provider_id n \<noteq> i) ms" if "set ms \<subseteq> set (nodes d)" for ms
    using that n(2) only by (induction ms) (auto simp: is_endpoint_def)
  have shown: "shows_endpoint e (overwrite_node e m)" for m by (simp add: shows_endpoint_def overwrite_node_def)
  have rest: "te_external_id e \<noteq> tn_external_id m" if "m \<in> set (nodes d)" "m \<noteq> n" "tn_provider_id m = i" for m
    using keyed_unique(2) [OF k that(1) n(1)] that n(2) by (auto simp: is_endpoint_def)
  have present: "list_ex (is_endpoint i x) (nodes (update_node (tn_id n) (overwrite_node e) d)) = list_ex (is_endpoint i x) (nodes d)" for x
  proof -
    have "list_ex (is_endpoint i x) (map (\<lambda>m. if tn_id m = j then overwrite_node e m else m) ms) = list_ex (is_endpoint i x) ms" for j ms
      by (induction ms) (simp_all add: is_endpoint_def)
    then show ?thesis by simp
  qed
  have here: "list_ex (is_endpoint i (te_external_id e)) (nodes d)" using n by (auto simp: list_ex_iff)
  have agree: "case last_report (es @ [e]) (tn_external_id m) of Some e \<Rightarrow> shows_endpoint e m | None \<Rightarrow> True"
    if m: "m \<in> set (nodes (update_node (tn_id n) (overwrite_node e) d))" "tn_provider_id m = i" for m
  proof -
    from m(1) obtain q where q: "q \<in> set (nodes d)" "m = (if q = n then overwrite_node e q else q)" using only by auto
    show ?thesis
    proof (cases "q = n")
      case True
      with q n(2) shown show ?thesis by (simp add: last_report_snoc is_endpoint_def)
    next
      case False
      with q m(2) rest assms(1) show ?thesis by (auto simp: last_report_snoc stored_def)
    qed
  qed
  show ?thesis
    using assms(1) other [OF subset_refl] agree here present
    by (simp add: stored_def keyed_overwrite other_nodes_def del: nodes_updated(1)) (simp add: other_nodes_def)
qed

lemma stored_add:
  assumes "stored i es d0 d" and "find_node i (te_external_id e) d = None"
  shows "stored i es d0 (add_node i e d)"
proof -
  have fresh: "\<not> is_endpoint i (te_external_id e) n" if "n \<in> set (nodes d)" for n
    using assms(2) that by (simp add: find_node_def find_None_iff)
  then have "te_external_id e \<notin> te_external_id ` set es"
    using assms(1) by (fastforce simp: stored_def list_ex_iff)
  then have "last_report es (te_external_id e) = None" by (simp add: last_report_None)
  moreover have "(i, te_external_id e) \<notin> (\<lambda>n. (tn_provider_id n, tn_external_id n)) ` set (nodes d)"
    using fresh unfolding is_endpoint_def by (metis (no_types, lifting) image_iff prod.inject)
  then have "keyed_nodes (add_node i e d)"
    using assms(1) next_id_fresh [of tn_id "nodes d"] by (simp add: stored_def keyed_nodes_def unique_nodes_def)
  ultimately show ?thesis using assms(1) by (auto simp: stored_def other_nodes_def)
qed

lemma stored_new:
  assumes "stored i es d0 d" and "find_node i (te_external_id e) d = None"
  shows "stored i (es @ [e]) d0 (update_node (next_id tn_id (nodes d)) (overwrite_node e) (add_node i e d))"
  using stored_overwrite [OF stored_add [OF assms], of "new_node (next_id tn_id (nodes d)) i e"] by (simp add: is_endpoint_def)

lemma find_node_Some: "find_node i x d = Some n \<Longrightarrow> n \<in> set (nodes d) \<and> is_endpoint i x n"
  by (auto simp: find_node_def find_Some_iff)

lemma stored_inventory:
  assumes "stored i es d0 d"
  shows "inventory_is i es (retire_nodes i (map te_external_id es) d)" and
    "other_nodes i (retire_nodes i (map te_external_id es) d) = other_nodes i d0"
proof -
  have fields: "tn_provider_id (retire_node i xs n) = tn_provider_id n" "tn_external_id (retire_node i xs n) = tn_external_id n" for xs n
    by (simp_all add: retire_node_def)
  have kept: "retire_node i (map te_external_id es) n = n" if "last_report es (tn_external_id n) = Some e" for n e
    using last_report_Some [OF that] by (force simp: retire_node_def)
  have gone: "tn_status (retire_node i (map te_external_id es) n) = ''REMOVED''"
    if "last_report es (tn_external_id n) = None" "tn_provider_id n = i" for n
    using that by (simp add: retire_node_def last_report_None)
  show "inventory_is i es (retire_nodes i (map te_external_id es) d)"
    using assms fields kept gone
    by (fastforce simp: inventory_is_def stored_def list_ex_iff is_endpoint_def split: option.splits)
  have "filter (\<lambda>n. tn_provider_id n \<noteq> i) (map (retire_node i xs) ns) = filter (\<lambda>n. tn_provider_id n \<noteq> i) ns" for xs ns
    by (induction ns) (auto simp: retire_node_def)
  then show "other_nodes i (retire_nodes i (map te_external_id es) d) = other_nodes i d0"
    using assms by (simp add: other_nodes_def stored_def)
qed

section \<open>The loop\<close>

lemma wp_store_endpoint:
  assumes "stored i es d0 (se_work s)"
  shows "wpE (store_endpoint X i e) (\<lambda>_ t. stored i (es @ [e]) d0 (se_work t) \<and> se_store t = se_store s) (\<lambda>_ t. se_store t = se_store s) s"
  unfolding store_endpoint_def
  by (intro vcg)
    (use assms in \<open>auto intro: stored_overwrite stored_new dest: find_node_Some\<close>)

lemma wp_store_endpoints:
  assumes "stored i es d0 (se_work s)"
  shows "wpE (forE (store_endpoint X i) fs) (\<lambda>_ t. stored i (es @ fs) d0 (se_work t) \<and> se_store t = se_store s) (\<lambda>_ t. se_store t = se_store s) s"
  using assms
proof (induction fs arbitrary: es s)
  case Nil
  then show ?case by (simp add: wp_ret)
next
  case (Cons f fs)
  show ?case
    unfolding forE.simps
    by (rule vcg_then, rule wp_mono [OF wp_store_endpoint [OF Cons.prems]], rule wp_mono [OF Cons.IH]) auto
qed

text \<open>The parts that follow do not touch the rows of the endpoints.\<close>

definition same_nodes :: "'w session \<Rightarrow> 'w session \<Rightarrow> bool" where
  "same_nodes s t \<longleftrightarrow> nodes (se_work t) = nodes (se_work s) \<and> se_store t = se_store s"

lemma wp_record_capacity_alert:
  "wpE (record_capacity_alert X i quota used l) (\<lambda>_. same_nodes s) (\<lambda>_. same_nodes s) t" if "same_nodes s t"
  unfolding record_capacity_alert_def
  by (cases l; simp only: prod.case; intro vcg) (use that in \<open>simp_all add: same_nodes_def\<close>)

lemma wp_for_same:
  assumes "\<And>x t. same_nodes s t \<Longrightarrow> wpE (f x) (\<lambda>_. same_nodes s) (\<lambda>_. same_nodes s) t" and "same_nodes s t"
  shows "wpE (forE f xs) (\<lambda>_. same_nodes s) (\<lambda>_. same_nodes s) t"
  using assms(2) by (induction xs arbitrary: t) (auto simp: wp_ret intro!: vcg_then wp_mono [OF assms(1)])

lemma wp_store_capacity:
  "wpE (store_capacity X i c) (\<lambda>_. same_nodes s) (\<lambda>_. same_nodes s) s"
  unfolding store_capacity_def record_capacity_alerts_def Let_def
  by (intro vcg wp_for_same wp_record_capacity_alert) (simp_all add: same_nodes_def)

lemma wp_provider_sync:
  "wpE (provider_sync X P) (\<lambda>_ t. se_work t = se_work s \<and> se_store t = se_store s) (\<lambda>_ t. se_store t = se_store s) s"
  unfolding provider_sync_def by (rule vcg_bind) (simp add: wp split: prod.split sum.split)

lemma inventory_frames [simp]:
  "inventory_is i es (update_provider j f d) = inventory_is i es d" "inventory_is i es (put_receipt r j c p t d) = inventory_is i es d"
  "other_nodes i (update_provider j f d) = other_nodes i d" "other_nodes i (put_receipt r j c p t d) = other_nodes i d"
  by (simp_all add: inventory_is_def other_nodes_def)

lemma inventory_cong: "nodes d = nodes d' \<Longrightarrow> inventory_is i es d = inventory_is i es d'"
  by (simp add: inventory_is_def)

definition refreshed :: "transport_provider_record \<Rightarrow> transport_endpoint_dto list \<Rightarrow> database \<Rightarrow> database \<Rightarrow> bool" where
  "refreshed row es d d' \<longleftrightarrow> inventory_is (tp_id row) es d' \<and> other_nodes (tp_id row) d' = other_nodes (tp_id row) d \<and>
     (\<forall>p\<in>set (fw_providers (db_forwarder d')). tp_id p = tp_id row \<longrightarrow> tp_status p = (if es = [] then ProviderDegraded else ProviderHealthy))"

lemma vcg_asked:
  assumes "\<And>x t. fst (f (w_gateway (se_world s))) = Inr x \<Longrightarrow> se_work t = se_work s \<Longrightarrow> se_store t = se_store s \<Longrightarrow> Q x t"
    and "\<And>e t. se_store t = se_store s \<Longrightarrow> E e t"
  shows "wpE (gateway_call f) Q E s"
  using assms by (auto simp: wp split: prod.split sum.split)

text \<open>After the endpoints: the rows are complete, nothing is committed yet.\<close>

definition complete :: "int \<Rightarrow> transport_endpoint_dto list \<Rightarrow> 'w session \<Rightarrow> 'w session \<Rightarrow> bool" where
  "complete i es s t \<longleftrightarrow> inventory_is i es (se_work t) \<and> other_nodes i (se_work t) = other_nodes i (se_work s) \<and> se_store t = se_store s"

lemma complete_nodes: "complete i es s t \<Longrightarrow> same_nodes t u \<Longrightarrow> complete i es s u"
  by (auto simp: complete_def same_nodes_def other_nodes_def inventory_cong [of "se_work u" "se_work t"])

lemma complete_commit:
  assumes "complete (tp_id row) es s t"
  shows "wpE (thenE (db_update (update_provider (tp_id row) (mark_refreshed (es \<noteq> []) now)))
     (bindE (getsE f) (\<lambda>evidence. thenE (store_receipt X (tp_id row) c capacity now evidence) (thenE (db_commit X) (retE n)))))
    (\<lambda>m t. m = n \<and> refreshed row es (se_work s) (se_store t))
    (\<lambda>_ t. se_store t = se_store s \<or> refreshed row es (se_work s) (se_store t)) t"
proof -
  let ?P = "\<lambda>u. refreshed row es (se_work s) (se_work u) \<and> se_store u = se_store s"
  have providers: "fw_providers (db_forwarder (put_receipt r i c p t d)) = fw_providers (db_forwarder d)" for r i p t d
    by (simp add: put_receipt_def on_forwarder_def)
  have marks: "fw_providers (db_forwarder (update_provider i f d)) = map (\<lambda>p. if tp_id p = i then f p else p) (fw_providers (db_forwarder d))"
    "tp_status (mark_refreshed b now p) = (if b then ProviderHealthy else ProviderDegraded)" "tp_id (mark_refreshed b now p) = tp_id p" for i f d b p
    by (simp_all add: update_provider_def on_forwarder_def mark_refreshed_def)
  have "refreshed row es (se_work s) (update_provider (tp_id row) (mark_refreshed (es \<noteq> []) now) (se_work t))"
    using assms
    by (auto simp: refreshed_def complete_def marks)
  then have marked: "?P (t\<lparr>se_work := update_provider (tp_id row) (mark_refreshed (es \<noteq> []) now) (se_work t)\<rparr>)"
    using assms by (simp add: complete_def)
  have receipt: "wpE (store_receipt X (tp_id row) c capacity now evidence) (\<lambda>_. ?P) (\<lambda>_ t. se_store t = se_store s) u"
    if "?P u" for evidence u
    unfolding store_receipt_def
    by (intro vcg)
      (use that in \<open>simp_all add: refreshed_def providers\<close>)
  show ?thesis
    by (intro vcg wp_mono [OF receipt [OF marked]]) auto
qed

lemma refresh_outcome:
  fixes s :: "'g world session"
  assumes "keyed_nodes (se_work s)"
  shows "wpE (refresh_provider_inventory X row P now)
    (\<lambda>n t. \<exists>g es. fst (to_endpoints P g) = Inr es \<and> n = int (length es) \<and> refreshed row es (se_work s) (se_store t))
    (\<lambda>_ t. se_store t = se_store s \<or> (\<exists>g es. fst (to_endpoints P g) = Inr es \<and> refreshed row es (se_work s) (se_store t))) s"
proof -
  let ?Q = "\<lambda>n t. \<exists>g es. fst (to_endpoints P g) = Inr es \<and> n = int (length es) \<and> refreshed row es (se_work s) (se_store t)"
  let ?E = "\<lambda>_ t. se_store t = se_store s \<or> (\<exists>g es. fst (to_endpoints P g) = Inr es \<and> refreshed row es (se_work s) (se_store t))"
  define finish where "finish es now = bindE (gateway_call (to_capacity P)) (\<lambda>capacity. thenE (store_capacity X (tp_id row) capacity)
     (thenE (db_update (update_provider (tp_id row) (mark_refreshed (es \<noteq> []) now)))
     (bindE (getsE (\<lambda>s. to_proof P (w_gateway (se_world s)))) (\<lambda>evidence.
     thenE (store_receipt X (tp_id row) (tp_code row) capacity now evidence)
     (thenE (db_commit X) (retE (int (length es))))))))" for es :: "transport_endpoint_dto list" and now
  have finish: "wpE (finish es now) ?Q ?E t" if "fst (to_endpoints P g) = Inr es" "complete (tp_id row) es s t" for es now g and t :: "'g world session"
    unfolding finish_def
  proof (rule vcg_bind, rule vcg_asked)
    fix c and u :: "'g world session"
    assume "se_work u = se_work t" "se_store u = se_store t"
    with that(2) have u: "complete (tp_id row) es s u" by (simp add: complete_def)
    show "wpE (thenE (store_capacity X (tp_id row) c)
       (thenE (db_update (update_provider (tp_id row) (mark_refreshed (es \<noteq> []) now)))
       (bindE (getsE (\<lambda>s. to_proof P (w_gateway (se_world s)))) (\<lambda>evidence.
       thenE (store_receipt X (tp_id row) (tp_code row) c now evidence)
       (thenE (db_commit X) (retE (int (length es)))))))) ?Q ?E u"
      by (rule vcg_then, rule wp_mono [OF wp_store_capacity], rule wp_mono [OF complete_commit [OF complete_nodes [OF u]]])
        (use u that(1) in \<open>auto simp: same_nodes_def complete_def\<close>)
  qed (use that(2) in \<open>simp add: complete_def\<close>)
  have stored: "wpE (thenE (forE (store_endpoint X (tp_id row)) es) (thenE (db_read X (\<lambda>_. ()))
     (thenE (db_update (retire_nodes (tp_id row) (map te_external_id es))) (finish es now)))) ?Q ?E t"
    if "fst (to_endpoints P g) = Inr es" "se_work t = se_work s" "se_store t = se_store s" for es g now and t :: "'g world session"
  proof -
    have t: "stored (tp_id row) [] (se_work s) (se_work t)" using assms that(2) by (simp add: stored_def last_report_def)
    show ?thesis
    proof (rule vcg_then, rule wp_mono [OF wp_store_endpoints [OF t]])
      fix u :: "'g world session"
      assume "stored (tp_id row) ([] @ es) (se_work s) (se_work u) \<and> se_store u = se_store t"
      then show "wpE (thenE (db_read X (\<lambda>_. ())) (thenE (db_update (retire_nodes (tp_id row) (map te_external_id es))) (finish es now))) ?Q ?E u"
        by (intro vcg finish [OF that(1)]) (auto simp: that stored_inventory complete_def)
    qed (simp add: that)
  qed
  have run: "wpE (thenE (provider_sync X P) (bindE (gateway_call (to_endpoints P)) (\<lambda>es.
     thenE (forE (store_endpoint X (tp_id row)) es) (thenE (db_read X (\<lambda>_. ()))
     (thenE (db_update (retire_nodes (tp_id row) (map te_external_id es))) (finish es now)))))) ?Q ?E t"
    if t: "se_work t = se_work s" "se_store t = se_store s" for now and t :: "'g world session"
  proof (rule vcg_then, rule wp_mono [OF wp_provider_sync])
    fix u :: "'g world session" assume "se_work u = se_work t \<and> se_store u = se_store t"
    then show "wpE (bindE (gateway_call (to_endpoints P)) (\<lambda>es.
       thenE (forE (store_endpoint X (tp_id row)) es) (thenE (db_read X (\<lambda>_. ()))
       (thenE (db_update (retire_nodes (tp_id row) (map te_external_id es))) (finish es now))))) ?Q ?E u"
      by (intro vcg_bind vcg_asked stored) (simp_all add: t)
  qed (simp add: t)
  show ?thesis
    unfolding refresh_provider_inventory_def or_now_def finish_def [symmetric]
    by (intro vcg_bind vcg_option vcg_now vcg_ret run) simp_all
qed

section \<open>Samples\<close>

text \<open>A provider that serves one proxy; SHA-256 keeps the last characters, YAML is read as JSON.\<close>

definition sample_document :: string where
  "sample_document = json_dumps (VMap [(''proxies'', VList [VMap [(''name'', VStr ''a''), (''type'', VStr ''ss''), (''server'', VStr ''h''), (''port'', VInt 1)]])])"

definition sample_transport :: transport_env where
  "sample_transport = \<lparr>tv_sha256 = (\<lambda>s. s), tv_yaml = json_loads,
     tv_fetch = (\<lambda>_ _. Inr \<lparr>su_userinfo = Some ''upload=1; download=6; total=10'', su_text = sample_document, su_content = sample_document\<rparr>),
     tv_write = (\<lambda>_. None)\<rparr>"

definition sample_row :: transport_provider_record where
  "sample_row = \<lparr>tp_id = 3, tp_code = ''sub'', tp_kind = Subscription_Provider, tp_secret_ref = ''url'', tp_status = ProviderOffline,
     tp_enabled = True, tp_quota_bytes = None, tp_used_bytes = None, tp_measured_at = None, tp_last_refresh_at = None, tp_last_health_at = None\<rparr>"

definition sample_node :: "int \<Rightarrow> int \<Rightarrow> string \<Rightarrow> transport_endpoint_record" where
  "sample_node i provider x = \<lparr>tn_id = i, tn_provider_id = provider, tn_external_id = x, tn_name = ''n'', tn_region = ''UNKNOWN'',
     tn_protocol = ''ss'', tn_host = ''h'', tn_port = 1, tn_transport = None, tn_tls_mode = None, tn_auth_secret_ref = [],
     tn_status = ''AVAILABLE'', tn_raw_metadata_json = ''{}''\<rparr>"

definition sample_inventory :: database where
  "sample_inventory = empty_db\<lparr>
     db_secrets := [\<lparr>sc_secret_ref = ''url'', sc_ciphertext = ''xu'', sc_purpose = ''TRANSPORT_SUBSCRIPTION_URL'', sc_revision = 2\<rparr>],
     db_forwarder := empty_forwarder\<lparr>fw_providers := [sample_row], fw_nodes := [sample_node 1 3 ''gone'', sample_node 2 4 ''gone'']\<rparr>\<rparr>"

definition empty_resolver :: transport_resolver where
  "empty_resolver = \<lparr>rs_cache_root = ''/c'', rs_providers = [], rs_codes = [], rs_cache_paths = [], rs_closed_ids = [],
     rs_shutdown_started = False, rs_closed = False\<rparr>"

definition transport_session :: "transport_resolver \<Rightarrow> transport_state world session" where
  "transport_session R = \<lparr>se_work = sample_inventory, se_store = sample_inventory, se_tick = 0, se_lock_held = False,
     se_world = \<lparr>w_locked = False, w_pool = [], w_gateway = \<lparr>ts_resolver = R, ts_files = (\<lambda>_. None)\<rparr>, w_applied = []\<rparr>\<rparr>"

definition sample_resolver :: transport_resolver where
  "sample_resolver = snd (own_provider (descriptor_of sample_row) ''/c/3'' ''u'' 2 empty_resolver)"

section \<open>The property\<close>

text \<open>
  C19. A refresh of an inventory is all or nothing. When it returns n, the provider reported n
  endpoints and the committed rows say exactly that: every reported endpoint has an available row
  with its last report, every other row of the provider is marked as removed, the rows of other
  providers are as before, and the provider is healthy exactly if it reported something. When it
  raises, whatever statement, savepoint, commit or provider call failed, the committed data are
  unchanged or complete in this sense.
\<close>

theorem refresh_is_atomic:
  fixes s :: "'g world session"
  assumes "keyed_nodes (se_work s)"
  shows "case refresh_provider_inventory X row P now s of
      (Inr n, t) \<Rightarrow> \<exists>g es. fst (to_endpoints P g) = Inr es \<and> n = int (length es) \<and> refreshed row es (se_work s) (se_store t)
    | (Inl e, t) \<Rightarrow> se_store t = se_store s \<or>
        (\<exists>g es. fst (to_endpoints P g) = Inr es \<and> refreshed row es (se_work s) (se_store t))"
  using refresh_outcome [OF assms, of X row P now] unfolding wpE_def by (simp add: split_beta sum.case_eq_if)

theorem refresh_is_atomic_witness:
  "\<exists>t es. refresh_provider_inventory quiet_oracle sample_row (subscription_ops sample_transport 3) None (transport_session sample_resolver) = (Inr 1, t) \<and>
     length es = 1 \<and> refreshed sample_row es sample_inventory (se_store t) \<and> map tn_status (nodes (se_store t)) = [''REMOVED'', ''AVAILABLE'', ''AVAILABLE'']"
proof -
  let ?s = "transport_session sample_resolver"
  let ?run = "refresh_provider_inventory quiet_oracle sample_row (subscription_ops sample_transport 3) None ?s"
  have "fst ?run = Inr 1" "map tn_status (nodes (se_store (snd ?run))) = [''REMOVED'', ''AVAILABLE'', ''AVAILABLE'']" by code_simp+
  moreover have "keyed_nodes (se_work ?s)" by code_simp
  note refresh_is_atomic [OF this, where X = quiet_oracle and row = sample_row and P = "subscription_ops sample_transport 3" and now = None]
  moreover have "se_work ?s = sample_inventory" by (simp add: transport_session_def)
  ultimately show ?thesis by (cases ?run) auto
qed

end
