(* ===== verification/Transport_Cache.thy ===== *)
theory Transport_Cache
  imports Scheduler Mihomo_Snapshot Transport_Properties
begin

text \<open>
  The caches of the subscriptions, from the writer to the reader. What a refresh leaves behind, a
  file, a receipt and the revision of the secret, is what the forwarder's snapshot verifies.
\<close>

section \<open>The resolver\<close>

text \<open>Every provider has the cache file, the code and the secret revision of its descriptor.\<close>

definition provider_ok :: "(string \<Rightarrow> string) \<Rightarrow> string \<Rightarrow> int \<times> transport_descriptor \<times> int \<times> subscription_provider \<Rightarrow> bool" where
  "provider_ok sha256 root = (\<lambda>(i, d, r, p). td_record_id d = i \<and>
     sp_cache_path p = Some (descriptor_cache_path sha256 root d) \<and> sp_source_revision p = Some r)"

definition resolver_ok :: "(string \<Rightarrow> string) \<Rightarrow> transport_resolver \<Rightarrow> bool" where
  "resolver_ok sha256 R \<longleftrightarrow> distinct (map fst (rs_providers R)) \<and> list_all (provider_ok sha256 (rs_cache_root R)) (rs_providers R)"

definition cached_as :: "string \<Rightarrow> subscription_provider \<Rightarrow> bool" where
  "cached_as path p \<longleftrightarrow> sp_cache_path p = Some path \<and> sp_source_revision p \<noteq> None"

abbreviation transports :: "'x transport_state_scheme world session \<Rightarrow> 'x transport_state_scheme" where
  "transports s \<equiv> w_gateway (se_world s)"

lemma vcg_require [vcg]: "(b \<Longrightarrow> Q () s) \<Longrightarrow> (\<not> b \<Longrightarrow> E e s) \<Longrightarrow> wpE (liftE (require b e)) Q E s"
  by (cases b) (simp_all add: wp)

lemma vcg_on_committed [vcg]:
  "wpE m (\<lambda>x t. Q x (t\<lparr>se_work := se_work s\<rparr>)) (\<lambda>e t. E e (t\<lparr>se_work := se_work s\<rparr>)) (s\<lparr>se_work := se_store s\<rparr>) \<Longrightarrow> wpE (on_committed m) Q E s"
  by (simp add: wpE_def on_committed_def split: prod.splits sum.splits)

lemma wp_load_url:
  "wpE (load_subscription_url X C ref) (\<lambda>_ t. se_world t = se_world s) (\<lambda>_ t. se_world t = se_world s) s"
  unfolding load_subscription_url_def reveal_secret_snapshot_for_purpose_def by (intro vcg) simp_all

lemma own_provider_ok:
  assumes "resolver_ok sha256 R" "map_of (rs_providers R) (td_record_id d) = None"
    and "own_provider d (descriptor_cache_path sha256 (rs_cache_root R) d) url revision R = (p, R')"
  shows "resolver_ok sha256 R'" "rs_cache_root R' = rs_cache_root R"
    and "map_of (rs_providers R') (td_record_id d) = Some (d, revision, p)"
    and "cached_as (descriptor_cache_path sha256 (rs_cache_root R) d) p"
  using assms map_of_eq_None_iff [THEN iffD1, OF assms(2)]
  by (auto simp: own_provider_def Let_def resolver_ok_def provider_ok_def new_subscription_provider_def map_add_def cached_as_def)

lemma known_provider_ok:
  assumes "resolver_ok sha256 R" "map_of (rs_providers R) (td_record_id d) = Some (d, revision, p)"
  shows "cached_as (descriptor_cache_path sha256 (rs_cache_root R) d) p"
  using assms(1) map_of_SomeD [OF assms(2)] by (auto simp: resolver_ok_def list_all_iff provider_ok_def cached_as_def)

lemma wp_resolve_transport:
  fixes s :: "'w session"
  assumes R: "resolver_ok sha256 R" and load: "\<And>ref s :: 'w session. wpE (load ref) (\<lambda>_ t. se_world t = se_world s) (\<lambda>_ t. se_world t = se_world s) s"
  shows "wpE (resolve_transport sha256 load d R)
    (\<lambda>(p, R') t. se_world t = se_world s \<and> resolver_ok sha256 R' \<and> rs_cache_root R' = rs_cache_root R \<and>
       map_option (snd \<circ> snd) (map_of (rs_providers R') (td_record_id d)) = Some p \<and>
       cached_as (descriptor_cache_path sha256 (rs_cache_root R) d) p)
    (\<lambda>_ t. se_world t = se_world s) s"
    (is "wpE _ ?Q ?E s")
proof (cases "map_of (rs_providers R) (td_record_id d)")
  case None
  show ?thesis
    unfolding resolve_transport_def None option.case Let_def
    by (intro vcg wp_mono [OF load]) (auto simp: wp dest: own_provider_ok [OF R None, OF sym])
next
  case (Some entry)
  have "wpE (known_provider load d R entry) ?Q ?E s"
    unfolding known_provider_def
    by (cases entry; simp only: prod.case; intro vcg wp_mono [OF load])
      (use Some R known_provider_ok [OF R] in \<open>auto simp: wp\<close>)
  then show ?thesis
    unfolding resolve_transport_def Some option.case by (intro vcg) simp_all
qed

lemma wp_resolve_record:
  fixes s :: "'x transport_state_scheme world session"
  assumes "resolver_ok (tv_sha256 (sn_transport N)) (ts_resolver (transports s))"
  shows "wpE (resolve_record N row)
    (\<lambda>P t. P = subscription_ops (sn_transport N) (tp_id row) \<and> resolver_ok (tv_sha256 (sn_transport N)) (ts_resolver (transports t)) \<and>
       (\<exists>p. resolved (tp_id row) (transports t) = Some p \<and>
         cached_as (descriptor_cache_path (tv_sha256 (sn_transport N)) (rs_cache_root (ts_resolver (transports s))) (descriptor_of row)) p) \<and>
       rs_cache_root (ts_resolver (transports t)) = rs_cache_root (ts_resolver (transports s)))
    (\<lambda>_ t. transports t = transports s) s"
  unfolding resolve_record_def
  by (rule vcg_bind, rule vcg_gets, rule vcg_bind, rule wp_mono [OF wp_resolve_transport [OF assms wp_load_url]])
    (auto simp: wp resolved_def descriptor_of_def split: prod.splits)

section \<open>The refresh\<close>

text \<open>What the provider remembers of the file it left.\<close>

definition remembers :: "transport_env \<Rightarrow> int \<Rightarrow> string \<Rightarrow> 'x transport_state_scheme \<Rightarrow> bool" where
  "remembers V i path w \<longleftrightarrow> (\<exists>p content. resolved i w = Some p \<and> ts_files w path = Some content \<and>
     sp_last_content_hash p = Some (tv_sha256 V content) \<and> sp_last_cache_identity p = Some path \<and> sp_source_revision p \<noteq> None)"

definition receipt_matches :: "transport_env \<Rightarrow> int \<Rightarrow> string \<Rightarrow> string \<Rightarrow> cache_files \<Rightarrow> database \<Rightarrow> bool" where
  "receipt_matches V i code path files d \<longleftrightarrow> (\<exists>r content. find_receipt i d = Some r \<and> files path = Some content \<and>
     mz_provider_code r = code \<and> mz_cache_identity r = path \<and> mz_content_hash r = tv_sha256 V content)"

lemma wp_world_store_endpoint: "wpE (store_endpoint X i e) (\<lambda>_ t. se_world t = se_world s) (\<lambda>_ t. se_world t = se_world s) s"
  unfolding store_endpoint_def by (intro vcg) simp_all

lemma wp_world_forE:
  assumes "\<And>x s. wpE (f x) (\<lambda>_ t. se_world t = se_world s) (\<lambda>_ t. se_world t = se_world s) s"
  shows "wpE (forE f xs) (\<lambda>_ t. se_world t = se_world s) (\<lambda>_ t. se_world t = se_world s) s"
proof (induction xs arbitrary: s)
  case (Cons x xs)
  show ?case
    unfolding forE.simps by (rule vcg_then, rule wp_mono [OF assms], rule wp_mono [OF Cons.IH]) simp_all
qed (simp add: wp_ret)

lemma wp_world_store_capacity: "wpE (store_capacity X i c) (\<lambda>_ t. se_world t = se_world s) (\<lambda>_ t. se_world t = se_world s) s"
proof -
  have alert: "wpE (record_capacity_alert X i q u l) (\<lambda>_ t. se_world t = se_world s) (\<lambda>_ t. se_world t = se_world s) s" for q u l and s :: "'w session"
    unfolding record_capacity_alert_def by (cases l; simp only: prod.case; intro vcg) simp_all
  show ?thesis
    unfolding store_capacity_def record_capacity_alerts_def Let_def
    by (intro vcg wp_mono [OF wp_world_forE [OF alert]]) simp_all
qed

lemma map_of_replaced:
  "map_of (map (\<lambda>(j, d, r, p). (j, d, r, if j = i then q else p)) ps) k = map_option (\<lambda>(d, r, p). (d, r, if k = i then q else p)) (map_of ps k)"
  by (induction ps) auto

lemma sync_remembers:
  assumes "resolved i w = Some p" "cached_as path p" "sync_resolved V i n at w = (Inr u, w')"
  shows "remembers V i path w'"
proof -
  obtain q files where q: "sync_nodes V n at (p, ts_files w) = (Inr u, q, files)" "w' = (set_resolved i q w)\<lparr>ts_files := files\<rparr>"
    using assms(1,3) by (auto simp: sync_resolved_def split: prod.splits)
  have path: "sp_cache_path p = Some path" "sp_source_revision p \<noteq> None" using assms(2) by (simp_all add: cached_as_def)
  have "resolved i (set_resolved i q w) = Some q"
    using assms(1) by (auto simp: resolved_def set_resolved_def map_of_replaced)
  moreover obtain content where "files path = Some content" "sp_last_content_hash q = Some (tv_sha256 V content)"
      "sp_last_cache_identity q = Some path" "sp_source_revision q = sp_source_revision p"
    using q(1) path
    by (auto simp: sync_nodes_def write_provider_cache_def publish_def split: sum.splits option.splits prod.splits)
  ultimately show ?thesis using q(2) path(2) by (auto simp: remembers_def resolved_def)
qed

lemma receipt_found: "find_receipt i (put_receipt (find_receipt i d) i code (path, h, r) t d) =
    Some (new_receipt (case find_receipt i d of Some q \<Rightarrow> mz_id q | None \<Rightarrow> next_id mz_id (fw_receipts (db_forwarder d))) i code (path, h, r) t)"
proof (cases "find_receipt i d")
  case None
  then show ?thesis
    by (simp add: find_receipt_def put_receipt_def on_forwarder_def find_append new_receipt_def)
next
  case (Some q)
  have "find (\<lambda>r. mz_owner_record_id r = i) rs = Some q \<Longrightarrow>
      find (\<lambda>r. mz_owner_record_id r = i) (map (\<lambda>x. if mz_id x = mz_id q then new_receipt (mz_id q) i code (path, h, r) t else x) rs) =
      Some (new_receipt (mz_id q) i code (path, h, r) t)" for rs
    by (induction rs) (auto simp: new_receipt_def split: if_splits)
  with Some show ?thesis by (simp add: find_receipt_def put_receipt_def on_forwarder_def)
qed

lemma wp_sync_remembers:
  assumes "resolved i (transports s) = Some p" "cached_as path p"
  shows "wpE (provider_sync X (subscription_ops V i)) (\<lambda>_ t. remembers V i path (transports t)) (\<lambda>_ _. True) s"
  unfolding provider_sync_def
  by (auto simp: wp subscription_ops_def split: prod.split sum.split dest: sync_remembers [OF assms])

lemma wp_ask_resolved:
  assumes "\<And>x. Q x s"
  shows "wpE (gateway_call (with_resolved i f)) Q (\<lambda>_ _. True) s"
  using assms by (auto simp: wp with_resolved_def split: prod.split sum.split option.splits)

lemma remembers_proof:
  assumes "remembers V i path w"
  obtains content r where "ts_files w path = Some content" "to_proof (subscription_ops V i) w = Some (path, tv_sha256 V content, r)"
  using assms by (auto simp: remembers_def subscription_ops_def materialization_proof_def)

lemma wp_store_receipt:
  assumes "files path = Some content" "h = tv_sha256 V content"
  shows "wpE (store_receipt X i code capacity now (Some (path, h, r)))
    (\<lambda>_ t. receipt_matches V i code path files (se_work t) \<and> se_world t = se_world s) (\<lambda>_ _. True) s"
  unfolding store_receipt_def
  by (auto simp: wp receipt_found receipt_matches_def new_receipt_def assms split: option.split)

lemma wp_finish_receipt:
  assumes "remembers V i path (transports s)"
  shows "wpE (bindE (getsE (\<lambda>s. to_proof (subscription_ops V i) (w_gateway (se_world s)))) (\<lambda>evidence.
     thenE (store_receipt X i code capacity now evidence) (thenE (db_commit X) (retE n))))
    (\<lambda>_ t. receipt_matches V i code path (ts_files (transports t)) (se_store t)) (\<lambda>_ _. True) s"
proof -
  obtain content r where r: "ts_files (transports s) path = Some content"
    "to_proof (subscription_ops V i) (transports s) = Some (path, tv_sha256 V content, r)"
    by (rule remembers_proof [OF assms])
  show ?thesis
    by (rule vcg_bind, rule vcg_gets, rule vcg_then, subst r(2), rule wp_mono [OF wp_store_receipt [of "ts_files (transports s)", OF r(1) refl]])
      (auto intro!: vcg)
qed

lemma refresh_leaves_receipt:
  fixes s :: "'x transport_state_scheme world session"
  assumes "resolved i (transports s) = Some p" "cached_as path p" "tp_id row = i"
  shows "wpE (refresh_provider_inventory X row (subscription_ops V i) now)
    (\<lambda>_ t. receipt_matches V i (tp_code row) path (ts_files (transports t)) (se_store t)) (\<lambda>_ _. True) s"
proof -
  let ?M = "\<lambda>t :: 'x transport_state_scheme world session. remembers V i path (transports t)"
  have ask: "to_endpoints (subscription_ops V i) = with_resolved i sp_endpoints"
    "to_capacity (subscription_ops V i) = with_resolved i sp_capacity" for V :: transport_env by (simp_all add: subscription_ops_def)
  have store: "wpE (forE (store_endpoint X i) es) (\<lambda>_. ?M) (\<lambda>_ _. True) t" if "?M t" for es t
    by (rule wp_mono [OF wp_world_forE [OF wp_world_store_endpoint]]) (simp_all add: that)
  have cap: "wpE (store_capacity X i c) (\<lambda>_. ?M) (\<lambda>_ _. True) t" if "?M t" for c t
    by (rule wp_mono [OF wp_world_store_capacity]) (simp_all add: that)
  have start: "wpE (provider_sync X (subscription_ops V i)) (\<lambda>_. ?M) (\<lambda>_ _. True) t" if "transports t = transports s" for t
    by (rule wp_sync_remembers [OF _ assms(2)]) (simp add: that assms(1))
  show ?thesis
    unfolding refresh_provider_inventory_def or_now_def assms(3) ask
    by (intro vcg_bind vcg_option vcg_now vcg_ret vcg_then wp_mono [OF start] wp_ask_resolved wp_mono [OF store] vcg_read vcg_update
        wp_mono [OF cap] wp_finish_receipt) simp_all
qed

section \<open>The reader\<close>

lemma verify_accepts:
  assumes "receipt_matches V i code path files (se_work u)" "sv_sha256 E = tv_sha256 V" "sv_read E = (\<lambda>_. files)"
  shows "\<exists>r. find_receipt i (se_work u) = Some r \<and> wpE (verify_materialization X E i path code (mz_source_revision r))
    (\<lambda>v _. files path = Some (vm_content v))
    (\<lambda>e _. e = materialization_error ''MIHOMO_MATERIALIZATION_EXPIRED'' \<or> (\<exists>n. do_statement X n = Some e)) u"
  using assms
  by (auto simp: receipt_matches_def find_receipt_def verify_materialization_def wp verified_of_def split: option.splits)

section \<open>The resolver stays sound\<close>

lemma sync_nodes_keeps:
  assumes "sync_nodes V n at (p, files) = (r, q, files')"
  shows "sp_cache_path q = sp_cache_path p" "sp_source_revision q = sp_source_revision p"
  using assms by (auto simp: sync_nodes_def publish_def write_provider_cache_def split: sum.splits option.splits prod.splits)

lemma fst_replaced: "fst \<circ> (\<lambda>(j, d, r, z). (j, d, r, if j = i then q else z)) = fst"
  by auto

lemma sync_resolved_ok:
  assumes "resolver_ok sha256 (ts_resolver w)" "sync_resolved V i n at w = (r, w')"
  shows "resolver_ok sha256 (ts_resolver w')"
proof (cases "resolved i w")
  case (Some p)
  then obtain q files where q: "sync_nodes V n at (p, ts_files w) = (r, q, files)" "w' = (set_resolved i q w)\<lparr>ts_files := files\<rparr>"
    using assms(2) by (auto simp: sync_resolved_def split: prod.splits)
  let ?ok = "provider_ok sha256 (rs_cache_root (ts_resolver w))"
  obtain d rev where known: "map_of (rs_providers (ts_resolver w)) i = Some (d, rev, p)"
    using Some by (auto simp: resolved_def)
  have dist: "distinct (map fst (rs_providers (ts_resolver w)))" and all: "\<And>x. x \<in> set (rs_providers (ts_resolver w)) \<Longrightarrow> ?ok x"
    using assms(1) by (auto simp: resolver_ok_def list_all_iff)
  have "?ok (j, e, k, if j = i then q else z)" if "(j, e, k, z) \<in> set (rs_providers (ts_resolver w))" for j e k z
  proof (cases "j = i")
    case True
    with that dist known have "z = p" by (metis map_of_is_SomeI option.inject prod.inject)
    with True all [OF that] sync_nodes_keeps [OF q(1)] show ?thesis by (simp add: provider_ok_def)
  next
    case False
    with all [OF that] show ?thesis by simp
  qed
  then show ?thesis using dist q(2) by (auto simp: resolver_ok_def list_all_iff set_resolved_def fst_replaced)
qed (use assms in \<open>simp add: sync_resolved_def\<close>)

definition resolver_sound :: "scheduler_env \<Rightarrow> 'x transport_state_scheme world session \<Rightarrow> bool" where
  "resolver_sound N s \<longleftrightarrow> resolver_ok (tv_sha256 (sn_transport N)) (ts_resolver (transports s))"

lemma refresh_keeps_resolver:
  fixes s :: "'x transport_state_scheme world session"
  assumes "resolver_sound N s"
  shows "wpE (refresh_provider_inventory X row (subscription_ops V i) now) (\<lambda>_. resolver_sound N) (\<lambda>_. resolver_sound N) s"
proof -
  have frame: "wpE m Q (\<lambda>_. resolver_sound N) t" if "wpE m (\<lambda>_ u. se_world u = se_world t) (\<lambda>_ u. se_world u = se_world t) t"
    "resolver_sound N t" "\<And>x u. resolver_sound N u \<Longrightarrow> Q x u" for m :: "('x transport_state_scheme, 'c) gdb" and Q t
    using that(2,3) by (intro wp_mono [OF that(1)]) (auto simp: resolver_sound_def)
  have start: "wpE (provider_sync X (subscription_ops V i)) (\<lambda>_. resolver_sound N) (\<lambda>_. resolver_sound N) t" if "resolver_sound N t" for t
    using that unfolding provider_sync_def
    by (auto simp: wp subscription_ops_def resolver_sound_def split: prod.split sum.split intro: sync_resolved_ok)
  have ask: "wpE (gateway_call (with_resolved i f)) Q (\<lambda>_. resolver_sound N) t" if "resolver_sound N t" "\<And>x. Q x t"
    for f :: "subscription_provider \<Rightarrow> 'c" and Q t
    using that by (auto simp: wp with_resolved_def resolver_sound_def split: prod.split sum.split option.splits)
  have same: "resolver_sound N (ticked t) = resolver_sound N t" "resolver_sound N (t\<lparr>se_work := d\<rparr>) = resolver_sound N t"
    "resolver_sound N (t\<lparr>se_store := d\<rparr>) = resolver_sound N t" for t d by (simp_all add: resolver_sound_def)
  have ops: "to_endpoints (subscription_ops V i) = with_resolved i sp_endpoints"
    "to_capacity (subscription_ops V i) = with_resolved i sp_capacity" for V :: transport_env by (simp_all add: subscription_ops_def)
  show ?thesis
    unfolding refresh_provider_inventory_def or_now_def ops store_receipt_def
    by (intro vcg_bind vcg_option vcg_now vcg_ret vcg_then wp_mono [OF start] ask frame [OF wp_world_forE [OF wp_world_store_endpoint]]
        frame [OF wp_world_store_capacity] vcg_read vcg_update vcg_gets vcg_commit) (simp_all add: assms same)
qed

lemma sync_record_keeps_resolver:
  assumes "resolver_sound N s" "sr_subscription_mode G"
  shows "wpE (sync_record N G row) (\<lambda>_. resolver_sound N) (\<lambda>_. resolver_sound N) s"
proof -
  have "wpE (resolve_record N row) (\<lambda>P t. P = subscription_ops (sn_transport N) (tp_id row) \<and> resolver_sound N t) (\<lambda>_. resolver_sound N) s"
    using assms(1) unfolding resolver_sound_def by (intro wp_mono [OF wp_resolve_record]) auto
  then show ?thesis
    unfolding sync_record_def record_provider_def using assms
    by (auto simp: wp intro!: vcg_bind elim!: wp_mono intro: refresh_keeps_resolver)
qed

section \<open>From the writer to the reader\<close>

lemma sync_record_leaves:
  fixes s :: "'x transport_state_scheme world session"
  assumes "resolver_sound N s" "sr_subscription_mode G"
    and "path = descriptor_cache_path (tv_sha256 (sn_transport N)) (rs_cache_root (ts_resolver (transports s))) (descriptor_of row)"
  shows "wpE (sync_record N G row)
    (\<lambda>_ t. receipt_matches (sn_transport N) (tp_id row) (tp_code row) path (ts_files (transports t)) (se_store t)) (\<lambda>_ _. True) s"
proof -
  have "wpE (resolve_record N row) (\<lambda>P t. P = subscription_ops (sn_transport N) (tp_id row) \<and>
      (\<exists>p. resolved (tp_id row) (transports t) = Some p \<and> cached_as path p)) (\<lambda>_ _. True) s"
    using assms unfolding resolver_sound_def by (intro wp_mono [OF wp_resolve_record]) auto
  then show ?thesis
    unfolding sync_record_def record_provider_def using assms
    by (auto simp: wp intro!: vcg_bind elim!: wp_mono intro: refresh_leaves_receipt)
qed

text \<open>
  C20. What the scheduler leaves of a subscription is what the forwarder accepts. After a successful
  synchronisation of a provider, the receipt it committed verifies against the cache file at the path
  the forwarder computes, and yields the bytes of the file; while the file stays as it is, only the
  end of its freshness or a failing statement makes the verification refuse it.
\<close>

theorem synced_cache_verifies:
  fixes s t :: "'x transport_state_scheme world session" and u :: "'w session"
  assumes "resolver_sound N s" "sr_subscription_mode G" "sync_record N G row s = (Inr n, t)"
    and "sv_sha256 E = tv_sha256 (sn_transport N)" "sv_cache_root E = rs_cache_root (ts_resolver (w_gateway (se_world s)))"
    and "sv_read E = (\<lambda>_. ts_files (w_gateway (se_world t)))" "se_work u = se_store t"
  shows "\<exists>r. find_receipt (tp_id row) (se_store t) = Some r \<and>
    wpE (verify_materialization X E (tp_id row) (cache_path E row) (tp_code row) (mz_source_revision r))
      (\<lambda>v _. ts_files (w_gateway (se_world t)) (cache_path E row) = Some (vm_content v))
      (\<lambda>e _. e = materialization_error ''MIHOMO_MATERIALIZATION_EXPIRED'' \<or> (\<exists>n. do_statement X n = Some e)) u"
proof -
  have path: "cache_path E row = descriptor_cache_path (tv_sha256 (sn_transport N)) (rs_cache_root (ts_resolver (w_gateway (se_world s)))) (descriptor_of row)"
    by (simp add: cache_path_def assms)
  have "receipt_matches (sn_transport N) (tp_id row) (tp_code row) (cache_path E row) (ts_files (w_gateway (se_world t))) (se_work u)"
    using sync_record_leaves [OF assms(1,2) path] assms(3,7) by (simp add: wp_run)
  from verify_accepts [OF this assms(4,6), of X] show ?thesis
    using assms(7) by simp
qed

definition sample_scheduler :: scheduler_env where
  "sample_scheduler = \<lparr>sn_database = quiet_oracle, sn_lock = quiet_lock, sn_secrets = plain_cipher, sn_transport = sample_transport,
     sn_gateway_file = True, sn_grace_hours = 72, sn_batch_size = 2\<rparr>"

definition sample_registry :: "'g scheduler_registry" where
  "sample_registry = \<lparr>sr_subscription_mode = True, sr_has_resolver = True, sr_transport = None,
     sr_accounting = \<lparr>ac_get_usage = (\<lambda>_ g. (Inr \<lparr>us_tenant_id = [], us_used_gb = dec_of_int 0, us_measured_at = 0, us_used_bytes = 110, us_status = []\<rparr>, g)),
       ac_set_quota = (\<lambda>_ _ g. (Inr (), g)), ac_set_expire = (\<lambda>_ _ g. (Inr (), g))\<rparr>,
     sr_gateway = None, sr_list_endpoints = (\<lambda>g. (Inr [], g))\<rparr>"

definition reader_env :: "cache_files \<Rightarrow> snapshot_env" where
  "reader_env files = \<lparr>sv_cache_root = ''/c'', sv_external_controller = [], sv_sha256 = (\<lambda>s. s), sv_yaml = json_loads, sv_read = (\<lambda>_. files)\<rparr>"

theorem synced_cache_verifies_witness:
  "\<exists>t r v. sync_record sample_scheduler sample_registry sample_row (transport_session empty_resolver) = (Inr 1, t) \<and>
     find_receipt 3 (se_store t) = Some r \<and>
     (let E = reader_env (ts_files (w_gateway (se_world t))) in
      fst (verify_materialization quiet_oracle E 3 (cache_path E sample_row) ''sub'' (mz_source_revision r) (t\<lparr>se_work := se_store t, se_tick := 0\<rparr>)) = Inr v \<and>
      ts_files (w_gateway (se_world t)) (cache_path E sample_row) = Some (vm_content v))"
proof -
  let ?s = "transport_session empty_resolver"
  let ?run = "sync_record sample_scheduler sample_registry sample_row ?s"
  let ?t = "snd ?run"
  let ?E = "reader_env (ts_files (w_gateway (se_world ?t)))"
  let ?u = "?t\<lparr>se_work := se_store ?t, se_tick := 0\<rparr>"
  have "fst ?run = Inr 1" by code_simp
  then have run: "?run = (Inr 1, ?t)" by (metis prod.collapse)
  have sound: "resolver_sound sample_scheduler ?s" by code_simp
  obtain r where r: "find_receipt 3 (se_store ?t) = Some r"
    and verified: "wpE (verify_materialization quiet_oracle ?E 3 (cache_path ?E sample_row) ''sub'' (mz_source_revision r))
      (\<lambda>v _. ts_files (w_gateway (se_world ?t)) (cache_path ?E sample_row) = Some (vm_content v))
      (\<lambda>e _. e = materialization_error ''MIHOMO_MATERIALIZATION_EXPIRED'' \<or> (\<exists>n. do_statement quiet_oracle n = Some e)) ?u"
    using synced_cache_verifies [OF sound _ run, where E = ?E and u = ?u and X = quiet_oracle]
    by (auto simp: reader_env_def sample_registry_def sample_scheduler_def sample_transport_def transport_session_def
        empty_resolver_def sample_row_def)
  have "case find_receipt 3 (se_store ?t) of None \<Rightarrow> False | Some r \<Rightarrow>
      \<not> isl (fst (verify_materialization quiet_oracle ?E 3 (cache_path ?E sample_row) ''sub'' (mz_source_revision r) ?u))" by code_simp
  with r obtain v where v: "fst (verify_materialization quiet_oracle ?E 3 (cache_path ?E sample_row) ''sub'' (mz_source_revision r) ?u) = Inr v"
    by (auto simp: isl_def) (metis sum.exhaust)
  from verified v have "ts_files (w_gateway (se_world ?t)) (cache_path ?E sample_row) = Some (vm_content v)"
    by (auto simp: wpE_def split: prod.splits sum.splits)
  with run r v show ?thesis unfolding Let_def by blast
qed

end
