(* ===== verification/Scheduler_Properties.thy ===== *)
theory Scheduler_Properties
  imports Scheduler Usage_Properties Transport_Cache
begin

text \<open>
  A batch of the scheduler and the usage ledger: every part of a batch, and so the batch, keeps the
  committed ledger balanced, whatever the providers answer and whatever statement or commit fails.
\<close>

lemma forwarder_keeps_ledger [simp]: "ledger_ok (on_forwarder f d) = ledger_ok d"
  by (simp add: ledger_ok_def recorded_def on_forwarder_def)

lemma ledger_frames [simp]:
  "ledger_ok (update_provider i f d) = ledger_ok d" "ledger_ok (add_node j e d) = ledger_ok d"
  "ledger_ok (update_node j g d) = ledger_ok d" "ledger_ok (retire_nodes i xs d) = ledger_ok d"
  "ledger_ok (add_capacity_alert a d) = ledger_ok d" "ledger_ok (put_receipt r i c p t d) = ledger_ok d"
  by (simp_all add: update_provider_def add_node_def update_node_def retire_nodes_def add_capacity_alert_def put_receipt_def)

section \<open>The transports\<close>

text \<open>Between the parts of a batch the lock is free, and the working copy and the store balance.\<close>

abbreviation steady :: "('g, 'a) gdb \<Rightarrow> bool" where
  "steady m \<equiv> (\<forall>s. ledger.inv False s \<longrightarrow> wpE m (\<lambda>_. ledger.inv False) (\<lambda>_. ledger.inv False) s)"

lemma steadyD: "steady m \<Longrightarrow> ledger.inv False s \<Longrightarrow> (\<And>x t. ledger.inv False t \<Longrightarrow> Q x t) \<Longrightarrow>
    (\<And>e t. ledger.inv False t \<Longrightarrow> E e t) \<Longrightarrow> wpE m Q E s"
  using wp_mono [of m "\<lambda>_. ledger.inv False" "\<lambda>_. ledger.inv False" s Q E] by auto

lemma inv_simps:
  "ledger.inv l (ticked s) = ledger.inv l s" "ledger.inv l (s\<lparr>se_world := (se_world s)\<lparr>w_gateway := g\<rparr>\<rparr>) = ledger.inv l s"
  by (simp_all add: ledger.inv_def)

lemma steady_for: "(\<And>x. steady (f x)) \<Longrightarrow> steady (forE f xs)"
proof (induction xs)
  case (Cons x xs)
  have "steady (forE f xs)" by (rule Cons.IH [OF Cons.prems])
  with Cons.prems [of x] show ?case by (auto intro!: vcg_then elim!: steadyD)
qed (simp add: wp_ret)

lemma steady_inventory:
  "steady (store_endpoint X i e)" "steady (record_capacity_alert X i q u l)"
  "steady (store_receipt X i c k now p)"
  unfolding store_endpoint_def record_capacity_alert_def store_receipt_def
  by (cases l; intro allI impI vcg; simp add: ledger.inv_def)+

lemma steady_provider_sync: "steady (provider_sync X P)"
  by (auto simp: provider_sync_def wp ledger.inv_def split: prod.split sum.split)

lemma steady_capacity: "steady (store_capacity X i c)"
  unfolding store_capacity_def record_capacity_alerts_def Let_def
  by (intro allI impI vcg steadyD [OF steady_for [OF steady_inventory(2)]]) (simp_all add: ledger.inv_def)

lemma steady_refresh: "steady (refresh_provider_inventory X row P now)"
  unfolding refresh_provider_inventory_def or_now_def
  by (intro allI impI vcg_bind vcg_option vcg_now vcg_ret vcg_then vcg_gets vcg_read vcg_update vcg_commit vcg_gateway_call
      steadyD [OF steady_for [OF steady_inventory(1)]] steadyD [OF steady_inventory(3)] steadyD [OF steady_provider_sync]
      steadyD [OF steady_capacity]) (simp_all add: ledger.inv_def)

lemma steady_load: "steady (load_subscription_url X C ref)"
  unfolding load_subscription_url_def reveal_secret_snapshot_for_purpose_def
  by (intro allI impI vcg) (simp_all add: ledger.inv_def)

lemma steady_resolve_transport:
  assumes "\<And>ref. steady (load ref)"
  shows "steady (resolve_transport sha256 load d R)"
proof -
  have "steady (known_provider load d R entry)" for entry
    unfolding known_provider_def
    by (cases entry; simp only: prod.case; intro allI impI vcg steadyD [OF assms]) (auto simp: wp)
  then have known: "ledger.inv False s \<Longrightarrow> wpE (known_provider load d R entry) (\<lambda>_. ledger.inv False) (\<lambda>_. ledger.inv False) s" for entry s by blast
  show ?thesis
    unfolding resolve_transport_def Let_def
    by (intro allI impI vcg known steadyD [OF assms]) (auto simp: wp)
qed

lemma steady_provider: "steady (record_provider N G row)"
  unfolding record_provider_def resolve_record_def
  by (intro allI impI vcg steadyD [OF steady_resolve_transport [OF steady_load]]) (auto simp: ledger.inv_def wp split: prod.split)

lemma steady_sync_record: "steady (sync_record N G row)"
  unfolding sync_record_def
  by (intro allI impI vcg steadyD [OF steady_provider] steadyD [OF steady_refresh]) simp_all

lemma steady_sync_failed: "steady (sync_failed X i)"
  unfolding sync_failed_def by (intro allI impI vcg) (simp_all add: ledger.inv_def)

lemma steady_sync_records: "steady (sync_records N G rows n)"
proof (induction rows arbitrary: n)
  case (Cons row rows)
  show ?case
    unfolding sync_records.simps
    by (intro allI impI vcg steadyD [OF steady_sync_record] steadyD [OF steady_sync_failed] steadyD [OF Cons.IH]) simp_all
qed (simp add: wp_ret)

lemma steady_sync: "steady (sync_transport_capacity_and_inventory N G)"
  unfolding sync_transport_capacity_and_inventory_def
  by (intro allI impI vcg steadyD [OF steady_sync_records]) (simp_all add: inv_simps)

section \<open>The rest of the batch\<close>

lemma steady_reconcile: "steady (run_pending_reconcile X A limit)"
proof -
  have each: "steady (reconcile_each X A subs n)" for subs n
  proof (induction subs arbitrary: n)
    case (Cons sub subs)
    show ?case
      unfolding reconcile_each.simps
      by (intro allI impI vcg ledger.keepsD [OF reconcile_keeps] steadyD [OF Cons.IH]) simp_all
  qed (simp add: wp_ret)
  show ?thesis
    unfolding run_pending_reconcile_def by (intro allI impI vcg steadyD [OF each]) (simp_all add: inv_simps)
qed

lemma steady_repair: "steady (reconcile_usage_period_cache X)"
proof -
  have period: "steady (repair_period X i)" for i
    unfolding repair_period_def
    by (intro allI impI vcg) (auto simp: ledger.inv_def dest: ledger_ok_total)
  have each: "steady (repair_each X is n)" for "is" n
  proof (induction "is" arbitrary: n)
    case (Cons i "is")
    show ?case
      unfolding repair_each.simps by (intro allI impI vcg steadyD [OF period] steadyD [OF Cons.IH]) simp_all
  qed (simp add: wp_ret)
  show ?thesis
    unfolding reconcile_usage_period_cache_def by (intro allI impI vcg steadyD [OF each]) (simp_all add: ledger.inv_def)
qed

lemma jobs_keep:
  "ledger.inv False s \<Longrightarrow> wpE (run_usage_jobs X L A G grace k n) (\<lambda>_. ledger.inv False) (\<lambda>_. balanced) s"
proof (induction k arbitrary: n s)
  case (Suc k)
  show ?case
    unfolding run_usage_jobs.simps
    by (rule vcg_bind, rule wp_mono [OF run_next_keeps [OF Suc.prems]]) (auto intro!: vcg Suc.IH)
qed (simp add: wp_ret)

lemma steady_poll: "steady (usage_requires_fast_poll X A)"
proof -
  have each: "steady (any_near_quota X A subs)" for subs
  proof (induction subs)
    case (Cons sub subs)
    obtain user i where sub: "sub = (user, i)" by (cases sub)
    show ?case
    proof (cases i)
      case None
      with Cons.IH sub show ?thesis by simp
    next
      case (Some k)
      show ?thesis
        unfolding sub Some any_near_quota.simps
        by (intro allI impI vcg steadyD [OF Cons.IH]) (simp_all add: ledger.inv_def)
    qed
  qed (simp add: wp_ret)
  show ?thesis
    unfolding usage_requires_fast_poll_def by (intro allI impI vcg steadyD [OF each]) (simp_all add: inv_simps)
qed

lemma steady_drift: "steady (check_egress_drift X list_endpoints)"
proof -
  have audits: "ledger_ok (fold (\<lambda>f. add_audit (drift_audit f)) fs d) = ledger_ok d" for fs d
    by (induction fs arbitrary: d) simp_all
  show ?thesis
    unfolding check_egress_drift_def Let_def
    by (intro allI impI vcg) (simp_all add: ledger.inv_def audits)
qed

lemma batch_keeps:
  assumes "ledger.inv False s"
  shows "wpE (run_batch N G) (\<lambda>_. balanced) (\<lambda>_. balanced) s"
  unfolding run_batch_def Let_def
  by (intro vcg steadyD [OF steady_sync] steadyD [OF steady_reconcile] steadyD [OF steady_repair] wp_mono [OF jobs_keep]
      steadyD [OF steady_poll] steadyD [OF steady_drift]) (auto simp: assms intro: inv_balanced)

text \<open>
  C6. A batch of the scheduler keeps the usage ledger. When the committed total of every period is
  the sum of its deltas, then so it is after a whole batch: the synchronisation of the transports, the
  pending reconciliations of accounts, the repair of the totals, the usage jobs with their rollovers and
  releases, the poll of the counters and the check for drift, whatever statement, commit, rollback,
  provider call or lock call fails and wherever the batch stops.
\<close>

theorem scheduler_batch_keeps_ledger:
  fixes s :: "'x transport_state_scheme world session"
  assumes "ledger_ok (se_store s)" and "se_work s = se_store s" and "\<not> w_locked (se_world s)"
  shows "ledger_ok (se_store (snd (run_batch N G s)))"
  using batch_keeps [of s N G] assms
  by (auto simp: wpE_def balanced_def ledger.inv_def split: prod.splits sum.splits)

text \<open>A batch in which the transport cannot be resolved.\<close>

definition batch_db :: database where
  "batch_db = (usage_db 40)\<lparr>db_forwarder := empty_forwarder\<lparr>fw_providers := [sample_row]\<rparr>\<rparr>"

definition batch_session :: "transport_state world session" where
  "batch_session = (transport_session empty_resolver)\<lparr>se_work := batch_db, se_store := batch_db\<rparr>"

definition offline_registry :: "transport_state scheduler_registry" where
  "offline_registry = sample_registry\<lparr>sr_has_resolver := False\<rparr>"

theorem scheduler_batch_keeps_ledger_witness:
  "\<exists>r t. run_batch sample_scheduler offline_registry batch_session = (Inr r, t) \<and> bt_transport_records r = 0 \<and> bt_usage_jobs r = 1 \<and>
     map_option up_used_bytes (get_period (se_store t) 1) = Some 110 \<and> ledger_ok (se_store t)"
proof -
  let ?run = "run_batch sample_scheduler offline_registry batch_session"
  have "map_sum id (\<lambda>r. (bt_transport_records r, bt_usage_jobs r)) (fst ?run) = Inr (0, 1)"
    "map_option up_used_bytes (get_period (se_store (snd ?run)) 1) = Some 110" by code_simp+
  moreover have "ledger_ok (se_store batch_session)" "se_work batch_session = se_store batch_session"
    "\<not> w_locked (se_world batch_session)" by code_simp+
  note scheduler_batch_keeps_ledger [OF this, of sample_scheduler offline_registry]
  ultimately show ?thesis by (cases ?run; cases "fst ?run") auto
qed

end
